(* ===== verification/Prelude.thy ===== *)
theory Prelude
  imports Main "HOL-Library.Word" "HOL-Library.Char_ord" "HOL-Library.List_Lexorder"
begin

text \<open>
  Shared vocabulary of the development: the machine integers and byte strings of the Rust
  sources, the result type with its sequencing combinators, the standard-library operations on
  integers (\<open>saturating_add\<close>, \<open>saturating_sub\<close>, \<open>checked_add\<close>), on strings (\<open>trim\<close>,
  \<open>contains\<close>, \<open>strip_prefix\<close>, \<open>lines\<close>, \<open>from_utf8\<close>) and on big-endian byte arrays
  (\<open>to_be_bytes\<close>, \<open>from_be_bytes\<close>), together with the facts about them that the component
  theories use.  A Rust \<open>String\<close> is its UTF-8 byte sequence: a \<^typ>\<open>char\<close> is one byte, and
  \<^const>\<open>length\<close> is Rust's \<open>len()\<close>.  A \<open>usize\<close> is a \<^typ>\<open>nat\<close> where it is a length or a
  count of values held in memory.
\<close>

section \<open>Types\<close>

type_synonym u8 = "8 word"
type_synonym u16 = "16 word"
type_synonym u32 = "32 word"
type_synonym u64 = "64 word"
type_synonym bytes = "u8 list"

named_theorems op_defs \<open>definitions of the operations of the components\<close>
named_theorems step_defs \<open>definitions of transition functions\<close>

section \<open>Results\<close>

text \<open>\<open>Result<T, E>\<close> is \<^typ>\<open>'e + 'a\<close>, with \<^const>\<open>Inl\<close> for \<open>Err\<close>.  The question-mark
  operator is \<open>bind_r\<close>.\<close>

definition bind_r :: "'e + 'a \<Rightarrow> ('a \<Rightarrow> 'e + 'b) \<Rightarrow> 'e + 'b" where
  "bind_r m f = (case m of Inl e \<Rightarrow> Inl e | Inr x \<Rightarrow> f x)"

definition map_err :: "('e \<Rightarrow> 'f) \<Rightarrow> 'e + 'a \<Rightarrow> 'f + 'a" where
  "map_err f m = (case m of Inl e \<Rightarrow> Inl (f e) | Inr x \<Rightarrow> Inr x)"

definition ok_or :: "'e \<Rightarrow> 'a option \<Rightarrow> 'e + 'a" where
  "ok_or e m = (case m of None \<Rightarrow> Inl e | Some x \<Rightarrow> Inr x)"

definition ensure :: "bool \<Rightarrow> 'e \<Rightarrow> 'e + unit" where
  "ensure c e = (if c then Inr () else Inl e)"

definition is_ok :: "'e + 'a \<Rightarrow> bool" where
  "is_ok m = (case m of Inl _ \<Rightarrow> False | Inr _ \<Rightarrow> True)"

fun traverse_r :: "('a \<Rightarrow> 'e + 'b) \<Rightarrow> 'a list \<Rightarrow> 'e + 'b list" where
  "traverse_r f [] = Inr []"
| "traverse_r f (x # xs) =
     bind_r (f x) (\<lambda>y. bind_r (traverse_r f xs) (\<lambda>ys. Inr (y # ys)))"

lemma bind_r_simps [simp]:
  "bind_r (Inl e) f = Inl e"
  "bind_r (Inr x) f = f x"
  by (simp_all add: bind_r_def)

lemma bind_r_Inr_iff: "bind_r m f = Inr y \<longleftrightarrow> (\<exists>x. m = Inr x \<and> f x = Inr y)"
  by (cases m) auto

lemma bind_r_Inl_iff:
  "bind_r m f = Inl e \<longleftrightarrow> m = Inl e \<or> (\<exists>x. m = Inr x \<and> f x = Inl e)"
  by (cases m) auto

lemma map_err_simps [simp]:
  "map_err f (Inl e) = Inl (f e)"
  "map_err f (Inr x) = Inr x"
  by (simp_all add: map_err_def)

lemma map_err_Inr_iff [simp]: "map_err f m = Inr x \<longleftrightarrow> m = Inr x"
  by (cases m) auto

lemma map_err_Inl_iff: "map_err f m = Inl e \<longleftrightarrow> (\<exists>d. m = Inl d \<and> e = f d)"
  by (cases m) auto

lemma ok_or_simps [simp]:
  "ok_or e None = Inl e"
  "ok_or e (Some x) = Inr x"
  by (simp_all add: ok_or_def)

lemma ok_or_Inr_iff [simp]: "ok_or e m = Inr x \<longleftrightarrow> m = Some x"
  by (cases m) auto

lemma ok_or_Inl_iff [simp]: "ok_or e m = Inl d \<longleftrightarrow> m = None \<and> d = e"
  by (cases m) auto

lemma ensure_Inr_iff [simp]: "ensure c e = Inr u \<longleftrightarrow> c"
  by (simp add: ensure_def)

lemma ensure_Inl_iff [simp]: "ensure c e = Inl d \<longleftrightarrow> \<not> c \<and> d = e"
  by (auto simp: ensure_def)

lemma ensure_True [simp]: "ensure True e = Inr ()"
  by (simp add: ensure_def)

lemma ensure_False [simp]: "ensure False e = Inl e"
  by (simp add: ensure_def)

lemma is_ok_simps [simp]: "is_ok (Inl e) = False" "is_ok (Inr x) = True"
  by (simp_all add: is_ok_def)

lemma is_ok_iff: "is_ok m \<longleftrightarrow> (\<exists>x. m = Inr x)"
  by (cases m) auto

lemma traverse_r_length: "traverse_r f xs = Inr ys \<Longrightarrow> length ys = length xs"
  by (induction xs arbitrary: ys) (auto simp: bind_r_Inr_iff)

lemma traverse_r_iff:
  "traverse_r f xs = Inr ys \<longleftrightarrow> list_all2 (\<lambda>x y. f x = Inr y) xs ys"
  by (induction xs arbitrary: ys) (auto simp: bind_r_Inr_iff list_all2_Cons1)

lemmas result_iffs = bind_r_Inr_iff bind_r_Inl_iff map_err_Inl_iff

section \<open>Machine arithmetic\<close>

definition sat_add :: "'w::len word \<Rightarrow> 'w word \<Rightarrow> 'w word" where
  "sat_add a b = (if unat a + unat b < 2 ^ LENGTH('w) then a + b else - 1)"

definition sat_sub :: "'w::len word \<Rightarrow> 'w word \<Rightarrow> 'w word" where
  "sat_sub a b = (if a \<le> b then 0 else a - b)"

definition checked_add :: "'w::len word \<Rightarrow> 'w word \<Rightarrow> 'w word option" where
  "checked_add a b = (if unat a + unat b < 2 ^ LENGTH('w) then Some (a + b) else None)"

lemma unat_max_word: "unat (- 1 :: 'w::len word) = 2 ^ LENGTH('w) - 1"
  by (simp add: unsigned_minus_1_eq_mask mask_eq_exp_minus_1)

lemma unat_add_no_wrap:
  fixes a b :: "'w::len word"
  shows "unat a + unat b < 2 ^ LENGTH('w) \<Longrightarrow> unat (a + b) = unat a + unat b"
  by (simp add: unat_word_ariths)

lemma unat_sat_add:
  fixes a b :: "'w::len word"
  shows "unat (sat_add a b) = min (unat a + unat b) (2 ^ LENGTH('w) - 1)"
  by (auto simp: sat_add_def unat_add_no_wrap unat_max_word min_def)

lemma unat_sat_sub: "unat (sat_sub a b) = unat a - unat b"
  by (auto simp: sat_sub_def word_le_nat_alt unat_sub_if')

lemma unat_le_max: "unat (a :: 'w::len word) \<le> 2 ^ LENGTH('w) - 1"
  using unsigned_less [of a, where ?'a = nat] by linarith

lemma sat_add_ge: "a \<le> sat_add a b"
  using unat_le_max [of a] by (auto simp: word_le_nat_alt unat_sat_add)

lemma sat_add_mono: "b \<le> c \<Longrightarrow> sat_add a b \<le> sat_add a c"
  by (auto simp: word_le_nat_alt unat_sat_add)

lemma sat_add_left_mono: "a \<le> b \<Longrightarrow> sat_add a c \<le> sat_add b c"
  by (auto simp: word_le_nat_alt unat_sat_add)

lemma checked_add_Some_iff:
  fixes a b c :: "'w::len word"
  shows "checked_add a b = Some c \<longleftrightarrow> unat c = unat a + unat b"
proof (cases "unat a + unat b < 2 ^ LENGTH('w)")
  case True
  then show ?thesis
    by (auto simp: checked_add_def unat_add_no_wrap word_unat_eq_iff)
next
  case False
  moreover have "unat c < 2 ^ LENGTH('w)" by (rule unsigned_less)
  ultimately have "unat c \<noteq> unat a + unat b" by linarith
  with False show ?thesis by (simp add: checked_add_def)
qed

section \<open>Bytes and strings\<close>

abbreviation ord_of :: "char \<Rightarrow> nat" where
  "ord_of c \<equiv> of_char c"

definition as_bytes :: "string \<Rightarrow> bytes" where
  "as_bytes s = map of_char s"

definition is_ascii_digit :: "char \<Rightarrow> bool" where
  "is_ascii_digit c \<longleftrightarrow> 48 \<le> ord_of c \<and> ord_of c \<le> 57"

definition is_ascii_alpha :: "char \<Rightarrow> bool" where
  "is_ascii_alpha c \<longleftrightarrow>
     65 \<le> ord_of c \<and> ord_of c \<le> 90 \<or> 97 \<le> ord_of c \<and> ord_of c \<le> 122"

definition is_ascii_alphanumeric :: "char \<Rightarrow> bool" where
  "is_ascii_alphanumeric c \<longleftrightarrow> is_ascii_alpha c \<or> is_ascii_digit c"

definition is_ascii_graphic :: "char \<Rightarrow> bool" where
  "is_ascii_graphic c \<longleftrightarrow> 33 \<le> ord_of c \<and> ord_of c \<le> 126"

definition to_ascii_lowercase :: "char \<Rightarrow> char" where
  "to_ascii_lowercase c =
     (if 65 \<le> ord_of c \<and> ord_of c \<le> 90 then char_of (ord_of c + 32) else c)"

text \<open>\<open>byte >= 0x20 && byte != 0x7f\<close>, the test every identifier of the protocol passes.\<close>

definition printable :: "char \<Rightarrow> bool" where
  "printable c \<longleftrightarrow> 32 \<le> ord_of c \<and> ord_of c \<noteq> 127"

definition strip_prefix :: "'a list \<Rightarrow> 'a list \<Rightarrow> 'a list option" where
  "strip_prefix p s = (if take (length p) s = p then Some (drop (length p) s) else None)"

definition starts_with :: "'a list \<Rightarrow> 'a list \<Rightarrow> bool" where
  "starts_with p s \<longleftrightarrow> take (length p) s = p"

fun contains_str :: "string \<Rightarrow> string \<Rightarrow> bool" where
  "contains_str p [] \<longleftrightarrow> p = []"
| "contains_str p (c # s) \<longleftrightarrow> starts_with p (c # s) \<or> contains_str p s"

lemma as_bytes_inj [simp]: "as_bytes s = as_bytes t \<longleftrightarrow> s = t"
proof -
  have "inj (of_char :: char \<Rightarrow> u8)"
  proof (rule injI)
    fix c d :: char
    assume "(of_char c :: u8) = of_char d"
    then have "(of_nat (ord_of c) :: u8) = of_nat (ord_of d)"
      by (simp add: of_nat_of_char)
    then have "ord_of c mod 256 = ord_of d mod 256"
      by (simp add: word_of_nat_eq_iff take_bit_eq_mod)
    then show "c = d" by simp
  qed
  then show ?thesis by (simp add: as_bytes_def inj_map_eq_map)
qed

lemma length_as_bytes [simp]: "length (as_bytes s) = length s"
  by (simp add: as_bytes_def)

lemma strip_prefix_Some_iff: "strip_prefix p s = Some r \<longleftrightarrow> s = p @ r"
proof
  assume "strip_prefix p s = Some r"
  then have "take (length p) s = p" and "drop (length p) s = r"
    by (simp_all add: strip_prefix_def split: if_splits)
  then show "s = p @ r" using append_take_drop_id [of "length p" s] by simp
qed (simp add: strip_prefix_def)

lemma starts_with_iff: "starts_with p s \<longleftrightarrow> (\<exists>r. s = p @ r)"
  by (metis append_eq_conv_conj append_take_drop_id starts_with_def)

subsection \<open>Trimming white space\<close>

text \<open>
  \<open>str::trim\<close> removes the characters with the Unicode property \<open>White_Space\<close>.  In UTF-8 these
  are the single bytes 9--13 and 32, two characters of two bytes and sixteen of three bytes.
\<close>

definition is_ws1 :: "char \<Rightarrow> bool" where
  "is_ws1 a \<longleftrightarrow> 9 \<le> ord_of a \<and> ord_of a \<le> 13 \<or> ord_of a = 32"

definition is_ws2 :: "char \<Rightarrow> char \<Rightarrow> bool" where
  "is_ws2 a b \<longleftrightarrow> ord_of a = 0xC2 \<and> (ord_of b = 0x85 \<or> ord_of b = 0xA0)"

definition is_ws3 :: "char \<Rightarrow> char \<Rightarrow> char \<Rightarrow> bool" where
  "is_ws3 a b c \<longleftrightarrow>
     ord_of a = 0xE1 \<and> ord_of b = 0x9A \<and> ord_of c = 0x80
     \<or> ord_of a = 0xE2 \<and> ord_of b = 0x80 \<and>
         (0x80 \<le> ord_of c \<and> ord_of c \<le> 0x8A \<or> ord_of c \<in> {0xA8, 0xA9, 0xAF})
     \<or> ord_of a = 0xE2 \<and> ord_of b = 0x81 \<and> ord_of c = 0x9F
     \<or> ord_of a = 0xE3 \<and> ord_of b = 0x80 \<and> ord_of c = 0x80"

fun trim_start :: "string \<Rightarrow> string" where
  "trim_start [] = []"
| "trim_start [a] = (if is_ws1 a then [] else [a])"
| "trim_start [a, b] =
     (if is_ws1 a then trim_start [b] else if is_ws2 a b then [] else [a, b])"
| "trim_start (a # b # c # s) =
     (if is_ws1 a then trim_start (b # c # s)
      else if is_ws2 a b then trim_start (c # s)
      else if is_ws3 a b c then trim_start s
      else a # b # c # s)"

text \<open>The end of a string is trimmed on the reversed byte sequence.\<close>

fun trim_end_rev :: "string \<Rightarrow> string" where
  "trim_end_rev [] = []"
| "trim_end_rev [a] = (if is_ws1 a then [] else [a])"
| "trim_end_rev [b, a] =
     (if is_ws1 b then trim_end_rev [a] else if is_ws2 a b then [] else [b, a])"
| "trim_end_rev (c # b # a # s) =
     (if is_ws1 c then trim_end_rev (b # a # s)
      else if is_ws2 b c then trim_end_rev (a # s)
      else if is_ws3 a b c then trim_end_rev s
      else c # b # a # s)"

definition trim :: "string \<Rightarrow> string" where
  "trim s = rev (trim_end_rev (rev (trim_start s)))"

definition starts_ws :: "string \<Rightarrow> bool" where
  "starts_ws s \<longleftrightarrow>
     (case s of [] \<Rightarrow> False | a # r \<Rightarrow> is_ws1 a \<or>
       (case r of [] \<Rightarrow> False | b # t \<Rightarrow> is_ws2 a b \<or>
         (case t of [] \<Rightarrow> False | c # _ \<Rightarrow> is_ws3 a b c)))"

lemma trim_start_fixed: "\<not> starts_ws s \<Longrightarrow> trim_start s = s"
  by (cases s rule: trim_start.cases) (auto simp: starts_ws_def)

lemma trim_start_no_ws: "\<not> starts_ws (trim_start s)"
  by (induction s rule: trim_start.induct) (auto simp: starts_ws_def)

lemma starts_ws_append: "starts_ws s \<Longrightarrow> starts_ws (s @ t)"
  by (auto simp: starts_ws_def split: list.splits)

lemma trim_end_rev_idem: "trim_end_rev (trim_end_rev s) = trim_end_rev s"
  by (induction s rule: trim_end_rev.induct) auto

lemma trim_end_rev_suffix: "\<exists>p. s = p @ trim_end_rev s"
proof (induction s rule: trim_end_rev.induct)
  case (4 c b a s)
  then show ?case by (auto intro: exI [of _ "[c]"] exI [of _ "[c, b]"]) (metis append_Cons)+
qed auto

lemma trim_idem [simp]: "trim (trim s) = trim s"
proof -
  obtain p where "rev (trim_start s) = p @ trim_end_rev (rev (trim_start s))"
    using trim_end_rev_suffix by blast
  then have "trim_start s = trim s @ rev p"
    unfolding trim_def by (metis rev_append rev_rev_ident)
  then have "\<not> starts_ws (trim s)"
    using trim_start_no_ws [of s] starts_ws_append [of "trim s" "rev p"] by metis
  then have "trim_start (trim s) = trim s" by (rule trim_start_fixed)
  then show ?thesis by (simp add: trim_def trim_end_rev_idem)
qed

lemma trim_Nil [simp]: "trim [] = []"
  by (simp add: trim_def)

subsection \<open>UTF-8 and lines\<close>

text \<open>\<open>std::str::from_utf8\<close> accepts exactly the well-formed sequences of the Unicode standard: no
  overlong forms, no surrogates, nothing above U+10FFFF.\<close>

definition utf8_cont :: "char \<Rightarrow> bool" where
  "utf8_cont c \<longleftrightarrow> 0x80 \<le> ord_of c \<and> ord_of c \<le> 0xBF"

definition utf8_two :: "char \<Rightarrow> char \<Rightarrow> bool" where
  "utf8_two a b \<longleftrightarrow> 0xC2 \<le> ord_of a \<and> ord_of a \<le> 0xDF \<and> utf8_cont b"

definition utf8_three :: "char \<Rightarrow> char \<Rightarrow> char \<Rightarrow> bool" where
  "utf8_three a b c \<longleftrightarrow> 0xE0 \<le> ord_of a \<and> ord_of a \<le> 0xEF \<and> utf8_cont b \<and> utf8_cont c \<and>
     (ord_of a = 0xE0 \<longrightarrow> 0xA0 \<le> ord_of b) \<and> (ord_of a = 0xED \<longrightarrow> ord_of b \<le> 0x9F)"

definition utf8_four :: "char \<Rightarrow> char \<Rightarrow> char \<Rightarrow> char \<Rightarrow> bool" where
  "utf8_four a b c d \<longleftrightarrow> 0xF0 \<le> ord_of a \<and> ord_of a \<le> 0xF4 \<and>
     utf8_cont b \<and> utf8_cont c \<and> utf8_cont d \<and>
     (ord_of a = 0xF0 \<longrightarrow> 0x90 \<le> ord_of b) \<and> (ord_of a = 0xF4 \<longrightarrow> ord_of b \<le> 0x8F)"

fun valid_utf8 :: "string \<Rightarrow> bool" where
  "valid_utf8 [] = True"
| "valid_utf8 [a] \<longleftrightarrow> ord_of a < 128"
| "valid_utf8 [a, b] \<longleftrightarrow> ord_of a < 128 \<and> valid_utf8 [b] \<or> utf8_two a b"
| "valid_utf8 [a, b, c] \<longleftrightarrow> ord_of a < 128 \<and> valid_utf8 [b, c]
     \<or> utf8_two a b \<and> valid_utf8 [c] \<or> utf8_three a b c"
| "valid_utf8 (a # b # c # d # s) \<longleftrightarrow> ord_of a < 128 \<and> valid_utf8 (b # c # d # s)
     \<or> utf8_two a b \<and> valid_utf8 (c # d # s)
     \<or> utf8_three a b c \<and> valid_utf8 (d # s)
     \<or> utf8_four a b c d \<and> valid_utf8 s"

definition str_of_bytes :: "bytes \<Rightarrow> string" where
  "str_of_bytes bs = map (\<lambda>b. char_of (unat b)) bs"

definition from_utf8 :: "bytes \<Rightarrow> string option" where
  "from_utf8 bs = (let s = str_of_bytes bs in if valid_utf8 s then Some s else None)"

lemma valid_utf8_ascii: "\<forall>c \<in> set s. ord_of c < 128 \<Longrightarrow> valid_utf8 s"
  by (induction s rule: valid_utf8.induct) auto

lemma unat_of_char_u8: "unat (of_char c :: u8) = ord_of c"
proof -
  have "(of_char c :: u8) = of_nat (ord_of c)" by (simp add: of_nat_of_char)
  then show ?thesis by (simp add: unsigned_of_nat take_bit_eq_mod)
qed

lemma str_of_bytes_as_bytes [simp]: "str_of_bytes (as_bytes s) = s"
  by (simp add: str_of_bytes_def as_bytes_def unat_of_char_u8 comp_def)

lemma length_str_of_bytes [simp]: "length (str_of_bytes bs) = length bs"
  by (simp add: str_of_bytes_def)

text \<open>\<open>str::lines\<close>: a line ends at a line feed, which takes one preceding carriage return with it;
  what follows the last line feed is a line only when it is not empty.\<close>

fun lines_from :: "string \<Rightarrow> string \<Rightarrow> string list" where
  "lines_from acc [] = (if acc = [] then [] else [rev acc])"
| "lines_from acc (c # s) =
     (if ord_of c = 10
      then rev (case acc of [] \<Rightarrow> [] | r # a \<Rightarrow> if ord_of r = 13 then a else acc) # lines_from [] s
      else lines_from (c # acc) s)"

definition str_lines :: "string \<Rightarrow> string list" where
  "str_lines s = lines_from [] s"

section \<open>Big-endian integers\<close>

fun be_digits :: "nat \<Rightarrow> nat \<Rightarrow> bytes" where
  "be_digits 0 n = []"
| "be_digits (Suc k) n = be_digits k (n div 256) @ [of_nat (n mod 256)]"

definition from_be :: "bytes \<Rightarrow> nat" where
  "from_be bs = foldl (\<lambda>a b. a * 256 + unat b) 0 bs"

definition be64 :: "u64 \<Rightarrow> bytes" where
  "be64 w = be_digits 8 (unat w)"

definition be32 :: "u32 \<Rightarrow> bytes" where
  "be32 w = be_digits 4 (unat w)"

lemma length_be_digits [simp]: "length (be_digits k n) = k"
  by (induction k arbitrary: n) auto

lemma be_digits_numeral:
  "be_digits (numeral k) n = be_digits (pred_numeral k) (n div 256) @ [of_nat (n mod 256)]"
  by (simp only: numeral_eq_Suc [of k] be_digits.simps)

lemma from_be_snoc [simp]: "from_be (bs @ [b]) = from_be bs * 256 + unat b"
  by (simp add: from_be_def)

lemma from_be_Nil [simp]: "from_be [] = 0"
  by (simp add: from_be_def)

lemma from_be_digits: "from_be (be_digits k n) = n mod 256 ^ k"
proof (induction k arbitrary: n)
  case (Suc k)
  have "unat (of_nat (n mod 256) :: u8) = n mod 256"
    by (simp add: unsigned_of_nat take_bit_eq_mod)
  moreover have "n mod 256 ^ Suc k = n div 256 mod 256 ^ k * 256 + n mod 256"
    by (simp add: mod_mult2_eq)
  ultimately show ?case using Suc.IH [of "n div 256"] by simp
qed simp

lemma from_be_bound: "from_be bs < 256 ^ length bs"
proof (induction bs rule: rev_induct)
  case (snoc b bs)
  have "unat b < 256" using unsigned_less [of b, where ?'a = nat] by simp
  with snoc show ?case by simp
qed simp

lemma length_be64 [simp]: "length (be64 w) = 8"
  by (simp add: be64_def)

lemma length_be32 [simp]: "length (be32 w) = 4"
  by (simp add: be32_def)

lemma from_be64 [simp]: "from_be (be64 w) = unat w"
  using unsigned_less [of w, where ?'a = nat] by (simp add: be64_def from_be_digits)

lemma from_be32 [simp]: "from_be (be32 w) = unat w"
  using unsigned_less [of w, where ?'a = nat] by (simp add: be32_def from_be_digits)

lemma be64_inj [simp]: "be64 a = be64 b \<longleftrightarrow> a = b"
  by (metis from_be64 word_unat_eq_iff)

lemma be32_inj [simp]: "be32 a = be32 b \<longleftrightarrow> a = b"
  by (metis from_be32 word_unat_eq_iff)

text \<open>Equal concatenations with a first part of equal length have equal parts.\<close>

lemma append_eq_len: "length a = length b \<Longrightarrow> a @ x = b @ y \<longleftrightarrow> a = b \<and> x = y"
  by (rule append_eq_append_conv) simp

text \<open>Decimal digits of a number, as \<open>format!\<close> writes an unsigned integer.\<close>

fun decimal :: "nat \<Rightarrow> string" where
  "decimal n = (if n < 10 then [char_of (48 + n)] else decimal (n div 10) @ [char_of (48 + n mod 10)])"

declare decimal.simps [simp del]

end
