(* ===== verification/Lifecycle.thy ===== *)
theory Lifecycle
  imports Prelude
begin

text \<open>
  The two lifecycle state machines of \<open>crates/protocol/src/state.rs\<close>: the persisted binding
  lifecycle \<open>BindingState\<close> and the local \<open>ExecutionState\<close>, with their wire names, the transition
  tables and the checked \<open>transition\<close> methods.  The lemmas determine which binding states can
  be reached from which, show that every transition of an execution advances a rank, and that
  \<open>Completed\<close> is reached through the whole pipeline only.
\<close>

section \<open>Binding lifecycle\<close>

datatype binding_state =
  PendingDevice | Connecting | ProbingLocalBrowser | Active | Paused | Stopping | Stopped
| Expired | Failed | Revoked

datatype state_error = InvalidTransition string string

fun binding_as_str :: "binding_state \<Rightarrow> string" where
  "binding_as_str PendingDevice = ''pending_device''"
| "binding_as_str Connecting = ''connecting''"
| "binding_as_str ProbingLocalBrowser = ''probing_local_browser''"
| "binding_as_str Active = ''active''"
| "binding_as_str Paused = ''paused''"
| "binding_as_str Stopping = ''stopping''"
| "binding_as_str Stopped = ''stopped''"
| "binding_as_str Expired = ''expired''"
| "binding_as_str Failed = ''failed''"
| "binding_as_str Revoked = ''revoked''"

definition can_transition_to :: "binding_state \<Rightarrow> binding_state \<Rightarrow> bool" where
  "can_transition_to s n =
     (if s \<in> {Stopped, Expired, Failed, Revoked} then False
      else case s of
        PendingDevice \<Rightarrow> n \<in> {Connecting, Expired, Failed, Revoked}
      | Connecting \<Rightarrow> n \<in> {ProbingLocalBrowser, Expired, Failed, Revoked}
      | ProbingLocalBrowser \<Rightarrow> n \<in> {Active, Expired, Failed, Revoked}
      | Active \<Rightarrow> n \<in> {Paused, Stopping, Expired, Failed, Revoked}
      | Paused \<Rightarrow> n \<in> {Active, Stopping, Expired, Failed, Revoked}
      | Stopping \<Rightarrow> n \<in> {Stopped, Expired, Failed, Revoked}
      | _ \<Rightarrow> False)"

definition binding_transition :: "binding_state \<Rightarrow> binding_state \<Rightarrow> state_error + binding_state" where
  "binding_transition s n =
     (if \<not> can_transition_to s n
      then Inl (InvalidTransition (binding_as_str s) (binding_as_str n))
      else Inr n)"

text \<open>A binding step is a call of \<open>transition\<close> that returns \<open>Ok\<close>.\<close>

inductive binding_step :: "binding_state \<Rightarrow> binding_state \<Rightarrow> bool" where
  move: "binding_transition s n = Inr t \<Longrightarrow> binding_step s t"

code_pred binding_step .

inductive_simps binding_step_iff: "binding_step s t"

definition binding_terminal :: "binding_state \<Rightarrow> bool" where
  "binding_terminal s \<longleftrightarrow> s \<in> {Stopped, Expired, Failed, Revoked}"

fun binding_rank :: "binding_state \<Rightarrow> nat" where
  "binding_rank PendingDevice = 0"
| "binding_rank Connecting = 1"
| "binding_rank ProbingLocalBrowser = 2"
| "binding_rank Active = 3"
| "binding_rank Paused = 3"
| "binding_rank Stopping = 4"
| "binding_rank Stopped = 5"
| "binding_rank _ = 6"

lemma binding_step_can: "binding_step s t \<longleftrightarrow> can_transition_to s t"
  by (auto simp: binding_step_iff binding_transition_def split: if_splits)

lemma binding_as_str_inj [simp]: "binding_as_str s = binding_as_str t \<longleftrightarrow> s = t"
  by (cases s; cases t) auto

lemma terminal_no_step: "binding_terminal s \<Longrightarrow> \<not> binding_step s t"
  by (simp add: binding_step_can can_transition_to_def binding_terminal_def)

lemma no_self_step: "\<not> binding_step s s"
  by (cases s) (auto simp: binding_step_can can_transition_to_def)

text \<open>What a path may connect: forward in rank, or between \<open>Active\<close> and \<open>Paused\<close>.\<close>

definition binding_leads :: "binding_state \<Rightarrow> binding_state \<Rightarrow> bool" where
  "binding_leads s t \<longleftrightarrow> s = t \<or> \<not> binding_terminal s \<and>
     (binding_rank s < binding_rank t \<or> {s, t} = {Active, Paused})"

lemma step_leads: "binding_step s t \<Longrightarrow> binding_leads s t"
  by (cases s; cases t)
    (auto simp: binding_step_can can_transition_to_def binding_leads_def binding_terminal_def)

lemma binding_leads_trans: "binding_leads s t \<Longrightarrow> binding_leads t u \<Longrightarrow> binding_leads s u"
  by (cases s; cases t; cases u; simp add: binding_leads_def binding_terminal_def doubleton_eq_iff)

lemma path_leads: "binding_step\<^sup>*\<^sup>* s t \<Longrightarrow> binding_leads s t"
proof (induction rule: rtranclp_induct)
  case base
  show ?case by (simp add: binding_leads_def)
next
  case (step t u)
  then show ?case by (blast intro: binding_leads_trans step_leads)
qed

lemma binding_main_line:
  "binding_step PendingDevice Connecting" "binding_step Connecting ProbingLocalBrowser"
  "binding_step ProbingLocalBrowser Active" "binding_step Active Paused"
  "binding_step Paused Active" "binding_step Active Stopping" "binding_step Stopping Stopped"
  by (simp_all add: binding_step_can can_transition_to_def)

lemma binding_abort:
  "\<not> binding_terminal s \<Longrightarrow> t \<in> {Expired, Failed, Revoked} \<Longrightarrow> binding_step s t"
  by (cases s) (auto simp: binding_step_can can_transition_to_def binding_terminal_def)

lemma leads_path: "binding_leads s t \<Longrightarrow> binding_step\<^sup>*\<^sup>* s t"
proof -
  assume leads: "binding_leads s t"
  have line: "binding_step\<^sup>*\<^sup>* PendingDevice Connecting"
    "binding_step\<^sup>*\<^sup>* Connecting ProbingLocalBrowser" "binding_step\<^sup>*\<^sup>* ProbingLocalBrowser Active"
    "binding_step\<^sup>*\<^sup>* Active Paused" "binding_step\<^sup>*\<^sup>* Paused Active"
    "binding_step\<^sup>*\<^sup>* Active Stopping" "binding_step\<^sup>*\<^sup>* Stopping Stopped"
    using binding_main_line by (simp_all add: r_into_rtranclp)
  have line2: "binding_step\<^sup>*\<^sup>* PendingDevice ProbingLocalBrowser"
    "binding_step\<^sup>*\<^sup>* PendingDevice Active" "binding_step\<^sup>*\<^sup>* Connecting Active"
    using line by (blast intro: rtranclp_trans)+
  have line3: "binding_step\<^sup>*\<^sup>* Active Stopped" "binding_step\<^sup>*\<^sup>* Paused Stopping"
    using line by (blast intro: rtranclp_trans)+
  show ?thesis
  proof (cases "t \<in> {Expired, Failed, Revoked} \<and> s \<noteq> t")
    case True
    with leads have "binding_step s t" by (auto simp: binding_leads_def intro!: binding_abort)
    then show ?thesis by (rule r_into_rtranclp)
  next
    case False
    with leads line line2 line3 show ?thesis
      by (cases s; cases t)
        (auto simp: binding_leads_def binding_terminal_def doubleton_eq_iff
          intro: rtranclp_trans)
  qed
qed

text \<open>C7: a binding state can be reached from another by accepted transitions exactly when they
  are equal, or the first is not terminal and the second is later in the lifecycle, or the two are
  \<open>Active\<close> and \<open>Paused\<close>.  In particular nothing leaves a terminal state, and no state but
  \<open>Active\<close> and \<open>Paused\<close> is ever entered twice.\<close>

theorem binding_reachability:
  "binding_step\<^sup>*\<^sup>* s t \<longleftrightarrow> s = t \<or> \<not> binding_terminal s \<and>
     (binding_rank s < binding_rank t \<or> {s, t} = {Active, Paused})"
  using path_leads [of s t] leads_path [of s t] by (auto simp: binding_leads_def)

section \<open>Execution lifecycle\<close>

datatype execution_state =
  Idle | Accepting | Running | CollectingOutput | Completed | Cancelled | TimedOut
| BindingRevoked | BridgeFailed | UnknownResult

fun execution_as_str :: "execution_state \<Rightarrow> string" where
  "execution_as_str Idle = ''idle''"
| "execution_as_str Accepting = ''accepting''"
| "execution_as_str Running = ''running''"
| "execution_as_str CollectingOutput = ''collecting_output''"
| "execution_as_str Completed = ''completed''"
| "execution_as_str Cancelled = ''cancelled''"
| "execution_as_str TimedOut = ''timed_out''"
| "execution_as_str BindingRevoked = ''binding_revoked''"
| "execution_as_str BridgeFailed = ''bridge_failed''"
| "execution_as_str UnknownResult = ''unknown_result''"

definition execution_transition ::
  "execution_state \<Rightarrow> execution_state \<Rightarrow> state_error + execution_state" where
  "execution_transition s n =
     (let valid = (s, n) = (Idle, Accepting) \<or> (s, n) = (Accepting, Running)
        \<or> (s, n) = (Running, CollectingOutput) \<or> (s, n) = (CollectingOutput, Completed)
        \<or> s \<in> {Accepting, Running, CollectingOutput} \<and>
          n \<in> {Cancelled, TimedOut, BindingRevoked, BridgeFailed, UnknownResult}
      in if \<not> valid then Inl (InvalidTransition (execution_as_str s) (execution_as_str n))
         else Inr n)"

text \<open>A sequence of requested transitions, stopping at the first error.\<close>

fun execution_run :: "execution_state \<Rightarrow> execution_state list \<Rightarrow> state_error + execution_state" where
  "execution_run s [] = Inr s"
| "execution_run s (n # ns) =
     bind_r (execution_transition s n) (\<lambda>t. execution_run t ns)"

fun execution_rank :: "execution_state \<Rightarrow> nat" where
  "execution_rank Idle = 0"
| "execution_rank Accepting = 1"
| "execution_rank Running = 2"
| "execution_rank CollectingOutput = 3"
| "execution_rank _ = 4"

lemma execution_transition_Inr_iff:
  "execution_transition s n = Inr t \<longleftrightarrow> t = n \<and>
     ((s, n) \<in> {(Idle, Accepting), (Accepting, Running), (Running, CollectingOutput),
        (CollectingOutput, Completed)}
      \<or> s \<in> {Accepting, Running, CollectingOutput} \<and>
        n \<in> {Cancelled, TimedOut, BindingRevoked, BridgeFailed, UnknownResult})"
  by (auto simp: execution_transition_def Let_def)

lemma execution_transition_rank:
  "execution_transition s n = Inr t \<Longrightarrow> execution_rank s < execution_rank t"
  by (auto simp: execution_transition_Inr_iff)

lemma execution_run_rank:
  "execution_run s ns = Inr t \<Longrightarrow> execution_rank s + length ns \<le> execution_rank t"
proof (induction ns arbitrary: s)
  case (Cons n ns)
  then obtain u where "execution_transition s n = Inr u" "execution_run u ns = Inr t"
    by (auto simp: bind_r_Inr_iff)
  with Cons.IH [of u] execution_transition_rank [of s n u] show ?case by simp
qed simp

lemma execution_rank_le: "execution_rank t \<le> 4"
  by (cases t) auto

lemma completed_from:
  "execution_run s ns = Inr Completed \<longleftrightarrow>
     (s, ns) \<in> {(Idle, [Accepting, Running, CollectingOutput, Completed]),
       (Accepting, [Running, CollectingOutput, Completed]),
       (Running, [CollectingOutput, Completed]), (CollectingOutput, [Completed]),
       (Completed, [])}"
proof (induction ns arbitrary: s)
  case (Cons n ns)
  then show ?case by (auto simp: bind_r_Inr_iff execution_transition_Inr_iff)
qed auto

text \<open>A sequence of requested execution transitions that ends in \<open>Completed\<close> when started
  in \<open>Idle\<close> is the whole pipeline, in order, and nothing else.\<close>

theorem completed_only_through_pipeline:
  "execution_run Idle ns = Inr Completed \<longleftrightarrow>
     ns = [Accepting, Running, CollectingOutput, Completed]"
  by (simp add: completed_from)

end
