(* ===== verification/Lease.thy ===== *)
theory Lease
  imports Prelude
begin

text \<open>
  The binding lease of \<open>crates/protocol/src/lease.rs\<close>: the timing policy and its defaults, the
  mutable \<open>LeaseState\<close> and its five operations.  Timestamps are Unix seconds in a \<open>u64\<close>, and
  every addition saturates as in the source.  The lemmas give the exact admission condition, the
  bound \<open>lease_until <= absolute_ttl_until\<close> as an invariant of every sequence of operations, and
  the finality of revocation and of the absolute deadline.
\<close>

section \<open>Policy and state\<close>

datatype lease_health = Healthy | RenewalGrace | Expired

datatype admission = Allowed | RenewalRequired | Expired | BindingRevoked

datatype renewal_outcome = Renewed u64 | Rejected | Expired

text \<open>\<open>execute_max\<close> is a \<open>Duration\<close>, kept in milliseconds.\<close>

record lease_policy =
  lp_lease_seconds :: u64
  lp_renew_interval_seconds :: u64
  lp_failure_grace_seconds :: u64
  lp_admission_min_remaining_seconds :: u64
  lp_execute_max_ms :: u64
  lp_absolute_ttl_seconds :: u64

definition default_lease_policy :: lease_policy where
  "default_lease_policy =
     \<lparr>lp_lease_seconds = 60, lp_renew_interval_seconds = 20, lp_failure_grace_seconds = 10,
      lp_admission_min_remaining_seconds = 20, lp_execute_max_ms = 120000,
      lp_absolute_ttl_seconds = 28800\<rparr>"

record lease_state =
  ls_generation :: u64
  ls_activated_at :: u64
  ls_lease_until :: u64
  ls_absolute_ttl_until :: u64
  ls_health :: lease_health
  ls_grace_until :: "u64 option"
  ls_revoked :: bool

section \<open>Operations\<close>

definition lease_new :: "u64 \<Rightarrow> u64 \<Rightarrow> lease_policy \<Rightarrow> lease_state" where
  "lease_new generation now policy =
     \<lparr>ls_generation = generation, ls_activated_at = now,
      ls_lease_until = sat_add now (lp_lease_seconds policy),
      ls_absolute_ttl_until = sat_add now (lp_absolute_ttl_seconds policy),
      ls_health = Healthy, ls_grace_until = None, ls_revoked = False\<rparr>"

definition lease_admit :: "lease_state \<Rightarrow> u64 \<Rightarrow> lease_policy \<Rightarrow> admission" where
  "lease_admit l now policy =
     (if ls_revoked l then BindingRevoked
      else if now \<ge> ls_absolute_ttl_until l \<or> now \<ge> ls_lease_until l then admission.Expired
      else if ls_health l \<noteq> Healthy then RenewalRequired
      else if sat_sub (ls_lease_until l) now < lp_admission_min_remaining_seconds policy
      then RenewalRequired
      else Allowed)"

definition lease_renewal_failed :: "lease_state \<Rightarrow> u64 \<Rightarrow> lease_policy \<Rightarrow> lease_state" where
  "lease_renewal_failed l now policy =
     (if ls_revoked l \<or> now \<ge> ls_absolute_ttl_until l
      then l\<lparr>ls_health := lease_health.Expired, ls_grace_until := None\<rparr>
      else l\<lparr>ls_health := RenewalGrace,
             ls_grace_until := Some (sat_add now (lp_failure_grace_seconds policy))\<rparr>)"

definition lease_renew ::
  "lease_state \<Rightarrow> u64 \<Rightarrow> u64 \<Rightarrow> lease_policy \<Rightarrow> lease_state \<times> renewal_outcome" where
  "lease_renew l expected_generation now policy =
     (if ls_revoked l \<or> expected_generation \<noteq> ls_generation l then (l, Rejected)
      else if now \<ge> ls_absolute_ttl_until l
      then (l\<lparr>ls_health := lease_health.Expired\<rparr>, renewal_outcome.Expired)
      else let candidate = min (sat_add now (lp_lease_seconds policy)) (ls_absolute_ttl_until l) in
        if candidate \<le> now
        then (l\<lparr>ls_health := lease_health.Expired\<rparr>, renewal_outcome.Expired)
        else (l\<lparr>ls_lease_until := candidate, ls_health := Healthy, ls_grace_until := None\<rparr>,
              Renewed candidate))"

definition lease_observe :: "lease_state \<Rightarrow> u64 \<Rightarrow> lease_state \<times> lease_health" where
  "lease_observe l now =
     (if ls_revoked l \<or> now \<ge> ls_absolute_ttl_until l
      then (l\<lparr>ls_health := lease_health.Expired\<rparr>, lease_health.Expired)
      else
        let grace_expired = ls_health l = RenewalGrace \<and>
              (case ls_grace_until l of None \<Rightarrow> False | Some deadline \<Rightarrow> now \<ge> deadline);
            lease_expired = ls_health l = Healthy \<and> now \<ge> ls_lease_until l;
            l' = (if grace_expired \<or> lease_expired
                  then l\<lparr>ls_health := lease_health.Expired\<rparr> else l)
        in (l', ls_health l'))"

definition lease_revoke :: "lease_state \<Rightarrow> lease_state" where
  "lease_revoke l =
     l\<lparr>ls_revoked := True, ls_health := lease_health.Expired, ls_grace_until := None\<rparr>"

section \<open>Sequences of operations\<close>

datatype lease_op =
  RenewalFailed u64 | Renew u64 u64 | Observe u64 | Revoke

fun lease_step :: "lease_policy \<Rightarrow> lease_state \<Rightarrow> lease_op \<Rightarrow> lease_state" where
  "lease_step p l (RenewalFailed now) = lease_renewal_failed l now p"
| "lease_step p l (Renew g now) = fst (lease_renew l g now p)"
| "lease_step p l (Observe now) = fst (lease_observe l now)"
| "lease_step p l Revoke = lease_revoke l"

definition lease_run :: "lease_policy \<Rightarrow> lease_state \<Rightarrow> lease_op list \<Rightarrow> lease_state" where
  "lease_run p l ops = foldl (lease_step p) l ops"

lemmas lease_op_defs = lease_renewal_failed_def lease_renew_def lease_observe_def lease_revoke_def

text \<open>The lease never outlives the binding's absolute deadline.\<close>

definition lease_wf :: "lease_state \<Rightarrow> bool" where
  "lease_wf l \<longleftrightarrow> ls_lease_until l \<le> ls_absolute_ttl_until l \<and>
     (ls_revoked l \<longrightarrow> ls_health l = lease_health.Expired)"

lemma lease_step_wf: "lease_wf l \<Longrightarrow> lease_wf (lease_step p l op)"
  by (cases op) (auto simp: lease_op_defs lease_wf_def Let_def)

lemma lease_step_frame [simp]:
  "ls_generation (lease_step p l op) = ls_generation l"
  "ls_activated_at (lease_step p l op) = ls_activated_at l"
  "ls_absolute_ttl_until (lease_step p l op) = ls_absolute_ttl_until l"
  by (cases op; simp add: lease_op_defs Let_def)+

lemma lease_step_revoked: "ls_revoked l \<Longrightarrow> ls_revoked (lease_step p l op)"
  by (cases op) (auto simp: lease_op_defs Let_def)

lemma lease_run_Nil [simp]: "lease_run p l [] = l"
  by (simp add: lease_run_def)

lemma lease_run_Cons [simp]: "lease_run p l (op # ops) = lease_run p (lease_step p l op) ops"
  by (simp add: lease_run_def)

lemma lease_run_append: "lease_run p l (xs @ ys) = lease_run p (lease_run p l xs) ys"
  by (simp add: lease_run_def)

lemma lease_run_wf: "lease_wf l \<Longrightarrow> lease_wf (lease_run p l ops)"
  by (induction ops arbitrary: l) (auto intro: lease_step_wf)

lemma lease_run_frame [simp]:
  "ls_generation (lease_run p l ops) = ls_generation l"
  "ls_absolute_ttl_until (lease_run p l ops) = ls_absolute_ttl_until l"
  by (induction ops arbitrary: l) auto

lemma lease_run_revoked: "ls_revoked l \<Longrightarrow> ls_revoked (lease_run p l ops)"
  by (induction ops arbitrary: l) (auto intro: lease_step_revoked)

lemma lease_new_wf:
  "lp_lease_seconds p \<le> lp_absolute_ttl_seconds p \<Longrightarrow> lease_wf (lease_new g now p)"
  by (simp add: lease_wf_def lease_new_def sat_add_mono)

lemma lease_admit_Allowed:
  "lease_admit l now p = Allowed \<longleftrightarrow> \<not> ls_revoked l \<and> ls_health l = Healthy \<and>
     now < ls_absolute_ttl_until l \<and> now < ls_lease_until l \<and>
     lp_admission_min_remaining_seconds p \<le> sat_sub (ls_lease_until l) now"
  by (auto simp: lease_admit_def not_less not_le)

section \<open>Properties\<close>

text \<open>A request is admitted exactly when the lease is not revoked, is healthy, has not reached
  its absolute deadline, and has at least the policy's minimum time remaining (as integers, without
  wrap-around) before it runs out.\<close>

theorem admit_allowed_iff:
  "lease_admit l now p = Allowed \<longleftrightarrow>
     \<not> ls_revoked l \<and> ls_health l = Healthy \<and>
     unat now < unat (ls_absolute_ttl_until l) \<and> unat now < unat (ls_lease_until l) \<and>
     unat now + unat (lp_admission_min_remaining_seconds p) \<le> unat (ls_lease_until l)"
  by (auto simp: lease_admit_Allowed word_less_nat_alt word_le_nat_alt unat_sat_sub)

text \<open>C8: whatever renewals, failed renewals, observations and revocations follow the creation of a
  lease under the default policy, its deadline stays below the absolute deadline fixed at
  creation, which with the generation never changes, and no request is admitted at or after the
  absolute deadline.\<close>

theorem lease_bounded_by_absolute_ttl:
  defines "p \<equiv> default_lease_policy"
  shows "ls_lease_until (lease_run p (lease_new g t p) ops)
           \<le> ls_absolute_ttl_until (lease_run p (lease_new g t p) ops)
       \<and> ls_absolute_ttl_until (lease_run p (lease_new g t p) ops) = sat_add t 28800
       \<and> ls_generation (lease_run p (lease_new g t p) ops) = g
       \<and> (lease_admit (lease_run p (lease_new g t p) ops) now q = Allowed
            \<longrightarrow> now < sat_add t 28800)"
proof -
  let ?l = "lease_run p (lease_new g t p) ops"
  have "lease_wf (lease_new g t p)"
    by (rule lease_new_wf) (simp add: p_def default_lease_policy_def)
  then have wf: "lease_wf ?l" by (rule lease_run_wf)
  have ttl: "ls_absolute_ttl_until ?l = sat_add t 28800"
    by (simp add: lease_new_def p_def default_lease_policy_def)
  have "ls_generation ?l = g" by (simp add: lease_new_def)
  with wf ttl show ?thesis by (simp add: lease_wf_def lease_admit_Allowed)
qed

theorem lease_bounded_by_absolute_ttl_witness:
  "(1030::u64) < sat_add 1000 28800"
  using lease_bounded_by_absolute_ttl [of 7 1000 "[RenewalFailed 1010, Renew 7 1020]" 1030
      default_lease_policy]
  by (simp add: lease_op_defs lease_new_def default_lease_policy_def lease_admit_def
      sat_add_def sat_sub_def)

text \<open>Revocation is final for a lease: after it, whatever operations are tried, no request is
  admitted at any time, every renewal is rejected, and every observation reports expiry.\<close>

theorem revocation_is_final:
  "lease_admit (lease_run p (lease_revoke l) ops) now q = BindingRevoked
   \<and> snd (lease_renew (lease_run p (lease_revoke l) ops) g now q) = Rejected
   \<and> snd (lease_observe (lease_run p (lease_revoke l) ops) now) = lease_health.Expired"
proof -
  have "ls_revoked (lease_revoke l)" by (simp add: lease_revoke_def)
  then have "ls_revoked (lease_run p (lease_revoke l) ops)" by (rule lease_run_revoked)
  then show ?thesis by (simp add: lease_admit_def lease_renew_def lease_observe_def)
qed

text \<open>A renewal succeeds exactly for the lease's own generation on a lease that is not revoked,
  before the absolute deadline, and with a policy that grants time; the new deadline is then
  the policy's, cut at the absolute deadline, and the lease is healthy with no grace deadline.\<close>

theorem renew_success_iff:
  "snd (lease_renew l g now p) = Renewed c \<longleftrightarrow>
     \<not> ls_revoked l \<and> g = ls_generation l \<and> unat now < unat (ls_absolute_ttl_until l) \<and>
     unat now < unat c \<and>
     unat c = min (min (unat now + unat (lp_lease_seconds p)) (2 ^ 64 - 1))
                (unat (ls_absolute_ttl_until l)) \<and>
     fst (lease_renew l g now p) =
       l\<lparr>ls_lease_until := c, ls_health := Healthy, ls_grace_until := None\<rparr>"
proof -
  have m: "unat (min a b) = min (unat a) (unat b)" for a b :: u64
    by (simp add: min_def word_le_nat_alt)
  have eq: "c = d \<longleftrightarrow> unat c = unat d" "d = c \<longleftrightarrow> unat d = unat c" for d
    by (simp_all add: word_unat_eq_iff)
  show ?thesis
    by (auto simp: lease_renew_def Let_def eq m unat_sat_add word_le_nat_alt not_le)
qed

end
