(* ===== verification/Protocol_Types.thy ===== *)
theory Protocol_Types
  imports Prelude
begin

text \<open>
  The wire types of \<open>crates/protocol/src/types.rs\<close> and the limits of \<open>crates/protocol/src/lib.rs\<close>:
  outer envelopes, inner requests and responses, bridge capabilities and the request permit, each
  with its \<open>validate\<close> method in the source's order of checks.  The base64 engine and the size of
  the serialized envelope are parameters (\<open>b64_codec\<close>, \<open>wire_size\<close>), since both come from
  third-party crates.
\<close>

section \<open>Constants\<close>

definition PROTOCOL_VERSION :: string where "PROTOCOL_VERSION = ''ego-browser-bridge-v1''"
definition INNER_PROTOCOL_VERSION :: string where
  "INNER_PROTOCOL_VERSION = ''ego-browser-bridge-v1-inner''"
definition REMOTE_PLATFORM :: string where "REMOTE_PLATFORM = ''linux''"
definition LOCAL_PLATFORM :: string where "LOCAL_PLATFORM = ''macos''"
definition SUPPORTED_SKILL_VERSION :: string where "SUPPORTED_SKILL_VERSION = ''2.0.0''"
definition SUPPORTED_LOCAL_RUNTIME_VERSION :: string where
  "SUPPORTED_LOCAL_RUNTIME_VERSION = ''0.5.0.32''"
definition MAX_SCRIPT_BYTES :: nat where "MAX_SCRIPT_BYTES = 1024 * 1024"
definition MAX_STDOUT_BYTES :: nat where "MAX_STDOUT_BYTES = 4 * 1024 * 1024"
definition MAX_STDERR_BYTES :: nat where "MAX_STDERR_BYTES = 1024 * 1024"
definition MAX_ARTIFACT_BYTES :: nat where "MAX_ARTIFACT_BYTES = 12 * 1024 * 1024"
definition MAX_ARTIFACT_PIXELS :: u64 where "MAX_ARTIFACT_PIXELS = 4000000"
definition MAX_EXECUTE_TIMEOUT_MS :: u64 where "MAX_EXECUTE_TIMEOUT_MS = 120000"
definition KEY_WRAP_BYTES :: nat where "KEY_WRAP_BYTES = 32 + 12 + 32 + 16"
definition MAX_WIRE_FRAME_BYTES :: nat where "MAX_WIRE_FRAME_BYTES = 16 * 1024 * 1024"

lemmas protocol_constants =
  PROTOCOL_VERSION_def INNER_PROTOCOL_VERSION_def REMOTE_PLATFORM_def LOCAL_PLATFORM_def
  MAX_SCRIPT_BYTES_def MAX_EXECUTE_TIMEOUT_MS_def KEY_WRAP_BYTES_def MAX_WIRE_FRAME_BYTES_def

section \<open>Enumerations\<close>

datatype outer_message_type = Execute | ExecuteResult | Hello | Renew | Cancel

datatype direction = Request | Response

datatype inner_message_type = Execute | ExecuteResult | Cancel | Error | Doctor | Reload

datatype execution_status =
  Completed | ScriptError | Timeout | Cancelled | BridgeUnavailable | EgoRuntimeUnavailable
| LeaseExpired | BindingRevoked | ProtocolError | ArtifactError | ConcurrencyConflict
| LeaseRenewalRequired | UnknownResult

datatype concurrency_mode = TaskSpaceTab | TaskSpace | Binding

datatype release_profile = LogicTest | DevelopmentLocal | CommunityLocalTrust | DeveloperId

datatype credential_profile = CommunityFile | KeychainAccessGroup

datatype protocol_error =
  InvalidOuter string | InvalidInner string | CapabilityMismatch string
| FrameTooLarge | ScriptTooLarge | DuplicateJsonKey string | InvalidJson string
| InvalidEncoding | AuthenticationFailed | Replay | LeaseExpired | LeaseRenewalRequired
| BindingRevoked | ConcurrencyConflict | LimitExceeded string | Io string

text \<open>The strength of the lock a mode asks for: a tab, a Task Space, the whole binding.\<close>

fun lock_strength :: "concurrency_mode \<Rightarrow> nat" where
  "lock_strength TaskSpaceTab = 0"
| "lock_strength TaskSpace = 1"
| "lock_strength Binding = 2"

instantiation concurrency_mode :: linorder
begin

definition less_eq_concurrency_mode :: "concurrency_mode \<Rightarrow> concurrency_mode \<Rightarrow> bool" where
  "less_eq_concurrency_mode a b \<longleftrightarrow> lock_strength a \<le> lock_strength b"

definition less_concurrency_mode :: "concurrency_mode \<Rightarrow> concurrency_mode \<Rightarrow> bool" where
  "less_concurrency_mode a b \<longleftrightarrow> lock_strength a < lock_strength b"

instance
proof
  fix a b :: concurrency_mode
  show "a \<le> b \<Longrightarrow> b \<le> a \<Longrightarrow> a = b"
    by (cases a; cases b) (simp_all add: less_eq_concurrency_mode_def)
qed (auto simp: less_eq_concurrency_mode_def less_concurrency_mode_def)

end

lemma mode_le_Binding [simp]: "(m :: concurrency_mode) \<le> Binding"
  by (cases m) (simp_all add: less_eq_concurrency_mode_def)

section \<open>Identifiers and digests\<close>

definition valid_text_id :: "string \<Rightarrow> nat \<Rightarrow> bool" where
  "valid_text_id value maximum \<longleftrightarrow>
     value \<noteq> [] \<and> length value \<le> maximum \<and> list_all printable value"

definition is_dedicated_task_space :: "string \<Rightarrow> bool" where
  "is_dedicated_task_space value =
     (case strip_prefix ''agent-remote:'' value of
        None \<Rightarrow> False
      | Some tool_session_id \<Rightarrow>
          tool_session_id \<noteq> [] \<and> length value \<le> 256 \<and>
          list_all (\<lambda>b. is_ascii_alphanumeric b \<or> b = CHR ''-'' \<or> b = CHR ''_'' \<or> b = CHR '':'')
            tool_session_id)"

definition valid_sha256_digest :: "string \<Rightarrow> bool" where
  "valid_sha256_digest value \<longleftrightarrow>
     length value = 71 \<and> starts_with ''sha256:'' value \<and>
     list_all (\<lambda>b. is_ascii_digit b \<or> 97 \<le> ord_of b \<and> ord_of b \<le> 102) (drop 7 value)"

definition has_duplicates :: "'a list \<Rightarrow> bool" where
  "has_duplicates values \<longleftrightarrow>
     list_ex (\<lambda>index. values ! index \<in> set (take index values)) [0..<length values]"

lemma has_duplicates_iff: "has_duplicates xs \<longleftrightarrow> \<not> distinct xs"
proof -
  have "has_duplicates xs \<longleftrightarrow> (\<exists>i<length xs. \<exists>j<i. xs ! j = xs ! i)"
    by (auto simp: has_duplicates_def list_ex_iff in_set_conv_nth min_def; force)
  also have "\<dots> \<longleftrightarrow> \<not> distinct xs"
    unfolding distinct_conv_nth by (metis nat_neq_iff order.strict_trans)
  finally show ?thesis .
qed

section \<open>Base64\<close>

text \<open>The base64url engine without padding.  \<open>b64_ok\<close> is its documented behaviour: decoding
  an encoding gives the bytes back, and the empty sequence is the empty string.\<close>

record b64_codec =
  b64_decode :: "string \<Rightarrow> bytes option"
  b64_encode :: "bytes \<Rightarrow> string"

definition b64_ok :: "b64_codec \<Rightarrow> bool" where
  "b64_ok c \<longleftrightarrow>
     (\<forall>bs. b64_decode c (b64_encode c bs) = Some bs) \<and> b64_encode c [] = []"

text \<open>\<open>decode_b64\<close> accepts canonical encodings only.\<close>

definition decode_b64 :: "b64_codec \<Rightarrow> string \<Rightarrow> bytes option" where
  "decode_b64 c value =
     (case b64_decode c value of
        None \<Rightarrow> None
      | Some decoded \<Rightarrow> if b64_encode c decoded \<noteq> value then None else Some decoded)"

lemma decode_b64_encode: "b64_ok c \<Longrightarrow> decode_b64 c (b64_encode c bs) = Some bs"
  by (simp add: decode_b64_def b64_ok_def)

lemma decode_b64_Nil: "b64_ok c \<Longrightarrow> decode_b64 c [] = Some []"
  using decode_b64_encode [of c "[]"] by (simp add: b64_ok_def)

lemma decode_b64_Some: "decode_b64 c value = Some bs \<Longrightarrow> b64_encode c bs = value"
  by (auto simp: decode_b64_def split: option.splits if_splits)

section \<open>Outer envelope\<close>

record outer_envelope =
  oe_protocol :: string
  oe_channel :: string
  oe_relay_binding_kind :: string
  oe_message_type :: outer_message_type
  oe_request_id :: string
  oe_binding_id :: string
  oe_generation :: u64
  oe_sequence :: u64
  oe_direction :: direction
  oe_payload_bytes :: nat
  oe_nonce :: string
  oe_ciphertext :: string
  oe_auth_tag :: string
  oe_key_wrap :: string

definition envelope_validate ::
  "b64_codec \<Rightarrow> (outer_envelope \<Rightarrow> nat option) \<Rightarrow> outer_envelope \<Rightarrow> nat \<Rightarrow> protocol_error + unit" where
  "envelope_validate c wire_size e max_wire_frame_bytes =
    (if oe_protocol e \<noteq> PROTOCOL_VERSION \<or> oe_channel e \<noteq> ''ego_browser_bridge''
        \<or> oe_relay_binding_kind e \<noteq> ''ego_browser''
     then Inl (InvalidOuter ''protocol or channel'')
     else if oe_message_type e \<noteq> outer_message_type.Execute
        \<and> oe_message_type e \<noteq> outer_message_type.ExecuteResult
        \<and> oe_message_type e \<noteq> outer_message_type.Cancel
     then Inl (InvalidOuter ''message type'')
     else if oe_direction e = Request \<and> oe_message_type e \<noteq> outer_message_type.Execute
            \<and> oe_message_type e \<noteq> outer_message_type.Cancel
        \<or> oe_direction e = Response \<and> oe_message_type e \<noteq> outer_message_type.ExecuteResult
     then Inl (InvalidOuter ''type or direction'')
     else if \<not> valid_text_id (oe_request_id e) 128 then Inl (InvalidOuter ''request_id'')
     else if \<not> valid_text_id (oe_binding_id e) 128 then Inl (InvalidOuter ''binding_id'')
     else if oe_generation e = 0 \<or> oe_sequence e = 0
     then Inl (InvalidOuter ''generation or sequence'')
     else if oe_payload_bytes e > max_wire_frame_bytes then Inl FrameTooLarge
     else
       bind_r (ok_or (InvalidOuter ''ciphertext encoding'') (decode_b64 c (oe_ciphertext e)))
         (\<lambda>ciphertext.
       bind_r (ok_or (InvalidOuter ''nonce encoding'') (decode_b64 c (oe_nonce e))) (\<lambda>nonce.
       bind_r (ok_or (InvalidOuter ''auth tag encoding'') (decode_b64 c (oe_auth_tag e))) (\<lambda>tag.
         if length nonce \<noteq> 12 \<or> length tag \<noteq> 16 \<or> length ciphertext \<noteq> oe_payload_bytes e
         then Inl (InvalidOuter ''payload lengths'')
         else if ciphertext = [] then Inl (InvalidOuter ''empty ciphertext'')
         else
       bind_r (ok_or (InvalidOuter ''key wrap encoding'') (decode_b64 c (oe_key_wrap e)))
         (\<lambda>wrapped.
       bind_r
         (if oe_message_type e = outer_message_type.Execute
          then if oe_direction e \<noteq> Request
                  \<or> oe_key_wrap e \<noteq> [] \<and> length wrapped \<noteq> KEY_WRAP_BYTES
               then Inl (InvalidOuter ''key wrap length'') else Inr ()
          else if oe_key_wrap e \<noteq> [] \<or> wrapped \<noteq> []
          then Inl (InvalidOuter ''non-execute key wrap'') else Inr ())
         (\<lambda>_. bind_r (ok_or (InvalidOuter ''serialization'') (wire_size e)) (\<lambda>size.
           if size > max_wire_frame_bytes then Inl FrameTooLarge else Inr ())))))))"

definition envelope_validate_key_wrap :: "b64_codec \<Rightarrow> outer_envelope \<Rightarrow> protocol_error + unit" where
  "envelope_validate_key_wrap c e =
    (if oe_message_type e \<noteq> outer_message_type.Execute \<or> oe_direction e \<noteq> Request
     then Inl (InvalidOuter ''key wrap direction'')
     else
       bind_r (ok_or (InvalidOuter ''key wrap encoding'') (decode_b64 c (oe_key_wrap e)))
         (\<lambda>wrapped. if length wrapped \<noteq> KEY_WRAP_BYTES
           then Inl (InvalidOuter ''key wrap length'') else Inr ()))"

definition decoded_payload ::
  "b64_codec \<Rightarrow> outer_envelope \<Rightarrow> protocol_error + (bytes \<times> bytes \<times> bytes)" where
  "decoded_payload c e =
     bind_r (ok_or (InvalidOuter ''ciphertext encoding'') (decode_b64 c (oe_ciphertext e)))
       (\<lambda>ciphertext.
     bind_r (ok_or (InvalidOuter ''nonce encoding'') (decode_b64 c (oe_nonce e))) (\<lambda>nonce.
     bind_r (ok_or (InvalidOuter ''auth tag encoding'') (decode_b64 c (oe_auth_tag e))) (\<lambda>tag.
       Inr (ciphertext, nonce, tag))))"

text \<open>What an accepted envelope guarantees, in one place.\<close>

lemma envelope_validateD:
  assumes "envelope_validate c ws e m = Inr ()"
  shows "oe_protocol e = PROTOCOL_VERSION" "oe_channel e = ''ego_browser_bridge''"
    "oe_relay_binding_kind e = ''ego_browser''"
    "valid_text_id (oe_request_id e) 128" "valid_text_id (oe_binding_id e) 128"
    "oe_generation e \<noteq> 0" "oe_sequence e \<noteq> 0"
    "\<exists>ct n t. decoded_payload c e = Inr (ct, n, t) \<and> length n = 12 \<and> length t = 16 \<and>
        length ct = oe_payload_bytes e \<and> 0 < length ct \<and> length ct \<le> m"
    "\<exists>size. ws e = Some size \<and> size \<le> m"
  using assms
  by (auto simp: envelope_validate_def decoded_payload_def bind_r_Inr_iff split: if_splits)

text \<open>A message's type and its direction agree, and only an execute request carries a key.\<close>

lemma envelope_validate_direction:
  assumes "envelope_validate c ws e m = Inr ()"
  shows "oe_direction e = Request \<longleftrightarrow>
           oe_message_type e \<in> {outer_message_type.Execute, outer_message_type.Cancel}"
    and "oe_direction e = Response \<longleftrightarrow> oe_message_type e = outer_message_type.ExecuteResult"
    and "oe_message_type e \<noteq> outer_message_type.Execute \<Longrightarrow> oe_key_wrap e = []"
  using assms
  by (cases "oe_direction e"; auto simp: envelope_validate_def bind_r_Inr_iff split: if_splits)+

section \<open>Capability\<close>

record bridge_capability =
  cap_bridge_protocol_version :: string
  cap_remote_wrapper_version :: string
  cap_local_ego_browser_runtime_version :: string
  cap_ego_lite_runtime_version :: string
  cap_skill_version :: string
  cap_release_profile :: release_profile
  cap_signer_certificate_sha256 :: string
  cap_credential_profile :: credential_profile
  cap_allowlist_revision :: u64
  cap_allowlist_roots_digest :: "string option"
  cap_learning_bundle_digest :: "string option"
  cap_max_parallel_requests :: nat
  cap_max_script_bytes :: nat
  cap_max_execute_timeout_ms :: u64
  cap_supported_concurrency :: "concurrency_mode list"
  cap_capabilities :: "string list"
  cap_remote_platform :: string
  cap_local_platform :: string

definition is_some_and :: "'a option \<Rightarrow> ('a \<Rightarrow> bool) \<Rightarrow> bool" where
  "is_some_and m p = (case m of None \<Rightarrow> False | Some x \<Rightarrow> p x)"

lemma is_some_and_simps [simp]: "is_some_and None p = False" "is_some_and (Some x) p = p x"
  by (simp_all add: is_some_and_def)

definition capability_validate :: "bridge_capability \<Rightarrow> protocol_error + unit" where
  "capability_validate c =
    (if cap_bridge_protocol_version c \<noteq> PROTOCOL_VERSION
        \<or> cap_remote_platform c \<noteq> REMOTE_PLATFORM \<or> cap_local_platform c \<noteq> LOCAL_PLATFORM
     then Inl (CapabilityMismatch ''platform or protocol'')
     else if cap_allowlist_revision c = 0
     then Inl (CapabilityMismatch ''allowlist_revision'')
     else if cap_max_parallel_requests c = 0 \<or> cap_max_parallel_requests c > 4
     then Inl (CapabilityMismatch ''max_parallel_requests'')
     else if cap_max_script_bytes c = 0 \<or> cap_max_script_bytes c > MAX_SCRIPT_BYTES
     then Inl (CapabilityMismatch ''max_script_bytes'')
     else if cap_max_execute_timeout_ms c = 0
        \<or> cap_max_execute_timeout_ms c > MAX_EXECUTE_TIMEOUT_MS
     then Inl (CapabilityMismatch ''max_execute_timeout_ms'')
     else if \<not> valid_text_id (cap_remote_wrapper_version c) 64
        \<or> \<not> valid_text_id (cap_local_ego_browser_runtime_version c) 64
        \<or> \<not> valid_text_id (cap_ego_lite_runtime_version c) 64
        \<or> \<not> valid_text_id (cap_skill_version c) 64
        \<or> \<not> valid_text_id (cap_signer_certificate_sha256 c) 128
        \<or> cap_supported_concurrency c = [] \<or> length (cap_supported_concurrency c) > 3
     then Inl (CapabilityMismatch ''capability metadata'')
     else if list_ex (\<lambda>x. x = []) (cap_capabilities c)
        \<or> list_ex (\<lambda>x. \<not> valid_text_id x 128) (cap_capabilities c)
        \<or> has_duplicates (cap_capabilities c)
        \<or> \<not> list_ex (\<lambda>x. x = ''ego_browser_script_execute_v1'') (cap_capabilities c)
     then Inl (CapabilityMismatch ''script capability'')
     else
       let has_allowlist =
             list_ex (\<lambda>x. x = ''ego_browser_file_allowlist_v1'') (cap_capabilities c);
           has_learning =
             list_ex (\<lambda>x. x = ''ego_browser_site_learning_v1'') (cap_capabilities c)
       in if has_allowlist \<noteq> (cap_allowlist_roots_digest c \<noteq> None)
             \<or> has_learning \<noteq> (cap_learning_bundle_digest c \<noteq> None)
             \<or> is_some_and (cap_allowlist_roots_digest c) (\<lambda>v. \<not> valid_sha256_digest v)
             \<or> is_some_and (cap_learning_bundle_digest c) (\<lambda>v. \<not> valid_sha256_digest v)
          then Inl (CapabilityMismatch ''optional policy capability'')
          else Inr ())"

section \<open>Inner messages\<close>

record inner_execute_request =
  ier_protocol :: string
  ier_message_type :: inner_message_type
  ier_script :: string
  ier_timeout_ms :: u64
  ier_cwd_label :: string
  ier_default_task_space :: string
  ier_concurrency_mode :: concurrency_mode
  ier_task_space_scope :: "string option"
  ier_tab_scope :: "string option"
  ier_allowlist_revision :: u64
  ier_learning_bundle_digest :: "string option"

record inner_cancel_request =
  icr_protocol :: string
  icr_message_type :: inner_message_type
  icr_request_id :: string
  icr_sequence :: u64

record artifact_descriptor =
  ad_artifact_id :: string
  ad_media_type :: string
  ad_size_bytes :: u64
  ad_width :: u32
  ad_height :: u32
  ad_content_b64 :: string

record inner_execute_response =
  resp_protocol :: string
  resp_message_type :: inner_message_type
  resp_request_id :: string
  resp_sequence :: u64
  resp_status :: execution_status
  resp_exit_code :: "int option"
  resp_stdout :: string
  resp_stderr :: string
  resp_artifacts :: "artifact_descriptor list"
  resp_duration_ms :: u64

definition unwrap_or_default :: "'a list option \<Rightarrow> 'a list" where
  "unwrap_or_default m = (case m of None \<Rightarrow> [] | Some x \<Rightarrow> x)"

lemma unwrap_or_default_simps [simp]:
  "unwrap_or_default None = []" "unwrap_or_default (Some x) = x"
  by (simp_all add: unwrap_or_default_def)

definition cancel_validate :: "inner_cancel_request \<Rightarrow> protocol_error + unit" where
  "cancel_validate r =
    (if icr_protocol r \<noteq> INNER_PROTOCOL_VERSION
        \<or> icr_message_type r \<noteq> inner_message_type.Cancel
     then Inl (InvalidInner ''cancel protocol or type'')
     else if \<not> valid_text_id (icr_request_id r) 128 \<or> icr_sequence r = 0
     then Inl (InvalidInner ''cancel identity'')
     else Inr ())"

definition execute_validate ::
  "inner_execute_request \<Rightarrow> bridge_capability \<Rightarrow> protocol_error + unit" where
  "execute_validate r capability =
    (if ier_protocol r \<noteq> INNER_PROTOCOL_VERSION
        \<or> ier_message_type r \<noteq> inner_message_type.Execute
     then Inl (InvalidInner ''protocol or type'')
     else if ier_script r = [] \<or> length (ier_script r) > cap_max_script_bytes capability
     then Inl ScriptTooLarge
     else if ier_timeout_ms r = 0 \<or> ier_timeout_ms r > cap_max_execute_timeout_ms capability
     then Inl (InvalidInner ''timeout_ms'')
     else if \<not> valid_text_id (ier_cwd_label r) 128 \<or> contains_str ''..'' (ier_cwd_label r)
     then Inl (InvalidInner ''cwd_label'')
     else if \<not> is_dedicated_task_space (ier_default_task_space r)
     then Inl (InvalidInner ''default_task_space'')
     else if ier_allowlist_revision r \<noteq> cap_allowlist_revision capability
     then Inl (CapabilityMismatch ''allowlist_revision'')
     else if ier_learning_bundle_digest r \<noteq> cap_learning_bundle_digest capability
     then Inl (CapabilityMismatch ''learning_bundle_digest'')
     else if ier_concurrency_mode r \<notin> set (cap_supported_concurrency capability)
     then Inl (CapabilityMismatch ''concurrency_mode'')
     else if ier_concurrency_mode r = Binding then Inr ()
     else
       let scope = unwrap_or_default (ier_task_space_scope r)
       in if \<not> valid_text_id scope 256 \<or> CHR ''*'' \<in> set scope
          then Inl (InvalidInner ''task_space_scope'')
          else if scope \<noteq> ier_default_task_space r
          then Inl (InvalidInner ''dedicated task space scope'')
          else if ier_concurrency_mode r = TaskSpaceTab
          then let tab = unwrap_or_default (ier_tab_scope r)
               in if \<not> valid_text_id tab 256 \<or> CHR ''*'' \<in> set tab
                  then Inl (InvalidInner ''tab_scope'') else Inr ()
          else Inr ())"

text \<open>A dedicated Task Space name is printable text without white space, so it passes every other
  identifier test and trimming leaves it alone.\<close>

lemma ws_free_trim: "\<forall>c \<in> set s. 32 < ord_of c \<and> ord_of c < 128 \<Longrightarrow> trim s = s"
proof -
  assume a: "\<forall>c \<in> set s. 32 < ord_of c \<and> ord_of c < 128"
  then have "trim_start s = s"
    by (cases s rule: trim_start.cases) (auto simp: is_ws1_def is_ws2_def is_ws3_def)
  moreover have "trim_end_rev t = t" if "\<forall>c \<in> set t. 32 < ord_of c \<and> ord_of c < 128" for t
    using that by (cases t rule: trim_end_rev.cases) (auto simp: is_ws1_def is_ws2_def is_ws3_def)
  ultimately show ?thesis using a by (simp add: trim_def)
qed

lemma dedicated_chars:
  assumes "is_dedicated_task_space s"
  shows "\<forall>c \<in> set s. 32 < ord_of c \<and> ord_of c < 127 \<and> c \<noteq> CHR ''*''"
proof -
  from assms obtain t where s: "s = ''agent-remote:'' @ t"
    and t: "\<forall>b \<in> set t. is_ascii_alphanumeric b \<or> b = CHR ''-'' \<or> b = CHR ''_'' \<or> b = CHR '':''"
    by (auto simp: is_dedicated_task_space_def strip_prefix_Some_iff list_all_iff
        split: option.splits)
  have alnum: "32 < ord_of b \<and> ord_of b < 127 \<and> b \<noteq> CHR ''*''"
    if "is_ascii_alphanumeric b" for b
  proof -
    have "32 < ord_of b \<and> ord_of b < 127 \<and> ord_of b \<noteq> 42"
      using that unfolding is_ascii_alphanumeric_def is_ascii_alpha_def is_ascii_digit_def
      by linarith
    then show ?thesis by auto
  qed
  have "32 < ord_of b \<and> ord_of b < 127 \<and> b \<noteq> CHR ''*''" if "b \<in> set t" for b
    using bspec [OF t that] alnum [of b] by (elim disjE) simp_all
  then show ?thesis unfolding s by (simp add: ball_Un)
qed

lemma dedicated_facts:
  assumes "is_dedicated_task_space s"
  shows "s \<noteq> []" "length s \<le> 256" "list_all printable s" "CHR ''*'' \<notin> set s" "trim s = s"
    "valid_text_id s 256"
proof -
  from assms obtain t where t: "strip_prefix ''agent-remote:'' s = Some t"
    and len: "length s \<le> 256"
    unfolding is_dedicated_task_space_def by (cases "strip_prefix ''agent-remote:'' s") simp_all
  show "s \<noteq> []" using t unfolding strip_prefix_Some_iff by simp
  show "length s \<le> 256" by (rule len)
  show pr: "list_all printable s"
    unfolding list_all_iff
  proof
    fix c assume "c \<in> set s"
    with dedicated_chars [OF assms] have "32 < ord_of c" "ord_of c < 127" by blast+
    then show "printable c" unfolding printable_def by linarith
  qed
  show "CHR ''*'' \<notin> set s" using dedicated_chars [OF assms] by blast
  show "trim s = s"
  proof (rule ws_free_trim, rule ballI)
    fix c assume "c \<in> set s"
    with dedicated_chars [OF assms] have "32 < ord_of c" "ord_of c < 127" by blast+
    then show "32 < ord_of c \<and> ord_of c < 128" by linarith
  qed
  show "valid_text_id s 256" using \<open>s \<noteq> []\<close> len pr by (simp add: valid_text_id_def)
qed

end
