(* ===== verification/Json.thy ===== *)
theory Json
  imports Prelude "HOL-Library.Multiset"
begin

text \<open>
  JSON values as \<open>serde_json\<close> represents them, and the code of
  \<open>crates/protocol/src/canonical_json.rs\<close> on top of them: the strict visitor that rejects
  duplicate keys, the entry point \<open>parse_strict_json\<close>, and \<open>canonical_value\<close>, which sorts the
  keys of every object.  The tokenizer, the serializer and the typed \<open>from_value\<close> of
  \<open>serde_json\<close> are parameters, gathered in the record \<open>json_codec\<close>.
\<close>

section \<open>Values\<close>

datatype jnum = PosInt u64 | NegInt u64 | Float u64

datatype json =
  JNull | JBool bool | JNumber jnum | JString string | JArray "json list"
| JObject "(string \<times> json) list"

text \<open>What the tokenizer hands to the visitor: a document whose sequences and maps may break off
  with a syntax error.  Numbers are 64-bit patterns; a float is its IEEE bit pattern.\<close>

datatype doc =
  DUnit | DBool bool | DI64 u64 | DU64 u64 | DF64 u64 | DStr string
| DSeq "doc list" "string option"
| DMap "(string \<times> doc) list" "string option"
| DErr string

datatype strict_json_error = InvalidJson string | DuplicateKey string | TrailingData

datatype visit_error = Custom string | Syntax string

section \<open>Ordered maps\<close>

text \<open>\<open>BTreeMap\<close> as a sorted association list.\<close>

fun btree_insert :: "'k::linorder \<Rightarrow> 'v \<Rightarrow> ('k \<times> 'v) list \<Rightarrow> ('k \<times> 'v) list" where
  "btree_insert k v [] = [(k, v)]"
| "btree_insert k v ((a, b) # r) =
     (if k < a then (k, v) # (a, b) # r
      else if k = a then (k, v) # r
      else (a, b) # btree_insert k v r)"

definition btree_of :: "('k::linorder \<times> 'v) list \<Rightarrow> ('k \<times> 'v) list" where
  "btree_of kvs = foldl (\<lambda>m (k, v). btree_insert k v m) [] kvs"

abbreviation keys_of :: "('k \<times> 'v) list \<Rightarrow> 'k list" where
  "keys_of kvs \<equiv> map fst kvs"

definition sorted_keys :: "('k::linorder \<times> 'v) list \<Rightarrow> bool" where
  "sorted_keys kvs \<longleftrightarrow> sorted_wrt (<) (keys_of kvs)"

lemma sorted_keys_simps [simp]:
  "sorted_keys []"
  "sorted_keys (p # r) \<longleftrightarrow> (\<forall>x \<in> set (keys_of r). fst p < x) \<and> sorted_keys r"
  by (simp_all add: sorted_keys_def)

lemma sorted_keys_distinct: "sorted_keys kvs \<Longrightarrow> distinct (keys_of kvs)"
  by (simp add: sorted_keys_def strict_sorted_iff)

lemma map_of_btree_insert: "map_of (btree_insert k v m) = (map_of m)(k \<mapsto> v)"
  by (induction k v m rule: btree_insert.induct) (auto simp: fun_eq_iff)

lemma set_keys_btree_insert: "set (keys_of (btree_insert k v m)) = insert k (set (keys_of m))"
  by (induction k v m rule: btree_insert.induct) auto

lemma sorted_btree_insert: "sorted_keys m \<Longrightarrow> sorted_keys (btree_insert k v m)"
proof (induction k v m rule: btree_insert.induct)
  case (2 k v a b r)
  then show ?case
    by (auto simp del: set_map simp: set_keys_btree_insert not_less_iff_gr_or_eq
        intro: less_trans)
qed simp

lemma btree_of_snoc [simp]: "btree_of (kvs @ [(k, v)]) = btree_insert k v (btree_of kvs)"
  by (simp add: btree_of_def)

lemma btree_of_Nil [simp]: "btree_of [] = []"
  by (simp add: btree_of_def)

lemma sorted_btree_of: "sorted_keys (btree_of kvs)"
  by (induction kvs rule: rev_induct) (auto intro: sorted_btree_insert)

lemma map_of_btree_of: "map_of (btree_of kvs) = map_of (rev kvs)"
  by (induction kvs rule: rev_induct) (auto simp: map_of_btree_insert)

lemma map_of_btree_of_distinct:
  "distinct (keys_of kvs) \<Longrightarrow> map_of (btree_of kvs) = map_of kvs"
  by (metis map_of_btree_of map_of_inject_set distinct_rev rev_map set_rev)

text \<open>A sorted association list is determined by its map.\<close>

lemma sorted_keys_unique:
  assumes "sorted_keys xs" "sorted_keys ys" "map_of xs = map_of ys"
  shows "xs = ys"
proof -
  note d = assms(1,2) [THEN sorted_keys_distinct]
  have "set xs = set ys" using assms(3) map_of_inject_set [OF d] by blast
  moreover have "inj_on fst (set xs)" using d(1) by (simp add: distinct_map)
  ultimately show ?thesis
    using assms(1,2) by (intro map_sorted_distinct_set_unique [of fst])
      (simp_all add: sorted_keys_def strict_sorted_iff)
qed

lemma btree_of_sorted: "sorted_keys kvs \<Longrightarrow> btree_of kvs = kvs"
  by (rule sorted_keys_unique)
    (auto simp: sorted_btree_of map_of_btree_of_distinct sorted_keys_distinct)

lemma btree_of_cong_mset:
  assumes "mset xs = mset ys" "distinct (keys_of xs)"
  shows "btree_of xs = btree_of ys"
proof -
  have "mset (keys_of xs) = mset (keys_of ys)"
    using assms(1) by simp
  with assms(2) have d: "distinct (keys_of ys)" by (metis mset_eq_imp_distinct_iff)
  have "set xs = set ys" using assms(1) by (metis set_mset_mset)
  then have "map_of xs = map_of ys" using map_of_inject_set [OF assms(2) d] by simp
  then show ?thesis
    by (intro sorted_keys_unique sorted_btree_of)
      (simp add: map_of_btree_of_distinct assms(2) d)
qed

section \<open>Canonical form\<close>

primrec canonical_value :: "json \<Rightarrow> json" where
  "canonical_value JNull = JNull"
| "canonical_value (JBool b) = JBool b"
| "canonical_value (JNumber n) = JNumber n"
| "canonical_value (JString s) = JString s"
| "canonical_value (JArray vs) = JArray (map canonical_value vs)"
| "canonical_value (JObject kvs) = JObject (btree_of (map (map_prod id canonical_value) kvs))"

text \<open>Every object of a value has strictly increasing keys.\<close>

primrec is_canonical :: "json \<Rightarrow> bool" where
  "is_canonical JNull = True"
| "is_canonical (JBool b) = True"
| "is_canonical (JNumber n) = True"
| "is_canonical (JString s) = True"
| "is_canonical (JArray vs) = list_all is_canonical vs"
| "is_canonical (JObject kvs) =
     (sorted_keys kvs \<and> list_all snd (map (map_prod id is_canonical) kvs))"

lemma set_btree_of: "set (btree_of kvs) \<subseteq> set kvs"
proof
  fix p assume "p \<in> set (btree_of kvs)"
  then have "(fst p, snd p) \<in> set (btree_of kvs)" by simp
  then have "map_of (btree_of kvs) (fst p) = Some (snd p)"
    by (rule map_of_is_SomeI [OF sorted_keys_distinct [OF sorted_btree_of]])
  then have "p \<in> set (rev kvs)"
    by (metis map_of_SomeD map_of_btree_of prod.collapse)
  then show "p \<in> set kvs" by simp
qed

lemma canonical_value_canonical: "is_canonical (canonical_value v)"
proof (induction v)
  case (JObject kvs)
  have "is_canonical (snd p)" if "p \<in> set (btree_of (map (map_prod id canonical_value) kvs))" for p
    using that set_btree_of JObject by fastforce
  then show ?case by (auto simp: sorted_btree_of list_all_iff)
qed (auto simp: list_all_iff)

lemma canonical_value_fixed: "is_canonical v \<Longrightarrow> canonical_value v = v"
proof (induction v)
  case (JArray vs)
  then show ?case by (auto simp: list_all_iff map_idI)
next
  case (JObject kvs)
  have "map (map_prod id canonical_value) kvs = kvs"
    using JObject by (intro map_idI) (force simp: list_all_iff)
  with JObject.prems show ?case by (simp add: btree_of_sorted)
qed auto

definition canonical_json :: "(json \<Rightarrow> bytes) \<Rightarrow> json \<Rightarrow> bytes" where
  "canonical_json to_vec value = (let normalized = canonical_value value in to_vec normalized)"

section \<open>The strict visitor\<close>

text \<open>\<open>Number::from_f64\<close> is \<open>None\<close> for infinities and NaN: all exponent bits set.\<close>

definition f64_finite :: "u64 \<Rightarrow> bool" where
  "f64_finite w \<longleftrightarrow> unat w div 2 ^ 52 mod 2048 \<noteq> 2047"

fun strict_value :: "doc \<Rightarrow> visit_error + json"
  and strict_seq :: "json list \<Rightarrow> doc list \<Rightarrow> string option \<Rightarrow> visit_error + json"
  and strict_map :: "(string \<times> json) list \<Rightarrow> (string \<times> doc) list \<Rightarrow> string option \<Rightarrow> visit_error + json"
where
  "strict_value DUnit = Inr JNull"
| "strict_value (DBool b) = Inr (JBool b)"
| "strict_value (DI64 n) = Inr (JNumber (if n < 2 ^ 63 then PosInt n else NegInt n))"
| "strict_value (DU64 n) = Inr (JNumber (PosInt n))"
| "strict_value (DF64 w) =
     (if f64_finite w then Inr (JNumber (Float w)) else Inl (Custom ''non-finite number''))"
| "strict_value (DStr s) = Inr (JString s)"
| "strict_value (DErr m) = Inl (Syntax m)"
| "strict_value (DSeq ds e) = strict_seq [] ds e"
| "strict_value (DMap es e) = strict_map [] es e"
| "strict_seq values [] None = Inr (JArray values)"
| "strict_seq values [] (Some m) = Inl (Syntax m)"
| "strict_seq values (d # ds) e =
     bind_r (strict_value d) (\<lambda>v. strict_seq (values @ [v]) ds e)"
| "strict_map values [] None = Inr (JObject values)"
| "strict_map values [] (Some m) = Inl (Syntax m)"
| "strict_map values ((k, d) # es) e =
     (if k \<in> set (keys_of values) then Inl (Custom (''duplicate JSON key: '' @ k))
      else bind_r (strict_value d) (\<lambda>v. strict_map (btree_insert k v values) es e))"

text \<open>The parameters: \<open>jc_parse\<close> tokenizes, \<open>jc_location\<close> is the position that \<open>serde_json\<close>
  appends to a custom error, \<open>jc_at_end\<close> is the result of \<open>Deserializer::end\<close>.\<close>

record json_codec =
  jc_parse :: "bytes \<Rightarrow> doc"
  jc_location :: "bytes \<Rightarrow> string"
  jc_at_end :: "bytes \<Rightarrow> bool"
  jc_to_vec :: "json \<Rightarrow> bytes"

text \<open>The text before the first occurrence of a separator: \<open>split(sep).next()\<close>.\<close>

fun split_first :: "string \<Rightarrow> string \<Rightarrow> string" where
  "split_first sep [] = []"
| "split_first sep (c # s) = (if starts_with sep (c # s) then [] else c # split_first sep s)"

definition parse_strict_json ::
  "json_codec \<Rightarrow> (json \<Rightarrow> string + 't) \<Rightarrow> bytes \<Rightarrow> strict_json_error + 't" where
  "parse_strict_json jc from_value bs =
     bind_r
       (map_err
          (\<lambda>error. let message = (case error of Custom m \<Rightarrow> m @ jc_location jc bs | Syntax m \<Rightarrow> m)
             in case strip_prefix ''duplicate JSON key: '' message of
                  Some key \<Rightarrow> DuplicateKey (split_first '' at line '' key)
                | None \<Rightarrow> InvalidJson message)
          (strict_value (jc_parse jc bs)))
       (\<lambda>value. bind_r (ensure (jc_at_end jc bs) TrailingData)
         (\<lambda>_. map_err InvalidJson (from_value value)))"

text \<open>A document that the visitor accepts: complete, finite, and without a repeated key in any
  object.\<close>

fun doc_ok :: "doc \<Rightarrow> bool" where
  "doc_ok (DF64 w) \<longleftrightarrow> f64_finite w"
| "doc_ok (DErr m) \<longleftrightarrow> False"
| "doc_ok (DSeq ds e) \<longleftrightarrow> e = None \<and> (\<forall>d \<in> set ds. doc_ok d)"
| "doc_ok (DMap es e) \<longleftrightarrow> e = None \<and> distinct (keys_of es) \<and> (\<forall>p \<in> set es. doc_ok (snd p))"
| "doc_ok _ \<longleftrightarrow> True"

lemma strict_visitor_ok:
  "is_ok (strict_value d) \<longleftrightarrow> doc_ok d"
  "is_ok (strict_seq vs ds e) \<longleftrightarrow> e = None \<and> (\<forall>d \<in> set ds. doc_ok d)"
  "is_ok (strict_map m es e) \<longleftrightarrow> e = None \<and> distinct (keys_of es) \<and>
     set (keys_of m) \<inter> set (keys_of es) = {} \<and> (\<forall>p \<in> set es. doc_ok (snd p))"
proof (induction d and vs ds e and m es e rule: strict_value_strict_seq_strict_map.induct)
  case (12 vs d ds e)
  then show ?case by (cases "strict_value d") auto
next
  case (15 vs k d es e)
  then show ?case
    by (cases "strict_value d") (auto simp del: set_map simp: set_keys_btree_insert)
qed auto

lemma strict_map_sorted:
  "sorted_keys m \<Longrightarrow> strict_map m es e = Inr (JObject kvs) \<Longrightarrow> sorted_keys kvs"
proof (induction es arbitrary: m)
  case Nil
  then show ?case by (cases e) auto
next
  case (Cons p es)
  obtain k d where p: "p = (k, d)" by (cases p)
  with Cons.prems(2) obtain v where "strict_map (btree_insert k v m) es e = Inr (JObject kvs)"
    by (auto simp: bind_r_Inr_iff split: if_splits)
  then show ?case by (rule Cons.IH [OF sorted_btree_insert [OF Cons.prems(1)]])
qed

section \<open>A concrete serializer\<close>

text \<open>Facts about signed or authenticated bytes need a serializer that is injective, as
  \<open>serde_json::to_vec\<close> is on the values it is given.  \<open>tagged_bytes\<close> is a self-delimiting one, the
  instance on which such hypotheses are shown to be satisfiable.\<close>

definition tagged_string :: "string \<Rightarrow> bytes" where
  "tagged_string s = concat (map (\<lambda>c. [1, c]) (as_bytes s)) @ [0]"

fun tagged_num :: "jnum \<Rightarrow> bytes" where
  "tagged_num (PosInt n) = 0 # be64 n"
| "tagged_num (NegInt n) = 1 # be64 n"
| "tagged_num (Float n) = 2 # be64 n"

primrec tagged_bytes :: "json \<Rightarrow> bytes" where
  "tagged_bytes JNull = [0]"
| "tagged_bytes (JBool b) = [1, of_bool b]"
| "tagged_bytes (JNumber n) = 2 # tagged_num n"
| "tagged_bytes (JString s) = 3 # tagged_string s"
| "tagged_bytes (JArray vs) = 4 # concat (map (\<lambda>b. 1 # b) (map tagged_bytes vs)) @ [0]"
| "tagged_bytes (JObject kvs) =
     5 # concat (map (\<lambda>(k, b). 1 # tagged_string k @ b) (map (map_prod id tagged_bytes) kvs)) @ [0]"

lemma concat_pairs_prefix_free:
  "concat (map (\<lambda>c. [1, c]) xs) @ 0 # x = concat (map (\<lambda>c. [1, c]) ys) @ (0 :: u8) # y \<longleftrightarrow>
     xs = ys \<and> x = y"
proof (induction xs arbitrary: ys)
  case Nil
  then show ?case by (cases ys) auto
next
  case (Cons a xs)
  then show ?case by (cases ys) auto
qed

lemma tagged_string_prefix_free:
  "tagged_string s @ x = tagged_string t @ y \<longleftrightarrow> s = t \<and> x = y"
  by (simp add: tagged_string_def concat_pairs_prefix_free)

lemma tagged_num_prefix_free: "tagged_num m @ x = tagged_num n @ y \<longleftrightarrow> m = n \<and> x = y"
  by (cases m; cases n) (auto simp: append_eq_len)

lemma tagged_bytes_prefix_free: "tagged_bytes v @ x = tagged_bytes w @ y \<longleftrightarrow> v = w \<and> x = y"
proof (induction v arbitrary: w x y)
  case (JNumber n)
  then show ?case by (cases w) (auto simp: tagged_num_prefix_free)
next
  case (JString s)
  then show ?case by (cases w) (auto simp: tagged_string_prefix_free)
next
  case (JArray vs)
  have "concat (map (\<lambda>b. 1 # b) (map tagged_bytes vs)) @ 0 # x
      = concat (map (\<lambda>b. 1 # b) (map tagged_bytes ws)) @ 0 # y \<longleftrightarrow> vs = ws \<and> x = y" for ws
    using JArray
  proof (induction vs arbitrary: ws)
    case Nil
    then show ?case by (cases ws) auto
  next
    case (Cons v vs)
    then show ?case by (cases ws) auto
  qed
  then show ?case by (cases w) auto
next
  case (JObject kvs)
  have ih: "\<forall>p \<in> set kvs. \<forall>w x y. tagged_bytes (snd p) @ x = tagged_bytes w @ y \<longleftrightarrow> snd p = w \<and> x = y"
  proof (intro ballI allI)
    fix p w x y assume "p \<in> set kvs"
    then show "tagged_bytes (snd p) @ x = tagged_bytes w @ y \<longleftrightarrow> snd p = w \<and> x = y"
      by (rule JObject) (cases p; simp)
  qed
  have "concat (map (\<lambda>(k, b). 1 # tagged_string k @ b) (map (map_prod id tagged_bytes) kvs)) @ 0 # x
      = concat (map (\<lambda>(k, b). 1 # tagged_string k @ b) (map (map_prod id tagged_bytes) ws)) @ 0 # y
      \<longleftrightarrow> kvs = ws \<and> x = y" for ws
    using ih
  proof (induction kvs arbitrary: ws)
    case Nil
    then show ?case by (cases ws) auto
  next
    case (Cons p kvs)
    then show ?case
      by (cases ws; cases p) (auto simp: tagged_string_prefix_free)
  qed
  then show ?case by (cases w) auto
next
  case (JBool b)
  then show ?case by (cases w) auto
next
  case JNull
  then show ?case by (cases w) auto
qed

lemma inj_tagged_bytes: "inj tagged_bytes"
  using tagged_bytes_prefix_free [of _ "[]" _ "[]"] by (auto intro: injI)

section \<open>Properties\<close>

text \<open>The strict parser's visitor accepts a document exactly when every object in it, at every
  depth, has pairwise distinct keys (and its floats are finite and its syntax complete): a
  repeated key is never silently resolved.\<close>

theorem strict_value_ok_iff: "is_ok (strict_value d) = doc_ok d"
  by (rule strict_visitor_ok)

text \<open>Canonicalization sorts the keys of every object at every depth, and doing it twice
  changes nothing, so the canonical bytes of a value are stable.\<close>

theorem canonical_json_stable:
  "is_canonical (canonical_value v) \<and> canonical_value (canonical_value v) = canonical_value v \<and>
   canonical_json w (canonical_value v) = canonical_json w v"
  using canonical_value_canonical [of v] canonical_value_fixed [OF canonical_value_canonical, of v]
  by (simp add: canonical_json_def)

text \<open>The canonical bytes of an object do not depend on the order in which its entries are
  stored, for entries with distinct keys.\<close>

theorem canonical_json_order_independent:
  assumes "mset xs = mset ys" and "distinct (keys_of xs)"
  shows "canonical_json w (JObject xs) = canonical_json w (JObject ys)"
proof -
  let ?f = "map_prod id canonical_value"
  have "mset (map ?f xs) = mset (map ?f ys)" using assms(1) by simp
  moreover have "distinct (keys_of (map ?f xs))" using assms(2) by (simp add: comp_def)
  ultimately have "btree_of (map ?f xs) = btree_of (map ?f ys)" by (rule btree_of_cong_mset)
  then show ?thesis by (simp add: canonical_json_def)
qed

theorem canonical_json_order_independent_witness:
  "canonical_json (\<lambda>v. if v = JNull then [] else [1])
     (JObject [(''sequence'', JNumber (PosInt 7)), (''binding_id'', JString ''b'')])
   = canonical_json (\<lambda>v. if v = JNull then [] else [1])
     (JObject [(''binding_id'', JString ''b''), (''sequence'', JNumber (PosInt 7))])"
  by (rule canonical_json_order_independent) simp_all

end
