(* ===== verification/Crypto.thy ===== *)
theory Crypto
  imports Protocol_Types Json
begin

text \<open>
  The session cipher, the associated data and the request-key wrapping of
  \<open>crates/protocol/src/crypto.rs\<close>.  ChaCha20-Poly1305, X25519 and SHA-256 come from third-party
  crates and are the functions of the record \<open>crypto\<close>; \<open>crypto_ok\<close> is what their documentation
  promises.  What \<open>OsRng\<close> and \<open>StaticSecret::random\<close> return is an argument.
\<close>

section \<open>Primitives\<close>

record crypto =
  cr_encrypt :: "bytes \<Rightarrow> bytes \<Rightarrow> bytes \<Rightarrow> bytes \<Rightarrow> bytes option"
  cr_decrypt :: "bytes \<Rightarrow> bytes \<Rightarrow> bytes \<Rightarrow> bytes \<Rightarrow> bytes option"
  cr_public :: "bytes \<Rightarrow> bytes"
  cr_dh :: "bytes \<Rightarrow> bytes \<Rightarrow> bytes"
  cr_sha256 :: "bytes \<Rightarrow> bytes"
  cr_b64 :: b64_codec

text \<open>Arguments of \<open>cr_encrypt\<close> and \<open>cr_decrypt\<close>: key, nonce, associated data, message.  Decryption
  inverts encryption, the tag takes 16 bytes, both sides of a key agreement compute one secret,
  public keys have 32 bytes, and base64 decoding inverts encoding.\<close>

definition crypto_ok :: "crypto \<Rightarrow> bool" where
  "crypto_ok cs \<longleftrightarrow>
     (\<forall>k n a m c. cr_encrypt cs k n a m = Some c \<longrightarrow>
        cr_decrypt cs k n a c = Some m \<and> length c = length m + 16) \<and>
     (\<forall>a b. cr_dh cs a (cr_public cs b) = cr_dh cs b (cr_public cs a)) \<and>
     (\<forall>a. length (cr_public cs a) = 32) \<and> b64_ok (cr_b64 cs)"

lemma crypto_okD:
  assumes "crypto_ok cs"
  shows "cr_encrypt cs k n a m = Some c \<Longrightarrow> cr_decrypt cs k n a c = Some m"
    "cr_encrypt cs k n a m = Some c \<Longrightarrow> length c = length m + 16"
    "cr_dh cs a' (cr_public cs b) = cr_dh cs b (cr_public cs a')"
    "length (cr_public cs b) = 32" "b64_decode (cr_b64 cs) (b64_encode (cr_b64 cs) bs) = Some bs"
  using assms by (auto simp: crypto_ok_def b64_ok_def)

definition encode_b64url :: "crypto \<Rightarrow> bytes \<Rightarrow> string" where
  "encode_b64url cs bs = b64_encode (cr_b64 cs) bs"

definition decode_b64url :: "crypto \<Rightarrow> string \<Rightarrow> protocol_error + bytes" where
  "decode_b64url cs value = ok_or InvalidEncoding (b64_decode (cr_b64 cs) value)"

section \<open>Session cipher\<close>

definition seal ::
  "crypto \<Rightarrow> bytes \<Rightarrow> bytes \<Rightarrow> bytes \<Rightarrow> bytes \<Rightarrow> protocol_error + (bytes \<times> bytes \<times> bytes)" where
  "seal cs key nonce_bytes plaintext aad =
     bind_r (ok_or AuthenticationFailed (cr_encrypt cs key nonce_bytes aad plaintext)) (\<lambda>encrypted.
       if length encrypted < 16 then Inl AuthenticationFailed
       else let split = length encrypted - 16
            in Inr (nonce_bytes, take split encrypted, drop split encrypted))"

definition open_sealed ::
  "crypto \<Rightarrow> bytes \<Rightarrow> bytes \<Rightarrow> bytes \<Rightarrow> bytes \<Rightarrow> bytes \<Rightarrow> protocol_error + bytes" where
  "open_sealed cs key nonce ciphertext auth_tag aad =
     (if length nonce \<noteq> 12 \<or> length auth_tag \<noteq> 16 then Inl InvalidEncoding
      else ok_or AuthenticationFailed (cr_decrypt cs key nonce aad (ciphertext @ auth_tag)))"

definition derive_session_key :: "crypto \<Rightarrow> bytes \<Rightarrow> bytes \<Rightarrow> bytes" where
  "derive_session_key cs secret transcript =
     cr_sha256 cs (as_bytes ''agent-remote/ego-browser/session-key/v1'' @ [0] @ secret @ transcript)"

lemma seal_Inr:
  assumes "crypto_ok cs" "seal cs key n m a = Inr (n', ct, tag)"
  shows "n' = n" "length ct = length m" "length tag = 16" "cr_encrypt cs key n a m = Some (ct @ tag)"
proof -
  from assms(2) obtain e where e: "cr_encrypt cs key n a m = Some e" and l: "\<not> length e < 16"
    and split: "n' = n" "ct = take (length e - 16) e" "tag = drop (length e - 16) e"
    by (auto simp: seal_def bind_r_Inr_iff Let_def split: if_splits)
  have "length e = length m + 16" using crypto_okD(2) [OF assms(1) e] .
  with split show "n' = n" "length ct = length m" "length tag = 16" by simp_all
  from e split show "cr_encrypt cs key n a m = Some (ct @ tag)" by simp
qed

text \<open>The interface its users see: what one endpoint seals under 12 random bytes, the other opens,
  and the ciphertext is as long as the plaintext.\<close>

locale sealed_channel =
  fixes sealing :: "'s \<Rightarrow> bytes \<Rightarrow> bytes \<Rightarrow> bytes \<Rightarrow> bytes \<Rightarrow> 'e + (bytes \<times> bytes \<times> bytes)"
    and unsealing :: "'s \<Rightarrow> bytes \<Rightarrow> bytes \<Rightarrow> bytes \<Rightarrow> bytes \<Rightarrow> bytes \<Rightarrow> 'e + bytes"
    and good :: "'s \<Rightarrow> bool"
  assumes seal_open: "good s \<Longrightarrow> length n = 12 \<Longrightarrow> sealing s k n m a = Inr (n', ct, tag) \<Longrightarrow>
      unsealing s k n' ct tag a = Inr m"
    and seal_lengths: "good s \<Longrightarrow> sealing s k n m a = Inr (n', ct, tag) \<Longrightarrow>
      n' = n \<and> length ct = length m \<and> length tag = 16"
begin

lemma sealed_distinct:
  assumes "good s" "length n = 12" "sealing s k n m a = Inr t" "sealing s k n m' a = Inr t"
  shows "m = m'"
proof -
  obtain n' ct tag where t: "t = (n', ct, tag)" by (cases t)
  show ?thesis
    using seal_open [OF assms(1,2) assms(3) [unfolded t]]
      seal_open [OF assms(1,2) assms(4) [unfolded t]] by simp
qed

end

lemma open_sealed_seal:
  assumes "crypto_ok cs" "length n = 12" "seal cs k n m a = Inr (n', ct, tag)"
  shows "open_sealed cs k n' ct tag a = Inr m"
proof -
  note s = seal_Inr [OF assms(1,3)]
  show ?thesis
    using s(1,3) assms(2) crypto_okD(1) [OF assms(1) s(4)] by (simp add: open_sealed_def)
qed

interpretation chan: sealed_channel seal open_sealed crypto_ok
  by unfold_locales (erule (2) open_sealed_seal, metis seal_Inr(1-3))

section \<open>Associated data\<close>

fun outer_type_name :: "outer_message_type \<Rightarrow> string" where
  "outer_type_name outer_message_type.Execute = ''execute''"
| "outer_type_name outer_message_type.ExecuteResult = ''execute_result''"
| "outer_type_name outer_message_type.Hello = ''hello''"
| "outer_type_name outer_message_type.Renew = ''renew''"
| "outer_type_name outer_message_type.Cancel = ''cancel''"

fun direction_name :: "direction \<Rightarrow> string" where
  "direction_name Request = ''request''"
| "direction_name Response = ''response''"

definition aad_for_outer :: "(json \<Rightarrow> bytes) \<Rightarrow> outer_envelope \<Rightarrow> bytes" where
  "aad_for_outer to_vec e =
     (let value = JObject (btree_of
        [(''protocol'', JString (oe_protocol e)),
         (''channel'', JString (oe_channel e)),
         (''relay_binding_kind'', JString (oe_relay_binding_kind e)),
         (''type'', JString (outer_type_name (oe_message_type e))),
         (''request_id'', JString (oe_request_id e)),
         (''binding_id'', JString (oe_binding_id e)),
         (''generation'', JNumber (PosInt (oe_generation e))),
         (''sequence'', JNumber (PosInt (oe_sequence e))),
         (''direction'', JString (direction_name (oe_direction e))),
         (''payload_bytes'', JNumber (PosInt (of_nat (oe_payload_bytes e))))])
      in canonical_json to_vec value)"

lemma outer_type_name_inj [simp]: "outer_type_name a = outer_type_name b \<longleftrightarrow> a = b"
  by (cases a; cases b) simp_all

lemma direction_name_inj [simp]: "direction_name a = direction_name b \<longleftrightarrow> a = b"
  by (cases a; cases b) simp_all

text \<open>The sorted object that is serialized.\<close>

definition aad_object :: "outer_envelope \<Rightarrow> (string \<times> json) list" where
  "aad_object e =
     [(''binding_id'', JString (oe_binding_id e)),
      (''channel'', JString (oe_channel e)),
      (''direction'', JString (direction_name (oe_direction e))),
      (''generation'', JNumber (PosInt (oe_generation e))),
      (''payload_bytes'', JNumber (PosInt (of_nat (oe_payload_bytes e)))),
      (''protocol'', JString (oe_protocol e)),
      (''relay_binding_kind'', JString (oe_relay_binding_kind e)),
      (''request_id'', JString (oe_request_id e)),
      (''sequence'', JNumber (PosInt (oe_sequence e))),
      (''type'', JString (outer_type_name (oe_message_type e)))]"

lemma aad_for_outer_eq: "aad_for_outer to_vec e = to_vec (JObject (aad_object e))"
  by (simp add: aad_for_outer_def aad_object_def canonical_json_def btree_of_def less_char_def)

section \<open>Key wrapping\<close>

definition key_wrap_transcript :: "string \<Rightarrow> u64 \<Rightarrow> string \<Rightarrow> u64 \<Rightarrow> bytes" where
  "key_wrap_transcript binding_id generation request_id sequence =
     as_bytes ''agent-remote/ego-browser/key-wrap/v1'' @ [0] @ as_bytes binding_id @ [0]
     @ be64 generation @ be64 sequence @ as_bytes request_id"

definition derive_wrap_key :: "crypto \<Rightarrow> bytes \<Rightarrow> bytes \<Rightarrow> bytes" where
  "derive_wrap_key cs shared transcript =
     cr_sha256 cs (as_bytes ''agent-remote/ego-browser/key-wrap-key/v1'' @ [0] @ shared @ transcript)"

definition unwrap_session_key ::
  "crypto \<Rightarrow> string \<Rightarrow> bytes \<Rightarrow> string \<Rightarrow> u64 \<Rightarrow> string \<Rightarrow> u64 \<Rightarrow> protocol_error + bytes" where
  "unwrap_session_key cs encoded recipient_secret binding_id generation request_id sequence =
     bind_r (ok_or InvalidEncoding (b64_decode (cr_b64 cs) encoded)) (\<lambda>wrapped.
       if b64_encode (cr_b64 cs) wrapped \<noteq> encoded \<or> length wrapped \<noteq> KEY_WRAP_BYTES
       then Inl InvalidEncoding
       else
         let peer = take 32 wrapped;
             shared = cr_dh cs recipient_secret peer
         in if list_all (\<lambda>byte. byte = 0) shared then Inl AuthenticationFailed
            else
              let aad = key_wrap_transcript binding_id generation request_id sequence;
                  wrap_key = derive_wrap_key cs shared aad;
                  nonce = take 12 (drop 32 wrapped);
                  ciphertext = take 32 (drop 44 wrapped);
                  tag = take 16 (drop 76 wrapped)
              in bind_r (ok_or AuthenticationFailed
                   (cr_decrypt cs wrap_key nonce aad (ciphertext @ tag))) (\<lambda>plaintext.
                 if length plaintext = 32 then Inr plaintext else Inl AuthenticationFailed))"

definition wrap_session_key ::
  "crypto \<Rightarrow> bytes \<Rightarrow> bytes \<Rightarrow> bytes \<Rightarrow> bytes \<Rightarrow> string \<Rightarrow> u64 \<Rightarrow> string \<Rightarrow> u64 \<Rightarrow> protocol_error + string"
  where
  "wrap_session_key cs ephemeral nonce_bytes session_key recipient_public_key
      binding_id generation request_id sequence =
     (let ephemeral_public = cr_public cs ephemeral;
          shared = cr_dh cs ephemeral recipient_public_key
      in if list_all (\<lambda>byte. byte = 0) shared then Inl AuthenticationFailed
         else
           let aad = key_wrap_transcript binding_id generation request_id sequence;
               wrap_key = derive_wrap_key cs shared aad
           in bind_r (ok_or AuthenticationFailed
                (cr_encrypt cs wrap_key nonce_bytes aad session_key)) (\<lambda>encrypted.
              if length encrypted \<noteq> 32 + 16 then Inl AuthenticationFailed
              else Inr (b64_encode (cr_b64 cs)
                (ephemeral_public @ nonce_bytes @ take 32 encrypted @ drop 32 encrypted))))"

text \<open>A transcript is split at the NUL byte behind the binding id, so it determines its parts as
  long as the binding id has no NUL itself; every id that passes \<open>valid_text_id\<close> is of this
  kind.\<close>

lemma append_NUL_cancel:
  assumes "0 \<notin> set a" "0 \<notin> set b"
  shows "a @ (0 :: u8) # x = b @ 0 # y \<longleftrightarrow> a = b \<and> x = y"
  using assms
proof (induction a arbitrary: b)
  case Nil
  then show ?case by (cases b) auto
next
  case (Cons c a)
  then show ?case by (cases b) auto
qed

lemma valid_id_no_NUL:
  assumes "valid_text_id s n"
  shows "0 \<notin> set (as_bytes s)"
proof
  assume "0 \<in> set (as_bytes s)"
  then obtain c where c: "c \<in> set s" and "(of_char c :: u8) = 0" by (auto simp: as_bytes_def)
  then have "ord_of c = 0" by (metis unat_of_char_u8 unat_0)
  moreover from c assms have "printable c" by (auto simp: valid_text_id_def list_all_iff)
  ultimately show False by (simp add: printable_def)
qed

lemma key_wrap_transcript_inj:
  assumes "0 \<notin> set (as_bytes b)" "0 \<notin> set (as_bytes b')"
  shows "key_wrap_transcript b g r q = key_wrap_transcript b' g' r' q' \<longleftrightarrow>
    b = b' \<and> g = g' \<and> r = r' \<and> q = q'"
proof -
  have "key_wrap_transcript b g r q = key_wrap_transcript b' g' r' q' \<longleftrightarrow>
      as_bytes b @ 0 # be64 g @ be64 q @ as_bytes r
      = as_bytes b' @ 0 # be64 g' @ be64 q' @ as_bytes r'"
    by (simp add: key_wrap_transcript_def)
  also have "\<dots> \<longleftrightarrow> as_bytes b = as_bytes b' \<and>
      be64 g @ be64 q @ as_bytes r = be64 g' @ be64 q' @ as_bytes r'"
    by (rule append_NUL_cancel [OF assms])
  also have "\<dots> \<longleftrightarrow> b = b' \<and> g = g' \<and> r = r' \<and> q = q'"
    by (auto simp: append_eq_len)
  finally show ?thesis .
qed

lemma wrapped_parts:
  assumes "length p = 32" "length n = 12" "length e = 48"
  shows "take 32 (p @ n @ take 32 e @ drop 32 e) = p"
    and "take 12 (drop 32 (p @ n @ take 32 e @ drop 32 e)) = n"
    and "take 32 (drop 44 (p @ n @ take 32 e @ drop 32 e)) @
         take 16 (drop 76 (p @ n @ take 32 e @ drop 32 e)) = e"
  using assms by simp_all

lemma wrap_session_key_Inr:
  assumes "wrap_session_key cs eph n key pk b g r q = Inr enc"
  obtains e where "\<not> list_all (\<lambda>byte. byte = 0) (cr_dh cs eph pk)"
    "cr_encrypt cs (derive_wrap_key cs (cr_dh cs eph pk) (key_wrap_transcript b g r q)) n
       (key_wrap_transcript b g r q) key = Some e"
    "length e = 48"
    "enc = b64_encode (cr_b64 cs) (cr_public cs eph @ n @ take 32 e @ drop 32 e)"
  using assms by (auto simp: wrap_session_key_def Let_def bind_r_Inr_iff split: if_splits)

section \<open>A concrete suite\<close>

text \<open>An instance of the parameters on which the documented behaviour holds.\<close>

definition byte_codec :: b64_codec where
  "byte_codec = \<lparr>b64_decode = (\<lambda>s. Some (as_bytes s)), b64_encode = str_of_bytes\<rparr>"

definition plain_crypto :: crypto where
  "plain_crypto = \<lparr>
     cr_encrypt = (\<lambda>k n a m. Some (m @ replicate 16 0)),
     cr_decrypt = (\<lambda>k n a c. Some (take (length c - 16) c)),
     cr_public = (\<lambda>a. replicate 32 7),
     cr_dh = (\<lambda>a b. [1]),
     cr_sha256 = (\<lambda>bs. take 32 (bs @ replicate 32 0)),
     cr_b64 = byte_codec\<rparr>"

lemma as_bytes_str_of_bytes [simp]: "as_bytes (str_of_bytes bs) = bs"
proof -
  have "(of_char (char_of (unat b) :: char) :: u8) = b" for b :: u8
  proof -
    have "ord_of (char_of (unat b) :: char) = unat b"
      using unsigned_less [of b, where ?'a = nat] by (simp add: of_char_of)
    then show ?thesis by (metis unat_of_char_u8 word_unat_eq_iff)
  qed
  then show ?thesis by (simp add: as_bytes_def str_of_bytes_def comp_def)
qed

lemma byte_codec_ok: "b64_ok byte_codec"
  by (simp add: byte_codec_def b64_ok_def) (simp add: str_of_bytes_def)

lemma plain_crypto_ok: "crypto_ok plain_crypto"
  using byte_codec_ok by (simp add: crypto_ok_def plain_crypto_def)

lemma unwrap_wrapped:
  assumes "crypto_ok cs" and "length nonce = 12"
    and "wrap_session_key cs eph nonce key (cr_public cs secret) b g r q = Inr encoded"
  shows "unwrap_session_key cs encoded secret b g r q = Inr key \<and> length key = 32"
proof -
  note ok = crypto_okD [OF assms(1)]
  obtain e where nz: "\<not> list_all (\<lambda>byte. byte = 0) (cr_dh cs eph (cr_public cs secret))"
    and e: "cr_encrypt cs (derive_wrap_key cs (cr_dh cs eph (cr_public cs secret))
        (key_wrap_transcript b g r q)) nonce (key_wrap_transcript b g r q) key = Some e"
    and len: "length e = 48"
    and enc: "encoded = b64_encode (cr_b64 cs) (cr_public cs eph @ nonce @ take 32 e @ drop 32 e)"
    using assms(3) by (rule wrap_session_key_Inr)
  have key: "length key = 32" using ok(2) [OF e] len by simp
  have dh: "cr_dh cs secret (cr_public cs eph) = cr_dh cs eph (cr_public cs secret)" by (rule ok(3))
  note parts = wrapped_parts [OF ok(4) [of eph] assms(2) len]
  show ?thesis
    using key nz ok(1) [OF e] assms(2) len ok(4) [of eph]
    by (simp add: unwrap_session_key_def Let_def enc ok(5) parts dh KEY_WRAP_BYTES_def
        del: append_take_drop_id take_append drop_append take_all take_all_iff)
qed

section \<open>Properties\<close>

text \<open>A request key wrapped to a bridge's public key is recovered by that bridge under the same
  binding, generation, request and sequence number, whatever ephemeral secret and nonce the
  wrapping drew.\<close>

theorem key_wrap_roundtrip:
  assumes "crypto_ok cs" and "length nonce = 12"
    and "wrap_session_key cs eph nonce key (cr_public cs secret) b g r q = Inr encoded"
  shows "unwrap_session_key cs encoded secret b g r q = Inr key \<and> length key = 32"
  using assms by (rule unwrap_wrapped)

theorem key_wrap_roundtrip_witness:
  "let key = replicate 32 (5 :: u8); nonce = replicate 12 (9 :: u8) in
   \<exists>encoded.
     wrap_session_key plain_crypto [3] nonce key (cr_public plain_crypto [4]) ''b-1'' 2 ''r-1'' 3
       = Inr encoded \<and>
     unwrap_session_key plain_crypto encoded [4] ''b-1'' 2 ''r-1'' 3 = Inr key \<and> length key = 32"
proof -
  let ?key = "replicate 32 (5 :: u8)" and ?nonce = "replicate 12 (9 :: u8)"
  have "\<exists>encoded. wrap_session_key plain_crypto [3] ?nonce ?key (cr_public plain_crypto [4])
      ''b-1'' 2 ''r-1'' 3 = Inr encoded"
    by (simp add: wrap_session_key_def plain_crypto_def Let_def)
  then show ?thesis
    using key_wrap_roundtrip [OF plain_crypto_ok, of ?nonce "[3]" ?key "[4]" "''b-1''" 2 "''r-1''" 3]
    unfolding Let_def by (metis length_replicate)
qed

text \<open>The transcript that binds a wrapped key is unambiguous for the ids a validated envelope
  carries: equal transcripts have equal binding, generation, request and sequence number.\<close>

theorem key_wrap_transcript_unambiguous:
  assumes "valid_text_id b 128" and "valid_text_id b' 128"
    and "key_wrap_transcript b g r q = key_wrap_transcript b' g' r' q'"
  shows "b = b' \<and> g = g' \<and> r = r' \<and> q = q'"
  using assms(3)
  unfolding key_wrap_transcript_inj [OF valid_id_no_NUL [OF assms(1)] valid_id_no_NUL [OF assms(2)]] .

theorem key_wrap_transcript_unambiguous_witness:
  "valid_text_id ''b-1'' 128 \<and> (''b-1'' = ''b-1'' \<and> (2 :: u64) = 2 \<and> ''r-1'' = ''r-1'' \<and> (3 :: u64) = 3)"
proof -
  have "valid_text_id ''b-1'' 128" by (simp add: valid_text_id_def printable_def)
  with key_wrap_transcript_unambiguous [of "''b-1''" "''b-1''" 2 "''r-1''" 3 2 "''r-1''" 3]
  show ?thesis by blast
qed

text \<open>The associated data authenticates every routing field of an outer envelope: two envelopes
  with the same associated data agree on all ten of them, so a ciphertext cannot be moved to
  another request, binding, generation, sequence number, type or direction.\<close>

theorem aad_binds_routing:
  assumes "inj to_vec"
    and "oe_payload_bytes e < 2 ^ 64" and "oe_payload_bytes e' < 2 ^ 64"
    and "aad_for_outer to_vec e = aad_for_outer to_vec e'"
  shows "oe_protocol e = oe_protocol e' \<and> oe_channel e = oe_channel e' \<and>
    oe_relay_binding_kind e = oe_relay_binding_kind e' \<and> oe_message_type e = oe_message_type e' \<and>
    oe_request_id e = oe_request_id e' \<and> oe_binding_id e = oe_binding_id e' \<and>
    oe_generation e = oe_generation e' \<and> oe_sequence e = oe_sequence e' \<and>
    oe_direction e = oe_direction e' \<and> oe_payload_bytes e = oe_payload_bytes e'"
proof -
  have eq: "aad_object e = aad_object e'"
    using assms(4) injD [OF assms(1)] unfolding aad_for_outer_eq by blast
  then have "(of_nat (oe_payload_bytes e) :: u64) = of_nat (oe_payload_bytes e')"
    by (simp add: aad_object_def)
  then have "oe_payload_bytes e = oe_payload_bytes e'"
    using assms(2,3) by (simp add: word_of_nat_eq_iff take_bit_nat_eq_self)
  with eq show ?thesis by (simp add: aad_object_def)
qed

definition sample_envelope :: outer_envelope where
  "sample_envelope = \<lparr>oe_protocol = PROTOCOL_VERSION, oe_channel = ''ego_browser_bridge'',
     oe_relay_binding_kind = ''ego_browser'', oe_message_type = outer_message_type.Execute,
     oe_request_id = ''r-1'', oe_binding_id = ''b-1'', oe_generation = 2, oe_sequence = 3,
     oe_direction = Request, oe_payload_bytes = 4, oe_nonce = replicate 12 (CHR ''n''),
     oe_ciphertext = ''data'', oe_auth_tag = replicate 16 (CHR ''t''), oe_key_wrap = []\<rparr>"

theorem aad_binds_routing_witness:
  "aad_for_outer tagged_bytes sample_envelope
     = aad_for_outer tagged_bytes (sample_envelope\<lparr>oe_nonce := ''x''\<rparr>) \<and>
   oe_request_id sample_envelope = oe_request_id (sample_envelope\<lparr>oe_nonce := ''x''\<rparr>)"
proof -
  have "aad_for_outer tagged_bytes sample_envelope
      = aad_for_outer tagged_bytes (sample_envelope\<lparr>oe_nonce := ''x''\<rparr>)"
    by (simp add: aad_for_outer_eq aad_object_def)
  moreover from this have
    "oe_request_id sample_envelope = oe_request_id (sample_envelope\<lparr>oe_nonce := ''x''\<rparr>)"
    using aad_binds_routing [OF inj_tagged_bytes, of sample_envelope
        "sample_envelope\<lparr>oe_nonce := ''x''\<rparr>"]
    by (simp add: sample_envelope_def)
  ultimately show ?thesis by blast
qed

end
