(* ===== verification/Pop.thy ===== *)
theory Pop
  imports Crypto
begin

text \<open>
  The device proof-of-possession transcript of \<open>crates/protocol/src/pop.rs\<close>.  SHA-256 and the JSON
  serializer are parameters, as in \<open>Crypto\<close>.
\<close>

record device_proof_context =
  dp_operation :: string
  dp_device_id :: string
  dp_device_generation :: u64
  dp_operation_generation :: u64
  dp_binding_id :: "string option"
  dp_release_profile :: string
  dp_credential_profile :: string
  dp_server_host :: string

datatype device_proof_error = InvalidContext | InvalidPayload

fun as_object :: "json \<Rightarrow> (string \<times> json) list option" where
  "as_object (JObject kvs) = Some kvs"
| "as_object _ = None"

definition append_field :: "bytes \<Rightarrow> string \<Rightarrow> device_proof_error + bytes" where
  "append_field message value =
     (let encoded = as_bytes value
      in if length encoded \<ge> 2 ^ 32 then Inl InvalidContext
         else Inr (message @ be32 (of_nat (length encoded)) @ encoded))"

fun append_fields :: "bytes \<Rightarrow> string list \<Rightarrow> device_proof_error + bytes" where
  "append_fields message [] = Inr message"
| "append_fields message (value # vs) =
     bind_r (append_field message value) (\<lambda>m. append_fields m vs)"

definition device_proof_message ::
  "(bytes \<Rightarrow> bytes) \<Rightarrow> (json \<Rightarrow> bytes) \<Rightarrow> device_proof_context \<Rightarrow> bytes \<Rightarrow> json
    \<Rightarrow> device_proof_error + bytes" where
  "device_proof_message sha256 to_vec context challenge payload =
     bind_r (ok_or InvalidPayload (as_object payload)) (\<lambda>object.
       if dp_operation context = [] \<or> dp_device_id context = []
          \<or> dp_device_generation context = 0 \<or> dp_operation_generation context = 0
          \<or> dp_release_profile context = [] \<or> dp_credential_profile context = []
          \<or> dp_server_host context = [] \<or> length challenge \<noteq> 32
          \<or> ''proof_challenge'' \<in> set (keys_of object)
          \<or> ''proof_signature'' \<in> set (keys_of object)
       then Inl InvalidContext
       else
         let payload = canonical_json to_vec payload;
             message = as_bytes ''agent-remote/ego-browser/pop/v2'' @ [0]
         in bind_r (append_fields message [dp_operation context, dp_device_id context])
              (\<lambda>message.
            let message = message @ be64 (dp_device_generation context)
                  @ be64 (dp_operation_generation context)
            in bind_r (append_fields message
                 [unwrap_or_default (dp_binding_id context), dp_release_profile context,
                  dp_credential_profile context, dp_server_host context])
               (\<lambda>message. Inr (message @ challenge @ sha256 payload))))"

text \<open>Length-prefixed fields form a prefix code.\<close>

definition encoded_field :: "string \<Rightarrow> bytes" where
  "encoded_field v = be32 (of_nat (length v)) @ as_bytes v"

lemma append_field_Inr: "append_field m v = Inr r \<longleftrightarrow> length v < 2 ^ 32 \<and> r = m @ encoded_field v"
  by (auto simp: append_field_def Let_def encoded_field_def)

lemma append_fields_Inr:
  "append_fields m vs = Inr r \<longleftrightarrow>
     (\<forall>v \<in> set vs. length v < 2 ^ 32) \<and> r = m @ concat (map encoded_field vs)"
  by (induction vs arbitrary: m) (auto simp: bind_r_Inr_iff append_field_Inr)

lemma encoded_field_cancel:
  assumes "length v < 2 ^ 32" "length w < 2 ^ 32"
  shows "encoded_field v @ x = encoded_field w @ y \<longleftrightarrow> v = w \<and> x = y"
proof
  assume eq: "encoded_field v @ x = encoded_field w @ y"
  then have "(of_nat (length v) :: u32) = of_nat (length w)"
    by (simp add: encoded_field_def append_eq_len)
  then have "length v = length w"
    using assms by (simp add: word_of_nat_eq_iff take_bit_nat_eq_self)
  with eq show "v = w \<and> x = y" by (simp add: encoded_field_def append_eq_len)
qed simp

lemma device_proof_message_Inr:
  "device_proof_message sha256 to_vec ctx ch payload = Inr m \<longleftrightarrow>
    (\<exists>object. as_object payload = Some object \<and>
       ''proof_challenge'' \<notin> set (keys_of object) \<and> ''proof_signature'' \<notin> set (keys_of object)) \<and>
    dp_operation ctx \<noteq> [] \<and> dp_device_id ctx \<noteq> [] \<and> dp_device_generation ctx \<noteq> 0 \<and>
    dp_operation_generation ctx \<noteq> 0 \<and> dp_release_profile ctx \<noteq> [] \<and>
    dp_credential_profile ctx \<noteq> [] \<and> dp_server_host ctx \<noteq> [] \<and> length ch = 32 \<and>
    (\<forall>v \<in> {dp_operation ctx, dp_device_id ctx, unwrap_or_default (dp_binding_id ctx),
            dp_release_profile ctx, dp_credential_profile ctx, dp_server_host ctx}.
       length v < 2 ^ 32) \<and>
    m = as_bytes ''agent-remote/ego-browser/pop/v2'' @ 0 # encoded_field (dp_operation ctx) @
        encoded_field (dp_device_id ctx) @ be64 (dp_device_generation ctx) @
        be64 (dp_operation_generation ctx) @
        encoded_field (unwrap_or_default (dp_binding_id ctx)) @
        encoded_field (dp_release_profile ctx) @ encoded_field (dp_credential_profile ctx) @
        encoded_field (dp_server_host ctx) @ ch @ sha256 (canonical_json to_vec payload)"
proof (cases "as_object payload")
  case (Some object)
  then show ?thesis
    by (simp add: device_proof_message_def append_fields_Inr bind_r_Inr_iff Let_def
        del: append_fields.simps) (auto simp: append_fields_Inr)
qed (simp add: device_proof_message_def)

section \<open>Properties\<close>

text \<open>C9: a device proof transcript is unambiguous: when two accepted contexts, challenges and
  payloads give the same bytes, they agree on every field (an absent binding counting as the empty
  one), on the challenge and on the digest of the canonical payload.\<close>

theorem device_proof_unambiguous:
  assumes "device_proof_message sha256 to_vec c ch p = Inr m"
    and "device_proof_message sha256 to_vec c' ch' p' = Inr m"
  shows "dp_operation c = dp_operation c' \<and> dp_device_id c = dp_device_id c' \<and>
    dp_device_generation c = dp_device_generation c' \<and>
    dp_operation_generation c = dp_operation_generation c' \<and>
    unwrap_or_default (dp_binding_id c) = unwrap_or_default (dp_binding_id c') \<and>
    dp_release_profile c = dp_release_profile c' \<and>
    dp_credential_profile c = dp_credential_profile c' \<and>
    dp_server_host c = dp_server_host c' \<and> ch = ch' \<and>
    sha256 (canonical_json to_vec p) = sha256 (canonical_json to_vec p')"
proof -
  note m = assms [unfolded device_proof_message_Inr]
  have len: "length ch = 32" "length ch' = 32" using m by blast+
  have "encoded_field (dp_operation c) @ encoded_field (dp_device_id c) @
      be64 (dp_device_generation c) @ be64 (dp_operation_generation c) @
      encoded_field (unwrap_or_default (dp_binding_id c)) @ encoded_field (dp_release_profile c) @
      encoded_field (dp_credential_profile c) @ encoded_field (dp_server_host c) @ ch @
      sha256 (canonical_json to_vec p)
    = encoded_field (dp_operation c') @ encoded_field (dp_device_id c') @
      be64 (dp_device_generation c') @ be64 (dp_operation_generation c') @
      encoded_field (unwrap_or_default (dp_binding_id c')) @ encoded_field (dp_release_profile c') @
      encoded_field (dp_credential_profile c') @ encoded_field (dp_server_host c') @ ch' @
      sha256 (canonical_json to_vec p')"
    using m by simp
  then show ?thesis
    using m len by (simp add: encoded_field_cancel append_eq_len)
qed

definition sample_context :: device_proof_context where
  "sample_context = \<lparr>dp_operation = ''bind'', dp_device_id = ''d-1'', dp_device_generation = 1,
     dp_operation_generation = 4, dp_binding_id = None, dp_release_profile = ''developer-id'',
     dp_credential_profile = ''community_file'', dp_server_host = ''example.org''\<rparr>"

theorem device_proof_unambiguous_witness:
  "let payload = JObject [(''nonce'', JString ''n'')]; ch = replicate 32 (1 :: u8);
       c = sample_context\<lparr>dp_binding_id := Some []\<rparr>
   in device_proof_message id tagged_bytes sample_context ch payload
        = device_proof_message id tagged_bytes c ch payload \<and>
      unwrap_or_default (dp_binding_id sample_context) = unwrap_or_default (dp_binding_id c)"
proof -
  let ?payload = "JObject [(''nonce'', JString ''n'')]" and ?ch = "replicate 32 (1 :: u8)"
  let ?c = "sample_context\<lparr>dp_binding_id := Some []\<rparr>"
  obtain m where m: "device_proof_message id tagged_bytes sample_context ?ch ?payload = Inr m"
    by (simp add: device_proof_message_Inr sample_context_def)
  then have m': "device_proof_message id tagged_bytes ?c ?ch ?payload = Inr m"
    by (simp add: device_proof_message_Inr sample_context_def)
  have "unwrap_or_default (dp_binding_id sample_context) = unwrap_or_default (dp_binding_id ?c)"
    using device_proof_unambiguous [OF m m'] by (elim conjE)
  with m m' show ?thesis unfolding Let_def by simp
qed

end
