(* ===== verification/Framing.thy ===== *)
theory Framing
  imports Prelude
begin

text \<open>
  The length-prefixed framing of \<open>crates/protocol/src/framing.rs\<close>.  A \<open>byte_reader\<close> is an
  \<open>AsyncRead\<close>: the bytes still to come and what follows them, the end of the stream or an I/O error.
  A \<open>byte_writer\<close> is an \<open>AsyncWrite\<close>: what was written, how many more bytes it takes before an
  I/O error (\<open>None\<close> for no limit), and whether a flush fails.
\<close>

datatype stream_end = Eof | Broken string

record byte_reader =
  br_data :: bytes
  br_end :: stream_end

record byte_writer =
  bw_out :: bytes
  bw_room :: "nat option"
  bw_flush_error :: "string option"

datatype frame_error = Io string | TooLarge nat nat | Truncated

datatype read_error = UnexpectedEof | Other string

text \<open>\<open>read_exact\<close> takes the bytes off the stream; on failure it has consumed what there was.\<close>

definition read_exact :: "byte_reader \<Rightarrow> nat \<Rightarrow> byte_reader \<times> (read_error + bytes)" where
  "read_exact r n =
     (if n \<le> length (br_data r)
      then (r\<lparr>br_data := drop n (br_data r)\<rparr>, Inr (take n (br_data r)))
      else (r\<lparr>br_data := []\<rparr>,
        Inl (case br_end r of Eof \<Rightarrow> UnexpectedEof | Broken m \<Rightarrow> Other m)))"

fun frame_read_error :: "read_error \<Rightarrow> frame_error" where
  "frame_read_error UnexpectedEof = Truncated"
| "frame_read_error (Other m) = Io m"

definition read_frame :: "byte_reader \<Rightarrow> nat \<Rightarrow> byte_reader \<times> (frame_error + bytes option)" where
  "read_frame r maximum =
     (case br_data r of
        [] \<Rightarrow> (r, case br_end r of Eof \<Rightarrow> Inr None | Broken m \<Rightarrow> Inl (Io m))
      | first # rest \<Rightarrow>
         (case read_exact (r\<lparr>br_data := rest\<rparr>) 3 of
            (r, Inl e) \<Rightarrow> (r, Inl (frame_read_error e))
          | (r, Inr header) \<Rightarrow>
              let length = from_be (first # header)
              in if length > maximum then (r, Inl (TooLarge length maximum))
                 else (case read_exact r length of
                     (r, Inl e) \<Rightarrow> (r, Inl (frame_read_error e))
                   | (r, Inr frame) \<Rightarrow> (r, Inr (Some frame)))))"

definition write_all :: "byte_writer \<Rightarrow> bytes \<Rightarrow> byte_writer \<times> (string + unit)" where
  "write_all w bs =
     (case bw_room w of
        None \<Rightarrow> (w\<lparr>bw_out := bw_out w @ bs\<rparr>, Inr ())
      | Some n \<Rightarrow>
          if length bs \<le> n
          then (w\<lparr>bw_out := bw_out w @ bs, bw_room := Some (n - length bs)\<rparr>, Inr ())
          else (w\<lparr>bw_out := bw_out w @ take n bs, bw_room := Some 0\<rparr>, Inl ''write''))"

definition flush :: "byte_writer \<Rightarrow> string + unit" where
  "flush w = (case bw_flush_error w of None \<Rightarrow> Inr () | Some m \<Rightarrow> Inl m)"

definition U32_MAX :: nat where "U32_MAX = 2 ^ 32 - 1"

definition write_frame :: "byte_writer \<Rightarrow> bytes \<Rightarrow> nat \<Rightarrow> byte_writer \<times> (frame_error + unit)" where
  "write_frame w frame maximum =
     (if length frame > maximum \<or> length frame > U32_MAX
      then (w, Inl (TooLarge (length frame) (min maximum U32_MAX)))
      else (case write_all w (be32 (of_nat (length frame))) of
          (w, Inl m) \<Rightarrow> (w, Inl (Io m))
        | (w, Inr _) \<Rightarrow>
            (case write_all w frame of
               (w, Inl m) \<Rightarrow> (w, Inl (Io m))
             | (w, Inr _) \<Rightarrow> (w, map_err Io (flush w)))))"

text \<open>Sending and receiving a sequence of frames on one connection.\<close>

fun write_frames :: "byte_writer \<Rightarrow> bytes list \<Rightarrow> nat \<Rightarrow> byte_writer \<times> (frame_error + unit)" where
  "write_frames w [] maximum = (w, Inr ())"
| "write_frames w (f # fs) maximum =
     (case write_frame w f maximum of
        (w, Inl e) \<Rightarrow> (w, Inl e)
      | (w, Inr _) \<Rightarrow> write_frames w fs maximum)"

lemma read_frame_consumes:
  assumes "read_frame r n = (r', Inr (Some f))"
  shows "length (br_data r') < length (br_data r)"
  using assms
  by (auto simp: read_frame_def read_exact_def Let_def
      split: list.splits if_splits stream_end.splits)

function read_frames :: "byte_reader \<Rightarrow> nat \<Rightarrow> bytes list \<times> frame_error option" where
  "read_frames r maximum =
     (case read_frame r maximum of
        (r', Inl e) \<Rightarrow> ([], Some e)
      | (r', Inr None) \<Rightarrow> ([], None)
      | (r', Inr (Some f)) \<Rightarrow> (let (fs, e) = read_frames r' maximum in (f # fs, e)))"
  by pat_completeness auto
termination
  by (relation "measure (\<lambda>(r, n). length (br_data r))") (auto dest: read_frame_consumes [OF sym])

declare read_frames.simps [simp del]

section \<open>The bytes of a frame\<close>

definition frame_bytes :: "bytes \<Rightarrow> bytes" where
  "frame_bytes f = be32 (of_nat (length f)) @ f"

definition frame_fits :: "nat \<Rightarrow> bytes \<Rightarrow> bool" where
  "frame_fits maximum f \<longleftrightarrow> length f \<le> maximum \<and> length f \<le> U32_MAX"

lemma from_be32_length: "frame_fits m f \<Longrightarrow> from_be (be32 (of_nat (length f))) = length f"
  by (simp add: frame_fits_def U32_MAX_def unsigned_of_nat take_bit_nat_eq_self)

lemma read_frame_cases:
  assumes "4 \<le> length (br_data r)"
  shows "read_frame r m =
    (let n = from_be (take 4 (br_data r)); body = drop 4 (br_data r)
     in if n > m then (r\<lparr>br_data := body\<rparr>, Inl (TooLarge n m))
        else if n \<le> length body then (r\<lparr>br_data := drop n body\<rparr>, Inr (Some (take n body)))
        else (r\<lparr>br_data := []\<rparr>, Inl (case br_end r of Eof \<Rightarrow> Truncated | Broken e \<Rightarrow> Io e)))"
proof -
  obtain a b c d rest where "br_data r = a # b # c # d # rest"
    using assms by (auto simp: numeral_eq_Suc Suc_le_length_iff)
  then show ?thesis
    by (auto simp: read_frame_def read_exact_def Let_def numeral_eq_Suc split: stream_end.splits)
qed

lemma read_frame_bytes:
  assumes "frame_fits m f"
  shows "read_frame \<lparr>br_data = frame_bytes f @ rest, br_end = e\<rparr> m
    = (\<lparr>br_data = rest, br_end = e\<rparr>, Inr (Some f))"
  using assms from_be32_length [OF assms]
  by (subst read_frame_cases) (simp_all add: frame_bytes_def Let_def frame_fits_def)

lemma write_all_ok:
  "write_all w bs = (w', Inr ()) \<Longrightarrow>
     bw_out w' = bw_out w @ bs \<and> bw_flush_error w' = bw_flush_error w"
  by (auto simp: write_all_def split: option.splits if_splits)

lemma write_frame_ok:
  assumes "write_frame w f m = (w', Inr ())"
  shows "bw_out w' = bw_out w @ frame_bytes f \<and> frame_fits m f"
  using assms
  by (auto simp: write_frame_def frame_bytes_def frame_fits_def split: prod.splits sum.splits if_splits
      dest!: write_all_ok)

lemma write_frames_ok:
  "write_frames w fs m = (w', Inr ()) \<Longrightarrow>
     bw_out w' = bw_out w @ concat (map frame_bytes fs) \<and> (\<forall>f \<in> set fs. frame_fits m f)"
proof (induction fs arbitrary: w)
  case (Cons f fs)
  then obtain w1 where "write_frame w f m = (w1, Inr ())" "write_frames w1 fs m = (w', Inr ())"
    by (auto split: prod.splits sum.splits)
  then show ?case using Cons.IH [of w1] write_frame_ok [of w f m w1] by simp
qed simp

lemma read_frames_bytes:
  "\<forall>f \<in> set fs. frame_fits m f \<Longrightarrow>
     read_frames \<lparr>br_data = concat (map frame_bytes fs), br_end = Eof\<rparr> m = (fs, None)"
proof (induction fs)
  case Nil
  show ?case by (subst read_frames.simps) (simp add: read_frame_def)
next
  case (Cons f fs)
  then show ?case by (subst read_frames.simps) (simp add: read_frame_bytes)
qed

section \<open>Properties\<close>

text \<open>C10: what one side writes as a sequence of frames, the other reads back as the same frames in
  the same order, followed by a clean end of stream.\<close>

theorem frames_roundtrip:
  assumes "write_frames \<lparr>bw_out = [], bw_room = room, bw_flush_error = fe\<rparr> fs maximum = (w, Inr ())"
  shows "read_frames \<lparr>br_data = bw_out w, br_end = Eof\<rparr> maximum = (fs, None)"
  using write_frames_ok [OF assms] read_frames_bytes [of fs maximum] by simp

theorem frames_roundtrip_witness:
  "read_frames \<lparr>br_data = [0, 0, 0, 2, 7, 8, 0, 0, 0, 0], br_end = Eof\<rparr> 16 = ([[7, 8], []], None)"
  using frames_roundtrip [of "Some 10" None "[[7, 8], []]" 16
      "\<lparr>bw_out = [0, 0, 0, 2, 7, 8, 0, 0, 0, 0], bw_room = Some 0, bw_flush_error = None\<rparr>"]
  by (simp add: write_frame_def write_all_def flush_def be32_def be_digits_numeral U32_MAX_def)

text \<open>Reading never returns a frame above the limit and takes exactly the bytes of that frame
  off the stream.\<close>

theorem read_frame_bounded:
  assumes "read_frame r m = (r', Inr (Some f))"
  shows "length f \<le> m \<and>
    (\<exists>header. length header = 4 \<and> from_be header = length f \<and> br_data r = header @ f @ br_data r')"
proof -
  have len: "4 \<le> length (br_data r)"
    using assms by (auto simp: read_frame_def read_exact_def split: list.splits if_splits
        stream_end.splits)
  let ?h = "take 4 (br_data r)"
  have rf: "from_be ?h \<le> m \<and> from_be ?h \<le> length (drop 4 (br_data r)) \<and>
      f = take (from_be ?h) (drop 4 (br_data r)) \<and>
      br_data r' = drop (from_be ?h) (drop 4 (br_data r))"
    using assms unfolding read_frame_cases [OF len] Let_def by (auto split: if_splits)
  have f: "length f = from_be ?h" using rf by simp
  moreover have "f @ br_data r' = drop 4 (br_data r)" using rf by (simp only: append_take_drop_id)
  ultimately have "length f = from_be ?h" "f @ br_data r' = drop 4 (br_data r)" .
  then have "br_data r = ?h @ f @ br_data r'" by (simp only: append_take_drop_id)
  with f rf len show ?thesis by (intro conjI exI [of _ ?h]) simp_all
qed

theorem read_frame_bounded_witness:
  "read_frame \<lparr>br_data = [0, 0, 0, 1, 7, 9], br_end = Eof\<rparr> 4
     = (\<lparr>br_data = [9], br_end = Eof\<rparr>, Inr (Some [7])) \<and> length [7 :: u8] \<le> 4"
proof -
  have ok: "read_frame \<lparr>br_data = [0, 0, 0, 1, 7, 9], br_end = Eof\<rparr> 4
      = (\<lparr>br_data = [9], br_end = Eof\<rparr>, Inr (Some [7]))"
    by (simp add: read_frame_def read_exact_def from_be_def)
  with read_frame_bounded [OF ok] show ?thesis by blast
qed

text \<open>A stream that ends inside a frame is reported as truncated, wherever it ends: with a
  proper, non-empty prefix of a frame there is neither a frame nor a clean end of stream.\<close>

theorem truncated_frame_detected:
  assumes "frame_fits m f" and "0 < n" and "n < length (frame_bytes f)"
  shows "snd (read_frame \<lparr>br_data = take n (frame_bytes f), br_end = Eof\<rparr> m) = Inl Truncated"
proof (cases "4 \<le> n")
  case True
  with assms have "take 4 (take n (frame_bytes f)) = be32 (of_nat (length f))"
    by (simp add: frame_bytes_def min_def)
  with True assms show ?thesis
    using from_be32_length [of m f]
    by (subst read_frame_cases) (auto simp: Let_def frame_fits_def frame_bytes_def)
next
  case False
  with assms obtain a xs where "take n (frame_bytes f) = a # xs" "length xs < 3"
    by (cases "take n (frame_bytes f)") (auto simp: frame_bytes_def dest!: arg_cong [of _ _ length])
  then show ?thesis by (simp add: read_frame_def read_exact_def)
qed

theorem truncated_frame_detected_witness:
  "frame_bytes [7, 8] = [0, 0, 0, 2, 7, 8] \<and>
   snd (read_frame \<lparr>br_data = take 5 (frame_bytes [7, 8]), br_end = Eof\<rparr> 4) = Inl Truncated"
  using truncated_frame_detected [of 4 "[7, 8]" 5]
  by (simp add: frame_bytes_def be32_def be_digits_numeral frame_fits_def U32_MAX_def)

end
