(* ===== verification/Scheduler.thy ===== *)
theory Scheduler
  imports Protocol_Types
begin

text \<open>
  Scope normalization and the immediate-fail scheduler of \<open>crates/protocol/src/scheduler.rs\<close>.
  A \<open>scheduler\<close> is the content of the shared mutex with the configured maximum; \<open>poisoned\<close> is the
  mutex's poison flag.  A \<open>permit_guard\<close> is the value the RAII guard holds; \<open>guard_drop\<close> is its
  \<open>Drop\<close>.  The locale \<open>lock_manager\<close> states what a client of such a scheduler relies on, and is
  interpreted on \<open>try_acquire\<close> and \<open>guard_drop\<close>.
\<close>

section \<open>Scopes\<close>

record request_scope =
  rs_mode :: concurrency_mode
  rs_task_space :: "string option"
  rs_tab :: "string option"

definition valid_scope :: "string \<Rightarrow> bool" where
  "valid_scope value \<longleftrightarrow> length value \<le> 256 \<and> list_all printable value"

definition filter_option :: "('a \<Rightarrow> bool) \<Rightarrow> 'a option \<Rightarrow> 'a option" where
  "filter_option p m = (case m of None \<Rightarrow> None | Some x \<Rightarrow> if p x then Some x else None)"

definition scope_normalized ::
  "concurrency_mode option \<Rightarrow> string option \<Rightarrow> string option \<Rightarrow> request_scope" where
  "scope_normalized mode0 task_space0 tab0 =
    (let mode = (case mode0 of None \<Rightarrow> Binding | Some m \<Rightarrow> m);
         task_space = filter_option (\<lambda>v. v \<noteq> []) (map_option trim task_space0);
         tab = filter_option (\<lambda>v. v \<noteq> []) (map_option trim tab0)
     in if mode = Binding \<or> task_space = None
           \<or> is_some_and task_space (\<lambda>v. \<not> valid_scope v)
           \<or> is_some_and task_space (\<lambda>v. CHR ''*'' \<in> set v)
           \<or> mode = TaskSpaceTab \<and>
             (tab = None \<or> is_some_and tab (\<lambda>v. CHR ''*'' \<in> set v \<or> \<not> valid_scope v))
        then \<lparr>rs_mode = Binding, rs_task_space = None, rs_tab = None\<rparr>
        else \<lparr>rs_mode = mode, rs_task_space = task_space, rs_tab = tab\<rparr>)"

text \<open>A scope in normal form: the whole binding, or a trimmed, bounded Task Space without
  wildcard, with a tab of the same kind in tab mode.\<close>

definition scope_name_ok :: "string \<Rightarrow> bool" where
  "scope_name_ok v \<longleftrightarrow> v \<noteq> [] \<and> trim v = v \<and> valid_scope v \<and> CHR ''*'' \<notin> set v"

definition scope_normal :: "request_scope \<Rightarrow> bool" where
  "scope_normal s \<longleftrightarrow>
     (if rs_mode s = Binding then rs_task_space s = None \<and> rs_tab s = None
      else is_some_and (rs_task_space s) scope_name_ok \<and>
        (rs_mode s = TaskSpaceTab \<longrightarrow> is_some_and (rs_tab s) scope_name_ok) \<and>
        (rs_tab s \<noteq> None \<longrightarrow> is_some_and (rs_tab s) (\<lambda>v. v \<noteq> [] \<and> trim v = v)))"

lemma filter_option_Some_iff [simp]: "filter_option p m = Some x \<longleftrightarrow> m = Some x \<and> p x"
  by (cases m) (auto simp: filter_option_def)

lemma filter_option_None [simp]: "filter_option p None = None"
  by (simp add: filter_option_def)

lemma filter_option_Some: "filter_option p (Some x) = (if p x then Some x else None)"
  by (simp add: filter_option_def)

lemma trimmed_Some:
  "filter_option (\<lambda>v. v \<noteq> []) (map_option trim t) = Some v \<Longrightarrow> v \<noteq> [] \<and> trim v = v"
  by auto

lemma normalized_is_normal: "scope_normal (scope_normalized m t b)"
proof -
  define ts where "ts = filter_option (\<lambda>v. v \<noteq> []) (map_option trim t)"
  define tab where "tab = filter_option (\<lambda>v. v \<noteq> []) (map_option trim b)"
  note eq = scope_normalized_def Let_def ts_def [symmetric] tab_def [symmetric]
  show ?thesis
  proof (cases ts)
    case None
    then show ?thesis by (simp add: eq scope_normal_def)
  next
    case (Some v)
    then have v: "v \<noteq> []" "trim v = v" unfolding ts_def by (auto dest: trimmed_Some)
    show ?thesis
    proof (cases tab)
      case None
      with Some v show ?thesis by (simp add: eq scope_normal_def scope_name_ok_def)
    next
      case (Some w)
      then have w: "w \<noteq> []" "trim w = w" unfolding tab_def by (auto dest: trimmed_Some)
      with Some \<open>ts = Some v\<close> v show ?thesis
        by (simp add: eq scope_normal_def scope_name_ok_def)
    qed
  qed
qed

lemma normalized_of_normal:
  assumes "scope_normal s"
  shows "scope_normalized (Some (rs_mode s)) (rs_task_space s) (rs_tab s) = s"
  using assms
  by (cases s; cases "rs_task_space s"; cases "rs_tab s")
    (auto simp: scope_normalized_def scope_normal_def scope_name_ok_def filter_option_def
      split: if_splits)

section \<open>Scheduler\<close>

datatype scheduler_error = InvalidMaximum | LimitReached | Conflict | Poisoned

record scheduler =
  sch_maximum :: nat
  sch_active :: nat
  sch_binding_held :: bool
  sch_keys :: "string set"
  sch_poisoned :: bool

record permit_guard =
  pg_keys :: "string list"
  pg_binding :: bool
  pg_generation :: u64
  pg_request_id :: string

definition scheduler_new :: "nat \<Rightarrow> scheduler_error + scheduler" where
  "scheduler_new maximum =
    (if maximum = 0 \<or> maximum > 4 then Inl InvalidMaximum
     else Inr \<lparr>sch_maximum = maximum, sch_active = 0, sch_binding_held = False,
                sch_keys = {}, sch_poisoned = False\<rparr>)"

definition lock_keys :: "request_scope \<Rightarrow> string list" where
  "lock_keys scope =
    (let ts = unwrap_or_default (rs_task_space scope); tab = unwrap_or_default (rs_tab scope)
     in case rs_mode scope of
          Binding \<Rightarrow> [''binding'']
        | TaskSpace \<Rightarrow> [''task-space:'' @ ts]
        | TaskSpaceTab \<Rightarrow> [''task-space:'' @ ts, ''tab:'' @ ts @ '':'' @ tab])"

definition try_acquire ::
  "scheduler \<Rightarrow> u64 \<Rightarrow> string \<Rightarrow> request_scope \<Rightarrow> scheduler_error + (scheduler \<times> permit_guard)" where
  "try_acquire s generation request_id scope =
    (if sch_poisoned s then Inl Poisoned
     else if sch_active s \<ge> sch_maximum s then Inl LimitReached
     else
       let keys = lock_keys scope;
           acquired = Inr
             (s\<lparr>sch_keys := sch_keys s \<union> set keys,
                sch_binding_held := sch_binding_held s \<or> rs_mode scope = Binding,
                sch_active := sch_active s + 1\<rparr>,
              \<lparr>pg_keys = keys, pg_binding = (rs_mode scope = Binding),
               pg_generation = generation, pg_request_id = request_id\<rparr>)
       in if rs_mode scope = Binding
          then if sch_active s \<noteq> 0 \<or> sch_binding_held s then Inl Conflict else acquired
          else if sch_binding_held s \<or> list_ex (\<lambda>k. k \<in> sch_keys s) keys then Inl Conflict
          else acquired)"

definition guard_drop :: "scheduler \<Rightarrow> permit_guard \<Rightarrow> scheduler" where
  "guard_drop s g =
    (if sch_poisoned s then s
     else s\<lparr>sch_keys := foldl (\<lambda>ks k. ks - {k}) (sch_keys s) (rev (pg_keys g)),
            sch_binding_held := (if pg_binding g then False else sch_binding_held s),
            sch_active := sch_active s - 1\<rparr>)"

definition active_count :: "scheduler \<Rightarrow> nat" where
  "active_count s = (if sch_poisoned s then sch_maximum s else sch_active s)"

definition guard_matches :: "permit_guard \<Rightarrow> u64 \<Rightarrow> string \<Rightarrow> bool" where
  "guard_matches g generation request_id \<longleftrightarrow>
     pg_generation g = generation \<and> pg_request_id g = request_id"

lemma foldl_remove: "foldl (\<lambda>ks k. ks - {k}) K ks = K - set ks"
  by (induction ks arbitrary: K) auto

lemma lock_keys_nonempty: "lock_keys scope \<noteq> []"
  by (cases "rs_mode scope") (simp_all add: lock_keys_def Let_def)

section \<open>The interface of a lock manager\<close>

text \<open>The states and live guards that acquisitions and releases can lead to.\<close>

inductive lock_reach ::
  "('s \<Rightarrow> 'r \<Rightarrow> ('s \<times> 'g) option) \<Rightarrow> ('s \<Rightarrow> 'g \<Rightarrow> 's) \<Rightarrow> 's \<Rightarrow> 's \<Rightarrow> 'g list \<Rightarrow> bool"
  for acquire :: "'s \<Rightarrow> 'r \<Rightarrow> ('s \<times> 'g) option" and release :: "'s \<Rightarrow> 'g \<Rightarrow> 's" and s0 :: 's where
  start: "lock_reach acquire release s0 s0 []"
| acquired: "lock_reach acquire release s0 s gs \<Longrightarrow> acquire s r = Some (t, g) \<Longrightarrow>
     lock_reach acquire release s0 t (g # gs)"
| released: "lock_reach acquire release s0 s gs \<Longrightarrow> g \<in> set gs \<Longrightarrow>
     lock_reach acquire release s0 (release s g) (remove1 g gs)"

text \<open>\<open>inv\<close> relates a state to its live guards, \<open>capacity\<close> bounds their number, and \<open>clash\<close>
  says which guards may not be alive together.\<close>

locale lock_manager =
  fixes acquire :: "'s \<Rightarrow> 'r \<Rightarrow> ('s \<times> 'g) option"
    and release :: "'s \<Rightarrow> 'g \<Rightarrow> 's"
    and inv :: "'s \<Rightarrow> 'g list \<Rightarrow> bool"
    and capacity :: "'s \<Rightarrow> nat"
    and clash :: "'g \<Rightarrow> 'g \<Rightarrow> bool"
  assumes acquire_inv: "inv s gs \<Longrightarrow> acquire s r = Some (t, g) \<Longrightarrow> inv t (g # gs)"
    and release_inv: "inv s gs \<Longrightarrow> g \<in> set gs \<Longrightarrow> inv (release s g) (remove1 g gs)"
    and acquire_capacity: "acquire s r = Some (t, g) \<Longrightarrow> capacity t = capacity s"
    and release_capacity: "capacity (release s g) = capacity s"
    and inv_bounded: "inv s gs \<Longrightarrow> length gs \<le> capacity s"
    and inv_exclusive: "inv s gs \<Longrightarrow> sorted_wrt (\<lambda>g h. \<not> clash g h) gs"
    and release_acquire: "inv s gs \<Longrightarrow> acquire s r = Some (t, g) \<Longrightarrow> release t g = s"
begin

lemma reach_inv: "lock_reach acquire release s0 s gs \<Longrightarrow> inv s0 [] \<Longrightarrow> inv s gs"
  by (induction rule: lock_reach.induct) (auto intro: acquire_inv release_inv)

lemma reach_capacity: "lock_reach acquire release s0 s gs \<Longrightarrow> capacity s = capacity s0"
  by (induction rule: lock_reach.induct) (auto simp: acquire_capacity release_capacity)

lemma reach_safe:
  assumes "lock_reach acquire release s0 s gs" and "inv s0 []"
  shows "length gs \<le> capacity s0" and "sorted_wrt (\<lambda>g h. \<not> clash g h) gs"
  using inv_bounded [OF reach_inv [OF assms]] inv_exclusive [OF reach_inv [OF assms]]
    reach_capacity [OF assms(1)] by auto

end

section \<open>The scheduler is a lock manager\<close>

definition sch_try :: "scheduler \<Rightarrow> u64 \<times> string \<times> request_scope \<Rightarrow> (scheduler \<times> permit_guard) option"
  where
  "sch_try s r = (case r of (generation, request_id, scope) \<Rightarrow>
     (case try_acquire s generation request_id scope of Inl _ \<Rightarrow> None | Inr x \<Rightarrow> Some x))"

definition guard_clash :: "permit_guard \<Rightarrow> permit_guard \<Rightarrow> bool" where
  "guard_clash g h \<longleftrightarrow> pg_binding g \<or> pg_binding h \<or> set (pg_keys g) \<inter> set (pg_keys h) \<noteq> {}"

definition guards_keys :: "permit_guard list \<Rightarrow> string set" where
  "guards_keys gs = (\<Union>g \<in> set gs. set (pg_keys g))"

definition sch_inv :: "scheduler \<Rightarrow> permit_guard list \<Rightarrow> bool" where
  "sch_inv s gs \<longleftrightarrow> \<not> sch_poisoned s \<and> sch_active s = length gs \<and> length gs \<le> sch_maximum s \<and>
     sch_keys s = guards_keys gs \<and> sch_binding_held s = (\<exists>g \<in> set gs. pg_binding g) \<and>
     sorted_wrt (\<lambda>g h. \<not> guard_clash g h) gs \<and> (\<forall>g \<in> set gs. pg_keys g \<noteq> [])"

lemma guards_keys_simps [simp]:
  "guards_keys [] = {}" "guards_keys (g # gs) = set (pg_keys g) \<union> guards_keys gs"
  by (simp_all add: guards_keys_def)

lemma guard_clash_sym: "guard_clash g h = guard_clash h g"
  by (auto simp: guard_clash_def)

lemma guard_clash_self: "pg_keys g \<noteq> [] \<Longrightarrow> guard_clash g g"
  by (simp add: guard_clash_def)

lemma pairwise_remove1: "sorted_wrt P gs \<Longrightarrow> sorted_wrt P (remove1 g gs)"
  by (induction gs) (auto dest: notin_set_remove1)

lemma sch_try_Some:
  "sch_try s (gen, rid, scope) = Some (t, g) \<longleftrightarrow>
     \<not> sch_poisoned s \<and> sch_active s < sch_maximum s \<and>
     (if rs_mode scope = Binding then sch_active s = 0 \<and> \<not> sch_binding_held s
      else \<not> sch_binding_held s \<and> set (lock_keys scope) \<inter> sch_keys s = {}) \<and>
     t = s\<lparr>sch_keys := sch_keys s \<union> set (lock_keys scope),
           sch_binding_held := sch_binding_held s \<or> rs_mode scope = Binding,
           sch_active := sch_active s + 1\<rparr> \<and>
     g = \<lparr>pg_keys = lock_keys scope, pg_binding = (rs_mode scope = Binding),
          pg_generation = gen, pg_request_id = rid\<rparr>"
  by (auto simp: sch_try_def try_acquire_def Let_def list_ex_iff disjoint_iff)

lemma no_clash_others:
  assumes "sorted_wrt (\<lambda>g h. \<not> guard_clash g h) gs" "g \<in> set gs" "h \<in> set (remove1 g gs)"
  shows "\<not> guard_clash g h"
  using assms
proof (induction gs)
  case (Cons x gs)
  show ?case
  proof (cases "x = g")
    case True
    with Cons.prems show ?thesis by simp
  next
    case False
    with Cons.prems have g: "g \<in> set gs" and h: "h = x \<or> h \<in> set (remove1 g gs)" by auto
    from Cons.prems(1) g have "\<not> guard_clash x g" by simp
    then have "\<not> guard_clash g x" by (simp add: guard_clash_sym [of g x])
    with Cons.IH [OF _ g] Cons.prems(1) h show ?thesis by auto
  qed
qed simp

lemma guards_keys_remove1:
  assumes "sorted_wrt (\<lambda>g h. \<not> guard_clash g h) gs" "g \<in> set gs"
  shows "guards_keys gs - set (pg_keys g) = guards_keys (remove1 g gs)"
proof -
  have "guards_keys gs = set (pg_keys g) \<union> guards_keys (remove1 g gs)"
    using assms(2) by (induction gs) auto
  moreover have "set (pg_keys g) \<inter> guards_keys (remove1 g gs) = {}"
    using no_clash_others [OF assms] by (auto simp: guards_keys_def guard_clash_def)
  ultimately show ?thesis by blast
qed

lemma sch_acquire_inv: "sch_inv s gs \<Longrightarrow> sch_try s r = Some (t, g) \<Longrightarrow> sch_inv t (g # gs)"
proof -
  assume inv: "sch_inv s gs" and "sch_try s r = Some (t, g)"
  obtain gen rid scope where r: "r = (gen, rid, scope)" by (cases r)
  note * = \<open>sch_try s r = Some (t, g)\<close> [unfolded r sch_try_Some]
  have "\<not> guard_clash g h" if "h \<in> set gs" for h
  proof (cases "rs_mode scope = Binding")
    case True
    with * inv that show ?thesis by (auto simp: sch_inv_def)
  next
    case False
    with * inv that show ?thesis
      by (auto simp: sch_inv_def guard_clash_def guards_keys_def disjoint_iff)
  qed
  with * inv show ?thesis by (auto simp: sch_inv_def lock_keys_nonempty)
qed

lemma sch_release_inv: "sch_inv s gs \<Longrightarrow> g \<in> set gs \<Longrightarrow> sch_inv (guard_drop s g) (remove1 g gs)"
proof -
  assume inv: "sch_inv s gs" and g: "g \<in> set gs"
  then have pw: "sorted_wrt (\<lambda>g h. \<not> guard_clash g h) gs" by (simp add: sch_inv_def)
  have keys: "sch_keys (guard_drop s g) = guards_keys (remove1 g gs)"
    using inv guards_keys_remove1 [OF pw g] by (simp add: sch_inv_def guard_drop_def foldl_remove)
  have held: "sch_binding_held (guard_drop s g) = (\<exists>h \<in> set (remove1 g gs). pg_binding h)"
  proof (cases "pg_binding g")
    case True
    with no_clash_others [OF pw g] have "\<forall>h \<in> set (remove1 g gs). \<not> pg_binding h"
      by (auto simp: guard_clash_def)
    with inv True show ?thesis by (simp add: sch_inv_def guard_drop_def)
  next
    case False
    have "set gs = insert g (set (remove1 g gs))"
      using g by (induction gs) auto
    with inv False show ?thesis by (simp add: sch_inv_def guard_drop_def)
  qed
  have "length gs \<noteq> 0" using g by auto
  with inv g keys held pairwise_remove1 [OF pw] show ?thesis
    by (auto simp: sch_inv_def guard_drop_def length_remove1 dest: notin_set_remove1)
qed

lemma sch_release_acquire: "sch_inv s gs \<Longrightarrow> sch_try s r = Some (t, g) \<Longrightarrow> guard_drop t g = s"
proof -
  assume inv: "sch_inv s gs" and "sch_try s r = Some (t, g)"
  obtain gen rid scope where r: "r = (gen, rid, scope)" by (cases r)
  note * = \<open>sch_try s r = Some (t, g)\<close> [unfolded r sch_try_Some]
  have "set (lock_keys scope) \<inter> sch_keys s = {}"
    using * inv by (auto simp: sch_inv_def split: if_splits)
  then have "sch_keys s \<union> set (lock_keys scope) - set (lock_keys scope) = sch_keys s" by blast
  moreover have "\<not> sch_binding_held s" using * by (auto split: if_splits)
  ultimately show ?thesis using * by (simp add: guard_drop_def foldl_remove)
qed

lemma sch_try_maximum: "sch_try s r = Some (t, g) \<Longrightarrow> sch_maximum t = sch_maximum s"
  by (cases r) (simp add: sch_try_Some)

interpretation sch: lock_manager sch_try guard_drop sch_inv sch_maximum guard_clash
  by unfold_locales
    (erule (1) sch_acquire_inv, erule (1) sch_release_inv, erule sch_try_maximum,
      simp add: guard_drop_def, simp add: sch_inv_def, simp add: sch_inv_def,
      erule (1) sch_release_acquire)

lemma scheduler_new_inv: "scheduler_new n = Inr s \<Longrightarrow> sch_inv s []"
  by (auto simp: scheduler_new_def sch_inv_def split: if_splits)

section \<open>Properties\<close>

text \<open>In every state that acquisitions and guard drops can lead to from a new scheduler, at
  most \<open>maximum\<close> (hence at most four) requests hold a permit, no two of them hold a common
  lock key, and a request that holds the binding lock is alone.\<close>

theorem scheduler_mutual_exclusion:
  assumes "scheduler_new n = Inr s0" and "lock_reach sch_try guard_drop s0 s gs"
  shows "length gs \<le> n \<and> n \<le> 4
     \<and> sorted_wrt (\<lambda>g h. set (pg_keys g) \<inter> set (pg_keys h) = {}) gs
     \<and> (\<forall>g \<in> set gs. pg_binding g \<longrightarrow> gs = [g])"
proof -
  note inv0 = scheduler_new_inv [OF assms(1)]
  have n: "sch_maximum s0 = n" "n \<le> 4"
    using assms(1) by (auto simp: scheduler_new_def split: if_splits)
  have pw: "sorted_wrt (\<lambda>g h. \<not> guard_clash g h) gs" by (rule sch.reach_safe(2) [OF assms(2) inv0])
  have "gs = [g]" if "g \<in> set gs" "pg_binding g" for g
  proof -
    have "h \<notin> set (remove1 g gs)" for h
      using no_clash_others [OF pw that(1), of h] that(2) by (auto simp: guard_clash_def)
    then have "remove1 g gs = []" by (cases "remove1 g gs") force+
    then show ?thesis using that(1) by (cases gs) (auto split: if_splits)
  qed
  moreover have "sorted_wrt (\<lambda>g h. set (pg_keys g) \<inter> set (pg_keys h) = {}) gs"
    by (rule sorted_wrt_mono_rel [OF _ pw]) (auto simp: guard_clash_def)
  ultimately show ?thesis using sch.reach_safe(1) [OF assms(2) inv0] n by simp
qed

theorem scheduler_mutual_exclusion_witness:
  "\<exists>s g. lock_reach sch_try guard_drop \<lparr>sch_maximum = 2, sch_active = 0,
       sch_binding_held = False, sch_keys = {}, sch_poisoned = False\<rparr> s [g]
     \<and> pg_binding g \<and> length [g] \<le> 2"
proof -
  define s0 :: scheduler where "s0 = \<lparr>sch_maximum = 2, sch_active = 0, sch_binding_held = False,
                sch_keys = {}, sch_poisoned = False\<rparr>"
  define sc :: request_scope where "sc = \<lparr>rs_mode = Binding, rs_task_space = None, rs_tab = None\<rparr>"
  have new: "scheduler_new 2 = Inr s0" by (simp add: scheduler_new_def s0_def)
  obtain t g where tg: "sch_try s0 (1, ''one'', sc) = Some (t, g)" and b: "pg_binding g"
    by (simp add: sch_try_def try_acquire_def s0_def sc_def Let_def)
  have reach: "lock_reach sch_try guard_drop s0 t [g]"
    by (rule lock_reach.acquired [where acquire = sch_try, OF lock_reach.start tg])
  have "length [g] \<le> 2"
    using scheduler_mutual_exclusion [OF new reach] by (rule conjunct1)
  with reach b show ?thesis unfolding s0_def by blast
qed

text \<open>An accepted acquisition records who holds it, counts once, and is undone exactly by dropping
  its guard: in every reachable state the scheduler after acquire and drop is the scheduler
  before.\<close>

theorem acquire_drop_roundtrip:
  assumes "scheduler_new n = Inr s0" and "lock_reach sch_try guard_drop s0 s gs"
    and "try_acquire s generation request_id scope = Inr (t, g)"
  shows "guard_drop t g = s \<and> guard_matches g generation request_id
     \<and> active_count t = active_count s + 1"
proof -
  have inv: "sch_inv s gs" by (rule sch.reach_inv [OF assms(2) scheduler_new_inv [OF assms(1)]])
  have tr: "sch_try s (generation, request_id, scope) = Some (t, g)"
    using assms(3) by (simp add: sch_try_def)
  have "guard_matches g generation request_id" "active_count t = active_count s + 1"
    using tr inv unfolding sch_try_Some by (auto simp: guard_matches_def active_count_def)
  with sch.release_acquire [OF inv tr] show ?thesis by simp
qed

theorem acquire_drop_roundtrip_witness:
  "\<exists>s t g. try_acquire s 3 ''r'' \<lparr>rs_mode = TaskSpace, rs_task_space = Some ''a'', rs_tab = None\<rparr>
      = Inr (t, g) \<and> guard_drop t g = s \<and> active_count t = 1"
proof -
  obtain s0 where new: "scheduler_new 4 = Inr s0" and a: "active_count s0 = 0"
    by (simp add: scheduler_new_def active_count_def)
  then obtain t g where tr: "try_acquire s0 3 ''r''
      \<lparr>rs_mode = TaskSpace, rs_task_space = Some ''a'', rs_tab = None\<rparr> = Inr (t, g)"
    by (auto simp: scheduler_new_def try_acquire_def lock_keys_def)
  from acquire_drop_roundtrip [OF new lock_reach.start tr] tr a show ?thesis by auto
qed

text \<open>Normalization never weakens the lock a request declares (a missing mode counts as the
  whole binding), always yields a scope in normal form, and is idempotent.\<close>

theorem normalization_never_weakens:
  "(case mode of None \<Rightarrow> Binding | Some m \<Rightarrow> m) \<le> rs_mode (scope_normalized mode ts tab)
   \<and> scope_normal (scope_normalized mode ts tab)
   \<and> scope_normalized (Some (rs_mode (scope_normalized mode ts tab)))
       (rs_task_space (scope_normalized mode ts tab)) (rs_tab (scope_normalized mode ts tab))
     = scope_normalized mode ts tab"
proof -
  have "(case mode of None \<Rightarrow> Binding | Some m \<Rightarrow> m) \<le> rs_mode (scope_normalized mode ts tab)"
    by (simp add: scope_normalized_def Let_def)
  with normalized_is_normal [of mode ts tab] normalized_of_normal [OF normalized_is_normal]
  show ?thesis by simp
qed

end
