(* ===== verification/Permit.thy ===== *)
theory Permit
  imports Scheduler
begin

text \<open>
  The one-time request permit of \<open>crates/protocol/src/types.rs\<close> and its validation, and the
  agreement between what a validated inner request asks for and the lock the scheduler takes.
\<close>

record request_permit =
  rp_binding_id :: string
  rp_generation :: u64
  rp_request_id :: string
  rp_sequence :: u64
  rp_expires_at_unix_ms :: u64
  rp_max_payload_bytes :: nat
  rp_max_script_bytes :: nat
  rp_default_task_space :: string
  rp_allowlist_revision :: u64
  rp_learning_bundle_digest :: "string option"
  rp_concurrency_mode :: concurrency_mode
  rp_task_space_scope :: "string option"
  rp_tab_scope :: "string option"

definition permit_validate ::
  "request_permit \<Rightarrow> bridge_capability \<Rightarrow> u64 \<Rightarrow> nat \<Rightarrow> protocol_error + unit" where
  "permit_validate p capability now_unix_ms script_bytes =
    (if \<not> valid_text_id (rp_binding_id p) 128 \<or> \<not> valid_text_id (rp_request_id p) 128
        \<or> rp_generation p = 0 \<or> rp_sequence p = 0
     then Inl (InvalidInner ''permit identity'')
     else if rp_expires_at_unix_ms p \<le> now_unix_ms then Inl protocol_error.LeaseExpired
     else if rp_max_payload_bytes p = 0 \<or> rp_max_payload_bytes p > 16 * 1024 * 1024
     then Inl FrameTooLarge
     else if rp_max_script_bytes p = 0 \<or> rp_max_script_bytes p > cap_max_script_bytes capability
        \<or> script_bytes > rp_max_script_bytes p
     then Inl ScriptTooLarge
     else if \<not> is_dedicated_task_space (rp_default_task_space p)
     then Inl (InvalidInner ''permit default task space'')
     else if rp_allowlist_revision p \<noteq> cap_allowlist_revision capability
        \<or> rp_learning_bundle_digest p \<noteq> cap_learning_bundle_digest capability
     then Inl (CapabilityMismatch ''permit capability'')
     else if rp_concurrency_mode p \<notin> set (cap_supported_concurrency capability)
     then Inl (CapabilityMismatch ''permit concurrency'')
     else
       let expected = scope_normalized (Some (rp_concurrency_mode p)) (rp_task_space_scope p)
             (rp_tab_scope p)
       in if rs_mode expected \<noteq> rp_concurrency_mode p
             \<or> rs_task_space expected \<noteq> rp_task_space_scope p
             \<or> rs_tab expected \<noteq> rp_tab_scope p
          then Inl (InvalidInner ''permit scope'')
          else if rp_concurrency_mode p \<noteq> Binding
             \<and> rp_task_space_scope p \<noteq> Some (rp_default_task_space p)
          then Inl (InvalidInner ''permit dedicated task space scope'')
          else Inr ())"

definition permit_scope :: "request_permit \<Rightarrow> request_scope" where
  "permit_scope p = \<lparr>rs_mode = rp_concurrency_mode p, rs_task_space = rp_task_space_scope p,
                     rs_tab = rp_tab_scope p\<rparr>"

definition request_scope_of :: "inner_execute_request \<Rightarrow> request_scope" where
  "request_scope_of r = scope_normalized (Some (ier_concurrency_mode r)) (ier_task_space_scope r)
     (ier_tab_scope r)"

lemma permit_validate_scope:
  assumes "permit_validate p cap now n = Inr ()"
  shows "scope_normal (permit_scope p)"
    and "rp_concurrency_mode p \<noteq> Binding \<Longrightarrow>
           rp_task_space_scope p = Some (rp_default_task_space p)"
proof -
  let ?e = "scope_normalized (Some (rp_concurrency_mode p)) (rp_task_space_scope p) (rp_tab_scope p)"
  have *: "rs_mode ?e = rp_concurrency_mode p" "rs_task_space ?e = rp_task_space_scope p"
    "rs_tab ?e = rp_tab_scope p"
    using assms by (auto simp: permit_validate_def Let_def split: if_splits)
  then have "permit_scope p = ?e" by (simp add: permit_scope_def)
  then show "scope_normal (permit_scope p)" by (simp add: normalized_is_normal)
  show "rp_concurrency_mode p \<noteq> Binding \<Longrightarrow> rp_task_space_scope p = Some (rp_default_task_space p)"
    using assms by (auto simp: permit_validate_def Let_def split: if_splits)
qed

text \<open>A Task Space request that passed validation is locked on exactly its own dedicated Task
  Space; in tab mode the lock is on that Task Space or, when trimming leaves no tab name, on the
  whole binding.\<close>

lemma validated_scope:
  assumes ok: "execute_validate r cap = Inr ()" and mode: "ier_concurrency_mode r \<noteq> Binding"
  shows "rs_mode (request_scope_of r) = Binding \<and> ier_concurrency_mode r = TaskSpaceTab
     \<or> rs_mode (request_scope_of r) = ier_concurrency_mode r
       \<and> rs_task_space (request_scope_of r) = Some (ier_default_task_space r)"
proof -
  let ?d = "ier_default_task_space r"
  have ded: "is_dedicated_task_space ?d"
    using ok by (auto simp: execute_validate_def split: if_splits)
  have "unwrap_or_default (ier_task_space_scope r) = ?d"
    using ok mode by (auto simp: execute_validate_def Let_def split: if_splits)
  then have ts: "ier_task_space_scope r = Some ?d"
    using dedicated_facts(1) [OF ded] by (cases "ier_task_space_scope r") simp_all
  have v: "valid_scope ?d" using dedicated_facts(2,3) [OF ded] by (simp add: valid_scope_def)
  show ?thesis
  proof (cases "ier_concurrency_mode r")
    case TaskSpace
    then show ?thesis
      using v dedicated_facts(1,4,5) [OF ded]
      by (simp add: request_scope_of_def scope_normalized_def Let_def ts filter_option_Some)
  next
    case TaskSpaceTab
    then show ?thesis
      using v dedicated_facts(1,4,5) [OF ded]
      by (simp add: request_scope_of_def scope_normalized_def Let_def ts filter_option_Some)
  next
    case Binding
    with mode show ?thesis by simp
  qed
qed

end
