(* ===== verification/Paths.thy ===== *)
theory Paths
  imports Prelude "HOL-Library.Sublist"
begin

text \<open>
  Paths and file metadata as the sources use them through \<open>std::path\<close> and \<open>std::fs\<close> on Unix.  A
  path is the list of its components, which is what \<open>Path\<close> compares, orders and iterates;
  \<open>path_of\<close> is the parsing of \<open>Path::components\<close>.  A system call is an action on a clock: the
  answers of the operating system may change between two calls, so nothing that the sources check
  in one call is assumed to hold in the next.
\<close>

section \<open>Components\<close>

datatype component = RootDir | CurDir | ParentDir | Normal string

type_synonym path = "component list"

fun component_rank :: "component \<Rightarrow> nat" where
  "component_rank RootDir = 0"
| "component_rank CurDir = 1"
| "component_rank ParentDir = 2"
| "component_rank (Normal s) = 3"

fun component_text :: "component \<Rightarrow> string" where
  "component_text (Normal s) = s"
| "component_text _ = []"

lemma component_key_inj:
  "component_rank a = component_rank b \<Longrightarrow> component_text a = component_text b \<Longrightarrow> a = b"
  by (cases a; cases b) simp_all

text \<open>The derived order of \<open>std::path::Component\<close>; paths compare lexicographically.\<close>

instantiation component :: linorder
begin

definition less_eq_component :: "component \<Rightarrow> component \<Rightarrow> bool" where
  "less_eq_component a b \<longleftrightarrow> component_rank a < component_rank b \<or>
     component_rank a = component_rank b \<and> component_text a \<le> component_text b"

definition less_component :: "component \<Rightarrow> component \<Rightarrow> bool" where
  "less_component a b \<longleftrightarrow> component_rank a < component_rank b \<or>
     component_rank a = component_rank b \<and> component_text a < component_text b"

instance
proof
  fix a b c :: component
  show "a \<le> b \<Longrightarrow> b \<le> a \<Longrightarrow> a = b"
    by (rule component_key_inj) (auto simp: less_eq_component_def)
qed (auto simp: less_eq_component_def less_component_def)

end

fun split_on :: "char \<Rightarrow> string \<Rightarrow> string list" where
  "split_on sep [] = [[]]"
| "split_on sep (c # s) =
     (if c = sep then [] # split_on sep s
      else (case split_on sep s of [] \<Rightarrow> [[c]] | w # ws \<Rightarrow> (c # w) # ws))"

fun segment_component :: "string \<Rightarrow> component option" where
  "segment_component s =
     (if s = [] \<or> s = ''.'' then None else if s = ''..'' then Some ParentDir else Some (Normal s))"

definition path_of :: "string \<Rightarrow> path" where
  "path_of s =
     (let rest = List.map_filter segment_component
      in case split_on (CHR ''/'') s of
        [] \<Rightarrow> []
      | first # segments \<Rightarrow>
          if s \<noteq> [] \<and> first = [] then RootDir # rest segments
          else if first = ''.'' then CurDir # rest segments
          else rest (first # segments))"

section \<open>Operations\<close>

definition is_absolute :: "path \<Rightarrow> bool" where
  "is_absolute p \<longleftrightarrow> (case p of [] \<Rightarrow> False | c # _ \<Rightarrow> c = RootDir)"

definition path_parent :: "path \<Rightarrow> path option" where
  "path_parent p = (if p = [] \<or> last p = RootDir then None else Some (butlast p))"

definition file_name :: "path \<Rightarrow> string option" where
  "file_name p = (if p = [] then None else case last p of Normal s \<Rightarrow> Some s | _ \<Rightarrow> None)"

definition path_join :: "path \<Rightarrow> path \<Rightarrow> path" where
  "path_join p q =
     (if is_absolute q then q else if p = [] then q else p @ filter (\<lambda>c. c \<noteq> CurDir) q)"

definition path_starts_with :: "path \<Rightarrow> path \<Rightarrow> bool" where
  "path_starts_with p base \<longleftrightarrow> prefix base p"

definition path_strip_prefix :: "path \<Rightarrow> path \<Rightarrow> path option" where
  "path_strip_prefix p base = strip_prefix base p"

text \<open>\<open>Path::extension\<close>: what follows the last dot of the file name, unless that dot comes first.\<close>

definition extension :: "path \<Rightarrow> string option" where
  "extension p =
     (case file_name p of
        None \<Rightarrow> None
      | Some n \<Rightarrow>
          let r = rev n; e = takeWhile (\<lambda>c. c \<noteq> CHR ''.'') r
          in if length e = length r \<or> length e + 1 = length r then None else Some (rev e))"

text \<open>The path in which every component of the list is normal.\<close>

definition normal_path :: "path \<Rightarrow> bool" where
  "normal_path p \<longleftrightarrow> (\<forall>c \<in> set p. case c of Normal _ \<Rightarrow> True | _ \<Rightarrow> False)"

lemma path_strip_prefix_Some [simp]: "path_strip_prefix p base = Some r \<longleftrightarrow> p = base @ r"
  by (simp add: path_strip_prefix_def strip_prefix_Some_iff)

lemma starts_with_strip: "path_starts_with p base \<Longrightarrow> \<exists>r. path_strip_prefix p base = Some r"
  by (auto simp: path_starts_with_def prefix_def)

lemma starts_with_refl [simp]: "path_starts_with p p"
  by (simp add: path_starts_with_def)

section \<open>Files\<close>

unbundle bit_operations_syntax

datatype io_error = NotFound | AlreadyExists | TooManyLinks | OtherIo string

record file_meta =
  fm_symlink :: bool
  fm_file :: bool
  fm_dir :: bool
  fm_uid :: u32
  fm_nlink :: u64
  fm_mode :: u32
  fm_len :: u64
  fm_dev :: u64
  fm_ino :: u64

type_synonym file_identity = "u64 \<times> u64"

definition file_identity :: "file_meta \<Rightarrow> file_identity" where
  "file_identity m = (fm_dev m, fm_ino m)"

definition same_file :: "file_meta \<Rightarrow> file_meta \<Rightarrow> bool" where
  "same_file a b \<longleftrightarrow> fm_dev a = fm_dev b \<and> fm_ino a = fm_ino b"

lemma same_file_identity: "same_file a b \<longleftrightarrow> file_identity a = file_identity b"
  by (simp add: same_file_def file_identity_def)

text \<open>\<open>mode & mask\<close> on permission bits.\<close>

definition mode_bits :: "file_meta \<Rightarrow> u32 \<Rightarrow> u32" where
  "mode_bits m bits = fm_mode m AND bits"

section \<open>System calls on a clock\<close>

text \<open>An action starts at an instant, may fail, and ends at a later instant.\<close>

type_synonym ('e, 'a) act = "nat \<Rightarrow> ('e + 'a) \<times> nat"

definition ret :: "'a \<Rightarrow> ('e, 'a) act" where
  "ret x = (\<lambda>t. (Inr x, t))"

definition fail :: "'e \<Rightarrow> ('e, 'a) act" where
  "fail e = (\<lambda>t. (Inl e, t))"

definition bind_a :: "('e, 'a) act \<Rightarrow> ('a \<Rightarrow> ('e, 'b) act) \<Rightarrow> ('e, 'b) act" where
  "bind_a m f = (\<lambda>t. case m t of (Inl e, u) \<Rightarrow> (Inl e, u) | (Inr x, u) \<Rightarrow> f x u)"

text \<open>One system call: its answer at this instant, after which the clock moves on.\<close>

definition sys :: "('i \<Rightarrow> 'e) \<Rightarrow> (nat \<Rightarrow> 'i + 'a) \<Rightarrow> ('e, 'a) act" where
  "sys f call = (\<lambda>t. (map_err f (call t), Suc t))"

text \<open>A call whose failure is a value that the code inspects.\<close>

definition try_sys :: "(nat \<Rightarrow> 'i + 'a) \<Rightarrow> ('e, 'i + 'a) act" where
  "try_sys call = (\<lambda>t. (Inr (call t), Suc t))"

definition check :: "bool \<Rightarrow> 'e \<Rightarrow> ('e, unit) act" where
  "check c e = (if c then ret () else fail e)"

definition lift_r :: "'e + 'a \<Rightarrow> ('e, 'a) act" where
  "lift_r r = (\<lambda>t. (r, t))"

fun each :: "('a \<Rightarrow> ('e, unit) act) \<Rightarrow> 'a list \<Rightarrow> ('e, unit) act" where
  "each f [] = ret ()"
| "each f (x # xs) = bind_a (f x) (\<lambda>_. each f xs)"

text \<open>Clean up after a failure and keep the failure.\<close>

definition on_error :: "('e, 'a) act \<Rightarrow> ('e, 'b) act \<Rightarrow> ('e, 'a) act" where
  "on_error m cleanup =
     (\<lambda>t. case m t of (Inl e, u) \<Rightarrow> (Inl e, snd (cleanup u)) | (Inr x, u) \<Rightarrow> (Inr x, u))"

lemma on_error_Inr [simp]: "on_error m c t = (Inr x, u) \<longleftrightarrow> m t = (Inr x, u)"
  by (auto simp: on_error_def split: prod.splits sum.splits)

lemma bind_a_Inr [simp]:
  "bind_a m f t = (Inr y, v) \<longleftrightarrow> (\<exists>x u. m t = (Inr x, u) \<and> f x u = (Inr y, v))"
  by (auto simp: bind_a_def split: prod.splits sum.splits)

lemma ret_Inr [simp]: "ret x t = (Inr y, u) \<longleftrightarrow> y = x \<and> u = t"
  by (auto simp: ret_def)

lemma fail_Inr [simp]: "fail e t \<noteq> (Inr y, u)"
  by (simp add: fail_def)

lemma sys_Inr [simp]: "sys f call t = (Inr y, u) \<longleftrightarrow> call t = Inr y \<and> u = Suc t"
  by (auto simp: sys_def)

lemma try_sys_Inr [simp]: "try_sys call t = (Inr y, u) \<longleftrightarrow> y = call t \<and> u = Suc t"
  by (auto simp: try_sys_def)

lemma check_Inr [simp]: "check c e t = (Inr y, u) \<longleftrightarrow> c \<and> u = t"
  by (auto simp: check_def)

lemma lift_r_Inr [simp]: "lift_r r t = (Inr y, u) \<longleftrightarrow> r = Inr y \<and> u = t"
  by (auto simp: lift_r_def)

lemma each_Inr: "each f xs t = (Inr (), u) \<Longrightarrow> x \<in> set xs \<Longrightarrow> \<exists>s s'. f x s = (Inr (), s')"
  by (induction xs arbitrary: t) auto

section \<open>Walks\<close>

text \<open>A walk over directories may need more fuel than it is given; then it has no result.\<close>

type_synonym ('e, 'a) walk = "nat \<Rightarrow> (('e + 'a) \<times> nat) option"

definition walk_then :: "('e, 'a) walk \<Rightarrow> ('a \<Rightarrow> ('e, 'b) walk) \<Rightarrow> ('e, 'b) walk" where
  "walk_then m f = (\<lambda>t. case m t of
      None \<Rightarrow> None | Some (Inl e, u) \<Rightarrow> Some (Inl e, u) | Some (Inr x, u) \<Rightarrow> f x u)"

definition walk_act :: "('e, 'a) act \<Rightarrow> ('e, 'a) walk" where
  "walk_act m = (\<lambda>t. Some (m t))"

lemma walk_then_Some:
  "walk_then m f t = Some (Inr y, v) \<longleftrightarrow> (\<exists>x u. m t = Some (Inr x, u) \<and> f x u = Some (Inr y, v))"
  by (auto simp: walk_then_def split: option.splits sum.splits)

lemma walk_act_Some [simp]: "walk_act m t = Some (r, u) \<longleftrightarrow> m t = (r, u)"
  by (simp add: walk_act_def)

section \<open>The operating system\<close>

text \<open>\<open>open\<close> and \<open>openat\<close> never follow a final symbolic link here: every call of the sources passes
  \<open>O_NOFOLLOW\<close>.\<close>

type_synonym handle = nat

record open_flags =
  of_write :: bool
  of_directory :: bool
  of_create :: bool
  of_create_new :: bool

record world =
  w_lstat :: "nat \<Rightarrow> path \<Rightarrow> io_error + file_meta"
  w_stat :: "nat \<Rightarrow> path \<Rightarrow> io_error + file_meta"
  w_canonicalize :: "nat \<Rightarrow> path \<Rightarrow> io_error + path"
  w_open :: "nat \<Rightarrow> path \<Rightarrow> open_flags \<Rightarrow> io_error + handle"
  w_openat :: "nat \<Rightarrow> handle \<Rightarrow> string \<Rightarrow> open_flags \<Rightarrow> io_error + handle"
  w_fstat :: "nat \<Rightarrow> handle \<Rightarrow> io_error + file_meta"
  w_read :: "nat \<Rightarrow> handle \<Rightarrow> io_error + bytes"
  w_read_dir :: "nat \<Rightarrow> path \<Rightarrow> io_error + (io_error + path) list"
  w_write :: "nat \<Rightarrow> handle \<Rightarrow> bytes \<Rightarrow> io_error + unit"
  w_sync :: "nat \<Rightarrow> handle \<Rightarrow> io_error + unit"
  w_chmod :: "nat \<Rightarrow> handle \<Rightarrow> u32 \<Rightarrow> io_error + unit"
  w_truncate :: "nat \<Rightarrow> handle \<Rightarrow> io_error + unit"
  w_mkdir_all :: "nat \<Rightarrow> path \<Rightarrow> io_error + unit"
  w_chmod_path :: "nat \<Rightarrow> path \<Rightarrow> u32 \<Rightarrow> io_error + unit"
  w_flock :: "nat \<Rightarrow> handle \<Rightarrow> bool"
  w_renameat :: "nat \<Rightarrow> handle \<Rightarrow> string \<Rightarrow> string \<Rightarrow> io_error + unit"
  w_unlinkat :: "nat \<Rightarrow> handle \<Rightarrow> string \<Rightarrow> io_error + unit"
  w_euid :: u32

definition directory_flags :: open_flags where
  "directory_flags = \<lparr>of_write = False, of_directory = True, of_create = False, of_create_new = False\<rparr>"

definition read_flags :: open_flags where
  "read_flags = \<lparr>of_write = False, of_directory = False, of_create = False, of_create_new = False\<rparr>"

definition write_flags :: "bool \<Rightarrow> open_flags" where
  "write_flags create_new = \<lparr>of_write = True, of_directory = False, of_create = False, of_create_new = create_new\<rparr>"

text \<open>Nested directories: every entry of a directory has a smaller rank than the directory, as the
  entries of a tree of bounded depth have.\<close>

definition nests_below :: "world \<Rightarrow> (path \<Rightarrow> nat) \<Rightarrow> bool" where
  "nests_below w rank \<longleftrightarrow>
     (\<forall>t p entries q. w_read_dir w t p = Inr entries \<longrightarrow> Inr q \<in> set entries \<longrightarrow> rank q < rank p)"

end
