(* ===== verification/Allowlist.thy ===== *)
theory Allowlist
  imports Paths Json
begin

text \<open>
  The file allowlist of \<open>crates/protocol/src/allowlist.rs\<close> and the race-resistant operations of
  \<open>allowlist/allowlist_fs.rs\<close>.  Every system call is an action on the clock of \<open>Paths\<close>, whose
  answers may change from one call to the next: what is proved about an opened file does not
  assume that the file system stays still.
\<close>

section \<open>Limits and state\<close>

definition MAX_ALLOWLISTED_FILE_BYTES :: u64 where
  "MAX_ALLOWLISTED_FILE_BYTES = 64 * 1024 * 1024"
definition MAX_ALLOWLISTED_TOTAL_BYTES :: u64 where
  "MAX_ALLOWLISTED_TOTAL_BYTES = 256 * 1024 * 1024"
definition MAX_ALLOWLISTED_FILE_COUNT :: nat where "MAX_ALLOWLISTED_FILE_COUNT = 32"

record allowlist_limits =
  al_max_file_bytes :: u64
  al_max_total_bytes :: u64
  al_max_file_count :: nat

definition default_allowlist_limits :: allowlist_limits where
  "default_allowlist_limits =
     \<lparr>al_max_file_bytes = MAX_ALLOWLISTED_FILE_BYTES,
      al_max_total_bytes = MAX_ALLOWLISTED_TOTAL_BYTES,
      al_max_file_count = MAX_ALLOWLISTED_FILE_COUNT\<rparr>"

record allowlist =
  al_roots :: "path list"
  al_root_identities :: "file_identity list"
  al_revision :: u64
  al_limits :: allowlist_limits

datatype allowlist_error =
  Empty | InvalidRevision | InvalidLimits | InvalidPath | OutsideRoot | ParentMissing
| Symlink | HardLink | NonRegular | FileTooLarge | TotalTooLarge | FileCountTooLarge
| ChangedDuringOpen | Io io_error

section \<open>Operations on the file system\<close>

definition reject_path_components :: "world \<Rightarrow> path \<Rightarrow> (allowlist_error, unit) act" where
  "reject_path_components w p =
     bind_a (check (is_absolute p) InvalidPath) (\<lambda>_.
     bind_a (check (list_all (\<lambda>c. c \<noteq> ParentDir \<and> c \<noteq> CurDir) p) InvalidPath) (\<lambda>_.
       each (\<lambda>i. bind_a (try_sys (\<lambda>t. w_lstat w t (take i p)))
         (\<lambda>r. case r of Inr m \<Rightarrow> check (\<not> fm_symlink m) Symlink | Inl _ \<Rightarrow> ret ()))
         [1..<Suc (length p)]))"

definition canonical_existing_directory :: "world \<Rightarrow> path \<Rightarrow> (allowlist_error, path) act" where
  "canonical_existing_directory w p =
     bind_a (reject_path_components w p) (\<lambda>_.
     bind_a (sys (\<lambda>e. if e = NotFound then ParentMissing else Io e) (\<lambda>t. w_lstat w t p)) (\<lambda>m.
     bind_a (check (\<not> (fm_symlink m \<or> \<not> fm_dir m))
         (if fm_symlink m then Symlink else NonRegular)) (\<lambda>_.
       sys Io (\<lambda>t. w_canonicalize w t p))))"

definition operation_token_ok :: "string \<Rightarrow> bool" where
  "operation_token_ok token \<longleftrightarrow> token \<noteq> [] \<and> length token \<le> 128 \<and>
     list_all (\<lambda>b. is_ascii_alphanumeric b \<or> b = CHR ''-'' \<or> b = CHR ''_'') token"

definition validate_operation_token :: "string \<Rightarrow> allowlist_error + unit" where
  "validate_operation_token token = (if operation_token_ok token then Inr () else Inl InvalidPath)"

definition staging_name :: "string \<Rightarrow> allowlist_error + string" where
  "staging_name token = bind_r (validate_operation_token token)
     (\<lambda>_. Inr (''.agent-remote-download-'' @ token @ ''.incoming''))"

text \<open>\<open>uuid\<close> is the fresh \<open>Uuid::new_v4()\<close>.\<close>

definition commit_name :: "string \<Rightarrow> string \<Rightarrow> allowlist_error + string" where
  "commit_name uuid token = bind_r (validate_operation_token token)
     (\<lambda>_. Inr (''.agent-remote-download-'' @ token @ ''-'' @ uuid @ ''.commit''))"

definition map_open_error :: "io_error \<Rightarrow> allowlist_error" where
  "map_open_error e = (if e = TooManyLinks then Symlink else Io e)"

text \<open>\<open>CString::new\<close> refuses a name with a NUL byte.\<close>

definition open_at_raw :: "world \<Rightarrow> handle \<Rightarrow> string \<Rightarrow> open_flags \<Rightarrow> nat \<Rightarrow> io_error + handle" where
  "open_at_raw w h name flags t =
     (if CHR 0x00 \<in> set name then Inl (OtherIo ''invalid input'') else w_openat w t h name flags)"

definition open_root_directory ::
  "world \<Rightarrow> path \<Rightarrow> file_identity \<Rightarrow> (allowlist_error, handle) act" where
  "open_root_directory w root expected_identity =
     bind_a (sys map_open_error (\<lambda>t. w_open w t root directory_flags)) (\<lambda>h.
     bind_a (sys Io (\<lambda>t. w_fstat w t h)) (\<lambda>m.
     bind_a (check (fm_dir m \<and> file_identity m = expected_identity) ChangedDuringOpen) (\<lambda>_.
       ret h)))"

definition open_directory_at :: "world \<Rightarrow> handle \<Rightarrow> string \<Rightarrow> (allowlist_error, handle) act" where
  "open_directory_at w parent name =
     bind_a (sys map_open_error (open_at_raw w parent name directory_flags)) (\<lambda>h.
     bind_a (sys Io (\<lambda>t. w_fstat w t h)) (\<lambda>m.
     bind_a (check (fm_dir m) NonRegular) (\<lambda>_. ret h)))"

fun open_components :: "world \<Rightarrow> handle \<Rightarrow> path \<Rightarrow> (allowlist_error, handle) act" where
  "open_components w directory [] = ret directory"
| "open_components w directory (Normal name # rest) =
     bind_a (open_directory_at w directory name) (\<lambda>h. open_components w h rest)"
| "open_components w directory (_ # rest) = fail InvalidPath"

definition open_beneath_directory ::
  "world \<Rightarrow> path \<Rightarrow> file_identity \<Rightarrow> path \<Rightarrow> (allowlist_error, handle) act" where
  "open_beneath_directory w root identity relative =
     bind_a (open_root_directory w root identity) (\<lambda>h. open_components w h relative)"

definition open_beneath ::
  "world \<Rightarrow> path \<Rightarrow> file_identity \<Rightarrow> path \<Rightarrow> bool \<Rightarrow> bool \<Rightarrow> (allowlist_error, handle) act" where
  "open_beneath w root identity relative write create_new =
     bind_a (open_beneath_directory w root identity
        (case path_parent relative of None \<Rightarrow> [] | Some p \<Rightarrow> p)) (\<lambda>parent.
     bind_a (lift_r (ok_or InvalidPath (file_name relative))) (\<lambda>name.
       sys map_open_error (open_at_raw w parent name
         \<lparr>of_write = write, of_directory = False, of_create = False, of_create_new = create_new\<rparr>)))"

definition open_output_at ::
  "world \<Rightarrow> handle \<Rightarrow> string \<Rightarrow> bool \<Rightarrow> (allowlist_error, handle) act" where
  "open_output_at w parent name create_new =
     sys (\<lambda>e. if e = AlreadyExists then ChangedDuringOpen else map_open_error e)
       (open_at_raw w parent name (write_flags create_new))"

definition inspect_output_at ::
  "world \<Rightarrow> handle \<Rightarrow> string \<Rightarrow> (allowlist_error, file_meta option) act" where
  "inspect_output_at w parent name =
     bind_a (try_sys (open_at_raw w parent name (write_flags False))) (\<lambda>r.
       case r of
         Inr h \<Rightarrow> bind_a (sys Io (\<lambda>t. w_fstat w t h)) (\<lambda>m. ret (Some m))
       | Inl e \<Rightarrow> if e = NotFound then ret None else fail (map_open_error e))"

definition rename_at ::
  "world \<Rightarrow> handle \<Rightarrow> string \<Rightarrow> string \<Rightarrow> (allowlist_error, unit) act" where
  "rename_at w parent source destination =
     bind_a (check (CHR 0x00 \<notin> set source \<and> CHR 0x00 \<notin> set destination) InvalidPath) (\<lambda>_.
       sys Io (\<lambda>t. w_renameat w t parent source destination))"

definition unlink_at :: "world \<Rightarrow> handle \<Rightarrow> string \<Rightarrow> (allowlist_error, unit) act" where
  "unlink_at w parent name =
     bind_a (check (CHR 0x00 \<notin> set name) InvalidPath) (\<lambda>_.
     bind_a (try_sys (\<lambda>t. w_unlinkat w t parent name)) (\<lambda>r.
       case r of Inr _ \<Rightarrow> ret () | Inl e \<Rightarrow> if e \<noteq> NotFound then fail (Io e) else ret ()))"

definition validate_regular_file :: "world \<Rightarrow> file_meta \<Rightarrow> allowlist_error + unit" where
  "validate_regular_file w m =
     (if \<not> fm_file m then Inl NonRegular
      else if fm_nlink m \<noteq> 1 then Inl HardLink
      else if fm_uid m \<noteq> w_euid w then Inl NonRegular
      else Inr ())"

section \<open>Building an allowlist\<close>

fun canonical_roots ::
  "world \<Rightarrow> path list \<Rightarrow> (path \<times> file_identity) list \<Rightarrow>
     (allowlist_error, (path \<times> file_identity) list) act" where
  "canonical_roots w [] found = ret found"
| "canonical_roots w (root # roots) found =
     bind_a (canonical_existing_directory w root) (\<lambda>canonical.
       if \<not> list_ex (\<lambda>(p, _). p = canonical) found
       then bind_a (sys Io (\<lambda>t. w_stat w t canonical)) (\<lambda>m.
              canonical_roots w roots (found @ [(canonical, file_identity m)]))
       else canonical_roots w roots found)"

definition limits_ok :: "allowlist_limits \<Rightarrow> bool" where
  "limits_ok l \<longleftrightarrow> \<not> (al_max_file_bytes l = 0 \<or> al_max_total_bytes l = 0 \<or> al_max_file_count l = 0
     \<or> al_max_file_bytes l > MAX_ALLOWLISTED_FILE_BYTES
     \<or> al_max_total_bytes l > MAX_ALLOWLISTED_TOTAL_BYTES
     \<or> al_max_file_count l > MAX_ALLOWLISTED_FILE_COUNT)"

definition allowlist_new ::
  "world \<Rightarrow> path list \<Rightarrow> u64 \<Rightarrow> allowlist_limits \<Rightarrow> (allowlist_error, allowlist) act" where
  "allowlist_new w roots revision limits =
     bind_a (check (revision \<noteq> 0) InvalidRevision) (\<lambda>_.
     bind_a (check (limits_ok limits) InvalidLimits) (\<lambda>_.
     bind_a (canonical_roots w roots []) (\<lambda>found.
     bind_a (check (found \<noteq> []) Empty) (\<lambda>_.
       let found = sort_key fst found
       in ret \<lparr>al_roots = map fst found, al_root_identities = map snd found,
               al_revision = revision, al_limits = limits\<rparr>))))"

section \<open>Membership and budget\<close>

definition check_request_budget :: "allowlist \<Rightarrow> u64 \<Rightarrow> nat \<Rightarrow> allowlist_error + unit" where
  "check_request_budget al request_total request_count =
     (if request_count \<ge> al_max_file_count (al_limits al) then Inl FileCountTooLarge
      else if request_total > al_max_total_bytes (al_limits al) then Inl TotalTooLarge
      else Inr ())"

definition in_root :: "allowlist \<Rightarrow> path \<Rightarrow> bool" where
  "in_root al p = list_ex (\<lambda>root. p = root \<or> path_starts_with p root) (al_roots al)"

text \<open>\<open>max_by_key\<close> keeps the last of the longest roots.\<close>

definition longer_root :: "(nat \<times> path) option \<Rightarrow> nat \<times> path \<Rightarrow> (nat \<times> path) option" where
  "longer_root best r = (case best of
      None \<Rightarrow> Some r
    | Some b \<Rightarrow> if length (snd b) \<le> length (snd r) then Some r else Some b)"

definition longest_root :: "(nat \<times> path) list \<Rightarrow> (nat \<times> path) option" where
  "longest_root rs = foldl longer_root None rs"

definition relative_to_root :: "allowlist \<Rightarrow> path \<Rightarrow> allowlist_error + path \<times> file_identity \<times> path"
  where
  "relative_to_root al p =
     bind_r (ok_or OutsideRoot (longest_root
        (filter (\<lambda>(_, root). p = root \<or> path_starts_with p root)
          (enumerate 0 (al_roots al))))) (\<lambda>(index, root).
     bind_r (ok_or OutsideRoot (path_strip_prefix p root)) (\<lambda>relative.
       Inr (root, al_root_identities al ! index, relative)))"

definition allowlist_directory :: "world \<Rightarrow> allowlist \<Rightarrow> path \<Rightarrow> (allowlist_error, path) act" where
  "allowlist_directory w al p =
     bind_a (canonical_existing_directory w p) (\<lambda>canonical.
     bind_a (check (in_root al canonical \<or> list_ex (\<lambda>root. root = canonical) (al_roots al))
        OutsideRoot) (\<lambda>_. ret canonical))"

definition canonical_target ::
  "world \<Rightarrow> allowlist \<Rightarrow> path \<Rightarrow> bool \<Rightarrow> (allowlist_error, path) act" where
  "canonical_target w al p allow_missing =
     bind_a (reject_path_components w p) (\<lambda>_.
     bind_a
       (if allow_missing
        then bind_a (lift_r (ok_or InvalidPath (path_parent p))) (\<lambda>parent.
             bind_a (allowlist_directory w al parent) (\<lambda>dir.
             bind_a (lift_r (ok_or InvalidPath (file_name p))) (\<lambda>name.
               ret (path_join dir [Normal name]))))
        else sys Io (\<lambda>t. w_canonicalize w t p)) (\<lambda>canonical.
     bind_a (check (in_root al canonical) OutsideRoot) (\<lambda>_. ret canonical)))"

section \<open>Reading\<close>

record validated_input =
  vi_path :: path
  vi_size_bytes :: u64
  vi_file :: handle

definition open_input ::
  "world \<Rightarrow> allowlist \<Rightarrow> path \<Rightarrow> u64 \<Rightarrow> nat \<Rightarrow> (allowlist_error, validated_input) act" where
  "open_input w al p request_total request_count =
     bind_a (lift_r (check_request_budget al request_total request_count)) (\<lambda>_.
     bind_a (canonical_target w al p False) (\<lambda>canonical.
     bind_a (lift_r (relative_to_root al canonical)) (\<lambda>(root, root_identity, relative).
     bind_a (open_beneath w root root_identity relative False False) (\<lambda>file.
     bind_a (sys Io (\<lambda>t. w_fstat w t file)) (\<lambda>m.
     bind_a (lift_r (validate_regular_file w m)) (\<lambda>_.
     bind_a (check (\<not> fm_len m > al_max_file_bytes (al_limits al)) FileTooLarge) (\<lambda>_.
     bind_a (check (\<not> sat_add request_total (fm_len m) > al_max_total_bytes (al_limits al))
        TotalTooLarge) (\<lambda>_.
     bind_a (sys Io (\<lambda>t. w_stat w t canonical)) (\<lambda>canonical_meta.
     bind_a (check (same_file m canonical_meta) ChangedDuringOpen) (\<lambda>_.
     bind_a (sys Io (\<lambda>t. w_canonicalize w t p)) (\<lambda>reopened.
     bind_a (check (reopened = canonical) ChangedDuringOpen) (\<lambda>_.
       ret \<lparr>vi_path = canonical, vi_size_bytes = fm_len m, vi_file = file\<rparr>))))))))))))"

text \<open>\<open>take(size + 1).read_to_end\<close>: the read is cut off one byte past the validated size.\<close>

definition read_to_end :: "world \<Rightarrow> validated_input \<Rightarrow> (allowlist_error, bytes) act" where
  "read_to_end w v =
     bind_a (sys Io (\<lambda>t. w_read w t (vi_file v))) (\<lambda>content.
     let bs = take (unat (sat_add (vi_size_bytes v) 1)) content
     in bind_a (check (length bs = unat (vi_size_bytes v)) ChangedDuringOpen) (\<lambda>_. ret bs))"

section \<open>Writing\<close>

record validated_output =
  vo_path :: path
  vo_target_identity :: "file_identity option"
  vo_root_path :: path
  vo_root_identity :: file_identity
  vo_relative_parent :: path
  vo_parent_identity :: file_identity
  vo_file_name :: string

definition validate_output ::
  "world \<Rightarrow> allowlist \<Rightarrow> path \<Rightarrow> u64 \<Rightarrow> nat \<Rightarrow> u64 \<Rightarrow> (allowlist_error, validated_output) act" where
  "validate_output w al p request_total request_count expected_size =
     bind_a (lift_r (check_request_budget al request_total request_count)) (\<lambda>_.
     bind_a (check (\<not> (expected_size > al_max_file_bytes (al_limits al)
         \<or> sat_add request_total expected_size > al_max_total_bytes (al_limits al)))
       FileTooLarge) (\<lambda>_.
     bind_a (lift_r (ok_or InvalidPath (path_parent p))) (\<lambda>parent.
     bind_a (allowlist_directory w al parent) (\<lambda>canonical_parent.
     bind_a (lift_r (ok_or InvalidPath (file_name p))) (\<lambda>name.
     bind_a (check (name \<noteq> []) InvalidPath) (\<lambda>_.
     let candidate = path_join canonical_parent [Normal name] in
     bind_a (try_sys (\<lambda>t. w_lstat w t candidate)) (\<lambda>r.
     bind_a (case r of
         Inr m \<Rightarrow>
           bind_a (check (\<not> fm_symlink m) Symlink) (\<lambda>_.
           bind_a (lift_r (validate_regular_file w m)) (\<lambda>_.
           bind_a (check (fm_nlink m = 1) HardLink) (\<lambda>_. ret (Some (file_identity m)))))
       | Inl e \<Rightarrow> if e = NotFound then ret None else fail (Io e)) (\<lambda>target_identity.
     bind_a (check (in_root al candidate) OutsideRoot) (\<lambda>_.
     bind_a (lift_r (relative_to_root al canonical_parent))
       (\<lambda>(root, root_identity, relative_parent).
     bind_a (open_beneath_directory w root root_identity relative_parent) (\<lambda>parent_handle.
     bind_a (sys Io (\<lambda>t. w_fstat w t parent_handle)) (\<lambda>parent_meta.
       ret \<lparr>vo_path = candidate, vo_target_identity = target_identity, vo_root_path = root,
            vo_root_identity = root_identity, vo_relative_parent = relative_parent,
            vo_parent_identity = file_identity parent_meta, vo_file_name = name\<rparr>))))))))))))"

definition open_parent :: "world \<Rightarrow> validated_output \<Rightarrow> (allowlist_error, handle) act" where
  "open_parent w v =
     bind_a (open_beneath_directory w (vo_root_path v) (vo_root_identity v) (vo_relative_parent v))
       (\<lambda>parent.
     bind_a (sys Io (\<lambda>t. w_fstat w t parent)) (\<lambda>m.
     bind_a (check (file_identity m = vo_parent_identity v) ChangedDuringOpen) (\<lambda>_. ret parent)))"

definition validate_target_at ::
  "world \<Rightarrow> validated_output \<Rightarrow> handle \<Rightarrow> (allowlist_error, unit) act" where
  "validate_target_at w v parent =
     bind_a (inspect_output_at w parent (vo_file_name v)) (\<lambda>r.
       case r of
         None \<Rightarrow> check (vo_target_identity v = None) ChangedDuringOpen
       | Some m \<Rightarrow>
           bind_a (lift_r (validate_regular_file w m)) (\<lambda>_.
             check (vo_target_identity v = Some (file_identity m)) ChangedDuringOpen))"

definition open_for_write ::
  "world \<Rightarrow> validated_output \<Rightarrow> bool \<Rightarrow> (allowlist_error, handle) act" where
  "open_for_write w v replace =
     bind_a (open_parent w v) (\<lambda>parent.
     bind_a (try_sys (\<lambda>t. w_lstat w t (vo_path v))) (\<lambda>r.
     bind_a (case r of
         Inr m \<Rightarrow> ret (Some m)
       | Inl e \<Rightarrow> if e = NotFound then ret None else fail (Io e)) (\<lambda>existing.
     bind_a (case existing of
         Some m \<Rightarrow>
           bind_a (check (\<not> fm_symlink m) Symlink) (\<lambda>_.
           bind_a (lift_r (validate_regular_file w m)) (\<lambda>_.
           bind_a (check (fm_nlink m = 1) HardLink) (\<lambda>_.
           bind_a (check replace ChangedDuringOpen) (\<lambda>_.
           bind_a (check (vo_target_identity v \<noteq> None) ChangedDuringOpen) (\<lambda>_.
             check (vo_target_identity v = Some (file_identity m)) ChangedDuringOpen)))))
       | None \<Rightarrow> check (vo_target_identity v = None) ChangedDuringOpen) (\<lambda>_.
     bind_a (open_output_at w parent (vo_file_name v) (existing = None)) (\<lambda>file.
     bind_a (sys Io (\<lambda>t. w_fstat w t file)) (\<lambda>opened.
     bind_a (lift_r (validate_regular_file w opened)) (\<lambda>_.
     bind_a (check (fm_nlink opened = 1) HardLink) (\<lambda>_.
     bind_a (sys Io (\<lambda>t. w_lstat w t (vo_path v))) (\<lambda>current.
     bind_a (check (\<not> (fm_symlink current \<or> \<not> same_file opened current))
       (if fm_symlink current then Symlink else ChangedDuringOpen)) (\<lambda>_.
     bind_a (check (case vo_target_identity v of None \<Rightarrow> True
         | Some expected \<Rightarrow> expected = file_identity opened) ChangedDuringOpen) (\<lambda>_.
     bind_a (sys Io (\<lambda>t. w_chmod w t file 0x180)) (\<lambda>_.
     bind_a (if replace then sys Io (\<lambda>t. w_truncate w t file) else ret ()) (\<lambda>_.
       ret file)))))))))))))"

definition replace_atomically ::
  "world \<Rightarrow> validated_output \<Rightarrow> bytes \<Rightarrow> string \<Rightarrow> string \<Rightarrow> (allowlist_error, unit) act" where
  "replace_atomically w v content token uuid =
     bind_a (open_parent w v) (\<lambda>parent.
     bind_a (validate_target_at w v parent) (\<lambda>_.
     bind_a (lift_r (commit_name uuid token)) (\<lambda>temporary_name.
     bind_a (open_output_at w parent temporary_name True) (\<lambda>temporary.
     bind_a (sys Io (\<lambda>t. w_fstat w t temporary)) (\<lambda>temporary_meta.
     on_error
       (bind_a (sys Io (\<lambda>t. w_write w t temporary content)) (\<lambda>_.
        bind_a (sys Io (\<lambda>t. w_chmod w t temporary 0x180)) (\<lambda>_.
        bind_a (sys Io (\<lambda>t. w_sync w t temporary)) (\<lambda>_.
        bind_a (validate_target_at w v parent) (\<lambda>_.
        bind_a (rename_at w parent temporary_name (vo_file_name v)) (\<lambda>_.
        bind_a (sys Io (\<lambda>t. w_sync w t parent)) (\<lambda>_.
        bind_a (open_output_at w parent (vo_file_name v) False) (\<lambda>installed.
        bind_a (sys Io (\<lambda>t. w_fstat w t installed)) (\<lambda>m.
        bind_a (lift_r (validate_regular_file w m)) (\<lambda>_.
          check (file_identity m = file_identity temporary_meta) ChangedDuringOpen))))))))))
       (unlink_at w parent temporary_name))))))"

definition staging_path :: "validated_output \<Rightarrow> string \<Rightarrow> allowlist_error + path" where
  "staging_path v token =
     bind_r (ok_or InvalidPath (path_parent (vo_path v))) (\<lambda>parent.
     bind_r (staging_name token) (\<lambda>name. Inr (path_join parent [Normal name])))"

definition remove_staging ::
  "world \<Rightarrow> validated_output \<Rightarrow> string \<Rightarrow> (allowlist_error, unit) act" where
  "remove_staging w v token =
     bind_a (open_parent w v) (\<lambda>parent.
     bind_a (lift_r (staging_name token)) (\<lambda>name. unlink_at w parent name))"

section \<open>Where an opened file lives\<close>

text \<open>\<open>opened_chain w h dirs h'\<close>: \<open>h'\<close> was reached from \<open>h\<close> by one \<open>openat\<close> per normal
  component, none of which followed a symbolic link, each giving a directory.\<close>

fun opened_chain :: "world \<Rightarrow> handle \<Rightarrow> path \<Rightarrow> handle \<Rightarrow> bool" where
  "opened_chain w h [] h' \<longleftrightarrow> h' = h"
| "opened_chain w h (Normal n # p) h' \<longleftrightarrow>
     (\<exists>t t' h1 m. w_openat w t h n directory_flags = Inr h1 \<and> w_fstat w t' h1 = Inr m \<and> fm_dir m \<and>
        opened_chain w h1 p h')"
| "opened_chain w h (_ # p) h' \<longleftrightarrow> False"

definition directory_beneath :: "world \<Rightarrow> path \<Rightarrow> file_identity \<Rightarrow> path \<Rightarrow> handle \<Rightarrow> bool" where
  "directory_beneath w root identity dirs dir \<longleftrightarrow>
     (\<exists>t t' h m. w_open w t root directory_flags = Inr h \<and> w_fstat w t' h = Inr m \<and>
        fm_dir m \<and> file_identity m = identity \<and> opened_chain w h dirs dir)"

lemma open_components_chain:
  "open_components w h p t = (Inr h', u) \<Longrightarrow> opened_chain w h p h'"
proof (induction w h p arbitrary: t rule: open_components.induct)
  case (2 w h n p)
  then show ?case
    by (auto simp: open_directory_at_def open_at_raw_def split: if_splits) blast
qed (auto simp: ret_def)

lemma open_beneath_directory_Inr:
  assumes "open_beneath_directory w root identity dirs t = (Inr dir, u)"
  shows "directory_beneath w root identity dirs dir"
  using assms open_components_chain
  by (fastforce simp: open_beneath_directory_def open_root_directory_def directory_beneath_def)

lemma open_beneath_Inr:
  assumes "open_beneath w root identity relative wr cn t = (Inr file, u)"
  obtains dirs name dir t' where "relative = dirs @ [Normal name]"
    "directory_beneath w root identity dirs dir"
    "w_openat w t' dir name \<lparr>of_write = wr, of_directory = False, of_create = False, of_create_new = cn\<rparr> = Inr file"
proof -
  from assms obtain parent name v v' where
    p: "open_beneath_directory w root identity
          (case path_parent relative of None \<Rightarrow> [] | Some p \<Rightarrow> p) t = (Inr parent, v)"
    and n: "file_name relative = Some name"
    and f: "open_at_raw w parent name
          \<lparr>of_write = wr, of_directory = False, of_create = False, of_create_new = cn\<rparr> v' = Inr file"
    by (auto simp: open_beneath_def)
  from n have r: "relative \<noteq> []" "last relative = Normal name"
    by (auto simp: file_name_def split: if_splits component.splits)
  then have "relative = butlast relative @ [Normal name]" by (metis append_butlast_last_id)
  moreover have "directory_beneath w root identity (butlast relative) parent"
    using open_beneath_directory_Inr [OF p] r by (simp add: path_parent_def)
  moreover have "w_openat w v' parent name
      \<lparr>of_write = wr, of_directory = False, of_create = False, of_create_new = cn\<rparr> = Inr file"
    using f by (simp add: open_at_raw_def split: if_splits)
  ultimately show ?thesis by (rule that)
qed

lemma longest_root_snoc: "longest_root (rs @ [r]) = longer_root (longest_root rs) r"
  by (simp add: longest_root_def)

lemma longest_root_Some:
  "longest_root rs = Some b \<Longrightarrow> b \<in> set rs \<and> (\<forall>r \<in> set rs. length (snd r) \<le> length (snd b))"
proof (induction rs arbitrary: b rule: rev_induct)
  case (snoc r rs)
  show ?case
  proof (cases "longest_root rs")
    case None
    then have "rs = []"
      by (cases rs rule: rev_cases) (auto simp: longest_root_snoc longer_root_def split: option.splits if_splits)
    with snoc.prems show ?thesis by (simp add: longest_root_def longer_root_def)
  next
    case (Some c)
    with snoc.prems snoc.IH [OF Some] show ?thesis
      by (force simp: longest_root_snoc longer_root_def split: if_splits)
  qed
qed (simp add: longest_root_def)

lemma longest_root_None: "longest_root rs = None \<longleftrightarrow> rs = []"
  by (cases rs rule: rev_cases)
    (auto simp: longest_root_snoc longer_root_def longest_root_def split: option.splits)

text \<open>The root a path is resolved against: the longest of those that contain it.\<close>

lemma relative_to_root_Inr:
  assumes "relative_to_root al p = Inr (root, identity, relative)"
  obtains i where "i < length (al_roots al)" "root = al_roots al ! i"
    "identity = al_root_identities al ! i" "p = root @ relative"
    "\<forall>r \<in> set (al_roots al). path_starts_with p r \<longrightarrow> length r \<le> length root"
proof -
  let ?rs = "filter (\<lambda>(_, root). p = root \<or> path_starts_with p root) (enumerate 0 (al_roots al))"
  obtain i where l: "longest_root ?rs = Some (i, root)"
    and eq: "identity = al_root_identities al ! i" "p = root @ relative"
    using assms by (auto simp: relative_to_root_def bind_r_Inr_iff)
  have mem: "(i, root) \<in> set ?rs" using longest_root_Some [OF l] by (rule conjunct1)
  then have i: "i < length (al_roots al)" "root = al_roots al ! i"
    by (auto simp: in_set_enumerate_eq)
  have "length r \<le> length root" if r: "r \<in> set (al_roots al)" "path_starts_with p r" for r
  proof -
    from r(1) obtain j where "j < length (al_roots al)" "r = al_roots al ! j"
      by (auto simp: in_set_conv_nth)
    with r(2) have "(j, r) \<in> set ?rs" by (auto simp: in_set_enumerate_eq)
    with longest_root_Some [OF l] show ?thesis by fastforce
  qed
  with i eq that show ?thesis by blast
qed

lemma relative_to_root_total:
  assumes "in_root al p"
  shows "\<exists>r. relative_to_root al p = Inr r"
proof -
  let ?rs = "filter (\<lambda>(_, root). p = root \<or> path_starts_with p root) (enumerate 0 (al_roots al))"
  from assms obtain root where "root \<in> set (al_roots al)" "p = root \<or> path_starts_with p root"
    by (auto simp: in_root_def list_ex_iff)
  moreover from this(1) obtain j where "j < length (al_roots al)" "root = al_roots al ! j"
    by (auto simp: in_set_conv_nth)
  ultimately have "(j, root) \<in> set ?rs" by (auto simp: in_set_enumerate_eq)
  then have "?rs \<noteq> []" by (metis empty_iff empty_set)
  then have "longest_root ?rs \<noteq> None" unfolding longest_root_None .
  then obtain b where b: "longest_root ?rs = Some b" by blast
  then have "b \<in> set ?rs" using longest_root_Some by blast
  then have "path_starts_with p (snd b)" by (auto split: prod.splits)
  then show ?thesis
    using starts_with_strip [of p "snd b"] b
    by (cases b) (auto simp: relative_to_root_def simp del: path_strip_prefix_Some)
qed

lemma validate_regular_file_Inr:
  "validate_regular_file w m = Inr () \<longleftrightarrow>
     fm_file m \<and> fm_nlink m = 1 \<and> fm_uid m = w_euid w"
  by (auto simp: validate_regular_file_def)

lemma canonical_target_Inr:
  assumes "canonical_target w al p False t = (Inr canonical, u)"
  shows "in_root al canonical"
  using assms by (auto simp: canonical_target_def)

lemma allowlist_roots_of:
  "canonical_roots w roots found t = (Inr res, u) \<Longrightarrow> distinct (map fst found) \<Longrightarrow>
     distinct (map fst res) \<and> set found \<subseteq> set res \<and>
     (\<forall>r \<in> set res - set found. \<exists>p i j m. p \<in> set roots \<and> w_canonicalize w i p = Inr (fst r) \<and>
        w_stat w j (fst r) = Inr m \<and> snd r = file_identity m)"
proof (induction roots arbitrary: found t)
  case Nil
  then show ?case by simp
next
  case (Cons root roots)
  from Cons.prems(1) obtain canonical v where
    c: "canonical_existing_directory w root t = (Inr canonical, v)" by auto
  then obtain i where i: "w_canonicalize w i root = Inr canonical"
    by (auto simp: canonical_existing_directory_def)
  show ?case
  proof (cases "list_ex (\<lambda>(p, _). p = canonical) found")
    case True
    with Cons.prems(1) c have "canonical_roots w roots found v = (Inr res, u)" by simp
    from Cons.IH [OF this Cons.prems(2)] show ?thesis by (meson list.set_intros(2))
  next
    case False
    with Cons.prems(1) c obtain m where m: "w_stat w v canonical = Inr m"
      and r: "canonical_roots w roots (found @ [(canonical, file_identity m)]) (Suc v) = (Inr res, u)"
      by auto
    have "distinct (map fst (found @ [(canonical, file_identity m)]))"
      using False Cons.prems(2) by (force simp: list_ex_iff)
    note ih = Cons.IH [OF r this]
    have "\<exists>p i j m. p \<in> set (root # roots) \<and> w_canonicalize w i p = Inr (fst r) \<and>
        w_stat w j (fst r) = Inr m \<and> snd r = file_identity m"
      if "r \<in> set res - set found" for r
    proof (cases "r = (canonical, file_identity m)")
      case True
      with i m show ?thesis
        by (intro exI [of _ root] exI [of _ i] exI [of _ v] exI [of _ m]) simp
    next
      case False
      with that have "r \<in> set res - set (found @ [(canonical, file_identity m)])" by simp
      with ih have "\<exists>p i j m. p \<in> set roots \<and> w_canonicalize w i p = Inr (fst r) \<and>
          w_stat w j (fst r) = Inr m \<and> snd r = file_identity m" by blast
      then show ?thesis by (meson list.set_intros(2))
    qed
    with ih show ?thesis by simp
  qed
qed

section \<open>Properties\<close>

text \<open>A new allowlist has at least one root, no root twice, its roots in order, one identity per
  root, and each root is the canonical form of a directory the caller named, with the identity that
  directory had.\<close>

theorem allowlist_new_ok:
  assumes "allowlist_new w roots revision limits t = (Inr al, u)"
  shows "al_roots al \<noteq> [] \<and> distinct (al_roots al) \<and> sorted (al_roots al) \<and>
    length (al_root_identities al) = length (al_roots al) \<and>
    al_revision al = revision \<and> revision \<noteq> 0 \<and> limits_ok (al_limits al) \<and>
    (\<forall>i < length (al_roots al). \<exists>p \<in> set roots. \<exists>s s' m.
       w_canonicalize w s p = Inr (al_roots al ! i) \<and> w_stat w s' (al_roots al ! i) = Inr m \<and>
       al_root_identities al ! i = file_identity m)"
proof -
  from assms obtain found v where ok: "revision \<noteq> 0" "limits_ok limits"
    and f: "canonical_roots w roots [] t = (Inr found, v)" "found \<noteq> []"
    and al: "al = \<lparr>al_roots = map fst (sort_key fst found),
      al_root_identities = map snd (sort_key fst found), al_revision = revision, al_limits = limits\<rparr>"
    by (auto simp: allowlist_new_def Let_def)
  note r = allowlist_roots_of [OF f(1)]
  have "mset (map fst (sort_key fst found)) = mset (map fst found)" by simp
  then have d: "distinct (map fst (sort_key fst found))"
    using r by (metis distinct.simps(1) list.simps(8) mset_eq_imp_distinct_iff)
  have i: "\<exists>p \<in> set roots. \<exists>s s' m. w_canonicalize w s p = Inr (al_roots al ! i) \<and>
      w_stat w s' (al_roots al ! i) = Inr m \<and> al_root_identities al ! i = file_identity m"
    if "i < length (al_roots al)" for i
  proof -
    have len: "i < length (sort_key fst found)" using that unfolding al by simp
    then have "sort_key fst found ! i \<in> set (sort_key fst found)" by (rule nth_mem)
    then have "sort_key fst found ! i \<in> set found" by simp
    with r have "\<exists>p s s' m. p \<in> set roots \<and> w_canonicalize w s p = Inr (fst (sort_key fst found ! i)) \<and>
        w_stat w s' (fst (sort_key fst found ! i)) = Inr m \<and>
        snd (sort_key fst found ! i) = file_identity m" by simp
    then obtain p s s' m where "p \<in> set roots"
      "w_canonicalize w s p = Inr (fst (sort_key fst found ! i))"
      "w_stat w s' (fst (sort_key fst found ! i)) = Inr m"
      "snd (sort_key fst found ! i) = file_identity m" by blast
    moreover have "al_roots al ! i = fst (sort_key fst found ! i)"
      "al_root_identities al ! i = snd (sort_key fst found ! i)"
      unfolding al using len by (simp_all add: nth_map)
    ultimately show ?thesis by auto
  qed
  have "map fst (sort_key fst found) \<noteq> []"
    using f(2) by (metis length_0_conv length_map length_sort)
  with d ok i show ?thesis unfolding al by (simp add: sorted_sort_key)
qed

text \<open>C5: an input file that the allowlist hands out lies beneath one of its roots, whatever the file
  system did meanwhile: it was reached from a directory with the identity recorded for that root
  when the user confirmed it, one component at a time, without following a symbolic link, and it
  is a regular file with one link, owned by the user, within the limits and the request's budget.\<close>

theorem open_input_confined:
  assumes "open_input w al p request_total request_count t = (Inr v, u)"
  shows "\<exists>i dirs name dir s m s'. i < length (al_roots al) \<and>
    vi_path v = al_roots al ! i @ dirs @ [Normal name] \<and>
    directory_beneath w (al_roots al ! i) (al_root_identities al ! i) dirs dir \<and>
    w_openat w s dir name read_flags = Inr (vi_file v) \<and>
    w_fstat w s' (vi_file v) = Inr m \<and> fm_file m \<and> fm_nlink m = 1 \<and> fm_uid m = w_euid w \<and>
    vi_size_bytes v = fm_len m \<and> fm_len m \<le> al_max_file_bytes (al_limits al) \<and>
    sat_add request_total (fm_len m) \<le> al_max_total_bytes (al_limits al) \<and>
    request_count < al_max_file_count (al_limits al)"
proof -
  from assms obtain root identity relative m s1 s2 s3 where
    budget: "check_request_budget al request_total request_count = Inr ()"
    and rel: "relative_to_root al (vi_path v) = Inr (root, identity, relative)"
    and op: "open_beneath w root identity relative False False s1 = (Inr (vi_file v), s2)"
    and m: "w_fstat w s3 (vi_file v) = Inr m" "validate_regular_file w m = Inr ()"
      "vi_size_bytes v = fm_len m" "fm_len m \<le> al_max_file_bytes (al_limits al)"
      "sat_add request_total (fm_len m) \<le> al_max_total_bytes (al_limits al)"
    by (auto simp: open_input_def split: prod.splits)
  obtain i where i: "i < length (al_roots al)" "root = al_roots al ! i"
    "identity = al_root_identities al ! i" "vi_path v = root @ relative"
    using relative_to_root_Inr [OF rel] by metis
  obtain dirs name dir s4 where b: "relative = dirs @ [Normal name]"
    "directory_beneath w root identity dirs dir"
    "w_openat w s4 dir name \<lparr>of_write = False, of_directory = False, of_create = False, of_create_new = False\<rparr>
       = Inr (vi_file v)"
    using open_beneath_Inr [OF op] by metis
  have "request_count < al_max_file_count (al_limits al)"
    using budget by (auto simp: check_request_budget_def split: if_splits)
  with i b m show ?thesis
    unfolding validate_regular_file_Inr read_flags_def
    by (intro exI [of _ i] exI [of _ dirs] exI [of _ name] exI [of _ dir] exI [of _ s4]
        exI [of _ m] exI [of _ s3]) simp
qed

text \<open>A small file system: the directory \<open>/r\<close> with one file \<open>a\<close>.\<close>

definition meta_of :: "bool \<Rightarrow> u64 \<Rightarrow> file_meta" where
  "meta_of file ino = \<lparr>fm_symlink = False, fm_file = file, fm_dir = \<not> file, fm_uid = 501, fm_nlink = 1,
     fm_mode = (if file then 0x180 else 0x1C0), fm_len = 3, fm_dev = 1, fm_ino = ino\<rparr>"

definition small_world :: world where
  "small_world = \<lparr>
     w_lstat = (\<lambda>t p. if length p = 3 then Inr (meta_of True 7) else Inr (meta_of False 5)),
     w_stat = (\<lambda>t p. if length p = 3 then Inr (meta_of True 7) else Inr (meta_of False 5)),
     w_canonicalize = (\<lambda>t p. Inr p),
     w_open = (\<lambda>t p f. Inr 0),
     w_openat = (\<lambda>t h n f. if of_create_new f then Inr 2 else Inr 1),
     w_fstat = (\<lambda>t h. if h = 0 then Inr (meta_of False 5) else Inr (meta_of True 7)),
     w_read = (\<lambda>t h. Inr [1, 2, 3]),
     w_read_dir = (\<lambda>t p. Inr []),
     w_write = (\<lambda>t h b. Inr ()), w_sync = (\<lambda>t h. Inr ()), w_chmod = (\<lambda>t h m. Inr ()),
     w_truncate = (\<lambda>t h. Inr ()), w_mkdir_all = (\<lambda>t p. Inr ()),
     w_chmod_path = (\<lambda>t p m. Inr ()), w_flock = (\<lambda>t h. True), w_renameat = (\<lambda>t h a b. Inr ()), w_unlinkat = (\<lambda>t h n. Inr ()),
     w_euid = 501\<rparr>"

definition small_allowlist :: allowlist where
  "small_allowlist = \<lparr>al_roots = [[RootDir, Normal ''r'']], al_root_identities = [(1, 5)],
     al_revision = 1, al_limits = default_allowlist_limits\<rparr>"

definition small_file :: path where
  "small_file = [RootDir, Normal ''r'', Normal ''a'']"

theorem allowlist_new_ok_witness:
  "\<exists>al u. allowlist_new small_world [[RootDir, Normal ''r'']] 4 default_allowlist_limits 0 = (Inr al, u) \<and>
     sorted (al_roots al) \<and> al_revision al = 4"
proof -
  have "\<exists>al u. allowlist_new small_world [[RootDir, Normal ''r'']] 4 default_allowlist_limits 0
      = (Inr al, u)"
    by (simp add: allowlist_new_def bind_a_def check_def ret_def sys_def try_sys_def
        canonical_existing_directory_def reject_path_components_def is_absolute_def small_world_def
        meta_of_def default_allowlist_limits_def limits_ok_def MAX_ALLOWLISTED_FILE_BYTES_def
        MAX_ALLOWLISTED_TOTAL_BYTES_def MAX_ALLOWLISTED_FILE_COUNT_def)
  then obtain al u where
    run: "allowlist_new small_world [[RootDir, Normal ''r'']] 4 default_allowlist_limits 0 = (Inr al, u)"
    by blast
  then show ?thesis using allowlist_new_ok [OF run] by blast
qed

theorem open_input_confined_witness:
  "\<exists>v u. open_input small_world small_allowlist small_file 10 1 0 = (Inr v, u) \<and>
     (\<exists>i. vi_path v = al_roots small_allowlist ! i @ [] @ [Normal ''a'']) \<and>
     vi_size_bytes v \<le> MAX_ALLOWLISTED_FILE_BYTES"
proof -
  let ?v = "\<lparr>vi_path = small_file, vi_size_bytes = 3, vi_file = 1\<rparr>"
  have run: "open_input small_world small_allowlist small_file 10 1 0 = (Inr ?v, 10)"
    by (simp add: open_input_def bind_a_def lift_r_def check_def ret_def sys_def try_sys_def
        check_request_budget_def canonical_target_def reject_path_components_def
        relative_to_root_def longest_root_def longer_root_def in_root_def is_absolute_def
        path_starts_with_def path_strip_prefix_def strip_prefix_def open_beneath_def
        open_beneath_directory_def open_root_directory_def path_parent_def file_name_def
        open_at_raw_def validate_regular_file_def same_file_def file_identity_def meta_of_def
        small_world_def small_allowlist_def small_file_def default_allowlist_limits_def
        MAX_ALLOWLISTED_FILE_BYTES_def MAX_ALLOWLISTED_TOTAL_BYTES_def
        MAX_ALLOWLISTED_FILE_COUNT_def sat_add_def)
  have "vi_size_bytes ?v \<le> al_max_file_bytes (al_limits small_allowlist)"
    using open_input_confined [OF run] by auto
  moreover have "vi_path ?v = al_roots small_allowlist ! 0 @ [] @ [Normal ''a'']"
    by (simp add: small_file_def small_allowlist_def)
  moreover have "al_max_file_bytes (al_limits small_allowlist) = MAX_ALLOWLISTED_FILE_BYTES"
    by (simp add: small_allowlist_def default_allowlist_limits_def)
  ultimately show ?thesis
    using run by (intro exI [of _ ?v] exI [of _ "10 :: nat"] conjI exI [of _ "0 :: nat"]) simp_all
qed

text \<open>C6: when an atomic replacement reports success, the file now found under the destination's
  name is the one that was created exclusively for this operation inside the parent directory that
  was validated, and just before the renaming the destination was still what it had been at
  validation: absent, or the very same single-link file.\<close>

theorem replace_atomically_safe:
  assumes "replace_atomically w v content token uuid t = (Inr (), u)"
  shows "\<exists>parent temporary name installed s1 s2 s3 s4 s5 pm m m' s s'.
    directory_beneath w (vo_root_path v) (vo_root_identity v) (vo_relative_parent v) parent \<and>
    w_fstat w s1 parent = Inr pm \<and> file_identity pm = vo_parent_identity v \<and>
    commit_name uuid token = Inr name \<and>
    w_openat w s2 parent name (write_flags True) = Inr temporary \<and>
    w_fstat w s3 temporary = Inr m \<and>
    validate_target_at w v parent s = (Inr (), s') \<and> s2 < s \<and>
    w_renameat w s' parent name (vo_file_name v) = Inr () \<and>
    w_openat w s4 parent (vo_file_name v) (write_flags False) = Inr installed \<and>
    w_fstat w s5 installed = Inr m' \<and> file_identity m' = file_identity m \<and>
    fm_file m' \<and> fm_nlink m' = 1 \<and> fm_uid m' = w_euid w"
proof -
  from assms obtain parent s1 s1' name temporary s2 m installed s s' m' where
    p: "open_parent w v t = (Inr parent, s1)"
    and "validate_target_at w v parent s1 = (Inr (), s1')"
    and name: "commit_name uuid token = Inr name"
    and tmp: "open_at_raw w parent name (write_flags True) s1' = Inr temporary"
      "w_fstat w (Suc s1') temporary = Inr m"
    and valid: "s = Suc (Suc (Suc (Suc (Suc s1'))))" "validate_target_at w v parent s = (Inr (), s')"
    and ren: "w_renameat w s' parent name (vo_file_name v) = Inr ()"
    and inst: "open_at_raw w parent (vo_file_name v) (write_flags False) (Suc (Suc s')) = Inr installed"
      "w_fstat w (Suc (Suc (Suc s'))) installed = Inr m'"
    and ok: "validate_regular_file w m' = Inr ()" "file_identity m' = file_identity m"
    by (auto simp: replace_atomically_def open_output_at_def rename_at_def)
  from p obtain s0 pm where dir: "open_beneath_directory w (vo_root_path v) (vo_root_identity v)
        (vo_relative_parent v) t = (Inr parent, s0)"
    and pm: "w_fstat w s0 parent = Inr pm" "file_identity pm = vo_parent_identity v"
    by (auto simp: open_parent_def)
  have at: "w_openat w s1' parent name (write_flags True) = Inr temporary"
    "w_openat w (Suc (Suc s')) parent (vo_file_name v) (write_flags False) = Inr installed"
    using tmp(1) inst(1) by (simp_all add: open_at_raw_def split: if_splits)
  have reg: "fm_file m'" "fm_nlink m' = 1" "fm_uid m' = w_euid w"
    using ok(1) by (simp_all add: validate_regular_file_Inr)
  have "s1' < s" using valid(1) by simp
  with open_beneath_directory_Inr [OF dir] pm name at tmp(2) valid(2) ren inst(2) ok(2) reg
  show ?thesis by (intro exI conjI)
qed

definition output_world :: world where
  "output_world = small_world
     \<lparr>w_openat := (\<lambda>t h n f. if of_create_new f then Inr 2
        else if of_write f \<and> n = ''a'' \<and> t < 10 then Inl NotFound else Inr 1)\<rparr>"

definition small_output :: validated_output where
  "small_output = \<lparr>vo_path = small_file, vo_target_identity = None, vo_root_path = [RootDir, Normal ''r''],
     vo_root_identity = (1, 5), vo_relative_parent = [], vo_parent_identity = (1, 5),
     vo_file_name = ''a''\<rparr>"

theorem replace_atomically_safe_witness:
  "\<exists>u name. replace_atomically output_world small_output [1, 2, 3] ''t-1'' ''u-1'' 0 = (Inr (), u) \<and>
     commit_name ''u-1'' ''t-1'' = Inr name \<and> w_renameat output_world 8 0 name ''a'' = Inr ()"
proof -
  note defs = output_world_def small_world_def small_output_def small_file_def meta_of_def
    replace_atomically_def open_parent_def bind_a_def lift_r_def check_def ret_def sys_def try_sys_def
    open_beneath_directory_def open_root_directory_def open_output_at_def open_at_raw_def
    validate_target_at_def inspect_output_at_def rename_at_def validate_regular_file_def
    file_identity_def write_flags_def on_error_def commit_name_def validate_operation_token_def
    operation_token_ok_def is_ascii_alphanumeric_def is_ascii_alpha_def is_ascii_digit_def
  have run: "\<exists>u. replace_atomically output_world small_output [1, 2, 3] ''t-1'' ''u-1'' 0 = (Inr (), u)"
    by (simp add: defs)
  then obtain u where u: "replace_atomically output_world small_output [1, 2, 3] ''t-1'' ''u-1'' 0
      = (Inr (), u)" by blast
  have "\<exists>name. commit_name ''u-1'' ''t-1'' = Inr name"
    using replace_atomically_safe [OF u] by blast
  with run show ?thesis by (simp add: output_world_def small_world_def)
qed

end
