(* ===== verification/Bridge_Config.thy ===== *)
theory Bridge_Config
  imports Permit Allowlist
begin

text \<open>
  The configuration of the local bridge (\<open>crates/local-bridge/src/lib.rs\<close>): its defaults from the
  environment, the snapshot of the verified local policy of \<open>crates/device-client/src/lib.rs\<close>, the
  capability it advertises, and the bridge's error type.
\<close>

section \<open>Verified local policy\<close>

record verified_learning_bundle =
  lb_root :: path
  lb_digest :: string
  lb_bundle_version :: string
  lb_skill_version :: string
  lb_local_ego_browser_runtime_version :: string

record verified_local_policy =
  vp_policy_revision :: u64
  vp_allowlist_revision :: u64
  vp_allowlist_roots_digest :: "string option"
  vp_allowlist :: "allowlist option"
  vp_learning_bundle :: "verified_learning_bundle option"

definition CORE_CAPABILITIES :: "string list" where
  "CORE_CAPABILITIES =
     [''ego_browser_script_execute_v1'', ''ego_browser_snapshot_v1'',
      ''ego_browser_screenshot_artifact_v1'', ''ego_browser_task_space_v1'',
      ''ego_browser_concurrency_v1'']"

definition policy_capabilities :: "verified_local_policy \<Rightarrow> string list" where
  "policy_capabilities p =
     CORE_CAPABILITIES
     @ (if vp_allowlist p \<noteq> None then [''ego_browser_file_allowlist_v1''] else [])
     @ (if vp_learning_bundle p \<noteq> None then [''ego_browser_site_learning_v1''] else [])"

definition policy_learning_digest :: "verified_local_policy \<Rightarrow> string option" where
  "policy_learning_digest p = map_option lb_digest (vp_learning_bundle p)"

section \<open>Configuration\<close>

record bridge_config =
  bc_executable :: path
  bc_work_root :: path
  bc_binding_id :: string
  bc_generation :: u64
  bc_allowlist_revision :: u64
  bc_allowlist_roots_digest :: "string option"
  bc_allowlist :: "allowlist option"
  bc_learning_bundle_digest :: "string option"
  bc_learning_bundle_root :: "path option"
  bc_local_policy_revision :: u64
  bc_capabilities :: "string list"
  bc_release_profile :: release_profile
  bc_credential_profile :: credential_profile
  bc_signer_certificate_sha256 :: string
  bc_runtime_version :: string
  bc_ego_lite_version :: string
  bc_skill_version :: string
  bc_max_parallel_requests :: nat
  bc_default_task_space :: string
  bc_broker_startup_nonce :: "string option"

text \<open>\<open>str::parse::<u64>\<close>: an optional plus sign, then digits whose value fits.\<close>

definition digit_value :: "char \<Rightarrow> nat" where
  "digit_value c = ord_of c - 48"

definition parse_u64 :: "string \<Rightarrow> u64 option" where
  "parse_u64 s =
     (let digits = (case s of CHR ''+'' # r \<Rightarrow> r | _ \<Rightarrow> s);
          n = foldl (\<lambda>a c. 10 * a + digit_value c) 0 digits
      in if digits = [] \<or> \<not> list_all is_ascii_digit digits \<or> n \<ge> 2 ^ 64 then None
         else Some (of_nat n))"

text \<open>\<open>var_os\<close> is the environment; \<open>env::var\<close> sees its UTF-8 values only.  \<open>temp\<close> is
  \<open>env::temp_dir()\<close> after the attempt to canonicalize it.\<close>

definition env_var :: "(string \<Rightarrow> string option) \<Rightarrow> string \<Rightarrow> string option" where
  "env_var var_os k =
     (case var_os k of None \<Rightarrow> None | Some v \<Rightarrow> if valid_utf8 v then Some v else None)"

definition release_profile_of :: "string \<Rightarrow> release_profile option" where
  "release_profile_of v =
     (if v = ''logic-test'' \<or> v = ''logic_test'' then Some LogicTest
      else if v = ''development-local'' \<or> v = ''development_local'' then Some DevelopmentLocal
      else if v = ''community-local-trust'' \<or> v = ''community_local_trust''
      then Some CommunityLocalTrust
      else if v = ''developer-id'' \<or> v = ''developer_id'' then Some DeveloperId
      else None)"

definition credential_profile_of :: "string \<Rightarrow> credential_profile option" where
  "credential_profile_of v =
     (if v = ''community_file'' \<or> v = ''community-file'' then Some CommunityFile
      else if v = ''keychain_access_group'' \<or> v = ''keychain-access-group''
      then Some KeychainAccessGroup
      else None)"

definition unwrap_or :: "'a option \<Rightarrow> 'a \<Rightarrow> 'a" where
  "unwrap_or m d = (case m of None \<Rightarrow> d | Some x \<Rightarrow> x)"

definition from_environment :: "(string \<Rightarrow> string option) \<Rightarrow> path \<Rightarrow> bridge_config" where
  "from_environment var_os temp =
     (let var = env_var var_os in
      \<lparr>bc_executable =
         unwrap_or (map_option path_of (var_os ''EGO_BROWSER_EXECUTABLE'')) (path_of ''ego-browser''),
       bc_work_root = unwrap_or (map_option path_of (var_os ''EGO_BROWSER_WORK_ROOT''))
         (path_join temp (path_of ''agent-remote-ego-browser'')),
       bc_binding_id = unwrap_or_default (var ''EGO_BROWSER_BINDING_ID''),
       bc_generation = unwrap_or (Option.bind (var ''EGO_BROWSER_GENERATION'') parse_u64) 1,
       bc_allowlist_revision = 1,
       bc_allowlist_roots_digest = None,
       bc_allowlist = None,
       bc_learning_bundle_digest = None,
       bc_learning_bundle_root = None,
       bc_local_policy_revision = 1,
       bc_capabilities = CORE_CAPABILITIES,
       bc_release_profile = unwrap_or
         (Option.bind (var ''EGO_BROWSER_RELEASE_PROFILE'') release_profile_of) DevelopmentLocal,
       bc_credential_profile = unwrap_or
         (Option.bind (var ''EGO_BROWSER_CREDENTIAL_PROFILE'') credential_profile_of) CommunityFile,
       bc_signer_certificate_sha256 =
         unwrap_or (var ''EGO_BROWSER_SIGNER_CERTIFICATE_SHA256'') ''development'',
       bc_runtime_version = SUPPORTED_LOCAL_RUNTIME_VERSION,
       bc_ego_lite_version = SUPPORTED_LOCAL_RUNTIME_VERSION,
       bc_skill_version = SUPPORTED_SKILL_VERSION,
       bc_max_parallel_requests = 4,
       bc_default_task_space =
         unwrap_or (var ''EGO_BROWSER_DEFAULT_TASK_SPACE'') ''agent-remote:development'',
       bc_broker_startup_nonce = var ''EGO_BROWSER_BROKER_NONCE''\<rparr>)"

definition apply_verified_policy :: "bridge_config \<Rightarrow> verified_local_policy \<Rightarrow> bridge_config" where
  "apply_verified_policy c p =
     (let c1 = c\<lparr>bc_allowlist_revision := vp_allowlist_revision p,
          bc_allowlist_roots_digest := vp_allowlist_roots_digest p,
          bc_allowlist := vp_allowlist p,
          bc_learning_bundle_digest := policy_learning_digest p,
          bc_learning_bundle_root := map_option lb_root (vp_learning_bundle p),
          bc_local_policy_revision := vp_policy_revision p,
          bc_capabilities := policy_capabilities p\<rparr>
      in case vp_learning_bundle p of
           None \<Rightarrow> c1
         | Some bundle \<Rightarrow> c1\<lparr>bc_skill_version := lb_skill_version bundle\<rparr>)"

definition policy_matches :: "bridge_config \<Rightarrow> verified_local_policy \<Rightarrow> bool" where
  "policy_matches c p \<longleftrightarrow>
     bc_local_policy_revision c = vp_policy_revision p
     \<and> bc_allowlist_revision c = vp_allowlist_revision p
     \<and> bc_allowlist_roots_digest c = vp_allowlist_roots_digest p
     \<and> bc_learning_bundle_digest c = policy_learning_digest p
     \<and> bc_learning_bundle_root c = map_option lb_root (vp_learning_bundle p)
     \<and> bc_capabilities c = policy_capabilities p"

text \<open>\<open>version\<close> is \<open>CARGO_PKG_VERSION\<close>, fixed when the crate is built.\<close>

definition config_capability :: "string \<Rightarrow> bridge_config \<Rightarrow> bridge_capability" where
  "config_capability version c =
     \<lparr>cap_bridge_protocol_version = PROTOCOL_VERSION,
      cap_remote_wrapper_version = version,
      cap_local_ego_browser_runtime_version = bc_runtime_version c,
      cap_ego_lite_runtime_version = bc_ego_lite_version c,
      cap_skill_version = bc_skill_version c,
      cap_release_profile = bc_release_profile c,
      cap_signer_certificate_sha256 = bc_signer_certificate_sha256 c,
      cap_credential_profile = bc_credential_profile c,
      cap_allowlist_revision = bc_allowlist_revision c,
      cap_allowlist_roots_digest = bc_allowlist_roots_digest c,
      cap_learning_bundle_digest = bc_learning_bundle_digest c,
      cap_max_parallel_requests = bc_max_parallel_requests c,
      cap_max_script_bytes = MAX_SCRIPT_BYTES,
      cap_max_execute_timeout_ms = MAX_EXECUTE_TIMEOUT_MS,
      cap_supported_concurrency = [TaskSpaceTab, TaskSpace, Binding],
      cap_capabilities = bc_capabilities c,
      cap_remote_platform = ''linux'',
      cap_local_platform = ''macos''\<rparr>"

section \<open>Errors\<close>

datatype bridge_error =
  Unavailable | Revoked | LeaseExpired | LeaseRenewalRequired | Replay | Concurrency
| Protocol protocol_error | IoFailure io_error | ProtocolMessage string

fun log_code :: "bridge_error \<Rightarrow> string" where
  "log_code Unavailable = ''bridge_unavailable''"
| "log_code Revoked = ''binding_revoked''"
| "log_code bridge_error.LeaseExpired = ''lease_expired''"
| "log_code bridge_error.LeaseRenewalRequired = ''lease_renewal_required''"
| "log_code bridge_error.Replay = ''replay''"
| "log_code Concurrency = ''concurrency_conflict''"
| "log_code (Protocol _) = ''protocol_error''"
| "log_code (ProtocolMessage _) = ''protocol_error''"
| "log_code (IoFailure _) = ''io_error''"

section \<open>Comparing secrets\<close>

text \<open>\<open>constant_time_text_eq\<close> folds the differences of all bytes before it answers.\<close>

unbundle bit_operations_syntax

definition constant_time_text_eq :: "string \<Rightarrow> string \<Rightarrow> bool" where
  "constant_time_text_eq left right =
     (if length left \<noteq> length right then False
      else foldl (\<lambda>difference (a, b). difference OR (a XOR b)) 0
             (zip (as_bytes left) (as_bytes right)) = (0 :: u8))"

lemma xor_zero_iff_u8: "(a :: u8) XOR b = 0 \<longleftrightarrow> a = b"
proof
  assume "a XOR b = 0"
  then have "(a XOR b) XOR b = b" by simp
  moreover have "(a XOR b) XOR b = a" by (simp only: xor.assoc xor_self_eq xor.right_neutral)
  ultimately show "a = b" by simp
qed simp

lemma fold_difference_zero:
  "length xs = length ys \<Longrightarrow>
     foldl (\<lambda>d (a, b). d OR (a XOR b)) (d0 :: u8) (zip xs ys) = 0 \<longleftrightarrow> d0 = 0 \<and> xs = ys"
  by (induction xs ys arbitrary: d0 rule: list_induct2) (auto simp: or_eq_0_iff xor_zero_iff_u8)

lemma constant_time_text_eq_iff: "constant_time_text_eq s t \<longleftrightarrow> s = t"
  by (auto simp: constant_time_text_eq_def fold_difference_zero)

section \<open>Properties\<close>

text \<open>The bridge detects every change of the verified local policy since its configuration was
  taken from it: a configuration made from policy \<open>p\<close> matches a fresh policy \<open>q\<close> exactly when the
  two agree on both revisions, on the allowlist (its presence and the digest of its roots) and on
  the learning bundle (its presence, digest and root).\<close>

theorem policy_change_detected:
  "policy_matches (apply_verified_policy c p) q \<longleftrightarrow>
     vp_policy_revision p = vp_policy_revision q \<and>
     vp_allowlist_revision p = vp_allowlist_revision q \<and>
     vp_allowlist_roots_digest p = vp_allowlist_roots_digest q \<and>
     (vp_allowlist p = None \<longleftrightarrow> vp_allowlist q = None) \<and>
     map_option lb_digest (vp_learning_bundle p) = map_option lb_digest (vp_learning_bundle q) \<and>
     map_option lb_root (vp_learning_bundle p) = map_option lb_root (vp_learning_bundle q)"
  by (cases "vp_learning_bundle p"; cases "vp_learning_bundle q"; cases "vp_allowlist p";
      cases "vp_allowlist q")
    (auto simp: policy_matches_def apply_verified_policy_def policy_learning_digest_def
      policy_capabilities_def Let_def)

text \<open>A policy as the policy store verifies it: its revision counts from one, and the digests go with
  the resources they describe.\<close>

definition policy_ok :: "verified_local_policy \<Rightarrow> bool" where
  "policy_ok p \<longleftrightarrow> vp_allowlist_revision p \<noteq> 0 \<and>
     (vp_allowlist p = None \<longleftrightarrow> vp_allowlist_roots_digest p = None) \<and>
     (\<forall>d. vp_allowlist_roots_digest p = Some d \<longrightarrow> valid_sha256_digest d) \<and>
     (\<forall>b. vp_learning_bundle p = Some b \<longrightarrow>
        valid_sha256_digest (lb_digest b) \<and> valid_text_id (lb_skill_version b) 64)"

definition versions_ok :: "string \<Rightarrow> bridge_config \<Rightarrow> bool" where
  "versions_ok version c \<longleftrightarrow> valid_text_id version 64 \<and> valid_text_id (bc_runtime_version c) 64 \<and>
     valid_text_id (bc_ego_lite_version c) 64 \<and> valid_text_id (bc_skill_version c) 64 \<and>
     valid_text_id (bc_signer_certificate_sha256 c) 128"

lemma core_capabilities_valid:
  "list_all (\<lambda>x. x \<noteq> [] \<and> valid_text_id x 128)
     (CORE_CAPABILITIES @ [''ego_browser_file_allowlist_v1'', ''ego_browser_site_learning_v1''])"
  by (simp add: CORE_CAPABILITIES_def valid_text_id_def printable_def)

lemma policy_capabilities_valid:
  "list_all (\<lambda>x. x \<noteq> [] \<and> valid_text_id x 128) (policy_capabilities p)"
  using core_capabilities_valid by (simp add: policy_capabilities_def)

lemma policy_capabilities_facts:
  "distinct (policy_capabilities p)"
  "''ego_browser_script_execute_v1'' \<in> set (policy_capabilities p)"
  "''ego_browser_file_allowlist_v1'' \<in> set (policy_capabilities p) \<longleftrightarrow> vp_allowlist p \<noteq> None"
  "''ego_browser_site_learning_v1'' \<in> set (policy_capabilities p) \<longleftrightarrow> vp_learning_bundle p \<noteq> None"
  by (simp_all add: policy_capabilities_def CORE_CAPABILITIES_def)

lemma apply_policy_fields:
  "bc_allowlist_revision (apply_verified_policy c p) = vp_allowlist_revision p"
  "bc_allowlist_roots_digest (apply_verified_policy c p) = vp_allowlist_roots_digest p"
  "bc_learning_bundle_digest (apply_verified_policy c p) = policy_learning_digest p"
  "bc_capabilities (apply_verified_policy c p) = policy_capabilities p"
  "bc_max_parallel_requests (apply_verified_policy c p) = bc_max_parallel_requests c"
  "bc_runtime_version (apply_verified_policy c p) = bc_runtime_version c"
  "bc_ego_lite_version (apply_verified_policy c p) = bc_ego_lite_version c"
  "bc_signer_certificate_sha256 (apply_verified_policy c p) = bc_signer_certificate_sha256 c"
  "bc_skill_version (apply_verified_policy c p) =
     (case vp_learning_bundle p of None \<Rightarrow> bc_skill_version c | Some b \<Rightarrow> lb_skill_version b)"
  by (simp_all add: apply_verified_policy_def Let_def split: option.split)

lemma policy_capability_valid:
  assumes "policy_ok p" and "versions_ok version c"
    and "0 < bc_max_parallel_requests c" and "bc_max_parallel_requests c \<le> 4"
  shows "capability_validate (config_capability version (apply_verified_policy c p)) = Inr ()"
proof -
  let ?cap = "config_capability version (apply_verified_policy c p)"
  have skill: "valid_text_id (cap_skill_version ?cap) 64"
    using assms(1,2)
    by (auto simp: config_capability_def apply_policy_fields policy_ok_def versions_ok_def
        split: option.split)
  have caps: "cap_capabilities ?cap = policy_capabilities p"
    by (simp add: config_capability_def apply_policy_fields)
  have "\<not> (list_ex (\<lambda>x. x = []) (cap_capabilities ?cap)
      \<or> list_ex (\<lambda>x. \<not> valid_text_id x 128) (cap_capabilities ?cap)
      \<or> has_duplicates (cap_capabilities ?cap)
      \<or> \<not> list_ex (\<lambda>x. x = ''ego_browser_script_execute_v1'') (cap_capabilities ?cap))"
    using policy_capabilities_valid [of p] policy_capabilities_facts [of p]
    unfolding caps has_duplicates_iff list_ex_iff list_all_iff by blast
  moreover have "list_ex (\<lambda>x. x = ''ego_browser_file_allowlist_v1'') (cap_capabilities ?cap)
        = (vp_allowlist p \<noteq> None)"
    "list_ex (\<lambda>x. x = ''ego_browser_site_learning_v1'') (cap_capabilities ?cap)
        = (vp_learning_bundle p \<noteq> None)"
    unfolding caps list_ex_iff using policy_capabilities_facts [of p] by blast+
  moreover have "is_some_and (cap_allowlist_roots_digest ?cap) (\<lambda>v. \<not> valid_sha256_digest v) = False"
    "is_some_and (cap_learning_bundle_digest ?cap) (\<lambda>v. \<not> valid_sha256_digest v) = False"
    using assms(1) by (auto simp: config_capability_def apply_policy_fields policy_ok_def
        policy_learning_digest_def is_some_and_def split: option.split)
  moreover have "(vp_allowlist p \<noteq> None) = (cap_allowlist_roots_digest ?cap \<noteq> None)"
    "(vp_learning_bundle p \<noteq> None) = (cap_learning_bundle_digest ?cap \<noteq> None)"
    using assms(1) by (auto simp: config_capability_def apply_policy_fields policy_ok_def
        policy_learning_digest_def)
  moreover have "cap_allowlist_revision ?cap \<noteq> 0" "cap_max_parallel_requests ?cap \<noteq> 0"
    "\<not> cap_max_parallel_requests ?cap > 4"
    using assms by (simp_all add: config_capability_def apply_policy_fields policy_ok_def)
  moreover have "cap_bridge_protocol_version ?cap = PROTOCOL_VERSION"
    "cap_remote_platform ?cap = REMOTE_PLATFORM" "cap_local_platform ?cap = LOCAL_PLATFORM"
    "cap_max_script_bytes ?cap = MAX_SCRIPT_BYTES" "MAX_SCRIPT_BYTES \<noteq> 0"
    "cap_max_execute_timeout_ms ?cap = MAX_EXECUTE_TIMEOUT_MS" "MAX_EXECUTE_TIMEOUT_MS \<noteq> 0"
    "cap_supported_concurrency ?cap = [TaskSpaceTab, TaskSpace, Binding]"
    by (simp_all add: config_capability_def protocol_constants)
  moreover have "valid_text_id (cap_remote_wrapper_version ?cap) 64"
    "valid_text_id (cap_local_ego_browser_runtime_version ?cap) 64"
    "valid_text_id (cap_ego_lite_runtime_version ?cap) 64"
    "valid_text_id (cap_signer_certificate_sha256 ?cap) 128"
    using assms(2) by (simp_all add: config_capability_def apply_policy_fields versions_ok_def)
  ultimately show ?thesis
    using skill unfolding capability_validate_def by (simp add: Let_def)
qed

text \<open>The capability that a bridge advertises after it has taken over a verified policy always
  passes the protocol's own validation, for every policy the store can verify and every parallelism
  limit from one to four.\<close>

theorem advertised_capability_valid:
  assumes "policy_ok p" and "versions_ok version c"
    and "0 < bc_max_parallel_requests c" and "bc_max_parallel_requests c \<le> 4"
  shows "capability_validate (config_capability version (apply_verified_policy c p)) = Inr ()"
  using assms by (rule policy_capability_valid)

definition sample_policy :: verified_local_policy where
  "sample_policy = \<lparr>vp_policy_revision = 3, vp_allowlist_revision = 2,
     vp_allowlist_roots_digest = Some (''sha256:'' @ replicate 64 (CHR ''a'')),
     vp_allowlist = Some small_allowlist, vp_learning_bundle = None\<rparr>"

definition sample_config :: bridge_config where
  "sample_config = apply_verified_policy
     ((from_environment (\<lambda>_. None) [RootDir, Normal ''tmp''])
        \<lparr>bc_binding_id := ''b-1'', bc_generation := 2\<rparr>) sample_policy"

lemma sample_policy_ok: "policy_ok sample_policy"
  by (simp add: policy_ok_def sample_policy_def valid_sha256_digest_def starts_with_def
      list_all_iff is_ascii_digit_def)

lemma default_versions_ok:
  "versions_ok ''0.1.13'' ((from_environment (\<lambda>_. None) t)\<lparr>bc_binding_id := b, bc_generation := g\<rparr>)"
  by (simp add: versions_ok_def from_environment_def Let_def env_var_def unwrap_or_def
      valid_text_id_def printable_def SUPPORTED_LOCAL_RUNTIME_VERSION_def SUPPORTED_SKILL_VERSION_def)

lemma sample_capability: "capability_validate (config_capability ''0.1.13'' sample_config) = Inr ()"
  unfolding sample_config_def
  by (rule policy_capability_valid [OF sample_policy_ok default_versions_ok])
    (simp_all add: from_environment_def Let_def)

theorem advertised_capability_valid_witness:
  "capability_validate (config_capability ''0.1.13'' sample_config) = Inr ()"
  unfolding sample_config_def
  by (rule advertised_capability_valid [OF sample_policy_ok default_versions_ok])
    (simp_all add: from_environment_def Let_def)

end
