(* ===== verification/State_Store.thy ===== *)
theory State_Store
  imports Bridge_Config
begin

text \<open>
  The durable state of the bridge, \<open>crates/local-bridge/src/state_store.rs\<close>: the private work root,
  the lock of the single instance, and the ledger that survives restarts with the highest remote
  sequence number accepted.  The ledger file is its content (\<open>None\<close> when there is none); the answers
  of the system calls during one operation are a record, so that every one of them can fail.  The
  locale \<open>replay_filter\<close> is what the supervisor relies on.
\<close>

section \<open>Private files\<close>

unbundle bit_operations_syntax

definition validate_private_file :: "u32 \<Rightarrow> io_error + file_meta \<Rightarrow> bridge_error + unit" where
  "validate_private_file euid r =
     bind_r (map_err IoFailure r) (\<lambda>m.
       if fm_symlink m \<or> \<not> fm_file m
       then Inl (ProtocolMessage ''Bridge state path is not a regular file'')
       else if fm_uid m \<noteq> euid \<or> fm_nlink m \<noteq> 1 \<or> mode_bits m 0x3F \<noteq> 0
          \<or> mode_bits m 0x180 \<noteq> 0x180
       then Inl (ProtocolMessage ''Bridge state file permissions are unsafe'')
       else Inr ())"

definition set_private_permissions :: "world \<Rightarrow> path \<Rightarrow> (io_error, unit) act" where
  "set_private_permissions w p = sys id (\<lambda>t. w_chmod_path w t p 0x1C0)"

definition prepare_private_root :: "world \<Rightarrow> path \<Rightarrow> (bridge_error, unit) act" where
  "prepare_private_root w p =
     bind_a (check (is_absolute p \<and> \<not> list_ex (\<lambda>c. c = CurDir \<or> c = ParentDir) p)
       (ProtocolMessage ''work root must be an absolute canonical path'')) (\<lambda>_.
     bind_a (each (\<lambda>i. bind_a (try_sys (\<lambda>t. w_lstat w t (take i p)))
         (\<lambda>r. case r of
             Inr m \<Rightarrow> check (\<not> fm_symlink m) (ProtocolMessage ''work root contains a symlink'')
           | Inl _ \<Rightarrow> ret ())) [1..<Suc (length p)]) (\<lambda>_.
     bind_a (try_sys (\<lambda>t. w_lstat w t p)) (\<lambda>missing.
     bind_a (case missing of
         Inr _ \<Rightarrow> ret ()
       | Inl _ \<Rightarrow> bind_a (sys IoFailure (\<lambda>t. w_mkdir_all w t p)) (\<lambda>_.
             sys IoFailure (\<lambda>t. w_chmod_path w t p 0x1C0))) (\<lambda>_.
     bind_a (sys IoFailure (\<lambda>t. w_lstat w t p)) (\<lambda>m.
     bind_a (check (\<not> (fm_symlink m \<or> \<not> fm_dir m))
       (ProtocolMessage ''work root is not a directory'')) (\<lambda>_.
       check (\<not> (fm_uid m \<noteq> w_euid w \<or> mode_bits m 0x3F \<noteq> 0))
         (ProtocolMessage ''work root permissions are unsafe'')))))))"

definition acquire_instance_lock :: "world \<Rightarrow> path \<Rightarrow> (bridge_error, handle) act" where
  "acquire_instance_lock w root =
     (let p = path_join root [Normal ''bridge-instance.lock''] in
      bind_a (sys IoFailure (\<lambda>t. w_open w t p
        \<lparr>of_write = True, of_directory = False, of_create = True, of_create_new = False\<rparr>)) (\<lambda>lockfile.
      bind_a (\<lambda>t. (validate_private_file (w_euid w) (w_lstat w t p), Suc t)) (\<lambda>_.
      bind_a (\<lambda>t. (Inr (w_flock w t lockfile), Suc t)) (\<lambda>owned.
      bind_a (check owned (ProtocolMessage ''another Bridge instance owns the work root'')) (\<lambda>_.
        ret lockfile)))))"

section \<open>The ledger\<close>

record remote_sequence_state =
  rq_version :: u32
  rq_highest_sequence :: u64

definition sequence_state_json :: "remote_sequence_state \<Rightarrow> json" where
  "sequence_state_json s =
     JObject [(''highest_sequence'', JNumber (PosInt (rq_highest_sequence s))),
              (''version'', JNumber (PosInt (ucast (rq_version s))))]"

text \<open>\<open>lc_from\<close> is the \<open>Deserialize\<close> instance that \<open>serde\<close> derives for the struct.\<close>

record ledger_codec =
  lc_json :: json_codec
  lc_from :: "json \<Rightarrow> string + remote_sequence_state"
  lc_euid :: u32

definition ledger_bytes :: "ledger_codec \<Rightarrow> u64 \<Rightarrow> bytes" where
  "ledger_bytes c n = canonical_json (jc_to_vec (lc_json c))
     (sequence_state_json \<lparr>rq_version = 1, rq_highest_sequence = n\<rparr>)"

text \<open>Reading back what was written gives it back, and it fits the ledger's size limit.\<close>

definition ledger_codec_ok :: "ledger_codec \<Rightarrow> bool" where
  "ledger_codec_ok c \<longleftrightarrow> (\<forall>n. length (ledger_bytes c n) \<le> 256 \<and>
     parse_strict_json (lc_json c) (lc_from c) (ledger_bytes c n)
       = Inr \<lparr>rq_version = 1, rq_highest_sequence = n\<rparr>)"

type_synonym ledger_file = "bytes option"

record load_answers =
  la_lstat :: "io_error + file_meta"
  la_open :: "io_error option"
  la_read :: "io_error option"

text \<open>\<open>la_lstat\<close> answers for a file that exists; without one the answer is \<open>NotFound\<close>.\<close>

definition load_remote_sequence ::
  "ledger_codec \<Rightarrow> load_answers \<Rightarrow> ledger_file \<Rightarrow> bridge_error + u64" where
  "load_remote_sequence c a disk =
     (case disk of
        None \<Rightarrow> Inr 0
      | Some content \<Rightarrow>
          bind_r (validate_private_file (lc_euid c) (la_lstat a)) (\<lambda>_.
            case la_open a of Some e \<Rightarrow> Inl (IoFailure e) | None \<Rightarrow>
            (case la_read a of Some e \<Rightarrow> Inl (IoFailure e) | None \<Rightarrow>
              let bs = take 257 content in
              if length bs > 256
              then Inl (ProtocolMessage ''remote sequence ledger is too large'')
              else bind_r (map_err
                    (\<lambda>_. ProtocolMessage ''remote sequence ledger is malformed'')
                    (parse_strict_json (lc_json c) (lc_from c) bs)) (\<lambda>state.
                if rq_version state \<noteq> 1
                then Inl (ProtocolMessage ''remote sequence ledger version is unsupported'')
                else Inr (rq_highest_sequence state)))))"

record persist_answers =
  pa_lstat :: "io_error + file_meta"
  pa_opens :: "io_error option list"
  pa_write :: "io_error option"
  pa_sync :: "io_error option"
  pa_rename :: "io_error option"
  pa_lstat_after :: "io_error + file_meta"
  pa_sync_directory :: "io_error option"

definition attempt :: "io_error option \<Rightarrow> bridge_error + unit" where
  "attempt r = (case r of None \<Rightarrow> Inr () | Some e \<Rightarrow> Inl (IoFailure e))"

text \<open>The closure that runs once a fresh temporary file is open: the ledger changes with the rename,
  and the checks after it can still fail.\<close>

definition install_ledger ::
  "ledger_codec \<Rightarrow> persist_answers \<Rightarrow> ledger_file \<Rightarrow> bytes \<Rightarrow> ledger_file \<times> (bridge_error + unit)" where
  "install_ledger c a disk content =
     (case bind_r (attempt (pa_write a)) (\<lambda>_. bind_r (attempt (pa_sync a)) (\<lambda>_.
        attempt (pa_rename a))) of
        Inl e \<Rightarrow> (disk, Inl e)
      | Inr _ \<Rightarrow> (Some content,
          bind_r (validate_private_file (lc_euid c) (pa_lstat_after a)) (\<lambda>_.
            attempt (pa_sync_directory a))))"

fun persist_attempts ::
  "nat \<Rightarrow> io_error option list \<Rightarrow> ledger_file \<times> (bridge_error + unit) \<Rightarrow> ledger_file \<Rightarrow>
     ledger_file \<times> (bridge_error + unit)" where
  "persist_attempts 0 opens installed disk =
     (disk, Inl (ProtocolMessage ''remote sequence ledger temporary path collision''))"
| "persist_attempts (Suc n) opens installed disk =
     (case opens of
        [] \<Rightarrow> installed
      | None # _ \<Rightarrow> installed
      | Some e # opens' \<Rightarrow>
          if e = AlreadyExists then persist_attempts n opens' installed disk
          else (disk, Inl (IoFailure e)))"

definition persist_remote_sequence ::
  "ledger_codec \<Rightarrow> persist_answers \<Rightarrow> ledger_file \<Rightarrow> u64 \<Rightarrow> ledger_file \<times> (bridge_error + unit)" where
  "persist_remote_sequence c a disk sequence =
     (case (case disk of None \<Rightarrow> Inr () | Some _ \<Rightarrow> validate_private_file (lc_euid c) (pa_lstat a)) of
        Inl e \<Rightarrow> (disk, Inl e)
      | Inr _ \<Rightarrow> persist_attempts 8 (pa_opens a)
          (install_ledger c a disk (ledger_bytes c sequence)) disk)"

text \<open>\<open>reserve_remote_sequence\<close> of the supervisor, on the ledger file and the number in memory.\<close>

definition reserve_sequence ::
  "ledger_codec \<Rightarrow> persist_answers \<Rightarrow> ledger_file \<Rightarrow> u64 \<Rightarrow> u64 \<Rightarrow>
     ledger_file \<times> u64 \<times> (bridge_error + unit)" where
  "reserve_sequence c a disk highest sequence =
     (if sequence \<le> highest then (disk, highest, Inl bridge_error.Replay)
      else (case persist_remote_sequence c a disk sequence of
          (disk, Inl e) \<Rightarrow> (disk, highest, Inl e)
        | (disk, Inr _) \<Rightarrow> (disk, sequence, Inr ())))"

section \<open>Replay filters\<close>

text \<open>The runs of a filter: numbers are offered, and the process may stop and start again at any
  time.  The list holds the accepted numbers, the latest first.\<close>

inductive replay_run ::
  "('s \<Rightarrow> 'f \<Rightarrow> u64 \<Rightarrow> 's \<times> bool) \<Rightarrow> ('s \<Rightarrow> 'g \<Rightarrow> 's option) \<Rightarrow> 's \<Rightarrow> 's \<Rightarrow> u64 list \<Rightarrow> bool"
  for reserve :: "'s \<Rightarrow> 'f \<Rightarrow> u64 \<Rightarrow> 's \<times> bool" and restart :: "'s \<Rightarrow> 'g \<Rightarrow> 's option" and s0 :: 's where
  fresh: "replay_run reserve restart s0 s0 []"
| accepted: "replay_run reserve restart s0 s acc \<Longrightarrow> reserve s f n = (t, True) \<Longrightarrow>
     replay_run reserve restart s0 t (n # acc)"
| refused: "replay_run reserve restart s0 s acc \<Longrightarrow> reserve s f n = (t, False) \<Longrightarrow>
     replay_run reserve restart s0 t acc"
| restarted: "replay_run reserve restart s0 s acc \<Longrightarrow> restart s g = Some t \<Longrightarrow>
     replay_run reserve restart s0 t acc"

locale replay_filter =
  fixes reserve :: "'s \<Rightarrow> 'f \<Rightarrow> u64 \<Rightarrow> 's \<times> bool"
    and restart :: "'s \<Rightarrow> 'g \<Rightarrow> 's option"
    and inv :: "'s \<Rightarrow> bool"
    and mark :: "'s \<Rightarrow> u64"
  assumes reserve_inv: "inv s \<Longrightarrow> inv (fst (reserve s f n))"
    and reserve_accepts: "inv s \<Longrightarrow> reserve s f n = (t, True) \<Longrightarrow> mark s < n \<and> mark t = n"
    and reserve_refuses: "inv s \<Longrightarrow> reserve s f n = (t, False) \<Longrightarrow> mark t = mark s"
    and restart_keeps: "inv s \<Longrightarrow> restart s g = Some t \<Longrightarrow> inv t \<and> mark s \<le> mark t"
begin

lemma run_invariant:
  "replay_run reserve restart s0 s acc \<Longrightarrow> inv s0 \<Longrightarrow>
     inv s \<and> mark s0 \<le> mark s \<and> sorted_wrt (>) acc \<and> (\<forall>n \<in> set acc. mark s0 < n \<and> n \<le> mark s)"
proof (induction rule: replay_run.induct)
  case (accepted s acc f n t)
  have "inv t" using reserve_inv accepted.hyps(2) accepted.IH accepted.prems by (metis fst_conv)
  moreover have "mark s < n" "mark t = n"
    using reserve_accepts accepted.hyps(2) accepted.IH accepted.prems by blast+
  ultimately show ?case using accepted.IH accepted.prems by fastforce
next
  case (refused s acc f n t)
  have "inv t" using reserve_inv refused.hyps(2) refused.IH refused.prems by (metis fst_conv)
  with refused reserve_refuses show ?case by metis
next
  case (restarted s acc g t)
  with restart_keeps show ?case by (meson order_trans)
qed simp

lemma accepted_once: "replay_run reserve restart s0 s acc \<Longrightarrow> inv s0 \<Longrightarrow> distinct acc"
  using run_invariant by (metis distinct_conv_nth less_irrefl nat_neq_iff sorted_wrt_iff_nth_less)

end

section \<open>The ledger is a replay filter\<close>

record ledger_state =
  lg_codec :: ledger_codec
  lg_file :: ledger_file
  lg_highest :: u64

definition ledger_reserve :: "ledger_state \<Rightarrow> persist_answers \<Rightarrow> u64 \<Rightarrow> ledger_state \<times> bool" where
  "ledger_reserve s a n =
     (case reserve_sequence (lg_codec s) a (lg_file s) (lg_highest s) n of
        (disk, highest, r) \<Rightarrow> (s\<lparr>lg_file := disk, lg_highest := highest\<rparr>, is_ok r))"

definition ledger_restart :: "ledger_state \<Rightarrow> load_answers \<Rightarrow> ledger_state option" where
  "ledger_restart s a =
     (case load_remote_sequence (lg_codec s) a (lg_file s) of
        Inl _ \<Rightarrow> None
      | Inr h \<Rightarrow> Some (s\<lparr>lg_highest := h\<rparr>))"

definition ledger_holds :: "ledger_codec \<Rightarrow> ledger_file \<Rightarrow> u64 \<Rightarrow> bool" where
  "ledger_holds c disk n \<longleftrightarrow> disk = None \<and> n = 0 \<or> disk = Some (ledger_bytes c n)"

text \<open>The file never falls behind the number in memory.\<close>

definition ledger_inv :: "ledger_state \<Rightarrow> bool" where
  "ledger_inv s \<longleftrightarrow> ledger_codec_ok (lg_codec s) \<and>
     (\<exists>n. ledger_holds (lg_codec s) (lg_file s) n \<and> lg_highest s \<le> n)"

lemma load_holds:
  assumes "ledger_codec_ok c" "ledger_holds c disk n" "load_remote_sequence c a disk = Inr m"
  shows "m = n"
  using assms unfolding ledger_codec_ok_def ledger_holds_def
  by (auto simp: load_remote_sequence_def Let_def bind_r_Inr_iff split: option.splits if_splits)

lemma install_ledger_cases:
  "install_ledger c a disk content = (disk', r) \<Longrightarrow>
     (r = Inr () \<longrightarrow> disk' = Some content) \<and> (disk' = disk \<or> disk' = Some content)"
  by (auto simp: install_ledger_def split: sum.splits)

lemma persist_attempts_cases:
  "persist_attempts n opens installed disk = (disk', r) \<Longrightarrow>
     (disk', r) = installed \<or> disk' = disk \<and> (\<exists>e. r = Inl e)"
  by (induction n opens installed disk rule: persist_attempts.induct)
    (auto split: list.splits option.splits if_splits)

lemma persist_cases:
  assumes "persist_remote_sequence c a disk n = (disk', r)"
  shows "(r = Inr () \<longrightarrow> disk' = Some (ledger_bytes c n)) \<and>
    (disk' = disk \<or> disk' = Some (ledger_bytes c n))"
proof -
  let ?c = "case disk of None \<Rightarrow> Inr () | Some _ \<Rightarrow> validate_private_file (lc_euid c) (pa_lstat a)"
  show ?thesis
  proof (cases ?c)
    case (Inl e)
    with assms show ?thesis by (auto simp: persist_remote_sequence_def)
  next
    case (Inr u)
    with assms have "persist_attempts 8 (pa_opens a) (install_ledger c a disk (ledger_bytes c n)) disk
        = (disk', r)" by (simp add: persist_remote_sequence_def)
    from persist_attempts_cases [OF this] show ?thesis
      using install_ledger_cases [of c a disk "ledger_bytes c n" disk' r] by auto
  qed
qed

lemma reserve_cases:
  assumes "reserve_sequence c a disk highest n = (disk', highest', r)"
  shows "r = Inr () \<and> highest < n \<and> highest' = n \<and> disk' = Some (ledger_bytes c n)
    \<or> (\<exists>e. r = Inl e) \<and> highest' = highest \<and>
        (disk' = disk \<or> highest < n \<and> disk' = Some (ledger_bytes c n))"
  using assms persist_cases [of c a disk n]
  by (auto simp: reserve_sequence_def not_le split: if_splits prod.splits sum.splits)

lemma ledger_reserve_inv: "ledger_inv s \<Longrightarrow> ledger_inv (fst (ledger_reserve s a n))"
proof -
  assume inv: "ledger_inv s"
  obtain disk' h r where res: "reserve_sequence (lg_codec s) a (lg_file s) (lg_highest s) n = (disk', h, r)"
    by (cases "reserve_sequence (lg_codec s) a (lg_file s) (lg_highest s) n")
  show ?thesis
    using reserve_cases [OF res] inv
    by (auto simp: ledger_reserve_def res ledger_inv_def ledger_holds_def intro: less_imp_le)
qed

lemma ledger_reserve_accepts:
  "ledger_reserve s a n = (t, True) \<Longrightarrow> lg_highest s < n \<and> lg_highest t = n"
  by (auto simp: ledger_reserve_def split: prod.splits dest!: reserve_cases)

lemma ledger_reserve_refuses:
  "ledger_reserve s a n = (t, False) \<Longrightarrow> lg_highest t = lg_highest s"
  by (auto simp: ledger_reserve_def split: prod.splits dest!: reserve_cases)

lemma ledger_restart_keeps:
  "ledger_inv s \<Longrightarrow> ledger_restart s a = Some t \<Longrightarrow> ledger_inv t \<and> lg_highest s \<le> lg_highest t"
proof -
  assume inv: "ledger_inv s" and t: "ledger_restart s a = Some t"
  then obtain n h where n: "ledger_codec_ok (lg_codec s)" "ledger_holds (lg_codec s) (lg_file s) n"
      "lg_highest s \<le> n"
    and h: "load_remote_sequence (lg_codec s) a (lg_file s) = Inr h" "t = s\<lparr>lg_highest := h\<rparr>"
    by (auto simp: ledger_inv_def ledger_restart_def split: sum.splits)
  with load_holds [OF n(1,2) h(1)] show ?thesis by (auto simp: ledger_inv_def)
qed

text \<open>When the system calls succeed, a number above the mark is stored and read back.\<close>

lemma load_own_ledger:
  assumes "ledger_codec_ok c" "validate_private_file (lc_euid c) (la_lstat a) = Inr ()"
    "la_open a = None" "la_read a = None"
  shows "load_remote_sequence c a (Some (ledger_bytes c n)) = Inr n"
proof -
  have len: "length (ledger_bytes c n) \<le> 256"
    and parse: "parse_strict_json (lc_json c) (lc_from c) (ledger_bytes c n)
      = Inr \<lparr>rq_version = 1, rq_highest_sequence = n\<rparr>"
    using assms(1) unfolding ledger_codec_ok_def by blast+
  have "take 257 (ledger_bytes c n) = ledger_bytes c n" using len by simp
  then show ?thesis
    using assms(2-4) len parse by (simp add: load_remote_sequence_def Let_def)
qed

lemma reserve_fresh:
  assumes "highest < n" "validate_private_file (lc_euid c) (pa_lstat a) = Inr ()"
    "validate_private_file (lc_euid c) (pa_lstat_after a) = Inr ()"
    "pa_opens a = None # rest \<or> pa_opens a = Some AlreadyExists # None # rest"
    "pa_write a = None" "pa_sync a = None" "pa_rename a = None" "pa_sync_directory a = None"
  shows "reserve_sequence c a disk highest n = (Some (ledger_bytes c n), n, Inr ())"
proof -
  have "install_ledger c a disk (ledger_bytes c n) = (Some (ledger_bytes c n), Inr ())"
    using assms by (simp add: install_ledger_def attempt_def)
  moreover have "persist_attempts 8 (pa_opens a) i disk = i" for i
    using assms(4) by (auto simp: eval_nat_numeral)
  moreover have "(case disk of None \<Rightarrow> Inr ()
      | Some _ \<Rightarrow> validate_private_file (lc_euid c) (pa_lstat a)) = Inr ()"
    using assms(2) by (simp split: option.split)
  ultimately have "persist_remote_sequence c a disk n = (Some (ledger_bytes c n), Inr ())"
    by (simp add: persist_remote_sequence_def)
  then show ?thesis using assms(1) by (simp add: reserve_sequence_def)
qed

interpretation ledger: replay_filter ledger_reserve ledger_restart ledger_inv lg_highest
  by unfold_locales
    (erule ledger_reserve_inv, erule ledger_reserve_accepts, erule ledger_reserve_refuses,
     erule (1) ledger_restart_keeps)

section \<open>A concrete codec\<close>

text \<open>The ledger's bytes in the self-delimiting serialization of \<open>Json\<close>, with a reader for them.\<close>

definition sample_ledger_parse :: "bytes \<Rightarrow> doc" where
  "sample_ledger_parse bs =
     DMap [(''highest_sequence'', DU64 (of_nat (from_be (take 8 (drop 37 bs))))),
           (''version'', DU64 (of_nat (from_be (take 8 (drop 63 bs)))))] None"

fun sample_ledger_from :: "json \<Rightarrow> string + remote_sequence_state" where
  "sample_ledger_from (JObject [(_, JNumber (PosInt h)), (_, JNumber (PosInt v))]) =
     Inr \<lparr>rq_version = ucast v, rq_highest_sequence = h\<rparr>"
| "sample_ledger_from _ = Inl ''unexpected value''"

definition sample_ledger_codec :: ledger_codec where
  "sample_ledger_codec =
     \<lparr>lc_json = \<lparr>jc_parse = sample_ledger_parse, jc_location = (\<lambda>_. []), jc_at_end = (\<lambda>_. True),
        jc_to_vec = tagged_bytes\<rparr>,
      lc_from = sample_ledger_from, lc_euid = 501\<rparr>"

lemma sample_ledger_bytes:
  "ledger_bytes sample_ledger_codec n =
     (5 # 1 # tagged_string ''highest_sequence'' @ [2, 0]) @ be64 n @
     (1 # tagged_string ''version'' @ [2, 0]) @ be64 1 @ [0]"
  by (simp add: ledger_bytes_def sample_ledger_codec_def canonical_json_def sequence_state_json_def
      btree_of_def less_char_def)

lemma sample_ledger_codec_ok: "ledger_codec_ok sample_ledger_codec"
proof -
  have l: "length (5 # 1 # tagged_string ''highest_sequence'' @ [2, 0]) = 37"
    "length (1 # tagged_string ''version'' @ [2, 0]) = 18"
    by (simp_all add: tagged_string_def as_bytes_def)
  have h: "take 8 (drop 37 (ledger_bytes sample_ledger_codec n)) = be64 n" for n
    unfolding sample_ledger_bytes using l(1) by simp
  have v: "take 8 (drop 63 (ledger_bytes sample_ledger_codec n)) = be64 1" for n
    unfolding sample_ledger_bytes using l by simp
  have "length (ledger_bytes sample_ledger_codec n) \<le> 256" for n
    unfolding sample_ledger_bytes using l by simp
  moreover have "parse_strict_json (lc_json sample_ledger_codec) (lc_from sample_ledger_codec)
      (ledger_bytes sample_ledger_codec n) = Inr \<lparr>rq_version = 1, rq_highest_sequence = n\<rparr>" for n
    unfolding parse_strict_json_def
    by (simp add: sample_ledger_codec_def sample_ledger_parse_def h [unfolded sample_ledger_codec_def]
        v [unfolded sample_ledger_codec_def])
  ultimately show ?thesis unfolding ledger_codec_ok_def by blast
qed

section \<open>Properties\<close>

text \<open>A relay request is accepted at most once, for ever: whatever sequence numbers arrive, in
  whatever order, however the system calls of the ledger fail, and however often the bridge stops
  and restarts in between, the accepted numbers strictly increase.\<close>

theorem remote_sequence_accepted_once:
  assumes "ledger_inv s0" and "replay_run ledger_reserve ledger_restart s0 s acc"
  shows "sorted_wrt (>) acc \<and> distinct acc \<and> (\<forall>n \<in> set acc. lg_highest s0 < n)"
  using ledger.run_invariant [OF assms(2,1)] ledger.accepted_once [OF assms(2,1)] by blast

definition sample_meta :: file_meta where
  "sample_meta = \<lparr>fm_symlink = False, fm_file = True, fm_dir = False, fm_uid = 501, fm_nlink = 1,
     fm_mode = 0x180, fm_len = 72, fm_dev = 1, fm_ino = 9\<rparr>"

definition sample_persist :: persist_answers where
  "sample_persist = \<lparr>pa_lstat = Inr sample_meta, pa_opens = [Some AlreadyExists, None],
     pa_write = None, pa_sync = None, pa_rename = None, pa_lstat_after = Inr sample_meta,
     pa_sync_directory = None\<rparr>"

definition sample_load :: load_answers where
  "sample_load = \<lparr>la_lstat = Inr sample_meta, la_open = None, la_read = None\<rparr>"

lemma sample_meta_private: "validate_private_file 501 (Inr sample_meta) = Inr ()"
  by (simp add: validate_private_file_def sample_meta_def mode_bits_def)

lemma sample_reserve:
  assumes "lg_codec s = sample_ledger_codec" "lg_highest s < n"
  shows "ledger_reserve s sample_persist n
    = (s\<lparr>lg_file := Some (ledger_bytes sample_ledger_codec n), lg_highest := n\<rparr>, True)"
proof -
  have "lc_euid sample_ledger_codec = 501" by (simp add: sample_ledger_codec_def)
  then have "reserve_sequence sample_ledger_codec sample_persist (lg_file s) (lg_highest s) n
      = (Some (ledger_bytes sample_ledger_codec n), n, Inr ())"
    using sample_meta_private
    by (intro reserve_fresh [OF assms(2)]) (simp_all add: sample_persist_def)
  then show ?thesis by (simp add: ledger_reserve_def assms(1))
qed

text \<open>The witness: number 4 is accepted, the bridge restarts, number 9 is accepted.\<close>

theorem remote_sequence_accepted_once_witness:
  "\<exists>s. replay_run ledger_reserve ledger_restart
       \<lparr>lg_codec = sample_ledger_codec, lg_file = None, lg_highest = 0\<rparr> s [9, 4] \<and>
     distinct [9 :: u64, 4]"
proof -
  let ?s0 = "\<lparr>lg_codec = sample_ledger_codec, lg_file = None, lg_highest = 0\<rparr>"
  let ?s1 = "?s0\<lparr>lg_file := Some (ledger_bytes sample_ledger_codec 4), lg_highest := 4\<rparr>"
  let ?s2 = "?s1\<lparr>lg_file := Some (ledger_bytes sample_ledger_codec 9), lg_highest := 9\<rparr>"
  have inv: "ledger_inv ?s0"
    using sample_ledger_codec_ok by (simp add: ledger_inv_def ledger_holds_def)
  have restart: "ledger_restart ?s1 sample_load = Some ?s1"
  proof -
    have "lc_euid sample_ledger_codec = 501" by (simp add: sample_ledger_codec_def)
    then have "load_remote_sequence sample_ledger_codec sample_load
        (Some (ledger_bytes sample_ledger_codec 4)) = Inr 4"
      using sample_meta_private
      by (intro load_own_ledger [OF sample_ledger_codec_ok]) (simp_all add: sample_load_def)
    then show ?thesis by (simp add: ledger_restart_def)
  qed
  have "replay_run ledger_reserve ledger_restart ?s0 ?s1 [4]"
    by (rule replay_run.accepted [OF replay_run.fresh, where f = sample_persist])
      (simp add: sample_reserve)
  then have "replay_run ledger_reserve ledger_restart ?s0 ?s1 [4]"
    by (rule replay_run.restarted [where g = sample_load]) (rule restart)
  then have run: "replay_run ledger_reserve ledger_restart ?s0 ?s2 [9, 4]"
    by (rule replay_run.accepted [where f = sample_persist]) (simp add: sample_reserve)
  show ?thesis using run remote_sequence_accepted_once [OF inv run] by blast
qed

end
