(* ===== verification/Sealing.thy ===== *)
theory Sealing
  imports State_Store Crypto
begin

text \<open>
  How the supervisor opens a request and seals a response: \<open>seal_response\<close> and
  \<open>seal_status_response\<close> of \<open>crates/local-bridge/src/supervisor_execution.rs\<close>, the decryption steps
  shared by \<open>execute\<close>, \<open>prepare_remote_execution\<close> and \<open>cancel_remote_request\<close>, and the JSON form of
  \<open>InnerExecuteResponse\<close> (\<open>crates/protocol/src/types.rs\<close>).
\<close>

section \<open>The surroundings of a supervisor\<close>

text \<open>What the supervisor gets from other crates and from its build: the package version, the
  primitives, the JSON library with the derived readers of the two request types, and the size of a
  serialized envelope.\<close>

record bridge_env =
  be_version :: string
  be_crypto :: crypto
  be_json :: json_codec
  be_request :: "json \<Rightarrow> string + inner_execute_request"
  be_cancel :: "json \<Rightarrow> string + inner_cancel_request"
  be_wire :: "outer_envelope \<Rightarrow> nat option"
  be_ledger :: ledger_codec

definition MAX_FRAME_BYTES :: nat where "MAX_FRAME_BYTES = 16 * 1024 * 1024"

definition envelope_valid :: "bridge_env \<Rightarrow> outer_envelope \<Rightarrow> bridge_error + unit" where
  "envelope_valid env e =
     map_err Protocol (envelope_validate (cr_b64 (be_crypto env)) (be_wire env) e MAX_FRAME_BYTES)"

fun strict_error_text :: "strict_json_error \<Rightarrow> string" where
  "strict_error_text (strict_json_error.InvalidJson value) = ''invalid JSON: '' @ value"
| "strict_error_text (DuplicateKey key) = ''duplicate JSON key: '' @ key"
| "strict_error_text TrailingData = ''trailing JSON data''"

section \<open>Opening\<close>

definition open_payload :: "bridge_env \<Rightarrow> bytes \<Rightarrow> outer_envelope \<Rightarrow> bridge_error + bytes" where
  "open_payload env key e =
     bind_r (map_err Protocol (decoded_payload (cr_b64 (be_crypto env)) e))
       (\<lambda>(ciphertext, nonce, tag).
         let aad = aad_for_outer (jc_to_vec (be_json env)) e
         in map_err Protocol (open_sealed (be_crypto env) key nonce ciphertext tag aad))"

section \<open>Sealing\<close>

fun inner_type_name :: "inner_message_type \<Rightarrow> string" where
  "inner_type_name inner_message_type.Execute = ''execute''"
| "inner_type_name inner_message_type.ExecuteResult = ''execute_result''"
| "inner_type_name inner_message_type.Cancel = ''cancel''"
| "inner_type_name inner_message_type.Error = ''error''"
| "inner_type_name inner_message_type.Doctor = ''doctor''"
| "inner_type_name inner_message_type.Reload = ''reload''"

fun execution_status_label :: "execution_status \<Rightarrow> string" where
  "execution_status_label Completed = ''completed''"
| "execution_status_label ScriptError = ''script_error''"
| "execution_status_label Timeout = ''timeout''"
| "execution_status_label Cancelled = ''cancelled''"
| "execution_status_label BridgeUnavailable = ''bridge_unavailable''"
| "execution_status_label EgoRuntimeUnavailable = ''ego_runtime_unavailable''"
| "execution_status_label execution_status.LeaseExpired = ''lease_expired''"
| "execution_status_label execution_status.BindingRevoked = ''binding_revoked''"
| "execution_status_label ProtocolError = ''protocol_error''"
| "execution_status_label ArtifactError = ''artifact_error''"
| "execution_status_label execution_status.ConcurrencyConflict = ''concurrency_conflict''"
| "execution_status_label execution_status.LeaseRenewalRequired = ''lease_renewal_required''"
| "execution_status_label UnknownResult = ''unknown_result''"

definition json_of_int :: "int \<Rightarrow> json" where
  "json_of_int i = JNumber (if 0 \<le> i then PosInt (of_int i) else NegInt (of_int i))"

definition artifact_json :: "artifact_descriptor \<Rightarrow> json" where
  "artifact_json a = JObject (btree_of
     [(''artifact_id'', JString (ad_artifact_id a)),
      (''media_type'', JString (ad_media_type a)),
      (''size_bytes'', JNumber (PosInt (ad_size_bytes a))),
      (''width'', JNumber (PosInt (ucast (ad_width a)))),
      (''height'', JNumber (PosInt (ucast (ad_height a)))),
      (''content_b64'', JString (ad_content_b64 a))])"

definition response_json :: "inner_execute_response \<Rightarrow> json" where
  "response_json r = JObject (btree_of
     [(''protocol'', JString (resp_protocol r)),
      (''type'', JString (inner_type_name (resp_message_type r))),
      (''request_id'', JString (resp_request_id r)),
      (''sequence'', JNumber (PosInt (resp_sequence r))),
      (''status'', JString (execution_status_label (resp_status r))),
      (''exit_code'', case resp_exit_code r of None \<Rightarrow> JNull | Some i \<Rightarrow> json_of_int i),
      (''stdout'', JString (resp_stdout r)),
      (''stderr'', JString (resp_stderr r)),
      (''artifacts'', JArray (map artifact_json (resp_artifacts r))),
      (''duration_ms'', JNumber (PosInt (resp_duration_ms r)))])"

definition response_plaintext :: "bridge_env \<Rightarrow> inner_execute_response \<Rightarrow> bytes" where
  "response_plaintext env inner = canonical_json (jc_to_vec (be_json env)) (response_json inner)"

text \<open>\<open>nonce_bytes\<close> is what \<open>OsRng\<close> draws for the cipher.  The metric lines that the source prints on
  standard error are not modelled.\<close>

definition seal_response ::
  "bridge_env \<Rightarrow> bytes \<Rightarrow> bytes \<Rightarrow> inner_execute_response \<Rightarrow> outer_envelope \<Rightarrow>
     bridge_error + outer_envelope" where
  "seal_response env key nonce_bytes inner request =
     (let plaintext = response_plaintext env inner;
          envelope = \<lparr>oe_protocol = PROTOCOL_VERSION, oe_channel = ''ego_browser_bridge'',
            oe_relay_binding_kind = ''ego_browser'',
            oe_message_type = outer_message_type.ExecuteResult,
            oe_request_id = oe_request_id request, oe_binding_id = oe_binding_id request,
            oe_generation = oe_generation request, oe_sequence = oe_sequence request,
            oe_direction = Response, oe_payload_bytes = length plaintext, oe_nonce = [],
            oe_ciphertext = [], oe_auth_tag = [], oe_key_wrap = []\<rparr>;
          aad = aad_for_outer (jc_to_vec (be_json env)) envelope
      in bind_r (map_err Protocol (seal (be_crypto env) key nonce_bytes plaintext aad))
           (\<lambda>(nonce, ciphertext, tag).
             Inr (envelope\<lparr>oe_payload_bytes := length ciphertext,
                    oe_nonce := encode_b64url (be_crypto env) nonce,
                    oe_ciphertext := encode_b64url (be_crypto env) ciphertext,
                    oe_auth_tag := encode_b64url (be_crypto env) tag\<rparr>)))"

definition status_response :: "execution_status \<Rightarrow> outer_envelope \<Rightarrow> u64 \<Rightarrow> inner_execute_response"
  where
  "status_response status request duration_ms =
     \<lparr>resp_protocol = INNER_PROTOCOL_VERSION,
      resp_message_type = inner_message_type.ExecuteResult,
      resp_request_id = oe_request_id request, resp_sequence = oe_sequence request,
      resp_status = status, resp_exit_code = None, resp_stdout = [], resp_stderr = [],
      resp_artifacts = [], resp_duration_ms = duration_ms\<rparr>"

definition seal_status_response ::
  "bridge_env \<Rightarrow> bytes \<Rightarrow> bytes \<Rightarrow> execution_status \<Rightarrow> outer_envelope \<Rightarrow> u64 \<Rightarrow>
     bridge_error + outer_envelope" where
  "seal_status_response env key nonce_bytes status request duration_ms =
     seal_response env key nonce_bytes (status_response status request duration_ms) request"

lemma aad_for_outer_cong:
  assumes "oe_protocol e = oe_protocol e'" "oe_channel e = oe_channel e'"
    "oe_relay_binding_kind e = oe_relay_binding_kind e'" "oe_message_type e = oe_message_type e'"
    "oe_request_id e = oe_request_id e'" "oe_binding_id e = oe_binding_id e'"
    "oe_generation e = oe_generation e'" "oe_sequence e = oe_sequence e'"
    "oe_direction e = oe_direction e'" "oe_payload_bytes e = oe_payload_bytes e'"
  shows "aad_for_outer w e = aad_for_outer w e'"
  using assms by (simp add: aad_for_outer_eq aad_object_def)

lemma seal_response_Inr:
  assumes "crypto_ok (be_crypto env)" "seal_response env key n inner e = Inr r"
  obtains ct tag where
    "seal (be_crypto env) key n (response_plaintext env inner)
       (aad_for_outer (jc_to_vec (be_json env)) r) = Inr (n, ct, tag)"
    "length ct = length (response_plaintext env inner)" "length tag = 16"
    "r = \<lparr>oe_protocol = PROTOCOL_VERSION, oe_channel = ''ego_browser_bridge'',
       oe_relay_binding_kind = ''ego_browser'', oe_message_type = outer_message_type.ExecuteResult,
       oe_request_id = oe_request_id e, oe_binding_id = oe_binding_id e,
       oe_generation = oe_generation e, oe_sequence = oe_sequence e, oe_direction = Response,
       oe_payload_bytes = length ct, oe_nonce = encode_b64url (be_crypto env) n,
       oe_ciphertext = encode_b64url (be_crypto env) ct,
       oe_auth_tag = encode_b64url (be_crypto env) tag, oe_key_wrap = []\<rparr>"
proof -
  define e0 where "e0 = \<lparr>oe_protocol = PROTOCOL_VERSION, oe_channel = ''ego_browser_bridge'',
    oe_relay_binding_kind = ''ego_browser'', oe_message_type = outer_message_type.ExecuteResult,
    oe_request_id = oe_request_id e, oe_binding_id = oe_binding_id e,
    oe_generation = oe_generation e, oe_sequence = oe_sequence e, oe_direction = Response,
    oe_payload_bytes = length (response_plaintext env inner), oe_nonce = [],
    oe_ciphertext = [], oe_auth_tag = [], oe_key_wrap = []\<rparr>"
  obtain n' ct tag where
    s: "seal (be_crypto env) key n (response_plaintext env inner)
        (aad_for_outer (jc_to_vec (be_json env)) e0) = Inr (n', ct, tag)"
    and r: "r = e0\<lparr>oe_payload_bytes := length ct, oe_nonce := encode_b64url (be_crypto env) n',
        oe_ciphertext := encode_b64url (be_crypto env) ct,
        oe_auth_tag := encode_b64url (be_crypto env) tag\<rparr>"
    using assms(2) unfolding seal_response_def Let_def e0_def [symmetric]
    by (auto simp: bind_r_Inr_iff)
  have l: "n' = n" "length ct = length (response_plaintext env inner)" "length tag = 16"
    using chan.seal_lengths [OF assms(1) s] by simp_all
  have "aad_for_outer (jc_to_vec (be_json env)) r = aad_for_outer (jc_to_vec (be_json env)) e0"
    by (rule aad_for_outer_cong) (simp_all add: r e0_def l(2))
  with s l r show ?thesis by (intro that [of ct tag]) (simp_all add: e0_def)
qed

section \<open>Properties\<close>

lemma sealed_response_opens:
  assumes "crypto_ok (be_crypto env)" and "length nonce = 12"
    and "envelope_valid env e = Inr ()"
    and "seal_response env key nonce inner e = Inr r"
    and "be_wire env r = Some wire" and "wire \<le> MAX_FRAME_BYTES"
    and "response_plaintext env inner \<noteq> []"
    and "length (response_plaintext env inner) \<le> MAX_FRAME_BYTES"
  shows "envelope_valid env r = Inr () \<and>
    oe_request_id r = oe_request_id e \<and> oe_binding_id r = oe_binding_id e \<and>
    oe_generation r = oe_generation e \<and> oe_sequence r = oe_sequence e \<and>
    open_payload env key r = Inr (response_plaintext env inner)"
proof -
  let ?b = "cr_b64 (be_crypto env)"
  obtain ct tag where
    s: "seal (be_crypto env) key nonce (response_plaintext env inner)
       (aad_for_outer (jc_to_vec (be_json env)) r) = Inr (nonce, ct, tag)"
    and len: "length ct = length (response_plaintext env inner)" "length tag = 16"
    and r: "r = \<lparr>oe_protocol = PROTOCOL_VERSION, oe_channel = ''ego_browser_bridge'',
       oe_relay_binding_kind = ''ego_browser'', oe_message_type = outer_message_type.ExecuteResult,
       oe_request_id = oe_request_id e, oe_binding_id = oe_binding_id e,
       oe_generation = oe_generation e, oe_sequence = oe_sequence e, oe_direction = Response,
       oe_payload_bytes = length ct, oe_nonce = encode_b64url (be_crypto env) nonce,
       oe_ciphertext = encode_b64url (be_crypto env) ct,
       oe_auth_tag = encode_b64url (be_crypto env) tag, oe_key_wrap = []\<rparr>"
    by (rule seal_response_Inr [OF assms(1,4)])
  have b64: "b64_ok ?b" using assms(1) by (simp add: crypto_ok_def)
  have dec: "decode_b64 ?b (encode_b64url (be_crypto env) bs) = Some bs" for bs
    using decode_b64_encode [OF b64] by (simp add: encode_b64url_def)
  have payload: "decoded_payload ?b r = Inr (ct, nonce, tag)"
    by (simp add: decoded_payload_def r dec)
  have opened: "open_payload env key r = Inr (response_plaintext env inner)"
    using chan.seal_open [OF assms(1,2) s] payload by (simp add: open_payload_def Let_def)
  have "envelope_validate ?b (be_wire env) e MAX_FRAME_BYTES = Inr ()"
    using assms(3) by (simp add: envelope_valid_def)
  note ids = envelope_validateD(4-7) [OF this]
  have ct: "ct \<noteq> []" "length ct \<le> MAX_FRAME_BYTES" using len assms(7,8) by auto
  have none: "decode_b64 ?b [] = Some []" by (rule decode_b64_Nil [OF b64])
  have fields: "oe_protocol r = PROTOCOL_VERSION" "oe_channel r = ''ego_browser_bridge''"
    "oe_relay_binding_kind r = ''ego_browser''"
    "oe_message_type r = outer_message_type.ExecuteResult" "oe_direction r = Response"
    "oe_request_id r = oe_request_id e" "oe_binding_id r = oe_binding_id e"
    "oe_generation r = oe_generation e" "oe_sequence r = oe_sequence e"
    "oe_payload_bytes r = length ct" "oe_key_wrap r = []"
    "decode_b64 ?b (oe_ciphertext r) = Some ct" "decode_b64 ?b (oe_nonce r) = Some nonce"
    "decode_b64 ?b (oe_auth_tag r) = Some tag"
    by (simp_all add: r dec)
  have "envelope_validate ?b (be_wire env) r MAX_FRAME_BYTES = Inr ()"
    unfolding envelope_validate_def fields none assms(5) using ids ct len(2) assms(2,6)
    by simp
  with opened fields(6-9) show ?thesis by (simp add: envelope_valid_def)
qed

text \<open>A sealed response is what the protocol asks for and reaches its reader intact: it passes the
  envelope validation (when it fits a frame), carries the identity of the request it answers, and
  opening it with the request's key and its own routing fields gives back the canonical bytes of
  the inner response.\<close>

theorem sealed_response_authentic:
  assumes "crypto_ok (be_crypto env)" and "length nonce = 12"
    and "envelope_valid env e = Inr ()"
    and "seal_response env key nonce inner e = Inr r"
    and "be_wire env r = Some wire" and "wire \<le> MAX_FRAME_BYTES"
    and "response_plaintext env inner \<noteq> []"
    and "length (response_plaintext env inner) \<le> MAX_FRAME_BYTES"
  shows "envelope_valid env r = Inr () \<and>
    oe_request_id r = oe_request_id e \<and> oe_binding_id r = oe_binding_id e \<and>
    oe_generation r = oe_generation e \<and> oe_sequence r = oe_sequence e \<and>
    open_payload env key r = Inr (response_plaintext env inner)"
  using assms by (rule sealed_response_opens)

definition sample_env :: bridge_env where
  "sample_env = \<lparr>be_version = ''0.1.13'', be_crypto = plain_crypto,
     be_json = \<lparr>jc_parse = (\<lambda>_. DUnit), jc_location = (\<lambda>_. []), jc_at_end = (\<lambda>_. True),
       jc_to_vec = tagged_bytes\<rparr>,
     be_request = (\<lambda>_. Inl []), be_cancel = (\<lambda>_. Inl []), be_wire = (\<lambda>e. Some 400),
     be_ledger = sample_ledger_codec\<rparr>"

lemma byte_decode: "decode_b64 byte_codec s = Some (as_bytes s)"
  by (simp add: decode_b64_def byte_codec_def)

lemma sample_envelope_valid: "envelope_valid sample_env sample_envelope = Inr ()"
proof -
  have "cr_b64 (be_crypto sample_env) = byte_codec" by (simp add: sample_env_def plain_crypto_def)
  moreover have "as_bytes ''data'' \<noteq> []" "as_bytes [] = []" by (simp_all add: as_bytes_def)
  ultimately show ?thesis
    by (simp add: envelope_valid_def envelope_validate_def byte_decode sample_envelope_def
        valid_text_id_def printable_def MAX_FRAME_BYTES_def)
      (simp add: sample_env_def)
qed

theorem sealed_response_authentic_witness:
  "\<exists>r. seal_response sample_env [1] (replicate 12 9) (status_response Timeout sample_envelope 7)
       sample_envelope = Inr r \<and>
     open_payload sample_env [1] r
       = Inr (response_plaintext sample_env (status_response Timeout sample_envelope 7))"
proof -
  let ?inner = "status_response Timeout sample_envelope 7"
  have ok: "crypto_ok (be_crypto sample_env)"
    using plain_crypto_ok by (simp add: sample_env_def)
  obtain r where r: "seal_response sample_env [1] (replicate 12 9) ?inner sample_envelope = Inr r"
    by (simp add: seal_response_def sample_env_def plain_crypto_def seal_def Let_def)
  have "response_plaintext sample_env ?inner \<noteq> []"
    by (simp add: response_plaintext_def canonical_json_def response_json_def sample_env_def)
  moreover have "length (response_plaintext sample_env ?inner) \<le> MAX_FRAME_BYTES"
    by (simp add: response_plaintext_def canonical_json_def response_json_def sample_env_def
        status_response_def sample_envelope_def btree_of_def less_char_def tagged_string_def
        as_bytes_def INNER_PROTOCOL_VERSION_def MAX_FRAME_BYTES_def)
  ultimately show ?thesis
    using r sealed_response_authentic [OF ok _ sample_envelope_valid r, of 400]
    by (simp add: sample_env_def MAX_FRAME_BYTES_def)
qed

end
