(* ===== verification/Supervisor.thy ===== *)
theory Supervisor
  imports Sealing Lease
begin

text \<open>
  The bridge supervisor of \<open>crates/local-bridge/src\<close>: the shared state of \<open>BridgeSupervisor\<close>
  (\<open>lib.rs\<close>), its control operations (\<open>supervisor_control.rs\<close>), the local execution path
  (\<open>supervisor_execution.rs\<close>) and the relay path (\<open>supervisor_remote.rs\<close>).  Each method is one
  function from the state and its arguments to the new state and its result; clock readings and
  random draws are arguments.  A method runs as one atomic step, except that a cancellation from
  another thread may arrive between the two places where \<open>execute\<close> and
  \<open>prepare_remote_execution\<close> look at the cancellation flag: the argument \<open>late_cancel\<close>.
\<close>

section \<open>State\<close>

record issued_permit =
  ip_permit :: request_permit
  ip_key :: bytes

record remote_request_key =
  rk_binding_id :: string
  rk_generation :: u64
  rk_request_id :: string
  rk_sequence :: u64

definition key_from_envelope :: "outer_envelope \<Rightarrow> remote_request_key" where
  "key_from_envelope e =
     \<lparr>rk_binding_id = oe_binding_id e, rk_generation = oe_generation e,
      rk_request_id = oe_request_id e, rk_sequence = oe_sequence e\<rparr>"

text \<open>\<open>ar_cancelled\<close> is the value of the request's own cancellation channel.\<close>

record active_remote_request =
  ar_cancelled :: bool
  ar_session_key :: bytes

record supervisor =
  sv_config :: bridge_config
  sv_scheduler :: scheduler
  sv_lease :: lease_state
  sv_next_sequence :: u64
  sv_issued :: "u64 \<rightharpoonup> issued_permit"
  sv_consumed :: "u64 set"
  sv_ledger_file :: ledger_file
  sv_highest_remote :: u64
  sv_active_remote :: "remote_request_key \<rightharpoonup> active_remote_request"
  sv_cancelled :: bool

definition supervisor_capability :: "bridge_env \<Rightarrow> supervisor \<Rightarrow> bridge_capability" where
  "supervisor_capability env sv = config_capability (be_version env) (sv_config sv)"

fun scheduler_error_text :: "scheduler_error \<Rightarrow> string" where
  "scheduler_error_text InvalidMaximum = ''invalid maximum parallel requests''"
| "scheduler_error_text LimitReached = ''maximum parallel requests reached''"
| "scheduler_error_text Conflict = ''concurrency conflict''"
| "scheduler_error_text Poisoned = ''scheduler state unavailable''"

text \<open>\<open>BridgeSupervisor::new\<close> after the work root is prepared and locked: \<open>root\<close> is the outcome of
  \<open>prepare_private_root\<close> and \<open>acquire_instance_lock\<close>.\<close>

definition supervisor_new ::
  "bridge_env \<Rightarrow> bridge_config \<Rightarrow> bridge_error + unit \<Rightarrow> load_answers \<Rightarrow> ledger_file \<Rightarrow> u64 \<Rightarrow>
     bridge_error + supervisor" where
  "supervisor_new env config root answers ledger now =
     (if \<not> is_dedicated_task_space (bc_default_task_space config)
      then Inl (ProtocolMessage ''invalid default task space'')
      else
        bind_r root (\<lambda>_.
        bind_r (load_remote_sequence (be_ledger env) answers ledger) (\<lambda>highest.
        bind_r (map_err (\<lambda>error. ProtocolMessage (scheduler_error_text error))
          (scheduler_new (bc_max_parallel_requests config))) (\<lambda>scheduler.
          Inr \<lparr>sv_config = config, sv_scheduler = scheduler,
               sv_lease = lease_new (bc_generation config) now default_lease_policy,
               sv_next_sequence = 0, sv_issued = Map.empty, sv_consumed = {},
               sv_ledger_file = ledger, sv_highest_remote = highest,
               sv_active_remote = Map.empty, sv_cancelled = False\<rparr>))))"

section \<open>Control\<close>

definition development_broker_nonce_matches :: "supervisor \<Rightarrow> string option \<Rightarrow> bool" where
  "development_broker_nonce_matches sv supplied =
     (case bc_broker_startup_nonce (sv_config sv) of
        Some expected \<Rightarrow> constant_time_text_eq expected (unwrap_or_default supplied)
      | None \<Rightarrow> supplied = None)"

definition clear_permits :: "supervisor \<Rightarrow> supervisor" where
  "clear_permits sv = sv\<lparr>sv_issued := Map.empty, sv_consumed := {}\<rparr>"

definition revoke :: "supervisor \<Rightarrow> supervisor" where
  "revoke sv = (clear_permits (sv\<lparr>sv_lease := lease_revoke (sv_lease sv)\<rparr>))\<lparr>sv_cancelled := True\<rparr>"

definition cancel :: "supervisor \<Rightarrow> supervisor" where
  "cancel sv = sv\<lparr>sv_cancelled := True\<rparr>"

definition admission_error :: "admission \<Rightarrow> bridge_error + unit" where
  "admission_error a = (case a of
      Allowed \<Rightarrow> Inr ()
    | RenewalRequired \<Rightarrow> Inl bridge_error.LeaseRenewalRequired
    | admission.Expired \<Rightarrow> Inl bridge_error.LeaseExpired
    | admission.BindingRevoked \<Rightarrow> Inl Revoked)"

definition resume_after_reconnect :: "supervisor \<Rightarrow> u64 \<Rightarrow> supervisor \<times> (bridge_error + unit)" where
  "resume_after_reconnect sv now =
     (case lease_admit (sv_lease sv) now default_lease_policy of
        admission.Expired \<Rightarrow> (sv, Inl bridge_error.LeaseExpired)
      | admission.BindingRevoked \<Rightarrow> (sv, Inl Revoked)
      | _ \<Rightarrow> (sv\<lparr>sv_cancelled := False\<rparr>, Inr ()))"

definition activate_generation ::
  "supervisor \<Rightarrow> u64 \<Rightarrow> u64 \<Rightarrow> supervisor \<times> (bridge_error + unit)" where
  "activate_generation sv generation now =
     (if generation = 0 then (sv, Inl (ProtocolMessage ''invalid generation''))
      else if generation \<le> ls_generation (sv_lease sv)
      then (sv, Inl (ProtocolMessage ''generation must increase''))
      else ((clear_permits (sv\<lparr>sv_lease := lease_new generation now default_lease_policy\<rparr>))
              \<lparr>sv_cancelled := False\<rparr>, Inr ()))"

record permit_request =
  pq_protocol :: string
  pq_message_type :: string
  pq_script_bytes :: nat
  pq_timeout_ms :: u64
  pq_cwd_label :: string
  pq_concurrency_mode :: concurrency_mode
  pq_task_space_scope :: "string option"
  pq_tab_scope :: "string option"
  pq_startup_nonce :: "string option"

text \<open>The checks of \<open>issue_permit\<close> that come before it looks at the shared state.\<close>

definition permit_request_ok :: "supervisor \<Rightarrow> permit_request \<Rightarrow> bridge_error + unit" where
  "permit_request_ok sv request =
     (if pq_protocol request \<noteq> PROTOCOL_VERSION \<or> pq_message_type request \<noteq> ''permit_request''
      then Inl (ProtocolMessage ''invalid permit request'')
      else
        bind_r (case bc_broker_startup_nonce (sv_config sv) of
            Some expected \<Rightarrow>
              ensure (constant_time_text_eq expected (unwrap_or_default (pq_startup_nonce request)))
                (ProtocolMessage ''broker startup nonce is invalid'')
          | None \<Rightarrow>
              ensure (pq_startup_nonce request = None)
                (ProtocolMessage ''broker startup nonce was not configured'')) (\<lambda>_.
        if pq_script_bytes request = 0 \<or> pq_script_bytes request > MAX_SCRIPT_BYTES
        then Inl (ProtocolMessage ''script exceeds limit'')
        else if pq_timeout_ms request = 0 \<or> pq_timeout_ms request > MAX_EXECUTE_TIMEOUT_MS
        then Inl (ProtocolMessage ''timeout exceeds limit'')
        else if pq_cwd_label request = [] \<or> length (pq_cwd_label request) > 128
           \<or> contains_str ''..'' (pq_cwd_label request)
        then Inl (ProtocolMessage ''invalid cwd label'')
        else Inr ()))"

definition next_sequence :: "supervisor \<Rightarrow> supervisor \<times> (bridge_error + u64)" where
  "next_sequence sv =
     (if sv_next_sequence sv = - 1 then (sv, Inl (ProtocolMessage ''sequence exhausted''))
      else (sv\<lparr>sv_next_sequence := sv_next_sequence sv + 1\<rparr>, Inr (sv_next_sequence sv + 1)))"

text \<open>\<open>request_id\<close> is the fresh \<open>opaque_id\<close>, \<open>key\<close> the fresh session key.\<close>

definition issue_permit ::
  "supervisor \<Rightarrow> permit_request \<Rightarrow> u64 \<Rightarrow> u64 \<Rightarrow> string \<Rightarrow> bytes \<Rightarrow>
     supervisor \<times> (bridge_error + bytes \<times> request_permit)" where
  "issue_permit sv request now_seconds now_millis request_id key =
     (case bind_r (permit_request_ok sv request) (\<lambda>_.
          if sv_cancelled sv then Inl Revoked
          else admission_error (lease_admit (sv_lease sv) now_seconds default_lease_policy)) of
        Inl e \<Rightarrow> (sv, Inl e)
      | Inr _ \<Rightarrow>
          (case next_sequence sv of
             (sv, Inl e) \<Rightarrow> (sv, Inl e)
           | (sv, Inr sequence) \<Rightarrow>
               let config = sv_config sv;
                   scope = scope_normalized (Some (pq_concurrency_mode request))
                     (pq_task_space_scope request) (pq_tab_scope request)
               in if rs_mode scope \<noteq> Binding
                     \<and> rs_task_space scope \<noteq> Some (bc_default_task_space config)
                  then (sv, Inl (ProtocolMessage
                    ''task space scope is not dedicated to the tool session''))
                  else
                    let permit = \<lparr>rp_binding_id = bc_binding_id config,
                          rp_generation = ls_generation (sv_lease sv), rp_request_id = request_id,
                          rp_sequence = sequence,
                          rp_expires_at_unix_ms = sat_add now_millis 20000,
                          rp_max_payload_bytes = 16 * 1024 * 1024,
                          rp_max_script_bytes = MAX_SCRIPT_BYTES,
                          rp_default_task_space = bc_default_task_space config,
                          rp_allowlist_revision = bc_allowlist_revision config,
                          rp_learning_bundle_digest = bc_learning_bundle_digest config,
                          rp_concurrency_mode = rs_mode scope,
                          rp_task_space_scope = rs_task_space scope,
                          rp_tab_scope = rs_tab scope\<rparr>
                    in (sv\<lparr>sv_issued := (sv_issued sv)(sequence \<mapsto>
                          \<lparr>ip_permit = permit, ip_key = key\<rparr>)\<rparr>, Inr (key, permit))))"

section \<open>Executions\<close>

text \<open>What a running execution holds: the request, its envelope, the session key, the scheduler
  guard, and whether it came over the relay.\<close>

record execution =
  ex_request :: inner_execute_request
  ex_envelope :: outer_envelope
  ex_key :: bytes
  ex_guard :: permit_guard
  ex_remote :: bool

definition take_permit ::
  "supervisor \<Rightarrow> outer_envelope \<Rightarrow> bytes \<Rightarrow> u64 \<Rightarrow> supervisor \<times> (bridge_error + issued_permit)" where
  "take_permit sv e key now_millis =
     (case sv_issued sv (oe_sequence e) of
        None \<Rightarrow> (sv, Inl (if oe_sequence e \<in> sv_consumed sv then bridge_error.Replay else Revoked))
      | Some issued \<Rightarrow>
          let p = ip_permit issued;
              removed = sv\<lparr>sv_issued := (sv_issued sv)(oe_sequence e := None)\<rparr>
          in if rp_binding_id p \<noteq> oe_binding_id e \<or> rp_generation p \<noteq> oe_generation e
                \<or> rp_request_id p \<noteq> oe_request_id e \<or> rp_sequence p \<noteq> oe_sequence e
             then (sv, Inl (ProtocolMessage ''permit and request identity mismatch''))
             else if ip_key issued \<noteq> key then (sv, Inl (ProtocolMessage ''invalid session key''))
             else if oe_payload_bytes e > rp_max_payload_bytes p
             then (sv, Inl (Protocol FrameTooLarge))
             else if rp_expires_at_unix_ms p \<le> now_millis
             then (removed, Inl bridge_error.LeaseExpired)
             else (removed, Inr issued))"

text \<open>From the ciphertext of a local request to the request and its scope, checked against the
  permit.\<close>

definition decode_local ::
  "bridge_env \<Rightarrow> supervisor \<Rightarrow> outer_envelope \<Rightarrow> bytes \<Rightarrow> request_permit \<Rightarrow> u64 \<Rightarrow>
     bridge_error + inner_execute_request \<times> request_scope" where
  "decode_local env sv e key permit now_millis =
     bind_r (open_payload env key e) (\<lambda>plaintext.
     bind_r (map_err (\<lambda>x. ProtocolMessage (strict_error_text x))
        (parse_strict_json (be_json env) (be_request env) plaintext)) (\<lambda>request.
     bind_r (map_err Protocol (execute_validate request (supervisor_capability env sv))) (\<lambda>_.
     bind_r (ensure (ier_default_task_space request = bc_default_task_space (sv_config sv))
        (ProtocolMessage ''request Task Space does not match the binding'')) (\<lambda>_.
     bind_r (map_err Protocol (permit_validate permit (supervisor_capability env sv) now_millis
        (length (ier_script request)))) (\<lambda>_.
     if length (ier_script request) > MAX_SCRIPT_BYTES
        \<or> length (ier_script request) > rp_max_script_bytes permit
     then Inl (ProtocolMessage ''script exceeds limit'')
     else
       let scope = request_scope_of request
       in if ier_concurrency_mode request \<noteq> rp_concurrency_mode permit
             \<or> rs_task_space scope \<noteq> rp_task_space_scope permit
             \<or> rs_tab scope \<noteq> rp_tab_scope permit
          then Inl (ProtocolMessage ''request scope does not match permit'')
          else Inr (request, scope))))))"

fun scheduler_bridge_error :: "scheduler_error \<Rightarrow> bridge_error" where
  "scheduler_bridge_error Conflict = Concurrency"
| "scheduler_bridge_error LimitReached = Concurrency"
| "scheduler_bridge_error _ = Unavailable"

text \<open>\<open>execute\<close> up to the start of the process.\<close>

definition execute_guard :: "bridge_env \<Rightarrow> supervisor \<Rightarrow> outer_envelope \<Rightarrow> bridge_error + unit" where
  "execute_guard env sv e =
     bind_r (envelope_valid env e) (\<lambda>_.
       if oe_message_type e \<noteq> outer_message_type.Execute \<or> oe_direction e \<noteq> Request
       then Inl (ProtocolMessage ''invalid execute envelope'')
       else if sv_cancelled sv then Inl Revoked
       else if oe_generation e \<noteq> ls_generation (sv_lease sv) \<or> ls_revoked (sv_lease sv)
       then Inl Revoked
       else Inr ())"

definition execute_admit ::
  "bridge_env \<Rightarrow> supervisor \<Rightarrow> outer_envelope \<Rightarrow> bytes \<Rightarrow> u64 \<Rightarrow> bool \<Rightarrow> u64 \<Rightarrow>
     supervisor \<times> (bridge_error + execution)" where
  "execute_admit env sv e key now_millis late_cancel later_millis =
     (case execute_guard env sv e of
        Inl err \<Rightarrow> (sv, Inl err)
      | Inr _ \<Rightarrow>
     (case take_permit sv e key now_millis of
        (sv, Inl err) \<Rightarrow> (sv, Inl err)
      | (sv, Inr issued) \<Rightarrow>
          let sv = (if late_cancel then cancel sv else sv)
          in if sv_cancelled sv then (sv, Inl Revoked)
             else
               let sv = sv\<lparr>sv_consumed := insert (oe_sequence e) (sv_consumed sv)\<rparr>
               in (case decode_local env sv e key (ip_permit issued) later_millis of
                     Inl err \<Rightarrow> (sv, Inl err)
                   | Inr (request, scope) \<Rightarrow>
                  (case try_acquire (sv_scheduler sv) (oe_generation e) (oe_request_id e) scope of
                     Inl err \<Rightarrow> (sv, Inl (scheduler_bridge_error err))
                   | Inr (scheduler, guard) \<Rightarrow>
                       (sv\<lparr>sv_scheduler := scheduler,
                           sv_consumed := insert (oe_sequence e) (sv_consumed sv)\<rparr>,
                        Inr \<lparr>ex_request = request, ex_envelope = e, ex_key = key,
                             ex_guard = guard, ex_remote = False\<rparr>)))))"

section \<open>The relay path\<close>

text \<open>A prepared relay request either has its answer already or is ready to run.\<close>

datatype remote_execution = Ready outer_envelope | Running execution

text \<open>The checks of \<open>prepare_remote_execution\<close> up to the reservation of the sequence number.\<close>

definition prepare_guard ::
  "bridge_env \<Rightarrow> supervisor \<Rightarrow> outer_envelope \<Rightarrow> u64 \<Rightarrow> bridge_error + unit" where
  "prepare_guard env sv e now_seconds =
     bind_r (envelope_valid env e) (\<lambda>_.
     bind_r (map_err Protocol (envelope_validate_key_wrap (cr_b64 (be_crypto env)) e)) (\<lambda>_.
       if oe_message_type e \<noteq> outer_message_type.Execute \<or> oe_direction e \<noteq> Request
       then Inl (ProtocolMessage ''invalid remote execute envelope'')
       else if sv_cancelled sv then Inl Revoked
       else if oe_binding_id e \<noteq> bc_binding_id (sv_config sv)
       then Inl (ProtocolMessage ''remote envelope binding does not match bridge configuration'')
       else if oe_generation e \<noteq> ls_generation (sv_lease sv) \<or> ls_revoked (sv_lease sv)
       then Inl Revoked
       else admission_error (lease_admit (sv_lease sv) now_seconds default_lease_policy)))"

definition reserve_remote_sequence ::
  "bridge_env \<Rightarrow> supervisor \<Rightarrow> persist_answers \<Rightarrow> u64 \<Rightarrow> supervisor \<times> (bridge_error + unit)" where
  "reserve_remote_sequence env sv answers sequence =
     (case reserve_sequence (be_ledger env) answers (sv_ledger_file sv) (sv_highest_remote sv)
          sequence of
        (disk, highest, r) \<Rightarrow>
          (sv\<lparr>sv_ledger_file := disk, sv_highest_remote := highest\<rparr>, r))"

text \<open>The session key and the plaintext of a relay request.\<close>

definition open_remote ::
  "bridge_env \<Rightarrow> outer_envelope \<Rightarrow> bytes \<Rightarrow> bridge_error + bytes \<times> bytes" where
  "open_remote env e encryption_secret =
     bind_r (map_err Protocol (unwrap_session_key (be_crypto env) (oe_key_wrap e) encryption_secret
        (oe_binding_id e) (oe_generation e) (oe_request_id e) (oe_sequence e))) (\<lambda>key.
     bind_r (open_payload env key e) (\<lambda>plaintext. Inr (key, plaintext)))"

text \<open>A request that the bridge can read but will not run is answered, under its own key, with a
  status.  \<open>nonce\<close> is drawn when such an answer is sealed.\<close>

definition answer_status ::
  "bridge_env \<Rightarrow> bytes \<Rightarrow> bytes \<Rightarrow> execution_status \<Rightarrow> outer_envelope \<Rightarrow> bridge_error + remote_execution"
  where
  "answer_status env key nonce status e =
     bind_r (seal_status_response env key nonce status e 0) (\<lambda>response. Inr (Ready response))"

text \<open>The request of a relay envelope when the supervisor will run it.\<close>

definition runnable_request ::
  "bridge_env \<Rightarrow> supervisor \<Rightarrow> outer_envelope \<Rightarrow> bytes \<Rightarrow> inner_execute_request option" where
  "runnable_request env sv e plaintext =
     (case parse_strict_json (be_json env) (be_request env) plaintext of
        Inl _ \<Rightarrow> None
      | Inr request \<Rightarrow>
          if \<not> is_ok (execute_validate request (supervisor_capability env sv))
             \<or> oe_payload_bytes e > 16 * 1024 * 1024
             \<or> length (ier_script request) > MAX_SCRIPT_BYTES
             \<or> ier_default_task_space request \<noteq> bc_default_task_space (sv_config sv)
          then None else Some request)"

definition prepare_remote_execution ::
  "bridge_env \<Rightarrow> supervisor \<Rightarrow> outer_envelope \<Rightarrow> bytes \<Rightarrow> u64 \<Rightarrow> persist_answers \<Rightarrow> bool \<Rightarrow> bytes \<Rightarrow>
     supervisor \<times> (bridge_error + remote_execution)" where
  "prepare_remote_execution env sv e encryption_secret now_seconds answers late_cancel nonce =
     (case prepare_guard env sv e now_seconds of
        Inl err \<Rightarrow> (sv, Inl err)
      | Inr _ \<Rightarrow>
     (case reserve_remote_sequence env sv answers (oe_sequence e) of
        (sv, Inl err) \<Rightarrow> (sv, Inl err)
      | (sv, Inr _) \<Rightarrow>
     (case open_remote env e encryption_secret of
        Inl err \<Rightarrow> (sv, Inl err)
      | Inr (key, plaintext) \<Rightarrow>
     (case runnable_request env sv e plaintext of
        None \<Rightarrow> (sv, answer_status env key nonce ProtocolError e)
      | Some request \<Rightarrow>
     (case try_acquire (sv_scheduler sv) (oe_generation e) (oe_request_id e)
          (request_scope_of request) of
        Inl err \<Rightarrow> (sv, answer_status env key nonce
          (if err = Conflict \<or> err = LimitReached then execution_status.ConcurrencyConflict
           else BridgeUnavailable) e)
      | Inr (scheduler, guard) \<Rightarrow>
          let sv = (if late_cancel then cancel sv else sv);
              held = sv\<lparr>sv_scheduler := scheduler\<rparr>;
              dropped = sv\<lparr>sv_scheduler := guard_drop scheduler guard\<rparr>;
              request_key = key_from_envelope e
          in if sv_cancelled sv
             then (dropped, answer_status env key nonce execution_status.BindingRevoked e)
             else if sv_active_remote sv request_key \<noteq> None
             then (dropped, Inl bridge_error.Replay)
             else (held\<lparr>sv_active_remote := (sv_active_remote sv)
                     (request_key \<mapsto> \<lparr>ar_cancelled = False, ar_session_key = key\<rparr>)\<rparr>,
                   Inr (Running \<lparr>ex_request = request, ex_envelope = e, ex_key = key,
                          ex_guard = guard, ex_remote = True\<rparr>)))))))"

text \<open>The end of an execution, local or remote: the guard is dropped, and the outcome of the process
  is sealed.\<close>

record outcome =
  oc_status :: execution_status
  oc_exit_code :: "int option"
  oc_stdout :: string
  oc_stderr :: string
  oc_artifacts :: "artifact_descriptor list"

definition outcome_response :: "outcome \<Rightarrow> outer_envelope \<Rightarrow> u64 \<Rightarrow> inner_execute_response" where
  "outcome_response oc e duration_ms =
     \<lparr>resp_protocol = INNER_PROTOCOL_VERSION,
      resp_message_type = inner_message_type.ExecuteResult,
      resp_request_id = oe_request_id e, resp_sequence = oe_sequence e,
      resp_status = oc_status oc, resp_exit_code = oc_exit_code oc, resp_stdout = oc_stdout oc,
      resp_stderr = oc_stderr oc, resp_artifacts = oc_artifacts oc,
      resp_duration_ms = duration_ms\<rparr>"

definition finish_execution ::
  "bridge_env \<Rightarrow> supervisor \<Rightarrow> execution \<Rightarrow> outcome \<Rightarrow> u64 \<Rightarrow> bytes \<Rightarrow>
     supervisor \<times> (bridge_error + outer_envelope)" where
  "finish_execution env sv ex oc duration_ms nonce =
     (sv\<lparr>sv_scheduler := guard_drop (sv_scheduler sv) (ex_guard ex)\<rparr>,
      seal_response env (ex_key ex) nonce (outcome_response oc (ex_envelope ex) duration_ms)
        (ex_envelope ex))"

definition update_lease ::
  "supervisor \<Rightarrow> u64 \<Rightarrow> u64 \<Rightarrow> u64 \<Rightarrow> bool \<Rightarrow> supervisor \<times> (bridge_error + unit)" where
  "update_lease sv generation lease_until absolute_ttl_until healthy =
     (if generation = 0 \<or> lease_until = 0 \<or> absolute_ttl_until < lease_until
      then (sv, Inl (ProtocolMessage ''invalid lease metadata''))
      else if generation \<noteq> ls_generation (sv_lease sv) then (sv, Inl Revoked)
      else
        (sv\<lparr>sv_lease := (sv_lease sv)
           \<lparr>ls_lease_until := lease_until, ls_absolute_ttl_until := absolute_ttl_until,
            ls_health := (if healthy then Healthy else RenewalGrace),
            ls_grace_until := (if healthy then None else ls_grace_until (sv_lease sv))\<rparr>\<rparr>, Inr ()))"

definition mark_renewal_failed ::
  "supervisor \<Rightarrow> u64 \<Rightarrow> u64 \<Rightarrow> supervisor \<times> (bridge_error + unit)" where
  "mark_renewal_failed sv failure_grace_seconds now =
     (let lease = sv_lease sv in
      if failure_grace_seconds = 0
      then (sv, Inl (ProtocolMessage ''invalid renewal failure grace''))
      else if ls_revoked lease then (sv, Inl Revoked)
      else if now \<ge> ls_absolute_ttl_until lease
      then (sv\<lparr>sv_lease := lease_revoke lease, sv_cancelled := True\<rparr>,
            Inl bridge_error.LeaseExpired)
      else
        let lease = (if ls_health lease \<noteq> RenewalGrace
              then lease\<lparr>ls_health := RenewalGrace,
                         ls_grace_until := Some (sat_add now failure_grace_seconds)\<rparr>
              else lease)
        in if is_some_and (ls_grace_until lease) (\<lambda>deadline. now \<ge> deadline)
           then (sv\<lparr>sv_lease := lease_revoke lease, sv_cancelled := True\<rparr>,
                 Inl bridge_error.LeaseExpired)
           else (sv\<lparr>sv_lease := lease\<rparr>, Inr ()))"

definition cancel_remote_request ::
  "bridge_env \<Rightarrow> supervisor \<Rightarrow> outer_envelope \<Rightarrow> supervisor \<times> (bridge_error + bool)" where
  "cancel_remote_request env sv e =
     (case bind_r (envelope_valid env e) (\<lambda>_.
          if oe_message_type e \<noteq> outer_message_type.Cancel \<or> oe_direction e \<noteq> Request
             \<or> oe_key_wrap e \<noteq> [] \<or> oe_binding_id e \<noteq> bc_binding_id (sv_config sv)
          then Inl (ProtocolMessage ''invalid remote cancel envelope'')
          else if oe_generation e \<noteq> ls_generation (sv_lease sv) \<or> ls_revoked (sv_lease sv)
          then Inl Revoked
          else Inr ()) of
        Inl err \<Rightarrow> (sv, Inl err)
      | Inr _ \<Rightarrow>
     (case sv_active_remote sv (key_from_envelope e) of
        None \<Rightarrow> (sv, Inr False)
      | Some active \<Rightarrow>
          (case bind_r (open_payload env (ar_session_key active) e) (\<lambda>plaintext.
              bind_r (map_err (\<lambda>x. ProtocolMessage (strict_error_text x))
                (parse_strict_json (be_json env) (be_cancel env) plaintext)) (\<lambda>cancel.
              bind_r (map_err Protocol (cancel_validate cancel)) (\<lambda>_.
                ensure (icr_request_id cancel = oe_request_id e \<and> icr_sequence cancel = oe_sequence e)
                  (ProtocolMessage ''cancel inner identity mismatch'')))) of
             Inl err \<Rightarrow> (sv, Inl err)
           | Inr _ \<Rightarrow>
               (sv\<lparr>sv_active_remote := (sv_active_remote sv)
                    (key_from_envelope e \<mapsto> active\<lparr>ar_cancelled := True\<rparr>)\<rparr>, Inr True))))"

definition finish_remote_request :: "supervisor \<Rightarrow> outer_envelope \<Rightarrow> supervisor" where
  "finish_remote_request sv e =
     sv\<lparr>sv_active_remote := (sv_active_remote sv)(key_from_envelope e := None)\<rparr>"

definition clear_remote_requests :: "supervisor \<Rightarrow> supervisor" where
  "clear_remote_requests sv = sv\<lparr>sv_active_remote := Map.empty\<rparr>"

end
