(* ===== verification/Supervisor_Steps.thy ===== *)
theory Supervisor_Steps
  imports Supervisor
begin

text \<open>
  The supervisor as a transition system: its operations in any order, the executions that run
  meanwhile, and the events an observer sees.  The lock discipline comes from the interpretation of
  \<open>lock_manager\<close> in \<open>Scheduler\<close>.
\<close>

section \<open>Steps\<close>

datatype control_op =
  UpdateLease u64 u64 u64 bool | RenewalFailure u64 u64 | Revocation | Cancellation
| Resume u64 | CancelRemote outer_envelope | FinishRemote outer_envelope | ClearRemote

fun control_step :: "bridge_env \<Rightarrow> supervisor \<Rightarrow> control_op \<Rightarrow> supervisor" where
  "control_step env sv (UpdateLease g l a h) = fst (update_lease sv g l a h)"
| "control_step env sv (RenewalFailure grace now) = fst (mark_renewal_failed sv grace now)"
| "control_step env sv Revocation = revoke sv"
| "control_step env sv Cancellation = cancel sv"
| "control_step env sv (Resume now) = fst (resume_after_reconnect sv now)"
| "control_step env sv (CancelRemote e) = fst (cancel_remote_request env sv e)"
| "control_step env sv (FinishRemote e) = finish_remote_request sv e"
| "control_step env sv ClearRemote = clear_remote_requests sv"

record bridge_state =
  bs_sv :: supervisor
  bs_running :: "execution list"

datatype bridge_event =
  Issued request_permit | Admitted execution | Finished execution | Activated u64 | Silent

inductive bridge_step :: "bridge_env \<Rightarrow> bridge_state \<Rightarrow> bridge_event \<Rightarrow> bridge_state \<Rightarrow> bool"
  for env :: bridge_env where
  issue: "issue_permit (bs_sv s) request now_s now_ms rid key = (sv, Inr (k, permit)) \<Longrightarrow>
     bridge_step env s (Issued permit) (s\<lparr>bs_sv := sv\<rparr>)"
| issue_refused: "issue_permit (bs_sv s) request now_s now_ms rid key = (sv, Inl err) \<Longrightarrow>
     bridge_step env s Silent (s\<lparr>bs_sv := sv\<rparr>)"
| local_run: "execute_admit env (bs_sv s) e key now_ms late later_ms = (sv, Inr ex) \<Longrightarrow>
     bridge_step env s (Admitted ex) (s\<lparr>bs_sv := sv, bs_running := ex # bs_running s\<rparr>)"
| local_refuse: "execute_admit env (bs_sv s) e key now_ms late later_ms = (sv, Inl err) \<Longrightarrow>
     bridge_step env s Silent (s\<lparr>bs_sv := sv\<rparr>)"
| remote: "prepare_remote_execution env (bs_sv s) e secret now_s answers late nonce
       = (sv, Inr (Running ex)) \<Longrightarrow>
     bridge_step env s (Admitted ex) (s\<lparr>bs_sv := sv, bs_running := ex # bs_running s\<rparr>)"
| remote_answered: "prepare_remote_execution env (bs_sv s) e secret now_s answers late nonce
       = (sv, Inr (Ready response)) \<Longrightarrow>
     bridge_step env s Silent (s\<lparr>bs_sv := sv\<rparr>)"
| remote_refused: "prepare_remote_execution env (bs_sv s) e secret now_s answers late nonce
       = (sv, Inl err) \<Longrightarrow>
     bridge_step env s Silent (s\<lparr>bs_sv := sv\<rparr>)"
| finish: "ex \<in> set (bs_running s) \<Longrightarrow>
     finish_execution env (bs_sv s) ex oc duration nonce = (sv, r) \<Longrightarrow>
     bridge_step env s (Finished ex) (s\<lparr>bs_sv := sv, bs_running := remove1 ex (bs_running s)\<rparr>)"
| activate: "activate_generation (bs_sv s) g now = (sv, Inr ()) \<Longrightarrow>
     bridge_step env s (Activated g) (s\<lparr>bs_sv := sv\<rparr>)"
| control: "bridge_step env s Silent (s\<lparr>bs_sv := control_step env (bs_sv s) op\<rparr>)"

text \<open>The events are listed with the latest first.\<close>

inductive bridge_run :: "bridge_env \<Rightarrow> bridge_state \<Rightarrow> bridge_event list \<Rightarrow> bridge_state \<Rightarrow> bool"
  for env :: bridge_env and s0 :: bridge_state where
  initial: "bridge_run env s0 [] s0"
| step: "bridge_run env s0 evs s \<Longrightarrow> bridge_step env s ev t \<Longrightarrow> bridge_run env s0 (ev # evs) t"

inductive_cases bridge_step_cases: "bridge_step env s ev t"

section \<open>What the operations leave alone\<close>

lemma clear_permits_frame [simp]:
  "sv_config (clear_permits sv) = sv_config sv" "sv_scheduler (clear_permits sv) = sv_scheduler sv"
  "sv_lease (clear_permits sv) = sv_lease sv"
  "sv_next_sequence (clear_permits sv) = sv_next_sequence sv"
  "sv_issued (clear_permits sv) = Map.empty"
  "sv_highest_remote (clear_permits sv) = sv_highest_remote sv"
  "sv_ledger_file (clear_permits sv) = sv_ledger_file sv"
  by (simp_all add: clear_permits_def)

lemma control_frame:
  "sv_config (control_step env sv op) = sv_config sv"
  "sv_scheduler (control_step env sv op) = sv_scheduler sv"
  "sv_next_sequence (control_step env sv op) = sv_next_sequence sv"
  "sv_highest_remote (control_step env sv op) = sv_highest_remote sv"
  "ls_generation (sv_lease (control_step env sv op)) = ls_generation (sv_lease sv)"
  by (cases op; auto simp: update_lease_def mark_renewal_failed_def revoke_def cancel_def
      resume_after_reconnect_def cancel_remote_request_def finish_remote_request_def
      clear_remote_requests_def lease_revoke_def Let_def
      split: admission.splits sum.splits option.splits)+

lemma control_issued:
  "sv_issued (control_step env sv op) = sv_issued sv \<or> sv_issued (control_step env sv op) = Map.empty"
  by (cases op; auto simp: update_lease_def mark_renewal_failed_def revoke_def cancel_def
      resume_after_reconnect_def cancel_remote_request_def finish_remote_request_def
      clear_remote_requests_def Let_def split: admission.splits sum.splits option.splits)

lemma control_revoked:
  "ls_revoked (sv_lease sv) \<Longrightarrow> ls_revoked (sv_lease (control_step env sv op))"
  by (cases op; auto simp: update_lease_def mark_renewal_failed_def revoke_def cancel_def
      resume_after_reconnect_def cancel_remote_request_def finish_remote_request_def
      clear_remote_requests_def lease_revoke_def Let_def
      split: admission.splits sum.splits option.splits)

lemma next_sequence_cases:
  "next_sequence sv = (sv', r) \<Longrightarrow> sv' = sv \<and> (\<exists>e. r = Inl e) \<or>
     sv_next_sequence sv \<noteq> - 1 \<and> r = Inr (sv_next_sequence sv + 1) \<and>
     sv' = sv\<lparr>sv_next_sequence := sv_next_sequence sv + 1\<rparr>"
  by (auto simp: next_sequence_def split: if_splits)

lemma issue_permit_Inr:
  assumes "issue_permit sv request now_s now_ms rid key = (sv', Inr (k, p))"
  shows "permit_request_ok sv request = Inr ()" "\<not> sv_cancelled sv"
    "lease_admit (sv_lease sv) now_s default_lease_policy = Allowed"
    "sv_next_sequence sv \<noteq> - 1" "k = key"
    "sv' = sv\<lparr>sv_next_sequence := sv_next_sequence sv + 1,
      sv_issued := (sv_issued sv)(sv_next_sequence sv + 1 \<mapsto> \<lparr>ip_permit = p, ip_key = key\<rparr>)\<rparr>"
    "rp_sequence p = sv_next_sequence sv + 1" "rp_generation p = ls_generation (sv_lease sv)"
    "rp_request_id p = rid" "rp_binding_id p = bc_binding_id (sv_config sv)"
    "rp_expires_at_unix_ms p = sat_add now_ms 20000" "rp_max_payload_bytes p = 16 * 1024 * 1024"
    "rp_max_script_bytes p = MAX_SCRIPT_BYTES"
    "rp_default_task_space p = bc_default_task_space (sv_config sv)"
    "rp_allowlist_revision p = bc_allowlist_revision (sv_config sv)"
    "rp_learning_bundle_digest p = bc_learning_bundle_digest (sv_config sv)"
    "permit_scope p = scope_normalized (Some (pq_concurrency_mode request))
       (pq_task_space_scope request) (pq_tab_scope request)"
    "rp_concurrency_mode p \<noteq> Binding \<Longrightarrow>
       rp_task_space_scope p = Some (bc_default_task_space (sv_config sv))"
  using assms
  by (auto simp: issue_permit_def Let_def bind_r_Inr_iff admission_error_def permit_scope_def
      split: sum.splits prod.splits if_splits admission.splits dest!: next_sequence_cases)

lemma issue_permit_Inl:
  assumes "issue_permit sv request now_s now_ms rid key = (sv', Inl e)"
  shows "sv' = sv \<or> sv_next_sequence sv \<noteq> - 1 \<and> sv' = sv\<lparr>sv_next_sequence := sv_next_sequence sv + 1\<rparr>"
  using assms
  by (auto simp: issue_permit_def Let_def split: sum.splits prod.splits if_splits
      dest!: next_sequence_cases)

lemma take_permit_cases:
  assumes "take_permit sv e key now = (sv', r)"
  shows "(sv' = sv \<or> sv' = sv\<lparr>sv_issued := (sv_issued sv)(oe_sequence e := None)\<rparr>) \<and>
    (\<forall>i. r = Inr i \<longrightarrow> sv_issued sv (oe_sequence e) = Some i \<and>
       sv' = sv\<lparr>sv_issued := (sv_issued sv)(oe_sequence e := None)\<rparr> \<and>
       rp_binding_id (ip_permit i) = oe_binding_id e \<and> rp_generation (ip_permit i) = oe_generation e \<and>
       rp_request_id (ip_permit i) = oe_request_id e \<and> rp_sequence (ip_permit i) = oe_sequence e \<and>
       ip_key i = key \<and> now < rp_expires_at_unix_ms (ip_permit i))"
  using assms by (auto simp: take_permit_def Let_def split: option.splits if_splits)

text \<open>An admitted local execution: every check passed, the permit was taken out and its number is
  consumed, and the scheduler granted the request's own scope.\<close>

lemma execute_admit_Inr:
  assumes "execute_admit env sv e key now late later = (sv', Inr ex)"
  obtains i request where "execute_guard env sv e = Inr ()"
    "sv_issued sv (oe_sequence e) = Some i" "ip_key i = key"
    "rp_binding_id (ip_permit i) = oe_binding_id e" "rp_generation (ip_permit i) = oe_generation e"
    "rp_request_id (ip_permit i) = oe_request_id e" "rp_sequence (ip_permit i) = oe_sequence e"
    "now < rp_expires_at_unix_ms (ip_permit i)" "\<not> late"
    "decode_local env sv e key (ip_permit i) later = Inr (request, request_scope_of request)"
    "sch_try (sv_scheduler sv) (oe_generation e, oe_request_id e, request_scope_of request)
       = Some (sv_scheduler sv', ex_guard ex)"
    "sv' = sv\<lparr>sv_issued := (sv_issued sv)(oe_sequence e := None),
       sv_consumed := insert (oe_sequence e) (sv_consumed sv),
       sv_scheduler := sv_scheduler sv'\<rparr>"
    "ex_request ex = request" "ex_envelope ex = e" "ex_key ex = key" "\<not> ex_remote ex"
proof -
  let ?sv1 = "sv\<lparr>sv_issued := (sv_issued sv)(oe_sequence e := None)\<rparr>"
  from assms obtain sv1 i where g: "execute_guard env sv e = Inr ()"
    and t: "take_permit sv e key now = (sv1, Inr i)"
    by (auto simp: execute_admit_def split: sum.splits prod.splits)
  have c: "\<not> sv_cancelled sv"
    using g by (auto simp: execute_guard_def bind_r_Inr_iff split: if_splits)
  note tp = take_permit_cases [OF t]
  then have sv1: "sv1 = ?sv1" by blast
  let ?sv2 = "?sv1\<lparr>sv_consumed := insert (oe_sequence e) (sv_consumed sv)\<rparr>"
  from assms g t c obtain request scope sch guard where l: "\<not> late"
    and d: "decode_local env ?sv2 e key (ip_permit i) later = Inr (request, scope)"
    and a: "try_acquire (sv_scheduler sv) (oe_generation e) (oe_request_id e) scope = Inr (sch, guard)"
    and r: "sv' = ?sv2\<lparr>sv_scheduler := sch\<rparr>"
      "ex = \<lparr>ex_request = request, ex_envelope = e, ex_key = key, ex_guard = guard, ex_remote = False\<rparr>"
    by (auto simp: execute_admit_def sv1 Let_def cancel_def split: sum.splits prod.splits if_splits)
  have "supervisor_capability env ?sv2 = supervisor_capability env sv"
    by (simp add: supervisor_capability_def)
  with d have d': "decode_local env sv e key (ip_permit i) later = Inr (request, scope)"
    by (simp add: decode_local_def)
  then have "scope = request_scope_of request"
    by (auto simp: decode_local_def Let_def bind_r_Inr_iff split: if_splits)
  with d' a r g tp l show ?thesis
    by (intro that [of i request]) (simp_all add: sch_try_def)
qed

lemma execute_admit_Inl:
  assumes "execute_admit env sv e key now late later = (sv', Inl err)"
  shows "sv_scheduler sv' = sv_scheduler sv" "sv_config sv' = sv_config sv"
    "sv_lease sv' = sv_lease sv" "sv_next_sequence sv' = sv_next_sequence sv"
    "sv_highest_remote sv' = sv_highest_remote sv"
    "sv_issued sv' = sv_issued sv \<or> sv_issued sv' = (sv_issued sv)(oe_sequence e := None)"
  using assms
  by (auto simp: execute_admit_def Let_def cancel_def split: sum.splits prod.splits if_splits
      dest!: take_permit_cases)

lemma reserve_remote_cases:
  assumes "reserve_remote_sequence env sv answers n = (sv', r)"
  shows "\<exists>disk. sv' = sv\<lparr>sv_ledger_file := disk, sv_highest_remote := sv_highest_remote sv'\<rparr>"
    and "r = Inr () \<and> sv_highest_remote sv < n \<and> sv_highest_remote sv' = n
      \<or> (\<exists>e. r = Inl e) \<and> sv_highest_remote sv' = sv_highest_remote sv"
proof -
  obtain disk h where res:
    "reserve_sequence (be_ledger env) answers (sv_ledger_file sv) (sv_highest_remote sv) n = (disk, h, r)"
    and sv': "sv' = sv\<lparr>sv_ledger_file := disk, sv_highest_remote := h\<rparr>"
    using assms by (auto simp: reserve_remote_sequence_def split: prod.splits)
  then show "\<exists>disk. sv' = sv\<lparr>sv_ledger_file := disk, sv_highest_remote := sv_highest_remote sv'\<rparr>"
    by (intro exI [of _ disk]) simp
  from reserve_cases [OF res] sv'
  show "r = Inr () \<and> sv_highest_remote sv < n \<and> sv_highest_remote sv' = n
      \<or> (\<exists>e. r = Inl e) \<and> sv_highest_remote sv' = sv_highest_remote sv" by auto
qed

lemma runnable_request_cong:
  "sv_config a = sv_config b \<Longrightarrow> runnable_request env a = runnable_request env b"
  unfolding runnable_request_def supervisor_capability_def by (simp only:)

text \<open>A relay request that will run: the envelope and the lease were checked, its number is above every
  earlier one, it was decrypted and authenticated under the key wrapped for it, and it is valid for
  this binding.\<close>

lemma prepare_Running:
  assumes "prepare_remote_execution env sv e secret now answers late nonce = (sv', Inr (Running ex))"
  obtains key plaintext request where "prepare_guard env sv e now = Inr ()" "\<not> late"
    "sv_highest_remote sv < oe_sequence e" "sv_highest_remote sv' = oe_sequence e"
    "open_remote env e secret = Inr (key, plaintext)"
    "runnable_request env sv e plaintext = Some request"
    "sch_try (sv_scheduler sv) (oe_generation e, oe_request_id e, request_scope_of request)
       = Some (sv_scheduler sv', ex_guard ex)"
    "sv_active_remote sv (key_from_envelope e) = None"
    "sv_active_remote sv' = (sv_active_remote sv)(key_from_envelope e \<mapsto>
       \<lparr>ar_cancelled = False, ar_session_key = key\<rparr>)"
    "sv_config sv' = sv_config sv" "sv_lease sv' = sv_lease sv"
    "sv_next_sequence sv' = sv_next_sequence sv" "sv_issued sv' = sv_issued sv"
    "ex_request ex = request" "ex_envelope ex = e" "ex_key ex = key" "ex_remote ex"
proof -
  from assms obtain sv1 where g: "prepare_guard env sv e now = Inr ()"
    and r: "reserve_remote_sequence env sv answers (oe_sequence e) = (sv1, Inr ())"
    by (auto simp: prepare_remote_execution_def split: sum.splits prod.splits)
  obtain disk where sv1: "sv1 = sv\<lparr>sv_ledger_file := disk, sv_highest_remote := oe_sequence e\<rparr>"
    and high: "sv_highest_remote sv < oe_sequence e"
    using reserve_remote_cases [OF r] by auto
  have c: "\<not> sv_cancelled sv"
    using g by (auto simp: prepare_guard_def bind_r_Inr_iff split: if_splits)
  have run: "runnable_request env sv1 e pt = runnable_request env sv e pt" for pt
    using runnable_request_cong [of sv1 sv env] by (simp add: sv1)
  from assms g r c obtain key pt request sch guard where
    o: "open_remote env e secret = Inr (key, pt)"
    and rq: "runnable_request env sv e pt = Some request"
    and a: "try_acquire (sv_scheduler sv) (oe_generation e) (oe_request_id e)
        (request_scope_of request) = Inr (sch, guard)"
    and l: "\<not> late" and act: "sv_active_remote sv (key_from_envelope e) = None"
    and res: "sv' = sv1\<lparr>sv_scheduler := sch, sv_active_remote := (sv_active_remote sv)
        (key_from_envelope e \<mapsto> \<lparr>ar_cancelled = False, ar_session_key = key\<rparr>)\<rparr>"
      "ex = \<lparr>ex_request = request, ex_envelope = e, ex_key = key, ex_guard = guard, ex_remote = True\<rparr>"
    by (auto simp: prepare_remote_execution_def run [unfolded sv1] Let_def cancel_def answer_status_def sv1
        bind_r_Inr_iff split: sum.splits prod.splits if_splits option.splits)
  show ?thesis
    by (rule that [OF g l high _ o rq _ act]) (use a res in \<open>simp_all add: sv1 sch_try_def\<close>)
qed

text \<open>In every other case the locks are as they were: a guard taken on the way was dropped.\<close>

lemma prepare_not_running:
  assumes "prepare_remote_execution env sv e secret now answers late nonce = (sv', r)"
    and "\<forall>ex. r \<noteq> Inr (Running ex)" and "sch_inv (sv_scheduler sv) gs"
  shows "sv_scheduler sv' = sv_scheduler sv" "sv_config sv' = sv_config sv"
    "sv_lease sv' = sv_lease sv" "sv_next_sequence sv' = sv_next_sequence sv"
    "sv_issued sv' = sv_issued sv" "sv_highest_remote sv \<le> sv_highest_remote sv'"
proof -
  have "sv_scheduler sv' = sv_scheduler sv \<and> sv_config sv' = sv_config sv \<and>
    sv_lease sv' = sv_lease sv \<and> sv_next_sequence sv' = sv_next_sequence sv \<and>
    sv_issued sv' = sv_issued sv \<and> sv_highest_remote sv \<le> sv_highest_remote sv'"
  proof (cases "prepare_guard env sv e now")
    case (Inl err)
    with assms(1) show ?thesis by (simp add: prepare_remote_execution_def)
  next
    case g: (Inr u)
    obtain sv1 q where r: "reserve_remote_sequence env sv answers (oe_sequence e) = (sv1, q)"
      by (cases "reserve_remote_sequence env sv answers (oe_sequence e)")
    obtain disk where sv1: "sv1 = sv\<lparr>sv_ledger_file := disk,
        sv_highest_remote := sv_highest_remote sv1\<rparr>"
      using reserve_remote_cases(1) [OF r] by blast
    have high: "sv_highest_remote sv \<le> sv_highest_remote sv1"
      using reserve_remote_cases(2) [OF r] by auto
    have drop: "guard_drop sch guard = sv_scheduler sv"
      if "try_acquire (sv_scheduler sv) gen rid scope = Inr (sch, guard)" for gen rid scope sch guard
      using sch.release_acquire [OF assms(3), of "(gen, rid, scope)" sch guard] that
      by (simp add: sch_try_def)
    have keep: "sv_scheduler sv1 = sv_scheduler sv" "sv_config sv1 = sv_config sv"
      "sv_lease sv1 = sv_lease sv" "sv_next_sequence sv1 = sv_next_sequence sv"
      "sv_issued sv1 = sv_issued sv"
      by (subst sv1, simp)+
    show ?thesis
    proof (cases q)
      case (Inl err)
      with assms(1) g r keep high show ?thesis by (auto simp: prepare_remote_execution_def)
    next
      case q: (Inr v)
      from assms(1) g r q assms(2) keep high drop show ?thesis
        by (auto simp: prepare_remote_execution_def cancel_def Let_def
            split: sum.splits option.splits if_splits)
    qed
  qed
  then show "sv_scheduler sv' = sv_scheduler sv" "sv_config sv' = sv_config sv"
    "sv_lease sv' = sv_lease sv" "sv_next_sequence sv' = sv_next_sequence sv"
    "sv_issued sv' = sv_issued sv" "sv_highest_remote sv \<le> sv_highest_remote sv'" by blast+
qed

end
