(* ===== verification/Admission.thy ===== *)
theory Admission
  imports Supervisor_Safety
begin

text \<open>
  The history of a supervisor: which permits were issued, which requests were admitted, and how the
  sequence numbers tie them together.  Two invariants of \<open>bridge_run\<close> are proved here, one about the
  single use of permits and relay numbers, one about what a revocation leaves possible.
\<close>

section \<open>Histories\<close>

definition issued_permits :: "bridge_event list \<Rightarrow> request_permit list" where
  "issued_permits evs = concat (map (\<lambda>ev. case ev of Issued p \<Rightarrow> [p] | _ \<Rightarrow> []) evs)"

definition admitted :: "bool \<Rightarrow> bridge_event list \<Rightarrow> outer_envelope list" where
  "admitted relay evs =
     concat (map (\<lambda>ev. case ev of
       Admitted ex \<Rightarrow> if ex_remote ex = relay then [ex_envelope ex] else [] | _ \<Rightarrow> []) evs)"

lemma history_simps [simp]:
  "issued_permits [] = []" "admitted b [] = []"
  "issued_permits (Issued p # evs) = p # issued_permits evs"
  "issued_permits (Admitted ex # evs) = issued_permits evs"
  "issued_permits (Finished ex # evs) = issued_permits evs"
  "issued_permits (Activated g # evs) = issued_permits evs"
  "issued_permits (Silent # evs) = issued_permits evs"
  "admitted b (Issued p # evs) = admitted b evs"
  "admitted b (Admitted ex # evs) =
     (if ex_remote ex = b then ex_envelope ex # admitted b evs else admitted b evs)"
  "admitted b (Finished ex # evs) = admitted b evs"
  "admitted b (Activated g # evs) = admitted b evs"
  "admitted b (Silent # evs) = admitted b evs"
  by (simp_all add: issued_permits_def admitted_def)

text \<open>The permit under which a local request was admitted.\<close>

definition permit_for :: "outer_envelope \<Rightarrow> request_permit \<Rightarrow> bool" where
  "permit_for e p \<longleftrightarrow> rp_sequence p = oe_sequence e \<and> rp_request_id p = oe_request_id e \<and>
     rp_binding_id p = oe_binding_id e \<and> rp_generation p = oe_generation e"

section \<open>Single use\<close>

definition once_inv :: "supervisor \<Rightarrow> bridge_event list \<Rightarrow> bool" where
  "once_inv sv evs \<longleftrightarrow>
     (\<forall>p \<in> set (issued_permits evs). rp_sequence p \<le> sv_next_sequence sv) \<and>
     sorted_wrt (\<lambda>p q. rp_sequence p > rp_sequence q) (issued_permits evs) \<and>
     (\<forall>k i. sv_issued sv k = Some i \<longrightarrow> ip_permit i \<in> set (issued_permits evs) \<and>
        rp_sequence (ip_permit i) = k \<and> k \<notin> oe_sequence ` set (admitted False evs)) \<and>
     (\<forall>e \<in> set (admitted False evs). \<exists>p \<in> set (issued_permits evs). permit_for e p) \<and>
     distinct (map oe_sequence (admitted False evs)) \<and>
     (\<forall>e \<in> set (admitted True evs). oe_sequence e \<le> sv_highest_remote sv) \<and>
     sorted_wrt (\<lambda>e f. oe_sequence e > oe_sequence f) (admitted True evs)"

lemma next_above:
  "(n :: u64) \<noteq> - 1 \<Longrightarrow> m \<le> n \<Longrightarrow> m < n + 1"
  using unatSuc [of n] by (auto simp: word_less_nat_alt word_le_nat_alt add.commute eq_neg_iff_add_eq_0)

text \<open>Steps that issue or admit nothing keep the invariant as long as the counters do not fall and
  the table of open permits does not grow.\<close>

lemma once_quiet:
  assumes "once_inv sv evs" "issued_permits evs' = issued_permits evs"
    "\<And>b. admitted b evs' = admitted b evs"
    "sv_next_sequence sv \<le> sv_next_sequence sv'" "sv_highest_remote sv \<le> sv_highest_remote sv'"
    "\<And>k i. sv_issued sv' k = Some i \<Longrightarrow> sv_issued sv k = Some i"
  shows "once_inv sv' evs'"
proof -
  have "sv_issued sv k = Some i" if "sv_issued sv' k = Some i" for k i by (rule assms(6) [OF that])
  then have "\<forall>k i. sv_issued sv' k = Some i \<longrightarrow> ip_permit i \<in> set (issued_permits evs) \<and>
      rp_sequence (ip_permit i) = k \<and> k \<notin> oe_sequence ` set (admitted False evs)"
    using assms(1) unfolding once_inv_def by meson
  with assms(1-5) show ?thesis unfolding once_inv_def by (auto intro: order_trans)
qed

lemma once_issue:
  assumes inv: "once_inv sv evs"
    and res: "issue_permit sv request now_s now_ms rid key = (sv', Inr (k, p))"
  shows "once_inv sv' (Issued p # evs)"
proof -
  note facts = issue_permit_Inr [OF res]
  have above: "m < sv_next_sequence sv + 1" if "m \<le> sv_next_sequence sv" for m
    by (rule next_above [OF facts(4) that])
  have "rp_sequence q < rp_sequence p" if "q \<in> set (issued_permits evs)" for q
    using inv that above facts(7) by (auto simp: once_inv_def)
  moreover have new: "rp_sequence p \<notin> oe_sequence ` set (admitted False evs)"
    using inv calculation by (fastforce simp: once_inv_def permit_for_def)
  ultimately show ?thesis
    using inv above facts(6,7)
    by (auto simp: once_inv_def order.strict_implies_order)
qed

lemma once_local:
  assumes inv: "once_inv sv evs"
    and res: "execute_admit env sv e key now late later = (sv', Inr ex)"
  shows "once_inv sv' (Admitted ex # evs)"
  using res
proof (rule execute_admit_Inr)
  fix i request
  assume i: "sv_issued sv (oe_sequence e) = Some i"
    and p: "rp_binding_id (ip_permit i) = oe_binding_id e" "rp_generation (ip_permit i) = oe_generation e"
      "rp_request_id (ip_permit i) = oe_request_id e" "rp_sequence (ip_permit i) = oe_sequence e"
    and sv': "sv' = sv\<lparr>sv_issued := (sv_issued sv)(oe_sequence e := None),
       sv_consumed := insert (oe_sequence e) (sv_consumed sv), sv_scheduler := sv_scheduler sv'\<rparr>"
    and ex: "ex_envelope ex = e" "\<not> ex_remote ex"
  have frame: "sv_next_sequence sv' = sv_next_sequence sv" "sv_highest_remote sv' = sv_highest_remote sv"
    "sv_issued sv' = (sv_issued sv)(oe_sequence e := None)"
    by (subst sv', simp)+
  from inv i have "ip_permit i \<in> set (issued_permits evs)"
    "oe_sequence e \<notin> oe_sequence ` set (admitted False evs)"
    by (auto simp: once_inv_def)
  moreover from p have "permit_for e (ip_permit i)" by (simp add: permit_for_def)
  ultimately show ?thesis using inv ex by (auto simp: once_inv_def frame)
qed

lemma once_remote:
  assumes inv: "once_inv sv evs"
    and res: "prepare_remote_execution env sv e secret now answers late nonce = (sv', Inr (Running ex))"
  shows "once_inv sv' (Admitted ex # evs)"
  by (rule prepare_Running [OF res]) (use inv in \<open>fastforce simp: once_inv_def\<close>)

lemma once_step:
  assumes "bridge_step env s ev t" and inv: "once_inv (bs_sv s) evs" and lock: "lock_inv env s"
  shows "once_inv (bs_sv t) (ev # evs)"
  using assms(1)
proof (cases rule: bridge_step.cases)
  case (issue request now_s now_ms rid key sv k permit)
  then show ?thesis using once_issue [OF inv issue(3)] by simp
next
  case (issue_refused request now_s now_ms rid key sv err)
  have "sv_next_sequence (bs_sv s) \<le> sv_next_sequence sv" "sv_issued sv = sv_issued (bs_sv s)"
    using issue_permit_Inl [OF issue_refused(3)]
      next_above [of "sv_next_sequence (bs_sv s)" "sv_next_sequence (bs_sv s)"]
    by (auto simp: order.strict_implies_order)
  with issue_refused show ?thesis
    using issue_frame [OF issue_refused(3)] by (auto intro!: once_quiet [OF inv])
next
  case (local_run e key now_ms late later_ms sv ex)
  then show ?thesis using once_local [OF inv local_run(3)] by simp
next
  case (local_refuse e key now_ms late later_ms sv err)
  from execute_admit_Inl [OF local_refuse(3)] local_refuse show ?thesis
    by (auto intro!: once_quiet [OF inv] split: if_splits)
next
  case (remote e secret now_s answers late nonce sv ex)
  then show ?thesis using once_remote [OF inv remote(3)] by simp
next
  case (remote_answered e secret now_s answers late nonce sv response)
  then show ?thesis
    using prepare_not_running [OF remote_answered(3) _ lock_inv_sch [OF lock]]
    by (auto intro!: once_quiet [OF inv])
next
  case (remote_refused e secret now_s answers late nonce sv err)
  then show ?thesis
    using prepare_not_running [OF remote_refused(3) _ lock_inv_sch [OF lock]]
    by (auto intro!: once_quiet [OF inv])
next
  case (finish ex oc duration nonce sv r)
  then show ?thesis by (auto simp: finish_execution_def intro!: once_quiet [OF inv])
next
  case (activate g now sv)
  then show ?thesis
    by (auto simp: activate_generation_def intro!: once_quiet [OF inv] split: if_splits)
next
  case (control op)
  then show ?thesis
    using control_issued [of env "bs_sv s" op]
    by (auto simp: control_frame intro!: once_quiet [OF inv])
qed

lemma once_run:
  assumes "bridge_run env s0 evs s" "lock_inv env s0" "once_inv (bs_sv s0) []"
  shows "once_inv (bs_sv s) evs"
  using assms by (induction rule: bridge_run.induct) (auto intro: once_step lock_inv_run)

section \<open>After a revocation\<close>

definition gone_inv :: "u64 \<Rightarrow> supervisor \<Rightarrow> bridge_event list \<Rightarrow> bool" where
  "gone_inv g sv evs \<longleftrightarrow>
     (ls_generation (sv_lease sv) = g \<and> ls_revoked (sv_lease sv) \<or> g < ls_generation (sv_lease sv)) \<and>
     (\<forall>p \<in> set (issued_permits evs). g < rp_generation p) \<and>
     (\<forall>b. \<forall>e \<in> set (admitted b evs). g < oe_generation e)"

lemma gone_quiet:
  assumes "gone_inv g sv evs" "issued_permits evs' = issued_permits evs"
    "\<And>b. admitted b evs' = admitted b evs"
    "ls_generation (sv_lease sv') = ls_generation (sv_lease sv)"
    "ls_revoked (sv_lease sv) \<Longrightarrow> ls_revoked (sv_lease sv')"
  shows "gone_inv g sv' evs'"
  using assms unfolding gone_inv_def by auto

lemma gone_step:
  assumes "bridge_step env s ev t" and inv: "gone_inv g (bs_sv s) evs" and lock: "lock_inv env s"
  shows "gone_inv g (bs_sv t) (ev # evs)"
  using assms(1)
proof (cases rule: bridge_step.cases)
  case (issue request now_s now_ms rid key sv k permit)
  note facts = issue_permit_Inr [OF issue(3)]
  from facts(3) have "\<not> ls_revoked (sv_lease (bs_sv s))" by (auto simp: lease_admit_def)
  with inv facts(6,8) issue show ?thesis by (auto simp: gone_inv_def)
next
  case (issue_refused request now_s now_ms rid key sv err)
  then show ?thesis
    using issue_frame [OF issue_refused(3)] by (auto intro!: gone_quiet [OF inv])
next
  case (local_run e key now_ms late later_ms sv ex)
  from local_run(3) show ?thesis
  proof (rule execute_admit_Inr)
    assume guard: "execute_guard env (bs_sv s) e = Inr ()" and ex: "ex_envelope ex = e"
      and sv: "sv = bs_sv s\<lparr>sv_issued := (sv_issued (bs_sv s))(oe_sequence e := None),
         sv_consumed := insert (oe_sequence e) (sv_consumed (bs_sv s)),
         sv_scheduler := sv_scheduler sv\<rparr>"
    have l: "sv_lease sv = sv_lease (bs_sv s)" by (subst sv) simp
    from guard have "oe_generation e = ls_generation (sv_lease (bs_sv s))"
      "\<not> ls_revoked (sv_lease (bs_sv s))"
      by (auto simp: execute_guard_def bind_r_Inr_iff split: if_splits)
    with inv ex l local_run show ?thesis by (auto simp: gone_inv_def)
  qed
next
  case (local_refuse e key now_ms late later_ms sv err)
  from execute_admit_Inl [OF local_refuse(3)] local_refuse show ?thesis
    by (auto intro!: gone_quiet [OF inv])
next
  case (remote e secret now_s answers late nonce sv ex)
  from remote(3) show ?thesis
  proof (rule prepare_Running)
    assume guard: "prepare_guard env (bs_sv s) e now_s = Inr ()" and ex: "ex_envelope ex = e"
      and l: "sv_lease sv = sv_lease (bs_sv s)"
    from guard have "oe_generation e = ls_generation (sv_lease (bs_sv s))"
      "\<not> ls_revoked (sv_lease (bs_sv s))"
      by (auto simp: prepare_guard_def bind_r_Inr_iff split: if_splits)
    with inv ex l remote show ?thesis by (auto simp: gone_inv_def)
  qed
next
  case (remote_answered e secret now_s answers late nonce sv response)
  then show ?thesis
    using prepare_not_running [OF remote_answered(3) _ lock_inv_sch [OF lock]]
    by (auto intro!: gone_quiet [OF inv])
next
  case (remote_refused e secret now_s answers late nonce sv err)
  then show ?thesis
    using prepare_not_running [OF remote_refused(3) _ lock_inv_sch [OF lock]]
    by (auto intro!: gone_quiet [OF inv])
next
  case (finish ex oc duration nonce sv r)
  then show ?thesis by (auto simp: finish_execution_def intro!: gone_quiet [OF inv])
next
  case (activate g' now sv)
  then have "ls_generation (sv_lease (bs_sv s)) < ls_generation (sv_lease sv)"
    by (auto simp: activate_generation_def lease_new_def split: if_splits)
  with activate inv show ?thesis by (auto simp: gone_inv_def)
next
  case (control op)
  then show ?thesis
    by (auto simp: control_frame control_revoked intro!: gone_quiet [OF inv])
qed

lemma gone_run:
  assumes "bridge_run env s0 evs s" "lock_inv env s0" "gone_inv g (bs_sv s0) []"
  shows "gone_inv g (bs_sv s) evs"
  using assms by (induction rule: bridge_run.induct) (auto intro: gone_step lock_inv_run)

end
