(* ===== verification/Supervisor_Samples.thy ===== *)
theory Supervisor_Samples
  imports Admission
begin

text \<open>
  A concrete bridge on which the properties of the supervisor are evaluated: the sample
  configuration, a lease activated at second 1000, one request, and one run in which a permit is
  issued and used.
\<close>

definition sample_request :: inner_execute_request where
  "sample_request = \<lparr>ier_protocol = INNER_PROTOCOL_VERSION,
     ier_message_type = inner_message_type.Execute, ier_script = ''page.title()'',
     ier_timeout_ms = 1000, ier_cwd_label = ''work'',
     ier_default_task_space = ''agent-remote:development'', ier_concurrency_mode = TaskSpace,
     ier_task_space_scope = Some ''agent-remote:development'', ier_tab_scope = None,
     ier_allowlist_revision = 2, ier_learning_bundle_digest = None\<rparr>"

definition run_env :: bridge_env where
  "run_env = sample_env\<lparr>be_request := (\<lambda>_. Inr sample_request)\<rparr>"

definition sample_supervisor :: supervisor where
  "sample_supervisor = \<lparr>sv_config = sample_config,
     sv_scheduler = \<lparr>sch_maximum = 4, sch_active = 0, sch_binding_held = False, sch_keys = {},
       sch_poisoned = False\<rparr>,
     sv_lease = lease_new 2 1000 default_lease_policy, sv_next_sequence = 0, sv_issued = Map.empty,
     sv_consumed = {}, sv_ledger_file = Some (ledger_bytes sample_ledger_codec 0),
     sv_highest_remote = 0, sv_active_remote = Map.empty, sv_cancelled = False\<rparr>"

definition sample_permit_request :: permit_request where
  "sample_permit_request = \<lparr>pq_protocol = PROTOCOL_VERSION, pq_message_type = ''permit_request'',
     pq_script_bytes = 12, pq_timeout_ms = 1000, pq_cwd_label = ''work'',
     pq_concurrency_mode = TaskSpace, pq_task_space_scope = Some ''agent-remote:development'',
     pq_tab_scope = None, pq_startup_nonce = None\<rparr>"

lemma sample_config_fields:
  "bc_default_task_space sample_config = ''agent-remote:development''"
  "bc_binding_id sample_config = ''b-1''" "bc_generation sample_config = 2"
  "bc_max_parallel_requests sample_config = 4" "bc_broker_startup_nonce sample_config = None"
  "bc_allowlist_revision sample_config = 2" "bc_learning_bundle_digest sample_config = None"
  by (simp_all add: sample_config_def apply_verified_policy_def from_environment_def Let_def
      sample_policy_def env_var_def unwrap_or_def policy_learning_digest_def)

lemma sample_space: "is_dedicated_task_space ''agent-remote:development''"
proof -
  have "strip_prefix ''agent-remote:'' ''agent-remote:development'' = Some ''development''"
    by (simp add: strip_prefix_Some_iff)
  then show ?thesis
    by (simp add: is_dedicated_task_space_def is_ascii_alphanumeric_def is_ascii_alpha_def)
qed

lemma sample_started:
  "supervisor_new run_env sample_config (Inr ()) sample_load
     (Some (ledger_bytes sample_ledger_codec 0)) 1000 = Inr sample_supervisor"
proof -
  have "load_remote_sequence sample_ledger_codec sample_load
      (Some (ledger_bytes sample_ledger_codec 0)) = Inr 0"
    by (rule load_own_ledger [OF sample_ledger_codec_ok])
      (use sample_meta_private in \<open>simp_all add: sample_load_def sample_ledger_codec_def\<close>)
  then show ?thesis
    by (simp add: supervisor_new_def sample_space sample_config_fields run_env_def sample_env_def
        scheduler_new_def sample_supervisor_def)
qed

lemma sample_request_ok: "request_ok run_env sample_config sample_request"
  by (simp add: request_ok_def execute_validate_def sample_request_def sample_config_fields
      config_capability_def sample_space MAX_SCRIPT_BYTES_def MAX_EXECUTE_TIMEOUT_MS_def
      valid_text_id_def printable_def unwrap_or_default_def starts_with_def)

lemma sample_normalized:
  "scope_normalized (Some TaskSpace) (Some ''agent-remote:development'') None =
     \<lparr>rs_mode = TaskSpace, rs_task_space = Some ''agent-remote:development'', rs_tab = None\<rparr>"
proof -
  have "valid_scope ''agent-remote:development''"
    using dedicated_facts(2,3) [OF sample_space] by (simp add: valid_scope_def)
  then show ?thesis
    using dedicated_facts(4,5) [OF sample_space]
    by (simp add: scope_normalized_def Let_def filter_option_Some)
qed

lemma sample_scope:
  "request_scope_of sample_request =
     \<lparr>rs_mode = TaskSpace, rs_task_space = Some ''agent-remote:development'', rs_tab = None\<rparr>"
  by (simp add: request_scope_of_def sample_request_def sample_normalized)

section \<open>A run\<close>

definition sample_permit :: request_permit where
  "sample_permit = \<lparr>rp_binding_id = ''b-1'', rp_generation = 2, rp_request_id = ''r-1'',
     rp_sequence = 1, rp_expires_at_unix_ms = 1020000, rp_max_payload_bytes = 16 * 1024 * 1024,
     rp_max_script_bytes = MAX_SCRIPT_BYTES,
     rp_default_task_space = ''agent-remote:development'', rp_allowlist_revision = 2,
     rp_learning_bundle_digest = None, rp_concurrency_mode = TaskSpace,
     rp_task_space_scope = Some ''agent-remote:development'', rp_tab_scope = None\<rparr>"

lemma sample_issue_key:
  "issue_permit sample_supervisor sample_permit_request 1000 1000000 ''r-1'' key =
     (sample_supervisor\<lparr>sv_next_sequence := 1,
        sv_issued := [1 \<mapsto> \<lparr>ip_permit = sample_permit, ip_key = key\<rparr>]\<rparr>, Inr (key, sample_permit))"
proof -
  have "permit_request_ok sample_supervisor sample_permit_request = Inr ()"
    by (simp add: permit_request_ok_def sample_permit_request_def sample_supervisor_def
        sample_config_fields MAX_SCRIPT_BYTES_def MAX_EXECUTE_TIMEOUT_MS_def starts_with_def)
  moreover have "lease_admit (lease_new 2 1000 default_lease_policy) 1000 default_lease_policy = Allowed"
    by (simp add: lease_admit_def lease_new_def default_lease_policy_def sat_add_def sat_sub_def)
  ultimately show ?thesis
    by (simp add: issue_permit_def sample_supervisor_def admission_error_def next_sequence_def
        sample_permit_request_def sample_normalized sample_config_fields sample_permit_def Let_def
        lease_new_def sat_add_def)
qed

lemmas sample_issue = sample_issue_key [of "[1]"]

definition local_envelope :: outer_envelope where
  "local_envelope = sample_envelope\<lparr>oe_sequence := 1\<rparr>"

definition sample_guard :: permit_guard where
  "sample_guard = \<lparr>pg_keys = [''task-space:agent-remote:development''], pg_binding = False,
     pg_generation = 2, pg_request_id = ''r-1''\<rparr>"

definition sample_execution :: execution where
  "sample_execution = \<lparr>ex_request = sample_request, ex_envelope = local_envelope, ex_key = [1],
     ex_guard = sample_guard, ex_remote = False\<rparr>"

lemma local_envelope_valid: "envelope_valid run_env local_envelope = Inr ()"
proof -
  have "cr_b64 (be_crypto run_env) = byte_codec"
    by (simp add: run_env_def sample_env_def plain_crypto_def)
  moreover have "as_bytes ''data'' \<noteq> []" "as_bytes [] = []" by (simp_all add: as_bytes_def)
  ultimately show ?thesis
    by (simp add: envelope_valid_def envelope_validate_def byte_decode sample_envelope_def
        local_envelope_def valid_text_id_def printable_def MAX_FRAME_BYTES_def)
      (simp add: run_env_def sample_env_def)
qed

lemma sample_permit_valid:
  "now < 1020000 \<Longrightarrow> n \<le> MAX_SCRIPT_BYTES \<Longrightarrow>
     permit_validate sample_permit (config_capability v sample_config) now n = Inr ()"
  by (simp add: permit_validate_def sample_permit_def sample_space config_capability_def
      sample_config_fields sample_normalized valid_text_id_def printable_def not_le MAX_SCRIPT_BYTES_def
      Let_def)

lemma sample_open: "open_payload run_env key local_envelope = Inr (as_bytes ''data'')"
  by (simp add: open_payload_def decoded_payload_def run_env_def sample_env_def plain_crypto_def
      byte_decode local_envelope_def sample_envelope_def open_sealed_def)

lemma sample_decode:
  "decode_local run_env sv e key sample_permit 1000 =
     Inr (sample_request, request_scope_of sample_request)"
  if "sv_config sv = sample_config" "e = local_envelope"
proof -
  have "parse_strict_json (be_json run_env) (be_request run_env) (as_bytes ''data'') = Inr sample_request"
    by (simp add: parse_strict_json_def run_env_def sample_env_def)
  moreover have "execute_validate sample_request (supervisor_capability run_env sv) = Inr ()"
    using sample_request_ok that by (simp add: request_ok_def supervisor_capability_def)
  moreover have "length (ier_script sample_request) \<le> MAX_SCRIPT_BYTES"
    using sample_request_ok by (simp add: request_ok_def)
  moreover have "permit_validate sample_permit (supervisor_capability run_env sv) 1000
      (length (ier_script sample_request)) = Inr ()"
    unfolding supervisor_capability_def that by (rule sample_permit_valid) (use calculation in simp_all)
  moreover have "rp_max_script_bytes sample_permit = MAX_SCRIPT_BYTES"
    "ier_default_task_space sample_request = ''agent-remote:development''"
    "ier_concurrency_mode sample_request = TaskSpace" "rp_concurrency_mode sample_permit = TaskSpace"
    "rp_task_space_scope sample_permit = Some ''agent-remote:development''"
    "rp_tab_scope sample_permit = None"
    by (simp_all add: sample_permit_def sample_request_def)
  ultimately show ?thesis
    by (simp add: decode_local_def that sample_open sample_config_fields sample_scope)
qed

lemma sample_admit:
  "\<exists>sv. execute_admit run_env (sample_supervisor\<lparr>sv_next_sequence := 1,
        sv_issued := [1 \<mapsto> \<lparr>ip_permit = sample_permit, ip_key = [1]\<rparr>]\<rparr>)
      local_envelope [1] 1000 False 1000 = (sv, Inr sample_execution)"
  (is "\<exists>sv. execute_admit _ ?sv _ _ _ _ _ = _")
proof -
  have e: "oe_message_type local_envelope = outer_message_type.Execute"
    "oe_direction local_envelope = Request" "oe_generation local_envelope = 2"
    "oe_sequence local_envelope = 1" "oe_request_id local_envelope = ''r-1''"
    "oe_binding_id local_envelope = ''b-1''" "oe_payload_bytes local_envelope = 4"
    by (simp_all add: local_envelope_def sample_envelope_def)
  have "execute_guard run_env ?sv local_envelope = Inr ()"
    by (simp add: execute_guard_def local_envelope_valid e sample_supervisor_def lease_new_def)
  moreover have "take_permit ?sv local_envelope [1] 1000
      = (?sv\<lparr>sv_issued := Map.empty\<rparr>, Inr \<lparr>ip_permit = sample_permit, ip_key = [1]\<rparr>)"
    by (simp add: take_permit_def e sample_permit_def Let_def)
  ultimately show ?thesis
    by (simp add: execute_admit_def sample_decode sample_supervisor_def sample_scope try_acquire_def
        lock_keys_def e sample_execution_def sample_guard_def Let_def)
qed

text \<open>One permit, one admitted request.\<close>

lemma sample_run:
  "\<exists>sv. bridge_run run_env (fresh_bridge sample_supervisor)
     [Admitted sample_execution, Issued sample_permit]
     \<lparr>bs_sv = sv, bs_running = [sample_execution]\<rparr>"
proof -
  obtain sv where a: "execute_admit run_env (sample_supervisor\<lparr>sv_next_sequence := 1,
        sv_issued := [1 \<mapsto> \<lparr>ip_permit = sample_permit, ip_key = [1]\<rparr>]\<rparr>)
      local_envelope [1] 1000 False 1000 = (sv, Inr sample_execution)"
    using sample_admit by blast
  let ?s0 = "fresh_bridge sample_supervisor"
  have i: "issue_permit (bs_sv ?s0) sample_permit_request 1000 1000000 ''r-1'' [1] =
     (sample_supervisor\<lparr>sv_next_sequence := 1,
        sv_issued := [1 \<mapsto> \<lparr>ip_permit = sample_permit, ip_key = [1]\<rparr>]\<rparr>, Inr ([1], sample_permit))"
    by (simp add: fresh_bridge_def sample_issue)
  have "bridge_run run_env ?s0 [Issued sample_permit]
      (?s0\<lparr>bs_sv := sample_supervisor\<lparr>sv_next_sequence := 1,
        sv_issued := [1 \<mapsto> \<lparr>ip_permit = sample_permit, ip_key = [1]\<rparr>]\<rparr>\<rparr>)" (is "bridge_run _ _ _ ?s1")
    by (rule bridge_run.step [OF bridge_run.initial bridge_step.issue [OF i]])
  moreover have "execute_admit run_env (bs_sv ?s1) local_envelope [1] 1000 False 1000
      = (sv, Inr sample_execution)" using a by simp
  ultimately have "bridge_run run_env ?s0 [Admitted sample_execution, Issued sample_permit]
      (?s1\<lparr>bs_sv := sv, bs_running := sample_execution # bs_running ?s1\<rparr>)"
    by (blast intro: bridge_run.step bridge_step.local_run)
  then show ?thesis by (auto simp: fresh_bridge_def)
qed

end
