(* ===== verification/Supervisor_Properties.thy ===== *)
theory Supervisor_Properties
  imports Supervisor_Samples
begin

text \<open>
  The properties of the supervisor, over its runs and over single operations.
\<close>

section \<open>Runs\<close>

text \<open>C1: from a newly started bridge, in every run and whatever maximum is configured (at most
  four), at most one execution is alive at a time; it was validated against the capability that
  the bridge advertises and is bound to the configured default Task Space.\<close>

theorem one_execution_at_a_time:
  assumes "supervisor_new env config root answers ledger now = Inr sv"
    and "bridge_run env (fresh_bridge sv) evs s"
  shows "length (bs_running s) \<le> 1 \<and>
    active_count (sv_scheduler (bs_sv s)) = length (bs_running s) \<and>
    (\<forall>ex \<in> set (bs_running s). request_ok env config (ex_request ex))"
proof -
  have inv: "lock_inv env s" by (rule lock_inv_run [OF assms(2) fresh_lock_inv [OF assms(1)]])
  have "sv_config sv = config" by (rule supervisor_new_Inr [OF assms(1)]) simp
  then have "sv_config (bs_sv s) = config"
    using run_config [OF assms(2) fresh_lock_inv [OF assms(1)]] by (simp add: fresh_bridge_def)
  with inv lock_inv_one [OF inv] show ?thesis
    by (auto simp: lock_inv_def sch_inv_def active_count_def)
qed

theorem one_execution_at_a_time_witness:
  "\<exists>evs s. bridge_run run_env (fresh_bridge sample_supervisor) evs s \<and>
     bs_running s = [sample_execution] \<and> active_count (sv_scheduler (bs_sv s)) = 1"
proof -
  obtain sv where run: "bridge_run run_env (fresh_bridge sample_supervisor)
      [Admitted sample_execution, Issued sample_permit]
      \<lparr>bs_sv = sv, bs_running = [sample_execution]\<rparr>"
    using sample_run by blast
  with one_execution_at_a_time [OF sample_started run] show ?thesis by fastforce
qed

text \<open>C2: a permit and a relay sequence number are used at most once.  In every run from a new
  bridge, the issued permits carry strictly increasing sequence numbers, every admitted local
  request matches an issued permit in binding, generation, request and sequence, no two admitted
  local requests share a sequence number, and the admitted relay requests carry strictly increasing
  ones.\<close>

theorem admitted_once:
  assumes "supervisor_new env config root answers ledger now = Inr sv"
    and "bridge_run env (fresh_bridge sv) evs s"
  shows "sorted_wrt (\<lambda>p q. rp_sequence p > rp_sequence q) (issued_permits evs) \<and>
    (\<forall>e \<in> set (admitted False evs). \<exists>p \<in> set (issued_permits evs). permit_for e p) \<and>
    distinct (map oe_sequence (admitted False evs)) \<and>
    sorted_wrt (\<lambda>e f. oe_sequence e > oe_sequence f) (admitted True evs)"
proof -
  have "once_inv (bs_sv (fresh_bridge sv)) []"
    by (rule supervisor_new_Inr [OF assms(1)]) (simp add: once_inv_def fresh_bridge_def)
  from once_run [OF assms(2) fresh_lock_inv [OF assms(1)] this] show ?thesis
    by (simp add: once_inv_def)
qed

theorem admitted_once_witness:
  "admitted False [Admitted sample_execution, Issued sample_permit] = [local_envelope] \<and>
   permit_for local_envelope sample_permit"
proof -
  obtain sv where run: "bridge_run run_env (fresh_bridge sample_supervisor)
      [Admitted sample_execution, Issued sample_permit]
      \<lparr>bs_sv = sv, bs_running = [sample_execution]\<rparr>"
    using sample_run by blast
  have a: "admitted False [Admitted sample_execution, Issued sample_permit] = [local_envelope]"
    by (simp add: sample_execution_def)
  from admitted_once [OF sample_started run] have "permit_for local_envelope sample_permit"
    unfolding a by simp
  with a show ?thesis by blast
qed

text \<open>C3: a revocation is final for its generation: once a bridge is revoked, whatever happens after it (renewals, reconnects,
  late requests of either path), every permit issued and every request admitted from then on
  belongs to a later generation.\<close>

theorem revocation_final_for_generation:
  assumes "supervisor_new env config root answers ledger now = Inr sv"
    and "bridge_run env (fresh_bridge sv) before s0" and "ls_revoked (sv_lease (bs_sv s0))"
    and "bridge_run env s0 evs s"
  shows "(\<forall>p \<in> set (issued_permits evs). ls_generation (sv_lease (bs_sv s0)) < rp_generation p) \<and>
    (\<forall>relay. \<forall>e \<in> set (admitted relay evs). ls_generation (sv_lease (bs_sv s0)) < oe_generation e)"
proof -
  have "gone_inv (ls_generation (sv_lease (bs_sv s0))) (bs_sv s0) []"
    using assms(3) by (simp add: gone_inv_def)
  from gone_run [OF assms(4) lock_inv_run [OF assms(2) fresh_lock_inv [OF assms(1)]] this] show ?thesis by (simp add: gone_inv_def)
qed

text \<open>The witness revokes the sample bridge and activates the next generation.\<close>

theorem revocation_final_for_generation_witness:
  "\<exists>s. bridge_run run_env (fresh_bridge (revoke sample_supervisor)) [Activated 3] s \<and>
     ls_generation (sv_lease (bs_sv s)) = 3 \<and>
     (\<forall>p \<in> set (issued_permits [Activated 3]). 2 < rp_generation p)"
proof -
  let ?s0 = "fresh_bridge (revoke sample_supervisor)"
  have fields: "ls_revoked (sv_lease (bs_sv ?s0))" "ls_generation (sv_lease (bs_sv ?s0)) = 2"
    by (simp_all add: fresh_bridge_def revoke_def clear_permits_def lease_revoke_def
        sample_supervisor_def lease_new_def)
  have "?s0 = (fresh_bridge sample_supervisor)
      \<lparr>bs_sv := control_step run_env (bs_sv (fresh_bridge sample_supervisor)) Revocation\<rparr>"
    by (simp add: fresh_bridge_def)
  then have before: "bridge_run run_env (fresh_bridge sample_supervisor) [Silent] ?s0"
    using bridge_run.step [OF bridge_run.initial bridge_step.control] by metis
  obtain sv where a: "activate_generation (bs_sv ?s0) 3 5000 = (sv, Inr ())"
    and g: "ls_generation (sv_lease sv) = 3"
    using fields(2) by (simp add: activate_generation_def clear_permits_def lease_new_def)
  have run: "bridge_run run_env ?s0 [Activated 3] (?s0\<lparr>bs_sv := sv\<rparr>)"
    by (rule bridge_run.step [OF bridge_run.initial bridge_step.activate [OF a]])
  from revocation_final_for_generation [OF sample_started before fields(1) run] fields(2) g run
  show ?thesis by (intro exI [of _ "?s0\<lparr>bs_sv := sv\<rparr>"]) simp
qed

section \<open>Permits\<close>

text \<open>A permit is usable exactly as long as it says.  For a bridge with valid identity, the permit
  that \<open>issue_permit\<close> returns passes \<open>permit_validate\<close> against the bridge's own capability
  exactly until twenty seconds after it was issued, for scripts up to the protocol's limit.\<close>

theorem issued_permit_usable:
  assumes "issue_permit sv request now_s now_ms rid key = (sv', Inr (k, p))"
    and "valid_text_id (bc_binding_id (sv_config sv)) 128" and "valid_text_id rid 128"
    and "ls_generation (sv_lease sv) \<noteq> 0"
    and "is_dedicated_task_space (bc_default_task_space (sv_config sv))"
  shows "permit_validate p (supervisor_capability env sv) later script_bytes = Inr () \<longleftrightarrow>
    later < sat_add now_ms 20000 \<and> script_bytes \<le> MAX_SCRIPT_BYTES"
proof -
  note facts = issue_permit_Inr [OF assms(1)]
  have seq: "rp_sequence p \<noteq> 0"
    unfolding facts(7) using next_above [OF facts(4), of 0] by auto
  have "scope_normalized (Some (rs_mode (permit_scope p))) (rs_task_space (permit_scope p))
      (rs_tab (permit_scope p)) = permit_scope p"
    unfolding facts(17) by (rule normalized_of_normal [OF normalized_is_normal])
  then have norm: "scope_normalized (Some (rp_concurrency_mode p)) (rp_task_space_scope p)
      (rp_tab_scope p) = permit_scope p"
    by (simp add: permit_scope_def)
  have mode: "rp_concurrency_mode p \<in> set [TaskSpaceTab, TaskSpace, Binding]"
    by (cases "rp_concurrency_mode p") simp_all
  have cap: "cap_allowlist_revision (supervisor_capability env sv) = bc_allowlist_revision (sv_config sv)"
    "cap_learning_bundle_digest (supervisor_capability env sv) = bc_learning_bundle_digest (sv_config sv)"
    "cap_max_script_bytes (supervisor_capability env sv) = MAX_SCRIPT_BYTES"
    "cap_supported_concurrency (supervisor_capability env sv) = [TaskSpaceTab, TaskSpace, Binding]"
    by (simp_all add: supervisor_capability_def config_capability_def)
  show ?thesis
    unfolding permit_validate_def norm cap facts(8-16)
    using assms(2-5) seq mode facts(18)
    by (auto simp: permit_scope_def not_le MAX_SCRIPT_BYTES_def Let_def)
qed

theorem issued_permit_usable_witness:
  "permit_validate sample_permit (supervisor_capability run_env sample_supervisor) 1019999 12 = Inr () \<and>
   permit_validate sample_permit (supervisor_capability run_env sample_supervisor) 1020000 12 \<noteq> Inr ()"
proof -
  have f: "valid_text_id (bc_binding_id (sv_config sample_supervisor)) 128"
    "ls_generation (sv_lease sample_supervisor) \<noteq> 0"
    "is_dedicated_task_space (bc_default_task_space (sv_config sample_supervisor))"
    by (simp_all add: sample_supervisor_def sample_config_fields sample_space valid_text_id_def
        printable_def lease_new_def)
  have "valid_text_id ''r-1'' 128" by (simp add: valid_text_id_def printable_def)
  from issued_permit_usable [OF sample_issue f(1) this f(2,3), of run_env] show ?thesis
    by (simp add: sat_add_def MAX_SCRIPT_BYTES_def)
qed

section \<open>The relay path\<close>

text \<open>What a client of the relay builds: a request key wrapped to the bridge's public key, and the
  plaintext sealed under it with the envelope's own routing fields.\<close>

definition client_sealed :: "bridge_env \<Rightarrow> bytes \<Rightarrow> outer_envelope \<Rightarrow> bytes \<Rightarrow> bytes \<Rightarrow> bool" where
  "client_sealed env secret e key plaintext \<longleftrightarrow>
     (\<exists>eph wrap_nonce nonce ct tag. length wrap_nonce = 12 \<and> length nonce = 12 \<and>
        wrap_session_key (be_crypto env) eph wrap_nonce key (cr_public (be_crypto env) secret)
          (oe_binding_id e) (oe_generation e) (oe_request_id e) (oe_sequence e)
          = Inr (oe_key_wrap e) \<and>
        seal (be_crypto env) key nonce plaintext (aad_for_outer (jc_to_vec (be_json env)) e)
          = Inr (nonce, ct, tag) \<and>
        oe_nonce e = encode_b64url (be_crypto env) nonce \<and>
        oe_ciphertext e = encode_b64url (be_crypto env) ct \<and>
        oe_auth_tag e = encode_b64url (be_crypto env) tag)"

lemma client_sealed_opens:
  assumes "crypto_ok (be_crypto env)" "client_sealed env secret e key plaintext"
  shows "open_remote env e secret = Inr (key, plaintext)"
proof -
  obtain eph wn n ct tag where len: "length wn = 12" "length n = 12"
    and w: "wrap_session_key (be_crypto env) eph wn key (cr_public (be_crypto env) secret)
        (oe_binding_id e) (oe_generation e) (oe_request_id e) (oe_sequence e) = Inr (oe_key_wrap e)"
    and s: "seal (be_crypto env) key n plaintext (aad_for_outer (jc_to_vec (be_json env)) e)
        = Inr (n, ct, tag)"
    and f: "oe_nonce e = encode_b64url (be_crypto env) n"
      "oe_ciphertext e = encode_b64url (be_crypto env) ct"
      "oe_auth_tag e = encode_b64url (be_crypto env) tag"
    using assms(2) unfolding client_sealed_def by blast
  have b64: "b64_ok (cr_b64 (be_crypto env))" using assms(1) by (simp add: crypto_ok_def)
  have dec: "decode_b64 (cr_b64 (be_crypto env)) (encode_b64url (be_crypto env) bs) = Some bs" for bs
    using decode_b64_encode [OF b64] by (simp add: encode_b64url_def)
  have "decoded_payload (cr_b64 (be_crypto env)) e = Inr (ct, n, tag)"
    by (simp add: decoded_payload_def f dec)
  with unwrap_wrapped [OF assms(1) len(1) w] chan.seal_open [OF assms(1) len(2) s]
  show ?thesis by (simp add: open_remote_def open_payload_def Let_def)
qed

text \<open>The state and the surroundings in which the bridge takes a relay request: it is idle, its lease
  admits, the number is new, and the ledger can be written.\<close>

definition ready_for :: "bridge_env \<Rightarrow> supervisor \<Rightarrow> outer_envelope \<Rightarrow> u64 \<Rightarrow> persist_answers \<Rightarrow> bool"
  where
  "ready_for env sv e now a \<longleftrightarrow>
     sch_inv (sv_scheduler sv) [] \<and> 0 < sch_maximum (sv_scheduler sv) \<and> \<not> sv_cancelled sv \<and>
     lease_admit (sv_lease sv) now default_lease_policy = Allowed \<and>
     oe_binding_id e = bc_binding_id (sv_config sv) \<and>
     oe_generation e = ls_generation (sv_lease sv) \<and>
     sv_highest_remote sv < oe_sequence e \<and> sv_active_remote sv (key_from_envelope e) = None \<and>
     validate_private_file (lc_euid (be_ledger env)) (pa_lstat a) = Inr () \<and>
     validate_private_file (lc_euid (be_ledger env)) (pa_lstat_after a) = Inr () \<and>
     (\<exists>rest. pa_opens a = None # rest \<or> pa_opens a = Some AlreadyExists # None # rest) \<and>
     pa_write a = None \<and> pa_sync a = None \<and> pa_rename a = None \<and> pa_sync_directory a = None"

lemma relay_accepts:
  assumes "crypto_ok (be_crypto env)" and "client_sealed env secret e key plaintext"
    and "envelope_valid env e = Inr ()"
    and "envelope_validate_key_wrap (cr_b64 (be_crypto env)) e = Inr ()"
    and "parse_strict_json (be_json env) (be_request env) plaintext = Inr request"
    and "request_ok env (sv_config sv) request" and "ready_for env sv e now answers"
  shows "\<exists>sv' ex.
    prepare_remote_execution env sv e secret now answers False nonce = (sv', Inr (Running ex)) \<and>
    ex_request ex = request \<and> ex_key ex = key \<and>
    pg_keys (ex_guard ex) = lock_keys (request_scope_of request) \<and>
    sv_highest_remote sv' = oe_sequence e \<and>
    sv_ledger_file sv' = Some (ledger_bytes (be_ledger env) (oe_sequence e))"
proof -
  note rd = assms(7) [unfolded ready_for_def]
  have lease: "\<not> ls_revoked (sv_lease sv)" using rd by (auto simp: lease_admit_def)
  have dir: "oe_message_type e = outer_message_type.Execute" "oe_direction e = Request"
    using assms(4) by (auto simp: envelope_validate_key_wrap_def split: if_splits)
  have guard: "prepare_guard env sv e now = Inr ()"
    using rd lease dir assms(3,4) by (simp add: prepare_guard_def admission_error_def)
  define sv1 where "sv1 = sv\<lparr>sv_ledger_file := Some (ledger_bytes (be_ledger env) (oe_sequence e)),
      sv_highest_remote := oe_sequence e\<rparr>"
  from rd obtain rest where "pa_opens answers = None # rest
      \<or> pa_opens answers = Some AlreadyExists # None # rest" by blast
  with rd have reserve: "reserve_remote_sequence env sv answers (oe_sequence e) = (sv1, Inr ())"
    by (simp add: reserve_remote_sequence_def reserve_fresh sv1_def)
  have "oe_payload_bytes e \<le> 16 * 1024 * 1024"
    using assms(3) envelope_validateD(8) [of "cr_b64 (be_crypto env)" "be_wire env" e MAX_FRAME_BYTES]
    by (auto simp: envelope_valid_def MAX_FRAME_BYTES_def)
  then have run: "runnable_request env sv1 e plaintext = Some request"
    using assms(5,6) by (simp add: runnable_request_def request_ok_def supervisor_capability_def sv1_def)
  obtain sch guard where acquire: "sch_try (sv_scheduler sv)
      (oe_generation e, oe_request_id e, request_scope_of request) = Some (sch, guard)"
    and keys: "pg_keys guard = lock_keys (request_scope_of request)"
    using rd by (simp add: sch_try_Some sch_inv_def)
  then have acq: "try_acquire (sv_scheduler sv1) (oe_generation e) (oe_request_id e)
      (request_scope_of request) = Inr (sch, guard)"
    by (simp add: sch_try_def sv1_def split: sum.splits)
  have free: "sv_active_remote sv1 (key_from_envelope e) = None" "\<not> sv_cancelled sv1"
    using rd by (simp_all add: sv1_def)
  show ?thesis
    unfolding prepare_remote_execution_def guard
    using keys free by (simp add: reserve client_sealed_opens [OF assms(1,2)] run acq Let_def)
      (simp add: sv1_def)
qed

text \<open>C4: a well-formed relay request reaches execution: sealed by the client for this bridge and sent
  to an idle bridge with a healthy lease, it is decrypted to exactly the request the client wrote,
  its number is in the ledger before it runs, and it holds the lock of its own scope.\<close>

theorem relay_request_accepted:
  assumes "crypto_ok (be_crypto env)" and "client_sealed env secret e key plaintext"
    and "envelope_valid env e = Inr ()"
    and "envelope_validate_key_wrap (cr_b64 (be_crypto env)) e = Inr ()"
    and "parse_strict_json (be_json env) (be_request env) plaintext = Inr request"
    and "request_ok env (sv_config sv) request" and "ready_for env sv e now answers"
  shows "\<exists>sv' ex.
    prepare_remote_execution env sv e secret now answers False nonce = (sv', Inr (Running ex)) \<and>
    ex_request ex = request \<and> ex_key ex = key \<and>
    pg_keys (ex_guard ex) = lock_keys (request_scope_of request) \<and>
    sv_highest_remote sv' = oe_sequence e \<and>
    sv_ledger_file sv' = Some (ledger_bytes (be_ledger env) (oe_sequence e))"
  using assms by (rule relay_accepts)

definition relay_envelope :: "string \<Rightarrow> outer_envelope" where
  "relay_envelope kw = local_envelope\<lparr>oe_key_wrap := kw,
     oe_nonce := encode_b64url plain_crypto (replicate 12 9),
     oe_ciphertext := encode_b64url plain_crypto (as_bytes ''data''),
     oe_auth_tag := encode_b64url plain_crypto (replicate 16 0)\<rparr>"

lemma relay_envelope_ready: "ready_for run_env sample_supervisor (relay_envelope kw) 1000 sample_persist"
proof -
  have "lc_euid (be_ledger run_env) = 501"
    by (simp add: run_env_def sample_env_def sample_ledger_codec_def)
  then show ?thesis
    using sample_meta_private
    by (simp add: ready_for_def sch_inv_def sample_supervisor_def lease_admit_def lease_new_def
        default_lease_policy_def sat_add_def sat_sub_def relay_envelope_def local_envelope_def
        sample_envelope_def sample_config_fields sample_persist_def)
qed

lemma relay_envelope_valid:
  assumes "length (as_bytes kw) = KEY_WRAP_BYTES"
  shows "envelope_valid run_env (relay_envelope kw) = Inr ()"
    and "envelope_validate_key_wrap (cr_b64 (be_crypto run_env)) (relay_envelope kw) = Inr ()"
proof -
  have c: "cr_b64 (be_crypto run_env) = byte_codec"
    by (simp add: run_env_def sample_env_def plain_crypto_def)
  have enc: "as_bytes (encode_b64url plain_crypto bs) = bs" for bs
    by (simp add: encode_b64url_def plain_crypto_def byte_codec_def)
  have "as_bytes ''data'' \<noteq> []" "length (as_bytes ''data'') = 4" by (simp_all add: as_bytes_def)
  moreover have "be_wire run_env = (\<lambda>e. Some 400)" by (simp add: run_env_def sample_env_def)
  ultimately show "envelope_valid run_env (relay_envelope kw) = Inr ()"
    using assms
    by (simp add: envelope_valid_def envelope_validate_def c byte_decode relay_envelope_def
        local_envelope_def sample_envelope_def enc valid_text_id_def printable_def MAX_FRAME_BYTES_def
        del: length_as_bytes)
  show "envelope_validate_key_wrap (cr_b64 (be_crypto run_env)) (relay_envelope kw) = Inr ()"
    using assms
    by (simp add: envelope_validate_key_wrap_def c byte_decode relay_envelope_def local_envelope_def
        sample_envelope_def del: length_as_bytes)
qed

lemma sample_client:
  "\<exists>kw. length (as_bytes kw) = KEY_WRAP_BYTES \<and>
     client_sealed run_env [4] (relay_envelope kw) (replicate 32 5) (as_bytes ''data'')"
proof -
  let ?key = "replicate 32 (5 :: u8)" and ?nonce = "replicate 12 (9 :: u8)"
  obtain kw where w: "wrap_session_key plain_crypto [3] ?nonce ?key (cr_public plain_crypto [4])
      ''b-1'' 2 ''r-1'' 1 = Inr kw" and len: "length (as_bytes kw) = KEY_WRAP_BYTES"
    by (simp add: wrap_session_key_def plain_crypto_def Let_def byte_codec_def KEY_WRAP_BYTES_def
        del: length_as_bytes)
  let ?e = "relay_envelope kw"
  have f: "oe_binding_id ?e = ''b-1''" "oe_generation ?e = 2" "oe_request_id ?e = ''r-1''"
    "oe_sequence ?e = 1" "oe_key_wrap ?e = kw"
    by (simp_all add: relay_envelope_def local_envelope_def sample_envelope_def)
  have c: "be_crypto run_env = plain_crypto" by (simp add: run_env_def sample_env_def)
  have s: "seal plain_crypto ?key ?nonce (as_bytes ''data'') aad
      = Inr (?nonce, as_bytes ''data'', replicate 16 0)" for aad
    by (simp add: seal_def plain_crypto_def Let_def)
  have "oe_nonce ?e = encode_b64url plain_crypto ?nonce"
    "oe_ciphertext ?e = encode_b64url plain_crypto (as_bytes ''data'')"
    "oe_auth_tag ?e = encode_b64url plain_crypto (replicate 16 0)"
    by (simp_all add: relay_envelope_def)
  with w have "length ?nonce = 12 \<and> length ?nonce = 12 \<and>
      wrap_session_key plain_crypto [3] ?nonce ?key (cr_public plain_crypto [4]) ''b-1'' 2 ''r-1'' 1
        = Inr kw \<and>
      seal plain_crypto ?key ?nonce (as_bytes ''data'') (aad_for_outer (jc_to_vec (be_json run_env)) ?e)
        = Inr (?nonce, as_bytes ''data'', replicate 16 0) \<and>
      oe_nonce ?e = encode_b64url plain_crypto ?nonce \<and>
      oe_ciphertext ?e = encode_b64url plain_crypto (as_bytes ''data'') \<and>
      oe_auth_tag ?e = encode_b64url plain_crypto (replicate 16 0)"
    by (simp add: s)
  then have client: "client_sealed run_env [4] ?e ?key (as_bytes ''data'')"
    unfolding client_sealed_def c f by blast
  with len show ?thesis by blast
qed

lemma sample_relay_facts:
  "parse_strict_json (be_json run_env) (be_request run_env) (as_bytes ''data'') = Inr sample_request"
  "crypto_ok (be_crypto run_env)" "request_ok run_env (sv_config sample_supervisor) sample_request"
  "oe_sequence (relay_envelope kw) = 1"
  using plain_crypto_ok sample_request_ok
  by (simp_all add: parse_strict_json_def run_env_def sample_env_def sample_supervisor_def
      relay_envelope_def local_envelope_def)

theorem relay_request_accepted_witness:
  "\<exists>e sv' ex. prepare_remote_execution run_env sample_supervisor e [4] 1000 sample_persist False []
       = (sv', Inr (Running ex)) \<and> ex_request ex = sample_request \<and> sv_highest_remote sv' = 1"
proof -
  obtain kw where kw: "length (as_bytes kw) = KEY_WRAP_BYTES"
    "client_sealed run_env [4] (relay_envelope kw) (replicate 32 5) (as_bytes ''data'')"
    using sample_client by blast
  note facts = sample_relay_facts
  from relay_request_accepted [OF facts(2) kw(2) relay_envelope_valid [OF kw(1)] facts(1,3)
      relay_envelope_ready, of "[]"] facts(4) [of kw]
  show ?thesis by fastforce
qed

section \<open>Renewal failures\<close>

text \<open>The state after renewals failed at the given times, the earliest first.\<close>

definition renewal_failures :: "supervisor \<Rightarrow> u64 \<Rightarrow> u64 list \<Rightarrow> supervisor" where
  "renewal_failures sv grace ts = foldl (\<lambda>sv t. fst (mark_renewal_failed sv grace t)) sv ts"

definition in_grace :: "supervisor \<Rightarrow> u64 \<Rightarrow> bool" where
  "in_grace sv deadline \<longleftrightarrow> \<not> ls_revoked (sv_lease sv) \<and> ls_health (sv_lease sv) = RenewalGrace \<and>
     ls_grace_until (sv_lease sv) = Some deadline"

lemma grace_kept:
  assumes "in_grace sv d" "grace \<noteq> 0" "t < d" "t < ls_absolute_ttl_until (sv_lease sv)"
  shows "mark_renewal_failed sv grace t = (sv, Inr ())"
  using assms by (simp add: mark_renewal_failed_def in_grace_def is_some_and_def Let_def not_le)

lemma grace_fold:
  assumes "in_grace sv d" "grace \<noteq> 0"
    "\<forall>t \<in> set ts. t < d \<and> t < ls_absolute_ttl_until (sv_lease sv)"
  shows "renewal_failures sv grace ts = sv"
  using assms(3) by (induction ts) (simp_all add: renewal_failures_def grace_kept [OF assms(1,2)])

text \<open>Failed renewals have one grace period, counted from the first failure.  However often the
  renewal fails before the deadline, the deadline stays where the first failure put it and no
  permit is issued; the first failure seen at or after the deadline revokes the lease and cancels
  the executions.\<close>

theorem one_grace_period:
  assumes "\<not> ls_revoked (sv_lease sv)" and "ls_health (sv_lease sv) = Healthy" and "grace \<noteq> 0"
    and "first < ls_absolute_ttl_until (sv_lease sv)"
    and "\<forall>t \<in> set later. t < sat_add first grace \<and> t < ls_absolute_ttl_until (sv_lease sv)"
  shows "let sv' = renewal_failures sv grace (first # later) in
    ls_grace_until (sv_lease sv') = Some (sat_add first grace) \<and> sv_cancelled sv' = sv_cancelled sv \<and>
    (\<forall>now. lease_admit (sv_lease sv') now default_lease_policy \<noteq> Allowed) \<and>
    (\<forall>now \<ge> sat_add first grace. \<exists>sv''.
       mark_renewal_failed sv' grace now = (sv'', Inl bridge_error.LeaseExpired) \<and>
       ls_revoked (sv_lease sv'') \<and> sv_cancelled sv'')"
proof -
  let ?d = "sat_add first grace"
  define sv1 where "sv1 = sv\<lparr>sv_lease := (sv_lease sv)\<lparr>ls_health := RenewalGrace,
      ls_grace_until := Some ?d\<rparr>\<rparr>"
  have "first < - 1" using assms(4) by (rule less_le_trans) simp
  then have "first < ?d"
    using assms(3) unat_sat_add [of first grace] unat_max_word [where ?'w = 64]
    by (auto simp: word_less_nat_alt min_def unat_eq_zero [symmetric] split: if_splits)
  then have first: "mark_renewal_failed sv grace first = (sv1, Inr ())"
    using assms(1-4) by (simp add: mark_renewal_failed_def sv1_def is_some_and_def Let_def not_le)
  have g: "in_grace sv1 ?d" using assms(1) by (simp add: in_grace_def sv1_def)
  have "renewal_failures sv1 grace later = sv1"
    by (rule grace_fold [OF g assms(3)]) (use assms(5) in \<open>simp add: sv1_def\<close>)
  then have all: "renewal_failures sv grace (first # later) = sv1"
    by (simp add: renewal_failures_def first)
  have "\<exists>sv''. mark_renewal_failed sv1 grace now = (sv'', Inl bridge_error.LeaseExpired) \<and>
      ls_revoked (sv_lease sv'') \<and> sv_cancelled sv''" if "?d \<le> now" for now
    using that g assms(3)
    by (auto simp: mark_renewal_failed_def in_grace_def is_some_and_def Let_def lease_revoke_def)
  moreover have "lease_admit (sv_lease sv1) now default_lease_policy \<noteq> Allowed" for now
    by (simp add: lease_admit_def sv1_def)
  ultimately show ?thesis by (simp add: all Let_def) (simp add: sv1_def)
qed

theorem one_grace_period_witness:
  "ls_grace_until (sv_lease (renewal_failures sample_supervisor 10 [1040, 1041, 1045])) = Some 1050 \<and>
   lease_admit (sv_lease (renewal_failures sample_supervisor 10 [1040, 1041, 1045])) 1046
     default_lease_policy \<noteq> Allowed"
proof -
  have "\<not> ls_revoked (sv_lease sample_supervisor)" "ls_health (sv_lease sample_supervisor) = Healthy"
    "ls_absolute_ttl_until (sv_lease sample_supervisor) = 29800"
    by (simp_all add: sample_supervisor_def lease_new_def default_lease_policy_def sat_add_def)
  then show ?thesis
    using one_grace_period [of sample_supervisor 10 1040 "[1041, 1045]"]
    by (simp add: Let_def sat_add_def)
qed

section \<open>Cancelling one request\<close>

text \<open>A relay cancellation stops the request it names and nothing else.  It takes effect only when
  its ciphertext opens under the session key of that very request, it then sets that request's
  flag and changes no other part of the state, and in every other case it changes nothing.\<close>

theorem cancel_hits_one_request:
  assumes "cancel_remote_request env sv e = (sv', r)"
  shows "(if r = Inr True
     then \<exists>active plaintext. sv_active_remote sv (key_from_envelope e) = Some active \<and>
       open_payload env (ar_session_key active) e = Inr plaintext \<and>
       oe_generation e = ls_generation (sv_lease sv) \<and> \<not> ls_revoked (sv_lease sv) \<and>
       sv' = sv\<lparr>sv_active_remote := (sv_active_remote sv)
         (key_from_envelope e \<mapsto> active\<lparr>ar_cancelled := True\<rparr>)\<rparr>
     else sv' = sv) \<and>
    (r = Inr False \<longleftrightarrow> envelope_valid env e = Inr () \<and>
       oe_message_type e = outer_message_type.Cancel \<and> oe_direction e = Request \<and>
       oe_key_wrap e = [] \<and> oe_binding_id e = bc_binding_id (sv_config sv) \<and>
       oe_generation e = ls_generation (sv_lease sv) \<and> \<not> ls_revoked (sv_lease sv) \<and>
       sv_active_remote sv (key_from_envelope e) = None)"
  using assms
  by (auto simp: cancel_remote_request_def bind_r_Inr_iff split: sum.splits option.splits if_splits)

text \<open>The witness cancels an active request of the sample bridge.\<close>

definition sample_cancel :: inner_cancel_request where
  "sample_cancel = \<lparr>icr_protocol = INNER_PROTOCOL_VERSION,
     icr_message_type = inner_message_type.Cancel, icr_request_id = ''r-1'', icr_sequence = 1\<rparr>"

theorem cancel_hits_one_request_witness:
  "let env = run_env\<lparr>be_cancel := (\<lambda>_. Inr sample_cancel)\<rparr>;
       e = local_envelope\<lparr>oe_message_type := outer_message_type.Cancel\<rparr>;
       active = \<lparr>ar_cancelled = False, ar_session_key = [1]\<rparr>;
       sv = sample_supervisor\<lparr>sv_active_remote := [key_from_envelope e \<mapsto> active]\<rparr>
   in cancel_remote_request env sv e = (sv\<lparr>sv_active_remote := (sv_active_remote sv)
         (key_from_envelope e \<mapsto> active\<lparr>ar_cancelled := True\<rparr>)\<rparr>, Inr True)"
proof -
  define env where "env = run_env\<lparr>be_cancel := (\<lambda>_. Inr sample_cancel)\<rparr>"
  define e where "e = local_envelope\<lparr>oe_message_type := outer_message_type.Cancel\<rparr>"
  define active :: active_remote_request where "active = \<lparr>ar_cancelled = False, ar_session_key = [1]\<rparr>"
  define sv where "sv = sample_supervisor\<lparr>sv_active_remote := [key_from_envelope e \<mapsto> active]\<rparr>"
  have c: "cr_b64 (be_crypto env) = byte_codec"
    by (simp add: env_def run_env_def sample_env_def plain_crypto_def)
  have "as_bytes ''data'' \<noteq> []" "as_bytes [] = []" by (simp_all add: as_bytes_def)
  with c have v: "envelope_valid env e = Inr ()"
    by (simp add: envelope_valid_def envelope_validate_def byte_decode sample_envelope_def e_def
        local_envelope_def valid_text_id_def printable_def MAX_FRAME_BYTES_def)
      (simp add: env_def run_env_def sample_env_def)
  have o: "open_payload env [1] e = Inr (as_bytes ''data'')"
    by (simp add: open_payload_def decoded_payload_def env_def run_env_def sample_env_def
        plain_crypto_def byte_decode e_def local_envelope_def sample_envelope_def open_sealed_def)
  have p: "parse_strict_json (be_json env) (be_cancel env) (as_bytes ''data'') = Inr sample_cancel"
    by (simp add: parse_strict_json_def env_def run_env_def sample_env_def)
  have ok: "cancel_validate sample_cancel = Inr ()"
    by (simp add: cancel_validate_def sample_cancel_def valid_text_id_def printable_def)
  have "\<exists>sv'. cancel_remote_request env sv e = (sv', Inr True)"
    by (simp add: cancel_remote_request_def v o p ok sv_def active_def)
      (simp add: e_def local_envelope_def sample_envelope_def sample_supervisor_def lease_new_def
        sample_config_fields sample_cancel_def)
  then obtain sv' where r: "cancel_remote_request env sv e = (sv', Inr True)" by blast
  have "sv_active_remote sv (key_from_envelope e) = Some active" by (simp add: sv_def)
  with cancel_hits_one_request [OF r] r show ?thesis
    unfolding Let_def env_def [symmetric] e_def [symmetric] active_def [symmetric] sv_def [symmetric]
    by simp
qed

end
