(* ===== verification/Relay_Session.thy ===== *)
theory Relay_Session
  imports Supervisor_Properties
begin

text \<open>
  The relay session of \<open>crates/local-bridge/src/relay_session.rs\<close>: one round of the loop of
  \<open>run_relay_session\<close> is a function from the session's state and the event that the \<open>select!\<close>
  delivers, and \<open>cancel_and_reap\<close> ends a session.  A session is shown to be a run of the supervisor
  in the sense of \<open>Supervisor_Steps\<close>, so that everything proved of those runs holds while a relay is
  connected.
\<close>

section \<open>State and events\<close>

text \<open>The tasks pushed into \<open>FuturesUnordered\<close>, the newest first.\<close>

record session =
  rl_sv :: supervisor
  rl_pending :: "remote_execution list"

definition runnings :: "remote_execution list \<Rightarrow> execution list" where
  "runnings pending = concat (map (\<lambda>t. case t of Running ex \<Rightarrow> [ex] | Ready _ \<Rightarrow> []) pending)"

text \<open>What a round of the loop meets: a task that finished (with the outcome of its process, its
  duration, the nonce for its response, and whether a cancellation arrives before the response is
  written), a task that was lost, a change of the cancellation flag, or something on the socket.
  \<open>sent\<close> says whether a write to the socket succeeds.  The arguments of
  a binary frame are what \<open>prepare_remote_execution\<close> draws on.\<close>

datatype relay_event =
  TaskDone remote_execution outcome u64 bytes bool bool
| TaskPanics remote_execution
| CancelSignal
| BinaryFrame bytes bytes u64 persist_answers bool bytes
| PingFrame bool
| PongFrame
| SocketGone
| OtherFrame

datatype relay_outcome = Disconnected | Shutdown

datatype round_result = Continue session | Ended "bridge_error + relay_outcome" supervisor

section \<open>One round\<close>

text \<open>After the cancellation every task runs to its end and its response is thrown away; what remains
  of it is that its lock is dropped.\<close>

definition drop_task :: "remote_execution \<Rightarrow> supervisor \<Rightarrow> supervisor" where
  "drop_task t sv = (case t of
      Running ex \<Rightarrow> sv\<lparr>sv_scheduler := guard_drop (sv_scheduler sv) (ex_guard ex)\<rparr>
    | Ready _ \<Rightarrow> sv)"

definition cancel_and_reap :: "session \<Rightarrow> supervisor" where
  "cancel_and_reap s = clear_remote_requests (fold drop_task (rl_pending s) (cancel (rl_sv s)))"

text \<open>The response of a finished task.\<close>

definition task_response ::
  "bridge_env \<Rightarrow> supervisor \<Rightarrow> remote_execution \<Rightarrow> outcome \<Rightarrow> u64 \<Rightarrow> bytes \<Rightarrow>
     supervisor \<times> (bridge_error + outer_envelope)" where
  "task_response env sv t oc duration nonce = (case t of
      Ready response \<Rightarrow> (sv, Inr response)
    | Running ex \<Rightarrow> finish_execution env sv ex oc duration nonce)"

definition take_frame ::
  "bridge_env \<Rightarrow> (json \<Rightarrow> string + outer_envelope) \<Rightarrow> bytes \<Rightarrow> bridge_error + outer_envelope" where
  "take_frame env from_json content =
     (if length content > MAX_FRAME_BYTES then Inl (ProtocolMessage ''relay frame is too large'')
      else
        bind_r (map_err (\<lambda>e. ProtocolMessage (strict_error_text e))
          (parse_strict_json (be_json env) from_json content)) (\<lambda>e.
        bind_r (envelope_valid env e) (\<lambda>_.
          if oe_direction e \<noteq> Request then Inl (ProtocolMessage ''invalid relay request envelope'')
          else Inr e)))"

definition relay_round ::
  "bridge_env \<Rightarrow> (json \<Rightarrow> string + outer_envelope) \<Rightarrow> session \<Rightarrow> relay_event \<Rightarrow> round_result" where
  "relay_round env from_json s ev =
     (let sv = rl_sv s; pending = rl_pending s;
          maximum = bc_max_parallel_requests (sv_config sv) + 1
      in
      if sv_cancelled sv then Ended (Inr Disconnected) (cancel_and_reap s)
      else case ev of
        TaskDone t oc duration nonce late sent \<Rightarrow>
          let (sv, result) = task_response env sv t oc duration nonce;
              rest = \<lparr>rl_sv = sv, rl_pending = remove1 t pending\<rparr>
          in (case result of
                Inl error \<Rightarrow> Ended (Inl error) (cancel_and_reap rest)
              | Inr response \<Rightarrow>
                  if late
                  then Ended (Inr Disconnected) (cancel_and_reap (rest\<lparr>rl_sv := cancel sv\<rparr>))
                  else if \<not> sent
                  then Ended (Inl (ProtocolMessage ''relay response send failed'')) (cancel_and_reap rest)
                  else Continue (rest\<lparr>rl_sv := finish_remote_request sv response\<rparr>))
      | TaskPanics t \<Rightarrow>
          Ended (Inl (ProtocolMessage ''relay execution task failed''))
            (cancel_and_reap \<lparr>rl_sv = drop_task t sv, rl_pending = remove1 t pending\<rparr>)
      | CancelSignal \<Rightarrow> Continue s
      | BinaryFrame content secret now_seconds answers late nonce \<Rightarrow>
          (case take_frame env from_json content of
             Inl error \<Rightarrow> Ended (Inl error) (cancel_and_reap s)
           | Inr e \<Rightarrow>
               if oe_message_type e = outer_message_type.Cancel
               then (case cancel_remote_request env sv e of
                       (sv, Inl error) \<Rightarrow> Ended (Inl error) (cancel_and_reap (s\<lparr>rl_sv := sv\<rparr>))
                     | (sv, Inr _) \<Rightarrow> Continue (s\<lparr>rl_sv := sv\<rparr>))
               else if oe_message_type e \<noteq> outer_message_type.Execute
               then Ended (Inl (ProtocolMessage ''invalid relay request envelope'')) (cancel_and_reap s)
               else if length pending \<ge> maximum
               then Ended (Inl (ProtocolMessage ''relay exceeded its bounded request window''))
                      (cancel_and_reap s)
               else (case prepare_remote_execution env sv e secret now_seconds answers late nonce of
                       (sv, Inl error) \<Rightarrow> Ended (Inl error) (cancel_and_reap (s\<lparr>rl_sv := sv\<rparr>))
                     | (sv, Inr task) \<Rightarrow>
                         Continue \<lparr>rl_sv = sv, rl_pending = task # pending\<rparr>))
      | PingFrame sent \<Rightarrow>
          if sent then Continue s
          else Ended (Inl (ProtocolMessage ''relay pong failed'')) (cancel_and_reap s)
      | PongFrame \<Rightarrow> Continue s
      | SocketGone \<Rightarrow> Ended (Inr Disconnected) (cancel_and_reap s)
      | OtherFrame \<Rightarrow>
          Ended (Inl (ProtocolMessage ''relay message must be binary'')) (cancel_and_reap s))"

text \<open>A task that finishes or is lost is one of the pending ones.\<close>

definition event_ok :: "session \<Rightarrow> relay_event \<Rightarrow> bool" where
  "event_ok s ev = (case ev of
      TaskDone t _ _ _ _ _ \<Rightarrow> t \<in> set (rl_pending s) | TaskPanics t \<Rightarrow> t \<in> set (rl_pending s)
    | _ \<Rightarrow> True)"

text \<open>A session in its surroundings: its rounds, and the control operations of the other tasks of the
  process (lease observer, device peer, monitor) in between.\<close>

inductive relay_run ::
  "bridge_env \<Rightarrow> (json \<Rightarrow> string + outer_envelope) \<Rightarrow> session \<Rightarrow> session \<Rightarrow> bool"
  for env :: bridge_env and from_json :: "json \<Rightarrow> string + outer_envelope" and s0 :: session where
  connected: "relay_run env from_json s0 s0"
| round: "relay_run env from_json s0 s \<Longrightarrow> event_ok s ev \<Longrightarrow> relay_round env from_json s ev = Continue t \<Longrightarrow>
     relay_run env from_json s0 t"
| other: "relay_run env from_json s0 s \<Longrightarrow>
     relay_run env from_json s0 (s\<lparr>rl_sv := control_step env (rl_sv s) op\<rparr>)"

section \<open>A session is a run of the supervisor\<close>

definition bridge_of :: "session \<Rightarrow> bridge_state" where
  "bridge_of s = \<lparr>bs_sv = rl_sv s, bs_running = runnings (rl_pending s)\<rparr>"

lemma runnings_simps [simp]:
  "runnings [] = []" "runnings (Running ex # ts) = ex # runnings ts"
  "runnings (Ready e # ts) = runnings ts"
  by (simp_all add: runnings_def)

lemma runnings_remove1:
  "runnings (remove1 (Running ex) ts) = remove1 ex (runnings ts)"
  "runnings (remove1 (Ready e) ts) = runnings ts"
  by (induction ts) (auto simp: runnings_def split: remote_execution.splits)

lemma runnings_mem: "Running ex \<in> set ts \<Longrightarrow> ex \<in> set (runnings ts)"
  by (force simp: runnings_def)

lemma bridge_run_trans:
  "bridge_run env t evs' u \<Longrightarrow> bridge_run env s evs t \<Longrightarrow> \<exists>evs. bridge_run env s evs u"
  by (induction rule: bridge_run.induct) (auto intro: bridge_run.step)

lemma bridge_run_one: "bridge_step env s ev t \<Longrightarrow> \<exists>evs. bridge_run env s evs t"
  by (blast intro: bridge_run.intros)

lemma control_run:
  "\<exists>evs. bridge_run env \<lparr>bs_sv = sv, bs_running = r\<rparr> evs \<lparr>bs_sv = control_step env sv op, bs_running = r\<rparr>"
  using bridge_run_one [OF bridge_step.control, of env "\<lparr>bs_sv = sv, bs_running = r\<rparr>" op] by simp

lemma finish_run:
  assumes "Running ex \<in> set ts"
  shows "\<exists>evs. bridge_run env \<lparr>bs_sv = sv, bs_running = runnings ts\<rparr> evs
    \<lparr>bs_sv = sv\<lparr>sv_scheduler := guard_drop (sv_scheduler sv) (ex_guard ex)\<rparr>,
     bs_running = runnings (remove1 (Running ex) ts)\<rparr>"
proof -
  let ?oc = "\<lparr>oc_status = Cancelled, oc_exit_code = None, oc_stdout = [], oc_stderr = [],
    oc_artifacts = []\<rparr>"
  let ?s = "\<lparr>bs_sv = sv, bs_running = runnings ts\<rparr>"
  obtain r where "finish_execution env (bs_sv ?s) ex ?oc 0 [] =
      (sv\<lparr>sv_scheduler := guard_drop (sv_scheduler sv) (ex_guard ex)\<rparr>, r)"
    by (simp add: finish_execution_def)
  from bridge_step.finish [OF _ this] runnings_mem [OF assms]
  have "bridge_step env ?s (Finished ex)
     (?s\<lparr>bs_sv := sv\<lparr>sv_scheduler := guard_drop (sv_scheduler sv) (ex_guard ex)\<rparr>,
         bs_running := remove1 ex (bs_running ?s)\<rparr>)" by simp
  from bridge_run_one [OF this] show ?thesis by (simp add: runnings_remove1)
qed

lemma drop_task_run:
  assumes "t \<in> set ts"
  shows "\<exists>evs. bridge_run env \<lparr>bs_sv = sv, bs_running = runnings ts\<rparr> evs
    \<lparr>bs_sv = drop_task t sv, bs_running = runnings (remove1 t ts)\<rparr>"
proof (cases t)
  case (Ready e)
  then show ?thesis by (auto simp: drop_task_def runnings_remove1 intro: bridge_run.initial)
next
  case (Running ex)
  with assms finish_run [of ex ts env sv] show ?thesis by (simp add: drop_task_def)
qed

lemma drop_tasks_run:
  "\<exists>evs. bridge_run env \<lparr>bs_sv = sv, bs_running = runnings ts\<rparr> evs
     \<lparr>bs_sv = fold drop_task ts sv, bs_running = []\<rparr>"
proof (induction ts arbitrary: sv)
  case Nil
  then show ?case by (auto intro: bridge_run.initial)
next
  case (Cons t ts)
  from drop_task_run [of t "t # ts" env sv] Cons.IH [of "drop_task t sv"] show ?case
    by simp (blast intro: bridge_run_trans)
qed

lemma reap_run: "\<exists>evs. bridge_run env (bridge_of s) evs \<lparr>bs_sv = cancel_and_reap s, bs_running = []\<rparr>"
proof -
  obtain a where a: "bridge_run env (bridge_of s) a
      \<lparr>bs_sv = cancel (rl_sv s), bs_running = runnings (rl_pending s)\<rparr>"
    using control_run [of env "rl_sv s" "runnings (rl_pending s)" Cancellation]
    by (auto simp: bridge_of_def)
  obtain b where b: "bridge_run env \<lparr>bs_sv = cancel (rl_sv s), bs_running = runnings (rl_pending s)\<rparr> b
      \<lparr>bs_sv = fold drop_task (rl_pending s) (cancel (rl_sv s)), bs_running = []\<rparr>"
    using drop_tasks_run by blast
  obtain c where "bridge_run env \<lparr>bs_sv = fold drop_task (rl_pending s) (cancel (rl_sv s)), bs_running = []\<rparr> c
      \<lparr>bs_sv = cancel_and_reap s, bs_running = []\<rparr>"
    using control_run [of env _ "[]" ClearRemote] by (auto simp: cancel_and_reap_def)
  from bridge_run_trans [OF this] bridge_run_trans [OF b a] show ?thesis by blast
qed

lemma task_response_run:
  assumes "t \<in> set ts" "task_response env sv t oc duration nonce = (sv', r)"
  shows "\<exists>evs. bridge_run env \<lparr>bs_sv = sv, bs_running = runnings ts\<rparr> evs
    \<lparr>bs_sv = sv', bs_running = runnings (remove1 t ts)\<rparr>"
proof -
  have "sv' = drop_task t sv"
    using assms(2) by (auto simp: task_response_def drop_task_def finish_execution_def
        split: remote_execution.splits)
  with drop_task_run [OF assms(1)] show ?thesis by simp
qed

lemma prepare_run:
  assumes "prepare_remote_execution env sv e secret now answers late nonce = (sv', r)"
  shows "\<exists>evs. bridge_run env \<lparr>bs_sv = sv, bs_running = runnings ts\<rparr> evs
    \<lparr>bs_sv = sv', bs_running = (case r of Inr t \<Rightarrow> runnings (t # ts) | Inl _ \<Rightarrow> runnings ts)\<rparr>"
proof -
  let ?s = "\<lparr>bs_sv = sv, bs_running = runnings ts\<rparr>"
  note r = assms [folded bridge_state.select_convs(1) [of sv "runnings ts"]]
  show ?thesis
  proof (cases r)
    case (Inl err)
    with bridge_run_one [OF bridge_step.remote_refused, of env ?s] r show ?thesis by fastforce
  next
    case (Inr t)
    then show ?thesis
    proof (cases t)
      case (Ready response)
      with Inr bridge_run_one [OF bridge_step.remote_answered, of env ?s] r show ?thesis by fastforce
    next
      case (Running ex)
      with Inr bridge_run_one [OF bridge_step.remote, of env ?s] r show ?thesis by fastforce
    qed
  qed
qed

lemma cancel_run:
  assumes "cancel_remote_request env sv e = (sv', r)"
  shows "\<exists>evs. bridge_run env \<lparr>bs_sv = sv, bs_running = ex\<rparr> evs \<lparr>bs_sv = sv', bs_running = ex\<rparr>"
  using control_run [of env sv ex "CancelRemote e"] assms by simp

text \<open>Each round, whether the session goes on or ends.\<close>

definition round_state :: "round_result \<Rightarrow> bridge_state" where
  "round_state r = (case r of
      Continue t \<Rightarrow> bridge_of t | Ended _ sv \<Rightarrow> \<lparr>bs_sv = sv, bs_running = []\<rparr>)"

lemma round_state_simps [simp]:
  "round_state (Continue t) = bridge_of t" "round_state (Ended r sv) = \<lparr>bs_sv = sv, bs_running = []\<rparr>"
  by (simp_all add: round_state_def)

lemma reap_after:
  assumes "\<exists>evs. bridge_run env (bridge_of s) evs (bridge_of t)"
  shows "\<exists>evs. bridge_run env (bridge_of s) evs \<lparr>bs_sv = cancel_and_reap t, bs_running = []\<rparr>"
  using assms reap_run [of env t] by (blast intro: bridge_run_trans)

lemma task_done_run:
  assumes "t \<in> set (rl_pending s)" "\<not> sv_cancelled (rl_sv s)"
  shows "\<exists>evs. bridge_run env (bridge_of s) evs
    (round_state (relay_round env from_json s (TaskDone t oc duration nonce late sent)))"
proof -
  obtain sv r where tr: "task_response env (rl_sv s) t oc duration nonce = (sv, r)"
    by (cases "task_response env (rl_sv s) t oc duration nonce")
  let ?rest = "\<lparr>rl_sv = sv, rl_pending = remove1 t (rl_pending s)\<rparr>"
  have finished: "\<exists>evs. bridge_run env (bridge_of s) evs (bridge_of ?rest)"
    using task_response_run [OF assms(1) tr] by (simp add: bridge_of_def)
  have step: "\<exists>evs. bridge_run env (bridge_of s) evs
      (bridge_of (?rest\<lparr>rl_sv := control_step env sv op\<rparr>))" for op
    using finished control_run [of env sv "runnings (remove1 t (rl_pending s))" op]
    by (auto simp: bridge_of_def intro: bridge_run_trans)
  show ?thesis
  proof (cases r)
    case (Inl e)
    with reap_after [OF finished] tr assms(2) show ?thesis by (simp add: relay_round_def Let_def)
  next
    case (Inr response)
    with reap_after [OF finished] reap_after [OF step [of Cancellation]] step [of "FinishRemote response"]
      tr assms(2) show ?thesis
      by (simp add: relay_round_def Let_def)
  qed
qed

lemma frame_run:
  assumes "\<not> sv_cancelled (rl_sv s)"
  shows "\<exists>evs. bridge_run env (bridge_of s) evs
    (round_state (relay_round env from_json s (BinaryFrame content secret now answers late nonce)))"
proof (cases "take_frame env from_json content")
  case (Inl e)
  with reap_run [of env s] assms show ?thesis by (simp add: relay_round_def Let_def)
next
  case (Inr e)
  obtain sv1 r1 where c: "cancel_remote_request env (rl_sv s) e = (sv1, r1)"
    by (cases "cancel_remote_request env (rl_sv s) e")
  obtain sv2 r2 where p: "prepare_remote_execution env (rl_sv s) e secret now answers late nonce = (sv2, r2)"
    by (cases "prepare_remote_execution env (rl_sv s) e secret now answers late nonce")
  have c1: "\<exists>evs. bridge_run env (bridge_of s) evs (bridge_of (s\<lparr>rl_sv := sv1\<rparr>))"
    using cancel_run [OF c] by (simp add: bridge_of_def)
  have p2: "\<exists>evs. bridge_run env (bridge_of s) evs
      \<lparr>bs_sv = sv2, bs_running = (case r2 of Inr t \<Rightarrow> runnings (t # rl_pending s)
         | Inl _ \<Rightarrow> runnings (rl_pending s))\<rparr>"
    using prepare_run [OF p, of "rl_pending s"] by (simp add: bridge_of_def)
  have p3: "r2 = Inl x \<Longrightarrow> \<exists>evs. bridge_run env (bridge_of s) evs (bridge_of (s\<lparr>rl_sv := sv2\<rparr>))" for x
    using p2 by (simp add: bridge_of_def)
  have p4: "r2 = Inr t \<Longrightarrow> \<exists>evs. bridge_run env (bridge_of s) evs
      (bridge_of \<lparr>rl_sv = sv2, rl_pending = t # rl_pending s\<rparr>)" for t
    using p2 by (simp add: bridge_of_def)
  show ?thesis
    using Inr c p assms reap_run [of env s] c1 reap_after [OF c1] p4 reap_after [OF p3]
    by (cases r1; cases r2) (simp_all add: relay_round_def Let_def)
qed

lemma relay_round_run:
  assumes "event_ok s ev"
  shows "\<exists>evs. bridge_run env (bridge_of s) evs (round_state (relay_round env from_json s ev))"
proof (cases "sv_cancelled (rl_sv s)")
  case True
  with reap_run [of env s] show ?thesis by (simp add: relay_round_def Let_def)
next
  case False
  have stay: "\<exists>evs. bridge_run env (bridge_of s) evs (bridge_of s)" by (blast intro: bridge_run.initial)
  show ?thesis
  proof (cases ev)
    case (TaskDone t oc duration nonce late sent)
    with assms False task_done_run show ?thesis by (simp add: event_ok_def)
  next
    case (TaskPanics t)
    with assms have "t \<in> set (rl_pending s)" by (simp add: event_ok_def)
    from drop_task_run [OF this, of env "rl_sv s"]
    have "\<exists>evs. bridge_run env (bridge_of s) evs
        (bridge_of \<lparr>rl_sv = drop_task t (rl_sv s), rl_pending = remove1 t (rl_pending s)\<rparr>)"
      by (simp add: bridge_of_def)
    from reap_after [OF this] TaskPanics False show ?thesis by (simp add: relay_round_def Let_def)
  next
    case (BinaryFrame content secret now answers late nonce)
    with False frame_run show ?thesis by simp
  next
    case (PingFrame sent)
    with False stay reap_run [of env s] show ?thesis by (simp add: relay_round_def Let_def)
  qed (use False stay reap_run [of env s] in \<open>simp_all add: relay_round_def Let_def\<close>)
qed

lemma relay_run_refines:
  assumes "relay_run env from_json s0 s"
  shows "\<exists>evs. bridge_run env (bridge_of s0) evs (bridge_of s)"
  using assms
proof (induction rule: relay_run.induct)
  case connected
  show ?case by (blast intro: bridge_run.initial)
next
  case (round s ev t)
  with relay_round_run [OF round(2), of env from_json] show ?case
    by (auto intro: bridge_run_trans)
next
  case (other s op)
  then show ?case
    using control_run [of env "rl_sv s" "runnings (rl_pending s)" op]
    by (auto simp: bridge_of_def intro: bridge_run_trans)
qed

section \<open>Properties\<close>

text \<open>C14: a relay session refines the supervisor: whatever frames, task ends and control operations a
  session meets, the supervisor inside it moves by a run of the supervisor's own transition system,
  also when the session is ended.  Every invariant of those runs (one execution at a time, single
  use of sequence numbers, finality of a revocation) therefore holds during a session.\<close>

theorem session_refines_supervisor:
  assumes "relay_run env from_json s0 s" and "event_ok s ev"
  shows "(\<exists>evs. bridge_run env (bridge_of s0) evs (bridge_of s)) \<and>
    (\<exists>evs. bridge_run env (bridge_of s0) evs (round_state (relay_round env from_json s ev)))"
  using relay_run_refines [OF assms(1)] relay_round_run [OF assms(2), of env from_json]
  by (blast intro: bridge_run_trans)

text \<open>When a relay session ends, for whatever reason, nothing of it stays behind: the bridge admits
  nothing until it is resumed, no request key is kept, no execution is alive and every lock is
  free.\<close>

theorem session_end_leaves_idle:
  assumes "supervisor_new env config root answers ledger now = Inr sv"
    and "bridge_run env (fresh_bridge sv) before (bridge_of s0)"
    and "relay_run env from_json s0 s" and "event_ok s ev"
    and "relay_round env from_json s ev = Ended r sv'"
  shows "sv_cancelled sv' \<and> sv_active_remote sv' = Map.empty \<and>
    active_count (sv_scheduler sv') = 0 \<and> sch_keys (sv_scheduler sv') = {} \<and>
    \<not> sch_binding_held (sv_scheduler sv')"
proof -
  obtain evs where "bridge_run env (bridge_of s0) evs \<lparr>bs_sv = sv', bs_running = []\<rparr>"
    using relay_run_refines [OF assms(3)] relay_round_run [OF assms(4), of env from_json] assms(5)
    by (auto dest: bridge_run_trans)
  with bridge_run_trans [OF this assms(2)] obtain evs' where
    "bridge_run env (fresh_bridge sv) evs' \<lparr>bs_sv = sv', bs_running = []\<rparr>" by blast
  from lock_inv_run [OF this fresh_lock_inv [OF assms(1)]]
  have "sch_inv (sv_scheduler sv') []" by (simp add: lock_inv_def)
  moreover have "\<exists>t. sv' = cancel_and_reap t"
    using assms(5)
    by (auto simp: relay_round_def Let_def split: if_splits relay_event.splits prod.splits sum.splits)
  moreover have "sv_cancelled (fold drop_task ts sv) = sv_cancelled sv" for ts sv
    by (induction ts arbitrary: sv) (auto simp: drop_task_def split: remote_execution.splits)
  ultimately show ?thesis
    by (auto simp: cancel_and_reap_def clear_remote_requests_def cancel_def sch_inv_def active_count_def)
qed

text \<open>The witnesses admit a relay request in a session and then lose the socket.\<close>

lemma sample_session:
  "\<exists>s ex. relay_run run_env (\<lambda>_. Inr (relay_envelope kw))
       \<lparr>rl_sv = sample_supervisor, rl_pending = []\<rparr> s \<and>
     rl_pending s = [Running ex] \<and> ex_request ex = sample_request \<and> \<not> sv_cancelled (rl_sv s)"
  if kw: "length (as_bytes kw) = KEY_WRAP_BYTES"
    "client_sealed run_env [4] (relay_envelope kw) (replicate 32 5) (as_bytes ''data'')" for kw
proof -
  let ?e = "relay_envelope kw" and ?s0 = "\<lparr>rl_sv = sample_supervisor, rl_pending = []\<rparr>"
  obtain sv ex where p: "prepare_remote_execution run_env sample_supervisor ?e [4] 1000 sample_persist
      False [] = (sv, Inr (Running ex))" and ex: "ex_request ex = sample_request"
    using relay_accepts [OF sample_relay_facts(2) kw(2) relay_envelope_valid [OF kw(1)]
      sample_relay_facts(1,3) relay_envelope_ready, of "[]"] by blast
  have open0: "\<not> sv_cancelled sample_supervisor" by (simp add: sample_supervisor_def)
  have "sv_cancelled sv = sv_cancelled sample_supervisor"
    using p open0
    by (auto simp: prepare_remote_execution_def reserve_remote_sequence_def answer_status_def Let_def
        split: sum.splits prod.splits if_splits option.splits)
  then have c: "\<not> sv_cancelled sv" using open0 by simp
  have t: "take_frame run_env (\<lambda>_. Inr ?e) [] = Inr ?e"
    using relay_envelope_valid(1) [OF kw(1)]
    by (simp add: take_frame_def parse_strict_json_def run_env_def sample_env_def relay_envelope_def
        local_envelope_def sample_envelope_def)
  have m: "oe_message_type ?e = outer_message_type.Execute"
    by (simp add: relay_envelope_def local_envelope_def sample_envelope_def)
  have "relay_round run_env (\<lambda>_. Inr ?e) ?s0 (BinaryFrame [] [4] 1000 sample_persist False [])
      = Continue \<lparr>rl_sv = sv, rl_pending = [Running ex]\<rparr>"
    using open0 by (simp add: relay_round_def t m p Let_def)
  then have "relay_run run_env (\<lambda>_. Inr ?e) ?s0 \<lparr>rl_sv = sv, rl_pending = [Running ex]\<rparr>"
    by (intro relay_run.round [OF relay_run.connected]) (simp_all add: event_ok_def)
  with ex c show ?thesis
    by - (rule exI [of _ "\<lparr>rl_sv = sv, rl_pending = [Running ex]\<rparr>"], rule exI [of _ ex], simp)
qed

theorem session_refines_supervisor_witness:
  "\<exists>from_json s ex evs. rl_pending s = [Running ex] \<and>
     relay_run run_env from_json \<lparr>rl_sv = sample_supervisor, rl_pending = []\<rparr> s \<and>
     bridge_run run_env (bridge_of \<lparr>rl_sv = sample_supervisor, rl_pending = []\<rparr>) evs
       (round_state (relay_round run_env from_json s SocketGone))"
proof -
  obtain kw where kw: "length (as_bytes kw) = KEY_WRAP_BYTES"
    "client_sealed run_env [4] (relay_envelope kw) (replicate 32 5) (as_bytes ''data'')"
    using sample_client by blast
  obtain s ex where run: "relay_run run_env (\<lambda>_. Inr (relay_envelope kw))
      \<lparr>rl_sv = sample_supervisor, rl_pending = []\<rparr> s" and p: "rl_pending s = [Running ex]"
    using sample_session [OF kw] by blast
  have "event_ok s SocketGone" by (simp add: event_ok_def)
  from session_refines_supervisor [OF run this] run p show ?thesis by blast
qed

theorem session_end_leaves_idle_witness:
  "\<exists>from_json s ex r sv. rl_pending s = [Running ex] \<and>
     relay_run run_env from_json \<lparr>rl_sv = sample_supervisor, rl_pending = []\<rparr> s \<and>
     relay_round run_env from_json s SocketGone = Ended r sv \<and>
     active_count (sv_scheduler sv) = 0 \<and> sv_active_remote sv = Map.empty"
proof -
  obtain kw where kw: "length (as_bytes kw) = KEY_WRAP_BYTES"
    "client_sealed run_env [4] (relay_envelope kw) (replicate 32 5) (as_bytes ''data'')"
    using sample_client by blast
  let ?j = "\<lambda>_. Inr (relay_envelope kw)"
  obtain s ex where run: "relay_run run_env ?j \<lparr>rl_sv = sample_supervisor, rl_pending = []\<rparr> s"
    and p: "rl_pending s = [Running ex]"
    using sample_session [OF kw] by blast
  obtain r sv where e: "relay_round run_env ?j s SocketGone = Ended r sv"
    by (cases "sv_cancelled (rl_sv s)") (simp_all add: relay_round_def Let_def)
  have before: "bridge_run run_env (fresh_bridge sample_supervisor) []
      (bridge_of \<lparr>rl_sv = sample_supervisor, rl_pending = []\<rparr>)"
    using bridge_run.initial [of run_env "fresh_bridge sample_supervisor"]
    by (simp add: bridge_of_def fresh_bridge_def)
  have "event_ok s SocketGone" by (simp add: event_ok_def)
  from session_end_leaves_idle [OF sample_started before run this e] run p e show ?thesis by blast
qed

end
