(* ===== verification/Runtime_Probe.thy ===== *)
theory Runtime_Probe
  imports Protocol_Types
begin

text \<open>
  The parser of the three-line answer to \<open>ego-browser --version\<close>,
  \<open>crates/protocol/src/runtime.rs\<close>.
\<close>

definition MAX_PROBE_BYTES :: nat where "MAX_PROBE_BYTES = 4096"

record runtime_probe =
  pr_ego_browser_version :: string
  pr_chromium_version :: string
  pr_node_version :: string

definition version_char :: "char \<Rightarrow> bool" where
  "version_char b \<longleftrightarrow> is_ascii_alphanumeric b \<or>
     b = CHR ''.'' \<or> b = CHR ''-'' \<or> b = CHR ''+'' \<or> b = CHR ''_''"

definition parse_version_line :: "string \<Rightarrow> string \<Rightarrow> protocol_error + string" where
  "parse_version_line line prefix =
     bind_r (ok_or (InvalidInner ''runtime probe format'')
       (case strip_prefix prefix line of
          None \<Rightarrow> None
        | Some value \<Rightarrow> if value \<noteq> [] \<and> length value \<le> 64 then Some value else None))
       (\<lambda>value. if \<not> list_all version_char value then Inl (InvalidInner ''runtime probe version'')
         else Inr value)"

definition parse_runtime_probe :: "bytes \<Rightarrow> protocol_error + runtime_probe" where
  "parse_runtime_probe bs =
     (if bs = [] \<or> length bs > MAX_PROBE_BYTES then Inl (InvalidInner ''runtime probe size'')
      else
        bind_r (ok_or (InvalidInner ''runtime probe encoding'') (from_utf8 bs)) (\<lambda>text.
          let lines = str_lines text
          in if length lines \<noteq> 3 then Inl (InvalidInner ''runtime probe lines'')
             else
               bind_r (parse_version_line (lines ! 0) ''ego-browser '') (\<lambda>ego.
               bind_r (parse_version_line (trim (lines ! 1)) ''chromium '') (\<lambda>chromium.
               bind_r (parse_version_line (trim (lines ! 2)) ''node v'') (\<lambda>node.
                 Inr \<lparr>pr_ego_browser_version = ego, pr_chromium_version = chromium,
                      pr_node_version = node\<rparr>)))))"

text \<open>\<open>saturating_add\<close> of two lengths of byte vectors cannot saturate: their sum is below
  \<open>usize::MAX\<close>, since a \<open>Vec\<close> holds at most \<open>isize::MAX\<close> bytes.\<close>

definition parse_runtime_probe_output :: "bytes \<Rightarrow> bytes \<Rightarrow> protocol_error + runtime_probe" where
  "parse_runtime_probe_output stdout stderr =
     (case parse_runtime_probe stdout of
        Inr probe \<Rightarrow> Inr probe
      | Inl _ \<Rightarrow>
     (case parse_runtime_probe stderr of
        Inr probe \<Rightarrow> Inr probe
      | Inl _ \<Rightarrow>
          let combined_len = length stdout + length stderr
          in if combined_len \<le> MAX_PROBE_BYTES
             then (case parse_runtime_probe (stdout @ stderr) of
                 Inr probe \<Rightarrow> Inr probe
               | Inl _ \<Rightarrow>
              (case parse_runtime_probe (stderr @ stdout) of
                 Inr probe \<Rightarrow> Inr probe
               | Inl _ \<Rightarrow> Inl (InvalidInner ''runtime probe streams'')))
             else Inl (InvalidInner ''runtime probe streams'')))"

text \<open>A version string that the parser lets through.\<close>

definition version_ok :: "string \<Rightarrow> bool" where
  "version_ok v \<longleftrightarrow> v \<noteq> [] \<and> length v \<le> 64 \<and> list_all version_char v"

definition probe_ok :: "runtime_probe \<Rightarrow> bool" where
  "probe_ok p \<longleftrightarrow> version_ok (pr_ego_browser_version p) \<and> version_ok (pr_chromium_version p) \<and>
     version_ok (pr_node_version p)"

definition render_probe :: "runtime_probe \<Rightarrow> string" where
  "render_probe p = ''ego-browser '' @ pr_ego_browser_version p @ [CHR 0x0A] @
     ''chromium '' @ pr_chromium_version p @ [CHR 0x0A] @
     ''node v'' @ pr_node_version p @ [CHR 0x0A]"

lemma parse_version_line_Inr:
  "parse_version_line line prefix = Inr v \<longleftrightarrow> line = prefix @ v \<and> version_ok v"
proof (cases "strip_prefix prefix line")
  case None
  then have "line \<noteq> prefix @ v" using strip_prefix_Some_iff [of prefix line v] by auto
  with None show ?thesis by (simp add: parse_version_line_def)
next
  case (Some w)
  then have "line = prefix @ w" by (simp add: strip_prefix_Some_iff)
  with Some show ?thesis by (auto simp: parse_version_line_def version_ok_def bind_r_Inr_iff)
qed

lemma parse_runtime_probe_ok: "parse_runtime_probe bs = Inr p \<Longrightarrow> probe_ok p"
  by (auto simp: parse_runtime_probe_def Let_def bind_r_Inr_iff parse_version_line_Inr probe_ok_def
      split: if_splits)

lemma version_char_range: "version_char c \<Longrightarrow> 32 < ord_of c \<and> ord_of c < 127"
proof -
  assume "version_char c"
  moreover have "32 < ord_of c \<and> ord_of c < 127" if "is_ascii_alphanumeric c"
    using that unfolding is_ascii_alphanumeric_def is_ascii_alpha_def is_ascii_digit_def by linarith
  ultimately show ?thesis unfolding version_char_def by (elim disjE) simp_all
qed

lemma lines_from_line:
  "\<forall>c \<in> set l. 13 < ord_of c \<Longrightarrow>
     lines_from acc (l @ CHR 0x0A # s) =
       rev (case rev l @ acc of [] \<Rightarrow> [] | r # a \<Rightarrow> if ord_of r = 13 then a else rev l @ acc)
         # lines_from [] s"
proof (induction l arbitrary: acc)
  case (Cons c l)
  then show ?case by (simp split: list.split)
qed (simp split: list.split)

lemma lines_from_printable:
  assumes "\<forall>c \<in> set l. 13 < ord_of c"
  shows "lines_from [] (l @ CHR 0x0A # s) = l # lines_from [] s"
proof -
  have "rev (case rev l of [] \<Rightarrow> [] | r # a \<Rightarrow> if ord_of r = 13 then a else rev l) = l"
    using assms by (cases "rev l") (auto simp: rev_swap)
  then show ?thesis unfolding lines_from_line [OF assms] append_Nil2 by simp
qed

lemma trim_chromium:
  assumes "s \<noteq> []" "ord_of (hd s) > 32" "ord_of (hd s) < 128" "\<forall>c \<in> set s. ord_of c < 127"
    "ord_of (last s) > 32"
  shows "trim s = s"
proof -
  have "trim_start s = s"
    using assms(1-3)
    by (cases s rule: trim_start.cases) (auto simp: is_ws1_def is_ws2_def is_ws3_def)
  moreover have "trim_end_rev (rev s) = rev s"
  proof -
    have "\<forall>c \<in> set (rev s). ord_of c < 127" "ord_of (hd (rev s)) > 32" "rev s \<noteq> []"
      using assms by (simp_all add: hd_rev)
    then show ?thesis
      by (cases "rev s" rule: trim_end_rev.cases) (auto simp: is_ws1_def is_ws2_def is_ws3_def)
  qed
  ultimately show ?thesis by (simp add: trim_def)
qed

section \<open>Properties\<close>

text \<open>Whatever the two output streams hold, a probe that the parser accepts has three non-empty
  versions of at most 64 characters, all of them letters, digits, dots, dashes, pluses or
  underscores.\<close>

theorem runtime_probe_sanitized:
  assumes "parse_runtime_probe_output stdout stderr = Inr p"
  shows "probe_ok p"
  using assms
  by (auto simp: parse_runtime_probe_output_def Let_def split: sum.splits if_splits
      dest: parse_runtime_probe_ok)

text \<open>The parser reads back every well-formed version report, on either stream.\<close>

theorem runtime_probe_roundtrip:
  assumes "probe_ok p"
  shows "parse_runtime_probe (as_bytes (render_probe p)) = Inr p"
proof -
  let ?e = "''ego-browser '' @ pr_ego_browser_version p"
  let ?c = "''chromium '' @ pr_chromium_version p" and ?n = "''node v'' @ pr_node_version p"
  have v: "version_ok (pr_ego_browser_version p)" "version_ok (pr_chromium_version p)"
    "version_ok (pr_node_version p)"
    using assms by (simp_all add: probe_ok_def)
  have r: "\<forall>c \<in> set w. 32 < ord_of c \<and> ord_of c < 127" if "version_ok w" for w
    using that version_char_range by (auto simp: version_ok_def list_all_iff)
  have r128: "\<forall>c \<in> set w. ord_of c < 128" if "version_ok w" for w
    using r [OF that] by fastforce
  have asc: "\<forall>c \<in> set (render_probe p). ord_of c < 128"
    using r128 [OF v(1)] r128 [OF v(2)] r128 [OF v(3)]
    unfolding render_probe_def set_append ball_Un by simp
  have lines: "str_lines (render_probe p) = [?e, ?c, ?n]"
  proof -
    have "\<forall>c \<in> set ?e. 13 < ord_of c" "\<forall>c \<in> set ?c. 13 < ord_of c" "\<forall>c \<in> set ?n. 13 < ord_of c"
      using r [OF v(1)] r [OF v(2)] r [OF v(3)] by fastforce+
    note l = this [THEN lines_from_printable]
    have "render_probe p = ?e @ CHR 0x0A # ?c @ CHR 0x0A # ?n @ CHR 0x0A # []"
      by (simp add: render_probe_def)
    then show ?thesis unfolding str_lines_def by (simp only: l) simp
  qed
  have tc: "trim ?c = ?c" and tn: "trim ?n = ?n"
    using v(2,3) r [OF v(2)] r [OF v(3)]
    by (intro trim_chromium; simp add: version_ok_def last_append)+
  have "length (render_probe p) \<le> MAX_PROBE_BYTES"
    using v by (simp add: render_probe_def MAX_PROBE_BYTES_def version_ok_def)
  moreover have "from_utf8 (as_bytes (render_probe p)) = Some (render_probe p)"
    using valid_utf8_ascii [OF asc] by (simp add: from_utf8_def)
  moreover have "as_bytes (render_probe p) \<noteq> []" by (simp add: render_probe_def as_bytes_def)
  moreover have "parse_version_line ?e ''ego-browser '' = Inr (pr_ego_browser_version p)"
    "parse_version_line ?c ''chromium '' = Inr (pr_chromium_version p)"
    "parse_version_line ?n ''node v'' = Inr (pr_node_version p)"
    using v by (simp_all add: parse_version_line_Inr)
  ultimately show ?thesis
    by (simp add: parse_runtime_probe_def lines tc tn del: append.simps append_Cons)
qed

definition sample_probe :: runtime_probe where
  "sample_probe = \<lparr>pr_ego_browser_version = ''0.5.0.32'', pr_chromium_version = ''140.0-beta'',
     pr_node_version = ''22.1.0''\<rparr>"

theorem runtime_probe_roundtrip_witness:
  "probe_ok sample_probe \<and> parse_runtime_probe (as_bytes (render_probe sample_probe)) = Inr sample_probe"
proof -
  have "probe_ok sample_probe"
    by (simp add: sample_probe_def probe_ok_def version_ok_def version_char_def
        is_ascii_alphanumeric_def is_ascii_alpha_def is_ascii_digit_def)
  with runtime_probe_roundtrip show ?thesis by blast
qed

theorem runtime_probe_sanitized_witness:
  "parse_runtime_probe_output [] (as_bytes (render_probe sample_probe)) = Inr sample_probe \<and>
   probe_ok sample_probe"
proof -
  have "parse_runtime_probe (as_bytes (render_probe sample_probe)) = Inr sample_probe"
    by code_simp
  then have "parse_runtime_probe_output [] (as_bytes (render_probe sample_probe)) = Inr sample_probe"
    by (simp add: parse_runtime_probe_output_def parse_runtime_probe_def [of "[]"])
  with runtime_probe_sanitized show ?thesis by blast
qed

end
