(* ===== verification/Credential_Error.thy ===== *)
theory Credential_Error
  imports Paths
begin

text \<open>
  The error type of \<open>crates/device-client/src/lib.rs\<close> with its log codes, its display text and the
  classification of errors that may be retried.
\<close>

section \<open>Text\<close>

definition ascii_lower :: "string \<Rightarrow> string" where
  "ascii_lower s = map (\<lambda>c. if 65 \<le> ord_of c \<and> ord_of c \<le> 90 then char_of (ord_of c + 32) else c) s"

section \<open>Errors\<close>

datatype credential_error =
  Missing | InvalidPath | UnsafePermissions | Malformed | PolicyInvalid | PolicyConflict
| RotationConflict | CompatibilityMismatch | PendingExpired | IdentityOriginConflict
| UnsupportedCredentialProfile | LocalLockBusy | LearningBundleInvalid | TooLarge | Network
| Api u16 | ApiCode u16 string | CredentialIo io_error

definition normalized_code :: "string \<Rightarrow> string" where
  "normalized_code code =
     (let n = ascii_lower code in
      if n \<in> {''login_required'', ''common_unauthorized''} then ''login_required''
      else if n = ''server_profile_required'' then ''server_profile_required''
      else if n \<in> {''device_conflict'', ''ego_browser_device_conflict''} then ''device_conflict''
      else if n \<in> {''device_generation_conflict'', ''ego_browser_generation_mismatch'',
                    ''ego_browser_generation_invalid'', ''ego_browser_generation_exhausted''}
      then ''device_generation_conflict''
      else if n \<in> {''device_not_found'', ''ego_browser_device_not_found''} then ''device_not_found''
      else if n \<in> {''device_revoked'', ''ego_browser_credential_revoked'',
                    ''ego_browser_credential_expired''} then ''device_revoked''
      else if n \<in> {''admission_disabled'', ''ego_browser_enrollment_disabled'',
                    ''ego_browser_enrollment_admission_disabled'',
                    ''ego_browser_execution_admission_disabled''} then ''admission_disabled''
      else if n \<in> {''compatibility_mismatch'', ''ego_browser_profile_mismatch'',
                    ''ego_browser_signer_mismatch'', ''ego_browser_version_mismatch'',
                    ''ego_browser_capability_mismatch'', ''ego_browser_runtime_unsupported'',
                    ''ego_browser_encryption_key_mismatch'', ''ego_browser_encryption_key_required'',
                    ''ego_browser_credential_profile_unsupported''} then ''compatibility_mismatch''
      else if n = ''server_unreachable'' then ''server_unreachable''
      else if n = ''local_lock_busy'' then ''local_lock_busy''
      else ''control_plane_error'')"

fun credential_log_code :: "credential_error \<Rightarrow> string" where
  "credential_log_code Missing = ''credential_missing''"
| "credential_log_code InvalidPath = ''credential_invalid_path''"
| "credential_log_code UnsafePermissions = ''credential_unsafe_permissions''"
| "credential_log_code Malformed = ''credential_malformed''"
| "credential_log_code PolicyInvalid = ''policy_invalid''"
| "credential_log_code PolicyConflict = ''policy_conflict''"
| "credential_log_code RotationConflict = ''rotation_conflict''"
| "credential_log_code CompatibilityMismatch = ''compatibility_mismatch''"
| "credential_log_code PendingExpired = ''pending_expired''"
| "credential_log_code IdentityOriginConflict = ''identity_origin_conflict''"
| "credential_log_code UnsupportedCredentialProfile = ''compatibility_mismatch''"
| "credential_log_code LocalLockBusy = ''local_lock_busy''"
| "credential_log_code LearningBundleInvalid = ''learning_bundle_invalid''"
| "credential_log_code TooLarge = ''credential_too_large''"
| "credential_log_code Network = ''control_plane_error''"
| "credential_log_code (Api _) = ''control_plane_error''"
| "credential_log_code (ApiCode _ code) = normalized_code code"
| "credential_log_code (CredentialIo _) = ''io_error''"

definition retryable_status :: "u16 \<Rightarrow> bool" where
  "retryable_status status \<longleftrightarrow> status \<in> {408, 425, 429} \<or> 500 \<le> status \<and> status \<le> 599"

fun is_retryable_ensure_error :: "credential_error \<Rightarrow> bool" where
  "is_retryable_ensure_error Network = True"
| "is_retryable_ensure_error (Api status) = retryable_status status"
| "is_retryable_ensure_error (ApiCode status code) =
     (if ascii_lower code \<in>
           {''ego_browser_enrollment_disabled'', ''ego_browser_enrollment_admission_disabled'',
            ''ego_browser_execution_admission_disabled'', ''admission_disabled'',
            ''ego_browser_profile_mismatch'', ''ego_browser_signer_mismatch'',
            ''ego_browser_capability_mismatch'', ''ego_browser_generation_mismatch'',
            ''ego_browser_device_conflict'', ''ego_browser_idempotency_conflict''}
      then False else retryable_status status)"
| "is_retryable_ensure_error _ = False"

text \<open>The display text; \<open>io_text\<close> is the text of a system error.\<close>

fun credential_error_text :: "(io_error \<Rightarrow> string) \<Rightarrow> credential_error \<Rightarrow> string" where
  "credential_error_text io_text Missing = ''ego-browser credential is missing''"
| "credential_error_text io_text InvalidPath = ''ego-browser credential path is invalid''"
| "credential_error_text io_text UnsafePermissions = ''ego-browser credential permissions are unsafe''"
| "credential_error_text io_text Malformed = ''ego-browser credential is malformed''"
| "credential_error_text io_text PolicyInvalid = ''ego-browser local policy is invalid''"
| "credential_error_text io_text PolicyConflict = ''ego-browser local policy changed concurrently''"
| "credential_error_text io_text RotationConflict =
     ''ego-browser device identity rotation conflicts with local state''"
| "credential_error_text io_text CompatibilityMismatch =
     ''the local ego-browser runtime, policy, release profile, or signer evidence is incompatible''"
| "credential_error_text io_text PendingExpired =
     ''ego-browser pending enrollment expired; confirm re-enroll or forget-this-mac''"
| "credential_error_text io_text IdentityOriginConflict =
     ''ego-browser identity belongs to a different control-plane origin; use switch-server''"
| "credential_error_text io_text UnsupportedCredentialProfile =
     ''the requested ego-browser credential storage profile is not supported''"
| "credential_error_text io_text LocalLockBusy =
     ''another ego-browser registration operation is in progress''"
| "credential_error_text io_text LearningBundleInvalid =
     ''ego-browser learning bundle verification failed''"
| "credential_error_text io_text TooLarge = ''ego-browser credential is too large''"
| "credential_error_text io_text Network = ''ego-browser control-plane request failed''"
| "credential_error_text io_text (Api status) =
     ''ego-browser control-plane returned HTTP '' @ decimal (unat status)"
| "credential_error_text io_text (ApiCode status code) =
     ''ego-browser control-plane returned HTTP '' @ decimal (unat status) @ '' ('' @ code @ '')''"
| "credential_error_text io_text (CredentialIo error) =
     ''ego-browser credential I/O error: '' @ io_text error"

text \<open>An admission or compatibility refusal is never retried, whatever its status.\<close>

lemma refusal_not_retryable:
  assumes "is_retryable_ensure_error (ApiCode status code)"
  shows "credential_log_code (ApiCode status code) \<noteq> ''admission_disabled''"
  using assms by (auto simp: normalized_code_def Let_def split: if_splits)

end
