(* ===== verification/Control_Response.thy ===== *)
theory Control_Response
  imports Supervisor_Samples Runtime_Probe Credential_Error
begin

text \<open>
  The checks the bridge makes on what the control plane answers:
  \<open>crates/local-bridge/src/outbound_validation.rs\<close> and \<open>control_response.rs\<close>, and the dialing of
  the relay in \<open>relay_session.rs\<close>.  The parser of RFC 3339 timestamps of the \<open>time\<close> crate and the
  display texts of errors are the parameter \<open>control_env\<close>; the clock is an argument.
\<close>

section \<open>Parameters and data\<close>

record control_env =
  ce_timestamp :: "string \<Rightarrow> int option"
  ce_error_text :: "protocol_error \<Rightarrow> string"
  ce_io_text :: "io_error \<Rightarrow> string"
  ce_version :: string

text \<open>The identity as the bridge uses it: the encryption key appears as its encoded public key.\<close>

record device_identity =
  di_device_id :: string
  di_generation :: u64
  di_release_profile :: string
  di_credential_profile :: string
  di_legacy_encryption_key :: bool
  di_encryption_public_key :: string
  di_encryption_secret :: bytes

record lease_snapshot =
  snap_generation :: u64
  snap_lease_until :: u64
  snap_absolute_ttl_until :: u64
  snap_renew_interval_seconds :: u64
  snap_renew_failure_grace_seconds :: u64

record relay_ticket =
  rt_path :: string
  rt_token :: string
  rt_expires_at :: u64

type_synonym json_object = "(string \<times> json) list"

fun json_get :: "json \<Rightarrow> string \<Rightarrow> json option" where
  "json_get (JObject kvs) k = map_of kvs k"
| "json_get _ k = None"

fun as_object :: "json \<Rightarrow> json_object option" where
  "as_object (JObject kvs) = Some kvs" | "as_object _ = None"

fun as_array :: "json \<Rightarrow> json list option" where
  "as_array (JArray xs) = Some xs" | "as_array _ = None"

fun as_str :: "json \<Rightarrow> string option" where
  "as_str (JString s) = Some s" | "as_str _ = None"

fun as_u64 :: "json \<Rightarrow> u64 option" where
  "as_u64 (JNumber (PosInt n)) = Some n" | "as_u64 _ = None"

definition data_object :: "json \<Rightarrow> json_object option" where
  "data_object response = Option.bind (json_get response ''data'') as_object"

section \<open>Fields of a response\<close>

definition filter_opt :: "('a \<Rightarrow> bool) \<Rightarrow> 'a option \<Rightarrow> 'a option" where
  "filter_opt p m = (case m of None \<Rightarrow> None | Some x \<Rightarrow> if p x then Some x else None)"

lemma filter_opt_Some [simp]: "filter_opt p m = Some x \<longleftrightarrow> m = Some x \<and> p x"
  by (auto simp: filter_opt_def split: option.splits if_splits)

definition invalid_field :: "string \<Rightarrow> bridge_error" where
  "invalid_field field = ProtocolMessage (''missing or invalid '' @ field)"

definition required_string :: "json_object \<Rightarrow> string \<Rightarrow> bridge_error + string" where
  "required_string data field =
     ok_or (invalid_field field)
       (filter_opt (\<lambda>v. v \<noteq> [] \<and> length v \<le> 4096) (Option.bind (map_of data field) as_str))"

definition require_string_eq :: "json_object \<Rightarrow> string \<Rightarrow> string \<Rightarrow> bridge_error + unit" where
  "require_string_eq data field expected =
     bind_r (required_string data field) (\<lambda>v.
       if v \<noteq> expected
       then Inl (ProtocolMessage (''connected response '' @ field @ '' does not match''))
       else Inr ())"

definition optional_string_matches ::
  "json_object \<Rightarrow> string \<Rightarrow> string option \<Rightarrow> bridge_error + bool" where
  "optional_string_matches data field expected =
     bind_r (ok_or (ProtocolMessage (''missing '' @ field)) (map_of data field)) (\<lambda>v.
       case expected of Some e \<Rightarrow> Inr (as_str v = Some e) | None \<Rightarrow> Inr (v = JNull))"

fun collect_capabilities :: "string \<Rightarrow> string list \<Rightarrow> json list \<Rightarrow> bridge_error + string list" where
  "collect_capabilities field result [] = Inr result"
| "collect_capabilities field result (v # vs) =
     bind_r (ok_or (ProtocolMessage (''invalid '' @ field))
         (filter_opt (\<lambda>c. c \<noteq> [] \<and> length c \<le> 128) (as_str v))) (\<lambda>capability.
       if capability \<in> set result then Inl (ProtocolMessage (''duplicate '' @ field))
       else collect_capabilities field (result @ [capability]) vs)"

definition required_capabilities :: "json_object \<Rightarrow> string \<Rightarrow> bridge_error + string list" where
  "required_capabilities data field =
     bind_r (ok_or (invalid_field field) (Option.bind (map_of data field) as_array))
       (collect_capabilities field [])"

definition required_u64 :: "json_object \<Rightarrow> string \<Rightarrow> bridge_error + u64" where
  "required_u64 data field =
     bind_r (ok_or (invalid_field field) (Option.bind (map_of data field) as_u64)) (\<lambda>v.
       if v = 0 then Inl (invalid_field field) else Inr v)"

definition parse_timestamp :: "control_env \<Rightarrow> string \<Rightarrow> bridge_error + u64" where
  "parse_timestamp env value =
     (let invalid = ProtocolMessage ''invalid control-plane timestamp'' in
      bind_r (ok_or invalid (ce_timestamp env value)) (\<lambda>seconds.
        if 0 \<le> seconds \<and> seconds < 2 ^ 64 then Inr (of_int seconds) else Inl invalid))"

definition required_timestamp :: "control_env \<Rightarrow> json_object \<Rightarrow> string \<Rightarrow> bridge_error + u64" where
  "required_timestamp env data field = bind_r (required_string data field) (parse_timestamp env)"

fun release_profile_name :: "release_profile \<Rightarrow> string" where
  "release_profile_name LogicTest = ''logic-test''"
| "release_profile_name DevelopmentLocal = ''development-local''"
| "release_profile_name CommunityLocalTrust = ''community-local-trust''"
| "release_profile_name DeveloperId = ''developer-id''"

fun credential_profile_name :: "credential_profile \<Rightarrow> string" where
  "credential_profile_name CommunityFile = ''community_file''"
| "credential_profile_name KeychainAccessGroup = ''keychain_access_group''"

definition relay_path :: "string \<Rightarrow> string" where
  "relay_path binding_id = ''/api/v1/ego-browser/bindings/'' @ binding_id @ ''/relay''"

text \<open>A chain of comparisons joined by \<open>||\<close> whose operands may fail: the first one that holds decides,
  and the operands after it are not evaluated.\<close>

fun any_differs :: "(bridge_error + bool) list \<Rightarrow> bridge_error + bool" where
  "any_differs [] = Inr False"
| "any_differs (c # cs) = bind_r c (\<lambda>b. if b then Inr True else any_differs cs)"

definition string_differs :: "json_object \<Rightarrow> string \<Rightarrow> string \<Rightarrow> bridge_error + bool" where
  "string_differs data field expected = bind_r (required_string data field) (\<lambda>v. Inr (v \<noteq> expected))"

definition u64_differs :: "json_object \<Rightarrow> string \<Rightarrow> u64 \<Rightarrow> bridge_error + bool" where
  "u64_differs data field expected = bind_r (required_u64 data field) (\<lambda>v. Inr (v \<noteq> expected))"

definition refuse_if :: "bridge_error + bool \<Rightarrow> string \<Rightarrow> bridge_error + unit" where
  "refuse_if c message = bind_r c (\<lambda>b. if b then Inl (ProtocolMessage message) else Inr ())"

section \<open>Errors of the control plane\<close>

fun is_retryable_control_error :: "credential_error \<Rightarrow> bool" where
  "is_retryable_control_error Network = True"
| "is_retryable_control_error (Api status) = (500 \<le> status \<and> status \<le> 599)"
| "is_retryable_control_error _ = False"

fun map_credential_error :: "control_env \<Rightarrow> credential_error \<Rightarrow> bridge_error" where
  "map_credential_error env (Api status) =
     ProtocolMessage (''control-plane request failed (HTTP '' @ decimal (unat status) @ '')'')"
| "map_credential_error env other = ProtocolMessage (credential_error_text (ce_io_text env) other)"

section \<open>Startup\<close>

datatype startup_activation = Connect | RenewLease

definition startup_activation ::
  "json \<Rightarrow> bridge_config \<Rightarrow> device_identity \<Rightarrow> bridge_error + startup_activation" where
  "startup_activation response config identity =
     bind_r (ok_or (ProtocolMessage ''binding status response is malformed'')
       (data_object response)) (\<lambda>data.
     bind_r (refuse_if (any_differs
         [string_differs data ''id'' (bc_binding_id config),
          string_differs data ''ego_browser_device_id'' (di_device_id identity),
          u64_differs data ''generation'' (bc_generation config),
          string_differs data ''task_space_label'' (bc_default_task_space config)])
       ''binding status does not match the local claim'') (\<lambda>_.
     bind_r (required_string data ''status'') (\<lambda>status.
       if status = ''active'' then Inr RenewLease
       else if status \<in> {''pending_device'', ''connecting'', ''probing_local_browser''} then Inr Connect
       else if status = ''expired'' then Inl bridge_error.LeaseExpired
       else if status = ''revoked'' then Inl bridge_error.Revoked
       else Inl (ProtocolMessage
         ''binding is not awaiting a Bridge connection; explicit resume is required''))))"

text \<open>The output of the probe: its streams and whether it exited with success, or \<open>None\<close> when it could
  not be run within five seconds.\<close>

definition probe_local_runtime :: "(bytes \<times> bytes \<times> bool) option \<Rightarrow> bridge_error + runtime_probe" where
  "probe_local_runtime output = (case output of
      None \<Rightarrow> Inl (ProtocolMessage ''ego-browser runtime is unavailable'')
    | Some (stdout, stderr, success) \<Rightarrow>
        if success
        then map_err (\<lambda>_. ProtocolMessage ''ego-browser runtime probe is malformed'')
               (parse_runtime_probe_output stdout stderr)
        else Inl (ProtocolMessage ''ego-browser runtime probe failed''))"

section \<open>The connected response\<close>

definition validated_capability ::
  "control_env \<Rightarrow> bridge_config \<Rightarrow> bridge_error + bridge_capability" where
  "validated_capability env config =
     (let capability = config_capability (ce_version env) config in
      bind_r (map_err (\<lambda>e. ProtocolMessage (ce_error_text env e)) (capability_validate capability))
        (\<lambda>_. Inr capability))"

definition JOptString :: "string option \<Rightarrow> json" where
  "JOptString v = (case v of None \<Rightarrow> JNull | Some s \<Rightarrow> JString s)"

definition connected_payload ::
  "control_env \<Rightarrow> bridge_config \<Rightarrow> device_identity \<Rightarrow> bridge_error + json" where
  "connected_payload env config identity =
     bind_r (validated_capability env config) (\<lambda>capability.
       Inr (JObject (btree_of
         [(''encryption_public_key'', JString (di_encryption_public_key identity)),
          (''bridge_protocol_version'', JString (cap_bridge_protocol_version capability)),
          (''bridge_version'', JString (ce_version env)),
          (''local_ego_browser_runtime_version'',
             JString (cap_local_ego_browser_runtime_version capability)),
          (''ego_lite_runtime_version'', JString (cap_ego_lite_runtime_version capability)),
          (''skill_version'', JString (cap_skill_version capability)),
          (''release_profile'', JString (release_profile_name (cap_release_profile capability))),
          (''signer_certificate_sha256'', JString (cap_signer_certificate_sha256 capability)),
          (''credential_profile'',
             JString (credential_profile_name (cap_credential_profile capability))),
          (''allowlist_revision'', JNumber (PosInt (cap_allowlist_revision capability))),
          (''allowlist_roots_digest'', JOptString (cap_allowlist_roots_digest capability)),
          (''learning_bundle_digest'', JOptString (cap_learning_bundle_digest capability)),
          (''max_parallel_requests'',
             JNumber (PosInt (of_nat (cap_max_parallel_requests capability)))),
          (''capabilities'', JArray (map JString (cap_capabilities capability))),
          (''local_browser_ready'', JBool True)])))"

definition concurrency_mode_of :: "string \<Rightarrow> concurrency_mode option" where
  "concurrency_mode_of v =
     (if v = ''task_space_tab'' then Some TaskSpaceTab
      else if v = ''task_space'' then Some TaskSpace
      else if v = ''binding'' then Some Binding
      else None)"

definition connected_identity ::
  "control_env \<Rightarrow> json_object \<Rightarrow> bridge_config \<Rightarrow> device_identity \<Rightarrow> bridge_capability \<Rightarrow>
     bridge_error + unit" where
  "connected_identity env data config identity capability =
     bind_r (refuse_if (string_differs data ''id'' (bc_binding_id config))
       ''connected response binding does not match bridge configuration'') (\<lambda>_.
     bind_r (require_string_eq data ''control_channel'' ''ego_browser_bridge'') (\<lambda>_.
     bind_r (require_string_eq data ''relay_binding_kind'' ''ego_browser'') (\<lambda>_.
     bind_r (require_string_eq data ''authorization_mode'' ''ego_browser_script_full_trust'') (\<lambda>_.
     bind_r (refuse_if (u64_differs data ''authorization_policy_version'' 1)
       ''connected response authorization policy is invalid'') (\<lambda>_.
     bind_r (refuse_if (string_differs data ''ego_browser_device_id'' (di_device_id identity))
       ''connected response device identity mismatch'') (\<lambda>_.
     bind_r (refuse_if (string_differs data ''encryption_public_key'' (di_encryption_public_key identity))
       ''connected response encryption key mismatch'') (\<lambda>_.
     bind_r (require_string_eq data ''status'' ''active'') (\<lambda>_.
     bind_r (require_string_eq data ''lease_health'' ''healthy'') (\<lambda>_.
     bind_r (require_string_eq data ''task_space_label'' (bc_default_task_space config)) (\<lambda>_.
     refuse_if (any_differs
         [string_differs data ''bridge_protocol_version'' (cap_bridge_protocol_version capability),
          string_differs data ''local_runtime_version''
            (cap_local_ego_browser_runtime_version capability),
          string_differs data ''ego_lite_runtime_version'' (cap_ego_lite_runtime_version capability),
          string_differs data ''skill_version'' (cap_skill_version capability),
          string_differs data ''release_profile'' (release_profile_name (bc_release_profile config)),
          string_differs data ''signer_certificate_sha256'' (cap_signer_certificate_sha256 capability),
          string_differs data ''credential_profile''
            (credential_profile_name (bc_credential_profile config)),
          string_differs data ''remote_platform'' REMOTE_PLATFORM,
          string_differs data ''local_platform'' LOCAL_PLATFORM])
       ''connected response capability metadata does not match''))))))))))"

definition connected_limits ::
  "json_object \<Rightarrow> bridge_config \<Rightarrow> bridge_capability \<Rightarrow> bridge_error + unit" where
  "connected_limits data config capability =
     bind_r (refuse_if (any_differs
         [u64_differs data ''allowlist_revision'' (bc_allowlist_revision config),
          u64_differs data ''max_parallel_requests'' (of_nat (bc_max_parallel_requests config))])
       ''connected response limits do not match'') (\<lambda>_.
     bind_r (refuse_if (bind_r (optional_string_matches data ''allowlist_roots_digest''
         (bc_allowlist_roots_digest config)) (\<lambda>b. Inr (\<not> b)))
       ''connected response allowlist roots do not match'') (\<lambda>_.
     bind_r (refuse_if (bind_r (optional_string_matches data ''learning_bundle_digest''
         (bc_learning_bundle_digest config)) (\<lambda>b. Inr (\<not> b)))
       ''connected response learning bundle does not match'') (\<lambda>_.
     bind_r (required_capabilities data ''capabilities'') (\<lambda>response_capabilities.
       if sort response_capabilities \<noteq> sort (cap_capabilities capability)
       then Inl (ProtocolMessage ''connected response capabilities do not match'')
       else
     bind_r (required_string data ''concurrency_mode'') (\<lambda>mode.
     bind_r (ok_or (ProtocolMessage ''connected response concurrency mode is invalid'')
       (concurrency_mode_of mode)) (\<lambda>mode.
       if mode \<notin> set (cap_supported_concurrency capability)
       then Inl (ProtocolMessage ''connected response concurrency mode is unsupported'')
       else Inr ()))))))"

definition parse_connected_response ::
  "control_env \<Rightarrow> json \<Rightarrow> bridge_config \<Rightarrow> device_identity \<Rightarrow> u64 \<Rightarrow> bridge_error + lease_snapshot" where
  "parse_connected_response env response config identity now =
     bind_r (ok_or (ProtocolMessage ''connected response is malformed'') (data_object response)) (\<lambda>data.
     bind_r (validated_capability env config) (\<lambda>capability.
     bind_r (connected_identity env data config identity capability) (\<lambda>_.
     bind_r (connected_limits data config capability) (\<lambda>_.
     bind_r (required_u64 data ''generation'') (\<lambda>generation.
       if generation \<noteq> bc_generation config
       then Inl (ProtocolMessage ''connected response generation does not match'')
       else
     bind_r (required_timestamp env data ''lease_until'') (\<lambda>lease_until.
     bind_r (required_timestamp env data ''absolute_ttl_until'') (\<lambda>absolute_ttl_until.
       if lease_until \<le> now \<or> lease_until > absolute_ttl_until \<or> absolute_ttl_until \<le> now
       then Inl (ProtocolMessage ''connected response lease metadata is invalid'')
       else
     bind_r (required_u64 data ''lease_renew_interval_seconds'') (\<lambda>interval.
     bind_r (required_u64 data ''lease_renew_failure_grace_seconds'') (\<lambda>grace.
       Inr \<lparr>snap_generation = generation, snap_lease_until = lease_until,
            snap_absolute_ttl_until = absolute_ttl_until, snap_renew_interval_seconds = interval,
            snap_renew_failure_grace_seconds = grace\<rparr>)))))))))"

section \<open>The relay ticket\<close>

definition is_ascii_graphic :: "char \<Rightarrow> bool" where
  "is_ascii_graphic c \<longleftrightarrow> 33 \<le> ord_of c \<and> ord_of c \<le> 126"

definition parse_relay_ticket ::
  "control_env \<Rightarrow> json \<Rightarrow> string \<Rightarrow> u64 \<Rightarrow> u64 \<Rightarrow> bridge_error + relay_ticket" where
  "parse_relay_ticket env response binding_id generation now =
     bind_r (ok_or (ProtocolMessage ''relay ticket response is malformed'') (data_object response)) (\<lambda>data.
     bind_r (refuse_if (any_differs
         [string_differs data ''role'' ''bridge'', u64_differs data ''generation'' generation,
          string_differs data ''relay_binding_kind'' ''ego_browser''])
       ''relay ticket identity is invalid'') (\<lambda>_.
     bind_r (required_string data ''relay_path'') (\<lambda>path.
       if path \<noteq> relay_path binding_id
       then Inl (ProtocolMessage ''relay ticket path is not the fixed browser endpoint'')
       else
     bind_r (required_string data ''relay_ticket'') (\<lambda>token.
       if length token > 4096
          \<or> \<not> list_all (\<lambda>c. is_ascii_graphic c \<and> c \<noteq> CHR 0x22 \<and> c \<noteq> CHR 0x5C) token
       then Inl (ProtocolMessage ''relay ticket encoding is invalid'')
       else
     bind_r (bind_r (required_string data ''expires_at'') (parse_timestamp env)) (\<lambda>expires_at.
       if expires_at \<le> now then Inl bridge_error.LeaseExpired
       else Inr \<lparr>rt_path = path, rt_token = token, rt_expires_at = expires_at\<rparr>)))))"

text \<open>What dialing meets: the scheme of the server URL if it parses, whether the scheme can be replaced,
  whether the request and the header can be built, and the connection (\<open>None\<close>: not within fifteen
  seconds).  The result is the path and the authorization that were sent.\<close>

record dial_answers =
  dial_scheme :: "string option"
  dial_set_scheme :: bool
  dial_request :: bool
  dial_header :: bool
  dial_connects :: "bool option"

definition open_relay ::
  "relay_ticket \<Rightarrow> string \<Rightarrow> u64 \<Rightarrow> dial_answers \<Rightarrow> bridge_error + (string \<times> string)" where
  "open_relay ticket binding_id now a =
     (if rt_path ticket \<noteq> relay_path binding_id
      then Inl (ProtocolMessage ''relay path does not match binding'')
      else if rt_expires_at ticket \<le> now then Inl bridge_error.LeaseExpired
      else case dial_scheme a of
        None \<Rightarrow> Inl (ProtocolMessage ''server URL is invalid'')
      | Some scheme \<Rightarrow>
          if scheme \<noteq> ''https'' then Inl (ProtocolMessage ''outbound relay requires HTTPS/WSS'')
          else if \<not> dial_set_scheme a then Inl (ProtocolMessage ''server URL scheme is invalid'')
          else if \<not> dial_request a then Inl (ProtocolMessage ''relay request is invalid'')
          else if \<not> dial_header a then Inl (ProtocolMessage ''relay authorization is invalid'')
          else case dial_connects a of
            None \<Rightarrow> Inl (ProtocolMessage ''relay connection timed out'')
          | Some False \<Rightarrow> Inl (ProtocolMessage ''relay connection failed'')
          | Some True \<Rightarrow> Inr (rt_path ticket, ''Bearer '' @ rt_token ticket))"

section \<open>What the checks accept\<close>

lemma required_string_Inr [simp]:
  "required_string data f = Inr v \<longleftrightarrow> map_of data f = Some (JString v) \<and> v \<noteq> [] \<and> length v \<le> 4096"
  by (auto simp: required_string_def bind_eq_Some_conv elim: as_str.elims)

lemma required_u64_Inr [simp]:
  "required_u64 data f = Inr n \<longleftrightarrow> map_of data f = Some (JNumber (PosInt n)) \<and> n \<noteq> 0"
  by (auto simp: required_u64_def bind_r_Inr_iff bind_eq_Some_conv split: if_splits elim: as_u64.elims)

lemma require_string_eq_Inr [simp]:
  "require_string_eq data f e = Inr u \<longleftrightarrow> required_string data f = Inr e"
  by (auto simp: require_string_eq_def bind_r_Inr_iff split: if_splits)

lemma string_differs_Inr [simp]:
  "string_differs data f e = Inr False \<longleftrightarrow> required_string data f = Inr e"
  by (auto simp: string_differs_def bind_r_Inr_iff)

lemma u64_differs_Inr [simp]:
  "u64_differs data f e = Inr False \<longleftrightarrow> required_u64 data f = Inr e"
  by (auto simp: u64_differs_def bind_r_Inr_iff)

lemma any_differs_Inr [simp]:
  "any_differs (c # cs) = Inr False \<longleftrightarrow> c = Inr False \<and> any_differs cs = Inr False"
  "any_differs [] = Inr False"
  by (auto simp: bind_r_Inr_iff)

lemma refuse_if_Inr [simp]: "refuse_if c m = Inr u \<longleftrightarrow> c = Inr False"
  by (auto simp: refuse_if_def bind_r_Inr_iff split: if_splits)

declare any_differs.simps [simp del]

lemma optional_string_matches_Inr:
  "optional_string_matches data f e = Inr True \<longleftrightarrow> map_of data f = Some (JOptString e)"
  by (auto simp: optional_string_matches_def bind_r_Inr_iff JOptString_def split: option.splits
      elim: as_str.elims)

lemma unless_Inr: "(\<exists>x. m = Inr x \<and> Inr (\<not> x) = Inr False) \<longleftrightarrow> m = Inr True"
  by auto

lemma collect_capabilities_Inr:
  "collect_capabilities f acc vs = Inr r \<longleftrightarrow>
     (\<exists>cs. vs = map JString cs \<and> r = acc @ cs \<and> (\<forall>c \<in> set cs. c \<noteq> [] \<and> length c \<le> 128) \<and>
        distinct cs \<and> set cs \<inter> set acc = {})"
proof (induction f acc vs rule: collect_capabilities.induct)
  case (2 f acc v vs)
  show ?case
  proof (cases "\<exists>c. v = JString c \<and> c \<noteq> [] \<and> length c \<le> 128 \<and> c \<notin> set acc")
    case True
    then obtain c where c: "v = JString c" "c \<noteq> []" "length c \<le> 128" "c \<notin> set acc" by blast
    then have "collect_capabilities f acc (v # vs) = collect_capabilities f (acc @ [c]) vs"
      by (simp add: filter_opt_def)
    then show ?thesis
      using 2 [of c] c by (auto simp: filter_opt_def Cons_eq_map_conv)
  next
    case False
    then have "\<nexists>r. collect_capabilities f acc (v # vs) = Inr r"
      by (auto simp: bind_r_Inr_iff split: if_splits elim: as_str.elims)
    with False show ?thesis by (auto simp: Cons_eq_map_conv)
  qed
qed auto

lemma if_Inl_Inr: "(if b then Inl e else m) = Inr u \<longleftrightarrow> \<not> b \<and> m = Inr u"
  by simp

lemma connected_limits_Inr:
  "connected_limits data config capability = Inr u \<longleftrightarrow>
     required_u64 data ''allowlist_revision'' = Inr (bc_allowlist_revision config) \<and>
     required_u64 data ''max_parallel_requests'' = Inr (of_nat (bc_max_parallel_requests config)) \<and>
     map_of data ''allowlist_roots_digest'' = Some (JOptString (bc_allowlist_roots_digest config)) \<and>
     map_of data ''learning_bundle_digest'' = Some (JOptString (bc_learning_bundle_digest config)) \<and>
     (\<exists>cs. required_capabilities data ''capabilities'' = Inr cs \<and>
        sort cs = sort (cap_capabilities capability)) \<and>
     (\<exists>mode m. required_string data ''concurrency_mode'' = Inr mode \<and>
        concurrency_mode_of mode = Some m \<and> m \<in> set (cap_supported_concurrency capability))"
  unfolding connected_limits_def bind_r_Inr_iff refuse_if_Inr any_differs_Inr u64_differs_Inr
    if_Inl_Inr ok_or_Inr_iff not_not unless_Inr optional_string_matches_Inr
  by simp blast

lemma connected_identity_Inr:
  "connected_identity env data config identity capability = Inr u \<longleftrightarrow>
     (\<forall>(f, v) \<in> set
        [(''id'', bc_binding_id config), (''control_channel'', ''ego_browser_bridge''),
         (''relay_binding_kind'', ''ego_browser''),
         (''authorization_mode'', ''ego_browser_script_full_trust''),
         (''ego_browser_device_id'', di_device_id identity),
         (''encryption_public_key'', di_encryption_public_key identity),
         (''status'', ''active''), (''lease_health'', ''healthy''),
         (''task_space_label'', bc_default_task_space config),
         (''bridge_protocol_version'', cap_bridge_protocol_version capability),
         (''local_runtime_version'', cap_local_ego_browser_runtime_version capability),
         (''ego_lite_runtime_version'', cap_ego_lite_runtime_version capability),
         (''skill_version'', cap_skill_version capability),
         (''release_profile'', release_profile_name (bc_release_profile config)),
         (''signer_certificate_sha256'', cap_signer_certificate_sha256 capability),
         (''credential_profile'', credential_profile_name (bc_credential_profile config)),
         (''remote_platform'', REMOTE_PLATFORM), (''local_platform'', LOCAL_PLATFORM)].
        required_string data f = Inr v) \<and>
     required_u64 data ''authorization_policy_version'' = Inr 1"
  unfolding connected_identity_def bind_r_Inr_iff refuse_if_Inr any_differs_Inr u64_differs_Inr
    string_differs_Inr require_string_eq_Inr
  by (simp only: list.set ball_simps prod.case ball_empty insert_iff) blast

lemma parse_connected_Inr:
  "parse_connected_response env response config identity now = Inr snap \<longleftrightarrow>
     (\<exists>data. data_object response = Some data \<and>
        (let capability = config_capability (ce_version env) config in
         capability_validate capability = Inr () \<and>
         connected_identity env data config identity capability = Inr () \<and>
         connected_limits data config capability = Inr ()) \<and>
        snap_generation snap = bc_generation config \<and>
        required_u64 data ''generation'' = Inr (snap_generation snap) \<and>
        required_timestamp env data ''lease_until'' = Inr (snap_lease_until snap) \<and>
        required_timestamp env data ''absolute_ttl_until'' = Inr (snap_absolute_ttl_until snap) \<and>
        now < snap_lease_until snap \<and> snap_lease_until snap \<le> snap_absolute_ttl_until snap \<and>
        required_u64 data ''lease_renew_interval_seconds'' = Inr (snap_renew_interval_seconds snap) \<and>
        required_u64 data ''lease_renew_failure_grace_seconds''
          = Inr (snap_renew_failure_grace_seconds snap))"
  unfolding parse_connected_response_def validated_capability_def Let_def
  by (cases snap) (auto simp: bind_r_Inr_iff not_le not_less simp del: required_string_Inr
      required_u64_Inr split: if_splits intro: less_le_trans)

section \<open>Properties\<close>

text \<open>A connected or renewed response that the bridge accepts comes from an active, healthy binding
  with the bridge's own binding id, generation, device, encryption key and Task Space; its lease is
  always installed in a supervisor of that generation, and, unless the generation has been revoked,
  requests are then admitted exactly until twenty seconds before the end of the lease.\<close>

theorem connected_response_installs_lease:
  assumes "parse_connected_response env response config identity now = Inr snap"
    and "ls_generation (sv_lease sv) = bc_generation config"
  shows "\<exists>sv' data. data_object response = Some data \<and>
     map_of data ''status'' = Some (JString ''active'') \<and>
     map_of data ''lease_health'' = Some (JString ''healthy'') \<and>
     map_of data ''id'' = Some (JString (bc_binding_id config)) \<and>
     map_of data ''generation'' = Some (JNumber (PosInt (bc_generation config))) \<and>
     map_of data ''ego_browser_device_id'' = Some (JString (di_device_id identity)) \<and>
     map_of data ''encryption_public_key'' = Some (JString (di_encryption_public_key identity)) \<and>
     map_of data ''task_space_label'' = Some (JString (bc_default_task_space config)) \<and>
     now < snap_lease_until snap \<and>
     update_lease sv (snap_generation snap) (snap_lease_until snap) (snap_absolute_ttl_until snap) True
       = (sv', Inr ()) \<and>
     (\<not> ls_revoked (sv_lease sv) \<longrightarrow>
       (\<forall>t. lease_admit (sv_lease sv') t default_lease_policy = Allowed \<longleftrightarrow>
          unat t + 20 \<le> unat (snap_lease_until snap)))"
proof -
  obtain data where d: "data_object response = Some data"
    and i: "connected_identity env data config identity (config_capability (ce_version env) config) = Inr ()"
    and g: "snap_generation snap = bc_generation config"
      "required_u64 data ''generation'' = Inr (snap_generation snap)"
    and l: "now < snap_lease_until snap" "snap_lease_until snap \<le> snap_absolute_ttl_until snap"
    using assms(1) unfolding parse_connected_Inr Let_def by blast
  define sv' where "sv' = fst (update_lease sv (snap_generation snap) (snap_lease_until snap)
    (snap_absolute_ttl_until snap) True)"
  have "snap_lease_until snap \<noteq> 0" using l(1) by auto
  then have u: "update_lease sv (snap_generation snap) (snap_lease_until snap)
      (snap_absolute_ttl_until snap) True = (sv', Inr ())"
    using g l assms(2) unfolding sv'_def by (simp add: update_lease_def not_less)
  have "lease_admit (sv_lease sv') t default_lease_policy = Allowed \<longleftrightarrow>
      unat t + 20 \<le> unat (snap_lease_until snap)" if "\<not> ls_revoked (sv_lease sv)" for t
    using that l(2) g assms(2) \<open>snap_lease_until snap \<noteq> 0\<close> unfolding sv'_def
    by (auto simp: update_lease_def lease_admit_Allowed default_lease_policy_def
        word_less_nat_alt word_le_nat_alt unat_sat_sub)
  with u d g l(1) i show ?thesis unfolding connected_identity_Inr by auto
qed

text \<open>A relay is dialed only with a ticket for the fixed endpoint of the binding that is unexpired
  both when it was parsed and when it is used, and only over TLS; the authorization it sends is a
  token of visible characters without quotes or backslashes, which cannot break out of a header.\<close>

theorem relay_dialed_with_valid_ticket:
  assumes "parse_relay_ticket env response binding_id generation now = Inr ticket"
    and "open_relay ticket other_binding now' answers = Inr (path, authorization)"
  shows "path = relay_path binding_id \<and> path = relay_path other_binding \<and>
    now < rt_expires_at ticket \<and> now' < rt_expires_at ticket \<and>
    dial_scheme answers = Some ''https'' \<and>
    authorization = ''Bearer '' @ rt_token ticket \<and>
    length (rt_token ticket) \<le> 4096 \<and>
    (\<forall>c \<in> set (rt_token ticket). 33 \<le> ord_of c \<and> ord_of c \<le> 126 \<and> c \<noteq> CHR 0x22 \<and> c \<noteq> CHR 0x5C) \<and>
    (\<exists>data. data_object response = Some data \<and>
       map_of data ''role'' = Some (JString ''bridge'') \<and>
       map_of data ''generation'' = Some (JNumber (PosInt generation)))"
proof -
  have t: "\<exists>data. data_object response = Some data \<and>
       map_of data ''role'' = Some (JString ''bridge'') \<and>
       map_of data ''generation'' = Some (JNumber (PosInt generation)) \<and>
       rt_path ticket = relay_path binding_id \<and> now < rt_expires_at ticket \<and>
       length (rt_token ticket) \<le> 4096 \<and>
       list_all (\<lambda>c. is_ascii_graphic c \<and> c \<noteq> CHR 0x22 \<and> c \<noteq> CHR 0x5C) (rt_token ticket)"
    using assms(1) unfolding parse_relay_ticket_def bind_r_Inr_iff refuse_if_Inr any_differs_Inr
      string_differs_Inr u64_differs_Inr if_Inl_Inr
    by (auto simp: not_le)
  have "path = rt_path ticket" "rt_path ticket = relay_path other_binding"
    "now' < rt_expires_at ticket" "dial_scheme answers = Some ''https''"
    "authorization = ''Bearer '' @ rt_token ticket"
    using assms(2) by (auto simp: open_relay_def not_le split: if_splits option.splits bool.splits)
  with t show ?thesis by (auto simp: list_all_iff is_ascii_graphic_def)
qed

text \<open>The fields of the announcement that the control plane echoes, with the names it answers under, and
  the strings it adds from the binding's record.\<close>

definition echoed_fields :: "(string \<times> string) list" where
  "echoed_fields =
     [(''encryption_public_key'', ''encryption_public_key''),
      (''bridge_protocol_version'', ''bridge_protocol_version''),
      (''local_ego_browser_runtime_version'', ''local_runtime_version''),
      (''ego_lite_runtime_version'', ''ego_lite_runtime_version''),
      (''skill_version'', ''skill_version''), (''release_profile'', ''release_profile''),
      (''signer_certificate_sha256'', ''signer_certificate_sha256''),
      (''credential_profile'', ''credential_profile''), (''allowlist_revision'', ''allowlist_revision''),
      (''allowlist_roots_digest'', ''allowlist_roots_digest''),
      (''learning_bundle_digest'', ''learning_bundle_digest''),
      (''max_parallel_requests'', ''max_parallel_requests''), (''capabilities'', ''capabilities'')]"

definition binding_record :: "bridge_config \<Rightarrow> device_identity \<Rightarrow> (string \<times> string) list" where
  "binding_record config identity =
     [(''id'', bc_binding_id config), (''ego_browser_device_id'', di_device_id identity),
      (''task_space_label'', bc_default_task_space config),
      (''control_channel'', ''ego_browser_bridge''), (''relay_binding_kind'', ''ego_browser''),
      (''authorization_mode'', ''ego_browser_script_full_trust''), (''status'', ''active''),
      (''lease_health'', ''healthy''), (''remote_platform'', ''linux''), (''local_platform'', ''macos''),
      (''concurrency_mode'', ''task_space'')]"

definition text_field :: "string \<Rightarrow> bool" where
  "text_field v \<longleftrightarrow> v \<noteq> [] \<and> length v \<le> 4096"

text \<open>What a valid capability guarantees of the announced values.\<close>

lemma capability_fields:
  assumes "capability_validate c = Inr ()"
  shows "text_field (cap_bridge_protocol_version c)" "text_field (cap_local_ego_browser_runtime_version c)"
    "text_field (cap_ego_lite_runtime_version c)" "text_field (cap_skill_version c)"
    "text_field (cap_signer_certificate_sha256 c)"
    "cap_allowlist_revision c \<noteq> 0" "0 < cap_max_parallel_requests c" "cap_max_parallel_requests c \<le> 4"
    "distinct (cap_capabilities c)" "\<forall>x \<in> set (cap_capabilities c). x \<noteq> [] \<and> length x \<le> 128"
  using assms
  by (auto simp: capability_validate_def text_field_def valid_text_id_def has_duplicates_iff
      list_ex_iff PROTOCOL_VERSION_def split: if_splits)

lemma payload_fields:
  assumes "connected_payload env config identity = Inr payload"
  defines "c \<equiv> config_capability (ce_version env) config"
  shows "capability_validate c = Inr ()"
    "json_get payload ''encryption_public_key'' = Some (JString (di_encryption_public_key identity))"
    "json_get payload ''bridge_protocol_version'' = Some (JString (cap_bridge_protocol_version c))"
    "json_get payload ''local_ego_browser_runtime_version''
       = Some (JString (cap_local_ego_browser_runtime_version c))"
    "json_get payload ''ego_lite_runtime_version'' = Some (JString (cap_ego_lite_runtime_version c))"
    "json_get payload ''skill_version'' = Some (JString (cap_skill_version c))"
    "json_get payload ''release_profile'' = Some (JString (release_profile_name (cap_release_profile c)))"
    "json_get payload ''signer_certificate_sha256'' = Some (JString (cap_signer_certificate_sha256 c))"
    "json_get payload ''credential_profile''
       = Some (JString (credential_profile_name (cap_credential_profile c)))"
    "json_get payload ''allowlist_revision'' = Some (JNumber (PosInt (cap_allowlist_revision c)))"
    "json_get payload ''allowlist_roots_digest'' = Some (JOptString (cap_allowlist_roots_digest c))"
    "json_get payload ''learning_bundle_digest'' = Some (JOptString (cap_learning_bundle_digest c))"
    "json_get payload ''max_parallel_requests''
       = Some (JNumber (PosInt (of_nat (cap_max_parallel_requests c))))"
    "json_get payload ''capabilities'' = Some (JArray (map JString (cap_capabilities c)))"
  using assms
  by (auto simp: connected_payload_def validated_capability_def Let_def bind_r_Inr_iff
      map_of_btree_of_distinct)

lemma announcement_agrees:
  assumes "connected_payload env config identity = Inr payload"
    and "data_object response = Some data"
    and "\<forall>(sent, field) \<in> set echoed_fields. map_of data field = json_get payload sent"
    and "\<forall>(field, v) \<in> set (binding_record config identity). map_of data field = Some (JString v)"
    and "text_field (bc_binding_id config)" "text_field (di_device_id identity)"
    and "text_field (bc_default_task_space config)" "text_field (di_encryption_public_key identity)"
    and "bc_generation config \<noteq> 0"
    and "map_of data ''generation'' = Some (JNumber (PosInt (bc_generation config)))"
    and "map_of data ''authorization_policy_version'' = Some (JNumber (PosInt 1))"
    and "required_timestamp env data ''lease_until'' = Inr until"
    and "required_timestamp env data ''absolute_ttl_until'' = Inr ttl" and "now < until" "until \<le> ttl"
    and "required_u64 data ''lease_renew_interval_seconds'' = Inr interval"
    and "required_u64 data ''lease_renew_failure_grace_seconds'' = Inr grace"
  shows "parse_connected_response env response config identity now =
    Inr \<lparr>snap_generation = bc_generation config, snap_lease_until = until, snap_absolute_ttl_until = ttl,
         snap_renew_interval_seconds = interval, snap_renew_failure_grace_seconds = grace\<rparr>"
proof -
  let ?c = "config_capability (ce_version env) config"
  note p = payload_fields [OF assms(1)]
  note f = capability_fields [OF p(1), unfolded text_field_def]
  have c: "cap_release_profile ?c = bc_release_profile config"
    "cap_credential_profile ?c = bc_credential_profile config"
    "cap_allowlist_revision ?c = bc_allowlist_revision config"
    "cap_max_parallel_requests ?c = bc_max_parallel_requests config"
    "cap_allowlist_roots_digest ?c = bc_allowlist_roots_digest config"
    "cap_learning_bundle_digest ?c = bc_learning_bundle_digest config"
    "cap_supported_concurrency ?c = [TaskSpaceTab, TaskSpace, Binding]"
    by (simp_all add: config_capability_def)
  have names: "text_field (release_profile_name r)" "text_field (credential_profile_name k)" for r k
    by (cases r; cases k; simp add: text_field_def)+
  have sent: "\<forall>(field, v) \<in> set
       [(''encryption_public_key'', di_encryption_public_key identity),
        (''bridge_protocol_version'', cap_bridge_protocol_version ?c),
        (''local_runtime_version'', cap_local_ego_browser_runtime_version ?c),
        (''ego_lite_runtime_version'', cap_ego_lite_runtime_version ?c),
        (''skill_version'', cap_skill_version ?c),
        (''release_profile'', release_profile_name (bc_release_profile config)),
        (''signer_certificate_sha256'', cap_signer_certificate_sha256 ?c),
        (''credential_profile'', credential_profile_name (bc_credential_profile config))].
       required_string data field = Inr v"
    using assms(3,8) p names f(1-5)
    by (simp add: echoed_fields_def text_field_def c)
  have rest: "map_of data ''allowlist_revision'' = Some (JNumber (PosInt (bc_allowlist_revision config)))"
    "map_of data ''max_parallel_requests''
       = Some (JNumber (PosInt (of_nat (bc_max_parallel_requests config))))"
    "map_of data ''allowlist_roots_digest'' = Some (JOptString (bc_allowlist_roots_digest config))"
    "map_of data ''learning_bundle_digest'' = Some (JOptString (bc_learning_bundle_digest config))"
    "map_of data ''capabilities'' = Some (JArray (map JString (cap_capabilities ?c)))"
    using assms(3) p by (simp_all add: echoed_fields_def c)
  have known: "\<forall>(field, v) \<in> set (binding_record config identity). required_string data field = Inr v"
    using assms(4-7) by (simp add: binding_record_def text_field_def)
  have small: "(of_nat (bc_max_parallel_requests config) :: u64) \<noteq> 0"
    using f(7,8) by (simp add: c word_of_nat_eq_0_iff) (auto dest: dvd_imp_le)
  have identity_ok: "connected_identity env data config identity ?c = Inr ()"
    using sent known assms(11) unfolding connected_identity_Inr
    by (simp only: binding_record_def list.set ball_simps prod.case REMOTE_PLATFORM_def
        LOCAL_PLATFORM_def required_u64_Inr) simp
  have caps: "required_capabilities data ''capabilities'' = Inr (cap_capabilities ?c)"
    using f(9,10) by (simp add: required_capabilities_def rest collect_capabilities_Inr)
  have "required_string data ''concurrency_mode'' = Inr ''task_space''"
    using known by (simp only: binding_record_def list.set ball_simps prod.case)
  then have "connected_limits data config ?c = Inr ()"
    unfolding connected_limits_Inr using rest caps f(6) small
    by (auto simp: c concurrency_mode_of_def)
  then show ?thesis
    unfolding parse_connected_Inr Let_def using assms(2,9,10,12-17) p(1) identity_ok by simp
qed

text \<open>The announcement and the check agree: a control plane that answers the bridge's own
  announcement with the announced values, the binding's record and a running lease is always
  accepted, with exactly that lease.\<close>

theorem echoed_announcement_accepted:
  assumes "connected_payload env config identity = Inr payload"
    and "data_object response = Some data"
    and "\<forall>(sent, field) \<in> set echoed_fields. map_of data field = json_get payload sent"
    and "\<forall>(field, v) \<in> set (binding_record config identity). map_of data field = Some (JString v)"
    and "text_field (bc_binding_id config)" "text_field (di_device_id identity)"
    and "text_field (bc_default_task_space config)" "text_field (di_encryption_public_key identity)"
    and "bc_generation config \<noteq> 0"
    and "map_of data ''generation'' = Some (JNumber (PosInt (bc_generation config)))"
    and "map_of data ''authorization_policy_version'' = Some (JNumber (PosInt 1))"
    and "required_timestamp env data ''lease_until'' = Inr until"
    and "required_timestamp env data ''absolute_ttl_until'' = Inr ttl" and "now < until" "until \<le> ttl"
    and "required_u64 data ''lease_renew_interval_seconds'' = Inr interval"
    and "required_u64 data ''lease_renew_failure_grace_seconds'' = Inr grace"
  shows "parse_connected_response env response config identity now =
    Inr \<lparr>snap_generation = bc_generation config, snap_lease_until = until, snap_absolute_ttl_until = ttl,
         snap_renew_interval_seconds = interval, snap_renew_failure_grace_seconds = grace\<rparr>"
  using assms by (rule announcement_agrees)

text \<open>The witnesses: the sample configuration announces itself to a control plane that echoes it.\<close>

definition sample_control :: control_env where
  "sample_control = \<lparr>ce_timestamp = (\<lambda>t. if t = ''soon'' then Some 2000 else Some 9000),
     ce_error_text = (\<lambda>_. ''error''), ce_io_text = (\<lambda>_. ''io''), ce_version = ''0.1.13''\<rparr>"

definition sample_identity :: device_identity where
  "sample_identity = \<lparr>di_device_id = ''dev'', di_generation = 1, di_release_profile = ''development-local'',
     di_credential_profile = ''community_file'', di_legacy_encryption_key = False,
     di_encryption_public_key = ''key'', di_encryption_secret = []\<rparr>"

definition sample_echo :: "json \<Rightarrow> json_object" where
  "sample_echo payload =
     map (\<lambda>(sent, field). (field, the (json_get payload sent))) echoed_fields
     @ map (\<lambda>(field, v). (field, JString v)) (binding_record sample_config sample_identity)
     @ [(''generation'', JNumber (PosInt 2)), (''authorization_policy_version'', JNumber (PosInt 1)),
        (''lease_until'', JString ''soon''), (''absolute_ttl_until'', JString ''late''),
        (''lease_renew_interval_seconds'', JNumber (PosInt 20)),
        (''lease_renew_failure_grace_seconds'', JNumber (PosInt 10))]"

definition sample_lease :: lease_snapshot where
  "sample_lease = \<lparr>snap_generation = 2, snap_lease_until = 2000, snap_absolute_ttl_until = 9000,
     snap_renew_interval_seconds = 20, snap_renew_failure_grace_seconds = 10\<rparr>"

lemma sample_payload:
  "\<exists>payload. connected_payload sample_control sample_config sample_identity = Inr payload"
  using sample_capability
  by (simp add: connected_payload_def validated_capability_def Let_def sample_control_def)

lemma sample_echo_fields:
  assumes "connected_payload sample_control sample_config sample_identity = Inr payload"
  shows "\<forall>(sent, field) \<in> set echoed_fields. map_of (sample_echo payload) field = json_get payload sent"
    "\<forall>(field, v) \<in> set (binding_record sample_config sample_identity).
       map_of (sample_echo payload) field = Some (JString v)"
    "map_of (sample_echo payload) ''generation'' = Some (JNumber (PosInt 2))"
    "map_of (sample_echo payload) ''authorization_policy_version'' = Some (JNumber (PosInt 1))"
    "required_string (sample_echo payload) ''lease_until'' = Inr ''soon''"
    "required_string (sample_echo payload) ''absolute_ttl_until'' = Inr ''late''"
    "required_u64 (sample_echo payload) ''lease_renew_interval_seconds'' = Inr 20"
    "required_u64 (sample_echo payload) ''lease_renew_failure_grace_seconds'' = Inr 10"
  using payload_fields [OF assms]
  by (simp_all add: sample_echo_def echoed_fields_def binding_record_def)

lemma sample_times:
  assumes "connected_payload sample_control sample_config sample_identity = Inr payload"
  shows "required_timestamp sample_control (sample_echo payload) ''lease_until'' = Inr 2000"
    "required_timestamp sample_control (sample_echo payload) ''absolute_ttl_until'' = Inr 9000"
  unfolding required_timestamp_def sample_echo_fields(5,6) [OF assms]
  by (simp_all add: parse_timestamp_def sample_control_def)

lemma sample_accepted:
  assumes "connected_payload sample_control sample_config sample_identity = Inr payload"
  shows "parse_connected_response sample_control (JObject [(''data'', JObject (sample_echo payload))])
    sample_config sample_identity 1000 = Inr sample_lease"
  unfolding sample_lease_def sample_config_fields(3) [symmetric]
  by (rule announcement_agrees [OF assms _ sample_echo_fields(1,2) [OF assms]])
    (use sample_echo_fields(3,4,7,8) [OF assms] sample_times [OF assms] in \<open>simp_all add: data_object_def text_field_def
        sample_config_fields sample_identity_def\<close>)

theorem echoed_announcement_accepted_witness:
  "\<exists>payload. parse_connected_response sample_control
     (JObject [(''data'', JObject (sample_echo payload))]) sample_config sample_identity 1000
     = Inr \<lparr>snap_generation = bc_generation sample_config, snap_lease_until = 2000,
          snap_absolute_ttl_until = 9000, snap_renew_interval_seconds = 20,
          snap_renew_failure_grace_seconds = 10\<rparr>"
proof -
  obtain payload where p: "connected_payload sample_control sample_config sample_identity = Inr payload"
    using sample_payload by blast
  from echoed_announcement_accepted [OF p _ sample_echo_fields(1,2) [OF p], of
      "JObject [(''data'', JObject (sample_echo payload))]" 2000 9000 1000 20 10]
  show ?thesis using sample_echo_fields(3,4,7,8) [OF p] sample_times [OF p]
    by (auto simp: data_object_def text_field_def sample_config_fields sample_identity_def)
qed

theorem connected_response_installs_lease_witness:
  "\<exists>sv'. update_lease sample_supervisor 2 2000 9000 True = (sv', Inr ()) \<and>
     lease_admit (sv_lease sv') 1980 default_lease_policy = Allowed \<and>
     lease_admit (sv_lease sv') 1981 default_lease_policy \<noteq> Allowed"
proof -
  obtain payload where p: "connected_payload sample_control sample_config sample_identity = Inr payload"
    using sample_payload by blast
  have "ls_generation (sv_lease sample_supervisor) = bc_generation sample_config"
    by (simp add: sample_supervisor_def lease_new_def sample_config_fields)
  from connected_response_installs_lease [OF sample_accepted [OF p] this]
  show ?thesis by (auto simp: sample_lease_def sample_supervisor_def lease_new_def)
qed

definition sample_ticket_response :: json where
  "sample_ticket_response = JObject [(''data'', JObject
     [(''role'', JString ''bridge''), (''generation'', JNumber (PosInt 2)),
      (''relay_binding_kind'', JString ''ego_browser''),
      (''relay_path'', JString (relay_path ''b-1'')), (''relay_ticket'', JString ''abc''),
      (''expires_at'', JString ''soon'')])]"

definition sample_ticket :: relay_ticket where
  "sample_ticket = \<lparr>rt_path = relay_path ''b-1'', rt_token = ''abc'', rt_expires_at = 2000\<rparr>"

definition sample_dial :: dial_answers where
  "sample_dial = \<lparr>dial_scheme = Some ''https'', dial_set_scheme = True, dial_request = True,
     dial_header = True, dial_connects = Some True\<rparr>"

lemma sample_ticket_parsed:
  "parse_relay_ticket sample_control sample_ticket_response ''b-1'' 2 1000 = Inr sample_ticket"
  by (simp add: sample_ticket_response_def sample_ticket_def parse_relay_ticket_def data_object_def
      refuse_if_def any_differs.simps string_differs_def u64_differs_def required_string_def
      required_u64_def filter_opt_def relay_path_def is_ascii_graphic_def parse_timestamp_def
      sample_control_def)

lemma sample_ticket_dialed:
  "open_relay sample_ticket ''b-1'' 1990 sample_dial = Inr (relay_path ''b-1'', ''Bearer abc'')"
  by (simp add: open_relay_def sample_ticket_def sample_dial_def)

theorem relay_dialed_with_valid_ticket_witness:
  "open_relay sample_ticket ''b-1'' 1990 sample_dial = Inr (relay_path ''b-1'', ''Bearer abc'') \<and>
   1990 < rt_expires_at sample_ticket"
  using relay_dialed_with_valid_ticket [OF sample_ticket_parsed sample_ticket_dialed]
    sample_ticket_dialed by blast

end
