(* ===== verification/Lease_Observer.thy ===== *)
theory Lease_Observer
  imports Control_Response
begin

text \<open>
  The task that keeps the lease alive, \<open>run_lease_observer_loop\<close> of
  \<open>crates/local-bridge/src/relay_session.rs\<close>.  One round of its loop is a function from its state to
  the next state or to the end of the loop.  The clock, the stored policy and the answers of the
  control plane are given with the round.
\<close>

section \<open>State and rounds\<close>

text \<open>\<open>lo_delay\<close> is the number of seconds the next round sleeps.\<close>

record observer =
  lo_sv :: supervisor
  lo_interval :: u64
  lo_grace :: u64
  lo_delay :: u64

text \<open>What ends the sleep: the stop channel is gone or holds this value, or the delay is over.\<close>

datatype wake = StopGone | StopValue bool | Slept

datatype renew_answer = RenewResponse json | RenewRefused credential_error | RenewTimedOut

record observer_round =
  or_wake :: wake
  or_stopped :: bool
  or_policy :: "credential_error + verified_local_policy"
  or_answer :: renew_answer
  or_parse_now :: u64
  or_fail_now :: u64

datatype observer_result = Observes observer | ObserverEnds supervisor

section \<open>One round\<close>

definition verify_policy_snapshot ::
  "control_env \<Rightarrow> credential_error + verified_local_policy \<Rightarrow> bridge_config \<Rightarrow> bridge_error + unit" where
  "verify_policy_snapshot env loaded config =
     bind_r (map_err (map_credential_error env) loaded) (\<lambda>policy.
       if \<not> policy_matches config policy
       then Inl (ProtocolMessage ''local policy changed; explicit binding resume is required'')
       else Inr ())"

definition observer_start :: "supervisor \<Rightarrow> u64 \<Rightarrow> u64 \<Rightarrow> observer" where
  "observer_start sv interval grace =
     \<lparr>lo_sv = sv, lo_interval = max interval 1, lo_grace = max grace 1, lo_delay = max interval 1\<rparr>"

definition renewal_fails :: "observer \<Rightarrow> u64 \<Rightarrow> observer_result" where
  "renewal_fails s now =
     (case mark_renewal_failed (lo_sv s) (lo_grace s) now of
        (sv, Inl _) \<Rightarrow> ObserverEnds sv
      | (sv, Inr _) \<Rightarrow> Observes (s\<lparr>lo_sv := sv, lo_delay := 1\<rparr>))"

definition renewal_succeeds :: "observer \<Rightarrow> lease_snapshot \<Rightarrow> observer_result" where
  "renewal_succeeds s snap =
     (case update_lease (lo_sv s) (snap_generation snap) (snap_lease_until snap)
        (snap_absolute_ttl_until snap) True of
        (sv, Inl _) \<Rightarrow> ObserverEnds (revoke sv)
      | (sv, Inr _) \<Rightarrow>
          let interval = max (snap_renew_interval_seconds snap) 1 in
          Observes \<lparr>lo_sv = sv, lo_interval = interval,
             lo_grace = max (snap_renew_failure_grace_seconds snap) 1, lo_delay = interval\<rparr>)"

definition observer_step ::
  "control_env \<Rightarrow> bridge_config \<Rightarrow> device_identity \<Rightarrow> observer \<Rightarrow> observer_round \<Rightarrow> observer_result" where
  "observer_step env config identity s r =
     (if or_wake r = StopGone \<or> or_wake r = StopValue True \<or> or_stopped r
      then ObserverEnds (lo_sv s)
      else if \<not> is_ok (verify_policy_snapshot env (or_policy r) config)
      then ObserverEnds (revoke (lo_sv s))
      else case or_answer r of
        RenewResponse value \<Rightarrow>
          (case parse_connected_response env value config identity (or_parse_now r) of
             Inr snap \<Rightarrow> renewal_succeeds s snap
           | Inl _ \<Rightarrow> renewal_fails s (or_fail_now r))
      | RenewRefused error \<Rightarrow>
          if \<not> is_retryable_control_error error then ObserverEnds (revoke (lo_sv s))
          else renewal_fails s (or_fail_now r)
      | RenewTimedOut \<Rightarrow> renewal_fails s (or_fail_now r))"

text \<open>A run of the loop.  The supervisor is shared with the other tasks of the bridge, so each round
  comes with the supervisor it finds.\<close>

fun observer_run ::
  "control_env \<Rightarrow> bridge_config \<Rightarrow> device_identity \<Rightarrow> observer \<Rightarrow> (supervisor \<times> observer_round) list \<Rightarrow>
     observer_result" where
  "observer_run env config identity s [] = Observes s"
| "observer_run env config identity s ((sv, r) # rounds) =
     (case observer_step env config identity (s\<lparr>lo_sv := sv\<rparr>) r of
        ObserverEnds sv \<Rightarrow> ObserverEnds sv
      | Observes s \<Rightarrow> observer_run env config identity s rounds)"

definition stop_signalled :: "observer_round \<Rightarrow> bool" where
  "stop_signalled r \<longleftrightarrow> or_wake r = StopGone \<or> or_wake r = StopValue True \<or> or_stopped r"

definition renewed_by :: "control_env \<Rightarrow> bridge_config \<Rightarrow> device_identity \<Rightarrow> observer_round \<Rightarrow> lease_snapshot option" where
  "renewed_by env config identity r =
     (case or_answer r of
        RenewResponse value \<Rightarrow>
          (case parse_connected_response env value config identity (or_parse_now r) of
             Inr snap \<Rightarrow> Some snap | Inl _ \<Rightarrow> None)
      | _ \<Rightarrow> None)"

section \<open>Invariants of the loop\<close>

lemma word_max_1: "(0::u64) < max x 1" "max x (1::u64) \<noteq> 0" "(1::u64) \<le> max x 1"
  by (auto simp: max_def word_le_nat_alt word_less_nat_alt)

lemma sat_add_gt:
  fixes a :: u64
  assumes "a < b" "g \<noteq> 0"
  shows "a < sat_add a g"
proof -
  have "a < - 1" using assms(1) by (rule less_le_trans) simp
  then show ?thesis
    using assms(2) unat_sat_add [of a g] unat_max_word [where ?'w = 64]
    by (auto simp: word_less_nat_alt min_def unat_eq_zero [symmetric] split: if_splits)
qed

lemma revoke_lease [simp]: "ls_revoked (sv_lease (revoke sv))" "sv_cancelled (revoke sv)"
  by (simp_all add: revoke_def clear_permits_def lease_revoke_def)

lemma renewal_fails_Observes:
  assumes "renewal_fails s now = Observes s'"
  shows "sv_lease (lo_sv s') = (if ls_health (sv_lease (lo_sv s)) \<noteq> RenewalGrace
      then (sv_lease (lo_sv s))\<lparr>ls_health := RenewalGrace, ls_grace_until := Some (sat_add now (lo_grace s))\<rparr>
      else sv_lease (lo_sv s))"
    "now < ls_absolute_ttl_until (sv_lease (lo_sv s))"
    "\<forall>d. ls_grace_until (sv_lease (lo_sv s')) = Some d \<longrightarrow> now < d"
    "lo_grace s' = lo_grace s" "lo_interval s' = lo_interval s" "lo_delay s' = 1"
    "\<not> ls_revoked (sv_lease (lo_sv s))"
  using assms
  by (auto simp: renewal_fails_def mark_renewal_failed_def Let_def is_some_and_def not_le
      split: prod.splits sum.splits if_splits option.splits)

lemma renewal_fails_Ends:
  assumes "renewal_fails s now = ObserverEnds sv" "lo_grace s \<noteq> 0"
  shows "ls_revoked (sv_lease sv) \<and> (sv_cancelled sv \<or> ls_revoked (sv_lease (lo_sv s)))"
  using assms
  by (auto simp: renewal_fails_def mark_renewal_failed_def Let_def lease_revoke_def
      split: prod.splits sum.splits if_splits option.splits)

lemma renewal_succeeds_Observes:
  assumes "renewal_succeeds s snap = Observes s'"
  shows "sv_lease (lo_sv s') = (sv_lease (lo_sv s))\<lparr>ls_lease_until := snap_lease_until snap,
      ls_absolute_ttl_until := snap_absolute_ttl_until snap, ls_health := Healthy, ls_grace_until := None\<rparr>"
    "lo_grace s' = max (snap_renew_failure_grace_seconds snap) 1"
    "lo_interval s' = max (snap_renew_interval_seconds snap) 1" "lo_delay s' = lo_interval s'"
  using assms
  by (auto simp: renewal_succeeds_def update_lease_def Let_def split: prod.splits sum.splits if_splits)

lemma observer_step_cases:
  assumes "observer_step env config identity s r = Observes s'"
  obtains (renewed) snap where "renewed_by env config identity r = Some snap"
      "renewal_succeeds s snap = Observes s'"
  | (failed) "renewed_by env config identity r = None" "renewal_fails s (or_fail_now r) = Observes s'"
  using assms
  by (auto simp: observer_step_def renewed_by_def split: if_splits renew_answer.splits sum.splits)

lemma observer_step_grace:
  assumes "observer_step env config identity s r = Observes s'" "lo_grace s \<noteq> 0"
  shows "lo_grace s' \<noteq> 0"
  using assms(1)
proof (cases rule: observer_step_cases)
  case (renewed snap)
  then show ?thesis using renewal_succeeds_Observes(2) word_max_1(2) by simp
next
  case failed
  then show ?thesis using renewal_fails_Observes(4) assms(2) by simp
qed

lemma observer_step_Ends:
  assumes "observer_step env config identity s r = ObserverEnds sv" "lo_grace s \<noteq> 0" "\<not> stop_signalled r"
  shows "ls_revoked (sv_lease sv) \<and> (sv_cancelled sv \<or> ls_revoked (sv_lease (lo_sv s)))"
  using assms renewal_fails_Ends [of s "or_fail_now r" sv]
  by (auto simp: observer_step_def stop_signalled_def renewal_succeeds_def Let_def
      split: if_splits renew_answer.splits sum.splits prod.splits)

text \<open>A failed round in the grace period of a first failure changes nothing of the lease.\<close>

lemma failed_in_grace:
  assumes "observer_step env config identity s r = Observes s'" "renewed_by env config identity r = None"
    and "ls_health (sv_lease (lo_sv s)) = RenewalGrace" "ls_grace_until (sv_lease (lo_sv s)) = Some d"
  shows "sv_lease (lo_sv s') = sv_lease (lo_sv s)" "or_fail_now r < d"
proof -
  from assms(1) have "renewal_fails s (or_fail_now r) = Observes s'"
    by (cases rule: observer_step_cases) (use assms(2) in auto)
  note f = renewal_fails_Observes [OF this]
  show "sv_lease (lo_sv s') = sv_lease (lo_sv s)" "or_fail_now r < d"
    using f(1,3) assms(3,4) by simp_all
qed

text \<open>Between two rounds the other tasks leave the lease alone or revoke it.\<close>

fun lease_undisturbed ::
  "control_env \<Rightarrow> bridge_config \<Rightarrow> device_identity \<Rightarrow> observer \<Rightarrow> (supervisor \<times> observer_round) list \<Rightarrow> bool" where
  "lease_undisturbed env config identity s [] = True"
| "lease_undisturbed env config identity s ((sv, r) # rounds) =
     ((sv_lease sv = sv_lease (lo_sv s) \<or> ls_revoked (sv_lease sv)) \<and>
      (case observer_step env config identity (s\<lparr>lo_sv := sv\<rparr>) r of
         ObserverEnds _ \<Rightarrow> True | Observes s \<Rightarrow> lease_undisturbed env config identity s rounds))"

lemma outage_in_grace:
  assumes "observer_run env config identity s rounds = Observes s'"
    and "lease_undisturbed env config identity s rounds"
    and "\<forall>(sv, r) \<in> set rounds. renewed_by env config identity r = None"
    and "ls_health (sv_lease (lo_sv s)) = RenewalGrace" "ls_grace_until (sv_lease (lo_sv s)) = Some d"
  shows "sv_lease (lo_sv s') = sv_lease (lo_sv s) \<and> (\<forall>(sv, r) \<in> set rounds. or_fail_now r < d)"
  using assms
proof (induction rounds arbitrary: s)
  case (Cons p rounds)
  obtain sv r where p: "p = (sv, r)" by (cases p)
  obtain s1 where step: "observer_step env config identity (s\<lparr>lo_sv := sv\<rparr>) r = Observes s1"
    and run: "observer_run env config identity s1 rounds = Observes s'"
    using Cons.prems(1) by (auto simp: p split: observer_result.splits)
  have none: "renewed_by env config identity r = None" using Cons.prems(3) by (simp add: p)
  from step none have "\<not> ls_revoked (sv_lease sv)"
    by (cases rule: observer_step_cases) (auto dest: renewal_fails_Observes(7))
  with Cons.prems(2) have same: "sv_lease sv = sv_lease (lo_sv s)" by (simp add: p)
  have g: "sv_lease (lo_sv s1) = sv_lease (lo_sv s)" "or_fail_now r < d"
    using failed_in_grace [OF step none, of d] Cons.prems(4,5) same by simp_all
  have "lease_undisturbed env config identity s1 rounds" using Cons.prems(2) step by (simp add: p)
  from Cons.IH [OF run this] Cons.prems(3-5) g show ?case by (simp add: p)
qed simp

section \<open>Properties\<close>

text \<open>C18: the lease observer fails closed: when it ends and nobody asked it to stop, the generation is
  revoked, and its executions are cancelled unless another task had revoked it before; whatever the
  other tasks do to the supervisor in between.\<close>

theorem observer_fails_closed:
  assumes "observer_run env config identity (observer_start sv interval grace) rounds = ObserverEnds sv'"
    and "\<forall>(sv, r) \<in> set rounds. \<not> stop_signalled r"
  shows "ls_revoked (sv_lease sv') \<and>
    (sv_cancelled sv' \<or> (\<exists>(sv, r) \<in> set rounds. ls_revoked (sv_lease sv)))"
proof -
  have "ls_revoked (sv_lease sv') \<and> (sv_cancelled sv' \<or> (\<exists>(sv, r) \<in> set rounds. ls_revoked (sv_lease sv)))"
    if "observer_run env config identity s rounds = ObserverEnds sv'" "lo_grace s \<noteq> 0"
      "\<forall>(sv, r) \<in> set rounds. \<not> stop_signalled r" for s
    using that
  proof (induction rounds arbitrary: s)
    case (Cons p rounds)
    obtain sv r where p: "p = (sv, r)" by (cases p)
    show ?case
    proof (cases "observer_step env config identity (s\<lparr>lo_sv := sv\<rparr>) r")
      case (Observes s1)
      then have "lo_grace s1 \<noteq> 0" using observer_step_grace Cons.prems(2) by fastforce
      with Cons Observes show ?thesis by (auto simp: p)
    next
      case (ObserverEnds sv1)
      then show ?thesis
        using observer_step_Ends [OF ObserverEnds] Cons.prems by (auto simp: p)
    qed
  qed simp
  then show ?thesis using assms word_max_1(2) by (simp add: observer_start_def)
qed

text \<open>An outage of the control plane closes the bridge within one grace period.  From the first
  failed renewal on nothing is admitted, and the loop is still running after further failures only
  if all of them happened before the deadline that the first one set; a failure at or after it ends
  the loop, and then the generation is revoked.\<close>

theorem outage_bounded_by_grace:
  assumes "observer_run env config identity s ((sv, first) # rounds) = Observes s'"
    and "lease_undisturbed env config identity s ((sv, first) # rounds)"
    and "\<forall>(sv, r) \<in> set ((sv, first) # rounds). renewed_by env config identity r = None"
    and "ls_health (sv_lease (lo_sv s)) = Healthy"
  shows "(\<forall>(sv, r) \<in> set rounds. or_fail_now r < sat_add (or_fail_now first) (lo_grace s)) \<and>
    (\<forall>now. lease_admit (sv_lease (lo_sv s')) now default_lease_policy \<noteq> Allowed)"
proof -
  obtain s1 where step: "observer_step env config identity (s\<lparr>lo_sv := sv\<rparr>) first = Observes s1"
    and run: "observer_run env config identity s1 rounds = Observes s'"
    using assms(1) by (auto split: observer_result.splits)
  have none: "renewed_by env config identity first = None" using assms(3) by simp
  from step have fail: "renewal_fails (s\<lparr>lo_sv := sv\<rparr>) (or_fail_now first) = Observes s1"
    by (cases rule: observer_step_cases) (use none in auto)
  note f = renewal_fails_Observes [OF fail]
  have "sv_lease sv = sv_lease (lo_sv s)" using f(7) assms(2) by simp
  then have g: "ls_health (sv_lease (lo_sv s1)) = RenewalGrace"
    "ls_grace_until (sv_lease (lo_sv s1)) = Some (sat_add (or_fail_now first) (lo_grace s))"
    using f(1) assms(4) by simp_all
  have "lease_undisturbed env config identity s1 rounds" using assms(2) step by simp
  from outage_in_grace [OF run this _ g] assms(3) g show ?thesis by (simp add: lease_admit_def)
qed

text \<open>Whether an outage gets its grace period depends on how the server words it.  A server error
  that carries only its HTTP status keeps the lease in its grace period; the same status together
  with an error code in the body revokes the generation at once.\<close>

theorem coded_server_error_revokes:
  assumes "\<not> stop_signalled r" "verify_policy_snapshot env (or_policy r) config = Inr ()"
    and "ls_health (sv_lease (lo_sv s)) = Healthy" "\<not> ls_revoked (sv_lease (lo_sv s))"
    and "or_fail_now r < ls_absolute_ttl_until (sv_lease (lo_sv s))"
    and "lo_grace s \<noteq> 0"
    and "500 \<le> status" "status \<le> 599"
  shows "observer_step env config identity s (r\<lparr>or_answer := RenewRefused (ApiCode status code)\<rparr>)
           = ObserverEnds (revoke (lo_sv s)) \<and>
    (\<exists>s'. observer_step env config identity s (r\<lparr>or_answer := RenewRefused (Api status)\<rparr>) = Observes s' \<and>
       \<not> ls_revoked (sv_lease (lo_sv s')))"
proof -
  have "\<exists>s'. renewal_fails s (or_fail_now r) = Observes s' \<and> \<not> ls_revoked (sv_lease (lo_sv s'))"
    using assms(3-6) sat_add_gt [OF assms(5,6)]
    by (auto simp: renewal_fails_def mark_renewal_failed_def Let_def is_some_and_def not_le)
  with assms(1,2,7,8) show ?thesis
    by (auto simp: observer_step_def stop_signalled_def)
qed

text \<open>The witnesses run the loop for the sample supervisor, whose lease ends at 1060.\<close>

definition sample_round :: "renew_answer \<Rightarrow> u64 \<Rightarrow> observer_round" where
  "sample_round answer now = \<lparr>or_wake = Slept, or_stopped = False, or_policy = Inr sample_policy,
     or_answer = answer, or_parse_now = now, or_fail_now = now\<rparr>"

lemma sample_policy_matches: "verify_policy_snapshot sample_control (Inr sample_policy) sample_config = Inr ()"
  by (simp add: verify_policy_snapshot_def policy_matches_def sample_config_def apply_verified_policy_def
      Let_def split: option.split)

lemma sample_lease_fields:
  "ls_health (sv_lease sample_supervisor) = Healthy" "\<not> ls_revoked (sv_lease sample_supervisor)"
  "ls_absolute_ttl_until (sv_lease sample_supervisor) = 29800"
  by (simp_all add: sample_supervisor_def lease_new_def default_lease_policy_def sat_add_def)

theorem observer_fails_closed_witness:
  "\<exists>sv'. observer_run sample_control sample_config sample_identity (observer_start sample_supervisor 20 10)
     [(sample_supervisor, (sample_round RenewTimedOut 1020)\<lparr>or_policy := Inl Missing\<rparr>)] = ObserverEnds sv' \<and>
     ls_revoked (sv_lease sv') \<and> sv_cancelled sv'"
proof -
  let ?rounds = "[(sample_supervisor, (sample_round RenewTimedOut 1020)\<lparr>or_policy := Inl Missing\<rparr>)]"
  have "observer_run sample_control sample_config sample_identity (observer_start sample_supervisor 20 10)
      ?rounds = ObserverEnds (revoke sample_supervisor)"
    by (simp add: observer_step_def sample_round_def verify_policy_snapshot_def)
  from observer_fails_closed [OF this] this show ?thesis
    by (auto simp: stop_signalled_def sample_round_def sample_lease_fields)
qed

theorem outage_bounded_by_grace_witness:
  "\<exists>s'. observer_run sample_control sample_config sample_identity (observer_start sample_supervisor 20 10)
       [(sample_supervisor, sample_round RenewTimedOut 1020)] = Observes s' \<and>
     (\<forall>now. lease_admit (sv_lease (lo_sv s')) now default_lease_policy \<noteq> Allowed)"
proof -
  let ?s = "observer_start sample_supervisor 20 10" and ?r = "sample_round RenewTimedOut 1020"
  have "\<exists>s'. observer_step sample_control sample_config sample_identity (?s\<lparr>lo_sv := sample_supervisor\<rparr>) ?r
      = Observes s'"
    using sample_lease_fields
    by (simp add: observer_step_def sample_round_def sample_policy_matches renewal_fails_def
        mark_renewal_failed_def observer_start_def is_some_and_def sat_add_def)
  then obtain s' where run: "observer_run sample_control sample_config sample_identity ?s
      [(sample_supervisor, ?r)] = Observes s'"
    by (auto split: observer_result.splits)
  have "lease_undisturbed sample_control sample_config sample_identity ?s [(sample_supervisor, ?r)]"
    by (simp add: observer_start_def split: observer_result.split)
  from outage_bounded_by_grace [OF run this] run show ?thesis
    by (auto simp: renewed_by_def sample_round_def observer_start_def sample_lease_fields)
qed

theorem coded_server_error_revokes_witness:
  "observer_step sample_control sample_config sample_identity (observer_start sample_supervisor 20 10)
     (sample_round (RenewRefused (ApiCode 503 ''server_unreachable'')) 1020)
     = ObserverEnds (revoke sample_supervisor)"
proof -
  have "observer_step sample_control sample_config sample_identity (observer_start sample_supervisor 20 10)
     ((sample_round RenewTimedOut 1020)\<lparr>or_answer := RenewRefused (ApiCode 503 ''server_unreachable'')\<rparr>)
     = ObserverEnds (revoke (lo_sv (observer_start sample_supervisor 20 10)))"
    by (rule coded_server_error_revokes [THEN conjunct1])
      (simp_all add: stop_signalled_def sample_round_def sample_policy_matches observer_start_def
        sample_lease_fields)
  then show ?thesis by (simp add: sample_round_def observer_start_def)
qed

end
