(* ===== verification/Utf8_Lossy.thy ===== *)
theory Utf8_Lossy
  imports Prelude
begin

text \<open>
  \<open>String::from_utf8_lossy\<close>, which the bridge applies to the captured output of a process: every
  well-formed character is kept, and every maximal ill-formed prefix becomes one U+FFFD, three bytes
  long.
\<close>

definition three_lead :: "char \<Rightarrow> char \<Rightarrow> bool" where
  "three_lead a b \<longleftrightarrow> 0xE0 \<le> ord_of a \<and> ord_of a \<le> 0xEF \<and> utf8_cont b \<and>
     (ord_of a = 0xE0 \<longrightarrow> 0xA0 \<le> ord_of b) \<and> (ord_of a = 0xED \<longrightarrow> ord_of b \<le> 0x9F)"

definition four_lead :: "char \<Rightarrow> char \<Rightarrow> bool" where
  "four_lead a b \<longleftrightarrow> 0xF0 \<le> ord_of a \<and> ord_of a \<le> 0xF4 \<and> utf8_cont b \<and>
     (ord_of a = 0xF0 \<longrightarrow> 0x90 \<le> ord_of b) \<and> (ord_of a = 0xF4 \<longrightarrow> ord_of b \<le> 0x8F)"

text \<open>The length of the first unit of a non-empty string, and whether it is a character.\<close>

fun utf8_head :: "string \<Rightarrow> nat \<times> bool" where
  "utf8_head [] = (1, False)"
| "utf8_head [a] = (1, ord_of a < 128)"
| "utf8_head [a, b] =
     (if ord_of a < 128 then (1, True)
      else if utf8_two a b then (2, True)
      else if three_lead a b \<or> four_lead a b then (2, False)
      else (1, False))"
| "utf8_head [a, b, c] =
     (if ord_of a < 128 then (1, True)
      else if utf8_two a b then (2, True)
      else if three_lead a b then (if utf8_cont c then (3, True) else (2, False))
      else if four_lead a b then (if utf8_cont c then (3, False) else (2, False))
      else (1, False))"
| "utf8_head (a # b # c # d # s) =
     (if ord_of a < 128 then (1, True)
      else if utf8_two a b then (2, True)
      else if three_lead a b then (if utf8_cont c then (3, True) else (2, False))
      else if four_lead a b
      then (if \<not> utf8_cont c then (2, False) else if utf8_cont d then (4, True) else (3, False))
      else (1, False))"

definition replacement_character :: string where
  "replacement_character = [CHR 0xEF, CHR 0xBF, CHR 0xBD]"

lemma utf8_head_length: "s \<noteq> [] \<Longrightarrow> 0 < fst (utf8_head s) \<and> fst (utf8_head s) \<le> length s"
  by (cases s rule: utf8_head.cases) auto

function utf8_lossy :: "string \<Rightarrow> string" where
  "utf8_lossy s =
     (if s = [] then []
      else (if snd (utf8_head s) then take (fst (utf8_head s)) s else replacement_character)
        @ utf8_lossy (drop (fst (utf8_head s)) s))"
  by pat_completeness auto

termination
  by (relation "measure length") (use utf8_head_length in force)+

declare utf8_lossy.simps [simp del]

lemma utf8_lossy_Nil [simp]: "utf8_lossy [] = []"
  by (simp add: utf8_lossy.simps)

lemma utf8_head_valid: "snd (utf8_head s) \<Longrightarrow> valid_utf8 (take (fst (utf8_head s)) s)"
  by (cases s rule: utf8_head.cases)
    (auto simp: utf8_two_def utf8_three_def utf8_four_def three_lead_def four_lead_def
      split: if_splits)

lemma valid_utf8_append: "valid_utf8 s \<Longrightarrow> valid_utf8 t \<Longrightarrow> valid_utf8 (s @ t)"
proof (induction s rule: valid_utf8.induct)
  case (2 a)
  then show ?case by (cases t rule: valid_utf8.cases) auto
next
  case (3 a b)
  then show ?case by (cases t rule: valid_utf8.cases) auto
next
  case (4 a b c)
  then show ?case by (cases t rule: valid_utf8.cases) auto
qed auto

lemma utf8_lossy_valid: "valid_utf8 (utf8_lossy s)"
proof (induction s rule: utf8_lossy.induct)
  case (1 s)
  have r: "valid_utf8 replacement_character"
    by (simp add: replacement_character_def utf8_three_def utf8_two_def utf8_cont_def)
  show ?case
    using 1 r by (subst utf8_lossy.simps) (auto intro!: valid_utf8_append utf8_head_valid)
qed

lemma utf8_lossy_length: "length (utf8_lossy s) \<le> 3 * length s"
proof (induction s rule: utf8_lossy.induct)
  case (1 s)
  show ?case
  proof (cases "s = []")
    case False
    note h = utf8_head_length [OF False]
    from h have "length (if snd (utf8_head s) then take (fst (utf8_head s)) s else replacement_character)
        \<le> 3 * fst (utf8_head s)"
      by (simp add: replacement_character_def)
    moreover have "length (utf8_lossy (drop (fst (utf8_head s)) s)) \<le> 3 * (length s - fst (utf8_head s))"
      using 1 [OF False] by simp
    moreover have "utf8_lossy s = (if snd (utf8_head s) then take (fst (utf8_head s)) s
        else replacement_character) @ utf8_lossy (drop (fst (utf8_head s)) s)"
      using False by (subst utf8_lossy.simps) simp
    ultimately show ?thesis using h by (simp only: length_append, linarith)
  qed simp
qed

text \<open>Well-formed text is left alone.\<close>

lemma three_lead: "utf8_three a b c \<longleftrightarrow> three_lead a b \<and> utf8_cont c"
  by (auto simp: utf8_three_def three_lead_def)

lemma four_lead: "utf8_four a b c d \<longleftrightarrow> four_lead a b \<and> utf8_cont c \<and> utf8_cont d"
  by (auto simp: utf8_four_def four_lead_def)

lemma lead_range:
  "utf8_two a b \<Longrightarrow> 0x80 \<le> ord_of a \<and> \<not> three_lead a c \<and> \<not> four_lead a c"
  "three_lead a b \<Longrightarrow> 0x80 \<le> ord_of a \<and> \<not> utf8_two a c \<and> \<not> four_lead a c"
  "four_lead a b \<Longrightarrow> 0x80 \<le> ord_of a \<and> \<not> utf8_two a c \<and> \<not> three_lead a c"
  by (auto simp: utf8_two_def three_lead_def four_lead_def)

lemma utf8_head_of_valid: "s \<noteq> [] \<Longrightarrow> valid_utf8 s \<Longrightarrow>
    snd (utf8_head s) \<and> valid_utf8 (drop (fst (utf8_head s)) s)"
  by (cases s rule: utf8_head.cases)
    (auto simp: three_lead four_lead dest: lead_range)

lemma utf8_lossy_id: "valid_utf8 s \<Longrightarrow> utf8_lossy s = s"
proof (induction s rule: utf8_lossy.induct)
  case (1 s)
  show ?case
  proof (cases "s = []")
    case False
    with utf8_head_of_valid [OF False "1.prems"] "1.IH" show ?thesis
      by (subst utf8_lossy.simps) simp
  qed simp
qed

end
