(* ===== verification/Execution.thy ===== *)
theory Execution
  imports Supervisor Utf8_Lossy
begin

text \<open>
  The life of one execution process: \<open>run_process\<close> of
  \<open>crates/local-bridge/src/supervisor_execution.rs\<close>, the bounded readers and the ways of ending a
  child in \<open>process_control.rs\<close>, and the script that \<open>file_guard.rs\<close> prepends.  What the operating
  system answers is an argument, call by call; what the bridge does to the process is a list of
  effects, in order.
\<close>

section \<open>Bounded capture\<close>

datatype reader_event = Overflow | Failed

record bounded_capture =
  cap_bytes :: bytes
  cap_exceeded :: bool
  cap_failed :: bool

text \<open>What successive reads of a pipe return; after the last entry the pipe is at its end.\<close>

datatype read_answer = Chunk bytes | ReadFails

fun read_bounded :: "nat \<Rightarrow> bytes \<Rightarrow> read_answer list \<Rightarrow> bounded_capture \<times> reader_event option" where
  "read_bounded maximum acc [] =
     (\<lparr>cap_bytes = acc, cap_exceeded = False, cap_failed = False\<rparr>, None)"
| "read_bounded maximum acc (Chunk buffer # rest) =
     (if buffer = []
      then (\<lparr>cap_bytes = acc, cap_exceeded = False, cap_failed = False\<rparr>, None)
      else if length acc + length buffer > maximum
      then (\<lparr>cap_bytes = take maximum acc, cap_exceeded = True, cap_failed = False\<rparr>, Some Overflow)
      else read_bounded maximum (acc @ buffer) rest)"
| "read_bounded maximum acc (ReadFails # rest) =
     (\<lparr>cap_bytes = acc, cap_exceeded = False, cap_failed = True\<rparr>, Some Failed)"

text \<open>A reader task: there was no pipe, the task was lost, or it ran over these answers.\<close>

datatype reader_task = NoPipe | TaskLost | Reader "read_answer list"

fun join_capture :: "nat \<Rightarrow> reader_task \<Rightarrow> bounded_capture" where
  "join_capture maximum (Reader answers) = fst (read_bounded maximum [] answers)"
| "join_capture maximum TaskLost = \<lparr>cap_bytes = [], cap_exceeded = False, cap_failed = True\<rparr>"
| "join_capture maximum NoPipe = \<lparr>cap_bytes = [], cap_exceeded = False, cap_failed = False\<rparr>"

lemma read_bounded_length:
  "length acc \<le> maximum \<Longrightarrow> length (cap_bytes (fst (read_bounded maximum acc answers))) \<le> maximum"
  by (induction maximum acc answers rule: read_bounded.induct) auto

lemma join_capture_length: "length (cap_bytes (join_capture maximum task)) \<le> maximum"
  by (cases task) (auto simp: read_bounded_length)

text \<open>A capture that is neither cut nor failed holds everything up to the end of the pipe.\<close>

fun pipe_content :: "read_answer list \<Rightarrow> bytes" where
  "pipe_content (Chunk buffer # rest) = (if buffer = [] then [] else buffer @ pipe_content rest)"
| "pipe_content _ = []"

lemma read_bounded_complete:
  "read_bounded maximum acc answers = (c, e) \<Longrightarrow> \<not> cap_exceeded c \<Longrightarrow> \<not> cap_failed c \<Longrightarrow>
     cap_bytes c = acc @ pipe_content answers"
  by (induction maximum acc answers rule: read_bounded.induct) (auto split: if_splits)

section \<open>Ending a child\<close>

datatype process_effect =
  StartGuard | Spawn | ObservedExit | CloseControl | GroupTerm | GroupKill | KillChild | WaitChild
| StopGuard

text \<open>\<open>pid\<close>: the child still has a process id; \<open>quick\<close>: it exits within two seconds of the closing of
  its control pipe.\<close>

definition terminate_child :: "bool \<Rightarrow> process_effect list" where
  "terminate_child pid = (if pid then [GroupTerm, GroupKill] else []) @ [KillChild, WaitChild]"

definition terminate_supervised_child :: "bool \<Rightarrow> bool \<Rightarrow> process_effect list" where
  "terminate_supervised_child pid quick =
     [CloseControl] @ (if quick then [WaitChild] else terminate_child pid)"

definition terminate_execution :: "bool \<Rightarrow> bool \<Rightarrow> bool \<Rightarrow> process_effect list" where
  "terminate_execution supervised pid quick =
     (if supervised then terminate_supervised_child pid quick else terminate_child pid)"

lemma terminate_waits [simp]:
  "WaitChild \<in> set (terminate_child pid)" "WaitChild \<in> set (terminate_execution supervised pid quick)"
  by (simp_all add: terminate_child_def terminate_execution_def terminate_supervised_child_def)

lemma terminate_effects [simp]:
  "Spawn \<notin> set (terminate_child pid)" "Spawn \<notin> set (terminate_execution supervised pid quick)"
  "ObservedExit \<notin> set (terminate_execution supervised pid quick)"
  "StopGuard \<notin> set (terminate_execution supervised pid quick)"
  by (simp_all add: terminate_child_def terminate_execution_def terminate_supervised_child_def)

section \<open>The script\<close>

fun component_name :: "component \<Rightarrow> string" where
  "component_name RootDir = []"
| "component_name CurDir = ''.''"
| "component_name ParentDir = ''..''"
| "component_name (Normal s) = s"

fun join_with :: "string \<Rightarrow> string list \<Rightarrow> string" where
  "join_with sep [] = []"
| "join_with sep [s] = s"
| "join_with sep (s # t # ts) = s @ sep @ join_with sep (t # ts)"

definition path_text :: "path \<Rightarrow> string" where
  "path_text p = (if p = [RootDir] then ''/'' else join_with ''/'' (map component_name p))"

definition helper_guard_script ::
  "bridge_env \<Rightarrow> string \<Rightarrow> string option \<Rightarrow> string \<Rightarrow> path \<Rightarrow> string \<Rightarrow> bridge_error + string" where
  "helper_guard_script env adapter socket_path default_task_space artifact_dir script =
     (if \<not> is_dedicated_task_space default_task_space \<or> \<not> is_absolute artifact_dir
      then Inl (ProtocolMessage ''invalid helper context'')
      else
        let ctx = str_of_bytes (jc_to_vec (be_json env) (JObject (btree_of
              [(''socket'', case socket_path of None \<Rightarrow> JNull | Some p \<Rightarrow> JString p),
               (''taskSpace'', JString default_task_space),
               (''artifactDir'', JString (path_text artifact_dir))])))
        in Inr (adapter @ [CHR 0x0A] @ ''await installRemoteHelpers('' @ ctx @ '');'' @ [CHR 0x0A]
                @ script))"

section \<open>The supervision loop\<close>

datatype wait_answer = HasExited | StillRunning | WaitFails

text \<open>The branch of the \<open>select!\<close> that fires: an event of a reader, the closing of the event channel,
  a change of the bridge's or the request's cancellation flag (\<open>None\<close> when the sender is gone), the
  deadline, or the ten-millisecond tick.\<close>

datatype branch =
  ReaderBranch reader_event | ReadersGone | CancelBranch "bool option"
| RequestCancelBranch "bool option" | DeadlineBranch | Tick

type_synonym round = "wait_answer \<times> branch"

fun branch_status :: "bool \<Rightarrow> branch \<Rightarrow> execution_status option" where
  "branch_status open_channel (ReaderBranch Overflow) = (if open_channel then Some ProtocolError else None)"
| "branch_status open_channel (ReaderBranch Failed) = (if open_channel then Some BridgeUnavailable else None)"
| "branch_status open_channel ReadersGone = None"
| "branch_status open_channel (CancelBranch (Some value)) =
     (if value then Some execution_status.BindingRevoked else None)"
| "branch_status open_channel (CancelBranch None) = Some Cancelled"
| "branch_status open_channel (RequestCancelBranch (Some value)) = (if value then Some Cancelled else None)"
| "branch_status open_channel (RequestCancelBranch None) = Some Cancelled"
| "branch_status open_channel DeadlineBranch = Some Timeout"
| "branch_status open_channel Tick = None"

text \<open>The loop over the rounds that happen; \<open>None\<close> when it is still going at the end of the list.  The
  result is the status it fixed, if any, whether the child was seen to exit, and the effects.\<close>

fun watch_child ::
  "(process_effect list) \<Rightarrow> bool \<Rightarrow> round list \<Rightarrow>
     (execution_status option \<times> bool \<times> process_effect list) option" where
  "watch_child ending open_channel [] = None"
| "watch_child ending open_channel ((HasExited, b) # rest) = Some (None, True, [ObservedExit])"
| "watch_child ending open_channel ((WaitFails, b) # rest) =
     Some (Some BridgeUnavailable, False, ending)"
| "watch_child ending open_channel ((StillRunning, b) # rest) =
     (case branch_status open_channel b of
        Some status \<Rightarrow> Some (Some status, False, ending)
      | None \<Rightarrow> watch_child ending (open_channel \<and> b \<noteq> ReadersGone) rest)"

section \<open>The whole run\<close>

record process_answers =
  pr_cancelled :: bool
  pr_request_cancelled :: bool
  pr_tempdir :: bool
  pr_artifact_dir :: bool
  pr_guard_starts :: "string option"
  pr_current_exe :: bool
  pr_spawns :: bool
  pr_cancelled_after_spawn :: bool
  pr_request_cancelled_after_spawn :: bool
  pr_stdin :: bool
  pr_writes_length :: bool
  pr_writes_script :: bool
  pr_shuts_down :: bool
  pr_pid :: bool
  pr_quick :: bool
  pr_rounds :: "round list"
  pr_stdout :: reader_task
  pr_stderr :: reader_task
  pr_late_cancelled :: bool
  pr_late_request_cancelled :: bool
  pr_exit_code :: "int option"
  pr_artifacts :: "artifact_descriptor list option"

definition failed_with :: "execution_status \<Rightarrow> outcome" where
  "failed_with status = \<lparr>oc_status = status, oc_exit_code = None, oc_stdout = [], oc_stderr = [],
     oc_artifacts = []\<rparr>"

text \<open>The end of a run: what the status is once the child is gone and its output is collected.\<close>

definition settle_status ::
  "process_answers \<Rightarrow> execution_status option \<Rightarrow> bounded_capture \<Rightarrow> bounded_capture \<Rightarrow>
     execution_status option" where
  "settle_status a status out err =
     (let status = (if status = None \<and> pr_late_cancelled a then Some execution_status.BindingRevoked
          else if status = None \<and> pr_late_request_cancelled a then Some Cancelled
          else status)
      in if status = None
            \<and> (cap_exceeded out \<or> cap_exceeded err \<or> cap_failed out \<or> cap_failed err)
         then Some (if cap_failed out \<or> cap_failed err then BridgeUnavailable else ProtocolError)
         else status)"

definition collect_outcome ::
  "process_answers \<Rightarrow> execution_status option \<Rightarrow> outcome" where
  "collect_outcome a status =
     (let out = join_capture MAX_STDOUT_BYTES (pr_stdout a);
          err = join_capture MAX_STDERR_BYTES (pr_stderr a);
          stdout = utf8_lossy (str_of_bytes (cap_bytes out));
          stderr = utf8_lossy (str_of_bytes (cap_bytes err))
      in case settle_status a status out err of
           Some status \<Rightarrow> \<lparr>oc_status = status, oc_exit_code = None, oc_stdout = stdout,
              oc_stderr = stderr, oc_artifacts = []\<rparr>
         | None \<Rightarrow>
             (case pr_artifacts a of
                None \<Rightarrow> \<lparr>oc_status = ArtifactError, oc_exit_code = pr_exit_code a, oc_stdout = stdout,
                   oc_stderr = stderr, oc_artifacts = []\<rparr>
              | Some artifacts \<Rightarrow>
                  \<lparr>oc_status = (if pr_exit_code a = Some 0 then Completed else ScriptError),
                   oc_exit_code = pr_exit_code a, oc_stdout = stdout, oc_stderr = stderr,
                   oc_artifacts = artifacts\<rparr>))"

text \<open>\<open>artifact_dir\<close> is the directory \<open>artifacts\<close> in the request's temporary directory, \<open>adapter\<close> the
  text of \<open>helper_adapter.js\<close>.  Dropping the temporary directory removes it and is not an effect.\<close>

definition run_process ::
  "bridge_env \<Rightarrow> bridge_config \<Rightarrow> string \<Rightarrow> path \<Rightarrow> inner_execute_request \<Rightarrow> process_answers \<Rightarrow>
     (outcome \<times> process_effect list) option" where
  "run_process env config adapter artifact_dir request a =
     (if pr_cancelled a then Some (failed_with execution_status.BindingRevoked, [])
      else if pr_request_cancelled a then Some (failed_with Cancelled, [])
      else if \<not> pr_tempdir a then Some (failed_with BridgeUnavailable, [])
      else if \<not> pr_artifact_dir a then Some (failed_with ArtifactError, [])
      else
        let guarded = bc_allowlist config \<noteq> None;
            start = (if guarded then [StartGuard] else []);
            stop = (if guarded then [StopGuard] else [])
        in
        if guarded \<and> pr_guard_starts a = None then Some (failed_with ArtifactError, [])
        else
          case helper_guard_script env adapter (if guarded then pr_guard_starts a else None)
              (ier_default_task_space request) artifact_dir (ier_script request) of
            Inl _ \<Rightarrow> Some (failed_with ProtocolError, start @ stop)
          | Inr script \<Rightarrow>
              let supervised = bc_release_profile config \<noteq> LogicTest;
                  ending = terminate_execution supervised (pr_pid a) (pr_quick a);
                  written = pr_stdin a \<and> (\<not> supervised \<or> pr_writes_length a) \<and> pr_writes_script a
                    \<and> (supervised \<or> pr_shuts_down a)
              in
              if supervised \<and> \<not> pr_current_exe a then Some (failed_with BridgeUnavailable, start @ stop)
              else if \<not> pr_spawns a then Some (failed_with EgoRuntimeUnavailable, start @ stop)
              else if pr_cancelled_after_spawn a
              then Some (failed_with execution_status.BindingRevoked,
                         start @ [Spawn] @ terminate_child (pr_pid a))
              else if pr_request_cancelled_after_spawn a
              then Some (failed_with Cancelled, start @ [Spawn] @ terminate_child (pr_pid a))
              else if \<not> written
              then Some (failed_with BridgeUnavailable, start @ [Spawn] @ ending @ stop)
              else
                case watch_child ending True (pr_rounds a) of
                  None \<Rightarrow> None
                | Some (status, exited, effects) \<Rightarrow>
                    Some (collect_outcome a status,
                      start @ [Spawn] @ effects @ (if \<not> exited \<and> status = None then [WaitChild] else [])
                        @ stop))"

section \<open>What a run can look like\<close>

lemma watch_child_cases:
  assumes "watch_child ending open_channel rounds = Some (status, exited, effects)"
  shows "exited \<and> status = None \<and> effects = [ObservedExit] \<or>
    \<not> exited \<and> status \<noteq> None \<and> status \<noteq> Some Completed \<and> effects = ending"
  using assms
proof (induction ending open_channel rounds rule: watch_child.induct)
  case (4 ending open_channel b rest)
  show ?case
  proof (cases "branch_status open_channel b")
    case None
    with 4 show ?thesis by simp
  next
    case (Some st)
    then have "st \<noteq> Completed" by (cases "(open_channel, b)" rule: branch_status.cases) (auto split: if_splits)
    moreover from 4(2) Some have "status = Some st \<and> \<not> exited \<and> effects = ending" by simp
    ultimately show ?thesis by simp
  qed
qed auto

text \<open>The phases of a run: it ends before the child exists, it is cut off right after the start, or the
  loop decides.\<close>

lemma run_process_cases:
  assumes "run_process env config adapter artifact_dir request a = Some (oc, effects)"
  obtains (unstarted) status where "oc = failed_with status" "status \<noteq> Completed"
      "Spawn \<notin> set effects"
  | (cut) status before ending after where "oc = failed_with status" "status \<noteq> Completed"
      "effects = before @ Spawn # ending @ after" "Spawn \<notin> set before"
      "ending = terminate_child (pr_pid a) \<or>
       ending = terminate_execution (bc_release_profile config \<noteq> LogicTest) (pr_pid a) (pr_quick a)"
  | (watched) status exited middle before after where
      "watch_child (terminate_execution (bc_release_profile config \<noteq> LogicTest) (pr_pid a) (pr_quick a))
         True (pr_rounds a) = Some (status, exited, middle)"
      "oc = collect_outcome a status" "effects = before @ Spawn # middle @ after"
      "Spawn \<notin> set before" "set after \<subseteq> {StopGuard}" "set before \<subseteq> {StartGuard}"
      "\<not> pr_cancelled a" "\<not> pr_request_cancelled a"
proof -
  let ?sup = "bc_release_profile config \<noteq> LogicTest"
  let ?t = "terminate_execution ?sup (pr_pid a) (pr_quick a)"
  define start where "start = (if bc_allowlist config \<noteq> None then [StartGuard] else [])"
  define stop where "stop = (if bc_allowlist config \<noteq> None then [StopGuard] else [])"
  note run = assms [unfolded run_process_def Let_def start_def [symmetric] stop_def [symmetric]]
  have s: "Spawn \<notin> set start" "Spawn \<notin> set stop" "set stop \<subseteq> {StopGuard}" "set start \<subseteq> {StartGuard}"
    by (auto simp: start_def stop_def split: if_splits)
  consider "effects = [] \<or> effects = start @ stop" "\<exists>st. oc = failed_with st \<and> st \<noteq> Completed"
    | st where "oc = failed_with st" "st \<noteq> Completed" "effects = start @ Spawn # terminate_child (pr_pid a)"
    | st where "oc = failed_with st" "st \<noteq> Completed" "effects = start @ Spawn # ?t @ stop"
    | st ex mid where "watch_child ?t True (pr_rounds a) = Some (st, ex, mid)" "oc = collect_outcome a st"
        "effects = start @ Spawn # mid @ (if \<not> ex \<and> st = None then [WaitChild] else []) @ stop"
        "\<not> pr_cancelled a" "\<not> pr_request_cancelled a"
    using run by (auto split: if_splits sum.splits option.splits)
  then show ?thesis
  proof cases
    case 1
    with s show ?thesis by (auto intro: unstarted)
  next
    case (2 st)
    with s show ?thesis by (intro cut [of st start "terminate_child (pr_pid a)" "[]"]) simp_all
  next
    case (3 st)
    with s show ?thesis by (intro cut [of st start ?t stop]) simp_all
  next
    case (4 st ex mid)
    from watch_child_cases [OF 4(1)] have "(if \<not> ex \<and> st = None then [WaitChild] else []) = []" by auto
    with 4 s show ?thesis by (intro watched [of st ex mid start stop]) simp_all
  qed
qed

lemma collect_outcome_Completed:
  assumes "oc_status (collect_outcome a status) = Completed" "status \<noteq> Some Completed"
  shows "status = None" "\<not> pr_late_cancelled a" "\<not> pr_late_request_cancelled a"
    "\<not> cap_exceeded (join_capture MAX_STDOUT_BYTES (pr_stdout a))"
    "\<not> cap_failed (join_capture MAX_STDOUT_BYTES (pr_stdout a))"
    "\<not> cap_exceeded (join_capture MAX_STDERR_BYTES (pr_stderr a))"
    "\<not> cap_failed (join_capture MAX_STDERR_BYTES (pr_stderr a))"
    "pr_exit_code a = Some 0" "oc_exit_code (collect_outcome a status) = Some 0"
    "pr_artifacts a = Some (oc_artifacts (collect_outcome a status))"
  using assms by (auto simp: collect_outcome_def settle_status_def Let_def split: option.splits if_splits)

lemma collect_outcome_texts:
  "oc_stdout (collect_outcome a status)
     = utf8_lossy (str_of_bytes (cap_bytes (join_capture MAX_STDOUT_BYTES (pr_stdout a))))"
  "oc_stderr (collect_outcome a status)
     = utf8_lossy (str_of_bytes (cap_bytes (join_capture MAX_STDERR_BYTES (pr_stderr a))))"
  by (simp_all add: collect_outcome_def Let_def split: option.splits)

lemma join_capture_complete:
  assumes "\<not> cap_exceeded (join_capture maximum (Reader answers))"
    "\<not> cap_failed (join_capture maximum (Reader answers))"
  shows "cap_bytes (join_capture maximum (Reader answers)) = pipe_content answers"
  using assms read_bounded_complete [of maximum "[]" answers]
  by (cases "read_bounded maximum [] answers") simp

section \<open>Properties\<close>

text \<open>C11: an execution is reported as completed only when it was: its process was seen to exit by
  itself with code zero, nothing was done to end it, neither the bridge nor the request had been
  cancelled when the process was gone (a revocation that races with a clean exit wins), both output
  streams were read to their end, and the artifacts were collected.  The reported texts are then
  the whole of what the process wrote.\<close>

theorem completed_means_clean_exit:
  assumes "run_process env config adapter artifact_dir request a = Some (oc, effects)"
    and "oc_status oc = Completed"
  shows "oc_exit_code oc = Some 0 \<and> ObservedExit \<in> set effects \<and>
    set effects \<inter> {CloseControl, GroupTerm, GroupKill, KillChild} = {} \<and>
    \<not> pr_cancelled a \<and> \<not> pr_request_cancelled a \<and> \<not> pr_late_cancelled a \<and>
    \<not> pr_late_request_cancelled a \<and> pr_artifacts a = Some (oc_artifacts oc) \<and>
    (\<forall>r. pr_stdout a = Reader r \<longrightarrow> oc_stdout oc = utf8_lossy (str_of_bytes (pipe_content r))) \<and>
    (\<forall>r. pr_stderr a = Reader r \<longrightarrow> oc_stderr oc = utf8_lossy (str_of_bytes (pipe_content r)))"
  using assms(1)
proof (cases rule: run_process_cases)
  case (watched status exited middle before after)
  note w = watch_child_cases [OF watched(1)]
  have "status \<noteq> Some Completed" using w by auto
  note c = collect_outcome_Completed [OF assms(2) [unfolded watched(2)] this]
  have "middle = [ObservedExit]" using w c(1) by simp
  then show ?thesis
    using watched(3,5-8) c join_capture_complete
    unfolding watched(2) by (auto simp: collect_outcome_texts)
qed (use assms(2) in \<open>simp_all add: failed_with_def\<close>)

text \<open>C12: no execution leaves its process behind: on every path on which the child was started, it was
  either seen to exit or waited for after a termination, and a termination kills the child's whole
  process group unless the independent supervisor exits by itself within two seconds of the closing
  of its control pipe.\<close>

theorem child_always_reaped:
  assumes "run_process env config adapter artifact_dir request a = Some (oc, effects)"
    and "Spawn \<in> set effects"
  shows "\<exists>before after. effects = before @ Spawn # after \<and> Spawn \<notin> set before \<and>
    (ObservedExit \<in> set after \<or> WaitChild \<in> set after \<and>
      (pr_pid a \<longrightarrow> GroupKill \<in> set after \<or> CloseControl \<in> set after \<and> pr_quick a))"
proof -
  have end_of: "WaitChild \<in> set t \<and>
      (pr_pid a \<longrightarrow> GroupKill \<in> set t \<or> CloseControl \<in> set t \<and> pr_quick a)"
    if "t = terminate_child (pr_pid a) \<or> t = terminate_execution sup (pr_pid a) (pr_quick a)" for t sup
    using that
    by (auto simp: terminate_child_def terminate_execution_def terminate_supervised_child_def
        split: if_splits)
  show ?thesis
    using assms(1)
  proof (cases rule: run_process_cases)
    case (unstarted status)
    with assms(2) show ?thesis by simp
  next
    case (cut status before ending after)
    with end_of [OF cut(5)] show ?thesis
      by - (rule exI [of _ before], rule exI [of _ "ending @ after"], auto)
  next
    case (watched status exited middle before after)
    from watch_child_cases [OF watched(1)] watched(3,4)
      end_of [OF disjI2 [OF refl], of "bc_release_profile config \<noteq> LogicTest"]
    show ?thesis by - (rule exI [of _ before], rule exI [of _ "middle @ after"], auto)
  qed
qed

lemma watch_child_deadline:
  "watch_child ending open_channel (quiet @ (w, DeadlineBranch) # rest) \<noteq> None"
proof (induction quiet arbitrary: open_channel)
  case Nil
  then show ?case by (cases w) simp_all
next
  case (Cons r quiet)
  then show ?case by (cases r; cases "fst r") (auto split: option.splits)
qed

lemma watch_child_still_running:
  "\<forall>r \<in> set quiet. fst r = StillRunning \<Longrightarrow>
     watch_child ending open_channel (quiet @ (StillRunning, DeadlineBranch) # rest)
       = Some (status, exited, effects) \<Longrightarrow> status \<noteq> None \<and> \<not> exited"
proof (induction quiet arbitrary: open_channel)
  case (Cons r quiet)
  obtain b where r: "r = (StillRunning, b)" using Cons.prems(1) by (cases r) auto
  show ?case
  proof (cases "branch_status open_channel b")
    case None
    with Cons.prems r show ?thesis
      by (intro Cons.IH [of "open_channel \<and> b \<noteq> ReadersGone"]) simp_all
  next
    case (Some st)
    with Cons.prems(2) r have "status = Some st \<and> \<not> exited" by simp
    then show ?thesis by simp
  qed
qed auto


text \<open>The witnesses of the three properties: a clean run of a supervised process, and one that the
  deadline ends.\<close>

definition sample_answers :: process_answers where
  "sample_answers = \<lparr>pr_cancelled = False, pr_request_cancelled = False, pr_tempdir = True,
     pr_artifact_dir = True, pr_guard_starts = Some ''/tmp/ego-guard-1/ipc.sock'',
     pr_current_exe = True, pr_spawns = True, pr_cancelled_after_spawn = False,
     pr_request_cancelled_after_spawn = False, pr_stdin = True, pr_writes_length = True,
     pr_writes_script = True, pr_shuts_down = True, pr_pid = True, pr_quick = False,
     pr_rounds = [(StillRunning, Tick), (HasExited, Tick)], pr_stdout = Reader [Chunk (as_bytes ''hi'')],
     pr_stderr = Reader [], pr_late_cancelled = False, pr_late_request_cancelled = False,
     pr_exit_code = Some 0, pr_artifacts = Some []\<rparr>"

definition sample_directory :: path where
  "sample_directory = [RootDir, Normal ''tmp'', Normal ''artifacts'']"

lemma sample_script:
  "helper_guard_script env adapter socket ''agent-remote:development'' sample_directory script
     = Inr (adapter @ [CHR 0x0A] @ ''await installRemoteHelpers('' @
         str_of_bytes (jc_to_vec (be_json env) (JObject (btree_of
              [(''socket'', case socket of None \<Rightarrow> JNull | Some p \<Rightarrow> JString p),
               (''taskSpace'', JString ''agent-remote:development''),
               (''artifactDir'', JString (path_text sample_directory))])))
         @ '');'' @ [CHR 0x0A] @ script)"
proof -
  have "strip_prefix ''agent-remote:'' ''agent-remote:development'' = Some ''development''"
    by (simp add: strip_prefix_Some_iff)
  then have "is_dedicated_task_space ''agent-remote:development''"
    by (simp add: is_dedicated_task_space_def is_ascii_alphanumeric_def is_ascii_alpha_def)
  then show ?thesis
    by (simp add: helper_guard_script_def sample_directory_def is_absolute_def Let_def)
qed

definition plain_request :: inner_execute_request where
  "plain_request = \<lparr>ier_protocol = INNER_PROTOCOL_VERSION,
     ier_message_type = inner_message_type.Execute, ier_script = ''page.title()'',
     ier_timeout_ms = 1000, ier_cwd_label = ''work'',
     ier_default_task_space = ''agent-remote:development'', ier_concurrency_mode = Binding,
     ier_task_space_scope = None, ier_tab_scope = None, ier_allowlist_revision = 2,
     ier_learning_bundle_digest = None\<rparr>"

lemma sample_allowlist: "bc_allowlist sample_config \<noteq> None"
  by (simp add: sample_config_def apply_verified_policy_def sample_policy_def Let_def)

lemma sample_process_run:
  "run_process sample_env sample_config adapter sample_directory plain_request sample_answers
     = Some (\<lparr>oc_status = Completed, oc_exit_code = Some 0, oc_stdout = ''hi'', oc_stderr = [],
         oc_artifacts = []\<rparr>, [StartGuard, Spawn, ObservedExit, StopGuard])"
proof -
  have "utf8_lossy ''hi'' = ''hi''" by (rule utf8_lossy_id) simp
  moreover have "as_bytes ''hi'' \<noteq> []" by (simp add: as_bytes_def)
  ultimately have "collect_outcome sample_answers None = \<lparr>oc_status = Completed, oc_exit_code = Some 0,
      oc_stdout = ''hi'', oc_stderr = [], oc_artifacts = []\<rparr>"
    by (simp add: collect_outcome_def settle_status_def sample_answers_def MAX_STDOUT_BYTES_def
        MAX_STDERR_BYTES_def str_of_bytes_def [of "[]"] Let_def)
  moreover have "watch_child t True (pr_rounds sample_answers) = Some (None, True, [ObservedExit])" for t
    by (simp add: sample_answers_def)
  moreover have "ier_default_task_space plain_request = ''agent-remote:development''"
    by (simp add: plain_request_def)
  ultimately show ?thesis
    using sample_allowlist unfolding run_process_def Let_def
    by (simp add: sample_script) (simp add: sample_answers_def)
qed

theorem completed_means_clean_exit_witness:
  "run_process sample_env sample_config [] sample_directory plain_request sample_answers
     = Some (\<lparr>oc_status = Completed, oc_exit_code = Some 0, oc_stdout = ''hi'', oc_stderr = [],
         oc_artifacts = []\<rparr>, [StartGuard, Spawn, ObservedExit, StopGuard]) \<and>
   pr_artifacts sample_answers = Some []"
proof -
  have "oc_status \<lparr>oc_status = Completed, oc_exit_code = Some 0, oc_stdout = ''hi'', oc_stderr = [],
         oc_artifacts = []\<rparr> = Completed" by simp
  from completed_means_clean_exit [OF sample_process_run [of "[]"] this] sample_process_run [of "[]"]
  show ?thesis by simp
qed

theorem child_always_reaped_witness:
  "\<exists>before after. [StartGuard, Spawn, ObservedExit, StopGuard] = before @ Spawn # after \<and>
     ObservedExit \<in> set after"
proof -
  have "Spawn \<in> set [StartGuard, Spawn, ObservedExit, StopGuard]" by simp
  from child_always_reaped [OF sample_process_run [of "[]"] this]
  obtain before after where "[StartGuard, Spawn, ObservedExit, StopGuard] = before @ Spawn # after"
    and "Spawn \<notin> set before" by blast
  then have "before = [StartGuard] \<and> after = [ObservedExit, StopGuard]"
    by (auto simp: Cons_eq_append_conv)
  then show ?thesis
    by - (rule exI [of _ before], rule exI [of _ after], simp)
qed


end
