(* ===== verification/Device_Peer.thy ===== *)
theory Device_Peer
  imports Control_Response Execution
begin

text \<open>
  The two watchers that stop a bridge from outside, \<open>crates/local-bridge/src/device_peer.rs\<close> (the
  heartbeat of the device client's service) and \<open>task_space_monitor.rs\<close> (the ownership of the Task
  Space).  Sockets, clocks and child processes answer through arguments; what the bridge does to the
  outside is a list of effects in order.
\<close>

section \<open>Effects\<close>

datatype local_effect =
  RevokedLocally | ClearedActiveBinding | AskedStop | AwaitedExecutions bool | AskedPause string

section \<open>The socket of the device service\<close>

record socket_meta =
  sm_socket :: bool
  sm_uid :: u32
  sm_mode :: u32
  sm_nlink :: u64
  sm_dev :: u64
  sm_ino :: u64

definition HEARTBEAT_ALIVE :: bytes where
  "HEARTBEAT_ALIVE = as_bytes ''EGB1'' @ [10]"

definition HEARTBEAT_CLOSED :: bytes where
  "HEARTBEAT_CLOSED = as_bytes ''EGB0'' @ [10]"

datatype heartbeat = Alive | AdmissionClosed

datatype peer_outcome = PeerStopped | PeerAdmissionClosed | PeerLost bridge_error

definition inspect_device_service_socket ::
  "u32 \<Rightarrow> socket_meta option \<Rightarrow> bridge_error + (u64 \<times> u64)" where
  "inspect_device_service_socket euid found = (case found of
      None \<Rightarrow> Inl (ProtocolMessage ''device client service socket is unavailable'')
    | Some m \<Rightarrow>
        if \<not> sm_socket m \<or> sm_uid m \<noteq> euid \<or> and (sm_mode m) 511 \<noteq> 384 \<or> sm_nlink m \<noteq> 1
        then Inl (ProtocolMessage ''device client service socket metadata is unsafe'')
        else Inr (sm_dev m, sm_ino m))"

definition verify_peer_uid :: "u32 \<Rightarrow> u32 option \<Rightarrow> bridge_error + unit" where
  "verify_peer_uid euid peer =
     (if peer \<noteq> Some euid then Inl (ProtocolMessage ''peer UID is not authorized'') else Inr ())"

text \<open>What reading the five bytes of a heartbeat gives: nothing in time, the stream ended, or bytes.\<close>

datatype beat_read = BeatTimeout | BeatLost | Beat bytes

definition read_device_peer_heartbeat :: "beat_read \<Rightarrow> bridge_error + heartbeat" where
  "read_device_peer_heartbeat r = (case r of
      BeatTimeout \<Rightarrow> Inl (ProtocolMessage ''device client heartbeat timed out'')
    | BeatLost \<Rightarrow> Inl (ProtocolMessage ''device client heartbeat was lost'')
    | Beat content \<Rightarrow>
        if content = HEARTBEAT_ALIVE then Inr Alive
        else if content = HEARTBEAT_CLOSED then Inr AdmissionClosed
        else Inl (ProtocolMessage ''device client heartbeat is malformed''))"

record connect_answers =
  ca_before :: "socket_meta option"
  ca_connects :: "bool option"
  ca_peer_uid :: "u32 option"
  ca_after :: "socket_meta option"
  ca_beat :: beat_read

definition connect_device_service_peer :: "u32 \<Rightarrow> connect_answers \<Rightarrow> bridge_error + unit" where
  "connect_device_service_peer euid a =
     bind_r (inspect_device_service_socket euid (ca_before a)) (\<lambda>before.
     bind_r (case ca_connects a of
         None \<Rightarrow> Inl (ProtocolMessage ''device client service connection timed out'')
       | Some False \<Rightarrow> Inl (ProtocolMessage ''device client service socket is unavailable'')
       | Some True \<Rightarrow> Inr ()) (\<lambda>_.
     bind_r (verify_peer_uid euid (ca_peer_uid a)) (\<lambda>_.
     bind_r (inspect_device_service_socket euid (ca_after a)) (\<lambda>after.
       if before \<noteq> after
       then Inl (ProtocolMessage ''device client service socket changed during connection'')
       else
     bind_r (read_device_peer_heartbeat (ca_beat a)) (\<lambda>beat. case beat of
         Alive \<Rightarrow> Inr () | AdmissionClosed \<Rightarrow> Inl Revoked)))))"

section \<open>Watching the device service\<close>

definition stop_binding_after_peer_loss :: "local_effect list" where
  "stop_binding_after_peer_loss = [AskedStop]"

definition fail_closed_device_peer_loss ::
  "supervisor \<Rightarrow> bridge_error \<Rightarrow> supervisor \<times> local_effect list \<times> bridge_error" where
  "fail_closed_device_peer_loss sv error =
     (revoke sv, [RevokedLocally, ClearedActiveBinding] @ stop_binding_after_peer_loss, error)"

text \<open>One turn of the observer: its stop channel changed (\<open>None\<close>: is gone) or a heartbeat was read.
  \<open>None\<close> as the result: the loop is still going when the turns given are used up.\<close>

datatype peer_turn = StopChanged "bool option" | HeartbeatRead beat_read

fun run_device_peer_observer ::
  "(nat \<Rightarrow> supervisor) \<Rightarrow> nat \<Rightarrow> peer_turn list \<Rightarrow> (supervisor \<times> local_effect list \<times> peer_outcome) option" where
  "run_device_peer_observer seen t [] = None"
| "run_device_peer_observer seen t (StopChanged value # turns) =
     (if value = None \<or> value = Some True then Some (seen t, [], PeerStopped)
      else run_device_peer_observer seen (Suc t) turns)"
| "run_device_peer_observer seen t (HeartbeatRead r # turns) =
     (case read_device_peer_heartbeat r of
        Inr Alive \<Rightarrow> run_device_peer_observer seen (Suc t) turns
      | Inr AdmissionClosed \<Rightarrow> Some (revoke (seen t), [RevokedLocally], PeerAdmissionClosed)
      | Inl error \<Rightarrow>
          (case fail_closed_device_peer_loss (seen t) error of
             (sv, effects, error) \<Rightarrow> Some (sv, effects, PeerLost error)))"

text \<open>The observer task ended; \<open>None\<close> when it was lost.\<close>

definition device_peer_task_failure ::
  "peer_outcome option \<Rightarrow> supervisor \<Rightarrow> supervisor \<times> local_effect list \<times> bridge_error" where
  "device_peer_task_failure outcome sv = (case outcome of
      Some (PeerLost error) \<Rightarrow> (sv, [], error)
    | Some PeerAdmissionClosed \<Rightarrow> (revoke sv, [RevokedLocally], Revoked)
    | _ \<Rightarrow> fail_closed_device_peer_loss sv
             (ProtocolMessage ''device client peer observer stopped''))"

section \<open>Watching the Task Space\<close>

datatype monitor_outcome = MonitorStopped | TakenOver | MonitorUnavailable

definition TAKEOVER_EXIT_CODE :: int where
  "TAKEOVER_EXIT_CODE = 73"

text \<open>What the monitor meets before its loop (the paths, the target, its own executable, the child, the
  child's pipe and the two writes), and then: the exit of the child or the changes of the stop
  channel.\<close>

record monitor_answers =
  ma_executable :: path
  ma_work_root :: path
  ma_current_exe :: bool
  ma_spawns :: bool
  ma_pipe :: bool
  ma_writes :: bool
  ma_pid :: bool
  ma_quick :: bool

datatype monitor_turn = ChildExits "int option" | MonitorStop "bool option"

text \<open>\<open>quick\<close>: the child exits within three seconds of the closing of its control pipe.\<close>

definition terminate_task_space_monitor :: "bool \<Rightarrow> bool \<Rightarrow> process_effect list" where
  "terminate_task_space_monitor pid quick =
     CloseControl #
     (if quick then [WaitChild]
      else (if pid then [GroupTerm, GroupKill] else []) @ [KillChild, WaitChild])"

fun watch_monitor ::
  "process_effect list \<Rightarrow> monitor_turn list \<Rightarrow> (monitor_outcome \<times> process_effect list) option" where
  "watch_monitor ending [] = None"
| "watch_monitor ending (ChildExits code # turns) =
     Some (if code = Some TAKEOVER_EXIT_CODE then TakenOver else MonitorUnavailable, [ObservedExit])"
| "watch_monitor ending (MonitorStop value # turns) =
     (if value = None \<or> value = Some True then Some (MonitorStopped, ending)
      else watch_monitor ending turns)"

definition run_task_space_monitor ::
  "string \<Rightarrow> monitor_answers \<Rightarrow> monitor_turn list \<Rightarrow> (monitor_outcome \<times> process_effect list) option" where
  "run_task_space_monitor task_space a turns =
     (let ending = terminate_task_space_monitor (ma_pid a) (ma_quick a) in
      if \<not> is_absolute (ma_executable a) \<or> \<not> is_absolute (ma_work_root a)
      then Some (MonitorUnavailable, [])
      else if \<not> is_dedicated_task_space task_space then Some (MonitorUnavailable, [])
      else if \<not> ma_current_exe a \<or> \<not> ma_spawns a then Some (MonitorUnavailable, [])
      else if \<not> ma_pipe a \<or> \<not> ma_writes a then Some (MonitorUnavailable, Spawn # ending)
      else map_option (\<lambda>(outcome, effects). (outcome, Spawn # effects)) (watch_monitor ending turns))"

text \<open>\<open>counts\<close> is the number of active executions seen at each tick of ten milliseconds before the
  five-second deadline; the wait ends at the first zero.\<close>

definition fail_closed_task_space_monitor ::
  "monitor_outcome \<Rightarrow> supervisor \<Rightarrow> nat list \<Rightarrow> supervisor \<times> local_effect list \<times> bridge_error" where
  "fail_closed_task_space_monitor outcome sv counts =
     (let (reason, message) = (case outcome of
          TakenOver \<Rightarrow> (''task_space_takeover'',
            ''Task Space control was taken over; explicit binding resume is required'')
        | _ \<Rightarrow> (''task_space_monitor_unavailable'',
            ''Task Space ownership monitor is unavailable; explicit binding resume is required''))
      in (revoke sv, [RevokedLocally, AwaitedExecutions (0 \<in> set counts), AskedPause reason],
          ProtocolMessage message))"

section \<open>Lemmas\<close>

lemma revoke_closes:
  "sv_cancelled (revoke sv)" "ls_revoked (sv_lease (revoke sv))" "sv_issued (revoke sv) = Map.empty"
  "lease_admit (sv_lease (revoke sv)) now default_lease_policy = admission.BindingRevoked"
  by (simp_all add: revoke_def clear_permits_def lease_revoke_def lease_admit_def)

lemma observer_outcome_closed:
  assumes "run_device_peer_observer seen t turns = Some (sv, effects, outcome)"
  shows "(outcome = PeerStopped \<and> effects = [] \<and> (StopChanged None \<in> set turns \<or> StopChanged (Some True) \<in> set turns))
    \<or> (\<exists>before. sv = revoke before) \<and> hd effects = RevokedLocally \<and> effects \<noteq> [] \<and>
      (outcome = PeerAdmissionClosed \<and> effects = [RevokedLocally]
       \<or> (\<exists>e. outcome = PeerLost e) \<and> effects = [RevokedLocally, ClearedActiveBinding, AskedStop])"
  using assms
  by (induction seen t turns rule: run_device_peer_observer.induct)
    (auto simp: fail_closed_device_peer_loss_def stop_binding_after_peer_loss_def
      split: if_splits sum.splits heartbeat.splits)

end
