(* ===== verification/Device_Types.thy ===== *)
theory Device_Types
  imports Control_Response
begin

text \<open>
  The documents the device client keeps in its store, from \<open>crates/device-client/src/lib.rs\<close>, and the
  validations of their fields.  \<open>canonical\<close> is \<open>canonical_server_url\<close>, whose parsing of URLs is done
  by \<open>reqwest::Url\<close>.
\<close>

section \<open>Documents\<close>

record community_credential =
  cc_version :: u32
  cc_device_id :: string
  cc_server_url :: string
  cc_token :: string
  cc_credential_id :: "string option"
  cc_release_profile :: string
  cc_credential_profile :: string
  cc_expires_at_unix :: u64
  cc_revision :: u64

record local_device_metadata =
  lm_device_id :: string
  lm_device_generation :: u64
  lm_server_url :: string
  lm_release_profile :: string
  lm_credential_profile :: string
  lm_credential_revision :: u64
  lm_credential_expires_at_unix :: u64

record stored_identity_metadata =
  im_version :: u32
  im_device_id :: string
  im_server_url :: string
  im_release_profile :: string
  im_credential_profile :: string

record pending_registration =
  pn_version :: u32
  pn_device_id :: string
  pn_device_generation :: u64
  pn_server_url :: string
  pn_release_profile :: string
  pn_credential_profile :: string
  pn_enrollment_mode :: string
  pn_signing_public_key_sha256 :: string
  pn_encryption_public_key_sha256 :: string
  pn_idempotency_key :: string
  pn_created_at_unix :: u64
  pn_last_error_code :: "string option"

record pending_rotation =
  pt_version :: u32
  pt_device_id :: string
  pt_current_generation :: u64
  pt_target_generation :: u64
  pt_previous_credential_revision :: u64
  pt_old_signing_public_key_sha256 :: string
  pt_old_encryption_public_key_sha256 :: string
  pt_target_signing_public_key_sha256 :: string
  pt_target_encryption_public_key_sha256 :: string
  pt_idempotency_key :: string
  pt_created_at_unix :: u64

record active_binding =
  ab_version :: u32
  ab_binding_id :: string
  ab_generation :: u64
  ab_device_id :: string
  ab_task_space_label :: string
  ab_authorization_mode :: string
  ab_user_confirmation :: bool

record local_admission_record =
  la_version :: u32
  la_state :: string
  la_device_id :: "string option"
  la_device_generation :: "u64 option"
  la_binding_id :: "string option"
  la_binding_generation :: "u64 option"
  la_updated_at_unix :: u64

section \<open>Validation\<close>

definition validate_api_id :: "string \<Rightarrow> credential_error + unit" where
  "validate_api_id value =
     (if value = [] \<or> length value > 128
         \<or> \<not> list_all (\<lambda>b. is_ascii_alphanumeric b \<or> b \<in> set ''._-'') value
      then Inl Malformed else Inr ())"

definition profile_text :: "string \<Rightarrow> bool" where
  "profile_text p \<longleftrightarrow> p \<noteq> [] \<and> length p \<le> 128
     \<and> list_all (\<lambda>b. is_ascii_alphanumeric b \<or> b \<in> set ''._:-'') p"

text \<open>What \<open>reqwest::Url::parse\<close> makes of a text.\<close>

record parsed_url =
  url_scheme :: string
  url_username :: string
  url_password :: bool
  url_host :: bool
  url_query :: bool
  url_fragment :: bool
  url_path :: string
  url_origin :: string

definition canonical_server_url :: "(string \<Rightarrow> parsed_url option) \<Rightarrow> string \<Rightarrow> credential_error + string" where
  "canonical_server_url parse value =
     bind_r (ok_or Malformed (parse value)) (\<lambda>url.
       if url_scheme url \<noteq> ''https'' \<or> url_username url \<noteq> [] \<or> url_password url \<or> \<not> url_host url
          \<or> url_query url \<or> url_fragment url \<or> url_path url \<noteq> ''/'' \<and> url_path url \<noteq> []
       then Inl Malformed
       else if \<not> starts_with ''https://'' (url_origin url) \<or> length (url_origin url) > 512
       then Inl Malformed
       else Inr (url_origin url))"

definition visible_token :: "string \<Rightarrow> bool" where
  "visible_token t \<longleftrightarrow> list_all (\<lambda>b. is_ascii_graphic b \<and> b \<noteq> CHR 0x22 \<and> b \<noteq> CHR 0x5C) t"

definition TOKEN_MAX_BYTES :: nat where
  "TOKEN_MAX_BYTES = 4096"

definition valid_community_credential ::
  "(string \<Rightarrow> parsed_url option) \<Rightarrow> community_credential \<Rightarrow> u64 option \<Rightarrow> bool" where
  "valid_community_credential parse c now \<longleftrightarrow>
     cc_version c = 1 \<and> profile_text (cc_release_profile c)
     \<and> cc_credential_profile c = ''community_file''
     \<and> validate_api_id (cc_device_id c) = Inr ()
     \<and> canonical_server_url parse (cc_server_url c) = Inr (cc_server_url c)
     \<and> cc_token c \<noteq> [] \<and> length (cc_token c) \<le> TOKEN_MAX_BYTES
     \<and> starts_with ''egbc_'' (cc_token c) \<and> visible_token (cc_token c)
     \<and> (case now of None \<Rightarrow> True | Some now \<Rightarrow> cc_expires_at_unix c > now)
     \<and> cc_expires_at_unix c > 0 \<and> cc_revision c > 0"

definition validate_active_binding :: "active_binding \<Rightarrow> credential_error + unit" where
  "validate_active_binding b =
     (if ab_version b \<noteq> 1 \<or> validate_api_id (ab_binding_id b) \<noteq> Inr ()
         \<or> validate_api_id (ab_device_id b) \<noteq> Inr () \<or> ab_generation b = 0
         \<or> \<not> is_dedicated_task_space (ab_task_space_label b)
         \<or> ab_authorization_mode b \<noteq> ''ego_browser_script_full_trust''
         \<or> \<not> ab_user_confirmation b
      then Inl Malformed else Inr ())"

definition LOCAL_ADMISSION_CLOSED :: string where "LOCAL_ADMISSION_CLOSED = ''closed''"
definition LOCAL_ADMISSION_READY :: string where "LOCAL_ADMISSION_READY = ''ready''"
definition LOCAL_ADMISSION_OPEN :: string where "LOCAL_ADMISSION_OPEN = ''open''"

definition optional_api_id :: "string option \<Rightarrow> credential_error + unit" where
  "optional_api_id v = (case v of None \<Rightarrow> Inr () | Some s \<Rightarrow> validate_api_id s)"

definition validate_local_admission_record :: "local_admission_record \<Rightarrow> credential_error + unit" where
  "validate_local_admission_record r =
     (if la_version r \<noteq> 1
         \<or> la_state r \<notin> {LOCAL_ADMISSION_CLOSED, LOCAL_ADMISSION_READY, LOCAL_ADMISSION_OPEN}
         \<or> la_updated_at_unix r = 0
      then Inl Malformed
      else
     bind_r (optional_api_id (la_device_id r)) (\<lambda>_.
     bind_r (optional_api_id (la_binding_id r)) (\<lambda>_.
       if la_device_generation r = Some 0 \<or> la_binding_generation r = Some 0 then Inl Malformed
       else if la_state r = LOCAL_ADMISSION_OPEN
       then if la_device_id r = None \<or> la_device_generation r = None \<or> la_binding_id r = None
               \<or> la_binding_generation r = None
            then Inl Malformed else Inr ()
       else if la_binding_id r \<noteq> None \<or> la_binding_generation r \<noteq> None
       then Inl Malformed else Inr ())))"

definition valid_stored_identity_metadata ::
  "(string \<Rightarrow> parsed_url option) \<Rightarrow> stored_identity_metadata \<Rightarrow> bool" where
  "valid_stored_identity_metadata parse m \<longleftrightarrow>
     im_version m = 1 \<and> validate_api_id (im_device_id m) = Inr ()
     \<and> canonical_server_url parse (im_server_url m) = Inr (im_server_url m)
     \<and> profile_text (im_release_profile m) \<and> im_credential_profile m = ''community_file''"

section \<open>Waiting windows\<close>

definition DEFAULT_PENDING_REGISTRATION_TTL_SECS :: u64 where
  "DEFAULT_PENDING_REGISTRATION_TTL_SECS = 24 * 60 * 60"

definition pending_registration_ttl_secs :: "(string \<Rightarrow> string option) \<Rightarrow> u64" where
  "pending_registration_ttl_secs var_os =
     unwrap_or (filter_opt (\<lambda>v. v > 0 \<and> v \<le> 30 * 24 * 60 * 60)
       (Option.bind (env_var var_os ''EGO_BROWSER_PENDING_REGISTRATION_TTL_SECS'') parse_u64))
       DEFAULT_PENDING_REGISTRATION_TTL_SECS"

definition pending_is_expired :: "(string \<Rightarrow> string option) \<Rightarrow> pending_registration \<Rightarrow> u64 \<Rightarrow> bool" where
  "pending_is_expired var_os p now =
     (case checked_add (pn_created_at_unix p) (pending_registration_ttl_secs var_os) of
        None \<Rightarrow> True | Some deadline \<Rightarrow> now \<ge> deadline)"

text \<open>An admission record that is not open names no binding, and an open one names everything.\<close>

lemma open_record_complete:
  assumes "validate_local_admission_record r = Inr ()" "la_state r = LOCAL_ADMISSION_OPEN"
  shows "\<exists>d g b h. la_device_id r = Some d \<and> la_device_generation r = Some g \<and> g \<noteq> 0 \<and>
    la_binding_id r = Some b \<and> la_binding_generation r = Some h \<and> h \<noteq> 0 \<and>
    validate_api_id d = Inr () \<and> validate_api_id b = Inr ()"
  using assms
  by (auto simp: validate_local_admission_record_def bind_r_Inr_iff optional_api_id_def
      split: if_splits option.splits)

end
