(* ===== verification/Arguments.thy ===== *)
theory Arguments
  imports Bridge_Config
begin

text \<open>
  The command line of the bridge, \<open>crates/local-bridge/src/arguments.rs\<close>: the environment gives
  defaults, the arguments override them from left to right, and the transport follows from both.
\<close>

section \<open>Data\<close>

datatype transport_mode = UnixSocket | Outbound

record bridge_args =
  ar_socket :: path
  ar_credential_dir :: path
  ar_config :: bridge_config
  ar_transport :: transport_mode
  ar_once :: bool

text \<open>The help text ends the process.\<close>

datatype args_result = ParsedArgs bridge_args | HelpShown | ArgsError bridge_error

record arg_state =
  as_socket :: path
  as_credential_dir :: path
  as_config :: bridge_config
  as_requested :: "transport_mode option"
  as_once :: bool

section \<open>Parsing\<close>

definition is_production_profile :: "release_profile \<Rightarrow> bool" where
  "is_production_profile profile \<longleftrightarrow> profile \<in> {CommunityLocalTrust, DeveloperId}"

definition parse_release_profile :: "string \<Rightarrow> bridge_error + release_profile" where
  "parse_release_profile value =
     ok_or (ProtocolMessage ''invalid release profile'') (release_profile_of value)"

definition parse_credential_profile :: "string \<Rightarrow> bridge_error + credential_profile" where
  "parse_credential_profile value =
     ok_or (ProtocolMessage ''invalid credential profile'') (credential_profile_of value)"

definition next_arg :: "string list \<Rightarrow> string \<Rightarrow> bridge_error + string" where
  "next_arg rest name = (case rest of
      [] \<Rightarrow> Inl (ProtocolMessage (name @ '' requires a value'')) | v # _ \<Rightarrow> Inr v)"

definition value_names :: "string list" where
  "value_names = [''--socket'', ''--ego-browser'', ''--work-root'', ''--binding-id'', ''--generation'',
     ''--credential-dir'', ''--release-profile'', ''--credential-profile'']"

text \<open>The arms of the match that take a value.\<close>

definition take_value :: "arg_state \<Rightarrow> string \<Rightarrow> string \<Rightarrow> bridge_error + arg_state" where
  "take_value s arg value =
     (let config = as_config s in
      if arg = ''--socket'' then Inr (s\<lparr>as_socket := path_of value\<rparr>)
      else if arg = ''--ego-browser''
      then Inr (s\<lparr>as_config := config\<lparr>bc_executable := path_of value\<rparr>\<rparr>)
      else if arg = ''--work-root''
      then Inr (s\<lparr>as_config := config\<lparr>bc_work_root := path_of value\<rparr>\<rparr>)
      else if arg = ''--binding-id''
      then Inr (s\<lparr>as_config := config\<lparr>bc_binding_id := value\<rparr>\<rparr>)
      else if arg = ''--generation''
      then bind_r (ok_or (ProtocolMessage ''invalid generation'') (parse_u64 value)) (\<lambda>g.
             Inr (s\<lparr>as_config := config\<lparr>bc_generation := g\<rparr>\<rparr>))
      else if arg = ''--credential-dir''
      then if \<not> is_absolute (path_of value)
           then Inl (ProtocolMessage ''credential directory must be absolute'')
           else Inr (s\<lparr>as_credential_dir := path_of value\<rparr>)
      else if arg = ''--release-profile''
      then bind_r (parse_release_profile value) (\<lambda>p.
             Inr (s\<lparr>as_config := config\<lparr>bc_release_profile := p\<rparr>\<rparr>))
      else bind_r (parse_credential_profile value) (\<lambda>p.
             Inr (s\<lparr>as_config := config\<lparr>bc_credential_profile := p\<rparr>\<rparr>)))"

fun parse_loop :: "arg_state \<Rightarrow> string list \<Rightarrow> (bridge_error + arg_state) option" where
  "parse_loop s [] = Some (Inr s)"
| "parse_loop s (arg # rest) =
     (if arg \<in> set value_names
      then (case bind_r (next_arg rest arg) (take_value s arg) of
              Inl e \<Rightarrow> Some (Inl e) | Inr s \<Rightarrow> parse_loop s (tl rest))
      else if arg = ''--outbound'' then parse_loop (s\<lparr>as_requested := Some Outbound\<rparr>) rest
      else if arg = ''--unix-socket'' \<or> arg = ''--development''
      then parse_loop (s\<lparr>as_requested := Some UnixSocket\<rparr>) rest
      else if arg = ''--once'' then parse_loop (s\<lparr>as_once := True\<rparr>) rest
      else if arg = ''--help'' \<or> arg = ''-h'' then None
      else Some (Inl (ProtocolMessage (''unsupported argument: '' @ arg))))"

definition requested_mode :: "string option \<Rightarrow> transport_mode option" where
  "requested_mode v = (case v of
      None \<Rightarrow> None
    | Some v \<Rightarrow>
        if v \<in> {''outbound'', ''production''} then Some Outbound
        else if v \<in> {''unix'', ''socket'', ''development''} then Some UnixSocket
        else None)"

text \<open>\<open>raw_temp\<close> is \<open>env::temp_dir()\<close>, \<open>temp\<close> the same after the attempt to canonicalize it.\<close>

definition parse_args :: "(string \<Rightarrow> string option) \<Rightarrow> path \<Rightarrow> path \<Rightarrow> string list \<Rightarrow> args_result" where
  "parse_args var_os raw_temp temp args =
     (let socket = unwrap_or (map_option path_of (var_os ''EGO_BROWSER_BRIDGE_SOCKET''))
            (path_join raw_temp (path_of ''agent-remote-ego-browser.sock''));
          home = (case var_os ''EGO_BROWSER_DEVICE_HOME'' of
              Some d \<Rightarrow> Some (path_of d)
            | None \<Rightarrow> map_option (\<lambda>h. path_join (path_of h) (path_of ''.config/agent-remote-ego-browser''))
                (var_os ''HOME''))
      in case home of
           None \<Rightarrow> ArgsError (ProtocolMessage ''HOME is not set'')
         | Some credential_dir \<Rightarrow>
             (case parse_loop
                \<lparr>as_socket = socket, as_credential_dir = credential_dir,
                 as_config = from_environment var_os temp,
                 as_requested = requested_mode (env_var var_os ''EGO_BROWSER_BRIDGE_MODE''),
                 as_once = is_some_and (env_var var_os ''EGO_BROWSER_BRIDGE_ONCE'')
                   (\<lambda>v. v \<in> {''1'', ''true'', ''yes''})\<rparr> args of
                None \<Rightarrow> HelpShown
              | Some (Inl e) \<Rightarrow> ArgsError e
              | Some (Inr s) \<Rightarrow>
                  let production = is_production_profile (bc_release_profile (as_config s));
                      transport = unwrap_or (as_requested s) (if production then Outbound else UnixSocket)
                  in if production \<and> transport = UnixSocket
                     then ArgsError (ProtocolMessage
                       ''production Bridge profiles require outbound transport'')
                     else ParsedArgs \<lparr>ar_socket = as_socket s, ar_credential_dir = as_credential_dir s,
                            ar_config = as_config s, ar_transport = transport, ar_once = as_once s\<rparr>))"

section \<open>Lemmas\<close>

lemma not_unix [simp]: "t \<noteq> UnixSocket \<longleftrightarrow> t = Outbound"
  by (cases t) simp_all

text \<open>Nothing on the command line touches the parts of the configuration that the verified policy
  supplies.\<close>

lemma take_value_policy:
  assumes "take_value s arg value = Inr s'"
  shows "bc_capabilities (as_config s') = bc_capabilities (as_config s)"
    "bc_allowlist (as_config s') = bc_allowlist (as_config s)"
    "bc_max_parallel_requests (as_config s') = bc_max_parallel_requests (as_config s)"
    "bc_learning_bundle_root (as_config s') = bc_learning_bundle_root (as_config s)"
  using assms by (auto simp: take_value_def Let_def bind_r_Inr_iff split: if_splits)

lemma parse_loop_policy:
  assumes "parse_loop s args = Some (Inr s')"
  shows "bc_capabilities (as_config s') = bc_capabilities (as_config s) \<and>
    bc_allowlist (as_config s') = bc_allowlist (as_config s) \<and>
    bc_max_parallel_requests (as_config s') = bc_max_parallel_requests (as_config s) \<and>
    bc_learning_bundle_root (as_config s') = bc_learning_bundle_root (as_config s)"
  using assms
  by (induction s args rule: parse_loop.induct)
    (auto split: if_splits sum.splits simp: bind_r_Inr_iff dest: take_value_policy)

section \<open>Properties\<close>

text \<open>No environment and no command line starts a production bridge on the local socket, whose
  clients are not authenticated by the control plane; and none of them can add a capability, a file
  root, a learning bundle or parallelism: those come from the verified policy only.\<close>

theorem production_is_outbound:
  assumes "parse_args var_os raw_temp temp args = ParsedArgs a"
  shows "(bc_release_profile (ar_config a) \<in> {CommunityLocalTrust, DeveloperId} \<longrightarrow>
       ar_transport a = Outbound) \<and>
    bc_capabilities (ar_config a) = CORE_CAPABILITIES \<and> bc_allowlist (ar_config a) = None \<and>
    bc_learning_bundle_root (ar_config a) = None \<and> bc_max_parallel_requests (ar_config a) = 4"
proof -
  have base: "bc_capabilities (from_environment var_os temp) = CORE_CAPABILITIES"
    "bc_allowlist (from_environment var_os temp) = None"
    "bc_learning_bundle_root (from_environment var_os temp) = None"
    "bc_max_parallel_requests (from_environment var_os temp) = 4"
    by (simp_all add: from_environment_def Let_def)
  from assms show ?thesis
    by (auto simp: parse_args_def Let_def base is_production_profile_def dest!: parse_loop_policy
        split: option.splits sum.splits if_splits)
qed

theorem production_is_outbound_witness:
  "\<exists>a. parse_args (\<lambda>v. if v = ''HOME'' then Some ''/h'' else None) [RootDir] [RootDir]
       [''--release-profile'', ''developer-id'', ''--once''] = ParsedArgs a \<and>
     ar_transport a = Outbound \<and> ar_once a \<and> bc_allowlist (ar_config a) = None"
proof -
  let ?v = "\<lambda>v. if v = ''HOME'' then Some ''/h'' else (None :: string option)"
  have "\<exists>a. parse_args ?v [RootDir] [RootDir] [''--release-profile'', ''developer-id'', ''--once'']
      = ParsedArgs a \<and> ar_once a \<and> bc_release_profile (ar_config a) = DeveloperId"
    by (simp add: parse_args_def value_names_def next_arg_def take_value_def parse_release_profile_def
        release_profile_of_def is_production_profile_def requested_mode_def env_var_def unwrap_or_def Let_def)
  then obtain a where a: "parse_args ?v [RootDir] [RootDir]
      [''--release-profile'', ''developer-id'', ''--once''] = ParsedArgs a" "ar_once a"
    "bc_release_profile (ar_config a) = DeveloperId" by blast
  with production_is_outbound [OF a(1)] show ?thesis by blast
qed

end
