(* ===== verification/Outbound.thy ===== *)
theory Outbound
  imports Relay_Session Lease_Observer Device_Peer Device_Types Arguments
begin

text \<open>
  The outbound mode of the bridge, \<open>crates/local-bridge/src/outbound.rs\<close>: it waits for an explicit
  claim, adopts it, activates or renews the binding, and then keeps one relay session at a time
  while the lease observer and the two watchers may stop it.  What the store, the control plane, the
  relay and the shutdown signal answer is given with each step.
\<close>

section \<open>Waiting for a claim\<close>

text \<open>One look at the store, and whether the shutdown signal arrives during the pause after it
  (\<open>Some False\<close>: its handler failed).\<close>

record store_poll =
  sp_credential :: "credential_error + community_credential"
  sp_binding :: "credential_error + active_binding"
  sp_admission :: "credential_error + bool"
  sp_signal :: "bool option"

definition signal_result :: "bool \<Rightarrow> bridge_error + unit" where
  "signal_result handled =
     (if handled then Inr () else Inl (ProtocolMessage ''shutdown signal handler failed''))"

datatype wait_result =
  Claimed community_credential active_binding | WaitEnds "bridge_error + unit" | StillWaiting

definition poll_once :: "control_env \<Rightarrow> bool \<Rightarrow> store_poll \<Rightarrow> wait_result" where
  "poll_once env once p =
     (let pause = (case sp_signal p of None \<Rightarrow> StillWaiting | Some h \<Rightarrow> WaitEnds (signal_result h)) in
      case sp_credential p of
        Inl e \<Rightarrow> if e = Missing \<and> \<not> once then pause else WaitEnds (Inl (map_credential_error env e))
      | Inr credential \<Rightarrow>
          (case sp_binding p of
             Inr binding \<Rightarrow>
               (case sp_admission p of
                  Inr True \<Rightarrow> Claimed credential binding
                | Inr False \<Rightarrow> if \<not> once then pause else WaitEnds (Inl Revoked)
                | Inl e \<Rightarrow> WaitEnds (Inl (map_credential_error env e)))
           | Inl e \<Rightarrow> if e = Missing \<and> \<not> once then pause
                     else WaitEnds (Inl (map_credential_error env e))))"

fun wait_for_claim :: "control_env \<Rightarrow> bool \<Rightarrow> store_poll list \<Rightarrow> wait_result" where
  "wait_for_claim env once [] = StillWaiting"
| "wait_for_claim env once (p # ps) =
     (case poll_once env once p of StillWaiting \<Rightarrow> wait_for_claim env once ps | r \<Rightarrow> r)"

section \<open>Adopting the claim\<close>

text \<open>The checks before the wait, with the probe of the local runtime; \<open>macos\<close> is the target system.\<close>

definition check_runtime ::
  "bool \<Rightarrow> bridge_config \<Rightarrow> (bytes \<times> bytes \<times> bool) option \<Rightarrow> bridge_error + bridge_config" where
  "check_runtime macos config probe =
     (if bc_credential_profile config \<noteq> CommunityFile
      then Inl (ProtocolMessage ''the configured credential profile is not available to this build'')
      else if bc_release_profile config = CommunityLocalTrust \<and> \<not> macos
      then Inl (ProtocolMessage ''community-local-trust bridge must run on macOS'')
      else
     bind_r (probe_local_runtime probe) (\<lambda>runtime.
       if pr_ego_browser_version runtime \<noteq> SUPPORTED_LOCAL_RUNTIME_VERSION
       then Inl (ProtocolMessage
         ''EGO_BROWSER_VERSION_MISMATCH: unsupported local ego-browser runtime'')
       else Inr (config\<lparr>bc_runtime_version := pr_ego_browser_version runtime,
                        bc_ego_lite_version := pr_ego_browser_version runtime,
                        bc_skill_version := SUPPORTED_SKILL_VERSION\<rparr>)))"

definition adopt_claim ::
  "control_env \<Rightarrow> bridge_config \<Rightarrow> active_binding \<Rightarrow> credential_error + verified_local_policy \<Rightarrow>
     bridge_error + bridge_config" where
  "adopt_claim env config binding policy =
     (if bc_binding_id config \<noteq> [] \<and> bc_binding_id config \<noteq> ab_binding_id binding
      then Inl (ProtocolMessage ''configured binding does not match the explicit local claim'')
      else if bc_generation config \<noteq> 1 \<and> bc_generation config \<noteq> ab_generation binding
      then Inl (ProtocolMessage ''configured generation does not match the explicit local claim'')
      else
     bind_r (map_err (map_credential_error env) policy) (\<lambda>policy.
       Inr (apply_verified_policy
         (config\<lparr>bc_binding_id := ab_binding_id binding, bc_generation := ab_generation binding,
                 bc_default_task_space := ab_task_space_label binding\<rparr>) policy)))"

definition check_identity ::
  "control_env \<Rightarrow> bridge_config \<Rightarrow> community_credential \<Rightarrow> credential_error + device_identity \<Rightarrow>
     bridge_error + device_identity" where
  "check_identity env config credential loaded =
     bind_r (map_err (map_credential_error env) loaded) (\<lambda>identity.
       if di_legacy_encryption_key identity \<or> di_device_id identity \<noteq> cc_device_id credential
          \<or> di_credential_profile identity \<noteq> cc_credential_profile credential
          \<or> di_release_profile identity \<noteq> release_profile_name (bc_release_profile config)
       then Inl (ProtocolMessage ''device identity requires explicit rotation or profile alignment'')
       else Inr identity)"

section \<open>Activation\<close>

text \<open>The answers of the control plane: the status, and then the response to the operation that the
  status calls for (whether it is \<open>connected\<close> or \<open>renew_binding\<close> is the argument).\<close>

definition activate ::
  "control_env \<Rightarrow> bridge_config \<Rightarrow> device_identity \<Rightarrow> credential_error + json \<Rightarrow>
     (startup_activation \<Rightarrow> credential_error + json) \<Rightarrow> u64 \<Rightarrow> supervisor \<Rightarrow>
     supervisor \<times> (bridge_error + lease_snapshot)" where
  "activate env config identity status respond now sv =
     (case bind_r (map_err (map_credential_error env) status) (\<lambda>status.
           bind_r (startup_activation status config identity) (\<lambda>activation.
           bind_r (map_err (map_credential_error env) (respond activation)) (\<lambda>response.
             parse_connected_response env response config identity now))) of
        Inl e \<Rightarrow> (sv, Inl e)
      | Inr lease \<Rightarrow>
          (case update_lease sv (snap_generation lease) (snap_lease_until lease)
              (snap_absolute_ttl_until lease) True of
             (sv, Inl e) \<Rightarrow> (sv, Inl e) | (sv, Inr _) \<Rightarrow> (sv, Inr lease)))"

section \<open>The relay loop\<close>

definition RECONNECT_MIN_MS :: nat where "RECONNECT_MIN_MS = 250"
definition RECONNECT_MAX_MS :: nat where "RECONNECT_MAX_MS = 30000"

record relay_loop =
  ro_sv :: supervisor
  ro_first :: bool
  ro_delay :: nat

text \<open>An answer that the shutdown signal can cut short.\<close>

datatype 'a or_shutdown = Answer 'a | ShutdownSignal bool

record loop_round =
  lr_policy :: "credential_error + verified_local_policy"
  lr_ticket :: "(credential_error + json) or_shutdown"
  lr_ticket_now :: u64
  lr_dial :: "dial_answers or_shutdown"
  lr_dial_now :: u64
  lr_resume_now :: u64
  lr_session :: "(supervisor \<times> (bridge_error + relay_outcome)) or_shutdown"
  lr_pause :: "bool option"

datatype loop_result = LoopsOn relay_loop | LoopEnds supervisor "bridge_error + unit"

definition finish_shutdown :: "supervisor \<Rightarrow> bool \<Rightarrow> loop_result" where
  "finish_shutdown sv handled = LoopEnds (cancel sv) (signal_result handled)"

text \<open>The pause before another attempt.\<close>

definition retry_later :: "relay_loop \<Rightarrow> bool option \<Rightarrow> loop_result" where
  "retry_later s pause = (case pause of
      Some handled \<Rightarrow> finish_shutdown (ro_sv s) handled
    | None \<Rightarrow> LoopsOn (s\<lparr>ro_delay := min (ro_delay s * 2) RECONNECT_MAX_MS\<rparr>))"

definition relay_loop_session :: "bool \<Rightarrow> relay_loop \<Rightarrow> loop_round \<Rightarrow> loop_result" where
  "relay_loop_session once s r =
     (case lr_session r of
        ShutdownSignal handled \<Rightarrow> finish_shutdown (ro_sv s) handled
      | Answer (sv, Inr Disconnected) \<Rightarrow>
          if once then LoopEnds sv (Inr ()) else retry_later (s\<lparr>ro_sv := sv\<rparr>) (lr_pause r)
      | Answer (sv, Inr Shutdown) \<Rightarrow> LoopEnds sv (Inr ())
      | Answer (sv, Inl e) \<Rightarrow> LoopEnds sv (Inl e))"

text \<open>A round up to the session: either it is over (\<open>Inl\<close>), or a session is opened in this state.\<close>

definition prepare_session ::
  "control_env \<Rightarrow> bool \<Rightarrow> bridge_config \<Rightarrow> relay_loop \<Rightarrow> loop_round \<Rightarrow> loop_result + relay_loop" where
  "prepare_session env once config s r =
     (let sv = ro_sv s in
      case verify_policy_snapshot env (lr_policy r) config of
        Inl e \<Rightarrow> Inl (LoopEnds sv (Inl e))
      | Inr _ \<Rightarrow>
      (case lr_ticket r of
         ShutdownSignal handled \<Rightarrow> Inl (finish_shutdown sv handled)
       | Answer (Inl e) \<Rightarrow>
           if once \<or> \<not> is_retryable_control_error e
           then Inl (LoopEnds sv (Inl (map_credential_error env e)))
           else Inl (retry_later s (lr_pause r))
       | Answer (Inr value) \<Rightarrow>
      (case parse_relay_ticket env value (bc_binding_id config) (bc_generation config) (lr_ticket_now r) of
         Inl e \<Rightarrow> Inl (LoopEnds sv (Inl e))
       | Inr ticket \<Rightarrow>
      (case lr_dial r of
         ShutdownSignal handled \<Rightarrow> Inl (finish_shutdown sv handled)
       | Answer answers \<Rightarrow>
      (case open_relay ticket (bc_binding_id config) (lr_dial_now r) answers of
         Inl e \<Rightarrow> if once then Inl (LoopEnds sv (Inl e)) else Inl (retry_later s (lr_pause r))
       | Inr _ \<Rightarrow>
      (case (if ro_first s then (sv, Inr ()) else resume_after_reconnect sv (lr_resume_now r)) of
         (sv, Inl e) \<Rightarrow> Inl (LoopEnds sv (Inl e))
       | (sv, Inr _) \<Rightarrow> Inr \<lparr>ro_sv = sv, ro_first = False, ro_delay = RECONNECT_MIN_MS\<rparr>))))))"

definition relay_loop_round ::
  "control_env \<Rightarrow> bool \<Rightarrow> bridge_config \<Rightarrow> relay_loop \<Rightarrow> loop_round \<Rightarrow> loop_result" where
  "relay_loop_round env once config s r =
     (case prepare_session env once config s r of
        Inl result \<Rightarrow> result | Inr s \<Rightarrow> relay_loop_session once s r)"

definition relay_loop_start :: "supervisor \<Rightarrow> relay_loop" where
  "relay_loop_start sv = \<lparr>ro_sv = sv, ro_first = True, ro_delay = RECONNECT_MIN_MS\<rparr>"

section \<open>The end of a run\<close>

text \<open>Which branch of the final \<open>select!\<close> finished: the peer observer or the monitor (\<open>None\<close>: its task
  was lost), or the relay loop.\<close>

datatype finisher =
  PeerFinished "peer_outcome option" | MonitorFinished "monitor_outcome option" "nat list"
| RelayFinished "bridge_error + unit"

datatype run_effect = Local local_effect | StopsObserver | StopsPeerObserver | StopsMonitor

definition run_result :: "finisher \<Rightarrow> supervisor \<Rightarrow> supervisor \<times> run_effect list \<times> (bridge_error + unit)" where
  "run_result f sv = (case f of
      PeerFinished outcome \<Rightarrow>
        (case device_peer_task_failure outcome sv of
           (sv, effects, e) \<Rightarrow> (sv, map Local effects @ [StopsObserver, StopsMonitor], Inl e))
    | MonitorFinished outcome counts \<Rightarrow>
        (case fail_closed_task_space_monitor (unwrap_or outcome MonitorUnavailable) sv counts of
           (sv, effects, e) \<Rightarrow> (sv, map Local effects @ [StopsObserver, StopsPeerObserver], Inl e))
    | RelayFinished result \<Rightarrow> (sv, [StopsObserver, StopsPeerObserver, StopsMonitor], result))"

section \<open>Runs of the relay loop\<close>

text \<open>A run: each round comes with the supervisor it finds.  The other tasks never clear the
  cancellation flag (only \<open>resume_after_reconnect\<close> does, and only this loop calls it), and a relay
  session that returns is a session of the model that ended.\<close>

definition session_ended ::
  "bridge_env \<Rightarrow> (json \<Rightarrow> string + outer_envelope) \<Rightarrow> supervisor \<Rightarrow> supervisor \<Rightarrow>
     bridge_error + relay_outcome \<Rightarrow> bool" where
  "session_ended benv from_json sv sv' result \<longleftrightarrow>
     (\<exists>s ev. relay_run benv from_json \<lparr>rl_sv = sv, rl_pending = []\<rparr> s \<and> event_ok s ev \<and>
        relay_round benv from_json s ev = Ended result sv')"

definition session_answer_ok ::
  "bridge_env \<Rightarrow> (json \<Rightarrow> string + outer_envelope) \<Rightarrow> loop_round \<Rightarrow> bool" where
  "session_answer_ok benv from_json r \<longleftrightarrow> (case lr_session r of
      ShutdownSignal _ \<Rightarrow> True
    | Answer (sv', result) \<Rightarrow> \<exists>sv. session_ended benv from_json sv sv' result)"

fun relay_loop_run ::
  "control_env \<Rightarrow> bool \<Rightarrow> bridge_config \<Rightarrow> relay_loop \<Rightarrow> (supervisor \<times> loop_round) list \<Rightarrow> loop_result" where
  "relay_loop_run env once config s [] = LoopsOn s"
| "relay_loop_run env once config s ((sv, r) # rounds) =
     (case relay_loop_round env once config (s\<lparr>ro_sv := sv\<rparr>) r of
        LoopEnds sv result \<Rightarrow> LoopEnds sv result
      | LoopsOn s \<Rightarrow> relay_loop_run env once config s rounds)"

fun cancellation_kept ::
  "control_env \<Rightarrow> bool \<Rightarrow> bridge_config \<Rightarrow> relay_loop \<Rightarrow> (supervisor \<times> loop_round) list \<Rightarrow> bool" where
  "cancellation_kept env once config s [] = True"
| "cancellation_kept env once config s ((sv, r) # rounds) =
     ((sv_cancelled (ro_sv s) \<longrightarrow> sv_cancelled sv) \<and>
      (case relay_loop_round env once config (s\<lparr>ro_sv := sv\<rparr>) r of
         LoopEnds _ _ \<Rightarrow> True | LoopsOn s \<Rightarrow> cancellation_kept env once config s rounds))"

lemma ended_cancelled:
  assumes "relay_round benv from_json s ev = Ended result sv"
  shows "sv_cancelled sv"
proof -
  have drop: "sv_cancelled (fold drop_task ts sv) = sv_cancelled sv" for ts sv
    by (induction ts arbitrary: sv) (auto simp: drop_task_def split: remote_execution.splits)
  from assms obtain s' where "sv = cancel_and_reap s'"
    by (auto simp: relay_round_def Let_def split: if_splits relay_event.splits prod.splits sum.splits)
  then show ?thesis by (simp add: cancel_and_reap_def clear_remote_requests_def cancel_def drop)
qed

lemma session_answer_cancelled:
  assumes "session_answer_ok benv from_json r" "lr_session r = Answer (sv, result)"
  shows "sv_cancelled sv"
  using assms by (auto simp: session_answer_ok_def session_ended_def dest: ended_cancelled)

lemma retry_later_cases:
  assumes "retry_later s pause = x"
  shows "(\<exists>h. x = LoopEnds (cancel (ro_sv s)) (signal_result h)) \<or>
    x = LoopsOn (s\<lparr>ro_delay := min (ro_delay s * 2) RECONNECT_MAX_MS\<rparr>)"
  using assms by (auto simp: retry_later_def finish_shutdown_def split: option.splits)

lemma loop_session_cases:
  assumes "relay_loop_session once s r = x" "session_answer_ok benv from_json r"
  shows "(\<exists>sv result. x = LoopEnds sv result \<and> sv_cancelled sv) \<or>
    (\<exists>sv. sv_cancelled sv \<and>
       x = LoopsOn (s\<lparr>ro_sv := sv, ro_delay := min (ro_delay s * 2) RECONNECT_MAX_MS\<rparr>))"
proof (cases "lr_session r")
  case (ShutdownSignal h)
  with assms(1) show ?thesis by (auto simp: relay_loop_session_def finish_shutdown_def cancel_def)
next
  case (Answer a)
  obtain sv result where a: "a = (sv, result)" by (cases a)
  note c = session_answer_cancelled [OF assms(2) Answer [unfolded a]]
  show ?thesis
    using assms(1) Answer a c retry_later_cases [of "s\<lparr>ro_sv := sv\<rparr>" "lr_pause r" x]
    by (auto simp: relay_loop_session_def cancel_def split: sum.splits relay_outcome.splits if_splits)
qed

lemma prepare_session_Inl:
  assumes "prepare_session env once config s r = Inl x"
  shows "(\<exists>sv result. x = LoopEnds sv result \<and> (sv_cancelled sv \<or> sv = ro_sv s)) \<or>
    x = LoopsOn (s\<lparr>ro_delay := min (ro_delay s * 2) RECONNECT_MAX_MS\<rparr>)"
proof -
  have resume: "sv' = sv" if "resume_after_reconnect sv now = (sv', Inl e)" for sv sv' now e
    using that by (auto simp: resume_after_reconnect_def split: admission.splits)
  have "(\<exists>sv result. x = LoopEnds sv result \<and> (sv_cancelled sv \<or> sv = ro_sv s)) \<or>
      x = retry_later s (lr_pause r)"
    using assms unfolding prepare_session_def Let_def finish_shutdown_def
    by (auto simp: cancel_def dest!: resume split: sum.splits or_shutdown.splits prod.splits if_splits)
  with retry_later_cases [of s "lr_pause r" x] show ?thesis by (auto simp: cancel_def)
qed

lemma prepare_session_Inr:
  assumes "prepare_session env once config s r = Inr s'"
  shows "ro_first s' = False" "ro_delay s' = RECONNECT_MIN_MS"
    "verify_policy_snapshot env (lr_policy r) config = Inr ()"
    "\<exists>value ticket answers sent. lr_ticket r = Answer (Inr value) \<and>
       parse_relay_ticket env value (bc_binding_id config) (bc_generation config) (lr_ticket_now r) = Inr ticket \<and>
       lr_dial r = Answer answers \<and>
       open_relay ticket (bc_binding_id config) (lr_dial_now r) answers = Inr sent"
    "if ro_first s then ro_sv s' = ro_sv s
     else resume_after_reconnect (ro_sv s) (lr_resume_now r) = (ro_sv s', Inr ())"
  using assms unfolding prepare_session_def Let_def
  by (auto split: sum.splits or_shutdown.splits prod.splits if_splits)

text \<open>One round, seen from the loop's state: it is over without a session, or a session ran.\<close>

lemma relay_loop_round_cases:
  assumes "relay_loop_round env once config s r = x" "session_answer_ok benv from_json r"
  obtains (unopened) "prepare_session env once config s r = Inl x"
  | (ended) sv result where "x = LoopEnds sv result" "sv_cancelled sv"
  | (session) sv where "sv_cancelled sv"
      "x = LoopsOn \<lparr>ro_sv = sv, ro_first = False, ro_delay = min (RECONNECT_MIN_MS * 2) RECONNECT_MAX_MS\<rparr>"
proof (cases "prepare_session env once config s r")
  case (Inl y)
  with assms(1) show ?thesis by (auto simp: relay_loop_round_def intro: unopened)
next
  case (Inr s')
  note p = prepare_session_Inr(1,2) [OF Inr]
  from Inr assms(1) have "relay_loop_session once s' r = x" by (simp add: relay_loop_round_def)
  from loop_session_cases [OF this assms(2)] p show ?thesis
    by (cases s') (auto intro: ended session)
qed

text \<open>Whether some round of a run opened a session.\<close>

fun session_opened ::
  "control_env \<Rightarrow> bool \<Rightarrow> bridge_config \<Rightarrow> relay_loop \<Rightarrow> (supervisor \<times> loop_round) list \<Rightarrow> bool" where
  "session_opened env once config s [] = False"
| "session_opened env once config s ((sv, r) # rounds) =
     (case prepare_session env once config (s\<lparr>ro_sv := sv\<rparr>) r of
        Inr _ \<Rightarrow> True
      | Inl (LoopEnds _ _) \<Rightarrow> False
      | Inl (LoopsOn s) \<Rightarrow> session_opened env once config s rounds)"

lemma loop_run_closed:
  assumes "\<forall>(sv, r) \<in> set rounds. session_answer_ok benv from_json r"
    and "cancellation_kept env once config s rounds" "ro_first s \<or> sv_cancelled (ro_sv s)"
  shows "case relay_loop_run env once config s rounds of
      LoopEnds sv _ \<Rightarrow> sv_cancelled sv \<or> ro_first s \<and> \<not> session_opened env once config s rounds
    | LoopsOn s' \<Rightarrow> sv_cancelled (ro_sv s') \<or> ro_first s' \<and> ro_first s \<and> \<not> session_opened env once config s rounds"
  using assms
proof (induction rounds arbitrary: s)
  case (Cons p rounds)
  obtain sv r where p: "p = (sv, r)" by (cases p)
  let ?s = "s\<lparr>ro_sv := sv\<rparr>"
  have ok: "session_answer_ok benv from_json r" "\<forall>(sv, r) \<in> set rounds. session_answer_ok benv from_json r"
    using Cons.prems(1) by (simp_all add: p)
  have kept: "ro_first s \<or> sv_cancelled sv" using Cons.prems(2,3) by (auto simp: p)
  from refl ok(1) show ?case
  proof (cases rule: relay_loop_round_cases [of env once config ?s r])
    case unopened
    from prepare_session_Inl [OF unopened] show ?thesis
    proof
      assume "\<exists>sv' result. relay_loop_round env once config ?s r = LoopEnds sv' result \<and>
          (sv_cancelled sv' \<or> sv' = ro_sv ?s)"
      then show ?thesis using unopened kept by (auto simp: p)
    next
      assume on: "relay_loop_round env once config ?s r
          = LoopsOn (?s\<lparr>ro_delay := min (ro_delay ?s * 2) RECONNECT_MAX_MS\<rparr>)"
      let ?t = "?s\<lparr>ro_delay := min (ro_delay ?s * 2) RECONNECT_MAX_MS\<rparr>"
      have "cancellation_kept env once config ?t rounds" using Cons.prems(2) on by (simp add: p)
      from Cons.IH [OF ok(2) this] kept show ?thesis
        using on unopened by (simp add: p split: loop_result.splits)
    qed
  next
    case (ended sv' result)
    then show ?thesis by (simp add: p)
  next
    case (session sv')
    let ?t = "\<lparr>ro_sv = sv', ro_first = False, ro_delay = min (RECONNECT_MIN_MS * 2) RECONNECT_MAX_MS\<rparr>"
    have "cancellation_kept env once config ?t rounds" using Cons.prems(2) session(2) by (simp add: p)
    from Cons.IH [OF ok(2) this] session show ?thesis
      by (auto simp: p split: loop_result.splits)
  qed
qed auto

section \<open>Properties\<close>

text \<open>Between reconnects the bridge backs off and never hammers or forgets the server: after any
  number of rounds the delay before the next attempt is 250 milliseconds doubled some number of
  times and cut at thirty seconds, whatever failed in which order.\<close>

theorem reconnect_delay_backoff:
  assumes "relay_loop_run env once config (relay_loop_start sv) rounds = LoopsOn s"
    and "\<forall>(sv, r) \<in> set rounds. session_answer_ok benv from_json r"
  shows "\<exists>n \<le> length rounds. ro_delay s = min (250 * 2 ^ n) 30000"
proof -
  have "\<exists>m \<le> n + length rounds. ro_delay s = min (250 * 2 ^ m) 30000"
    if "relay_loop_run env once config s0 rounds = LoopsOn s" "ro_delay s0 = min (250 * 2 ^ n) 30000"
      "\<forall>(sv, r) \<in> set rounds. session_answer_ok benv from_json r" for s0 n
    using that
  proof (induction rounds arbitrary: s0 n)
    case (Cons p rounds)
    obtain sv r where p: "p = (sv, r)" by (cases p)
    obtain s1 where step: "relay_loop_round env once config (s0\<lparr>ro_sv := sv\<rparr>) r = LoopsOn s1"
      and run: "relay_loop_run env once config s1 rounds = LoopsOn s"
      using Cons.prems(1) by (auto simp: p split: loop_result.splits)
    have ok: "session_answer_ok benv from_json r" "\<forall>(sv, r) \<in> set rounds. session_answer_ok benv from_json r"
      using Cons.prems(3) by (simp_all add: p)
    have "\<exists>m \<le> Suc n. ro_delay s1 = min (250 * 2 ^ m) 30000"
      using step ok(1)
    proof (cases rule: relay_loop_round_cases)
      case unopened
      then have "ro_delay s1 = min (250 * 2 ^ Suc n) 30000"
        using prepare_session_Inl [OF unopened] Cons.prems(2) by (auto simp: RECONNECT_MAX_MS_def min_def)
      then show ?thesis by blast
    next
      case (session sv')
      then have "ro_delay s1 = min (250 * 2 ^ 1) 30000"
        by (simp add: RECONNECT_MAX_MS_def RECONNECT_MIN_MS_def)
      then show ?thesis by (intro exI [of _ 1]) simp
    qed simp
    then obtain m where "m \<le> Suc n" "ro_delay s1 = min (250 * 2 ^ m) 30000" by blast
    moreover obtain k where "k \<le> m + length rounds" "ro_delay s = min (250 * 2 ^ k) 30000"
      using Cons.IH [OF run calculation(2) ok(2)] by blast
    ultimately show ?case by (intro exI [of _ k]) simp
  qed auto
  from this [OF assms(1), of 0] assms(2) show ?thesis
    by (simp add: relay_loop_start_def RECONNECT_MIN_MS_def)
qed

text \<open>C15: the relay loop leaves nothing open.  When it ends, for whatever reason, executions are
  cancelled, unless no session had ever been opened; and while it goes on after a session, the
  supervisor stays cancelled until a reconnect resumes it.\<close>

theorem relay_loop_fails_closed:
  assumes "\<forall>(sv, r) \<in> set rounds. session_answer_ok benv from_json r"
    and "cancellation_kept env once config (relay_loop_start sv) rounds"
  shows "case relay_loop_run env once config (relay_loop_start sv) rounds of
      LoopEnds sv' _ \<Rightarrow> sv_cancelled sv' \<or> \<not> session_opened env once config (relay_loop_start sv) rounds
    | LoopsOn s \<Rightarrow> sv_cancelled (ro_sv s) \<or> \<not> session_opened env once config (relay_loop_start sv) rounds"
  using loop_run_closed [OF assms] by (auto simp: relay_loop_start_def split: loop_result.splits)

text \<open>C16: a session is opened only under an unchanged verified policy, with a ticket for this binding
  and generation that is unexpired when it is used; and after the first session only while the
  generation is neither expired nor revoked.\<close>

theorem session_needs_fresh_authority:
  assumes "prepare_session env once config s r = Inr s'"
  shows "(\<exists>policy. lr_policy r = Inr policy \<and> policy_matches config policy) \<and>
    (\<exists>value ticket. lr_ticket r = Answer (Inr value) \<and>
       parse_relay_ticket env value (bc_binding_id config) (bc_generation config) (lr_ticket_now r) = Inr ticket \<and>
       rt_path ticket = relay_path (bc_binding_id config) \<and> lr_dial_now r < rt_expires_at ticket) \<and>
    (\<not> ro_first s \<longrightarrow> \<not> sv_cancelled (ro_sv s') \<and> \<not> ls_revoked (sv_lease (ro_sv s)) \<and>
       lr_resume_now r < ls_lease_until (sv_lease (ro_sv s)) \<and>
       lr_resume_now r < ls_absolute_ttl_until (sv_lease (ro_sv s)))"
proof -
  note p = prepare_session_Inr [OF assms]
  have "\<exists>policy. lr_policy r = Inr policy \<and> policy_matches config policy"
    using p(3) by (auto simp: verify_policy_snapshot_def bind_r_Inr_iff split: if_splits)
  moreover have "\<exists>value ticket. lr_ticket r = Answer (Inr value) \<and>
       parse_relay_ticket env value (bc_binding_id config) (bc_generation config) (lr_ticket_now r) = Inr ticket \<and>
       rt_path ticket = relay_path (bc_binding_id config) \<and> lr_dial_now r < rt_expires_at ticket"
    using p(4) by (auto simp: open_relay_def not_le split: if_splits)
  moreover have "\<not> sv_cancelled (ro_sv s') \<and> \<not> ls_revoked (sv_lease (ro_sv s)) \<and>
       lr_resume_now r < ls_lease_until (sv_lease (ro_sv s)) \<and>
       lr_resume_now r < ls_absolute_ttl_until (sv_lease (ro_sv s))" if "\<not> ro_first s"
    using p(5) that
    by (auto simp: resume_after_reconnect_def lease_admit_def not_le dest!: arg_cong [of _ _ sv_cancelled]
        split: admission.splits if_splits)
  ultimately show ?thesis by blast
qed


text \<open>When the Task Space monitor ends, whatever the cause, its process has been reaped, and the
  generation is revoked before the bridge waits for its executions and before it asks the control
  plane to pause the binding; the reason it gives is a takeover exactly when the monitor's process
  exited with the takeover code.\<close>

theorem monitor_end_pauses_binding:
  assumes "run_task_space_monitor task_space answers turns = Some (outcome, processes)"
    and "run_result (MonitorFinished (Some outcome) counts) sv = (sv', effects, result)"
  shows "ls_revoked (sv_lease sv') \<and> sv_cancelled sv' \<and> (\<exists>e. result = Inl e) \<and>
    (Spawn \<in> set processes \<longrightarrow> ObservedExit \<in> set processes \<or> WaitChild \<in> set processes) \<and>
    (\<exists>waited reason. effects = [Local RevokedLocally, Local (AwaitedExecutions waited),
        Local (AskedPause reason), StopsObserver, StopsPeerObserver] \<and>
      (waited \<longleftrightarrow> 0 \<in> set counts) \<and>
      reason \<in> {''task_space_takeover'', ''task_space_monitor_unavailable''} \<and>
      (reason = ''task_space_takeover'' \<longrightarrow> ChildExits (Some 73) \<in> set turns \<and>
         is_dedicated_task_space task_space))"
proof -
  let ?ending = "terminate_task_space_monitor (ma_pid answers) (ma_quick answers)"
  have watch: "(o' = TakenOver \<longrightarrow> ChildExits (Some 73) \<in> set ts) \<and> (es = [ObservedExit] \<or> es = ending)"
    if "watch_monitor ending ts = Some (o', es)" for ending ts o' es
    using that
    by (induction ending ts rule: watch_monitor.induct) (auto simp: TAKEOVER_EXIT_CODE_def split: if_splits)
  have reaped: "Spawn \<in> set processes \<longrightarrow> ObservedExit \<in> set processes \<or> WaitChild \<in> set processes"
    and taken: "outcome = TakenOver \<longrightarrow> ChildExits (Some 73) \<in> set turns \<and> is_dedicated_task_space task_space"
    using assms(1) watch [of ?ending turns]
    by (auto simp: run_task_space_monitor_def Let_def terminate_task_space_monitor_def split: if_splits)
  show ?thesis
    using assms(2) reaped taken
    by (cases outcome) (auto simp: run_result_def fail_closed_task_space_monitor_def unwrap_or_def revoke_closes)
qed

section \<open>Witnesses\<close>

definition sample_loop_round :: loop_round where
  "sample_loop_round = \<lparr>lr_policy = Inr sample_policy, lr_ticket = Answer (Inr sample_ticket_response),
     lr_ticket_now = 1000, lr_dial = Answer sample_dial, lr_dial_now = 1990, lr_resume_now = 1000,
     lr_session = Answer (cancel_and_reap \<lparr>rl_sv = sample_supervisor, rl_pending = []\<rparr>, Inr Disconnected),
     lr_pause = None\<rparr>"

definition failing_round :: loop_round where
  "failing_round = sample_loop_round\<lparr>lr_ticket := Answer (Inl Network)\<rparr>"

lemma sample_session_ok: "session_answer_ok run_env (\<lambda>_. Inl ''no'') sample_loop_round"
proof -
  have "relay_round run_env (\<lambda>_. Inl ''no'') \<lparr>rl_sv = sample_supervisor, rl_pending = []\<rparr> SocketGone
      = Ended (Inr Disconnected) (cancel_and_reap \<lparr>rl_sv = sample_supervisor, rl_pending = []\<rparr>)"
    by (simp add: relay_round_def sample_supervisor_def)
  then have "session_ended run_env (\<lambda>_. Inl ''no'') sample_supervisor
      (cancel_and_reap \<lparr>rl_sv = sample_supervisor, rl_pending = []\<rparr>) (Inr Disconnected)"
    unfolding session_ended_def
    by - (rule exI [of _ "\<lparr>rl_sv = sample_supervisor, rl_pending = []\<rparr>"], rule exI [of _ SocketGone],
      simp add: relay_run.connected event_ok_def)
  then show ?thesis by (auto simp: session_answer_ok_def sample_loop_round_def)
qed

lemma failing_session_ok: "session_answer_ok run_env (\<lambda>_. Inl ''no'') failing_round"
  using sample_session_ok by (simp add: failing_round_def session_answer_ok_def)

lemma sample_relay_prepared:
  "prepare_session sample_control once sample_config (relay_loop_start sample_supervisor) sample_loop_round
     = Inr \<lparr>ro_sv = sample_supervisor, ro_first = False, ro_delay = RECONNECT_MIN_MS\<rparr>"
  by (simp add: prepare_session_def sample_loop_round_def sample_policy_matches sample_config_fields
      sample_ticket_parsed sample_ticket_dialed relay_loop_start_def)

lemma failing_prepared:
  "prepare_session sample_control False sample_config (relay_loop_start sample_supervisor) failing_round
     = Inl (LoopsOn ((relay_loop_start sample_supervisor)\<lparr>ro_delay := 500\<rparr>))"
  by (simp add: prepare_session_def failing_round_def sample_loop_round_def sample_policy_matches
      retry_later_def relay_loop_start_def RECONNECT_MIN_MS_def RECONNECT_MAX_MS_def)

lemma start_same: "(relay_loop_start sv)\<lparr>ro_sv := sv\<rparr> = relay_loop_start sv"
  by (simp add: relay_loop_start_def)

theorem reconnect_delay_backoff_witness:
  "\<exists>n s. relay_loop_run sample_control False sample_config (relay_loop_start sample_supervisor)
     [(sample_supervisor, failing_round)] = LoopsOn s \<and> n \<le> 1 \<and> ro_delay s = min (250 * 2 ^ n) 30000"
proof -
  have "relay_loop_run sample_control False sample_config (relay_loop_start sample_supervisor)
      [(sample_supervisor, failing_round)] = LoopsOn ((relay_loop_start sample_supervisor)\<lparr>ro_delay := 500\<rparr>)"
    by (simp add: relay_loop_round_def start_same failing_prepared)
  from reconnect_delay_backoff [OF this, of run_env "\<lambda>_. Inl ''no''"] this failing_session_ok
  show ?thesis by auto
qed

theorem relay_loop_fails_closed_witness:
  "\<exists>sv result. relay_loop_run sample_control True sample_config (relay_loop_start sample_supervisor)
     [(sample_supervisor, sample_loop_round)] = LoopEnds sv result \<and> sv_cancelled sv"
proof -
  let ?rounds = "[(sample_supervisor, sample_loop_round)]" and ?s = "relay_loop_start sample_supervisor"
  have opened: "session_opened sample_control True sample_config ?s ?rounds"
    by (simp add: start_same sample_relay_prepared)
  have run: "\<exists>sv result. relay_loop_run sample_control True sample_config ?s ?rounds = LoopEnds sv result"
    by (simp add: relay_loop_round_def start_same sample_relay_prepared relay_loop_session_def) (simp add: sample_loop_round_def)
  have "cancellation_kept sample_control True sample_config ?s ?rounds"
    by (simp add: relay_loop_start_def sample_supervisor_def split: loop_result.split)
  from relay_loop_fails_closed [OF _ this, of run_env "\<lambda>_. Inl ''no''"] sample_session_ok opened run
  show ?thesis by (auto split: loop_result.splits)
qed

theorem session_needs_fresh_authority_witness:
  "\<exists>value ticket. lr_ticket sample_loop_round = Answer (Inr value) \<and>
     parse_relay_ticket sample_control value ''b-1'' 2 1000 = Inr ticket \<and>
     lr_dial_now sample_loop_round < rt_expires_at ticket"
  using session_needs_fresh_authority [OF sample_relay_prepared [of True]]
  by (simp add: sample_config_fields) (auto simp: sample_loop_round_def)


theorem monitor_end_pauses_binding_witness:
  "\<exists>sv' effects result. run_result (MonitorFinished (Some TakenOver) [1, 0]) sample_supervisor
       = (sv', effects, result) \<and> Local (AskedPause ''task_space_takeover'') \<in> set effects \<and> sv_cancelled sv'"
proof -
  let ?a = "\<lparr>ma_executable = [RootDir], ma_work_root = [RootDir], ma_current_exe = True, ma_spawns = True,
    ma_pipe = True, ma_writes = True, ma_pid = True, ma_quick = False\<rparr>"
  have m: "run_task_space_monitor ''agent-remote:development'' ?a [ChildExits (Some 73)]
      = Some (TakenOver, [Spawn, ObservedExit])"
    by (simp add: run_task_space_monitor_def sample_space TAKEOVER_EXIT_CODE_def is_absolute_def)
  obtain sv' effects result where r: "run_result (MonitorFinished (Some TakenOver) [1, 0]) sample_supervisor
      = (sv', effects, result)" by (metis prod_cases3)
  from monitor_end_pauses_binding [OF m r] r show ?thesis
    by (auto simp: run_result_def fail_closed_task_space_monitor_def unwrap_or_def)
qed

end
