(* ===== verification/Local_Socket.thy ===== *)
theory Local_Socket
  imports Device_Peer Framing Arguments
begin

text \<open>
  The local socket of a development bridge, \<open>crates/local-bridge/src/local_socket.rs\<close>, with the
  request and response types at the end of \<open>lib.rs\<close>.  A connection is handled in two steps, because
  other connections may run between them: \<open>handle_first\<close> up to the permit (or to the end for the
  other commands), and \<open>handle_request\<close> from the client's second frame to the admitted execution.
\<close>

section \<open>Parameters\<close>

text \<open>The typed readers and the serializers of \<open>serde_json\<close>, the display texts of errors, and the
  user the bridge runs as.\<close>

record socket_env =
  so_bridge :: bridge_env
  so_permit_request :: "json \<Rightarrow> string + permit_request"
  so_envelope :: "json \<Rightarrow> string + outer_envelope"
  so_permit_json :: "request_permit \<Rightarrow> json"
  so_capability_json :: "bridge_capability \<Rightarrow> json"
  so_error_text :: "bridge_error \<Rightarrow> string"
  so_frame_error_text :: "frame_error \<Rightarrow> string"
  so_euid :: u32

text \<open>The values \<open>issue_permit\<close> draws: the clock in seconds and milliseconds, the fresh id and key.\<close>

record issue_draws =
  id_now_seconds :: u64
  id_now_millis :: u64
  id_request_id :: string
  id_key :: bytes

section \<open>The socket file\<close>

datatype socket_effect = RemovedOld | CreatedParent | RestrictedParent | BoundSocket | RestrictedSocket

text \<open>What \<open>symlink_metadata\<close> finds at the path: nothing, a socket, or something else.\<close>

datatype socket_place = NothingThere | SocketThere | OtherThere

text \<open>File operations in order, up to the first that fails.\<close>

fun perform :: "(socket_effect \<Rightarrow> io_error option) \<Rightarrow> socket_effect list \<Rightarrow> bridge_error + unit" where
  "perform fails [] = Inr ()"
| "perform fails (x # xs) = (case fails x of Some e \<Rightarrow> Inl (IoFailure e) | None \<Rightarrow> perform fails xs)"

definition prepare_socket ::
  "(socket_effect \<Rightarrow> io_error option) \<Rightarrow> bool \<Rightarrow> socket_place \<Rightarrow> bridge_error + unit" where
  "prepare_socket fails has_parent place =
     (if place = OtherThere then Inl (ProtocolMessage ''refusing to replace non-socket path'')
      else
     bind_r (if place = SocketThere then perform fails [RemovedOld] else Inr ()) (\<lambda>_.
       if has_parent then perform fails [CreatedParent, RestrictedParent] else Inr ()))"

definition run_unix_socket ::
  "bool \<Rightarrow> bridge_config \<Rightarrow> path \<Rightarrow> (socket_effect \<Rightarrow> io_error option) \<Rightarrow> socket_place \<Rightarrow>
     bridge_error + supervisor \<Rightarrow> bridge_error + supervisor" where
  "run_unix_socket macos config socket fails place supervisor =
     (if socket = [] then Inl (ProtocolMessage ''--socket is required'')
      else if bc_release_profile config = CommunityLocalTrust \<and> \<not> macos
      then Inl (ProtocolMessage ''community-local-trust bridge must run on macOS'')
      else
     bind_r (prepare_socket fails (path_parent socket \<noteq> None) place) (\<lambda>_.
     bind_r (perform fails [BoundSocket, RestrictedSocket]) (\<lambda>_. supervisor)))"

section \<open>One connection\<close>

definition decode_permit_request :: "socket_env \<Rightarrow> bytes \<Rightarrow> bridge_error + json" where
  "decode_permit_request env content =
     map_err (\<lambda>e. ProtocolMessage (strict_error_text e))
       (parse_strict_json (be_json (so_bridge env)) Inr content)"

definition parse_permit_request :: "socket_env \<Rightarrow> json \<Rightarrow> bridge_error + permit_request" where
  "parse_permit_request env value = map_err ProtocolMessage (so_permit_request env value)"

definition serialize_permit_response ::
  "socket_env \<Rightarrow> request_permit \<Rightarrow> bytes \<Rightarrow> bridge_capability \<Rightarrow> bytes" where
  "serialize_permit_response env permit key capability =
     canonical_json (jc_to_vec (be_json (so_bridge env))) (JObject (btree_of
       [(''protocol'', JString PROTOCOL_VERSION), (''type'', JString ''permit_response''),
        (''status'', JString ''ok''), (''permit'', so_permit_json env permit),
        (''session_key'', JString (encode_b64url (be_crypto (so_bridge env)) key)),
        (''capability'', so_capability_json env capability)]))"

definition validate_development_broker_identity :: "json \<Rightarrow> supervisor \<Rightarrow> bridge_error + unit" where
  "validate_development_broker_identity value sv =
     bind_r (ok_or (ProtocolMessage ''broker request must be an object'') (as_object value)) (\<lambda>object.
       if bc_release_profile (sv_config sv) \<noteq> DevelopmentLocal
          \<and> bc_release_profile (sv_config sv) \<noteq> LogicTest
       then Inl (ProtocolMessage ''local broker adapter is restricted to development profiles'')
       else if \<not> development_broker_nonce_matches sv
            (Option.bind (map_of object ''startup_nonce'') as_str)
       then Inl (ProtocolMessage ''broker startup nonce is invalid'')
       else Inr ())"

definition send_frame :: "socket_env \<Rightarrow> byte_writer \<Rightarrow> bytes \<Rightarrow> byte_writer \<times> (bridge_error + unit)" where
  "send_frame env w content =
     (case write_frame w content MAX_FRAME_BYTES of
        (w, r) \<Rightarrow> (w, map_err (\<lambda>e. ProtocolMessage (so_frame_error_text env e)) r))"

definition send_value :: "socket_env \<Rightarrow> byte_writer \<Rightarrow> json \<Rightarrow> byte_writer \<times> (bridge_error + unit)" where
  "send_value env w value =
     send_frame env w (canonical_json (jc_to_vec (be_json (so_bridge env))) value)"

definition receive_frame ::
  "socket_env \<Rightarrow> byte_reader \<Rightarrow> string \<Rightarrow> byte_reader \<times> (bridge_error + bytes)" where
  "receive_frame env r closed =
     (case read_frame r MAX_FRAME_BYTES of
        (r, Inl e) \<Rightarrow> (r, Inl (ProtocolMessage (so_frame_error_text env e)))
      | (r, Inr None) \<Rightarrow> (r, Inl (ProtocolMessage closed))
      | (r, Inr (Some frame)) \<Rightarrow> (r, Inr frame))"

text \<open>After the first step the connection is over or waits for the request under this permit.\<close>

datatype connection = Closed "bridge_error + unit" | AwaitsRequest request_permit bytes

definition error_response :: "socket_env \<Rightarrow> bridge_error \<Rightarrow> json" where
  "error_response env e = JObject (btree_of
     [(''protocol'', JString PROTOCOL_VERSION), (''type'', JString ''permit_response''),
      (''status'', JString ''error''), (''error'', JString (so_error_text env e))])"

definition doctor_response :: "socket_env \<Rightarrow> supervisor \<Rightarrow> json" where
  "doctor_response env sv =
     (let capability = supervisor_capability (so_bridge env) sv in JObject (btree_of
       [(''protocol'', JString PROTOCOL_VERSION), (''type'', JString ''doctor_response''),
        (''status'', JString ''ok''),
        (''response'', JObject (btree_of
          [(''bridge'', JString ''ready''),
           (''ego_browser'', JString (cap_local_ego_browser_runtime_version capability)),
           (''release_profile'', JString (release_profile_name (cap_release_profile capability))),
           (''allowlist_revision'', JNumber (PosInt (cap_allowlist_revision capability))),
           (''learning_bundle_digest'', JOptString (cap_learning_bundle_digest capability))]))]))"

definition reload_response :: json where
  "reload_response = JObject (btree_of
     [(''protocol'', JString PROTOCOL_VERSION), (''type'', JString ''reload_response''),
      (''status'', JString ''ok''),
      (''response'', JObject [(''cancelled'', JBool True)])])"

definition handle_permit_request ::
  "socket_env \<Rightarrow> json \<Rightarrow> issue_draws \<Rightarrow> byte_writer \<Rightarrow> supervisor \<Rightarrow>
     supervisor \<times> byte_writer \<times> connection" where
  "handle_permit_request env value draws w sv =
     (case parse_permit_request env value of
        Inl e \<Rightarrow> (sv, w, Closed (Inl e))
      | Inr request \<Rightarrow>
          (case issue_permit sv request (id_now_seconds draws) (id_now_millis draws)
              (id_request_id draws) (id_key draws) of
             (sv, Inl e) \<Rightarrow>
               (case send_value env w (error_response env e) of (w, r) \<Rightarrow> (sv, w, Closed r))
           | (sv, Inr (key, permit)) \<Rightarrow>
               (case send_frame env w (serialize_permit_response env permit key
                   (supervisor_capability (so_bridge env) sv)) of
                  (w, Inl e) \<Rightarrow> (sv, w, Closed (Inl e))
                | (w, Inr _) \<Rightarrow> (sv, w, AwaitsRequest permit key))))"

definition handle_first ::
  "socket_env \<Rightarrow> u32 option \<Rightarrow> issue_draws \<Rightarrow> byte_reader \<Rightarrow> byte_writer \<Rightarrow> supervisor \<Rightarrow>
     supervisor \<times> byte_reader \<times> byte_writer \<times> connection" where
  "handle_first env peer draws r w sv =
     (case verify_peer_uid (so_euid env) peer of
        Inl e \<Rightarrow> (sv, r, w, Closed (Inl e))
      | Inr _ \<Rightarrow>
     (case receive_frame env r ''connection closed'' of
        (r, Inl e) \<Rightarrow> (sv, r, w, Closed (Inl e))
      | (r, Inr first) \<Rightarrow>
     (case bind_r (decode_permit_request env first) (\<lambda>value.
           bind_r (validate_development_broker_identity value sv) (\<lambda>_. Inr value)) of
        Inl e \<Rightarrow> (sv, r, w, Closed (Inl e))
      | Inr value \<Rightarrow>
          let message_type = unwrap_or_default (Option.bind (json_get value ''type'') as_str)
          in if message_type = ''permit_request''
             then (case handle_permit_request env value draws w sv of (sv, w, c) \<Rightarrow> (sv, r, w, c))
             else if message_type = ''doctor''
             then (case send_value env w (doctor_response env sv) of (w, x) \<Rightarrow> (sv, r, w, Closed x))
             else if message_type = ''reload''
             then (case send_value env w reload_response of (w, x) \<Rightarrow> (cancel sv, r, w, Closed x))
             else (sv, r, w, Closed (Inl (ProtocolMessage ''unsupported bridge command''))))))"

text \<open>The second frame: it must be the request the permit was issued for.  The last three arguments are
  what \<open>execute_admit\<close> draws on.\<close>

definition handle_request ::
  "socket_env \<Rightarrow> request_permit \<Rightarrow> bytes \<Rightarrow> byte_reader \<Rightarrow> supervisor \<Rightarrow> u64 \<Rightarrow> bool \<Rightarrow> u64 \<Rightarrow>
     supervisor \<times> byte_reader \<times> (bridge_error + execution)" where
  "handle_request env permit key r sv now late later =
     (case receive_frame env r ''request ended before execution'' of
        (r, Inl e) \<Rightarrow> (sv, r, Inl e)
      | (r, Inr frame) \<Rightarrow>
     (case map_err (\<lambda>e. ProtocolMessage (strict_error_text e))
           (parse_strict_json (be_json (so_bridge env)) (so_envelope env) frame) of
        Inl e \<Rightarrow> (sv, r, Inl e)
      | Inr e \<Rightarrow>
          if oe_request_id e \<noteq> rp_request_id permit \<or> oe_sequence e \<noteq> rp_sequence permit
             \<or> oe_generation e \<noteq> rp_generation permit \<or> oe_binding_id e \<noteq> rp_binding_id permit
          then (sv, r, Inl (ProtocolMessage ''permit and request identity mismatch''))
          else (case execute_admit (so_bridge env) sv e key now late later of
                  (sv, result) \<Rightarrow> (sv, r, result))))"

text \<open>After the execution its response is sent; \<open>response\<close> is what \<open>finish_execution\<close> returned.\<close>

definition send_response ::
  "socket_env \<Rightarrow> (outer_envelope \<Rightarrow> json) \<Rightarrow> byte_writer \<Rightarrow> bridge_error + outer_envelope \<Rightarrow>
     byte_writer \<times> (bridge_error + unit)" where
  "send_response env to_json w response = (case response of
      Inl e \<Rightarrow> (w, Inl e) | Inr e \<Rightarrow> send_value env w (to_json e))"

section \<open>Properties\<close>

text \<open>The local socket serves only the user the bridge runs as, only a development bridge, and only
  a client that knows the startup nonce when there is one.  A connection that fails any of these
  checks, or any check of its message, leaves the bridge's state as it was and gets not one byte;
  and what an accepted connection can do is to issue one permit or to cancel.\<close>

theorem socket_serves_owner_only:
  assumes "handle_first env peer draws r w sv = (sv', r', w', c)"
  shows "(sv' \<noteq> sv \<or> w' \<noteq> w \<or> (\<exists>permit key. c = AwaitsRequest permit key) \<longrightarrow>
      peer = Some (so_euid env) \<and>
      bc_release_profile (sv_config sv) \<in> {DevelopmentLocal, LogicTest} \<and>
      (\<forall>nonce. bc_broker_startup_nonce (sv_config sv) = Some nonce \<longrightarrow>
        (\<exists>content value object. read_frame r MAX_FRAME_BYTES = (r', Inr (Some content)) \<and>
           decode_permit_request env content = Inr value \<and> as_object value = Some object \<and>
           constant_time_text_eq nonce (unwrap_or_default (Option.bind (map_of object ''startup_nonce'') as_str)))))
    \<and> (sv' = sv \<or> sv' = cancel sv \<or>
       (\<exists>request result. issue_permit sv request (id_now_seconds draws) (id_now_millis draws)
          (id_request_id draws) (id_key draws) = (sv', result)))"
proof -
  show ?thesis
  proof (cases "verify_peer_uid (so_euid env) peer")
    case (Inl e)
    with assms show ?thesis by (auto simp: handle_first_def)
  next
    case (Inr u)
    then have peer: "peer = Some (so_euid env)" by (simp add: verify_peer_uid_def split: if_splits)
    show ?thesis
    proof (cases "\<exists>r1 content value. receive_frame env r ''connection closed'' = (r1, Inr content) \<and>
        decode_permit_request env content = Inr value \<and>
        validate_development_broker_identity value sv = Inr ()")
      case False
      then have "sv' = sv \<and> w' = w \<and> (\<exists>x. c = Closed x)"
        using assms Inr by (auto simp: handle_first_def bind_r_Inr_iff split: prod.splits sum.splits)
      then show ?thesis by auto
    next
      case True
      then obtain r1 content doc where f: "receive_frame env r ''connection closed'' = (r1, Inr content)"
        "decode_permit_request env content = Inr doc"
        "validate_development_broker_identity doc sv = Inr ()" by blast
      have frame: "read_frame r MAX_FRAME_BYTES = (r1, Inr (Some content))"
        using f(1) by (auto simp: receive_frame_def split: prod.splits sum.splits option.splits)
      obtain object where o: "as_object doc = Some object"
        "bc_release_profile (sv_config sv) \<in> {DevelopmentLocal, LogicTest}"
        "development_broker_nonce_matches sv (Option.bind (map_of object ''startup_nonce'') as_str)"
        using f(3) by (auto simp: validate_development_broker_identity_def bind_r_Inr_iff split: if_splits)
      have reader: "r' = r1" and state: "sv' = sv \<or> sv' = cancel sv \<or>
          (\<exists>request result. issue_permit sv request (id_now_seconds draws) (id_now_millis draws)
             (id_request_id draws) (id_key draws) = (sv', result))"
        using assms f Inr
        by (auto simp: handle_first_def handle_permit_request_def Let_def
            split: prod.splits sum.splits if_splits)
      show ?thesis
        using peer o f(2) frame reader state
        by (auto simp: development_broker_nonce_matches_def)
    qed
  qed
qed

text \<open>A permit issued to a connection can only be used by it for the request it was issued for: the
  second frame is handed to the supervisor only if its binding, generation, request id and sequence
  number are those of the permit, together with the key that was sent with the permit; otherwise
  nothing changes.\<close>

theorem connection_uses_its_own_permit:
  assumes "handle_request env permit key r sv now late later = (sv', r', result)"
  shows "(sv' = sv \<and> (\<exists>e. result = Inl e)) \<or>
    (\<exists>e. oe_request_id e = rp_request_id permit \<and> oe_sequence e = rp_sequence permit \<and>
       oe_generation e = rp_generation permit \<and> oe_binding_id e = rp_binding_id permit \<and>
       execute_admit (so_bridge env) sv e key now late later = (sv', result))"
  using assms
  by (auto simp: handle_request_def split: prod.splits sum.splits if_splits)

text \<open>The witnesses: a connection that asks to reload, and one that asks for the sample permit.\<close>

definition sample_socket :: "json \<Rightarrow> socket_env" where
  "sample_socket value = \<lparr>so_bridge = run_env\<lparr>be_json := (be_json run_env)
        \<lparr>jc_parse := (\<lambda>_. DMap [(''type'', DStr ''reload'')] None), jc_at_end := (\<lambda>_. True)\<rparr>\<rparr>,
     so_permit_request = (\<lambda>_. Inr sample_permit_request), so_envelope = (\<lambda>_. Inl ''no''),
     so_permit_json = (\<lambda>_. value), so_capability_json = (\<lambda>_. value), so_error_text = (\<lambda>_. ''error''),
     so_frame_error_text = (\<lambda>_. ''frame''), so_euid = 501\<rparr>"

text \<open>A connection of the owner with one frame of one byte, which the sample reader takes for a reload.\<close>

definition sample_reader :: byte_reader where
  "sample_reader = \<lparr>br_data = [0, 0, 0, 1, 9], br_end = Eof\<rparr>"

definition sample_writer :: byte_writer where
  "sample_writer = \<lparr>bw_out = [], bw_room = None, bw_flush_error = None\<rparr>"

definition sample_draws :: issue_draws where
  "sample_draws = \<lparr>id_now_seconds = 1000, id_now_millis = 5, id_request_id = ''r-1'', id_key = []\<rparr>"

lemma sample_frame:
  "receive_frame env sample_reader closed = (\<lparr>br_data = [], br_end = Eof\<rparr>, Inr [9])"
proof -
  have "from_be [0, 0, 0, 1 :: u8] = 1" by (simp add: from_be_def)
  then show ?thesis
    by (simp add: receive_frame_def read_frame_def sample_reader_def read_exact_def MAX_FRAME_BYTES_def)
qed

lemma sample_command: "decode_permit_request (sample_socket j) [9] = Inr (JObject [(''type'', JString ''reload'')])"
  by (simp add: decode_permit_request_def sample_socket_def parse_strict_json_def run_env_def)

lemma sample_broker:
  "validate_development_broker_identity (JObject [(''type'', JString ''reload'')]) sample_supervisor = Inr ()"
  by (simp add: validate_development_broker_identity_def development_broker_nonce_matches_def
      sample_config_fields sample_supervisor_def)
    (simp add: sample_config_def apply_verified_policy_def from_environment_def Let_def env_var_def
      unwrap_or_def sample_policy_def)

lemma sample_reload:
  "\<exists>w' c. handle_first (sample_socket j) (Some 501) sample_draws sample_reader sample_writer sample_supervisor
     = (cancel sample_supervisor, \<lparr>br_data = [], br_end = Eof\<rparr>, w', c)"
proof -
  have "so_euid (sample_socket j) = 501" by (simp add: sample_socket_def)
  then show ?thesis
    by (simp add: handle_first_def verify_peer_uid_def sample_frame sample_command sample_broker
        Let_def unwrap_or_default_def split: prod.split)
qed

theorem socket_serves_owner_only_witness:
  "\<exists>sv' r' w' c. handle_first (sample_socket JNull) (Some 501) sample_draws sample_reader sample_writer
       sample_supervisor = (sv', r', w', c) \<and> sv' \<noteq> sample_supervisor \<and>
     bc_release_profile (sv_config sample_supervisor) \<in> {DevelopmentLocal, LogicTest}"
proof -
  obtain w' c where h: "handle_first (sample_socket JNull) (Some 501) sample_draws sample_reader sample_writer
      sample_supervisor = (cancel sample_supervisor, \<lparr>br_data = [], br_end = Eof\<rparr>, w', c)"
    using sample_reload by blast
  have changed: "cancel sample_supervisor \<noteq> sample_supervisor"
    by (simp add: cancel_def sample_supervisor_def)
  with socket_serves_owner_only [OF h] h show ?thesis by blast
qed

theorem connection_uses_its_own_permit_witness:
  "\<exists>sv' r' result. handle_request (sample_socket JNull) sample_permit [] sample_reader sample_supervisor 5 False 5
       = (sv', r', result) \<and>
     ((sv' = sample_supervisor \<and> (\<exists>e. result = Inl e)) \<or>
      (\<exists>e. oe_request_id e = ''r-1'' \<and>
         execute_admit (so_bridge (sample_socket JNull)) sample_supervisor e [] 5 False 5 = (sv', result)))"
proof -
  obtain sv' r' result where h: "handle_request (sample_socket JNull) sample_permit [] sample_reader
      sample_supervisor 5 False 5 = (sv', r', result)" by (metis prod_cases3)
  have "rp_request_id sample_permit = ''r-1''" by (simp add: sample_permit_def)
  with connection_uses_its_own_permit [OF h] h show ?thesis by auto
qed

end
