(* ===== verification/Execution_Supervisor.thy ===== *)
theory Execution_Supervisor
  imports Execution
begin

text \<open>
  The independent process that owns one run of the local runtime, \<open>run_execution_supervisor\<close> of
  \<open>crates/local-bridge/src/execution_runner.rs\<close>, and the metric events the bridge writes after an
  execution.  The bridge talks to it over its standard input, which it keeps open; the end of that
  pipe means that the bridge is gone or gave up.
\<close>

section \<open>The supervising process\<close>

text \<open>What \<open>read_exact\<close> on the control pipe gives: the bytes, or an error.\<close>

record supervisor_answers =
  sa_argument_count :: nat
  sa_executable :: "path option"
  sa_artifact_dir :: "path option"
  sa_length_bytes :: "io_error + bytes"
  sa_script :: "io_error + bytes"
  sa_socket_dir :: "io_error option"
  sa_current_exe :: "io_error option"
  sa_spawn :: "io_error option"
  sa_pid :: bool
  sa_stdin :: bool
  sa_write :: "io_error option"
  sa_shutdown :: "io_error option"

text \<open>What happens after the script is written: the runtime exits (with a code, or without one after a
  signal, or waiting fails), or the control pipe yields something or ends.\<close>

datatype supervisor_event = RuntimeExits "io_error + int option" | ControlSpeaks

definition MAX_SUPERVISED_SCRIPT :: nat where
  "MAX_SUPERVISED_SCRIPT = MAX_SCRIPT_BYTES + 64 * 1024"

definition await_runtime :: "bool \<Rightarrow> supervisor_event \<Rightarrow> (bridge_error + int) \<times> process_effect list" where
  "await_runtime pid ev = (case ev of
      RuntimeExits (Inr code) \<Rightarrow>
        (Inr (unwrap_or code 1), [ObservedExit] @ (if pid then [GroupKill] else []))
    | RuntimeExits (Inl e) \<Rightarrow>
        (Inl (IoFailure e), (if pid then [GroupKill] else []) @ terminate_child pid)
    | ControlSpeaks \<Rightarrow> (Inr 125, terminate_child pid))"

definition system_ok :: "io_error option \<Rightarrow> bridge_error + unit" where
  "system_ok failure = (case failure of Some e \<Rightarrow> Inl (IoFailure e) | None \<Rightarrow> Inr ())"

text \<open>Everything up to the start of the runtime.\<close>

definition start_runtime :: "supervisor_answers \<Rightarrow> bridge_error + unit" where
  "start_runtime a =
     bind_r (ensure (sa_argument_count a = 2)
       (ProtocolMessage ''invalid execution supervisor arguments'')) (\<lambda>_.
     bind_r (ok_or (ProtocolMessage ''supervised executable is missing'') (sa_executable a)) (\<lambda>executable.
     bind_r (ok_or (ProtocolMessage ''artifact directory is missing'') (sa_artifact_dir a)) (\<lambda>artifact_dir.
     bind_r (ensure (is_absolute executable \<and> is_absolute artifact_dir)
       (ProtocolMessage ''execution supervisor paths must be absolute'')) (\<lambda>_.
     bind_r (map_err IoFailure (sa_length_bytes a)) (\<lambda>length_bytes.
     bind_r (ensure (0 < from_be length_bytes \<and> from_be length_bytes \<le> MAX_SUPERVISED_SCRIPT)
       (ProtocolMessage ''supervised script exceeds limit'')) (\<lambda>_.
     bind_r (map_err IoFailure (sa_script a)) (\<lambda>script.
     bind_r (system_ok (sa_socket_dir a)) (\<lambda>_.
     bind_r (system_ok (sa_current_exe a)) (\<lambda>_.
     system_ok (sa_spawn a))))))))))"

text \<open>The script is handed to the started runtime, which is ended when that fails.\<close>

definition feed_runtime :: "supervisor_answers \<Rightarrow> bridge_error + unit" where
  "feed_runtime a =
     bind_r (ensure (sa_stdin a) (ProtocolMessage ''runtime stdin is unavailable'')) (\<lambda>_.
     bind_r (system_ok (sa_write a)) (\<lambda>_. system_ok (sa_shutdown a)))"

definition run_execution_supervisor ::
  "supervisor_answers \<Rightarrow> supervisor_event \<Rightarrow> (bridge_error + int) \<times> process_effect list" where
  "run_execution_supervisor a ev =
     (case start_runtime a of
        Inl e \<Rightarrow> (Inl e, [])
      | Inr _ \<Rightarrow>
          (case feed_runtime a of
             Inl e \<Rightarrow> (Inl e, Spawn # terminate_child (sa_pid a))
           | Inr _ \<Rightarrow> (case await_runtime (sa_pid a) ev of (result, effects) \<Rightarrow> (result, Spawn # effects))))"

section \<open>Metrics\<close>

text \<open>A metric event: its name, its labels besides the status, and its value; \<open>seconds\<close> is the JSON
  number of a duration in milliseconds divided by 1000.\<close>

definition media_class :: "string \<Rightarrow> string" where
  "media_class media_type =
     (if media_type = ''image/jpeg'' then ''image/jpeg''
      else if media_type = ''image/png'' then ''image/png'' else ''other'')"

definition metric :: "string \<Rightarrow> string \<Rightarrow> string \<Rightarrow> (string \<times> json) list \<Rightarrow> jnum \<Rightarrow> json" where
  "metric name unit status labels v = JObject (btree_of
     ([(''event'', JString ''metric''), (''metric'', JString name), (''status'', JString status),
       (''unit'', JString unit), (''value'', JNumber v)] @ labels))"

definition execution_metric_events ::
  "(u64 \<Rightarrow> jnum) \<Rightarrow> execution_status \<Rightarrow> u64 \<Rightarrow> nat \<Rightarrow> nat \<Rightarrow> artifact_descriptor list \<Rightarrow> json list" where
  "execution_metric_events seconds status duration_ms request_bytes response_bytes artifacts =
     (let label = execution_status_label status;
          classes = map (\<lambda>a. media_class (ad_media_type a)) artifacts;
          counts = btree_of (map (\<lambda>c. (c, length (filter (\<lambda>x. x = c) classes))) classes)
      in [metric ''ego_browser_execute_total'' ''executions'' label [] (PosInt 1),
          metric ''ego_browser_execute_duration_seconds'' ''seconds'' label [] (seconds duration_ms),
          metric ''ego_browser_bytes_total'' ''bytes'' label [(''direction'', JString ''request'')]
            (PosInt (of_nat request_bytes)),
          metric ''ego_browser_bytes_total'' ''bytes'' label [(''direction'', JString ''response'')]
            (PosInt (of_nat response_bytes))]
         @ map (\<lambda>(c, n). metric ''ego_browser_artifacts_total'' ''artifacts'' label
              [(''media_type'', JString c)] (PosInt (of_nat n))) counts)"

section \<open>Properties\<close>



definition metric_vocabulary :: "string set" where
  "metric_vocabulary = {''metric'', ''ego_browser_execute_total'', ''ego_browser_execute_duration_seconds'',
     ''ego_browser_bytes_total'', ''ego_browser_artifacts_total'', ''executions'', ''seconds'', ''bytes'',
     ''artifacts'', ''request'', ''response'', ''image/jpeg'', ''image/png'', ''other''}
     \<union> range execution_status_label"

definition plain_event :: "json \<Rightarrow> bool" where
  "plain_event event \<longleftrightarrow> (\<exists>kvs. event = JObject kvs \<and>
     (\<forall>(k, v) \<in> set kvs. (\<exists>n. v = JNumber n) \<or> (\<exists>s \<in> metric_vocabulary. v = JString s)))"

lemma plain_btree:
  assumes "\<forall>(k, v) \<in> set kvs. (\<exists>n. v = JNumber n) \<or> (\<exists>s \<in> metric_vocabulary. v = JString s)"
  shows "plain_event (JObject (btree_of kvs))"
  unfolding plain_event_def
  by (rule exI [of _ "btree_of kvs"], rule conjI, rule refl, rule ballI, rule bspec [OF assms],
      rule subsetD [OF set_btree_of])

lemma metric_plain:
  assumes "name \<in> metric_vocabulary" "unit \<in> metric_vocabulary" "status \<in> metric_vocabulary"
    and "\<forall>(k, l) \<in> set labels. \<exists>s \<in> metric_vocabulary. l = JString s"
  shows "plain_event (metric name unit status labels v)"
proof -
  let ?kvs = "[(''event'', JString ''metric''), (''metric'', JString name),
      (''status'', JString status), (''unit'', JString unit), (''value'', JNumber v)] @ labels"
  have word: "''metric'' \<in> metric_vocabulary" by (simp add: metric_vocabulary_def)
  have "\<forall>(k, v) \<in> set ?kvs. (\<exists>n. v = JNumber n) \<or> (\<exists>s \<in> metric_vocabulary. v = JString s)"
    using word assms by auto
  then show ?thesis unfolding metric_def by (rule plain_btree)
qed

lemma vocabulary_words:
  "''ego_browser_execute_total'' \<in> metric_vocabulary" "''ego_browser_bytes_total'' \<in> metric_vocabulary"
  "''ego_browser_execute_duration_seconds'' \<in> metric_vocabulary" "''executions'' \<in> metric_vocabulary"
  "''ego_browser_artifacts_total'' \<in> metric_vocabulary" "''seconds'' \<in> metric_vocabulary"
  "''bytes'' \<in> metric_vocabulary" "''artifacts'' \<in> metric_vocabulary" "''request'' \<in> metric_vocabulary"
  "''response'' \<in> metric_vocabulary" "execution_status_label s \<in> metric_vocabulary"
  "media_class m \<in> metric_vocabulary"
  by (simp_all add: metric_vocabulary_def media_class_def)

text \<open>The metrics that leave the process carry no content: whatever the artifacts are called and
  however they are labelled, every event is an object of numbers and of words of a fixed
  vocabulary, and there are at most seven events.\<close>

theorem metrics_carry_no_content:
  "(\<forall>event \<in> set (execution_metric_events seconds status duration requested responded artifacts).
      plain_event event) \<and>
   length (execution_metric_events seconds status duration requested responded artifacts) \<le> 7"
proof -
  let ?classes = "map (\<lambda>a. media_class (ad_media_type a)) artifacts"
  let ?kvs = "map (\<lambda>c. (c, length (filter (\<lambda>x. x = c) ?classes))) ?classes"
  have sub: "set (btree_of ?kvs) \<subseteq> set ?kvs" by (rule set_btree_of)
  then have words: "c \<in> metric_vocabulary" if "(c, n) \<in> set (btree_of ?kvs)" for c n
    using that vocabulary_words(12) by fastforce
  have "set (keys_of (btree_of ?kvs)) \<subseteq> {''image/jpeg'', ''image/png'', ''other''}"
    using sub by (fastforce simp: media_class_def)
  then have "card (set (keys_of (btree_of ?kvs))) \<le> card {''image/jpeg'', ''image/png'', ''other''}"
    by (rule card_mono [rotated]) simp
  moreover have "length (btree_of ?kvs) = card (set (keys_of (btree_of ?kvs)))"
    using distinct_card [OF sorted_keys_distinct [OF sorted_btree_of, of ?kvs]] by simp
  ultimately have small: "length (btree_of ?kvs) \<le> 3" by simp
  show ?thesis
    using small words vocabulary_words
    by (auto simp: execution_metric_events_def Let_def intro!: metric_plain)
qed

end
