(* ===== verification/Credential_Store.thy ===== *)
theory Credential_Store
  imports Device_Types
begin

text \<open>
  The owner-only store of the device client, \<open>crates/device-client/src/credential_store.rs\<close>.  The
  store is the content of its files; an operation may fail at every write, before or after the file
  has changed, which also covers a crash at that point, because an operation stops at its first
  error.  The serializers of \<open>serde_json\<close> and the strict readers, the key arithmetic and the digests
  are parameters.
\<close>

section \<open>Files\<close>

datatype store_file =
  CredentialFile | KeyFile | IdentityMetadataFile | PendingKeyFile | PendingRotationFile
| PendingRegistrationFile | PolicyFile | PolicyLockFile | RegistrationLockFile | ActiveBindingFile
| AdmissionFile

text \<open>A file is absent, holds bytes, or is refused by the checks of its metadata or by the system.\<close>

datatype entry = Absent | Refused credential_error | Content bytes

type_synonym files = "store_file \<Rightarrow> entry"

text \<open>What happens at a write or removal: it works, it fails and leaves the file (no temporary file,
  no space, a destination that the rename cannot replace), or the file changes and a later step of
  the same operation fails (the check or the sync after a rename).\<close>

datatype fault = Works | FailsBefore credential_error | FailsAfter credential_error

type_synonym 'a store_op = "files \<times> fault list \<Rightarrow> (credential_error + 'a) \<times> files \<times> fault list"

definition give :: "'a \<Rightarrow> 'a store_op" where
  "give x = (\<lambda>(st, fs). (Inr x, st, fs))"

definition refuse :: "credential_error \<Rightarrow> 'a store_op" where
  "refuse e = (\<lambda>(st, fs). (Inl e, st, fs))"

definition andthen :: "'a store_op \<Rightarrow> ('a \<Rightarrow> 'b store_op) \<Rightarrow> 'b store_op" where
  "andthen m f = (\<lambda>s. case m s of (Inl e, s) \<Rightarrow> (Inl e, s) | (Inr x, s) \<Rightarrow> f x s)"

definition lift_s :: "credential_error + 'a \<Rightarrow> 'a store_op" where
  "lift_s r = (\<lambda>(st, fs). (r, st, fs))"

text \<open>The result of an operation as a value, for the code that inspects it.\<close>

definition attempt :: "'a store_op \<Rightarrow> (credential_error + 'a) store_op" where
  "attempt m = (\<lambda>s. case m s of (r, s) \<Rightarrow> (Inr r, s))"

definition MAX_CREDENTIAL_BYTES :: nat where
  "MAX_CREDENTIAL_BYTES = 64 * 1024"

definition read_owner_file :: "store_file \<Rightarrow> bytes store_op" where
  "read_owner_file f = (\<lambda>(st, fs). ((case st f of
      Absent \<Rightarrow> Inl Missing
    | Refused e \<Rightarrow> Inl e
    | Content bs \<Rightarrow> if length bs > MAX_CREDENTIAL_BYTES then Inl TooLarge else Inr bs), st, fs))"

fun with_fault :: "files \<Rightarrow> (files \<times> fault list) \<Rightarrow> (credential_error + unit) \<times> files \<times> fault list" where
  "with_fault changed (st, []) = (Inr (), changed, [])"
| "with_fault changed (st, Works # fs) = (Inr (), changed, fs)"
| "with_fault changed (st, FailsBefore e # fs) = (Inl e, st, fs)"
| "with_fault changed (st, FailsAfter e # fs) = (Inl e, changed, fs)"

text \<open>\<open>atomic_owner_write\<close> replaces whatever is at the destination.\<close>

definition atomic_owner_write :: "store_file \<Rightarrow> bytes \<Rightarrow> unit store_op" where
  "atomic_owner_write f bs = (\<lambda>(st, fs). with_fault (st(f := Content bs)) (st, fs))"

definition remove_owner_file_if_present :: "store_file \<Rightarrow> unit store_op" where
  "remove_owner_file_if_present f = (\<lambda>(st, fs). case st f of
      Absent \<Rightarrow> (Inr (), st, fs)
    | Refused e \<Rightarrow> (Inl e, st, fs)
    | Content _ \<Rightarrow> with_fault (st(f := Absent)) (st, fs))"

lemma op_simps [simp]:
  "give x s = (Inr x, s)" "refuse e s = (Inl e, s)" "lift_s r s = (r, s)"
  "andthen m f s = (case m s of (Inl e, s) \<Rightarrow> (Inl e, s) | (Inr x, s) \<Rightarrow> f x s)"
  "attempt m s = (case m s of (r, s) \<Rightarrow> (Inr r, s))"
  by (cases s; simp add: give_def refuse_def lift_s_def andthen_def attempt_def)+

section \<open>The directory and its locks\<close>

text \<open>What the operating system answers about the directory of the store.\<close>

record directory_answers =
  da_absolute :: bool
  da_exists :: bool
  da_create :: "io_error + unit"
  da_set_mode :: "io_error + unit"
  da_metadata :: "io_error + file_meta"
  da_euid :: u32

text \<open>\<open>CredentialStore::new\<close>.\<close>

definition credential_store_new :: "directory_answers \<Rightarrow> credential_error + unit" where
  "credential_store_new a =
     (if \<not> da_absolute a then Inl InvalidPath
      else
        bind_r (map_err CredentialIo (da_create a)) (\<lambda>_.
        bind_r (if \<not> da_exists a then map_err CredentialIo (da_set_mode a) else Inr ()) (\<lambda>_.
        bind_r (map_err CredentialIo (da_metadata a)) (\<lambda>m.
          if fm_symlink m \<or> \<not> fm_dir m then Inl InvalidPath
          else if fm_uid m \<noteq> da_euid a \<or> mode_bits m 63 \<noteq> 0 then Inl UnsafePermissions
          else Inr ()))))"

definition WouldBlock :: io_error where "WouldBlock = OtherIo ''would block''"

text \<open>A lock file is created when it is absent; \<open>answer\<close> is what \<open>flock\<close> says of it, and \<open>busy\<close> the
  error when another process holds the lock and the call does not wait.\<close>

definition lock_file ::
  "store_file \<Rightarrow> io_error + unit \<Rightarrow> credential_error option \<Rightarrow> unit store_op" where
  "lock_file f answer busy = (\<lambda>(st, fs). case st f of
      Refused e \<Rightarrow> (Inl e, st, fs)
    | entry \<Rightarrow>
        (case answer of Inr _ \<Rightarrow> Inr ()
         | Inl e \<Rightarrow> Inl (if e = WouldBlock \<and> busy \<noteq> None then the busy else CredentialIo e),
         if entry = Absent then st(f := Content []) else st, fs))"

definition lock_registration :: "io_error + unit \<Rightarrow> unit store_op" where
  "lock_registration answer = lock_file RegistrationLockFile answer (Some LocalLockBusy)"

definition lock_policy :: "bool \<Rightarrow> io_error + unit \<Rightarrow> unit store_op" where
  "lock_policy fail_if_locked answer =
     lock_file PolicyLockFile answer (if fail_if_locked then Some PolicyConflict else None)"

section \<open>Parameters\<close>

text \<open>A codec is the serializer of a document and the strict reader for it.\<close>

record 'd codec =
  co_write :: "'d \<Rightarrow> bytes"
  co_read :: "bytes \<Rightarrow> 'd option"

text \<open>The document survives being written and read, and its text is within the bound of a read.\<close>

definition fits :: "'d codec \<Rightarrow> 'd \<Rightarrow> bool" where
  "fits c d \<longleftrightarrow> co_read c (co_write c d) = Some d \<and> length (co_write c d) \<le> MAX_CREDENTIAL_BYTES"

record store_env =
  st_url :: "string \<Rightarrow> parsed_url option"
  st_var_os :: "string \<Rightarrow> string option"
  st_now :: u64
  st_sha256_hex :: "string \<Rightarrow> string"
  st_signing_public :: "bytes \<Rightarrow> string"
  st_encryption_public :: "bytes \<Rightarrow> string"
  st_credential :: "community_credential codec"
  st_metadata :: "stored_identity_metadata codec"
  st_registration :: "pending_registration codec"
  st_rotation :: "pending_rotation codec"
  st_binding :: "active_binding codec"
  st_admission :: "local_admission_record codec"

section \<open>Identities\<close>

record identity =
  ik_device_id :: string
  ik_signing_key :: bytes
  ik_encryption_key :: bytes
  ik_generation :: u64
  ik_release_profile :: string
  ik_credential_profile :: string
  ik_legacy :: bool

definition public_key_b64 :: "store_env \<Rightarrow> identity \<Rightarrow> string" where
  "public_key_b64 env i = st_signing_public env (ik_signing_key i)"

definition encryption_public_key_b64 :: "store_env \<Rightarrow> identity \<Rightarrow> string" where
  "encryption_public_key_b64 env i = st_encryption_public env (ik_encryption_key i)"

definition KEY_FORMAT_2 :: bytes where "KEY_FORMAT_2 = as_bytes ''EGBKEY2'' @ [0]"
definition KEY_FORMAT_1 :: bytes where "KEY_FORMAT_1 = as_bytes ''EGBKEY1'' @ [0]"

definition encode_identity :: "identity \<Rightarrow> bytes" where
  "encode_identity i = KEY_FORMAT_2 @ be64 (ik_generation i) @ ik_signing_key i @ ik_encryption_key i"

text \<open>\<open>random\<close> is the encryption key generated for a key file of the first format.\<close>

definition decode_identity ::
  "bytes \<Rightarrow> bytes \<Rightarrow> string \<Rightarrow> string \<Rightarrow> string \<Rightarrow> credential_error + identity" where
  "decode_identity random bs device_id release_profile credential_profile =
     (if length bs \<noteq> 8 + 8 + 32 + 32 \<and> length bs \<noteq> 8 + 8 + 32 then Inl Malformed
      else
        let format = take 8 bs in
        if format \<noteq> KEY_FORMAT_2 \<and> format \<noteq> KEY_FORMAT_1 then Inl Malformed
        else
          let generation = of_nat (from_be (take 8 (drop 8 bs))) in
          if generation = 0 then Inl Malformed
          else
            let key = take 32 (drop 16 bs) in
            bind_r (if format = KEY_FORMAT_2
                then let encryption = drop 48 bs in
                  if length encryption \<noteq> 32 then Inl Malformed else Inr (encryption, False)
                else Inr (random, True)) (\<lambda>(encryption, legacy).
              Inr \<lparr>ik_device_id = device_id, ik_signing_key = key, ik_encryption_key = encryption,
                   ik_generation = generation, ik_release_profile = release_profile,
                   ik_credential_profile = credential_profile, ik_legacy = legacy\<rparr>))"

definition load_identity_file ::
  "bytes \<Rightarrow> store_file \<Rightarrow> string \<Rightarrow> string \<Rightarrow> string \<Rightarrow> identity store_op" where
  "load_identity_file random f device_id release_profile credential_profile =
     andthen (read_owner_file f) (\<lambda>bs.
       lift_s (decode_identity random bs device_id release_profile credential_profile))"

definition load_identity :: "bytes \<Rightarrow> string \<Rightarrow> string \<Rightarrow> string \<Rightarrow> identity store_op" where
  "load_identity random = load_identity_file random KeyFile"

definition save_identity :: "identity \<Rightarrow> unit store_op" where
  "save_identity i = atomic_owner_write KeyFile (encode_identity i)"

definition identity_exists :: "bool store_op" where
  "identity_exists = (\<lambda>(st, fs). ((case st KeyFile of
      Absent \<Rightarrow> Inr False | Refused e \<Rightarrow> Inl e | Content _ \<Rightarrow> Inr True), st, fs))"

text \<open>A well-formed key: its parts have the lengths of their types.\<close>

definition key_ok :: "identity \<Rightarrow> bool" where
  "key_ok i \<longleftrightarrow> length (ik_signing_key i) = 32 \<and> length (ik_encryption_key i) = 32 \<and>
     ik_generation i \<noteq> 0 \<and> \<not> ik_legacy i"

lemma key_formats: "length KEY_FORMAT_2 = 8" "length KEY_FORMAT_1 = 8"
  by (simp_all add: KEY_FORMAT_2_def KEY_FORMAT_1_def as_bytes_def)

lemma encode_identity_length: "key_ok i \<Longrightarrow> length (encode_identity i) = 80"
  by (simp add: encode_identity_def key_formats key_ok_def)

lemma decode_encode_identity:
  assumes "key_ok i"
  shows "decode_identity random (encode_identity i) (ik_device_id i) (ik_release_profile i)
    (ik_credential_profile i) = Inr i"
proof -
  let ?bs = "encode_identity i"
  have parts: "take 8 ?bs = KEY_FORMAT_2" "take 8 (drop 8 ?bs) = be64 (ik_generation i)"
    "take 32 (drop 16 ?bs) = ik_signing_key i" "drop 48 ?bs = ik_encryption_key i"
    using assms by (simp_all add: encode_identity_def key_formats key_ok_def)
  have "(of_nat (from_be (be64 (ik_generation i))) :: u64) = ik_generation i"
    by (simp add: from_be64)
  with parts show ?thesis
    using assms encode_identity_length [OF assms]
    by (simp add: decode_identity_def Let_def key_ok_def)
qed

lemma encode_identity_inj:
  assumes "key_ok i" "key_ok j" "encode_identity i = encode_identity j"
  shows "ik_generation i = ik_generation j \<and> ik_signing_key i = ik_signing_key j
    \<and> ik_encryption_key i = ik_encryption_key j"
  using assms by (auto simp: encode_identity_def key_ok_def be64_inj)

end
