(* ===== verification/Store_Documents.thy ===== *)
theory Store_Documents
  imports Credential_Store
begin

text \<open>
  The documents of the device client's store, \<open>crates/device-client/src/credential_store.rs\<close>: the
  credential, the identity metadata, the active binding, the local admission gate and the pending
  registration, each with its checks, and the removal of everything when the device is forgotten.
\<close>

section \<open>Reading and writing one document\<close>

text \<open>The strict reader of a document, whose failure is \<open>Malformed\<close>, and a check of the value.\<close>

definition read_document :: "'d codec \<Rightarrow> store_file \<Rightarrow> 'd store_op" where
  "read_document c f =
     andthen (read_owner_file f) (\<lambda>bs. lift_s (ok_or Malformed (co_read c bs)))"

definition write_document :: "'d codec \<Rightarrow> store_file \<Rightarrow> 'd \<Rightarrow> unit store_op" where
  "write_document c f d = atomic_owner_write f (co_write c d)"

definition check_s :: "bool \<Rightarrow> credential_error \<Rightarrow> unit store_op" where
  "check_s c e = (if c then give () else refuse e)"

section \<open>Credential and identity metadata\<close>

definition load_credential :: "store_env \<Rightarrow> u64 option \<Rightarrow> community_credential store_op" where
  "load_credential env now =
     andthen (read_document (st_credential env) CredentialFile) (\<lambda>c.
     andthen (check_s (valid_community_credential (st_url env) c now) Malformed) (\<lambda>_. give c))"

definition load_credential_at :: "store_env \<Rightarrow> u64 \<Rightarrow> community_credential store_op" where
  "load_credential_at env now = load_credential env (Some now)"

definition load_for_rotation :: "store_env \<Rightarrow> community_credential store_op" where
  "load_for_rotation env = load_credential env None"

definition save_credential :: "store_env \<Rightarrow> community_credential \<Rightarrow> unit store_op" where
  "save_credential env c =
     andthen (check_s (valid_community_credential (st_url env) c None) Malformed) (\<lambda>_.
     andthen (check_s (length (co_write (st_credential env) c) \<le> MAX_CREDENTIAL_BYTES) TooLarge)
       (\<lambda>_. write_document (st_credential env) CredentialFile c))"

definition identity_metadata :: "identity \<Rightarrow> string \<Rightarrow> stored_identity_metadata" where
  "identity_metadata i url =
     \<lparr>im_version = 1, im_device_id = ik_device_id i, im_server_url = url,
      im_release_profile = ik_release_profile i, im_credential_profile = ik_credential_profile i\<rparr>"

definition save_identity_metadata :: "store_env \<Rightarrow> identity \<Rightarrow> string \<Rightarrow> unit store_op" where
  "save_identity_metadata env i server_url =
     andthen (lift_s (canonical_server_url (st_url env) server_url)) (\<lambda>url.
     andthen (check_s (valid_stored_identity_metadata (st_url env) (identity_metadata i url))
        Malformed) (\<lambda>_.
       write_document (st_metadata env) IdentityMetadataFile (identity_metadata i url)))"

definition load_identity_metadata :: "store_env \<Rightarrow> stored_identity_metadata store_op" where
  "load_identity_metadata env =
     andthen (read_document (st_metadata env) IdentityMetadataFile) (\<lambda>m.
     andthen (check_s (valid_stored_identity_metadata (st_url env) m) Malformed) (\<lambda>_. give m))"

definition credential_identity ::
  "bytes \<Rightarrow> community_credential \<Rightarrow> identity store_op" where
  "credential_identity random c =
     load_identity random (cc_device_id c) (cc_release_profile c) (cc_credential_profile c)"

definition metadata_identity ::
  "bytes \<Rightarrow> stored_identity_metadata \<Rightarrow> identity store_op" where
  "metadata_identity random m =
     load_identity random (im_device_id m) (im_release_profile m) (im_credential_profile m)"

definition device_metadata ::
  "identity \<Rightarrow> string \<Rightarrow> u64 \<Rightarrow> u64 \<Rightarrow> local_device_metadata" where
  "device_metadata i url revision expires =
     \<lparr>lm_device_id = ik_device_id i, lm_device_generation = ik_generation i, lm_server_url = url,
      lm_release_profile = ik_release_profile i, lm_credential_profile = ik_credential_profile i,
      lm_credential_revision = revision, lm_credential_expires_at_unix = expires\<rparr>"

definition local_metadata :: "store_env \<Rightarrow> bytes \<Rightarrow> local_device_metadata store_op" where
  "local_metadata env random =
     andthen (attempt (load_for_rotation env)) (\<lambda>r. case r of
       Inr c \<Rightarrow>
         andthen (credential_identity random c) (\<lambda>i.
         andthen (save_identity_metadata env i (cc_server_url c)) (\<lambda>_.
           give (device_metadata i (cc_server_url c) (cc_revision c) (cc_expires_at_unix c))))
     | Inl e \<Rightarrow>
         if e = Missing then
           andthen (load_identity_metadata env) (\<lambda>m.
           andthen (metadata_identity random m) (\<lambda>i.
             give (device_metadata i (im_server_url m) 0 0)))
         else refuse e)"

definition retire_runtime_state :: "store_env \<Rightarrow> bytes \<Rightarrow> unit store_op" where
  "retire_runtime_state env random =
     andthen (attempt (load_for_rotation env)) (\<lambda>r.
     andthen (case r of
         Inr c \<Rightarrow>
           andthen (credential_identity random c) (\<lambda>i.
             save_identity_metadata env i (cc_server_url c))
       | Inl e \<Rightarrow> if e = Missing then give () else refuse e) (\<lambda>_.
     andthen (remove_owner_file_if_present CredentialFile) (\<lambda>_.
       remove_owner_file_if_present ActiveBindingFile)))"

section \<open>Active binding\<close>

definition save_active_binding :: "store_env \<Rightarrow> active_binding \<Rightarrow> unit store_op" where
  "save_active_binding env b =
     andthen (lift_s (validate_active_binding b)) (\<lambda>_.
       write_document (st_binding env) ActiveBindingFile b)"

definition load_active_binding :: "store_env \<Rightarrow> string \<Rightarrow> active_binding store_op" where
  "load_active_binding env device_id =
     andthen (read_document (st_binding env) ActiveBindingFile) (\<lambda>b.
     andthen (check_s (ab_device_id b = device_id) Malformed) (\<lambda>_.
     andthen (lift_s (validate_active_binding b)) (\<lambda>_. give b)))"

definition clear_active_binding :: "unit store_op" where
  "clear_active_binding = remove_owner_file_if_present ActiveBindingFile"

section \<open>Local admission\<close>

definition MAX_ADMISSION_BYTES :: nat where "MAX_ADMISSION_BYTES = 16 * 1024"

definition load_local_admission :: "store_env \<Rightarrow> local_admission_record store_op" where
  "load_local_admission env =
     andthen (read_owner_file AdmissionFile) (\<lambda>bs.
     andthen (check_s (length bs \<le> MAX_ADMISSION_BYTES) TooLarge) (\<lambda>_.
     andthen (lift_s (ok_or Malformed (co_read (st_admission env) bs))) (\<lambda>r.
     andthen (lift_s (validate_local_admission_record r)) (\<lambda>_. give r))))"

definition admits :: "string \<Rightarrow> active_binding \<Rightarrow> local_admission_record \<Rightarrow> bool" where
  "admits device_id b r \<longleftrightarrow>
     la_state r = LOCAL_ADMISSION_OPEN \<and> la_device_id r = Some device_id
     \<and> la_binding_id r = Some (ab_binding_id b) \<and> la_binding_generation r = Some (ab_generation b)"

definition local_admission_is_open :: "store_env \<Rightarrow> string \<Rightarrow> active_binding \<Rightarrow> bool store_op" where
  "local_admission_is_open env device_id b =
     andthen (attempt (load_local_admission env)) (\<lambda>r. case r of
       Inr r \<Rightarrow> give (admits device_id b r)
     | Inl e \<Rightarrow> if e = Missing then give False else refuse e)"

definition write_local_admission :: "store_env \<Rightarrow> local_admission_record \<Rightarrow> unit store_op" where
  "write_local_admission env r =
     andthen (lift_s (validate_local_admission_record r)) (\<lambda>_.
       write_document (st_admission env) AdmissionFile r)"

definition open_record :: "store_env \<Rightarrow> identity \<Rightarrow> active_binding \<Rightarrow> local_admission_record" where
  "open_record env i b =
     \<lparr>la_version = 1, la_state = LOCAL_ADMISSION_OPEN, la_device_id = Some (ik_device_id i),
      la_device_generation = Some (ik_generation i), la_binding_id = Some (ab_binding_id b),
      la_binding_generation = Some (ab_generation b), la_updated_at_unix = st_now env\<rparr>"

text \<open>The identity of the stored credential when that credential belongs to the binding's device;
  every failure on the way is the same \<open>Malformed\<close>.\<close>

definition binding_identity :: "store_env \<Rightarrow> bytes \<Rightarrow> active_binding \<Rightarrow> identity store_op" where
  "binding_identity env random b =
     andthen (attempt (load_for_rotation env)) (\<lambda>r. case r of
       Inl _ \<Rightarrow> refuse Malformed
     | Inr c \<Rightarrow>
         if cc_device_id c \<noteq> ab_device_id b then refuse Malformed
         else andthen (attempt (credential_identity random c)) (\<lambda>r. case r of
           Inl _ \<Rightarrow> refuse Malformed | Inr i \<Rightarrow> give i))"

definition open_local_admission :: "store_env \<Rightarrow> bytes \<Rightarrow> active_binding \<Rightarrow> unit store_op" where
  "open_local_admission env random b =
     andthen (lift_s (validate_active_binding b)) (\<lambda>_.
     andthen (binding_identity env random b) (\<lambda>i.
       write_local_admission env (open_record env i b)))"

definition local_identity_reference ::
  "store_env \<Rightarrow> bytes \<Rightarrow> (string option \<times> u64 option) store_op" where
  "local_identity_reference env random =
     andthen (attempt (andthen (load_for_rotation env) (credential_identity random))) (\<lambda>r.
       case r of
         Inr i \<Rightarrow> give (Some (ik_device_id i), Some (ik_generation i))
       | Inl _ \<Rightarrow>
           andthen (attempt (andthen (load_identity_metadata env) (metadata_identity random)))
             (\<lambda>r. case r of
                Inr i \<Rightarrow> give (Some (ik_device_id i), Some (ik_generation i))
              | Inl _ \<Rightarrow> give (None, None)))"

definition gate_record ::
  "store_env \<Rightarrow> string \<Rightarrow> string option \<Rightarrow> u64 option \<Rightarrow> local_admission_record" where
  "gate_record env state device_id device_generation =
     \<lparr>la_version = 1, la_state = state, la_device_id = device_id,
      la_device_generation = device_generation, la_binding_id = None,
      la_binding_generation = None, la_updated_at_unix = st_now env\<rparr>"

definition local_admission_record_op ::
  "store_env \<Rightarrow> bytes \<Rightarrow> string \<Rightarrow> local_admission_record store_op" where
  "local_admission_record_op env random state =
     andthen (local_identity_reference env random) (\<lambda>(device_id, generation).
       give (gate_record env state device_id generation))"

definition close_local_admission :: "store_env \<Rightarrow> bytes \<Rightarrow> unit store_op" where
  "close_local_admission env random =
     andthen (local_admission_record_op env random LOCAL_ADMISSION_CLOSED)
       (write_local_admission env)"

definition ready_local_admission :: "store_env \<Rightarrow> bytes \<Rightarrow> unit store_op" where
  "ready_local_admission env random =
     andthen (local_admission_record_op env random LOCAL_ADMISSION_READY)
       (write_local_admission env)"

section \<open>Pending registration\<close>

definition enrollment_modes :: "string list" where
  "enrollment_modes = [''initial'', ''ensure'', ''re_enroll'', ''rotate'']"

definition is_hex_digit :: "char \<Rightarrow> bool" where
  "is_hex_digit b \<longleftrightarrow> is_ascii_digit b \<or> 65 \<le> ord_of b \<and> ord_of b \<le> 70
     \<or> 97 \<le> ord_of b \<and> ord_of b \<le> 102"

definition writable_registration :: "store_env \<Rightarrow> pending_registration \<Rightarrow> bool" where
  "writable_registration env p \<longleftrightarrow>
     pn_version p = 1 \<and> pn_device_generation p \<noteq> 0 \<and> pn_created_at_unix p \<noteq> 0
     \<and> validate_api_id (pn_device_id p) = Inr ()
     \<and> is_ok (canonical_server_url (st_url env) (pn_server_url p))
     \<and> pn_enrollment_mode p \<in> set enrollment_modes
     \<and> 22 \<le> length (pn_idempotency_key p) \<and> length (pn_idempotency_key p) \<le> 256"

definition readable_registration :: "store_env \<Rightarrow> pending_registration \<Rightarrow> bool" where
  "readable_registration env p \<longleftrightarrow>
     writable_registration env p \<and> visible_token (pn_idempotency_key p)
     \<and> length (pn_signing_public_key_sha256 p) = 64
     \<and> length (pn_encryption_public_key_sha256 p) = 64
     \<and> list_all is_hex_digit (pn_signing_public_key_sha256 p)
     \<and> list_all is_hex_digit (pn_encryption_public_key_sha256 p)"

definition read_pending_registration :: "store_env \<Rightarrow> pending_registration store_op" where
  "read_pending_registration env =
     andthen (read_document (st_registration env) PendingRegistrationFile) (\<lambda>p.
     andthen (check_s (readable_registration env p) Malformed) (\<lambda>_. give p))"

definition load_pending_registration :: "store_env \<Rightarrow> pending_registration store_op" where
  "load_pending_registration env =
     andthen (read_pending_registration env) (\<lambda>p.
     andthen (check_s (\<not> pending_is_expired (st_var_os env) p (st_now env)) PendingExpired)
       (\<lambda>_. give p))"

definition save_pending_registration :: "store_env \<Rightarrow> pending_registration \<Rightarrow> unit store_op" where
  "save_pending_registration env p =
     andthen (check_s (writable_registration env p) Malformed) (\<lambda>_.
       write_document (st_registration env) PendingRegistrationFile p)"

definition record_pending_registration_error :: "store_env \<Rightarrow> string option \<Rightarrow> unit store_op" where
  "record_pending_registration_error env code =
     andthen (attempt (read_pending_registration env)) (\<lambda>r. case r of
       Inl _ \<Rightarrow> give ()
     | Inr p \<Rightarrow> save_pending_registration env (p\<lparr>pn_last_error_code := code\<rparr>))"

definition clear_pending_registration :: "unit store_op" where
  "clear_pending_registration = remove_owner_file_if_present PendingRegistrationFile"

section \<open>Forgetting the device\<close>

definition cleared_files :: "store_file list" where
  "cleared_files = [CredentialFile, KeyFile, IdentityMetadataFile, PendingKeyFile,
     PendingRotationFile, PendingRegistrationFile, PolicyFile, PolicyLockFile, ActiveBindingFile,
     AdmissionFile]"

fun check_removable :: "store_file list \<Rightarrow> unit store_op" where
  "check_removable [] = give ()"
| "check_removable (f # rest) = (\<lambda>(st, fs). case st f of
      Refused e \<Rightarrow> (Inl e, st, fs) | _ \<Rightarrow> check_removable rest (st, fs))"

fun remove_files :: "store_file list \<Rightarrow> unit store_op" where
  "remove_files [] = give ()"
| "remove_files (f # rest) = andthen (\<lambda>(st, fs). case st f of
      Absent \<Rightarrow> (Inr (), st, fs)
    | _ \<Rightarrow> with_fault (st(f := Absent)) (st, fs)) (\<lambda>_. remove_files rest)"

definition clear_store :: "store_env \<Rightarrow> bytes \<Rightarrow> unit store_op" where
  "clear_store env random =
     andthen (close_local_admission env random) (\<lambda>_.
     andthen (check_removable cleared_files) (\<lambda>_. remove_files cleared_files))"

section \<open>Facts\<close>

lemma check_s_simp [simp]: "check_s c e s = (if c then Inr () else Inl e, s)"
  by (simp add: check_s_def)

lemma read_owner_file_Content [simp]:
  "st f = Content bs \<Longrightarrow> length bs \<le> MAX_CREDENTIAL_BYTES \<Longrightarrow>
   read_owner_file f (st, fs) = (Inr bs, st, fs)"
  by (simp add: read_owner_file_def)

lemma read_owner_file_Absent [simp]:
  "st f = Absent \<Longrightarrow> read_owner_file f (st, fs) = (Inl Missing, st, fs)"
  by (simp add: read_owner_file_def)

lemma write_cases:
  assumes "atomic_owner_write f bs (st, fs) = (r, st', fs')"
  shows "st' = st(f := Content bs) \<or> st' = st \<and> r \<noteq> Inr ()"
proof (cases fs)
  case Nil
  with assms show ?thesis by (auto simp: atomic_owner_write_def)
next
  case (Cons x xs)
  with assms show ?thesis by (cases x) (auto simp: atomic_owner_write_def)
qed

lemma removal_cases:
  assumes "remove_owner_file_if_present f (st, fs) = (r, st', fs')"
  shows "st' = st(f := Absent) \<or> st' = st \<and> r \<noteq> Inr ()"
proof (cases "st f")
  case Absent
  then have "st = st(f := Absent)" by auto
  with Absent assms show ?thesis by (auto simp: remove_owner_file_if_present_def)
next
  case (Refused e)
  with assms show ?thesis by (auto simp: remove_owner_file_if_present_def)
next
  case (Content bs)
  show ?thesis
  proof (cases fs)
    case Nil
    with assms Content show ?thesis by (auto simp: remove_owner_file_if_present_def)
  next
    case (Cons x xs)
    with assms Content show ?thesis
      by (cases x) (auto simp: remove_owner_file_if_present_def)
  qed
qed

text \<open>An operation that only reads.\<close>

definition read_only :: "'a store_op \<Rightarrow> bool" where
  "read_only m \<longleftrightarrow> (\<forall>st. \<exists>x. \<forall>fs. m (st, fs) = (x, st, fs))"

named_theorems read_only_intros \<open>operations that only read\<close>

lemma read_only_basic [read_only_intros]:
  "read_only (give x)" "read_only (refuse e)" "read_only (lift_s r)" "read_only (check_s c e)"
  "read_only (read_owner_file f)"
  by (auto simp: read_only_def check_s_def read_owner_file_def)

lemma read_only_andthen [read_only_intros]:
  assumes "read_only m" "\<And>x. read_only (f x)"
  shows "read_only (andthen m f)"
  unfolding read_only_def
proof
  fix st
  obtain r where r: "\<forall>fs. m (st, fs) = (r, st, fs)"
    using assms(1) by (auto simp: read_only_def)
  show "\<exists>x. \<forall>fs. andthen m f (st, fs) = (x, st, fs)"
  proof (cases r)
    case (Inr x)
    with r assms(2) [of x] show ?thesis by (auto simp: read_only_def)
  qed (use r in auto)
qed

lemma read_only_attempt [read_only_intros]: "read_only m \<Longrightarrow> read_only (attempt m)"
  unfolding read_only_def attempt_def by (metis (no_types, lifting) case_prod_conv)

lemma read_only_document [read_only_intros]: "read_only (read_document c f)"
  unfolding read_document_def by (intro read_only_intros)

lemma read_only_at: "read_only m \<Longrightarrow> m (st, fs) = (x, s) \<Longrightarrow> s = (st, fs) \<and> m (st, gs) = (x, st, gs)"
  unfolding read_only_def by (metis prod.inject)

text \<open>A stored document: reading depends on the files alone, and a write, whatever happens to it,
  leaves the old files or a file that reads back as the value written.\<close>

locale stored_document =
  fixes save :: "'d \<Rightarrow> unit store_op"
    and load :: "'d store_op"
    and storable :: "'d \<Rightarrow> bool"
  assumes reads: "read_only load"
    and saved: "storable d \<Longrightarrow> save d (st, fs) = (r, st', fs') \<Longrightarrow>
      st' = st \<and> r \<noteq> Inr () \<or> load (st', gs) = (Inr d, st', gs)"
begin

lemma save_load:
  "storable d \<Longrightarrow> save d (st, fs) = (Inr (), st', fs') \<Longrightarrow> load (st', gs) = (Inr d, st', gs)"
  using saved by blast

lemma never_torn:
  assumes "storable e" "load (st, gs) = (Inr d, st, gs)" "save e (st, fs) = (r, st', fs')"
  shows "load (st', hs) = (Inr d, st', hs) \<or> load (st', hs) = (Inr e, st', hs)"
  using saved [OF assms(1,3), of hs] read_only_at [OF reads assms(2), of hs] by auto

end

lemma saved_document:
  assumes w: "write_document c f d (st, fs) = (r, st', fs')"
    and fits: "fits c d"
  shows "st' = st \<and> r \<noteq> Inr () \<or>
    st' f = Content (co_write c d) \<and> read_document c f (st', gs) = (Inr d, st', gs)"
  using write_cases [OF w [unfolded write_document_def]] fits
  by (auto simp: read_document_def fits_def)

interpretation credential: stored_document "save_credential env" "load_credential env now"
  "\<lambda>c. fits (st_credential env) c \<and> valid_community_credential (st_url env) c now" for env now
proof
  show "read_only (load_credential env now)"
    unfolding load_credential_def by (intro read_only_intros)
next
  fix d st fs r st' fs' gs
  assume ok: "fits (st_credential env) d \<and> valid_community_credential (st_url env) d now"
    and save: "save_credential env d (st, fs) = (r, st', fs')"
  have valid: "valid_community_credential (st_url env) d None"
    using ok by (simp add: valid_community_credential_def)
  have "write_document (st_credential env) CredentialFile d (st, fs) = (r, st', fs')"
    using save ok valid by (simp add: save_credential_def fits_def)
  from saved_document [OF this, of gs] ok
  show "st' = st \<and> r \<noteq> Inr () \<or> load_credential env now (st', gs) = (Inr d, st', gs)"
    by (auto simp: fits_def load_credential_def)
qed

interpretation registration: stored_document "save_pending_registration env"
  "read_pending_registration env"
  "\<lambda>p. fits (st_registration env) p \<and> readable_registration env p" for env
proof
  show "read_only (read_pending_registration env)"
    unfolding read_pending_registration_def by (intro read_only_intros)
next
  fix d st fs r st' fs' gs
  assume ok: "fits (st_registration env) d \<and> readable_registration env d"
    and save: "save_pending_registration env d (st, fs) = (r, st', fs')"
  have "write_document (st_registration env) PendingRegistrationFile d (st, fs) = (r, st', fs')"
    using save ok by (simp add: save_pending_registration_def readable_registration_def)
  from saved_document [OF this, of gs] ok
  show "st' = st \<and> r \<noteq> Inr () \<or> read_pending_registration env (st', gs) = (Inr d, st', gs)"
    by (auto simp: fits_def read_pending_registration_def)
qed

interpretation active: stored_document "save_active_binding env" "load_active_binding env device_id"
  "\<lambda>b. fits (st_binding env) b \<and> validate_active_binding b = Inr () \<and> ab_device_id b = device_id"
  for env device_id
proof
  show "read_only (load_active_binding env device_id)"
    unfolding load_active_binding_def by (intro read_only_intros)
next
  fix d st fs r st' fs' gs
  assume ok: "fits (st_binding env) d \<and> validate_active_binding d = Inr ()
      \<and> ab_device_id d = device_id"
    and save: "save_active_binding env d (st, fs) = (r, st', fs')"
  have "write_document (st_binding env) ActiveBindingFile d (st, fs) = (r, st', fs')"
    using save ok by (simp add: save_active_binding_def)
  from saved_document [OF this, of gs] ok
  show "st' = st \<and> r \<noteq> Inr () \<or> load_active_binding env device_id (st', gs) = (Inr d, st', gs)"
    by (auto simp: fits_def load_active_binding_def)
qed

section \<open>The local gate\<close>

definition gate_fits :: "store_env \<Rightarrow> local_admission_record \<Rightarrow> bool" where
  "gate_fits env r \<longleftrightarrow> co_read (st_admission env) (co_write (st_admission env) r) = Some r
     \<and> length (co_write (st_admission env) r) \<le> MAX_ADMISSION_BYTES"

lemma gate_written:
  assumes "write_local_admission env r (st, fs) = (res, st', fs')" "gate_fits env r"
  shows "st' = st \<and> res \<noteq> Inr () \<or>
    (\<exists>bs. st' = st(AdmissionFile := Content bs)) \<and> load_local_admission env (st', gs) = (Inr r, st', gs)"
proof (cases "validate_local_admission_record r")
  case (Inl e)
  with assms show ?thesis by (auto simp: write_local_admission_def)
next
  case (Inr u)
  with assms(1) have "atomic_owner_write AdmissionFile (co_write (st_admission env) r) (st, fs)
      = (res, st', fs')"
    by (simp add: write_local_admission_def write_document_def)
  from write_cases [OF this] assms(2) Inr show ?thesis
    by (auto simp: load_local_admission_def gate_fits_def MAX_ADMISSION_BYTES_def
        MAX_CREDENTIAL_BYTES_def)
qed

lemma load_identity_device:
  assumes "load_identity random d p q s = (Inr i, s')"
  shows "ik_device_id i = d \<and> ik_release_profile i = p \<and> ik_credential_profile i = q"
  using assms
  by (cases s) (auto simp: load_identity_def load_identity_file_def read_owner_file_def
      decode_identity_def Let_def bind_r_Inr_iff split: prod.splits sum.splits entry.splits if_splits)

lemma binding_identity_device:
  "binding_identity env random b s = (Inr i, s') \<Longrightarrow> ik_device_id i = ab_device_id b"
  by (cases s) (auto simp: binding_identity_def credential_identity_def dest: load_identity_device
      split: prod.splits sum.splits if_splits)

lemma read_only_gate [read_only_intros]:
  "read_only (load_for_rotation env)" "read_only (credential_identity random c)"
  "read_only (load_identity_metadata env)" "read_only (metadata_identity random m)"
  unfolding load_for_rotation_def load_credential_def credential_identity_def load_identity_def
    load_identity_file_def load_identity_metadata_def metadata_identity_def
  by (intro read_only_intros)+

lemma gate_record_closed:
  "local_admission_record_op env random state s = (Inr r, s') \<Longrightarrow>
   la_state r = state \<and> la_binding_id r = None"
  by (auto simp: local_admission_record_op_def gate_record_def split: prod.splits sum.splits)

text \<open>What the gate answers follows the record in the file.\<close>

lemma gate_answer:
  assumes "load_local_admission env (st, fs) = (Inr r, st, fs)"
  shows "local_admission_is_open env d b (st, fs) = (Inr (admits d b r), st, fs)"
  using assms by (simp add: local_admission_is_open_def)

lemma closed_record_admits_nothing: "la_binding_id r = None \<Longrightarrow> \<not> admits d b r"
  by (simp add: admits_def)

section \<open>Forgetting the device\<close>

lemma check_removable_cases:
  "check_removable fl (st, fs) = (r, s) \<Longrightarrow>
   s = (st, fs) \<and> (r = Inr () \<longrightarrow> (\<forall>f\<in>set fl. \<forall>e. st f \<noteq> Refused e))"
  by (induction fl arbitrary: r s) (auto split: entry.splits)

lemma with_fault_cases:
  "with_fault st1 (st, fs) = (r, st', fs') \<Longrightarrow> st' = st1 \<or> st' = st \<and> r \<noteq> Inr ()"
  by (cases "(st1, st, fs)" rule: with_fault.cases) auto

lemma remove_files_cases:
  "remove_files fl (st, fs) = (r, st', fs') \<Longrightarrow>
   (\<forall>f. st' f = st f \<or> f \<in> set fl \<and> st' f = Absent) \<and>
   (r = Inr () \<longrightarrow> (\<forall>f\<in>set fl. st' f = Absent))"
proof (induction fl arbitrary: st fs)
  case (Cons g fl)
  let ?one = "case st g of Absent \<Rightarrow> (Inr (), st, fs) | _ \<Rightarrow> with_fault (st(g := Absent)) (st, fs)"
  obtain r1 st1 fs1 where one: "?one = (r1, st1, fs1)" by (metis prod_cases3)
  have first: "(st1 = st(g := Absent)) \<or> st1 = st \<and> r1 \<noteq> Inr ()"
  proof (cases "st g = Absent")
    case True
    then have "st = st(g := Absent)" by auto
    with True one show ?thesis by simp
  next
    case False
    then have "with_fault (st(g := Absent)) (st, fs) = (r1, st1, fs1)"
      using one by (cases "st g") auto
    from with_fault_cases [OF this] show ?thesis .
  qed
  show ?case
  proof (cases r1)
    case (Inl e)
    with Cons.prems one first show ?thesis by (auto split: if_splits)
  next
    case (Inr u)
    with Cons.prems one have "remove_files fl (st1, fs1) = (r, st', fs')" by simp
    from Cons.IH [OF this] first Inr show ?thesis
      by (auto simp: fun_upd_def split: if_splits)
  qed
qed auto

lemma reads_none_as_closed:
  "st AdmissionFile = Absent \<Longrightarrow> local_admission_is_open env d b (st, fs) = (Inr False, st, fs)"
  by (simp add: local_admission_is_open_def load_local_admission_def)

lemma gate_reads_its_file:
  assumes "st' AdmissionFile = st AdmissionFile"
    "local_admission_is_open env d b (st, fs) = (x, st, fs)"
  shows "local_admission_is_open env d b (st', fs) = (x, st', fs)"
  using assms
  by (auto simp: local_admission_is_open_def load_local_admission_def read_owner_file_def
      split: entry.splits if_splits sum.splits)

end
