(* ===== verification/Identity_Rotation.thy ===== *)
theory Identity_Rotation
  imports Store_Documents
begin

text \<open>
  The rotation of the device key, \<open>crates/device-client/src/credential_store.rs\<close>: the pending key and
  its metadata are stored before the control plane is asked, the commit writes the new identity and
  removes the pending files last, and an interrupted commit is recognised and finished.
\<close>

section \<open>Preparing a rotation\<close>

text \<open>\<open>keys\<close> are the two private keys drawn for a new rotation.\<close>

definition same_public_keys :: "store_env \<Rightarrow> identity \<Rightarrow> identity \<Rightarrow> bool" where
  "same_public_keys env i j \<longleftrightarrow> public_key_b64 env i = public_key_b64 env j
     \<and> encryption_public_key_b64 env i = encryption_public_key_b64 env j"

definition load_pending_key :: "bytes \<Rightarrow> identity \<Rightarrow> identity store_op" where
  "load_pending_key random i = load_identity_file random PendingKeyFile (ik_device_id i)
     (ik_release_profile i) (ik_credential_profile i)"

definition next_identity :: "identity \<Rightarrow> u64 \<Rightarrow> bytes \<times> bytes \<Rightarrow> identity" where
  "next_identity current generation keys =
     \<lparr>ik_device_id = ik_device_id current, ik_signing_key = fst keys,
      ik_encryption_key = snd keys, ik_generation = generation,
      ik_release_profile = ik_release_profile current,
      ik_credential_profile = ik_credential_profile current, ik_legacy = False\<rparr>"

definition prepare_identity_rotation ::
  "store_env \<Rightarrow> bytes \<Rightarrow> bytes \<times> bytes \<Rightarrow> identity \<Rightarrow> identity store_op" where
  "prepare_identity_rotation env random keys current =
     andthen (attempt (load_pending_key random current)) (\<lambda>r. case r of
       Inr pending \<Rightarrow>
         let matches_committed = ik_generation pending = ik_generation current
               \<and> same_public_keys env pending current;
             is_next = (case checked_add (ik_generation current) 1 of
               None \<Rightarrow> False | Some g \<Rightarrow> ik_generation pending = g)
         in if \<not> matches_committed \<and> \<not> is_next then refuse RotationConflict else give pending
     | Inl e \<Rightarrow>
         if e = Missing then
           andthen (lift_s (ok_or RotationConflict (checked_add (ik_generation current) 1))) (\<lambda>g.
             let pending = next_identity current g keys in
             andthen (atomic_owner_write PendingKeyFile (encode_identity pending))
               (\<lambda>_. give pending))
         else refuse e)"

definition load_pending_identity_rotation :: "bytes \<Rightarrow> identity \<Rightarrow> identity option store_op" where
  "load_pending_identity_rotation random i =
     andthen (attempt (load_pending_key random i)) (\<lambda>r. case r of
       Inr pending \<Rightarrow> give (Some pending)
     | Inl e \<Rightarrow> if e = Missing then give None else refuse e)"

section \<open>Rotation metadata\<close>

definition is_lower_hex :: "char \<Rightarrow> bool" where
  "is_lower_hex b \<longleftrightarrow> is_ascii_digit b \<or> 97 \<le> ord_of b \<and> ord_of b \<le> 102"

definition digest_text :: "string \<Rightarrow> bool" where
  "digest_text s \<longleftrightarrow> length s = 64 \<and> list_all is_lower_hex s"

definition rotation_key_ok :: "string \<Rightarrow> bool" where
  "rotation_key_ok key \<longleftrightarrow> 22 \<le> length key \<and> length key \<le> 256 \<and> visible_token key"

definition valid_pending_rotation :: "pending_rotation \<Rightarrow> bool" where
  "valid_pending_rotation p \<longleftrightarrow>
     pt_version p = 1 \<and> validate_api_id (pt_device_id p) = Inr () \<and> pt_current_generation p \<noteq> 0
     \<and> pt_target_generation p = sat_add (pt_current_generation p) 1
     \<and> pt_previous_credential_revision p \<noteq> 0 \<and> pt_created_at_unix p \<noteq> 0
     \<and> rotation_key_ok (pt_idempotency_key p)
     \<and> digest_text (pt_old_signing_public_key_sha256 p)
     \<and> digest_text (pt_old_encryption_public_key_sha256 p)
     \<and> digest_text (pt_target_signing_public_key_sha256 p)
     \<and> digest_text (pt_target_encryption_public_key_sha256 p)"

definition read_pending_rotation :: "store_env \<Rightarrow> pending_rotation option store_op" where
  "read_pending_rotation env =
     andthen (attempt (read_owner_file PendingRotationFile)) (\<lambda>r. case r of
       Inl e \<Rightarrow> if e = Missing then give None else refuse e
     | Inr bs \<Rightarrow>
         andthen (lift_s (ok_or Malformed (co_read (st_rotation env) bs))) (\<lambda>p.
         andthen (check_s (valid_pending_rotation p) Malformed) (\<lambda>_. give (Some p))))"

definition signing_digest :: "store_env \<Rightarrow> identity \<Rightarrow> string" where
  "signing_digest env i = st_sha256_hex env (public_key_b64 env i)"

definition encryption_digest :: "store_env \<Rightarrow> identity \<Rightarrow> string" where
  "encryption_digest env i = st_sha256_hex env (encryption_public_key_b64 env i)"

definition targets :: "store_env \<Rightarrow> pending_rotation \<Rightarrow> identity \<Rightarrow> bool" where
  "targets env p i \<longleftrightarrow> pt_target_generation p = ik_generation i
     \<and> pt_target_signing_public_key_sha256 p = signing_digest env i
     \<and> pt_target_encryption_public_key_sha256 p = encryption_digest env i"

definition pending_rotation_matches ::
  "store_env \<Rightarrow> pending_rotation \<Rightarrow> identity \<Rightarrow> identity \<Rightarrow> bool" where
  "pending_rotation_matches env existing current next_id \<longleftrightarrow>
     (pt_device_id existing = ik_device_id current \<and> targets env existing next_id)
     \<and> (pt_current_generation existing = ik_generation current
          \<and> pt_old_signing_public_key_sha256 existing = signing_digest env current
          \<and> pt_old_encryption_public_key_sha256 existing = encryption_digest env current
        \<or> targets env existing current)"

definition rotation_metadata ::
  "store_env \<Rightarrow> identity \<Rightarrow> identity \<Rightarrow> u64 \<Rightarrow> string \<Rightarrow> pending_rotation" where
  "rotation_metadata env current next_id revision key =
     \<lparr>pt_version = 1, pt_device_id = ik_device_id current,
      pt_current_generation = ik_generation current, pt_target_generation = ik_generation next_id,
      pt_previous_credential_revision = revision,
      pt_old_signing_public_key_sha256 = signing_digest env current,
      pt_old_encryption_public_key_sha256 = encryption_digest env current,
      pt_target_signing_public_key_sha256 = signing_digest env next_id,
      pt_target_encryption_public_key_sha256 = encryption_digest env next_id,
      pt_idempotency_key = key, pt_created_at_unix = st_now env\<rparr>"

definition current_is_source :: "identity \<Rightarrow> identity \<Rightarrow> bool" where
  "current_is_source current next_id \<longleftrightarrow> ik_generation next_id = sat_add (ik_generation current) 1"

definition rotation_scope_ok :: "store_env \<Rightarrow> identity \<Rightarrow> identity \<Rightarrow> bool" where
  "rotation_scope_ok env current next_id \<longleftrightarrow>
     ik_device_id current = ik_device_id next_id
     \<and> ik_release_profile current = ik_release_profile next_id
     \<and> ik_credential_profile current = ik_credential_profile next_id
     \<and> (current_is_source current next_id
        \<or> ik_generation next_id = ik_generation current \<and> same_public_keys env next_id current)"

text \<open>\<open>fresh_key\<close> is the idempotency key drawn when the caller has none.\<close>

definition load_or_create_pending_rotation ::
  "store_env \<Rightarrow> string \<Rightarrow> identity \<Rightarrow> identity \<Rightarrow> u64 \<Rightarrow> string option \<Rightarrow> pending_rotation store_op"
  where
  "load_or_create_pending_rotation env fresh_key current next_id revision idempotency_key =
     andthen (check_s (revision \<noteq> 0 \<and> rotation_scope_ok env current next_id) RotationConflict) (\<lambda>_.
     andthen (read_pending_rotation env) (\<lambda>r. case r of
       Some existing \<Rightarrow>
         if \<not> pending_rotation_matches env existing current next_id then refuse RotationConflict
         else if revision < pt_previous_credential_revision existing then refuse RotationConflict
         else if idempotency_key \<noteq> None \<and> idempotency_key \<noteq> Some (pt_idempotency_key existing)
         then refuse RotationConflict
         else give existing
     | None \<Rightarrow>
         if \<not> current_is_source current next_id then refuse RotationConflict
         else
           let key = (case idempotency_key of Some k \<Rightarrow> k | None \<Rightarrow> fresh_key);
               p = rotation_metadata env current next_id revision key
           in andthen (check_s (rotation_key_ok key) Malformed) (\<lambda>_.
              andthen (write_document (st_rotation env) PendingRotationFile p) (\<lambda>_. give p))))"

section \<open>Commit and recovery\<close>

definition clear_pending_rotation_metadata :: "unit store_op" where
  "clear_pending_rotation_metadata = remove_owner_file_if_present PendingRotationFile"

definition discard_identity_rotation :: "unit store_op" where
  "discard_identity_rotation =
     andthen (remove_owner_file_if_present PendingKeyFile) (\<lambda>_. clear_pending_rotation_metadata)"

definition commit_matches ::
  "store_env \<Rightarrow> identity \<Rightarrow> identity \<Rightarrow> community_credential \<Rightarrow> bool" where
  "commit_matches env pending i c \<longleftrightarrow>
     ik_generation pending = ik_generation i \<and> same_public_keys env pending i
     \<and> cc_device_id c = ik_device_id i \<and> cc_credential_profile c = ik_credential_profile i"

definition install_rotation :: "store_env \<Rightarrow> identity \<Rightarrow> community_credential \<Rightarrow> unit store_op" where
  "install_rotation env i c =
     andthen (save_identity i) (\<lambda>_.
     andthen (save_identity_metadata env i (cc_server_url c)) (\<lambda>_.
     andthen (save_credential env c) (\<lambda>_.
     andthen clear_active_binding (\<lambda>_.
     andthen (remove_owner_file_if_present PendingKeyFile) (\<lambda>_.
       clear_pending_rotation_metadata)))))"

definition commit_identity_rotation ::
  "store_env \<Rightarrow> bytes \<Rightarrow> identity \<Rightarrow> community_credential \<Rightarrow> unit store_op" where
  "commit_identity_rotation env random i c =
     andthen (load_pending_key random i) (\<lambda>pending.
     andthen (check_s (commit_matches env pending i c) RotationConflict) (\<lambda>_.
       install_rotation env i c))"

definition rotation_committed ::
  "store_env \<Rightarrow> pending_rotation \<Rightarrow> identity \<Rightarrow> community_credential \<Rightarrow> bool" where
  "rotation_committed env rotation i c \<longleftrightarrow>
     pt_device_id rotation = ik_device_id i \<and> targets env rotation i
     \<and> cc_device_id c = ik_device_id i \<and> cc_release_profile c = ik_release_profile i
     \<and> cc_credential_profile c = ik_credential_profile i
     \<and> cc_revision c > pt_previous_credential_revision rotation"

definition metadata_describes ::
  "stored_identity_metadata \<Rightarrow> identity \<Rightarrow> community_credential \<Rightarrow> bool" where
  "metadata_describes m i c \<longleftrightarrow>
     im_device_id m = ik_device_id i \<and> im_server_url m = cc_server_url c
     \<and> im_release_profile m = ik_release_profile i
     \<and> im_credential_profile m = ik_credential_profile i"

definition finish_interrupted_identity_rotation ::
  "store_env \<Rightarrow> bytes \<Rightarrow> identity \<Rightarrow> community_credential \<Rightarrow> bool store_op" where
  "finish_interrupted_identity_rotation env random i c =
     andthen (read_pending_rotation env) (\<lambda>r. case r of
       None \<Rightarrow> give False
     | Some rotation \<Rightarrow>
         andthen (load_pending_identity_rotation random i) (\<lambda>pending.
           if pending \<noteq> None \<or> \<not> rotation_committed env rotation i c then give False
           else
             andthen (load_identity_metadata env) (\<lambda>m.
             andthen (check_s (metadata_describes m i c) RotationConflict) (\<lambda>_.
             andthen (attempt (load_active_binding env (ik_device_id i))) (\<lambda>b. case b of
               Inr _ \<Rightarrow> refuse RotationConflict
             | Inl e \<Rightarrow>
                 if e \<noteq> Missing then refuse e
                 else andthen clear_pending_rotation_metadata (\<lambda>_. give True))))))"

section \<open>Sequences of changes\<close>

text \<open>An operation makes a sequence of changes when, whatever fails, it has made a prefix of them,
  all of them if it succeeds, and succeeds where nothing fails.\<close>

definition changed :: "files \<Rightarrow> (store_file \<times> entry) list \<Rightarrow> files" where
  "changed st us = foldl (\<lambda>st (f, e). st(f := e)) st us"

definition makes :: "unit store_op \<Rightarrow> (store_file \<times> entry) list \<Rightarrow> bool" where
  "makes m us \<longleftrightarrow> (\<forall>st fs r st' fs'. m (st, fs) = (r, st', fs') \<longrightarrow>
     (\<exists>k \<le> length us. st' = changed st (take k us) \<and> (r = Inr () \<longrightarrow> k = length us)))"

lemma changed_simps [simp]:
  "changed st [] = st" "changed st ((f, e) # us) = changed (st(f := e)) us"
  "changed st (us @ vs) = changed (changed st us) vs"
  by (simp_all add: changed_def)

lemma makes_write: "makes (atomic_owner_write f bs) [(f, Content bs)]"
  unfolding makes_def
  by (metis changed_simps(1,2) le0 length_Cons list.size(3) order_refl take0 take_Suc_Cons
      write_cases)

lemma makes_removal: "makes (remove_owner_file_if_present f) [(f, Absent)]"
  unfolding makes_def
  by (metis changed_simps(1,2) le0 length_Cons list.size(3) order_refl take0 take_Suc_Cons
      removal_cases)

lemma makes_checked: "makes m us \<Longrightarrow> makes (andthen (check_s c e) (\<lambda>_. m)) us"
  unfolding makes_def by (auto split: if_splits)

lemma makes_andthen:
  assumes m: "makes m us" and n: "makes n vs"
  shows "makes (andthen m (\<lambda>_. n)) (us @ vs)"
  unfolding makes_def
proof (intro allI impI)
  fix st fs r st' fs'
  assume run: "andthen m (\<lambda>_. n) (st, fs) = (r, st', fs')"
  obtain r1 st1 fs1 where first: "m (st, fs) = (r1, st1, fs1)" by (metis prod_cases3)
  obtain k where k: "k \<le> length us" "st1 = changed st (take k us)"
    "r1 = Inr () \<longrightarrow> k = length us"
    using m first unfolding makes_def by blast
  show "\<exists>k \<le> length (us @ vs). st' = changed st (take k (us @ vs)) \<and>
      (r = Inr () \<longrightarrow> k = length (us @ vs))"
  proof (cases r1)
    case (Inl e)
    with run first k show ?thesis by (intro exI [of _ k]) auto
  next
    case (Inr u)
    with run first have "n (st1, fs1) = (r, st', fs')" by simp
    then obtain j where "j \<le> length vs" "st' = changed st1 (take j vs)"
      "r = Inr () \<longrightarrow> j = length vs"
      using n unfolding makes_def by blast
    with k Inr show ?thesis by (intro exI [of _ "length us + j"]) auto
  qed
qed

lemma changed_other: "f \<notin> fst ` set us \<Longrightarrow> changed st us f = st f"
  by (induction us arbitrary: st) auto

lemma changed_cases: "changed st us f = st f \<or> (f, changed st us f) \<in> set us"
proof (induction us arbitrary: st)
  case (Cons u us)
  obtain a b where "u = (a, b)" by (cases u)
  then show ?case using Cons.IH [of "st(a := b)"] by (auto simp: fun_upd_def split: if_splits)
qed simp

section \<open>The commit\<close>

definition rotation_changes ::
  "store_env \<Rightarrow> identity \<Rightarrow> community_credential \<Rightarrow> (store_file \<times> entry) list" where
  "rotation_changes env i c =
     [(KeyFile, Content (encode_identity i)),
      (IdentityMetadataFile,
         Content (co_write (st_metadata env) (identity_metadata i (cc_server_url c)))),
      (CredentialFile, Content (co_write (st_credential env) c)),
      (ActiveBindingFile, Absent), (PendingKeyFile, Absent), (PendingRotationFile, Absent)]"

text \<open>A rotation that the control plane has confirmed: the pending files describe it and the
  credential is of the new key.\<close>

definition rotation_confirmed ::
  "store_env \<Rightarrow> pending_rotation \<Rightarrow> identity \<Rightarrow> community_credential \<Rightarrow> files \<Rightarrow> bool" where
  "rotation_confirmed env p i c st \<longleftrightarrow>
     key_ok i \<and> valid_community_credential (st_url env) c None \<and> valid_pending_rotation p
     \<and> rotation_committed env p i c
     \<and> fits (st_credential env) c \<and> fits (st_rotation env) p
     \<and> fits (st_metadata env) (identity_metadata i (cc_server_url c))
     \<and> st PendingKeyFile = Content (encode_identity i)
     \<and> st PendingRotationFile = Content (co_write (st_rotation env) p)
     \<and> (\<forall>e. st ActiveBindingFile \<noteq> Refused e)"

lemma confirmed_url:
  "rotation_confirmed env p i c st \<Longrightarrow>
   canonical_server_url (st_url env) (cc_server_url c) = Inr (cc_server_url c)"
  by (simp add: rotation_confirmed_def valid_community_credential_def)

lemma metadata_of_rotation:
  assumes "rotation_confirmed env p i c st"
  shows "valid_stored_identity_metadata (st_url env) (identity_metadata i (cc_server_url c))"
  using assms
  by (auto simp: rotation_confirmed_def rotation_committed_def valid_community_credential_def
      valid_stored_identity_metadata_def identity_metadata_def)

lemma save_metadata_as_write:
  assumes "rotation_confirmed env p i c st"
  shows "save_identity_metadata env i (cc_server_url c) =
    write_document (st_metadata env) IdentityMetadataFile (identity_metadata i (cc_server_url c))"
proof
  fix s :: "files \<times> fault list"
  show "save_identity_metadata env i (cc_server_url c) s =
    write_document (st_metadata env) IdentityMetadataFile (identity_metadata i (cc_server_url c)) s"
    using metadata_of_rotation [OF assms] confirmed_url [OF assms]
    by (cases s) (simp add: save_identity_metadata_def)
qed

lemma save_credential_as_write:
  assumes "rotation_confirmed env p i c st"
  shows "save_credential env c = write_document (st_credential env) CredentialFile c"
proof
  fix s :: "files \<times> fault list"
  show "save_credential env c s = write_document (st_credential env) CredentialFile c s"
    using assms by (cases s) (simp add: save_credential_def rotation_confirmed_def fits_def)
qed

lemma install_makes:
  assumes "rotation_confirmed env p i c st"
  shows "makes (install_rotation env i c) (rotation_changes env i c)"
proof -
  have cons: "makes m [u] \<Longrightarrow> makes n us \<Longrightarrow> makes (andthen m (\<lambda>_. n)) (u # us)" for m n u us
    using makes_andthen [of m "[u]" n us] by simp
  show ?thesis
    unfolding install_rotation_def rotation_changes_def save_identity_def clear_active_binding_def
      clear_pending_rotation_metadata_def save_metadata_as_write [OF assms]
      save_credential_as_write [OF assms] write_document_def
    by (intro cons makes_write makes_removal)
qed

lemma changed_agree:
  "\<forall>f. f \<notin> fst ` set us \<longrightarrow> st f = st' f \<Longrightarrow> changed st us = changed st' us"
proof (induction us arbitrary: st st')
  case (Cons u us)
  show ?case
    by (cases u) (use Cons.prems in \<open>auto intro!: Cons.IH\<close>)
qed (auto simp: fun_eq_iff)

lemma changed_again: "changed (changed st (take k us)) us = changed st us"
proof (rule changed_agree, intro allI impI)
  fix f
  assume "f \<notin> fst ` set us"
  then have "f \<notin> fst ` set (take k us)" by (meson image_mono in_mono set_take_subset)
  then show "changed st (take k us) f = st f" by (rule changed_other)
qed

lemma works_without_faults:
  "atomic_owner_write f bs (st, []) = (Inr (), st(f := Content bs), [])"
  "\<forall>e. st f \<noteq> Refused e \<Longrightarrow>
   remove_owner_file_if_present f (st, []) = (Inr (), st(f := Absent), [])"
  by (cases "st f"; auto simp: atomic_owner_write_def remove_owner_file_if_present_def)+

lemma install_works:
  assumes "rotation_confirmed env p i c st"
    and "\<forall>f\<in>{ActiveBindingFile, PendingKeyFile, PendingRotationFile}. \<forall>e. st' f \<noteq> Refused e"
  shows "install_rotation env i c (st', []) = (Inr (), changed st' (rotation_changes env i c), [])"
  using assms(2)
  by (simp add: install_rotation_def rotation_changes_def save_identity_def clear_active_binding_def
      clear_pending_rotation_metadata_def save_metadata_as_write [OF assms(1)]
      save_credential_as_write [OF assms(1)] write_document_def works_without_faults)

lemma load_pending_key_ok:
  assumes "key_ok i" "st PendingKeyFile = Content (encode_identity i)"
  shows "load_pending_key random i (st, fs) = (Inr i, st, fs)"
  using assms encode_identity_length [OF assms(1)]
  by (simp add: load_pending_key_def load_identity_file_def MAX_CREDENTIAL_BYTES_def
      decode_encode_identity)

lemma commit_is_install:
  assumes "rotation_confirmed env p i c st" "st' PendingKeyFile = st PendingKeyFile"
  shows "commit_identity_rotation env random i c (st', fs) = install_rotation env i c (st', fs)"
  using assms load_pending_key_ok [of i st' random fs]
  by (simp add: commit_identity_rotation_def rotation_confirmed_def rotation_committed_def
      commit_matches_def same_public_keys_def)

lemma finish_works:
  assumes r: "rotation_confirmed env p i c st"
    and st': "st' = changed st (take 5 (rotation_changes env i c))"
  shows "finish_interrupted_identity_rotation env random i c (st', []) =
    (Inr True, changed st (rotation_changes env i c), [])"
proof -
  have files: "st' PendingRotationFile = Content (co_write (st_rotation env) p)"
    "st' PendingKeyFile = Absent" "st' ActiveBindingFile = Absent"
    "st' IdentityMetadataFile =
       Content (co_write (st_metadata env) (identity_metadata i (cc_server_url c)))"
    using r by (simp_all add: st' rotation_changes_def rotation_confirmed_def)
  have final: "st'(PendingRotationFile := Absent) = changed st (rotation_changes env i c)"
    by (simp add: st' rotation_changes_def)
  have desc: "metadata_describes (identity_metadata i (cc_server_url c)) i c"
    by (simp add: metadata_describes_def identity_metadata_def)
  have rotation: "read_pending_rotation env (st', fs) = (Inr (Some p), st', fs)" for fs
    using r files by (simp add: read_pending_rotation_def rotation_confirmed_def fits_def)
  have pending: "load_pending_identity_rotation random i (st', fs) = (Inr None, st', fs)" for fs
    using files by (simp add: load_pending_identity_rotation_def load_pending_key_def
        load_identity_file_def)
  have metadata: "load_identity_metadata env (st', fs) =
      (Inr (identity_metadata i (cc_server_url c)), st', fs)" for fs
    using r files metadata_of_rotation [OF r]
    by (simp add: load_identity_metadata_def read_document_def rotation_confirmed_def fits_def)
  have binding: "load_active_binding env (ik_device_id i) (st', fs) = (Inl Missing, st', fs)" for fs
    using files by (simp add: load_active_binding_def read_document_def)
  have committed: "rotation_committed env p i c" using r by (simp add: rotation_confirmed_def)
  show ?thesis
    using files final
    by (simp add: finish_interrupted_identity_rotation_def rotation pending metadata binding desc
        committed clear_pending_rotation_metadata_def works_without_faults)
qed

lemma commit_recoverable:
  assumes r: "rotation_confirmed env p i c st"
    and run: "commit_identity_rotation env random i c (st, fs) = (res, st', fs')"
  defines "final \<equiv> changed st (rotation_changes env i c)"
  shows "(res = Inr () \<longrightarrow> st' = final) \<and>
    (st' = final
     \<or> st' PendingKeyFile = st PendingKeyFile
         \<and> commit_identity_rotation env random' i c (st', []) = (Inr (), final, [])
     \<or> finish_interrupted_identity_rotation env random' i c (st', []) = (Inr True, final, []))"
proof -
  let ?us = "rotation_changes env i c"
  have "install_rotation env i c (st, fs) = (res, st', fs')"
    using run commit_is_install [OF r, of st random fs] by simp
  then obtain k where k: "k \<le> length ?us" "st' = changed st (take k ?us)"
    "res = Inr () \<longrightarrow> k = length ?us"
    using install_makes [OF r] unfolding makes_def by blast
  have six: "length ?us = 6" by (simp add: rotation_changes_def)
  consider "k = 6" | "k = 5" | "k \<le> 4" using k(1) six by linarith
  then show ?thesis
  proof cases
    case 1
    then show ?thesis using k six by (simp add: final_def)
  next
    case 2
    then show ?thesis using k six finish_works [OF r, of st' random'] by (simp add: final_def)
  next
    case 3
    then have part: "fst ` set (take k ?us) \<subseteq>
        {KeyFile, IdentityMetadataFile, CredentialFile, ActiveBindingFile}"
      by (cases k rule: nat.exhaust) (auto simp: rotation_changes_def take_Cons' split: if_splits)
    have same: "st' PendingKeyFile = st PendingKeyFile"
      "st' PendingRotationFile = st PendingRotationFile"
      using part unfolding k(2) by (auto intro!: changed_other)
    have active: "st' ActiveBindingFile \<noteq> Refused e" for e
    proof -
      have "(ActiveBindingFile, Refused e) \<notin> set (take k ?us)"
        using set_take_subset [of k ?us] by (auto simp: rotation_changes_def)
      then show ?thesis
        using changed_cases [of st "take k ?us" ActiveBindingFile] r k(2)
        by (auto simp: rotation_confirmed_def)
    qed
    have "install_rotation env i c (st', []) = (Inr (), changed st' ?us, [])"
      by (rule install_works [OF r]) (use r same active in \<open>auto simp: rotation_confirmed_def\<close>)
    moreover have "changed st' ?us = final"
      unfolding k(2) final_def by (rule changed_again)
    ultimately show ?thesis
      using commit_is_install [of env p i c st st' random' "[]", OF r same(1)] same 3 k six by simp
  qed
qed

section \<open>Repeating the preparation\<close>

lemma load_identity_other_random:
  assumes "load_identity_file random f d p q (st, fs) = (Inr i, s)" "\<not> ik_legacy i"
  shows "s = (st, fs) \<and> load_identity_file random' f d p q (st, gs) = (Inr i, st, gs)"
  using assms
  by (auto simp: load_identity_file_def read_owner_file_def decode_identity_def Let_def bind_r_def
      split: prod.splits sum.splits entry.splits if_splits)

lemma loaded_identity_scope:
  "load_identity_file random f d p q (st, fs) = (Inr i, s) \<Longrightarrow>
   ik_device_id i = d \<and> ik_release_profile i = p \<and> ik_credential_profile i = q"
  by (auto simp: load_identity_file_def read_owner_file_def decode_identity_def Let_def
      bind_r_Inr_iff split: prod.splits sum.splits entry.splits if_splits)

lemma next_identity_ok:
  assumes "checked_add (ik_generation cur) 1 = Some g" "length (fst keys) = 32"
    "length (snd keys) = 32"
  shows "key_ok (next_identity cur g keys)"
proof -
  have "unat g = unat (ik_generation cur) + 1"
    using assms(1) by (simp add: checked_add_Some_iff)
  then have "g \<noteq> 0" by (intro notI) simp
  with assms show ?thesis by (simp add: next_identity_def key_ok_def)
qed

lemma prepare_stores:
  assumes run: "prepare_identity_rotation env random keys cur (st, fs) = (Inr n, st', fs')"
    and fresh: "\<not> ik_legacy n" "length (fst keys) = 32" "length (snd keys) = 32"
  shows "load_pending_key random' cur (st', gs) = (Inr n, st', gs) \<and>
    (st' = st \<or> (\<exists>bs. st' = st(PendingKeyFile := Content bs))) \<and>
    (checked_add (ik_generation cur) 1 = Some (ik_generation n)
      \<or> ik_generation n = ik_generation cur \<and> same_public_keys env n cur)"
proof -
  obtain r s where Pair: "load_pending_key random cur (st, fs) = (r, s)" by (metis surj_pair)
  show ?thesis
  proof (cases r)
    case (Inr pending)
    with Pair have load: "load_identity_file random PendingKeyFile (ik_device_id cur)
        (ik_release_profile cur) (ik_credential_profile cur) (st, fs) = (Inr pending, s)"
      by (simp add: load_pending_key_def)
    have "pending = n" "(st', fs') = s"
      using run Pair Inr
      by (auto simp: prepare_identity_rotation_def Let_def split: if_splits prod.splits)
    with load have load: "load_identity_file random PendingKeyFile (ik_device_id cur)
        (ik_release_profile cur) (ik_credential_profile cur) (st, fs) = (Inr n, st', fs')"
      by simp
    have "checked_add (ik_generation cur) 1 = Some (ik_generation n)
      \<or> ik_generation n = ik_generation cur \<and> same_public_keys env n cur"
      using run Pair Inr \<open>pending = n\<close>
      by (auto simp: prepare_identity_rotation_def Let_def split: if_splits prod.splits option.splits)
    with load_identity_other_random [OF load fresh(1), of random' gs] show ?thesis
      by (auto simp: load_pending_key_def)
  next
    case (Inl e)
    have ro: "s = (st, fs)"
      using read_only_at [of "load_pending_key random cur" st fs r s fs] Pair
      by (auto simp: load_pending_key_def load_identity_file_def intro!: read_only_intros)
    from run Pair Inl ro obtain g where g: "checked_add (ik_generation cur) 1 = Some g"
      "n = next_identity cur g keys"
      "atomic_owner_write PendingKeyFile (encode_identity n) (st, fs) = (Inr (), st', fs')"
      by (auto simp: prepare_identity_rotation_def Let_def ok_or_def
          split: if_splits prod.splits option.splits sum.splits)
    have ok: "key_ok n" using next_identity_ok [OF g(1) fresh(2,3)] g(2) by simp
    have "st' = st(PendingKeyFile := Content (encode_identity n))"
      using write_cases [OF g(3)] by simp
    with load_pending_key_ok [OF ok, of st' random' gs] g show ?thesis
      by (auto simp: load_pending_key_def next_identity_def)
  qed
qed

lemma prepare_again:
  assumes "load_pending_key random cur (st, fs) = (Inr n, st, fs)"
    "checked_add (ik_generation cur) 1 = Some (ik_generation n)
      \<or> ik_generation n = ik_generation cur \<and> same_public_keys env n cur"
  shows "prepare_identity_rotation env random keys cur (st, fs) = (Inr n, st, fs)"
  using assms by (auto simp: prepare_identity_rotation_def Let_def split: option.splits)

lemma rotation_metadata_valid:
  assumes "validate_api_id (ik_device_id cur) = Inr ()" "ik_generation cur \<noteq> 0" "revision \<noteq> 0"
    "st_now env \<noteq> 0" "\<And>s. digest_text (st_sha256_hex env s)" "rotation_key_ok key"
    "current_is_source cur n"
  shows "valid_pending_rotation (rotation_metadata env cur n revision key)"
  using assms
  by (simp add: valid_pending_rotation_def rotation_metadata_def signing_digest_def
      encryption_digest_def current_is_source_def)

lemma read_only_rotation [read_only_intros]: "read_only (read_pending_rotation env)"
  unfolding read_pending_rotation_def
  by (intro read_only_intros) (auto intro!: read_only_intros split: sum.splits)

lemma create_again:
  assumes run: "load_or_create_pending_rotation env fresh cur n revision request (st, fs) =
      (Inr p, st', fs')"
    and fits: "fits (st_rotation env) p"
    and valid: "validate_api_id (ik_device_id cur) = Inr ()" "ik_generation cur \<noteq> 0"
      "st_now env \<noteq> 0" "\<And>s. digest_text (st_sha256_hex env s)"
  shows "load_or_create_pending_rotation env fresh' cur n revision request (st', gs) =
      (Inr p, st', gs) \<and> (st' = st \<or> (\<exists>bs. st' = st(PendingRotationFile := Content bs)))"
proof -
  have scope: "revision \<noteq> 0" "rotation_scope_ok env cur n"
    using run by (auto simp: load_or_create_pending_rotation_def split: if_splits)
  obtain r s where read: "read_pending_rotation env (st, fs) = (r, s)" by (metis surj_pair)
  have s: "s = (st, fs)" and reread: "\<And>gs. read_pending_rotation env (st, gs) = (r, st, gs)"
    using read_only_at [of "read_pending_rotation env" st fs r s, OF _ read]
    by (auto intro: read_only_intros)
  show ?thesis
  proof (cases r)
    case (Inl e)
    with run scope read s show ?thesis by (simp add: load_or_create_pending_rotation_def)
  next
    case (Inr o')
    show ?thesis
    proof (cases o')
      case (Some existing)
      with run scope read s Inr have "existing = p" "st' = st"
        "pending_rotation_matches env p cur n" "\<not> revision < pt_previous_credential_revision p"
        "request = None \<or> request = Some (pt_idempotency_key p)"
        by (auto simp: load_or_create_pending_rotation_def split: if_splits)
      with scope reread [of gs] Inr Some show ?thesis
        by (auto simp: load_or_create_pending_rotation_def)
    next
      case None
      define key where "key = (case request of Some k \<Rightarrow> k | None \<Rightarrow> fresh)"
      have src: "current_is_source cur n" "rotation_key_ok key"
        and p: "p = rotation_metadata env cur n revision key"
        and wrote: "write_document (st_rotation env) PendingRotationFile p (st, fs) =
          (Inr (), st', fs')"
        using run scope read s Inr None
        by (auto simp: load_or_create_pending_rotation_def Let_def key_def
            split: if_splits prod.splits sum.splits)
      have st': "st' = st(PendingRotationFile := Content (co_write (st_rotation env) p))"
        using write_cases [OF wrote [unfolded write_document_def]] by simp
      have "valid_pending_rotation p"
        unfolding p by (rule rotation_metadata_valid) (use valid scope src in auto)
      with fits st' have again: "read_pending_rotation env (st', gs) = (Inr (Some p), st', gs)"
        by (simp add: read_pending_rotation_def fits_def)
      have "pending_rotation_matches env p cur n"
        using src by (simp add: p pending_rotation_matches_def targets_def rotation_metadata_def)
      moreover have "pt_previous_credential_revision p = revision" "pt_idempotency_key p = key"
        by (simp_all add: p rotation_metadata_def)
      ultimately show ?thesis
        using scope again st'
        by (auto simp: load_or_create_pending_rotation_def key_def split: option.splits)
    qed
  qed
qed

end
