(* ===== verification/Store_Properties.thy ===== *)
theory Store_Properties
  imports Identity_Rotation
begin

text \<open>
  What the store of the device client guarantees whatever fails while it writes: an interrupted
  rotation is recoverable, a repeated rotation asks for the same key, a document is never torn, the
  local gate is open for exactly one binding, and forgetting the device closes it.
\<close>

section \<open>Properties\<close>

text \<open>C34: if a confirmed rotation is committed and the commit stops anywhere, either everything is
  installed, or the pending key is still there and repeating the commit installs everything, or
  only the metadata of the rotation is left and the recovery removes it; all three end in the same
  store.\<close>

theorem rotation_commit_recoverable:
  assumes "rotation_confirmed env p i c st"
    and "commit_identity_rotation env random i c (st, fs) = (res, st', fs')"
  shows "(res = Inr () \<longrightarrow> st' = changed st (rotation_changes env i c)) \<and>
    (st' = changed st (rotation_changes env i c)
     \<or> st' PendingKeyFile = st PendingKeyFile \<and>
         commit_identity_rotation env random' i c (st', []) =
           (Inr (), changed st (rotation_changes env i c), [])
     \<or> finish_interrupted_identity_rotation env random' i c (st', []) =
         (Inr True, changed st (rotation_changes env i c), []))"
  using assms by (rule commit_recoverable)

text \<open>Once a rotation has been prepared, preparing it again, with other random draws, gives the
  same new key and the same idempotency key and writes nothing, so that a repeated request to the
  control plane is the same request.\<close>

theorem rotation_request_repeatable:
  assumes prepare: "prepare_identity_rotation env random keys cur (st, fs) = (Inr n, st1, fs1)"
    and create: "load_or_create_pending_rotation env fresh cur n revision request (st1, fs1) =
      (Inr p, st2, fs2)"
    and key: "\<not> ik_legacy n" "length (fst keys) = 32" "length (snd keys) = 32"
    and fits: "fits (st_rotation env) p"
    and valid: "validate_api_id (ik_device_id cur) = Inr ()" "ik_generation cur \<noteq> 0"
      "st_now env \<noteq> 0" "\<forall>s. digest_text (st_sha256_hex env s)"
  shows "prepare_identity_rotation env random' keys' cur (st2, gs) = (Inr n, st2, gs) \<and>
    load_or_create_pending_rotation env fresh' cur n revision request (st2, gs) = (Inr p, st2, gs)"
proof -
  have stored: "load_pending_key random' cur (st1, gs) = (Inr n, st1, gs)"
    "checked_add (ik_generation cur) 1 = Some (ik_generation n)
      \<or> ik_generation n = ik_generation cur \<and> same_public_keys env n cur"
    using prepare_stores [OF prepare key] by auto
  have again: "load_or_create_pending_rotation env fresh' cur n revision request (st2, gs) =
      (Inr p, st2, gs)"
    and same: "st2 PendingKeyFile = st1 PendingKeyFile"
    using create_again [of env fresh cur n revision request st1 fs1 p st2 fs2 fresh' gs]
      create fits valid by auto
  have "load_pending_key random' cur (st2, gs) = (Inr n, st2, gs)"
    using stored(1) same
    by (auto simp: load_pending_key_def load_identity_file_def read_owner_file_def
        split: entry.splits if_splits)
  from prepare_again [OF this stored(2)] again show ?thesis by simp
qed

text \<open>A credential that is being replaced reads back as the old or as the new one, whatever
  happens to the write.\<close>

theorem credential_never_torn:
  assumes "fits (st_credential env) c" "valid_community_credential (st_url env) c now"
    and "load_credential env now (st, gs) = (Inr old, st, gs)"
    and "save_credential env c (st, fs) = (r, st', fs')"
  shows "load_credential env now (st', hs) \<in> {(Inr old, st', hs), (Inr c, st', hs)}"
  using credential.never_torn [OF _ assms(3,4)] assms(1,2) by simp

text \<open>After admission has been opened for a binding, the gate answers yes for exactly that
  binding and generation of that device, and after any later successful close it answers no.\<close>

theorem admission_open_exactly:
  assumes identity: "binding_identity env random b (st, fs) = (Inr i, st, fs)"
    and opened: "open_local_admission env random b (st, fs) = (Inr (), st1, fs1)"
    and rec: "local_admission_record_op env random LOCAL_ADMISSION_CLOSED (st1, fs1) =
      (Inr r, st1, fs1)"
    and closed: "close_local_admission env random (st1, fs1) = (Inr (), st2, fs2)"
    and fits: "gate_fits env (open_record env i b)" "gate_fits env r"
  shows "local_admission_is_open env d b' (st1, gs) =
      (Inr (d = ab_device_id b \<and> ab_binding_id b' = ab_binding_id b
        \<and> ab_generation b' = ab_generation b), st1, gs) \<and>
    local_admission_is_open env d b' (st2, gs) = (Inr False, st2, gs)"
proof -
  have "write_local_admission env (open_record env i b) (st, fs) = (Inr (), st1, fs1)"
    using opened identity
    by (cases "validate_active_binding b") (simp_all add: open_local_admission_def)
  then have first: "load_local_admission env (st1, gs) = (Inr (open_record env i b), st1, gs)"
    using gate_written [OF _ fits(1)] by blast
  have "write_local_admission env r (st1, fs1) = (Inr (), st2, fs2)"
    using closed rec by (simp add: close_local_admission_def)
  then have second: "load_local_admission env (st2, gs) = (Inr r, st2, gs)"
    using gate_written [OF _ fits(2)] by blast
  have "\<not> admits d b' r"
    using gate_record_closed [OF rec] by (intro closed_record_admits_nothing) simp
  moreover have "admits d b' (open_record env i b) \<longleftrightarrow> d = ab_device_id b
      \<and> ab_binding_id b' = ab_binding_id b \<and> ab_generation b' = ab_generation b"
    using binding_identity_device [OF identity] by (auto simp: admits_def open_record_def)
  ultimately show ?thesis
    using gate_answer [OF first, of d b'] gate_answer [OF second, of d b'] by simp
qed

text \<open>Forgetting the device either changes nothing, or leaves the gate closed for every binding;
  when it succeeds every file of the device is gone and only the registration lock remains.\<close>

theorem forget_fails_closed:
  assumes run: "clear_store env random (st, fs) = (res, st', fs')"
    and rec: "local_admission_record_op env random LOCAL_ADMISSION_CLOSED (st, fs) =
      (Inr r, st, fs)"
    and fits: "gate_fits env r"
  shows "(st' = st \<or> local_admission_is_open env d b (st', gs) = (Inr False, st', gs)) \<and>
    (res = Inr () \<longrightarrow> (\<forall>f. st' f = (if f = RegistrationLockFile then st f else Absent)))"
proof -
  obtain r1 st1 fs1 where close: "close_local_admission env random (st, fs) = (r1, st1, fs1)"
    by (metis prod_cases3)
  then have "write_local_admission env r (st, fs) = (r1, st1, fs1)"
    using rec by (simp add: close_local_admission_def)
  from gate_written [OF this fits, of gs] consider (same) "st1 = st" "r1 \<noteq> Inr ()"
    | (closed) bs where "st1 = st(AdmissionFile := Content bs)"
      "load_local_admission env (st1, gs) = (Inr r, st1, gs)" by blast
  then show ?thesis
  proof cases
    case same
    with run close show ?thesis by (cases r1) (auto simp: clear_store_def)
  next
    case closed
    have no: "local_admission_is_open env d b (st1, gs) = (Inr False, st1, gs)"
      using gate_answer [OF closed(2), of d b] gate_record_closed [OF rec]
        closed_record_admits_nothing by simp
    show ?thesis
    proof (cases "r1 = Inr ()")
      case False
      with run close no show ?thesis by (cases r1) (auto simp: clear_store_def)
    next
      case True
      obtain r2 s2 where chk: "check_removable cleared_files (st1, fs1) = (r2, s2)"
        by (metis surj_pair)
      have s2: "s2 = (st1, fs1)" using check_removable_cases [OF chk] by simp
      show ?thesis
      proof (cases "r2 = Inr ()")
        case False
        with run close True chk s2 no show ?thesis by (cases r2) (auto simp: clear_store_def)
      next
        case ok: True
        have rm: "remove_files cleared_files (st1, fs1) = (res, st', fs')"
          using run close True chk s2 ok by (simp add: clear_store_def)
        note gone = remove_files_cases [OF rm]
        have "st' AdmissionFile = st1 AdmissionFile \<or> st' AdmissionFile = Absent"
          using gone by blast
        then have "local_admission_is_open env d b (st', gs) = (Inr False, st', gs)"
          using reads_none_as_closed gate_reads_its_file [OF _ no] by blast
        moreover have "res = Inr () \<longrightarrow>
            (\<forall>f. st' f = (if f = RegistrationLockFile then st f else Absent))"
        proof (intro impI allI)
          fix f
          assume "res = Inr ()"
          then show "st' f = (if f = RegistrationLockFile then st f else Absent)"
            using spec [OF conjunct1 [OF gone], of f] conjunct2 [OF gone] closed(1)
            by (cases f) (auto simp: cleared_files_def)
        qed
        ultimately show ?thesis by blast
      qed
    qed
  qed
qed

text \<open>Retiring the runtime state removes the credential and the handoff and keeps the identity:
  the metadata still name the same device, generation, server and profiles.\<close>

theorem retirement_keeps_identity:
  assumes credential: "load_for_rotation env (st, fs) = (Inr c, st, fs)"
    and identity: "credential_identity random c (st, fs) = (Inr i, st, fs)" "\<not> ik_legacy i"
    and fits: "fits (st_metadata env) (identity_metadata i (cc_server_url c))"
    and run: "retire_runtime_state env random (st, fs) = (Inr (), st', fs')"
  shows "st' CredentialFile = Absent \<and> st' ActiveBindingFile = Absent \<and>
    local_metadata env random' (st', gs) =
      (Inr (device_metadata i (cc_server_url c) 0 0), st', gs)"
proof -
  let ?m = "identity_metadata i (cc_server_url c)"
  have valid: "valid_community_credential (st_url env) c None"
    using credential
    by (auto simp: load_for_rotation_def load_credential_def split: prod.splits sum.splits if_splits)
  then have url: "canonical_server_url (st_url env) (cc_server_url c) = Inr (cc_server_url c)"
    by (simp add: valid_community_credential_def)
  have scope: "ik_device_id i = cc_device_id c" "ik_release_profile i = cc_release_profile c"
    "ik_credential_profile i = cc_credential_profile c"
    using load_identity_device identity(1) unfolding credential_identity_def by blast+
  have ok: "valid_stored_identity_metadata (st_url env) ?m"
    using valid scope
    by (simp add: valid_stored_identity_metadata_def valid_community_credential_def
        identity_metadata_def)
  obtain r1 st1 fs1 where save: "write_document (st_metadata env) IdentityMetadataFile ?m (st, fs) =
      (r1, st1, fs1)" by (metis prod_cases3)
  then have as_save: "save_identity_metadata env i (cc_server_url c) (st, fs) = (r1, st1, fs1)"
    using url ok by (simp add: save_identity_metadata_def)
  have done1: "r1 = Inr ()"
    using run credential identity as_save by (cases r1) (auto simp: retire_runtime_state_def)
  obtain r2 st2 fs2 where rm1: "remove_owner_file_if_present CredentialFile (st1, fs1) =
      (r2, st2, fs2)" by (metis prod_cases3)
  have done2: "r2 = Inr ()"
    and rm2: "remove_owner_file_if_present ActiveBindingFile (st2, fs2) = (Inr (), st', fs')"
    using run credential identity as_save done1 rm1
    by (cases r2; auto simp: retire_runtime_state_def)+
  have st1: "st1 = st(IdentityMetadataFile := Content (co_write (st_metadata env) ?m))"
    using write_cases [OF save [unfolded write_document_def]] done1 by simp
  have st': "st' = st1(CredentialFile := Absent, ActiveBindingFile := Absent)"
    using removal_cases [OF rm1] removal_cases [OF rm2] done2 by simp
  have key: "metadata_identity random' ?m (st', gs) = (Inr i, st', gs)"
    using load_identity_other_random [of random KeyFile "cc_device_id c" "cc_release_profile c"
        "cc_credential_profile c" st fs i "(st, fs)" random' gs] identity scope
    by (auto simp: credential_identity_def metadata_identity_def load_identity_def
        identity_metadata_def st' st1 load_identity_file_def read_owner_file_def
        split: entry.splits if_splits)
  have meta: "load_identity_metadata env (st', gs) = (Inr ?m, st', gs)"
    using fits ok
    by (simp add: load_identity_metadata_def read_document_def st' st1 fits_def)
  have "load_for_rotation env (st', gs) = (Inl Missing, st', gs)"
    by (simp add: load_for_rotation_def load_credential_def read_document_def st')
  then show ?thesis
    using key meta by (simp add: local_metadata_def st') (simp add: identity_metadata_def)
qed

section \<open>Witnesses\<close>

definition sample_url :: string where "sample_url = ''https://s''"

definition sample_parse :: "string \<Rightarrow> parsed_url option" where
  "sample_parse s = (if s = sample_url then
     Some \<lparr>url_scheme = ''https'', url_username = [], url_password = False, url_host = True,
       url_query = False, url_fragment = False, url_path = ''/'', url_origin = sample_url\<rparr> else None)"

definition device_sample :: "u64 \<Rightarrow> u8 \<Rightarrow> identity" where
  "device_sample generation key =
     \<lparr>ik_device_id = ''d1'', ik_signing_key = replicate 32 key, ik_encryption_key = replicate 32 key,
      ik_generation = generation, ik_release_profile = ''prod'',
      ik_credential_profile = ''community_file'', ik_legacy = False\<rparr>"

definition sample_credential :: community_credential where
  "sample_credential =
     \<lparr>cc_version = 1, cc_device_id = ''d1'', cc_server_url = sample_url, cc_token = ''egbc_t'',
      cc_credential_id = None, cc_release_profile = ''prod'',
      cc_credential_profile = ''community_file'', cc_expires_at_unix = 100, cc_revision = 2\<rparr>"

definition sample_hash :: string where "sample_hash = replicate 64 CHR ''a''"

definition sample_rotation :: pending_rotation where
  "sample_rotation =
     \<lparr>pt_version = 1, pt_device_id = ''d1'', pt_current_generation = 1, pt_target_generation = 2,
      pt_previous_credential_revision = 1, pt_old_signing_public_key_sha256 = sample_hash,
      pt_old_encryption_public_key_sha256 = sample_hash,
      pt_target_signing_public_key_sha256 = sample_hash,
      pt_target_encryption_public_key_sha256 = sample_hash,
      pt_idempotency_key = replicate 22 CHR ''k'', pt_created_at_unix = 5\<rparr>"

definition sample_binding :: active_binding where
  "sample_binding =
     \<lparr>ab_version = 1, ab_binding_id = ''b1'', ab_generation = 3, ab_device_id = ''d1'',
      ab_task_space_label = ''agent-remote:s1'', ab_authorization_mode = ''ego_browser_script_full_trust'',
      ab_user_confirmation = True\<rparr>"

definition sample_gate :: "bool \<Rightarrow> local_admission_record" where
  "sample_gate is_open =
     \<lparr>la_version = 1, la_state = (if is_open then LOCAL_ADMISSION_OPEN else LOCAL_ADMISSION_CLOSED),
      la_device_id = Some ''d1'', la_device_generation = Some 1,
      la_binding_id = (if is_open then Some ''b1'' else None),
      la_binding_generation = (if is_open then Some 3 else None), la_updated_at_unix = 5\<rparr>"

definition constant_codec :: "'d \<Rightarrow> 'd codec" where
  "constant_codec d = \<lparr>co_write = (\<lambda>_. [7]), co_read = (\<lambda>_. Some d)\<rparr>"

definition sample_store_env :: store_env where
  "sample_store_env =
     \<lparr>st_url = sample_parse, st_var_os = (\<lambda>_. None), st_now = 5, st_sha256_hex = (\<lambda>_. sample_hash),
      st_signing_public = (\<lambda>_. ''p''), st_encryption_public = (\<lambda>_. ''q''),
      st_credential = constant_codec sample_credential,
      st_metadata = constant_codec (identity_metadata (device_sample 2 2) sample_url),
      st_registration = \<lparr>co_write = (\<lambda>_. []), co_read = (\<lambda>_. None)\<rparr>,
      st_rotation = constant_codec sample_rotation,
      st_binding = constant_codec sample_binding,
      st_admission = \<lparr>co_write = (\<lambda>r. if la_state r = LOCAL_ADMISSION_OPEN then [1] else [0]),
        co_read = (\<lambda>bs. Some (sample_gate (bs = [1])))\<rparr>\<rparr>"

text \<open>A registered device, and the same device after its rotation was confirmed.\<close>

definition registered_files :: files where
  "registered_files = (\<lambda>_. Absent)
     (KeyFile := Content (encode_identity (device_sample 1 1)), CredentialFile := Content [7])"

definition confirmed_files :: files where
  "confirmed_files = registered_files
     (PendingKeyFile := Content (encode_identity (device_sample 2 2)),
      PendingRotationFile := Content [7])"

lemma sample_ids: "validate_api_id ''d1'' = Inr ()" "validate_api_id ''b1'' = Inr ()"
  "profile_text ''prod''"
  by (simp_all add: validate_api_id_def profile_text_def is_ascii_alphanumeric_def is_ascii_alpha_def
      is_ascii_digit_def)

lemma sample_credential_valid:
  "now < 100 \<Longrightarrow> valid_community_credential sample_parse sample_credential (Some now)"
  "valid_community_credential sample_parse sample_credential None"
  by (simp_all add: valid_community_credential_def sample_credential_def sample_ids
      canonical_server_url_def sample_parse_def sample_url_def TOKEN_MAX_BYTES_def starts_with_def
      visible_token_def is_ascii_graphic_def)

lemma sample_hash_ok: "digest_text sample_hash"
  by (simp add: digest_text_def sample_hash_def is_lower_hex_def list_all_iff)

lemma sample_key: "rotation_key_ok (replicate 22 CHR ''k'')"
  by (simp add: rotation_key_ok_def visible_token_def list_all_iff is_ascii_graphic_def)

lemma sample_rotation_valid: "valid_pending_rotation sample_rotation"
  by (simp add: valid_pending_rotation_def sample_rotation_def sample_ids sample_hash_ok sample_key
      sat_add_def)

lemma device_sample_ok: "g \<noteq> 0 \<Longrightarrow> key_ok (device_sample g k)"
  by (simp add: key_ok_def device_sample_def)

lemma constant_fits: "fits (constant_codec d) d"
  by (simp add: fits_def constant_codec_def MAX_CREDENTIAL_BYTES_def)

lemma sample_env [simp]:
  "st_url sample_store_env = sample_parse" "st_now sample_store_env = 5"
  "st_sha256_hex sample_store_env x = sample_hash"
  "st_credential sample_store_env = constant_codec sample_credential"
  "st_metadata sample_store_env = constant_codec (identity_metadata (device_sample 2 2) sample_url)"
  "st_rotation sample_store_env = constant_codec sample_rotation"
  by (simp_all add: sample_store_env_def)

lemma sample_codec [simp]:
  "co_write (constant_codec d) e = [7]" "co_read (constant_codec d) bs = Some d"
  by (simp_all add: constant_codec_def)

lemma sample_credential_sel [simp]:
  "cc_device_id sample_credential = ''d1''" "cc_server_url sample_credential = sample_url"
  "cc_release_profile sample_credential = ''prod''"
  "cc_credential_profile sample_credential = ''community_file''" "cc_revision sample_credential = 2"
  by (simp_all add: sample_credential_def)

lemma device_sample_sel [simp]:
  "ik_device_id (device_sample g k) = ''d1''" "ik_generation (device_sample g k) = g"
  "ik_release_profile (device_sample g k) = ''prod''"
  "ik_credential_profile (device_sample g k) = ''community_file''" "\<not> ik_legacy (device_sample g k)"
  by (simp_all add: device_sample_def)

lemma sample_confirmed:
  "rotation_confirmed sample_store_env sample_rotation (device_sample 2 2) sample_credential
     confirmed_files"
proof -
  have "rotation_committed sample_store_env sample_rotation (device_sample 2 2) sample_credential"
    by (simp add: rotation_committed_def targets_def sample_rotation_def signing_digest_def
        encryption_digest_def)
  then show ?thesis
    using device_sample_ok sample_credential_valid sample_rotation_valid
    by (simp add: rotation_confirmed_def confirmed_files_def registered_files_def constant_fits)
qed

theorem rotation_commit_recoverable_witness:
  "\<exists>st'. commit_identity_rotation sample_store_env [] (device_sample 2 2) sample_credential
      (confirmed_files, [Works, FailsAfter Malformed]) = (Inl Malformed, st', []) \<and>
    commit_identity_rotation sample_store_env [] (device_sample 2 2) sample_credential (st', []) =
      (Inr (), changed confirmed_files (rotation_changes sample_store_env (device_sample 2 2)
         sample_credential), [])"
proof -
  let ?i = "device_sample 2 2" and ?c = sample_credential
  let ?fs = "[Works, FailsAfter Malformed]"
  let ?st = "confirmed_files(KeyFile := Content (encode_identity ?i), IdentityMetadataFile := Content [7])"
  have "commit_identity_rotation sample_store_env [] ?i ?c (confirmed_files, ?fs) =
      install_rotation sample_store_env ?i ?c (confirmed_files, ?fs)"
    using commit_is_install [of sample_store_env sample_rotation ?i ?c confirmed_files confirmed_files]
      sample_confirmed by simp
  then have run: "commit_identity_rotation sample_store_env [] ?i ?c (confirmed_files, ?fs) =
      (Inl Malformed, ?st, [])"
    using save_metadata_as_write [OF sample_confirmed]
    by (simp add: install_rotation_def save_identity_def atomic_owner_write_def write_document_def)
  have "load_pending_key [] ?i (?st, []) = (Inr ?i, ?st, [])"
    by (rule load_pending_key_ok) (simp_all add: device_sample_ok confirmed_files_def)
  then have "finish_interrupted_identity_rotation sample_store_env [] ?i ?c (?st, []) =
      (Inr False, ?st, [])"
    using sample_rotation_valid
    by (simp add: finish_interrupted_identity_rotation_def read_pending_rotation_def
        load_pending_identity_rotation_def confirmed_files_def MAX_CREDENTIAL_BYTES_def)
  moreover have "?st \<noteq> changed confirmed_files (rotation_changes sample_store_env ?i ?c)"
    by (auto simp: rotation_changes_def confirmed_files_def dest!: fun_cong [of _ _ PendingKeyFile])
  ultimately show ?thesis
    using rotation_commit_recoverable [OF sample_confirmed run, of "[]"] run by simp
qed

lemma sample_pending:
  "load_pending_key [] (device_sample 1 1) (confirmed_files, []) =
     (Inr (device_sample 2 2), confirmed_files, [])"
  using load_pending_key_ok [of "device_sample 2 2" confirmed_files "[]" "[]"] device_sample_ok [of 2 2]
  by (simp add: confirmed_files_def load_pending_key_def)

lemma sample_prepared:
  "prepare_identity_rotation sample_store_env [] (replicate 32 9, replicate 32 9) (device_sample 1 1)
     (confirmed_files, []) = (Inr (device_sample 2 2), confirmed_files, [])"
  using sample_pending by (simp add: prepare_identity_rotation_def checked_add_def)

lemma sample_created:
  "load_or_create_pending_rotation sample_store_env ''other'' (device_sample 1 1) (device_sample 2 2)
     1 None (confirmed_files, []) = (Inr sample_rotation, confirmed_files, [])"
proof -
  have "read_pending_rotation sample_store_env (confirmed_files, []) =
      (Inr (Some sample_rotation), confirmed_files, [])"
    using sample_rotation_valid
    by (simp add: read_pending_rotation_def confirmed_files_def MAX_CREDENTIAL_BYTES_def)
  moreover have "pending_rotation_matches sample_store_env sample_rotation (device_sample 1 1)
      (device_sample 2 2)"
    by (simp add: pending_rotation_matches_def targets_def sample_rotation_def signing_digest_def
        encryption_digest_def)
  moreover have "rotation_scope_ok sample_store_env (device_sample 1 1) (device_sample 2 2)"
    by (simp add: rotation_scope_ok_def current_is_source_def sat_add_def)
  ultimately show ?thesis
    by (simp add: load_or_create_pending_rotation_def) (simp add: sample_rotation_def)
qed

theorem rotation_request_repeatable_witness:
  "prepare_identity_rotation sample_store_env [8] (replicate 32 4, replicate 32 4) (device_sample 1 1)
     (confirmed_files, []) = (Inr (device_sample 2 2), confirmed_files, []) \<and>
   load_or_create_pending_rotation sample_store_env ''different'' (device_sample 1 1)
     (device_sample 2 2) 1 None (confirmed_files, []) = (Inr sample_rotation, confirmed_files, [])"
  by (rule rotation_request_repeatable [OF sample_prepared sample_created])
    (simp_all add: constant_fits sample_ids sample_hash_ok)

lemma sample_load:
  "now = None \<or> now = Some 4 \<Longrightarrow> st CredentialFile = Content [7] \<Longrightarrow>
   load_credential sample_store_env now (st, fs) = (Inr sample_credential, st, fs)"
  using sample_credential_valid(1) [of 4] sample_credential_valid(2)
  by (auto simp: load_credential_def read_document_def MAX_CREDENTIAL_BYTES_def)

theorem credential_never_torn_witness:
  "load_credential sample_store_env (Some 4)
     (registered_files(CredentialFile := Content [7]), []) =
   (Inr sample_credential, registered_files(CredentialFile := Content [7]), [])"
proof -
  have old: "load_credential sample_store_env (Some 4) (registered_files, []) =
      (Inr sample_credential, registered_files, [])"
    by (rule sample_load) (simp_all add: registered_files_def)
  have save: "save_credential sample_store_env sample_credential
      (registered_files, [FailsAfter Malformed]) =
      (Inl Malformed, registered_files(CredentialFile := Content [7]), [])"
    using sample_credential_valid(2)
    by (simp add: save_credential_def write_document_def atomic_owner_write_def MAX_CREDENTIAL_BYTES_def)
  show ?thesis
    using credential_never_torn [OF _ _ old save, of "[]"] sample_credential_valid(1)
    by (simp add: constant_fits)
qed

lemma sample_gate_fits: "gate_fits sample_store_env (sample_gate b)"
  by (simp add: gate_fits_def sample_store_env_def sample_gate_def MAX_ADMISSION_BYTES_def
      LOCAL_ADMISSION_OPEN_def LOCAL_ADMISSION_CLOSED_def)

lemma sample_load_key:
  "st KeyFile = Content (encode_identity (device_sample 1 1)) \<Longrightarrow>
   credential_identity random sample_credential (st, fs) = (Inr (device_sample 1 1), st, fs)"
  using decode_encode_identity [of "device_sample 1 1" random]
    encode_identity_length [of "device_sample 1 1"] device_sample_ok [of 1 1]
  by (simp add: credential_identity_def load_identity_def load_identity_file_def MAX_CREDENTIAL_BYTES_def)

lemma sample_reference:
  assumes "st CredentialFile = Content [7]" "st KeyFile = Content (encode_identity (device_sample 1 1))"
  shows "local_admission_record_op sample_store_env [] LOCAL_ADMISSION_CLOSED (st, fs) =
    (Inr (sample_gate False), st, fs)"
  using sample_load [of None st fs] sample_load_key [of st "[]" fs] assms
  by (simp add: local_admission_record_op_def local_identity_reference_def load_for_rotation_def
      gate_record_def sample_gate_def)

lemma sample_gate_written:
  "write_local_admission sample_store_env (sample_gate b) (st, []) =
   (Inr (), st(AdmissionFile := Content [if b then 1 else 0]), [])"
proof -
  have "validate_local_admission_record (sample_gate b) = Inr ()"
    by (simp add: validate_local_admission_record_def sample_gate_def optional_api_id_def sample_ids
        LOCAL_ADMISSION_OPEN_def LOCAL_ADMISSION_CLOSED_def LOCAL_ADMISSION_READY_def)
  then show ?thesis
    by (simp add: write_local_admission_def write_document_def atomic_owner_write_def
        sample_store_env_def sample_gate_def LOCAL_ADMISSION_OPEN_def LOCAL_ADMISSION_CLOSED_def)
qed

lemma sample_binding_identity:
  assumes "st CredentialFile = Content [7]" "st KeyFile = Content (encode_identity (device_sample 1 1))"
  shows "binding_identity sample_store_env [] sample_binding (st, fs) = (Inr (device_sample 1 1), st, fs)"
  using sample_load [of None st fs] sample_load_key [of st "[]" fs] assms
  by (simp add: binding_identity_def load_for_rotation_def sample_binding_def)

lemma sample_opened:
  assumes "st CredentialFile = Content [7]" "st KeyFile = Content (encode_identity (device_sample 1 1))"
  shows "open_local_admission sample_store_env [] sample_binding (st, []) =
    (Inr (), st(AdmissionFile := Content [1]), [])"
proof -
  have "validate_active_binding sample_binding = Inr ()"
    by (simp add: validate_active_binding_def sample_binding_def sample_ids is_dedicated_task_space_def
        strip_prefix_def is_ascii_alphanumeric_def is_ascii_alpha_def is_ascii_digit_def)
  moreover have "open_record sample_store_env (device_sample 1 1) sample_binding = sample_gate True"
    by (simp add: open_record_def sample_gate_def sample_binding_def)
  ultimately show ?thesis
    using sample_binding_identity [OF assms] sample_gate_written [of True]
    by (simp add: open_local_admission_def)
qed

lemma sample_closed:
  assumes "st CredentialFile = Content [7]" "st KeyFile = Content (encode_identity (device_sample 1 1))"
  shows "close_local_admission sample_store_env [] (st, []) =
    (Inr (), st(AdmissionFile := Content [0]), [])"
  using sample_reference [OF assms] sample_gate_written [of False]
  by (simp add: close_local_admission_def)

lemma registered:
  "registered_files CredentialFile = Content [7]"
  "registered_files KeyFile = Content (encode_identity (device_sample 1 1))"
  by (simp_all add: registered_files_def)

lemma sample_binding_sel: "ab_device_id sample_binding = ''d1''" "ab_generation sample_binding = 3"
  by (simp_all add: sample_binding_def)

lemma registered_absent: "f \<noteq> KeyFile \<Longrightarrow> f \<noteq> CredentialFile \<Longrightarrow> registered_files f = Absent"
  by (simp add: registered_files_def)

theorem admission_open_exactly_witness:
  "local_admission_is_open sample_store_env ''d1'' sample_binding
     (registered_files(AdmissionFile := Content [1]), []) =
     (Inr True, registered_files(AdmissionFile := Content [1]), []) \<and>
   local_admission_is_open sample_store_env ''d1'' (sample_binding\<lparr>ab_generation := 4\<rparr>)
     (registered_files(AdmissionFile := Content [1]), []) =
     (Inr False, registered_files(AdmissionFile := Content [1]), [])"
proof -
  let ?st1 = "registered_files(AdmissionFile := Content [1])"
  have st1: "?st1 CredentialFile = Content [7]"
    "?st1 KeyFile = Content (encode_identity (device_sample 1 1))"
    by (simp_all add: registered)
  have fits: "gate_fits sample_store_env (open_record sample_store_env (device_sample 1 1) sample_binding)"
    using sample_gate_fits [of True]
    by (simp add: open_record_def sample_gate_def sample_binding_def)
  note exact = admission_open_exactly [OF sample_binding_identity [OF registered]
      sample_opened [OF registered] sample_reference [OF st1] sample_closed [OF st1] fits sample_gate_fits]
  show ?thesis
    using exact [of "''d1''" sample_binding "[]"] exact [of "''d1''" "sample_binding\<lparr>ab_generation := 4\<rparr>" "[]"]
      sample_binding_sel
    by (simp del: fun_upd_apply)
qed

theorem forget_fails_closed_witness:
  "\<exists>st'. clear_store sample_store_env [] (registered_files, []) = (Inr (), st', []) \<and>
     st' KeyFile = Absent \<and>
     local_admission_is_open sample_store_env ''d1'' sample_binding (st', []) = (Inr False, st', [])"
proof -
  obtain st' where run: "clear_store sample_store_env [] (registered_files, []) = (Inr (), st', [])"
    by (simp add: clear_store_def cleared_files_def sample_closed [OF registered] registered
        registered_absent)
  note forget = forget_fails_closed [OF this sample_reference [OF registered] sample_gate_fits,
      of "''d1''" sample_binding "[]"]
  then have gone: "st' CredentialFile = Absent" "st' KeyFile = Absent"
    by simp_all
  then have "st' \<noteq> registered_files" using registered(1) by auto
  with forget gone(2) run show ?thesis by blast
qed

theorem retirement_keeps_identity_witness:
  "\<exists>st'. retire_runtime_state sample_store_env [] (registered_files, []) = (Inr (), st', []) \<and>
     st' CredentialFile = Absent \<and>
     local_metadata sample_store_env [8] (st', []) =
       (Inr (device_metadata (device_sample 1 1) sample_url 0 0), st', [])"
proof -
  have load: "load_for_rotation sample_store_env (registered_files, []) =
      (Inr sample_credential, registered_files, [])"
    using sample_load [of None registered_files "[]"] registered by (simp add: load_for_rotation_def)
  have key: "credential_identity [] sample_credential (registered_files, []) =
      (Inr (device_sample 1 1), registered_files, [])"
    by (rule sample_load_key) (rule registered(2))
  have meta: "identity_metadata (device_sample 1 1) sample_url = identity_metadata (device_sample 2 2) sample_url"
    by (simp add: identity_metadata_def)
  have fits: "fits (st_metadata sample_store_env)
      (identity_metadata (device_sample 1 1) (cc_server_url sample_credential))"
    by (simp add: meta constant_fits)
  have valid: "valid_stored_identity_metadata sample_parse (identity_metadata (device_sample 2 2) sample_url)"
    using metadata_of_rotation [OF sample_confirmed] by simp
  have url: "canonical_server_url sample_parse sample_url = Inr sample_url"
    using confirmed_url [OF sample_confirmed] by simp
  obtain st' where run: "retire_runtime_state sample_store_env [] (registered_files, []) =
      (Inr (), st', [])"
    by (simp add: retire_runtime_state_def load key save_identity_metadata_def url meta valid
        write_document_def works_without_faults registered registered_absent)
  from retirement_keeps_identity [OF load key _ fits run, of "[8]" "[]"] run show ?thesis by simp
qed

end
