(* ===== verification/Local_Policy.thy ===== *)
theory Local_Policy
  imports Store_Documents Bridge_Config
begin

text \<open>
  The local policy of the device client: its verification (\<open>crates/device-client/src/lib.rs\<close>) and the
  updates of its document (\<open>crates/device-client/src/credential_store.rs\<close>), which are prepared
  against an exact predecessor and committed only while that predecessor is the document in the
  store.  The allowlist is built by the model of \<open>crates/protocol/src/allowlist.rs\<close>; the verifier of
  a learning bundle, the digest and the serializers are parameters.
\<close>

section \<open>Text of paths\<close>

fun join_components :: "path \<Rightarrow> string" where
  "join_components [] = []"
| "join_components [c] = (case c of Normal s \<Rightarrow> s | ParentDir \<Rightarrow> ''..'' | CurDir \<Rightarrow> ''.'' | RootDir \<Rightarrow> ''/'')"
| "join_components (RootDir # rest) = ''/'' @ join_components rest"
| "join_components (c # rest) =
     (case c of Normal s \<Rightarrow> s | ParentDir \<Rightarrow> ''..'' | _ \<Rightarrow> ''.'') @ ''/'' @ join_components rest"

definition path_to_str :: "path \<Rightarrow> string option" where
  "path_to_str p = (let s = join_components p in if valid_utf8 s then Some s else None)"

section \<open>The document\<close>

record local_policy =
  po_version :: u32
  po_policy_revision :: u64
  po_allowlist_revision :: u64
  po_allowlist_roots :: "string list"
  po_allowlist_roots_digest :: "string option"
  po_learning_bundle_root :: "string option"

definition default_local_policy :: local_policy where
  "default_local_policy =
     \<lparr>po_version = 1, po_policy_revision = 1, po_allowlist_revision = 1, po_allowlist_roots = [],
      po_allowlist_roots_digest = None, po_learning_bundle_root = None\<rparr>"

definition MAX_ALLOWLIST_ROOTS :: nat where "MAX_ALLOWLIST_ROOTS = 128"

record policy_env =
  pv_world :: world
  pv_time :: nat
  pv_to_vec :: "json \<Rightarrow> bytes"
  pv_sha256_hex :: "bytes \<Rightarrow> string"
  pv_learning :: "bytes \<Rightarrow> path \<Rightarrow> verified_learning_bundle option"
  pv_trusted_key :: bytes
  pv_codec :: "local_policy codec"

definition canonical_root_strings :: "allowlist \<Rightarrow> credential_error + string list" where
  "canonical_root_strings al =
     traverse_r (\<lambda>root. ok_or PolicyInvalid (path_to_str root)) (al_roots al)"

definition roots_digest :: "policy_env \<Rightarrow> allowlist \<Rightarrow> allowlist_error + string" where
  "roots_digest env al =
     bind_r (traverse_r (\<lambda>root. ok_or allowlist_error.InvalidPath (path_to_str root)) (al_roots al))
       (\<lambda>roots. Inr (''sha256:'' @
          pv_sha256_hex env (canonical_json (pv_to_vec env) (JArray (map JString roots)))))"

definition new_allowlist :: "policy_env \<Rightarrow> path list \<Rightarrow> u64 \<Rightarrow> credential_error + allowlist" where
  "new_allowlist env roots revision =
     map_err (\<lambda>_. PolicyInvalid)
       (fst (allowlist_new (pv_world env) roots revision default_allowlist_limits (pv_time env)))"

definition differs :: "string option \<Rightarrow> string \<Rightarrow> bool" where
  "differs expected v \<longleftrightarrow> (case expected of None \<Rightarrow> False | Some e \<Rightarrow> e \<noteq> v)"

definition verify_allowlist :: "policy_env \<Rightarrow> local_policy \<Rightarrow> credential_error + allowlist option" where
  "verify_allowlist env p =
     (if po_allowlist_roots p = [] then
        (if po_allowlist_roots_digest p \<noteq> None then Inl PolicyInvalid else Inr None)
      else
        bind_r (new_allowlist env (map path_of (po_allowlist_roots p)) (po_allowlist_revision p))
          (\<lambda>al.
        bind_r (canonical_root_strings al) (\<lambda>roots.
        bind_r (map_err (\<lambda>_. PolicyInvalid) (roots_digest env al)) (\<lambda>digest.
          if roots \<noteq> po_allowlist_roots p \<or> po_allowlist_roots_digest p \<noteq> Some digest
          then Inl PolicyInvalid else Inr (Some al)))))"

definition verify_learning ::
  "policy_env \<Rightarrow> string option \<Rightarrow> string option \<Rightarrow> bytes \<Rightarrow> local_policy \<Rightarrow>
     credential_error + verified_learning_bundle option" where
  "verify_learning env skill runtime key p =
     (case po_learning_bundle_root p of
        None \<Rightarrow> Inr None
      | Some v \<Rightarrow>
          if \<not> is_absolute (path_of v) then Inl PolicyInvalid
          else
            bind_r (ok_or LearningBundleInvalid (pv_learning env key (path_of v))) (\<lambda>b.
              if differs skill (lb_skill_version b)
                 \<or> differs runtime (lb_local_ego_browser_runtime_version b)
              then Inl LearningBundleInvalid else Inr (Some b)))"

definition verify_with_key ::
  "policy_env \<Rightarrow> string option \<Rightarrow> string option \<Rightarrow> bytes \<Rightarrow> local_policy \<Rightarrow>
     credential_error + verified_local_policy" where
  "verify_with_key env skill runtime key p =
     (if po_version p \<noteq> 1 \<or> po_policy_revision p = 0 \<or> po_allowlist_revision p = 0
         \<or> length (po_allowlist_roots p) > MAX_ALLOWLIST_ROOTS
      then Inl PolicyInvalid
      else
        bind_r (verify_allowlist env p) (\<lambda>al.
        bind_r (verify_learning env skill runtime key p) (\<lambda>bundle.
          Inr \<lparr>vp_policy_revision = po_policy_revision p,
               vp_allowlist_revision = po_allowlist_revision p,
               vp_allowlist_roots_digest = po_allowlist_roots_digest p,
               vp_allowlist = al, vp_learning_bundle = bundle\<rparr>)))"

definition verify ::
  "policy_env \<Rightarrow> string option \<Rightarrow> string option \<Rightarrow> local_policy \<Rightarrow>
     credential_error + verified_local_policy" where
  "verify env skill runtime p = verify_with_key env skill runtime (pv_trusted_key env) p"

definition with_allowlist_roots ::
  "policy_env \<Rightarrow> path list \<Rightarrow> local_policy \<Rightarrow> credential_error + local_policy" where
  "with_allowlist_roots env roots p =
     (if roots = [] \<or> length roots > MAX_ALLOWLIST_ROOTS then Inl PolicyInvalid
      else
        bind_r (ok_or PolicyInvalid (checked_add (po_allowlist_revision p) 1)) (\<lambda>revision.
        bind_r (new_allowlist env roots revision) (\<lambda>al.
        bind_r (canonical_root_strings al) (\<lambda>texts.
        bind_r (map_err (\<lambda>_. PolicyInvalid) (roots_digest env al)) (\<lambda>digest.
        bind_r (ok_or PolicyInvalid (checked_add (po_policy_revision p) 1)) (\<lambda>policy_revision.
          Inr \<lparr>po_version = 1, po_policy_revision = policy_revision,
               po_allowlist_revision = al_revision al, po_allowlist_roots = texts,
               po_allowlist_roots_digest = Some digest,
               po_learning_bundle_root = po_learning_bundle_root p\<rparr>))))))"

text \<open>\<open>root\<close> is the answer of \<open>canonicalize\<close>.\<close>

definition with_learning_bundle_root ::
  "io_error + path \<Rightarrow> local_policy \<Rightarrow> credential_error + local_policy" where
  "with_learning_bundle_root root p =
     bind_r (map_err (\<lambda>_. LearningBundleInvalid) root) (\<lambda>canonical.
     bind_r (ok_or PolicyInvalid (path_to_str canonical)) (\<lambda>text.
     bind_r (ok_or PolicyInvalid (checked_add (po_policy_revision p) 1)) (\<lambda>revision.
       Inr (p\<lparr>po_policy_revision := revision, po_learning_bundle_root := Some text\<rparr>))))"

section \<open>The stored document and its updates\<close>

record prepared_update =
  pu_previous :: local_policy
  pu_next :: local_policy

definition load_policy_document :: "policy_env \<Rightarrow> local_policy store_op" where
  "load_policy_document env =
     andthen (attempt (read_owner_file PolicyFile)) (\<lambda>r. case r of
       Inr bs \<Rightarrow> lift_s (ok_or PolicyInvalid (co_read (pv_codec env) bs))
     | Inl e \<Rightarrow> if e = Missing then give default_local_policy else refuse e)"

definition load_policy ::
  "policy_env \<Rightarrow> string option \<Rightarrow> string option \<Rightarrow> (local_policy \<times> verified_local_policy) store_op"
  where
  "load_policy env skill runtime =
     andthen (load_policy_document env) (\<lambda>p.
     andthen (lift_s (verify env skill runtime p)) (\<lambda>v. give (p, v)))"

text \<open>Each update verifies the document in the store and the one it prepares.\<close>

definition prepare_update ::
  "policy_env \<Rightarrow> (local_policy \<Rightarrow> credential_error + local_policy) \<Rightarrow> prepared_update store_op" where
  "prepare_update env change =
     andthen (load_policy_document env) (\<lambda>previous.
     andthen (lift_s (verify env None None previous)) (\<lambda>_.
     andthen (lift_s (change previous)) (\<lambda>next_p.
     andthen (lift_s (verify env None None next_p)) (\<lambda>_.
       give \<lparr>pu_previous = previous, pu_next = next_p\<rparr>))))"

definition prepare_allowlist_update :: "policy_env \<Rightarrow> path list \<Rightarrow> prepared_update store_op" where
  "prepare_allowlist_update env roots = prepare_update env (with_allowlist_roots env roots)"

definition canonicalize_now :: "policy_env \<Rightarrow> path \<Rightarrow> io_error + path" where
  "canonicalize_now env p = w_canonicalize (pv_world env) (pv_time env) p"

definition prepare_learning_bundle_update :: "policy_env \<Rightarrow> path \<Rightarrow> prepared_update store_op" where
  "prepare_learning_bundle_update env root =
     prepare_update env (with_learning_bundle_root (canonicalize_now env root))"

definition release_part_ok :: "string \<Rightarrow> bool" where
  "release_part_ok part \<longleftrightarrow> part \<noteq> [] \<and> list_all is_ascii_digit part
     \<and> (length part = 1 \<or> \<not> starts_with ''0'' part)"

definition is_stable_release_version :: "string option \<Rightarrow> bool" where
  "is_stable_release_version v = (case v of
      None \<Rightarrow> False
    | Some s \<Rightarrow> let parts = split_on (CHR ''.'') s in
        length parts = 3 \<and> list_all release_part_ok parts)"

definition valid_name :: "path \<Rightarrow> string option" where
  "valid_name p = (case file_name p of None \<Rightarrow> None | Some n \<Rightarrow> if valid_utf8 n then Some n else None)"

text \<open>The checks of a migration from an older managed release: the current release directory, then
  the release that the policy names.  \<open>version\<close> is the version of the package.\<close>

definition managed_releases ::
  "policy_env \<Rightarrow> string \<Rightarrow> path \<Rightarrow> credential_error + path" where
  "managed_releases env version current_release =
     bind_r (map_err (\<lambda>_. LearningBundleInvalid) (canonicalize_now env current_release))
       (\<lambda>canonical.
     bind_r (ensure (canonical = current_release \<and> valid_name canonical = Some version)
        LearningBundleInvalid) (\<lambda>_.
       ok_or LearningBundleInvalid (case path_parent canonical of
          Some p \<Rightarrow> if valid_name p = Some ''releases'' then Some p else None
        | None \<Rightarrow> None)))"

definition managed_previous ::
  "policy_env \<Rightarrow> path \<Rightarrow> path \<Rightarrow> local_policy \<Rightarrow> credential_error + unit" where
  "managed_previous env current_release releases previous =
     bind_r (ok_or LearningBundleInvalid (po_learning_bundle_root previous)) (\<lambda>text.
     bind_r (ok_or LearningBundleInvalid (case path_parent (path_of text) of
          Some p \<Rightarrow> if valid_name (path_of text) = Some ''learning-bundle'' then Some p else None
        | None \<Rightarrow> None)) (\<lambda>previous_release.
       if path_parent previous_release \<noteq> Some releases \<or> previous_release = current_release
          \<or> \<not> is_stable_release_version (valid_name previous_release)
       then Inl LearningBundleInvalid
       else
         bind_r (map_err (\<lambda>_. LearningBundleInvalid) (canonicalize_now env (path_of text)))
           (\<lambda>c. ensure (c = path_of text) LearningBundleInvalid)))"

definition prepare_managed_learning_bundle_update ::
  "policy_env \<Rightarrow> string \<Rightarrow> path \<Rightarrow> string \<Rightarrow> string \<Rightarrow> bytes \<Rightarrow>
     (verified_local_policy \<times> prepared_update option) store_op" where
  "prepare_managed_learning_bundle_update env version current_release skill runtime key =
     andthen (load_policy_document env) (\<lambda>previous.
       case verify_with_key env (Some skill) (Some runtime) key previous of
         Inr verified \<Rightarrow> give (verified, None)
       | Inl e \<Rightarrow>
           if e \<noteq> LearningBundleInvalid then refuse e
           else lift_s (
             bind_r (verify_with_key env None None key (previous\<lparr>po_learning_bundle_root := None\<rparr>))
               (\<lambda>_.
             bind_r (managed_releases env version current_release) (\<lambda>releases.
             bind_r (managed_previous env current_release releases previous) (\<lambda>_.
             bind_r (with_learning_bundle_root (canonicalize_now env
                 (path_join current_release [Normal ''learning-bundle''])) previous) (\<lambda>next_p.
             bind_r (verify_with_key env (Some skill) (Some runtime) key next_p) (\<lambda>verified.
               Inr (verified, Some \<lparr>pu_previous = previous, pu_next = next_p\<rparr>))))))))"

definition commit_policy_update_unlocked_with_key ::
  "policy_env \<Rightarrow> prepared_update \<Rightarrow> bytes \<Rightarrow> unit store_op" where
  "commit_policy_update_unlocked_with_key env update key =
     andthen (load_policy_document env) (\<lambda>current.
       if current \<noteq> pu_previous update then refuse PolicyConflict
       else
         andthen (lift_s (ok_or PolicyInvalid (checked_add (po_policy_revision current) 1)))
           (\<lambda>revision.
         andthen (check_s (po_policy_revision (pu_next update) = revision) PolicyConflict) (\<lambda>_.
         andthen (lift_s (verify_with_key env None None key (pu_next update))) (\<lambda>_.
           write_document (pv_codec env) PolicyFile (pu_next update)))))"

definition commit_policy_update_unlocked :: "policy_env \<Rightarrow> prepared_update \<Rightarrow> unit store_op" where
  "commit_policy_update_unlocked env update =
     commit_policy_update_unlocked_with_key env update (pv_trusted_key env)"

definition commit_policy_update ::
  "policy_env \<Rightarrow> io_error + unit \<Rightarrow> prepared_update \<Rightarrow> unit store_op" where
  "commit_policy_update env lock_answer update =
     andthen (lock_policy False lock_answer) (\<lambda>_. commit_policy_update_unlocked env update)"

section \<open>Facts\<close>

definition advances :: "local_policy \<Rightarrow> local_policy \<Rightarrow> bool" where
  "advances p q \<longleftrightarrow> checked_add (po_policy_revision p) 1 = Some (po_policy_revision q)"

lemma advances_strict: "advances p q \<Longrightarrow> po_policy_revision p < po_policy_revision q"
  by (simp add: advances_def checked_add_Some_iff word_less_nat_alt)

lemma changes_advance:
  "with_allowlist_roots env roots p = Inr q \<Longrightarrow> advances p q"
  "with_learning_bundle_root root p = Inr q \<Longrightarrow> advances p q"
  by (auto simp: with_allowlist_roots_def with_learning_bundle_root_def advances_def bind_r_Inr_iff
      split: if_splits)

lemma sort_key_Nil: "sort_key f xs = [] \<longleftrightarrow> xs = []"
  by (metis set_empty set_sort)

lemma new_allowlist_fields:
  assumes "new_allowlist env roots revision = Inr al"
  shows "al_revision al = revision \<and> al_roots al \<noteq> []"
proof -
  obtain t where "allowlist_new (pv_world env) roots revision default_allowlist_limits (pv_time env)
      = (Inr al, t)"
    using assms by (auto simp: new_allowlist_def prod_eq_iff)
  then show ?thesis
    by (auto simp: allowlist_new_def Let_def ret_def sort_key_Nil)
qed

lemma installs_roots:
  assumes "with_allowlist_roots env roots p = Inr q"
  shows "po_allowlist_roots q \<noteq> []"
    "unat (po_allowlist_revision q) = unat (po_allowlist_revision p) + 1"
  using assms
  by (auto simp: with_allowlist_roots_def bind_r_Inr_iff canonical_root_strings_def
      checked_add_Some_iff dest!: new_allowlist_fields traverse_r_length split: if_splits)

lemma verified_allowlist:
  assumes "verify_with_key env skill runtime key p = Inr v"
  shows "vp_policy_revision v = po_policy_revision p \<and>
    vp_allowlist_revision v = po_allowlist_revision p \<and>
    (po_allowlist_roots p \<noteq> [] \<longrightarrow> (\<exists>al. vp_allowlist v = Some al \<and> al_roots al \<noteq> []))"
  using assms
  by (auto simp: verify_with_key_def verify_allowlist_def bind_r_Inr_iff
      dest!: new_allowlist_fields split: if_splits)

lemma read_only_policy: "read_only (load_policy_document env)"
  unfolding load_policy_document_def
  by (intro read_only_intros) (auto intro!: read_only_intros split: sum.splits)

lemma lift_s_then: "andthen (lift_s r) f s = (case r of Inl e \<Rightarrow> (Inl e, s) | Inr x \<Rightarrow> f x s)"
  by (cases r) auto

lemma prepared:
  assumes "prepare_update env change (st, fs) = (Inr u, s)"
  shows "s = (st, fs) \<and> load_policy_document env (st, gs) = (Inr (pu_previous u), st, gs) \<and>
    change (pu_previous u) = Inr (pu_next u) \<and> is_ok (verify env None None (pu_next u))"
proof -
  obtain r s1 where load: "load_policy_document env (st, fs) = (r, s1)" by (metis surj_pair)
  have ro: "s1 = (st, fs)" "load_policy_document env (st, gs) = (r, st, gs)"
    using read_only_at [OF read_only_policy load, of gs] by simp_all
  show ?thesis
    using assms load ro
    by (auto simp: prepare_update_def lift_s_then is_ok_iff split: sum.splits)
qed

lemma committed:
  assumes run: "commit_policy_update_unlocked_with_key env u key (st, fs) = (res, st', fs')"
  shows "st' = st \<and> res \<noteq> Inr () \<or>
    st' = st(PolicyFile := Content (co_write (pv_codec env) (pu_next u))) \<and>
    load_policy_document env (st, gs) = (Inr (pu_previous u), st, gs) \<and>
    advances (pu_previous u) (pu_next u) \<and> is_ok (verify_with_key env None None key (pu_next u))"
proof -
  obtain r s1 where load: "load_policy_document env (st, fs) = (r, s1)" by (metis surj_pair)
  have ro: "s1 = (st, fs)" "load_policy_document env (st, gs) = (r, st, gs)"
    using read_only_at [OF read_only_policy load, of gs] by simp_all
  let ?bad = "st' = st \<and> res \<noteq> Inr ()"
  show ?thesis
  proof (cases ?bad)
    case False
    then have "r = Inr (pu_previous u)" "advances (pu_previous u) (pu_next u)"
      "is_ok (verify_with_key env None None key (pu_next u))"
      "write_document (pv_codec env) PolicyFile (pu_next u) (st, fs) = (res, st', fs')"
      using run load ro(1)
      by (auto simp: commit_policy_update_unlocked_with_key_def lift_s_then advances_def is_ok_iff
          ok_or_def split: sum.splits if_splits option.splits)
    with write_cases [of PolicyFile "co_write (pv_codec env) (pu_next u)" st fs res st' fs'] ro(2)
      False show ?thesis
      by (auto simp: write_document_def)
  qed simp
qed

lemma policy_reads_back:
  assumes "fits (pv_codec env) p" "st PolicyFile = Content (co_write (pv_codec env) p)"
  shows "load_policy_document env (st, gs) = (Inr p, st, gs)"
  using assms by (simp add: load_policy_document_def fits_def)

lemma stale_update_refused:
  assumes "load_policy_document env (st, gs) = (Inr p, st, gs)" "p \<noteq> pu_previous v"
  shows "commit_policy_update_unlocked_with_key env v key (st, gs) = (Inl PolicyConflict, st, gs)"
  using assms by (simp add: commit_policy_update_unlocked_with_key_def)

section \<open>Properties\<close>

text \<open>A commit that succeeds replaces exactly the document it was prepared against by a verified
  document of the next revision, and from then on no other update prepared against that predecessor
  can be committed.  A commit that fails leaves the old document or, once the file has been
  replaced, the new one; it never leaves a third.\<close>

theorem policy_updates_serialize:
  assumes run: "commit_policy_update_unlocked_with_key env u key (st, fs) = (res, st', fs')"
    and fits: "fits (pv_codec env) (pu_next u)"
  shows "(res = Inr () \<longrightarrow>
      load_policy_document env (st, gs) = (Inr (pu_previous u), st, gs) \<and>
      load_policy_document env (st', gs) = (Inr (pu_next u), st', gs) \<and>
      po_policy_revision (pu_previous u) < po_policy_revision (pu_next u) \<and>
      is_ok (verify_with_key env None None key (pu_next u)) \<and>
      (\<forall>v. pu_previous v = pu_previous u \<longrightarrow>
        commit_policy_update_unlocked_with_key env v key' (st', gs) =
          (Inl PolicyConflict, st', gs))) \<and>
    (load_policy_document env (st', gs) = (Inr (pu_next u), st', gs) \<or> st' = st)"
proof -
  consider "st' = st" "res \<noteq> Inr ()"
    | "st' PolicyFile = Content (co_write (pv_codec env) (pu_next u))"
      "load_policy_document env (st, gs) = (Inr (pu_previous u), st, gs)"
      "advances (pu_previous u) (pu_next u)"
      "is_ok (verify_with_key env None None key (pu_next u))"
    using committed [OF run, of gs] by auto
  then show ?thesis
  proof cases
    case 2
    have new: "load_policy_document env (st', gs) = (Inr (pu_next u), st', gs)"
      using policy_reads_back [of env "pu_next u" st' gs] fits 2(1) by simp
    have less: "po_policy_revision (pu_previous u) < po_policy_revision (pu_next u)"
      by (rule advances_strict [OF 2(3)])
    then have "pu_next u \<noteq> pu_previous u" by auto
    then have "\<forall>v. pu_previous v = pu_previous u \<longrightarrow>
        commit_policy_update_unlocked_with_key env v key' (st', gs) = (Inl PolicyConflict, st', gs)"
      using stale_update_refused [OF new] by simp
    with 2 new less show ?thesis by simp
  qed simp
qed

text \<open>An allowlist update that was prepared is committed when nothing else has changed the
  document and nothing fails; the document then holds the new roots at the next revisions.\<close>

theorem prepared_allowlist_installs:
  assumes prep: "prepare_allowlist_update env roots (st, fs) = (Inr u, s)"
    and fits: "fits (pv_codec env) (pu_next u)"
  shows "\<exists>st'. commit_policy_update_unlocked env u (st, []) = (Inr (), st', []) \<and>
    (\<forall>f. f \<noteq> PolicyFile \<longrightarrow> st' f = st f) \<and>
    (\<exists>v al. load_policy env None None (st', []) = (Inr (pu_next u, v), st', []) \<and>
      vp_allowlist v = Some al \<and> al_roots al \<noteq> [] \<and>
      unat (vp_allowlist_revision v) = unat (po_allowlist_revision (pu_previous u)) + 1 \<and>
      unat (vp_policy_revision v) = unat (po_policy_revision (pu_previous u)) + 1)"
proof -
  have p: "load_policy_document env (st, []) = (Inr (pu_previous u), st, [])"
    "with_allowlist_roots env roots (pu_previous u) = Inr (pu_next u)"
    using prepared [OF prep [unfolded prepare_allowlist_update_def]] by auto
  obtain v where v: "verify env None None (pu_next u) = Inr v"
    using prepared [OF prep [unfolded prepare_allowlist_update_def]] by (auto simp: is_ok_iff)
  have adv: "checked_add (po_policy_revision (pu_previous u)) 1 = Some (po_policy_revision (pu_next u))"
    using changes_advance(1) [OF p(2)] by (simp add: advances_def)
  let ?st = "st(PolicyFile := Content (co_write (pv_codec env) (pu_next u)))"
  have commit: "commit_policy_update_unlocked env u (st, []) = (Inr (), ?st, [])"
    using p(1) adv v
    by (simp add: commit_policy_update_unlocked_def commit_policy_update_unlocked_with_key_def
        lift_s_then verify_def write_document_def atomic_owner_write_def)
  have load: "load_policy env None None (?st, []) = (Inr (pu_next u, v), ?st, [])"
    using policy_reads_back [of env "pu_next u" ?st "[]"] fits v by (simp add: load_policy_def)
  have fields: "po_allowlist_roots (pu_next u) \<noteq> []"
    "unat (po_allowlist_revision (pu_next u)) = unat (po_allowlist_revision (pu_previous u)) + 1"
    using p(2) installs_roots by (blast, blast)
  then show ?thesis
    using commit load v adv verified_allowlist [OF v [unfolded verify_def]]
    by (intro exI [of _ ?st]) (auto simp: checked_add_Some_iff)
qed

section \<open>Samples\<close>

definition sample_next_policy :: local_policy where
  "sample_next_policy =
     \<lparr>po_version = 1, po_policy_revision = 2, po_allowlist_revision = 2,
      po_allowlist_roots = [''/r''], po_allowlist_roots_digest = Some ''sha256:d'',
      po_learning_bundle_root = None\<rparr>"

definition sample_policy_env :: policy_env where
  "sample_policy_env =
     \<lparr>pv_world = small_world, pv_time = 0, pv_to_vec = (\<lambda>_. []), pv_sha256_hex = (\<lambda>_. ''d''),
      pv_learning = (\<lambda>_ _. None), pv_trusted_key = [],
      pv_codec = \<lparr>co_write = (\<lambda>p. if p = sample_next_policy then [1] else [0]),
        co_read = (\<lambda>bs. if bs = [1] then Some sample_next_policy else None)\<rparr>\<rparr>"

definition sample_update :: prepared_update where
  "sample_update = \<lparr>pu_previous = default_local_policy, pu_next = sample_next_policy\<rparr>"

lemma sample_allowlist_new:
  "new_allowlist sample_policy_env [[RootDir, Normal ''r'']] 2 =
   Inr \<lparr>al_roots = [[RootDir, Normal ''r'']], al_root_identities = [(1, 5)],
     al_revision = 2, al_limits = default_allowlist_limits\<rparr>"
  by (simp add: new_allowlist_def sample_policy_env_def small_world_def meta_of_def
      allowlist_new_def check_def bind_a_def ret_def sys_def try_sys_def limits_ok_def
      default_allowlist_limits_def MAX_ALLOWLISTED_FILE_BYTES_def MAX_ALLOWLISTED_TOTAL_BYTES_def
      MAX_ALLOWLISTED_FILE_COUNT_def canonical_existing_directory_def reject_path_components_def
      is_absolute_def file_identity_def upt_rec Let_def)

lemma sample_texts:
  "path_of ''/r'' = [RootDir, Normal ''r'']" "path_to_str [RootDir, Normal ''r''] = Some ''/r''"
  by (simp_all add: path_of_def path_to_str_def Let_def List.map_filter_def valid_utf8_ascii)

lemma sample_digest:
  "al_roots al = [[RootDir, Normal ''r'']] \<Longrightarrow>
   canonical_root_strings al = Inr [''/r''] \<and> roots_digest sample_policy_env al = Inr ''sha256:d''"
  by (simp add: canonical_root_strings_def roots_digest_def sample_texts sample_policy_env_def)

lemma sample_verify: "is_ok (verify sample_policy_env None None sample_next_policy)"
  using sample_digest
  by (simp add: verify_def verify_with_key_def verify_allowlist_def verify_learning_def
      sample_next_policy_def sample_texts sample_allowlist_new MAX_ALLOWLIST_ROOTS_def)

lemma sample_change:
  "with_allowlist_roots sample_policy_env [[RootDir, Normal ''r'']] default_local_policy =
   Inr sample_next_policy"
  using sample_digest
  by (simp add: with_allowlist_roots_def default_local_policy_def checked_add_def
      sample_allowlist_new MAX_ALLOWLIST_ROOTS_def sample_next_policy_def)

lemma sample_prepare:
  "prepare_allowlist_update sample_policy_env [[RootDir, Normal ''r'']] (\<lambda>_. Absent, []) =
   (Inr sample_update, \<lambda>_. Absent, [])"
proof -
  have "is_ok (verify sample_policy_env None None default_local_policy)"
    by (simp add: verify_def verify_with_key_def verify_allowlist_def verify_learning_def
        default_local_policy_def MAX_ALLOWLIST_ROOTS_def)
  then show ?thesis
    using sample_verify sample_change
    by (auto simp: prepare_allowlist_update_def prepare_update_def load_policy_document_def
        lift_s_then sample_update_def is_ok_iff)
qed

lemma sample_fits: "fits (pv_codec sample_policy_env) (pu_next sample_update)"
  by (simp add: fits_def sample_policy_env_def sample_update_def MAX_CREDENTIAL_BYTES_def)

theorem prepared_allowlist_installs_witness:
  "\<exists>st'. commit_policy_update_unlocked sample_policy_env sample_update (\<lambda>_. Absent, []) =
     (Inr (), st', [])"
  using prepared_allowlist_installs [OF sample_prepare sample_fits] by blast

theorem policy_updates_serialize_witness:
  "\<exists>st'. commit_policy_update_unlocked_with_key sample_policy_env sample_update [] (\<lambda>_. Absent, []) =
      (Inr (), st', []) \<and>
    commit_policy_update_unlocked_with_key sample_policy_env sample_update [] (st', []) =
      (Inl PolicyConflict, st', [])"
proof -
  let ?u = sample_update
  have adv: "checked_add (po_policy_revision (pu_previous ?u)) 1 = Some (po_policy_revision (pu_next ?u))"
    by (simp add: sample_update_def default_local_policy_def sample_next_policy_def checked_add_def)
  have load: "load_policy_document sample_policy_env (\<lambda>_. Absent, []) =
      (Inr (pu_previous ?u), \<lambda>_. Absent, [])"
    by (simp add: load_policy_document_def sample_update_def)
  obtain v where v: "verify_with_key sample_policy_env None None [] (pu_next ?u) = Inr v"
    using sample_verify by (auto simp: verify_def sample_policy_env_def sample_update_def is_ok_iff)
  obtain st' where run: "commit_policy_update_unlocked_with_key sample_policy_env ?u []
      (\<lambda>_. Absent, []) = (Inr (), st', [])"
    using adv load v
    by (simp add: commit_policy_update_unlocked_with_key_def lift_s_then write_document_def
        atomic_owner_write_def)
  from policy_updates_serialize [OF run sample_fits, of "[]" "[]"] run show ?thesis by blast
qed

end
