(* ===== verification/Device_Arguments.thy ===== *)
theory Device_Arguments
  imports Device_Types
begin

text \<open>
  The command line of the device client and the errors its commands end with,
  \<open>crates/device-client/src/main.rs\<close>.
\<close>

section \<open>Errors of commands\<close>

text \<open>\<open>Box<dyn Error>\<close> carries an error of the store, a text, an error of the system, or the error of
  text that is not UTF-8.\<close>

datatype command_error = Credential credential_error | Text string | System io_error | NotUtf8

definition top_level_error_line :: "command_error \<Rightarrow> string" where
  "top_level_error_line e = ''ego-browser-device error='' @
     (case e of Credential c \<Rightarrow> credential_log_code c | _ \<Rightarrow> ''operation_failed'')"

abbreviation need :: "string \<Rightarrow> 'a option \<Rightarrow> command_error + 'a" where
  "need message v \<equiv> ok_or (Text message) v"

abbreviation lift_c :: "credential_error + 'a \<Rightarrow> command_error + 'a" where
  "lift_c r \<equiv> map_err Credential r"

definition is_some_and :: "'a option \<Rightarrow> ('a \<Rightarrow> bool) \<Rightarrow> bool" where
  "is_some_and v p \<longleftrightarrow> (case v of None \<Rightarrow> False | Some x \<Rightarrow> p x)"

definition or_else :: "'a option \<Rightarrow> 'a option \<Rightarrow> 'a option" where
  "or_else a b = (case a of None \<Rightarrow> b | Some x \<Rightarrow> Some x)"

lemma or_else_simps [simp]: "or_else None b = b" "or_else (Some x) b = Some x"
  by (simp_all add: or_else_def)

section \<open>Options\<close>

text \<open>An option is followed by its value; the value may not look like an option.\<close>

fun option_from :: "string \<Rightarrow> string option \<Rightarrow> string list \<Rightarrow> command_error + string option" where
  "option_from name result [] = Inr result"
| "option_from name result (v # rest) =
     (if v \<noteq> name then option_from name result rest
      else if result \<noteq> None then Inl (Text (name @ '' may only be supplied once''))
      else (case rest of
          candidate # _ \<Rightarrow>
            if starts_with ''-'' candidate then Inl (Text (name @ '' requires a value''))
            else option_from name (Some candidate) rest
        | [] \<Rightarrow> Inl (Text (name @ '' requires a value''))))"

definition cmd_option :: "string list \<Rightarrow> string \<Rightarrow> command_error + string option" where
  "cmd_option args name = option_from name None args"

definition has_option :: "string list \<Rightarrow> string \<Rightarrow> bool" where
  "has_option args name \<longleftrightarrow> name \<in> set args"

lemma option_from_Some:
  "option_from name result args = Inr (Some v) \<Longrightarrow> result = Some v \<or>
   (result = None \<and> (\<exists>pre post. args = pre @ name # v # post) \<and> \<not> starts_with ''-'' v)"
proof (induction name result args rule: option_from.induct)
  case (2 name result x rest)
  show ?case
  proof (cases "x = name")
    case False
    with 2 have "result = Some v \<or>
        (result = None \<and> (\<exists>pre post. rest = pre @ name # v # post) \<and> \<not> starts_with ''-'' v)"
      by simp
    then show ?thesis by (metis append_Cons)
  next
    case True
    with 2(3) obtain c post where c: "result = None" "rest = c # post" "\<not> starts_with ''-'' c"
      "option_from name (Some c) rest = Inr (Some v)"
      by (auto split: if_splits list.splits)
    have "c = v" using "2.IH"(2) c True by auto
    with c True show ?thesis by (metis append_Nil)
  qed
qed simp

text \<open>An option that is read was supplied exactly where its name stands.\<close>

lemma option_read:
  assumes "cmd_option args name = Inr (Some v)"
  shows "\<exists>pre post. args = pre @ name # v # post" and "\<not> starts_with ''-'' v"
  using option_from_Some [OF assms [unfolded cmd_option_def]] by auto

end
