(* ===== verification/Registration_Response.thy ===== *)
theory Registration_Response
  imports Identity_Rotation Local_Policy Device_Arguments
begin

text \<open>
  What the device client accepts from the control plane when it registers or rotates a device, and
  what it submits: \<open>crates/device-client/src/registration.rs\<close>.  The parser of RFC 3339 timestamps is
  the parameter \<open>timestamp\<close>; \<open>now\<close> is the clock.
\<close>

section \<open>Fields\<close>

definition str_field :: "json_object \<Rightarrow> string \<Rightarrow> string option" where
  "str_field o' k = Option.bind (map_of o' k) as_str"

definition u64_field :: "json_object \<Rightarrow> string \<Rightarrow> u64 option" where
  "u64_field o' k = Option.bind (map_of o' k) as_u64"

text \<open>A field that may be missing and, when it is present, has one value.\<close>

definition absent_or :: "json_object \<Rightarrow> string \<Rightarrow> (json \<Rightarrow> bool) \<Rightarrow> bool" where
  "absent_or o' k p \<longleftrightarrow> (case map_of o' k of None \<Rightarrow> True | Some v \<Rightarrow> p v)"

definition explicit_or_legacy ::
  "(json_object \<Rightarrow> string \<Rightarrow> 'a option) \<Rightarrow> json_object \<Rightarrow> string \<Rightarrow> string \<Rightarrow> 'a option" where
  "explicit_or_legacy get o' preferred compatibility =
     (case (get o' preferred, get o' compatibility) of
        (Some left, Some right) \<Rightarrow> if left \<noteq> right then None else Some left
      | (Some v, None) \<Rightarrow> Some v
      | (None, r) \<Rightarrow> r)"

definition explicit_or_legacy_u64 :: "json_object \<Rightarrow> string \<Rightarrow> string \<Rightarrow> u64 option" where
  "explicit_or_legacy_u64 = explicit_or_legacy u64_field"

definition explicit_or_legacy_string :: "json_object \<Rightarrow> string \<Rightarrow> string \<Rightarrow> string option" where
  "explicit_or_legacy_string = explicit_or_legacy str_field"

section \<open>What is submitted\<close>

definition policy_digest :: "store_env \<Rightarrow> (json \<Rightarrow> string) \<Rightarrow> verified_local_policy \<Rightarrow> string" where
  "policy_digest env to_text p = st_sha256_hex env (to_text (JObject (btree_of
     [(''allowlist_revision'', JNumber (PosInt (vp_allowlist_revision p))),
      (''allowlist_roots_digest'', JOptString (vp_allowlist_roots_digest p)),
      (''learning_bundle_digest'', JOptString (policy_learning_digest p))])))"

fun join_lines :: "string list \<Rightarrow> string" where
  "join_lines [] = []"
| "join_lines [l] = l"
| "join_lines (l # ls) = l @ [CHR 0x0A] @ join_lines ls"

definition capability_digest :: "store_env \<Rightarrow> verified_local_policy \<Rightarrow> string" where
  "capability_digest env p = st_sha256_hex env (join_lines (sort (policy_capabilities p)))"

text \<open>\<open>version\<close> is the version of the package, \<open>runtime\<close> that of the local runtime.\<close>

definition payload_fields ::
  "store_env \<Rightarrow> (json \<Rightarrow> string) \<Rightarrow> string \<Rightarrow> identity \<Rightarrow> string \<Rightarrow> verified_local_policy \<Rightarrow> string \<Rightarrow>
     string \<Rightarrow> json_object" where
  "payload_fields env to_text version i runtime p certificate mode =
     [(''device_id'', JString (ik_device_id i)),
      (''public_key'', JString (public_key_b64 env i)),
      (''encryption_public_key'', JString (encryption_public_key_b64 env i)),
      (''signing_public_key'', JString (public_key_b64 env i)),
      (''device_generation'', JNumber (PosInt (ik_generation i))),
      (''generation'', JNumber (PosInt (ik_generation i))),
      (''release_profile'', JString (ik_release_profile i)),
      (''credential_profile'', JString (ik_credential_profile i)),
      (''enrollment_mode'', JString mode),
      (''platform'', JString ''macos''),
      (''bridge_protocol_version'', JString PROTOCOL_VERSION),
      (''bridge_version'', JString version),
      (''local_ego_browser_runtime_version'', JString runtime),
      (''ego_lite_runtime_version'', JString runtime),
      (''skill_version'', JString SUPPORTED_SKILL_VERSION),
      (''signer_certificate_sha256'', JString certificate),
      (''allowlist_revision'', JNumber (PosInt (vp_allowlist_revision p))),
      (''allowlist_roots_digest'', JOptString (vp_allowlist_roots_digest p)),
      (''learning_bundle_digest'', JOptString (policy_learning_digest p)),
      (''capabilities'', JArray (map JString (policy_capabilities p))),
      (''policy_digest'', JString (policy_digest env to_text p)),
      (''capability_digest'', JString (capability_digest env p))]"

definition registration_payload ::
  "store_env \<Rightarrow> (json \<Rightarrow> string) \<Rightarrow> string \<Rightarrow> identity \<Rightarrow> string \<Rightarrow> verified_local_policy \<Rightarrow> string \<Rightarrow>
     string \<Rightarrow> json" where
  "registration_payload env to_text version i runtime p certificate mode =
     JObject (btree_of (payload_fields env to_text version i runtime p certificate mode))"

section \<open>What is accepted\<close>

definition is_string :: "json \<Rightarrow> bool" where
  "is_string v \<longleftrightarrow> as_str v \<noteq> None"

definition string_array_members_match :: "json option \<Rightarrow> json option \<Rightarrow> bool" where
  "string_array_members_match actual expected =
     (case (Option.bind actual as_array, Option.bind expected as_array) of
        (Some xs, Some ys) \<Rightarrow>
          list_all is_string xs \<and> list_all is_string ys
          \<and> sort (List.map_filter as_str xs) = sort (List.map_filter as_str ys)
      | _ \<Rightarrow> False)"

definition policy_fields :: "string list" where
  "policy_fields =
     [''platform'', ''bridge_protocol_version'', ''bridge_version'',
      ''local_ego_browser_runtime_version'', ''ego_lite_runtime_version'', ''skill_version'',
      ''allowlist_revision'', ''allowlist_roots_digest'', ''learning_bundle_digest'',
      ''policy_digest'', ''capability_digest'']"

definition registration_policy_matches :: "json_object \<Rightarrow> json \<Rightarrow> bool \<Rightarrow> bool" where
  "registration_policy_matches response submitted require_explicit =
     (case as_object submitted of
        None \<Rightarrow> False
      | Some sent \<Rightarrow>
          list_all (\<lambda>f. (require_explicit \<longrightarrow> map_of response f \<noteq> None \<and> map_of sent f \<noteq> None)
            \<and> map_of response f = map_of sent f) policy_fields
          \<and> (require_explicit \<longrightarrow> map_of response ''capabilities'' \<noteq> None
               \<and> map_of sent ''capabilities'' \<noteq> None)
          \<and> string_array_members_match (map_of response ''capabilities'')
               (map_of sent ''capabilities''))"

text \<open>A field by its exact name, or under a legacy alias for the lenient reader.\<close>

definition named_str :: "bool \<Rightarrow> json_object \<Rightarrow> string \<Rightarrow> string \<Rightarrow> string option" where
  "named_str strict o' k legacy =
     (if strict then str_field o' k else explicit_or_legacy_string o' k legacy)"

definition named_u64 :: "bool \<Rightarrow> json_object \<Rightarrow> string \<Rightarrow> string \<Rightarrow> u64 option" where
  "named_u64 strict o' k legacy =
     (if strict then u64_field o' k else explicit_or_legacy_u64 o' k legacy)"

definition exact_identity ::
  "store_env \<Rightarrow> bool \<Rightarrow> json_object \<Rightarrow> string \<Rightarrow> identity \<Rightarrow> string \<Rightarrow> json \<Rightarrow>
     string \<Rightarrow> string \<Rightarrow> u64 \<Rightarrow> bool" where
  "exact_identity env strict data server i certificate submitted device_id public_key generation \<longleftrightarrow>
     device_id = ik_device_id i \<and> generation = ik_generation i
     \<and> str_field data ''status'' = Some ''active''
     \<and> public_key = public_key_b64 env i
     \<and> (if strict
        then absent_or data ''id'' (\<lambda>v. as_str v = Some (ik_device_id i))
             \<and> absent_or data ''generation'' (\<lambda>v. as_u64 v = Some (ik_generation i))
             \<and> absent_or data ''public_key'' (\<lambda>v. as_str v = Some (public_key_b64 env i))
        else explicit_or_legacy_u64 data ''device_generation'' ''generation'' = Some (ik_generation i)
             \<and> explicit_or_legacy_string data ''public_key'' ''signing_public_key''
                 = Some (public_key_b64 env i))
     \<and> str_field data ''encryption_public_key'' = Some (encryption_public_key_b64 env i)
     \<and> str_field data ''release_profile'' = Some (ik_release_profile i)
     \<and> str_field data ''credential_profile'' = Some (ik_credential_profile i)
     \<and> str_field data ''signer_certificate_sha256'' = Some certificate
     \<and> (if strict then str_field data ''server_origin'' = Some server
        else absent_or data ''server_origin'' (\<lambda>v. as_str v = Some server))
     \<and> registration_policy_matches data submitted strict"

definition issued_matches :: "bool \<Rightarrow> json_object \<Rightarrow> identity \<Rightarrow> u64 \<Rightarrow> bool" where
  "issued_matches strict issued i revision \<longleftrightarrow>
     str_field issued ''ego_browser_device_id'' = Some (ik_device_id i)
     \<and> str_field issued ''credential_profile'' = Some (ik_credential_profile i)
     \<and> (if strict
        then u64_field issued ''device_generation'' = Some (ik_generation i)
             \<and> absent_or issued ''generation'' (\<lambda>v. as_u64 v = Some (ik_generation i))
             \<and> absent_or issued ''revision'' (\<lambda>v. as_u64 v = Some revision)
        else explicit_or_legacy_u64 issued ''device_generation'' ''generation''
               = Some (ik_generation i))
     \<and> str_field issued ''token_type'' = Some ''bearer''
     \<and> (if strict then str_field issued ''credential_scope'' = Some ''device''
        else absent_or issued ''credential_scope'' (\<lambda>v. as_str v = Some ''device''))"

definition abs_diff :: "u64 \<Rightarrow> u64 \<Rightarrow> u64" where
  "abs_diff a b = (if a \<le> b then b - a else a - b)"

definition parse_credential_expiry ::
  "(string \<Rightarrow> int option) \<Rightarrow> u64 \<Rightarrow> json_object \<Rightarrow> u64 \<Rightarrow> bool \<Rightarrow> command_error + u64" where
  "parse_credential_expiry timestamp now issued expires_in require_explicit =
     (let explicit = str_field issued ''credential_expires_at'';
          legacy = str_field issued ''expires_at'' in
      if require_explicit \<and> explicit = None
      then Inl (Text ''registration response did not include credential_expires_at'')
      else if explicit \<noteq> None \<and> legacy \<noteq> None \<and> explicit \<noteq> legacy
      then Inl (Text ''credential expiry fields disagree'')
      else (case (if explicit \<noteq> None then explicit else legacy) of
        None \<Rightarrow> Inr (sat_add now expires_in)
      | Some v \<Rightarrow>
          bind_r (need ''registration response credential expiry is invalid'' (timestamp v)) (\<lambda>ts.
            if ts \<le> 0 then Inl (Text ''registration response credential expiry is invalid'')
            else let t = of_int ts in
              if t \<le> now then Inl (Text ''registration response credential is already expired'')
              else if abs_diff t (sat_add now expires_in) > 5
              then Inl (Text ''registration response credential expiry does not match expires_in'')
              else Inr t)))"

definition registration_data :: "json \<Rightarrow> command_error + json_object" where
  "registration_data response =
     need ''registration response did not include device data'' (data_object response)"

definition credential_from_registration_response_with_origin ::
  "store_env \<Rightarrow> (string \<Rightarrow> int option) \<Rightarrow> u64 \<Rightarrow> json \<Rightarrow> string \<Rightarrow> identity \<Rightarrow> string \<Rightarrow> json \<Rightarrow>
     u64 option \<Rightarrow> bool \<Rightarrow> command_error + community_credential" where
  "credential_from_registration_response_with_origin env timestamp now response server i certificate
     submitted previous_revision strict =
     bind_r (registration_data response) (\<lambda>data.
     bind_r (need ''registration response did not include a device ID''
        (named_str strict data ''device_id'' ''id'')) (\<lambda>device_id.
     bind_r (need ''registration response did not include a signing public key''
        (named_str strict data ''signing_public_key'' ''public_key'')) (\<lambda>public_key.
     bind_r (need ''registration response did not include a device generation''
        (named_u64 strict data ''device_generation'' ''generation'')) (\<lambda>generation.
       if \<not> exact_identity env strict data server i certificate submitted device_id public_key
            generation
       then Inl (Credential CompatibilityMismatch)
       else
     bind_r (need ''registration response did not include an ego-browser credential''
        (Option.bind (map_of data ''credential'') as_object)) (\<lambda>issued.
     bind_r (need ''registration response did not include a credential revision''
        (named_u64 strict issued ''credential_revision'' ''revision'')) (\<lambda>revision.
       if revision = 0 \<or> is_some_and previous_revision (\<lambda>previous. revision \<le> previous)
       then Inl (Text ''registration response did not advance the credential revision'')
       else if \<not> issued_matches strict issued i revision
       then Inl (Credential CompatibilityMismatch)
       else
     bind_r (need ''registration response did not include credential expiry''
        (filter_opt (\<lambda>v. v > 0) (u64_field issued ''expires_in''))) (\<lambda>expires_in.
     bind_r (parse_credential_expiry timestamp now issued expires_in strict) (\<lambda>expires_at.
     bind_r (need ''registration response did not include a credential token''
        (str_field issued ''access_token'')) (\<lambda>token.
     bind_r (need ''registration response did not include a credential ID'' (str_field issued ''id''))
       (\<lambda>id.
       Inr \<lparr>cc_version = 1, cc_device_id = ik_device_id i, cc_server_url = server, cc_token = token,
            cc_credential_id = Some id, cc_release_profile = ik_release_profile i,
            cc_credential_profile = ik_credential_profile i, cc_expires_at_unix = expires_at,
            cc_revision = revision\<rparr>))))))))))"

definition credential_from_registration_response_strict ::
  "store_env \<Rightarrow> (string \<Rightarrow> int option) \<Rightarrow> u64 \<Rightarrow> json \<Rightarrow> string \<Rightarrow> identity \<Rightarrow> string \<Rightarrow> json \<Rightarrow>
     u64 option \<Rightarrow> command_error + community_credential" where
  "credential_from_registration_response_strict env timestamp now response server i certificate
     submitted previous =
     credential_from_registration_response_with_origin env timestamp now response server i certificate
       submitted previous True"

definition credential_from_registration_response ::
  "store_env \<Rightarrow> (string \<Rightarrow> int option) \<Rightarrow> u64 \<Rightarrow> json \<Rightarrow> string \<Rightarrow> identity \<Rightarrow> string \<Rightarrow> json \<Rightarrow>
     u64 option \<Rightarrow> command_error + community_credential" where
  "credential_from_registration_response env timestamp now response server i certificate
     submitted previous =
     credential_from_registration_response_with_origin env timestamp now response server i certificate
       submitted previous False"

section \<open>Confirmation of an allowlist\<close>

definition confirmation_exact ::
  "json_object \<Rightarrow> string \<Rightarrow> string \<Rightarrow> u64 \<Rightarrow> verified_local_policy \<Rightarrow> bool" where
  "confirmation_exact data binding_id device_id next_generation p \<longleftrightarrow>
     str_field data ''id'' = Some binding_id
     \<and> str_field data ''ego_browser_device_id'' = Some device_id
     \<and> u64_field data ''generation'' = Some next_generation
     \<and> str_field data ''status'' = Some ''paused''
     \<and> str_field data ''stop_reason'' = Some ''allowlist_changed''
     \<and> str_field data ''authorization_mode'' = Some ''ego_browser_script_full_trust''
     \<and> u64_field data ''allowlist_revision'' = Some (vp_allowlist_revision p)
     \<and> map_of data ''allowlist_roots_digest'' = Some (JOptString (vp_allowlist_roots_digest p))
     \<and> map_of data ''learning_bundle_digest'' = Some (JOptString (policy_learning_digest p))
     \<and> string_array_members_match (map_of data ''capabilities'')
         (Some (JArray (map JString (policy_capabilities p))))"

definition confirmed_allowlist_generation ::
  "json \<Rightarrow> string \<Rightarrow> string \<Rightarrow> u64 \<Rightarrow> verified_local_policy \<Rightarrow> string option \<Rightarrow>
     command_error + u64" where
  "confirmed_allowlist_generation response binding_id device_id generation p expected_task_space =
     bind_r (need ''allowlist confirmation did not include binding data'' (data_object response))
       (\<lambda>data.
     bind_r (need ''allowlist confirmation generation is exhausted'' (checked_add generation 1))
       (\<lambda>next_generation.
     bind_r (need ''allowlist confirmation did not include a Task Space label''
        (str_field data ''task_space_label'')) (\<lambda>task_space.
       if \<not> (confirmation_exact data binding_id device_id next_generation p
             \<and> (expected_task_space = None \<or> expected_task_space = Some task_space))
       then Inl (Text ''allowlist confirmation did not match the submitted policy'')
       else Inr next_generation)))"

section \<open>Checks on what is stored\<close>

definition validate_replayed_registration_credential ::
  "community_credential option \<Rightarrow> community_credential \<Rightarrow> credential_error + unit" where
  "validate_replayed_registration_credential previous candidate =
     (case previous of
        None \<Rightarrow> Inr ()
      | Some p \<Rightarrow>
          if cc_revision candidate < cc_revision p
             \<or> cc_revision candidate = cc_revision p \<and> candidate \<noteq> p
          then Inl CompatibilityMismatch else Inr ())"

definition validate_requested_origin ::
  "string \<Rightarrow> community_credential option \<Rightarrow> stored_identity_metadata option \<Rightarrow> credential_error + unit"
  where
  "validate_requested_origin server credential metadata =
     (if is_some_and credential (\<lambda>c. cc_server_url c \<noteq> server)
         \<or> is_some_and metadata (\<lambda>m. im_server_url m \<noteq> server)
      then Inl IdentityOriginConflict else Inr ())"

definition validate_requested_identity_context ::
  "string \<Rightarrow> string \<Rightarrow> string \<Rightarrow> community_credential option \<Rightarrow> stored_identity_metadata option \<Rightarrow>
     credential_error + unit" where
  "validate_requested_identity_context server release_profile credential_profile credential metadata =
     bind_r (validate_requested_origin server credential metadata) (\<lambda>_.
       if is_some_and credential (\<lambda>c. cc_release_profile c \<noteq> release_profile
               \<or> cc_credential_profile c \<noteq> credential_profile)
          \<or> is_some_and metadata (\<lambda>m. im_release_profile m \<noteq> release_profile
               \<or> im_credential_profile m \<noteq> credential_profile)
       then Inl CompatibilityMismatch else Inr ())"

definition credential_matches_identity ::
  "community_credential \<Rightarrow> identity \<Rightarrow> string \<Rightarrow> bool" where
  "credential_matches_identity c i server \<longleftrightarrow>
     cc_device_id c = ik_device_id i \<and> cc_server_url c = server
     \<and> cc_release_profile c = ik_release_profile i
     \<and> cc_credential_profile c = ik_credential_profile i \<and> cc_revision c > 0"

definition credential_is_fresh :: "community_credential \<Rightarrow> u64 \<Rightarrow> bool" where
  "credential_is_fresh c now \<longleftrightarrow> cc_expires_at_unix c > sat_add now 300"

definition validate_pending_identity ::
  "store_env \<Rightarrow> pending_registration \<Rightarrow> identity \<Rightarrow> credential_error + unit" where
  "validate_pending_identity env p i =
     (if pn_device_id p \<noteq> ik_device_id i \<or> pn_device_generation p \<noteq> ik_generation i
         \<or> pn_release_profile p \<noteq> ik_release_profile i
         \<or> pn_credential_profile p \<noteq> ik_credential_profile i
         \<or> pn_signing_public_key_sha256 p \<noteq> signing_digest env i
         \<or> pn_encryption_public_key_sha256 p \<noteq> encryption_digest env i
      then Inl Malformed else Inr ())"

definition trim_line_ends :: "string \<Rightarrow> string" where
  "trim_line_ends s = rev (dropWhile (\<lambda>c. c = CHR 0x0A \<or> c = CHR 0x0D) (rev s))"

definition normalize_stdin_token :: "string \<Rightarrow> command_error + string" where
  "normalize_stdin_token raw =
     (let token = trim_line_ends raw in
      if token = [] then Inl (Text ''registration token from stdin is empty'')
      else if length token > TOKEN_MAX_BYTES
      then Inl (Text ''registration token from stdin is too long'')
      else Inr token)"

definition map_local_policy_error :: "credential_error \<Rightarrow> credential_error" where
  "map_local_policy_error e =
     (if e \<in> {PolicyInvalid, LearningBundleInvalid, UnsupportedCredentialProfile}
      then CompatibilityMismatch else e)"

end
