(* ===== verification/Device_Api.thy ===== *)
theory Device_Api
  imports Registration_Response Pop
begin

text \<open>
  The control-plane client of a device, \<open>crates/device-client/src/api.rs\<close> and \<open>identity.rs\<close>.  An
  operation sends requests one after the other; what each is answered may depend on everything sent
  before.  The HTTP client, base64, the Ed25519 signature and the host of a URL are parameters.
\<close>

section \<open>Requests and answers\<close>

record http_request =
  hr_method :: string
  hr_url :: string
  hr_token :: string
  hr_body :: "json option"
  hr_idempotency_key :: "string option"

text \<open>An answer is a status with a body, which may not be JSON; \<open>None\<close> is a request that failed.\<close>

record api_env =
  ap_store :: store_env
  ap_answer :: "http_request list \<Rightarrow> http_request \<Rightarrow> (u16 \<times> json option) option"
  ap_client :: "credential_error + unit"
  ap_decode :: "string \<Rightarrow> bytes option"
  ap_host :: "string \<Rightarrow> string option"
  ap_sign :: "bytes \<Rightarrow> bytes \<Rightarrow> string"
  ap_sha256 :: "bytes \<Rightarrow> bytes"
  ap_to_vec :: "json \<Rightarrow> bytes"

type_synonym 'a api = "http_request list \<Rightarrow> (credential_error + 'a) \<times> http_request list"

definition api_give :: "'a \<Rightarrow> 'a api" where "api_give x = (\<lambda>log. (Inr x, log))"
definition api_lift :: "credential_error + 'a \<Rightarrow> 'a api" where "api_lift r = (\<lambda>log. (r, log))"
definition api_then :: "'a api \<Rightarrow> ('a \<Rightarrow> 'b api) \<Rightarrow> 'b api" where
  "api_then m f = (\<lambda>log. case m log of (Inl e, log) \<Rightarrow> (Inl e, log) | (Inr x, log) \<Rightarrow> f x log)"

lemma api_simps [simp]:
  "api_give x log = (Inr x, log)" "api_lift r log = (r, log)"
  "api_then m f log = (case m log of (Inl e, log) \<Rightarrow> (Inl e, log) | (Inr x, log) \<Rightarrow> f x log)"
  by (simp_all add: api_give_def api_lift_def api_then_def)

definition error_code :: "json \<Rightarrow> string option" where
  "error_code body = filter_opt (\<lambda>v. v \<noteq> [] \<and> length v \<le> 96)
     (Option.bind (Option.bind (json_get body ''error'') (\<lambda>e. json_get e ''code'')) as_str)"

definition decode_response :: "u16 \<Rightarrow> json option \<Rightarrow> credential_error + json" where
  "decode_response status body =
     bind_r (ok_or Network body) (\<lambda>body.
       if \<not> (200 \<le> status \<and> status \<le> 299)
       then (case error_code body of
           Some code \<Rightarrow> Inl (ApiCode status code)
         | None \<Rightarrow> Inl (Api status))
       else Inr body)"

definition send :: "api_env \<Rightarrow> http_request \<Rightarrow> json api" where
  "send env r = (\<lambda>log.
     (case ap_answer env log r of
        None \<Rightarrow> Inl Network
      | Some (status, body) \<Rightarrow> decode_response status body, log @ [r]))"

section \<open>Clients\<close>

record device_client =
  dc_base_url :: string
  dc_token :: string
  dc_identity :: "identity option"

definition client_new :: "api_env \<Rightarrow> community_credential \<Rightarrow> credential_error + device_client" where
  "client_new env c =
     bind_r (canonical_server_url (st_url (ap_store env)) (cc_server_url c)) (\<lambda>base_url.
       if base_url \<noteq> cc_server_url c then Inl Malformed
       else bind_r (ap_client env) (\<lambda>_.
         Inr \<lparr>dc_base_url = base_url, dc_token = cc_token c, dc_identity = None\<rparr>))"

definition client_with_identity ::
  "api_env \<Rightarrow> community_credential \<Rightarrow> identity \<Rightarrow> credential_error + device_client" where
  "client_with_identity env c i =
     bind_r (client_new env c) (\<lambda>client.
       if ik_device_id i \<noteq> cc_device_id c \<or> ik_release_profile i \<noteq> cc_release_profile c
          \<or> ik_credential_profile i \<noteq> cc_credential_profile c
       then Inl Malformed else Inr (client\<lparr>dc_identity := Some i\<rparr>))"

definition client_with_user_token ::
  "api_env \<Rightarrow> string \<Rightarrow> string \<Rightarrow> identity \<Rightarrow> credential_error + device_client" where
  "client_with_user_token env server_url user_token i =
     bind_r (canonical_server_url (st_url (ap_store env)) server_url) (\<lambda>base_url.
       if base_url \<noteq> server_url \<or> user_token = [] \<or> length user_token > TOKEN_MAX_BYTES
          \<or> \<not> visible_token user_token
       then Inl Malformed
       else bind_r (ap_client env) (\<lambda>_.
         Inr \<lparr>dc_base_url = base_url, dc_token = user_token, dc_identity = Some i\<rparr>))"

definition client_identity :: "device_client \<Rightarrow> identity api" where
  "client_identity client = api_lift (ok_or Malformed (dc_identity client))"

section \<open>Transport\<close>

definition api_get :: "api_env \<Rightarrow> device_client \<Rightarrow> string \<Rightarrow> json api" where
  "api_get env client p = send env
     \<lparr>hr_method = ''GET'', hr_url = dc_base_url client @ p, hr_token = dc_token client,
      hr_body = None, hr_idempotency_key = None\<rparr>"

definition post_with_idempotency ::
  "api_env \<Rightarrow> device_client \<Rightarrow> string \<Rightarrow> json \<Rightarrow> string option \<Rightarrow> json api" where
  "post_with_idempotency env client p payload key = send env
     \<lparr>hr_method = ''POST'', hr_url = dc_base_url client @ p, hr_token = dc_token client,
      hr_body = Some payload, hr_idempotency_key = key\<rparr>"

definition api_post :: "api_env \<Rightarrow> device_client \<Rightarrow> string \<Rightarrow> json \<Rightarrow> json api" where
  "api_post env client p payload = post_with_idempotency env client p payload None"

section \<open>Proofs of possession\<close>

definition proof_context ::
  "identity \<Rightarrow> string \<Rightarrow> u64 \<Rightarrow> string option \<Rightarrow> string \<Rightarrow> device_proof_context" where
  "proof_context i operation generation binding_id host =
     \<lparr>dp_operation = operation, dp_device_id = ik_device_id i,
      dp_device_generation = ik_generation i, dp_operation_generation = generation,
      dp_binding_id = binding_id, dp_release_profile = ik_release_profile i,
      dp_credential_profile = ik_credential_profile i, dp_server_host = host\<rparr>"

definition sign_request ::
  "api_env \<Rightarrow> identity \<Rightarrow> string \<Rightarrow> u64 \<Rightarrow> string option \<Rightarrow> bytes \<Rightarrow> string \<Rightarrow> json \<Rightarrow>
     credential_error + string" where
  "sign_request env i operation generation binding_id challenge host payload =
     bind_r (map_err (\<lambda>_. Malformed) (device_proof_message (ap_sha256 env) (ap_to_vec env)
        (proof_context i operation generation binding_id host) challenge payload))
       (\<lambda>message. Inr (ap_sign env (ik_signing_key i) message))"

text \<open>\<open>valid_key\<close> accepts the 32 bytes of a public key that are a point of the curve.\<close>

definition verify_request ::
  "api_env \<Rightarrow> (bytes \<Rightarrow> bool) \<Rightarrow> (bytes \<Rightarrow> bytes \<Rightarrow> bytes \<Rightarrow> bool) \<Rightarrow> device_proof_context \<Rightarrow> bytes \<Rightarrow>
     json \<Rightarrow> string \<Rightarrow> string \<Rightarrow> bool" where
  "verify_request env valid_key verify_strict context challenge payload public_key signature =
     (case filter_opt (\<lambda>k. length k = 32) (ap_decode env public_key) of
        None \<Rightarrow> False
      | Some key \<Rightarrow>
          if \<not> valid_key key then False
          else (case filter_opt (\<lambda>s. length s = 64) (ap_decode env signature) of
            None \<Rightarrow> False
          | Some signature \<Rightarrow>
              (case device_proof_message (ap_sha256 env) (ap_to_vec env) context challenge payload of
                 Inl _ \<Rightarrow> False
               | Inr message \<Rightarrow> verify_strict key message signature)))"

definition challenge_fields ::
  "identity \<Rightarrow> u64 \<Rightarrow> string \<Rightarrow> string option \<Rightarrow> json_object" where
  "challenge_fields i generation operation binding_id =
     [(''operation'', JString operation), (''ego_browser_device_id'', JString (ik_device_id i)),
      (''generation'', JNumber (PosInt generation)), (''binding_id'', JOptString binding_id)]
     @ (if operation \<notin> {''register_device'', ''revoke_device''}
        then [(''device_generation'', JNumber (PosInt (ik_generation i))),
              (''operation_generation'', JNumber (PosInt generation))] else [])"

definition insert_field :: "string \<Rightarrow> json \<Rightarrow> json_object \<Rightarrow> json_object" where
  "insert_field k v o' = btree_insert k v o'"

text \<open>The signed payload; a client without an identity leaves the payload as it is.\<close>

definition add_proof_for_generation ::
  "api_env \<Rightarrow> device_client \<Rightarrow> json \<Rightarrow> u64 \<Rightarrow> string \<Rightarrow> string option \<Rightarrow> json api" where
  "add_proof_for_generation env client payload generation operation binding_id =
     (case dc_identity client of
        None \<Rightarrow> api_give payload
      | Some i \<Rightarrow>
          if generation = 0 then api_lift (Inl Malformed)
          else
            api_then (api_post env client ''/api/v1/ego-browser/proof-challenges''
               (JObject (btree_of (challenge_fields i generation operation binding_id)))) (\<lambda>response.
            api_then (api_lift (ok_or Malformed
               (Option.bind (Option.bind (json_get response ''data'') (\<lambda>d. json_get d ''challenge''))
                  as_str))) (\<lambda>challenge_text.
            api_then (api_lift (ok_or Malformed (filter_opt (\<lambda>c. length c = 32)
               (ap_decode env challenge_text)))) (\<lambda>challenge.
            api_then (api_lift (ok_or Malformed (ap_host env (dc_base_url client)))) (\<lambda>host.
            api_then (api_lift (sign_request env i operation generation binding_id challenge host
               payload)) (\<lambda>signature.
            api_then (api_lift (ok_or Malformed (as_object payload))) (\<lambda>o'.
              api_give (JObject (insert_field ''proof_signature'' (JString signature)
                (insert_field ''proof_challenge'' (JString challenge_text) o'))))))))))"

text \<open>The proof of an operation on the device itself uses the generation of the device key.\<close>

definition add_proof ::
  "api_env \<Rightarrow> device_client \<Rightarrow> json \<Rightarrow> string \<Rightarrow> string option \<Rightarrow> json api" where
  "add_proof env client payload operation binding_id =
     add_proof_for_generation env client payload
       (case dc_identity client of Some i \<Rightarrow> ik_generation i | None \<Rightarrow> 1) operation binding_id"

definition signed_post ::
  "api_env \<Rightarrow> device_client \<Rightarrow> string \<Rightarrow> json \<Rightarrow> u64 \<Rightarrow> string \<Rightarrow> string option \<Rightarrow> string option \<Rightarrow>
     json api" where
  "signed_post env client p payload generation operation binding_id key =
     api_then (add_proof_for_generation env client payload generation operation binding_id)
       (\<lambda>payload. post_with_idempotency env client p payload key)"

section \<open>Devices\<close>

definition payload_matches_identity :: "api_env \<Rightarrow> identity \<Rightarrow> json_object \<Rightarrow> bool" where
  "payload_matches_identity env i o' \<longleftrightarrow>
     (let public_key = public_key_b64 (ap_store env) i;
          encryption_public_key = encryption_public_key_b64 (ap_store env) i in
      str_field o' ''device_id'' = Some (ik_device_id i)
      \<and> str_field o' ''public_key'' = Some public_key
      \<and> absent_or o' ''signing_public_key'' (\<lambda>v. as_str v = Some public_key)
      \<and> str_field o' ''encryption_public_key'' = Some encryption_public_key
      \<and> u64_field o' ''generation'' = Some (ik_generation i)
      \<and> absent_or o' ''device_generation'' (\<lambda>v. as_u64 v = Some (ik_generation i))
      \<and> str_field o' ''release_profile'' = Some (ik_release_profile i)
      \<and> str_field o' ''credential_profile'' = Some (ik_credential_profile i)
      \<and> map_of o' ''proof_challenge'' = None \<and> map_of o' ''proof_signature'' = None)"

definition register_device_at ::
  "api_env \<Rightarrow> device_client \<Rightarrow> string \<Rightarrow> json \<Rightarrow> string option \<Rightarrow> string \<Rightarrow> json api" where
  "register_device_at env client p payload key operation =
     api_then (client_identity client) (\<lambda>i.
     api_then (api_lift (ok_or Malformed (as_object payload))) (\<lambda>o'.
       if \<not> payload_matches_identity env i o' then api_lift (Inl Malformed)
       else signed_post env client p payload (ik_generation i) operation None key))"

definition register_device :: "api_env \<Rightarrow> device_client \<Rightarrow> json \<Rightarrow> json api" where
  "register_device env client payload =
     register_device_at env client ''/api/v1/ego-browser/devices/register'' payload None
       ''register_device''"

definition rotate_device :: "api_env \<Rightarrow> device_client \<Rightarrow> json \<Rightarrow> string \<Rightarrow> json api" where
  "rotate_device env client payload key =
     (if \<not> rotation_key_ok key then api_lift (Inl Malformed)
      else register_device_at env client ''/api/v1/ego-browser/devices/rotate'' payload (Some key)
        ''device_rotate'')"

definition ensure_device :: "api_env \<Rightarrow> device_client \<Rightarrow> json \<Rightarrow> string \<Rightarrow> json api" where
  "ensure_device env client payload key =
     (if \<not> rotation_key_ok key then api_lift (Inl Malformed)
      else register_device_at env client ''/api/v1/ego-browser/devices/ensure'' payload (Some key)
        ''register_device'')"

definition revoke_device :: "api_env \<Rightarrow> device_client \<Rightarrow> json api" where
  "revoke_device env client =
     api_then (client_identity client) (\<lambda>i.
     api_then (api_lift (validate_api_id (ik_device_id i))) (\<lambda>_.
       signed_post env client (''/api/v1/ego-browser/devices/'' @ ik_device_id i @ ''/revoke'')
         (JObject (btree_of [(''generation'', JNumber (PosInt (ik_generation i))),
            (''reason'', JString ''device_revoked'')]))
         (ik_generation i) ''revoke_device'' None None))"

section \<open>Bindings\<close>

definition binding_path :: "string \<Rightarrow> string \<Rightarrow> string" where
  "binding_path binding_id action = ''/api/v1/ego-browser/bindings/'' @ binding_id @ action"

definition generation_fields :: "u64 \<Rightarrow> json_object" where
  "generation_fields g = [(''generation'', JNumber (PosInt g)), (''binding_generation'', JNumber (PosInt g))]"

text \<open>An operation on a binding at an expected generation.\<close>

definition binding_call ::
  "api_env \<Rightarrow> device_client \<Rightarrow> string \<Rightarrow> u64 \<Rightarrow> string \<Rightarrow> string \<Rightarrow> json_object \<Rightarrow> json api" where
  "binding_call env client binding_id generation action operation extra =
     api_then (api_lift (validate_api_id binding_id)) (\<lambda>_.
       signed_post env client (binding_path binding_id action)
         (JObject (btree_of (generation_fields generation @ extra))) generation operation
         (Some binding_id) None)"

definition candidates :: "api_env \<Rightarrow> device_client \<Rightarrow> json api" where
  "candidates env client = api_get env client ''/api/v1/ego-browser/bindings/candidates''"

definition api_claim :: "api_env \<Rightarrow> device_client \<Rightarrow> json \<Rightarrow> json api" where
  "api_claim env client payload =
     api_then (client_identity client) (\<lambda>i.
     api_then (api_lift (ok_or Malformed (as_object payload))) (\<lambda>o'.
     api_then (add_proof env client (JObject (insert_field ''encryption_public_key''
        (JString (encryption_public_key_b64 (ap_store env) i)) o')) ''claim_binding'' None) (\<lambda>payload.
       api_post env client ''/api/v1/ego-browser/bindings/claim'' payload)))"

definition api_status :: "api_env \<Rightarrow> device_client \<Rightarrow> string \<Rightarrow> json api" where
  "api_status env client binding_id =
     api_then (api_lift (validate_api_id binding_id)) (\<lambda>_.
       api_get env client (binding_path binding_id []))"

definition api_connected :: "api_env \<Rightarrow> device_client \<Rightarrow> string \<Rightarrow> u64 \<Rightarrow> json \<Rightarrow> json api" where
  "api_connected env client binding_id generation payload =
     api_then (api_lift (validate_api_id binding_id)) (\<lambda>_.
     api_then (api_lift (ok_or Malformed (as_object payload))) (\<lambda>o'.
       signed_post env client (binding_path binding_id ''/connected'')
         (JObject (insert_field ''binding_generation'' (JNumber (PosInt generation))
            (insert_field ''generation'' (JNumber (PosInt generation)) o')))
         generation ''connect_binding'' (Some binding_id) None))"

definition bridge_relay_ticket :: "api_env \<Rightarrow> device_client \<Rightarrow> string \<Rightarrow> u64 \<Rightarrow> json api" where
  "bridge_relay_ticket env client binding_id generation =
     api_then (api_lift (validate_api_id binding_id)) (\<lambda>_.
     api_then (client_identity client) (\<lambda>i.
       binding_call env client binding_id generation ''/relay-ticket'' ''issue_relay_ticket''
         [(''role'', JString ''bridge''), (''ego_browser_device_id'', JString (ik_device_id i))]))"

definition renew_binding ::
  "api_env \<Rightarrow> device_client \<Rightarrow> string \<Rightarrow> u64 \<Rightarrow> u64 \<Rightarrow> string option \<Rightarrow> json api" where
  "renew_binding env client binding_id generation allowlist_revision learning =
     binding_call env client binding_id generation ''/renew'' ''renew_binding''
       [(''allowlist_revision'', JNumber (PosInt allowlist_revision)),
        (''learning_bundle_digest'', JOptString learning)]"

definition api_stop :: "api_env \<Rightarrow> device_client \<Rightarrow> string \<Rightarrow> u64 \<Rightarrow> json api" where
  "api_stop env client binding_id generation =
     binding_call env client binding_id generation ''/stop'' ''stop_binding'' []"

definition api_revoke :: "api_env \<Rightarrow> device_client \<Rightarrow> string \<Rightarrow> u64 \<Rightarrow> json api" where
  "api_revoke env client binding_id generation =
     binding_call env client binding_id generation ''/revoke'' ''revoke_binding'' []"

definition is_content_free_pause_reason :: "string \<Rightarrow> bool" where
  "is_content_free_pause_reason reason \<longleftrightarrow>
     reason \<in> {''user_pause'', ''task_space_takeover'', ''task_space_monitor_unavailable''}"

definition pause_with_reason ::
  "api_env \<Rightarrow> device_client \<Rightarrow> string \<Rightarrow> u64 \<Rightarrow> string \<Rightarrow> json api" where
  "pause_with_reason env client binding_id generation reason =
     api_then (api_lift (validate_api_id binding_id)) (\<lambda>_.
       if \<not> is_content_free_pause_reason reason then api_lift (Inl Malformed)
       else binding_call env client binding_id generation ''/pause'' ''pause_binding''
         [(''reason'', JString reason)])"

definition api_pause :: "api_env \<Rightarrow> device_client \<Rightarrow> string \<Rightarrow> u64 \<Rightarrow> json api" where
  "api_pause env client binding_id generation =
     pause_with_reason env client binding_id generation ''user_pause''"

definition api_resume ::
  "api_env \<Rightarrow> device_client \<Rightarrow> string \<Rightarrow> u64 \<Rightarrow> u64 \<Rightarrow> string option \<Rightarrow> json api" where
  "api_resume env client binding_id generation allowlist_revision learning =
     binding_call env client binding_id generation ''/resume'' ''resume_binding''
       [(''user_confirmation'', JBool True),
        (''allowlist_revision'', JNumber (PosInt allowlist_revision)),
        (''learning_bundle_digest'', JOptString learning)]"

definition confirm_allowlist ::
  "api_env \<Rightarrow> device_client \<Rightarrow> string \<Rightarrow> u64 \<Rightarrow> u64 \<Rightarrow> string \<Rightarrow> json api" where
  "confirm_allowlist env client binding_id generation expected_revision digest =
     binding_call env client binding_id generation ''/allowlist/confirm'' ''confirm_allowlist''
       [(''expected_revision'', JNumber (PosInt expected_revision)),
        (''roots_digest'', JString digest), (''user_confirmation'', JBool True)]"

section \<open>Where requests go\<close>

text \<open>Every request an operation sends goes to a path of the service under the base URL of the
  client, with the client's token.\<close>

definition on_service :: "device_client \<Rightarrow> http_request \<Rightarrow> bool" where
  "on_service client q \<longleftrightarrow> hr_token q = dc_token client
     \<and> (\<exists>rest. hr_url q = dc_base_url client @ ''/api/v1/ego-browser/'' @ rest)"

definition confined :: "device_client \<Rightarrow> 'a api \<Rightarrow> bool" where
  "confined client m \<longleftrightarrow> (\<forall>log r log'. m log = (r, log') \<longrightarrow>
     (\<exists>new. log' = log @ new \<and> (\<forall>q \<in> set new. on_service client q)))"

named_theorems confined_intros \<open>operations that keep to the service\<close>

lemma confined_basic [confined_intros]: "confined client (api_give x)" "confined client (api_lift r)"
  by (simp_all add: confined_def)

lemma confined_then [confined_intros]:
  assumes "confined client m" "\<And>x. confined client (f x)"
  shows "confined client (api_then m f)"
  unfolding confined_def
proof (intro allI impI)
  fix log r log'
  assume run: "api_then m f log = (r, log')"
  obtain r1 log1 where m: "m log = (r1, log1)" by (metis surj_pair)
  then obtain new where new: "log1 = log @ new" "\<forall>q \<in> set new. on_service client q"
    using assms(1) unfolding confined_def by blast
  show "\<exists>new. log' = log @ new \<and> (\<forall>q \<in> set new. on_service client q)"
  proof (cases r1)
    case (Inl e)
    with run m new show ?thesis by auto
  next
    case (Inr x)
    with run m have "f x log1 = (r, log')" by simp
    then obtain more where "log' = log1 @ more" "\<forall>q \<in> set more. on_service client q"
      using assms(2) unfolding confined_def by blast
    with new show ?thesis by (intro exI [of _ "new @ more"]) auto
  qed
qed

lemma confined_if [confined_intros]:
  "confined client a \<Longrightarrow> confined client b \<Longrightarrow> confined client (if c then a else b)"
  by simp

abbreviation service_path :: "string \<Rightarrow> bool" where
  "service_path p \<equiv> \<exists>rest. p = ''/api/v1/ego-browser/'' @ rest"

lemma confined_send:
  "hr_token q = dc_token client \<Longrightarrow> hr_url q = dc_base_url client @ p \<Longrightarrow> service_path p \<Longrightarrow>
   confined client (send env q)"
  unfolding confined_def send_def on_service_def by auto

lemma confined_get [confined_intros]: "service_path p \<Longrightarrow> confined client (api_get env client p)"
  unfolding api_get_def by (rule confined_send [of _ _ p]) simp_all

lemma confined_post [confined_intros]:
  "service_path p \<Longrightarrow> confined client (post_with_idempotency env client p payload key)"
  unfolding post_with_idempotency_def by (rule confined_send [of _ _ p]) simp_all

lemma confined_proof [confined_intros]:
  "confined client (add_proof_for_generation env client payload generation operation binding_id)"
proof (cases "dc_identity client")
  case None
  then show ?thesis by (simp add: add_proof_for_generation_def confined_intros)
next
  case (Some i)
  then show ?thesis
    unfolding add_proof_for_generation_def api_post_def Some option.case
    by (intro confined_intros) simp_all
qed

lemma confined_signed [confined_intros]:
  "service_path p \<Longrightarrow>
   confined client (signed_post env client p payload generation operation binding_id key)"
  unfolding signed_post_def by (intro confined_intros)

lemma confined_binding [confined_intros]:
  "confined client (binding_call env client binding_id generation action operation extra)"
  unfolding binding_call_def binding_path_def
  by (intro confined_intros) simp_all

lemma confined_register_at:
  "service_path p \<Longrightarrow> confined client (register_device_at env client p payload key operation)"
  unfolding register_device_at_def client_identity_def by (intro confined_intros)

lemma operations_confined:
  "confined client (register_device env client p)" "confined client (rotate_device env client p k)"
  "confined client (ensure_device env client p k)" "confined client (revoke_device env client)"
  "confined client (candidates env client)" "confined client (api_claim env client p)"
  "confined client (api_status env client b)" "confined client (api_connected env client b g p)"
  "confined client (bridge_relay_ticket env client b g)"
  "confined client (renew_binding env client b g n d)" "confined client (api_stop env client b g)"
  "confined client (api_revoke env client b g)" "confined client (api_pause env client b g)"
  "confined client (pause_with_reason env client b g r)"
  "confined client (api_resume env client b g n d)"
  "confined client (confirm_allowlist env client b g n r)"
  unfolding register_device_def rotate_device_def ensure_device_def revoke_device_def candidates_def
    api_claim_def api_status_def api_connected_def bridge_relay_ticket_def renew_binding_def
    api_stop_def api_revoke_def api_pause_def pause_with_reason_def api_resume_def
    confirm_allowlist_def client_identity_def binding_path_def add_proof_def api_post_def
  by (intro confined_intros confined_register_at; simp)+

lemma client_new_canonical:
  "client_new env c = Inr client \<Longrightarrow> dc_base_url client = cc_server_url c \<and>
     dc_token client = cc_token c \<and> dc_identity client = None \<and>
     canonical_server_url (st_url (ap_store env)) (cc_server_url c) = Inr (cc_server_url c)"
  unfolding client_new_def bind_r_Inr_iff by (auto split: if_splits simp: bind_r_Inr_iff)

end
