(* ===== verification/Api_Properties.thy ===== *)
theory Api_Properties
  imports Device_Api Store_Properties
begin

text \<open>
  Properties of the control-plane client of a device: where its requests go, and the proofs of
  possession they carry.
\<close>

section \<open>A control plane\<close>

definition small_control_plane :: api_env where
  "small_control_plane =
     \<lparr>ap_store = sample_store_env,
      ap_answer = (\<lambda>_ _. Some (200, Some (JObject [(''data'', JObject [(''challenge'', JString ''c'')])]))),
      ap_client = Inr (), ap_decode = (\<lambda>s. Some (replicate (if s = ''s'' then 64 else 32) 0)),
      ap_host = (\<lambda>_. Some ''h''), ap_sign = (\<lambda>_ _. ''s''), ap_sha256 = (\<lambda>_. []),
      ap_to_vec = (\<lambda>_. [])\<rparr>"

lemma small_control_plane_sel [simp]:
  "ap_store small_control_plane = sample_store_env" "ap_client small_control_plane = Inr ()"
  "ap_decode small_control_plane s = Some (replicate (if s = ''s'' then 64 else 32) 0)"
  "ap_host small_control_plane u = Some ''h''" "ap_sign small_control_plane k m = ''s''"
  "ap_sha256 small_control_plane b = []"
  "ap_answer small_control_plane log q =
     Some (200, Some (JObject [(''data'', JObject [(''challenge'', JString ''c'')])]))"
  by (simp_all add: small_control_plane_def)

definition small_client :: device_client where
  "small_client = \<lparr>dc_base_url = sample_url, dc_token = ''egbc_t'',
     dc_identity = Some (device_sample 2 2)\<rparr>"

lemma small_client_made:
  "client_with_identity small_control_plane sample_credential (device_sample 2 2) = Inr small_client"
  by (simp add: client_with_identity_def client_new_def small_client_def canonical_server_url_def
      sample_parse_def sample_url_def starts_with_def sample_credential_def)

section \<open>Properties\<close>

text \<open>C28: the credential of a device goes only to the service it belongs to: every request of every
  operation of a client made from a credential, whatever the control plane answers, goes to a path of
  the browser service under the canonical URL of that credential, with its token.\<close>

theorem token_stays_on_service:
  assumes "client_with_identity env c i = Inr client"
    and "m \<in> {register_device env client p, rotate_device env client p k, ensure_device env client p k,
      revoke_device env client, candidates env client, api_claim env client p,
      api_status env client b, api_connected env client b g p, bridge_relay_ticket env client b g,
      renew_binding env client b g n d, api_stop env client b g, api_revoke env client b g,
      api_pause env client b g, pause_with_reason env client b g r, api_resume env client b g n d,
      confirm_allowlist env client b g n r}"
    and "m log = (res, log')"
  shows "\<exists>new. log' = log @ new \<and> (\<forall>q \<in> set new. hr_token q = cc_token c \<and>
    (\<exists>rest. hr_url q = cc_server_url c @ ''/api/v1/ego-browser/'' @ rest)) \<and>
    canonical_server_url (st_url (ap_store env)) (cc_server_url c) = Inr (cc_server_url c)"
proof -
  have client: "dc_base_url client = cc_server_url c" "dc_token client = cc_token c"
    "canonical_server_url (st_url (ap_store env)) (cc_server_url c) = Inr (cc_server_url c)"
    using assms(1) unfolding client_with_identity_def bind_r_Inr_iff
    by (auto dest!: client_new_canonical split: if_splits)
  have "confined client m"
    using assms(2) by (elim insertE emptyE) (simp_all only: operations_confined)
  with assms(3) client show ?thesis
    unfolding confined_def on_service_def by (metis (no_types))
qed


lemma token_stays_on_service_witness:
  "list_all (\<lambda>q. hr_token q = ''egbc_t'') (snd (candidates small_control_plane small_client []))"
proof -
  obtain res log' where run: "candidates small_control_plane small_client [] = (res, log')"
    by (metis surj_pair)
  have "\<exists>new. log' = [] @ new \<and> (\<forall>q \<in> set new. hr_token q = cc_token sample_credential \<and>
      (\<exists>rest. hr_url q = cc_server_url sample_credential @ ''/api/v1/ego-browser/'' @ rest)) \<and>
      canonical_server_url (st_url (ap_store small_control_plane)) (cc_server_url sample_credential)
        = Inr (cc_server_url sample_credential)"
    by (rule token_stays_on_service [where m = "candidates small_control_plane small_client" and
          p = JNull and k = "[]" and b = "[]" and g = 0 and n = 0 and d = None and r = "[]"])
      (rule small_client_made, blast, rule run)
  with run show ?thesis by (auto simp: sample_credential_def list_all_iff)
qed

section \<open>Proofs of possession\<close>

definition posted :: "device_client \<Rightarrow> string \<Rightarrow> json \<Rightarrow> string option \<Rightarrow> http_request" where
  "posted client p body key =
     \<lparr>hr_method = ''POST'', hr_url = dc_base_url client @ p, hr_token = dc_token client,
      hr_body = Some body, hr_idempotency_key = key\<rparr>"

lemma api_then_Inr:
  "api_then m f log = (Inr r, log') \<longleftrightarrow> (\<exists>x log1. m log = (Inr x, log1) \<and> f x log1 = (Inr r, log'))"
  by (auto split: prod.splits sum.splits)

lemma post_Inr:
  "post_with_idempotency env client p body key log = (Inr r, log') \<longleftrightarrow>
   log' = log @ [posted client p body key] \<and>
   (\<exists>status answer. ap_answer env log (posted client p body key) = Some (status, answer) \<and>
      decode_response status answer = Inr r)"
  unfolding post_with_idempotency_def send_def posted_def
  by (auto split: option.splits prod.splits)

lemma decode_response_Inr:
  "decode_response status answer = Inr r \<longleftrightarrow> answer = Some r \<and> 200 \<le> status \<and> status \<le> 299"
proof (cases answer)
  case (Some body)
  then show ?thesis
    by (cases "200 \<le> status \<and> status \<le> 299") (auto simp: decode_response_def split: option.splits)
qed (simp add: decode_response_def)

text \<open>What the challenge was, and what the request carried, when a proof was added.\<close>

definition proved ::
  "api_env \<Rightarrow> device_client \<Rightarrow> identity \<Rightarrow> http_request list \<Rightarrow> json_object \<Rightarrow> u64 \<Rightarrow> string \<Rightarrow>
     string option \<Rightarrow> json \<Rightarrow> bool" where
  "proved env client i log payload generation operation binding_id with_proof \<longleftrightarrow>
     (\<exists>status answer data challenge_text challenge host message.
        ap_answer env log (posted client ''/api/v1/ego-browser/proof-challenges''
          (JObject (btree_of (challenge_fields i generation operation binding_id))) None)
          = Some (status, Some answer)
        \<and> json_get answer ''data'' = Some data \<and> json_get data ''challenge'' = Some (JString challenge_text)
        \<and> ap_decode env challenge_text = Some challenge \<and> length challenge = 32
        \<and> ap_host env (dc_base_url client) = Some host
        \<and> device_proof_message (ap_sha256 env) (ap_to_vec env)
            (proof_context i operation generation binding_id host) challenge (JObject payload) = Inr message
        \<and> with_proof = JObject (insert_field ''proof_signature'' (JString (ap_sign env (ik_signing_key i) message))
            (insert_field ''proof_challenge'' (JString challenge_text) payload)))"

lemma as_str_Some: "as_str v = Some s \<longleftrightarrow> v = JString s"
  by (cases v) auto

lemma as_object_Some: "as_object v = Some kvs \<longleftrightarrow> v = JObject kvs"
  by (cases v) auto

lemma map_err_Inr: "map_err f r = Inr x \<longleftrightarrow> r = Inr x"
  by (cases r) auto

lemma sign_request_Inr:
  "sign_request env i operation generation binding_id challenge host payload = Inr signature \<longleftrightarrow>
   (\<exists>message. device_proof_message (ap_sha256 env) (ap_to_vec env)
      (proof_context i operation generation binding_id host) challenge payload = Inr message \<and>
      signature = ap_sign env (ik_signing_key i) message)"
  by (auto simp: sign_request_def bind_r_Inr_iff map_err_Inr)

lemma proof_added:
  assumes "dc_identity client = Some i"
    and "add_proof_for_generation env client payload generation operation binding_id log = (Inr with_proof, log')"
  shows "generation \<noteq> 0 \<and>
    log' = log @ [posted client ''/api/v1/ego-browser/proof-challenges''
      (JObject (btree_of (challenge_fields i generation operation binding_id))) None] \<and>
    (\<exists>o'. payload = JObject o' \<and> proved env client i log o' generation operation binding_id with_proof)"
proof -
  have nonzero: "generation \<noteq> 0"
    using assms by (auto simp: add_proof_for_generation_def)
  note run = assms(2)[unfolded add_proof_for_generation_def assms(1) option.case if_not_P [OF nonzero]
      api_post_def api_then_Inr post_Inr]
  from run obtain answer status body data challenge_text challenge host signature o' where
    facts: "log' = log @ [posted client ''/api/v1/ego-browser/proof-challenges''
      (JObject (btree_of (challenge_fields i generation operation binding_id))) None]"
    "ap_answer env log (posted client ''/api/v1/ego-browser/proof-challenges''
      (JObject (btree_of (challenge_fields i generation operation binding_id))) None) = Some (status, body)"
    "decode_response status body = Inr answer" "json_get answer ''data'' = Some data"
    "Option.bind (json_get data ''challenge'') as_str = Some challenge_text"
    "filter_opt (\<lambda>c. length c = 32) (ap_decode env challenge_text) = Some challenge"
    "ap_host env (dc_base_url client) = Some host"
    "sign_request env i operation generation binding_id challenge host payload = Inr signature"
    "as_object payload = Some o'"
    "with_proof = JObject (insert_field ''proof_signature'' (JString signature)
       (insert_field ''proof_challenge'' (JString challenge_text) o'))"
    by (auto simp: ok_or_Inr_iff bind_eq_Some_conv)
  then show ?thesis
    using nonzero
    unfolding proved_def sign_request_Inr decode_response_Inr as_object_Some bind_eq_Some_conv as_str_Some
      filter_opt_Some
    by auto
qed

text \<open>Every operation on a binding is proved: when it is answered, it sent two requests, the challenge
  for exactly this operation and generation and then the operation itself, whose body is its payload
  with the challenge and the signature of the identity's key over the transcript of that payload.\<close>

theorem binding_call_proved:
  assumes "dc_identity client = Some i"
    and "binding_call env client binding_id generation action operation extra log = (Inr res, log')"
  shows "\<exists>with_proof.
    log' = log @
      [posted client ''/api/v1/ego-browser/proof-challenges''
         (JObject (btree_of (challenge_fields i generation operation (Some binding_id)))) None,
       posted client (''/api/v1/ego-browser/bindings/'' @ binding_id @ action) with_proof None] \<and>
    proved env client i log (btree_of (generation_fields generation @ extra)) generation operation
      (Some binding_id) with_proof"
proof -
  from assms(2) obtain with_proof log1 where
    added: "add_proof_for_generation env client (JObject (btree_of (generation_fields generation @ extra)))
        generation operation (Some binding_id) log = (Inr with_proof, log1)"
    and sent: "post_with_idempotency env client (binding_path binding_id action) with_proof None log1
        = (Inr res, log')"
    unfolding binding_call_def signed_post_def api_then_Inr by auto
  show ?thesis
    using proof_added [OF assms(1) added] sent by (auto simp: post_Inr binding_path_def)
qed

lemma small_signature:
  "payload = JObject [(''binding_generation'', JNumber (PosInt 3)), (''generation'', JNumber (PosInt 3))] \<Longrightarrow>
   sign_request small_control_plane (device_sample 2 2) ''stop_binding'' 3 (Some ''b1'')
     (replicate 32 0) ''h'' payload = Inr ''s''"
  unfolding sign_request_Inr device_proof_message_Inr
  by (simp add: proof_context_def unwrap_or_default_def)

lemma small_stop:
  "binding_call small_control_plane small_client ''b1'' 3 ''/stop'' ''stop_binding'' [] [] =
   (Inr (JObject [(''data'', JObject [(''challenge'', JString ''c'')])]),
    snd (binding_call small_control_plane small_client ''b1'' 3 ''/stop'' ''stop_binding'' [] []))"
  by (simp add: binding_call_def signed_post_def add_proof_for_generation_def small_client_def
      api_post_def post_with_idempotency_def send_def decode_response_def generation_fields_def
      btree_of_def sample_ids small_signature filter_opt_def insert_field_def)

lemma binding_call_proved_witness:
  "\<exists>with_proof.
    snd (binding_call small_control_plane small_client ''b1'' 3 ''/stop'' ''stop_binding'' [] []) =
      [posted small_client ''/api/v1/ego-browser/proof-challenges''
         (JObject (btree_of (challenge_fields (device_sample 2 2) 3 ''stop_binding'' (Some ''b1'')))) None,
       posted small_client (''/api/v1/ego-browser/bindings/'' @ ''b1'' @ ''/stop'') with_proof None]"
proof -
  have "dc_identity small_client = Some (device_sample 2 2)" by (simp add: small_client_def)
  from binding_call_proved [OF this small_stop] show ?thesis by (metis append_Nil)
qed

text \<open>A proof of possession is accepted by the verification that the service is meant to run: with a
  public key that reads as a key, and a signature scheme whose signatures verify, the signature of
  \<open>sign_request\<close> verifies for the same context and payload.\<close>

theorem proof_of_possession_verifies:
  assumes "sign_request env i operation generation binding_id challenge host payload = Inr signature"
    and "ap_decode env (public_key_b64 (ap_store env) i) = Some key" "length key = 32" "valid_key key"
    and "\<And>message. \<exists>raw. ap_decode env (ap_sign env (ik_signing_key i) message) = Some raw
      \<and> length raw = 64 \<and> verify_strict key message raw"
  shows "verify_request env valid_key verify_strict
    (proof_context i operation generation binding_id host) challenge payload
    (public_key_b64 (ap_store env) i) signature"
proof -
  from assms(1) obtain message where
    message: "device_proof_message (ap_sha256 env) (ap_to_vec env)
      (proof_context i operation generation binding_id host) challenge payload = Inr message"
    "signature = ap_sign env (ik_signing_key i) message"
    unfolding sign_request_Inr by blast
  obtain raw where "ap_decode env signature = Some raw" "length raw = 64" "verify_strict key message raw"
    using assms(5) [of message] message(2) by blast
  with message(1) assms(2-4) show ?thesis by (simp add: verify_request_def filter_opt_def)
qed

lemma proof_of_possession_verifies_witness:
  "verify_request small_control_plane (\<lambda>_. True) (\<lambda>_ _ _. True)
    (proof_context (device_sample 2 2) ''stop_binding'' 3 (Some ''b1'') ''h'') (replicate 32 0)
    (JObject [(''binding_generation'', JNumber (PosInt 3)), (''generation'', JNumber (PosInt 3))])
    (public_key_b64 sample_store_env (device_sample 2 2)) ''s''"
  using proof_of_possession_verifies [of small_control_plane "device_sample 2 2" "''stop_binding''" 3
      "Some ''b1''" "replicate 32 0" "''h''" _ "''s''" "replicate 32 0" "\<lambda>_. True" "\<lambda>_ _ _. True",
      OF small_signature [OF refl]]
  by (simp add: public_key_b64_def sample_store_env_def)

end
