(* ===== verification/Release_Evidence.thy ===== *)
theory Release_Evidence
  imports Registration_Response
begin

text \<open>
  The evidence of a release that the device client requires before it registers a device,
  \<open>crates/device-client/src/main.rs\<close>: the release manifest, the signing evidence, the certificate
  pinned by the installer, and the certificate of the signed binary.  Objects have distinct keys, as
  \<open>serde_json::Map\<close> has; the tokenizer, the timestamp parser, the file system and \<open>codesign\<close> are
  parameters.
\<close>

section \<open>Constants of the release\<close>

definition EGO_LITE_INSTALLER_COMMIT :: string where
  "EGO_LITE_INSTALLER_COMMIT = ''d01be93325c7ea59d41c2ca9f4c59b58b4be4046''"
definition EGO_LITE_INSTALLER_SHA256 :: string where
  "EGO_LITE_INSTALLER_SHA256 = ''4cbbc9f211aca61244d9ada601c385cabbeba4ec4417b3a8be1819a01cb0221b''"
definition SUPPORTED_SKILL_TREE_SHA256 :: string where
  "SUPPORTED_SKILL_TREE_SHA256 = ''a45cc7fcbea45a6f6222faf83c891b0fd22955193699dd99c9e40b0c0b4a0741''"
definition RELEASE_REPOSITORY :: string where
  "RELEASE_REPOSITORY = ''Agent-Remote/agent-remote-ego-browser''"
definition RELEASE_REPOSITORY_URL :: string where
  "RELEASE_REPOSITORY_URL = ''https://github.com/'' @ RELEASE_REPOSITORY"
definition COMMUNITY_PROFILE_ID :: string where
  "COMMUNITY_PROFILE_ID = ''community-local-trust''"
definition TRUSTED_COMMUNITY_SIGNER_CERTIFICATE_SHA256 :: string where
  "TRUSTED_COMMUNITY_SIGNER_CERTIFICATE_SHA256 =
     ''1b1527d1c0ac6b3a1e95ccd7d4e6462ece9f5a42d2f4d309d09170588a4197e5''"
definition REPLACED_COMMUNITY_PROFILE :: string where
  "REPLACED_COMMUNITY_PROFILE = ''community-local-trust@0.1.12''"
definition ADMISSION_POLICY_REF :: string where
  "ADMISSION_POLICY_REF = ''server-policy:ego-browser-v1''"
definition ACTIVE_LOGIN_ORIGIN :: string where
  "ACTIVE_LOGIN_ORIGIN = ''$active_login_origin''"

text \<open>What \<open>codesign\<close> and the file system answer while a certificate is extracted: \<open>cg_directory\<close> is the new
  directory, \<open>cg_extract\<close> says for the binary and that directory whether the tool succeeds, \<open>cg_read_dir\<close> lists
  what it left there.\<close>

record codesign_answers =
  cg_is_file :: "path \<Rightarrow> bool"
  cg_directory :: path
  cg_create_dir :: "path \<Rightarrow> io_error + unit"
  cg_extract :: "path \<Rightarrow> path \<Rightarrow> io_error + bool"
  cg_read_dir :: "path \<Rightarrow> io_error + (io_error + path) list"
  cg_read :: "path \<Rightarrow> io_error + bytes"
  cg_sha256_hex :: "bytes \<Rightarrow> string"

text \<open>\<open>re_version\<close> is the version of the package.  The code extracts the certificate up to two times, and
  \<open>re_codesign\<close> answers each time for itself.\<close>

record release_env =
  re_version :: string
  re_timestamp :: "string \<Rightarrow> int option"
  re_parse :: "bytes \<Rightarrow> json option"
  re_var :: "string \<Rightarrow> string option"
  re_io_text :: "io_error \<Rightarrow> string"
  re_lstat :: "path \<Rightarrow> io_error + file_meta"
  re_read :: "path \<Rightarrow> io_error + bytes"
  re_open :: "path \<Rightarrow> io_error + file_meta"
  re_canonicalize :: "path \<Rightarrow> io_error + path"
  re_current_exe :: "io_error + path"
  re_euid :: u32
  re_macos :: bool
  re_codesign :: "nat \<Rightarrow> codesign_answers"

record release_manifest_evidence =
  ev_profile :: string
  ev_signer_certificate_sha256 :: string

section \<open>Values\<close>

definition validate_digest :: "string \<Rightarrow> command_error + string" where
  "validate_digest v =
     (let digest = ascii_lower v in
      if length digest \<noteq> 64 \<or> \<not> list_all is_hex_digit digest
      then Inl (Text ''signer certificate SHA-256 is invalid'') else Inr digest)"

definition require_exact_keys :: "json_object \<Rightarrow> string list \<Rightarrow> command_error + unit" where
  "require_exact_keys o' keys =
     (if length o' \<noteq> length keys \<or> list_ex (\<lambda>k. map_of o' k = None) keys
      then Inl (Text ''release manifest fields are invalid'') else Inr ())"

definition valid_semver :: "string option \<Rightarrow> bool" where
  "valid_semver v = (case v of
      None \<Rightarrow> False
    | Some s \<Rightarrow>
        let parts = split_on (CHR ''.'') (takeWhile (\<lambda>c. c \<noteq> CHR ''-'' \<and> c \<noteq> CHR ''+'') s) in
        length parts = 3 \<and> list_all (\<lambda>p. p \<noteq> [] \<and> list_all is_ascii_digit p) parts)"

definition valid_hex :: "string option \<Rightarrow> nat \<Rightarrow> bool" where
  "valid_hex v n = is_some_and v (\<lambda>s. length s = n \<and> list_all is_lower_hex s)"

definition ends_with :: "string \<Rightarrow> string \<Rightarrow> bool" where
  "ends_with p s \<longleftrightarrow> length p \<le> length s \<and> drop (length s - length p) s = p"

definition all_are :: "json_object \<Rightarrow> json \<Rightarrow> string list \<Rightarrow> bool" where
  "all_are o' v names \<longleftrightarrow> list_all (\<lambda>f. map_of o' f = Some v) names"

definition texts_are :: "json_object \<Rightarrow> (string \<times> string) list \<Rightarrow> bool" where
  "texts_are o' pairs \<longleftrightarrow> list_all (\<lambda>(f, v). str_field o' f = Some v) pairs"

definition empty_array_field :: "json_object \<Rightarrow> string \<Rightarrow> bool" where
  "empty_array_field o' f \<longleftrightarrow> Option.bind (map_of o' f) as_array = Some []"

section \<open>Components of a manifest\<close>

definition validate_common_component :: "json_object \<Rightarrow> string \<Rightarrow> command_error + unit" where
  "validate_common_component component name =
     (if str_field component ''repository'' \<noteq> Some (''Agent-Remote/'' @ name)
         \<or> \<not> valid_semver (str_field component ''version'')
         \<or> \<not> valid_hex (str_field component ''commit'') 40
      then Inl (Text ''release manifest component metadata is invalid'')
      else
        bind_r (need ''release manifest workflow is invalid'' (str_field component ''release_workflow''))
          (\<lambda>workflow.
          if workflow = [] \<or> \<not> ends_with ''.yml'' workflow \<and> \<not> ends_with ''.yaml'' workflow
             \<or> CHR ''/'' \<in> set workflow
          then Inl (Text ''release manifest workflow is invalid'') else Inr ()))"

definition legacy_keys :: "string list" where
  "legacy_keys =
     [''apple_notarized'', ''commit'', ''credential_profile'', ''hardened_runtime'',
      ''learning_bundle_digest'', ''learning_bundle_signing_key_id'',
      ''local_ego_browser_runtime_version'', ''nested_signatures_verified'', ''outbound_policy'',
      ''profile'', ''production_ready'', ''protocol_version'', ''public_distribution'',
      ''readiness_blockers'', ''release_published'', ''release_workflow'', ''repository'',
      ''signer_certificate_sha256'', ''signing_type'', ''skill_commit'', ''skill_tree_sha256'',
      ''skill_version'', ''version'']"

definition profile_keys :: "string list" where
  "profile_keys =
     [''admission_policy_ref'', ''allowed_server_origins'', ''artifact_sha256'', ''artifact_url'',
      ''bridge_manifest_sha256'', ''bridge_protocol_version'', ''bridge_version'',
      ''ego_lite_installer_commit'', ''ego_lite_installer_sha256'', ''ego_lite_installer_url'',
      ''ego_lite_runtime_version'', ''issued_at'', ''profile_id'', ''profile_version'',
      ''replaces_profile'', ''valid_platforms'', ''wrapper_version'']"

definition validate_signed_release_profile :: "release_env \<Rightarrow> json_object \<Rightarrow> command_error + unit" where
  "validate_signed_release_profile env component =
     (let version = re_version env in
      if \<not> texts_are component
          [(''profile_id'', COMMUNITY_PROFILE_ID), (''profile_version'', version),
           (''bridge_version'', version), (''wrapper_version'', version),
           (''bridge_protocol_version'', PROTOCOL_VERSION),
           (''ego_lite_runtime_version'', SUPPORTED_LOCAL_RUNTIME_VERSION),
           (''admission_policy_ref'', ADMISSION_POLICY_REF),
           (''ego_lite_installer_commit'', EGO_LITE_INSTALLER_COMMIT),
           (''ego_lite_installer_sha256'', EGO_LITE_INSTALLER_SHA256),
           (''replaces_profile'', REPLACED_COMMUNITY_PROFILE)]
      then Inl (Text ''release manifest signed profile is incompatible'')
      else if str_field component ''artifact_url'' \<noteq> Some (RELEASE_REPOSITORY_URL @ ''/releases/download/v''
            @ version @ ''/agent-remote-ego-browser-macos-universal-'' @ version @ ''.tar.gz'')
         \<or> str_field component ''ego_lite_installer_url'' \<noteq>
             Some (''https://raw.githubusercontent.com/citrolabs/ego-lite/''
               @ EGO_LITE_INSTALLER_COMMIT @ ''/skills/ego-browser/scripts/install.sh'')
         \<or> \<not> valid_hex (str_field component ''artifact_sha256'') 64
         \<or> \<not> valid_hex (str_field component ''bridge_manifest_sha256'') 64
         \<or> map_of component ''valid_platforms'' \<noteq> Some (JArray [JString ''macos''])
         \<or> map_of component ''allowed_server_origins'' \<noteq> Some (JArray [JString ACTIVE_LOGIN_ORIGIN])
      then Inl (Text ''release manifest signed profile fields are invalid'')
      else
        bind_r (need ''release manifest profile issue time is missing'' (str_field component ''issued_at''))
          (\<lambda>issued_at.
          if \<not> ends_with ''Z'' issued_at \<or> re_timestamp env issued_at = None
          then Inl (Text ''release manifest profile issue time is invalid'') else Inr ()))"

definition validate_ego_browser_component ::
  "release_env \<Rightarrow> json_object \<Rightarrow> u64 \<Rightarrow> command_error + unit" where
  "validate_ego_browser_component env component schema_version =
     bind_r (require_exact_keys component
        (if schema_version = 4 then legacy_keys @ profile_keys else legacy_keys)) (\<lambda>_.
     bind_r (validate_common_component component ''agent-remote-ego-browser'') (\<lambda>_.
       if \<not> texts_are component
           [(''repository'', RELEASE_REPOSITORY), (''profile'', COMMUNITY_PROFILE_ID),
            (''signing_type'', ''project-self-signed''), (''outbound_policy'', ''application-enforced''),
            (''credential_profile'', ''community_file''), (''protocol_version'', PROTOCOL_VERSION),
            (''skill_version'', SUPPORTED_SKILL_VERSION), (''skill_commit'', EGO_LITE_INSTALLER_COMMIT),
            (''skill_tree_sha256'', SUPPORTED_SKILL_TREE_SHA256),
            (''local_ego_browser_runtime_version'', SUPPORTED_LOCAL_RUNTIME_VERSION)]
       then Inl (Text ''release manifest ego-browser profile is invalid'')
       else if str_field component ''version'' \<noteq> Some (re_version env)
       then Inl (Text ''release manifest does not authenticate this Bridge version'')
       else if \<not> all_are component (JBool False) [''apple_notarized'', ''public_distribution'']
       then Inl (Text ''release manifest ego-browser trust fields are invalid'')
       else if \<not> all_are component (JBool True)
           [''hardened_runtime'', ''nested_signatures_verified'', ''production_ready'',
            ''release_published'']
       then Inl (Text ''release manifest ego-browser readiness is invalid'')
       else if \<not> empty_array_field component ''readiness_blockers''
       then Inl (Text ''release manifest ego-browser readiness blockers are invalid'')
       else if \<not> valid_hex (str_field component ''signer_certificate_sha256'') 64
          \<or> \<not> valid_hex (str_field component ''learning_bundle_digest'') 64
       then Inl (Text ''release manifest ego-browser digest fields are invalid'')
       else if schema_version = 4 then validate_signed_release_profile env component
       else Inr ()))"

definition EGO_BROWSER_COMPONENT :: string where
  "EGO_BROWSER_COMPONENT = ''agent-remote-ego-browser''"

definition validate_component ::
  "release_env \<Rightarrow> u64 \<Rightarrow> string \<Rightarrow> json \<Rightarrow> command_error + unit" where
  "validate_component env schema_version name v =
     bind_r (need ''release manifest component is invalid'' (as_object v)) (\<lambda>component.
       if name = EGO_BROWSER_COMPONENT
       then validate_ego_browser_component env component schema_version
       else
         bind_r (require_exact_keys component
            [''commit'', ''release_workflow'', ''repository'', ''version'']) (\<lambda>_.
           validate_common_component component name))"

fun validate_components ::
  "release_env \<Rightarrow> u64 \<Rightarrow> json_object \<Rightarrow> command_error + unit" where
  "validate_components env schema_version [] = Inr ()"
| "validate_components env schema_version ((name, v) # rest) =
     bind_r (validate_component env schema_version name v)
       (\<lambda>_. validate_components env schema_version rest)"

section \<open>The two kinds of evidence\<close>

definition trusted_evidence :: "string \<Rightarrow> string \<Rightarrow> command_error + release_manifest_evidence" where
  "trusted_evidence message v =
     bind_r (validate_digest v) (\<lambda>digest.
       if digest \<noteq> TRUSTED_COMMUNITY_SIGNER_CERTIFICATE_SHA256 then Inl (Text message)
       else Inr \<lparr>ev_profile = COMMUNITY_PROFILE_ID, ev_signer_certificate_sha256 = digest\<rparr>)"

definition validate_release_manifest_value ::
  "release_env \<Rightarrow> json \<Rightarrow> command_error + release_manifest_evidence" where
  "validate_release_manifest_value env v =
     bind_r (need ''release manifest must be a JSON object'' (as_object v)) (\<lambda>o'.
     bind_r (require_exact_keys o' [''schema_version'', ''distribution_version'', ''components''])
       (\<lambda>_.
     bind_r (need ''release manifest schema is invalid'' (u64_field o' ''schema_version''))
       (\<lambda>schema_version.
       if schema_version \<notin> {3, 4} \<or> \<not> valid_semver (str_field o' ''distribution_version'')
       then Inl (Text ''release manifest header is invalid'')
       else
     bind_r (need ''release manifest components are invalid''
        (Option.bind (map_of o' ''components'') as_object)) (\<lambda>components.
       if length components \<noteq> 6 \<or> map_of components EGO_BROWSER_COMPONENT = None
       then Inl (Text ''release manifest component inventory is invalid'')
       else
     bind_r (validate_components env schema_version components) (\<lambda>_.
     bind_r (need ''release manifest signer certificate is missing''
        (Option.bind (Option.bind (map_of components EGO_BROWSER_COMPONENT) as_object)
          (\<lambda>browser. str_field browser ''signer_certificate_sha256''))) (\<lambda>digest.
       trusted_evidence
         ''release manifest signer certificate does not match the built-in trust pin'' digest))))))"

definition evidence_keys :: "string list" where
  "evidence_keys =
     [''schema_version'', ''version'', ''profile'', ''production_ready'', ''readiness_blockers'',
      ''apple_notarized'', ''public_distribution'', ''signing_type'', ''signer_certificate_sha256'',
      ''bridge_signature_verified'', ''device_client_signature_verified'',
      ''nested_signatures_verified'', ''hardened_runtime'', ''outbound_policy'', ''credential_profile'',
      ''learning_bundle_digest'', ''learning_bundle_signing_key_id'']"

definition signing_key_id_ok :: "string \<Rightarrow> bool" where
  "signing_key_id_ok k \<longleftrightarrow> k \<noteq> [] \<and> length k \<le> 128
     \<and> list_all (\<lambda>b. is_ascii_alphanumeric b \<or> b \<in> set ''._-'') k"

definition validate_signing_evidence_value ::
  "release_env \<Rightarrow> json \<Rightarrow> command_error + release_manifest_evidence" where
  "validate_signing_evidence_value env v =
     bind_r (need ''signing evidence must be a JSON object'' (as_object v)) (\<lambda>o'.
     bind_r (require_exact_keys o' evidence_keys) (\<lambda>_.
       if u64_field o' ''schema_version'' \<noteq> Some 1 \<or> \<not> valid_semver (str_field o' ''version'')
          \<or> \<not> texts_are o' [(''version'', re_version env), (''profile'', COMMUNITY_PROFILE_ID),
               (''signing_type'', ''project-self-signed''),
               (''outbound_policy'', ''application-enforced''),
               (''credential_profile'', ''community_file'')]
       then Inl (Text ''signing evidence profile is invalid'')
       else if \<not> all_are o' (JBool True)
           [''production_ready'', ''bridge_signature_verified'', ''device_client_signature_verified'',
            ''nested_signatures_verified'', ''hardened_runtime'']
       then Inl (Text ''signing evidence readiness is invalid'')
       else if \<not> all_are o' (JBool False) [''apple_notarized'', ''public_distribution'']
       then Inl (Text ''signing evidence trust fields are invalid'')
       else if \<not> empty_array_field o' ''readiness_blockers''
       then Inl (Text ''signing evidence blockers are invalid'')
       else
     bind_r (need ''signing evidence signer certificate is missing''
        (str_field o' ''signer_certificate_sha256'')) (\<lambda>digest.
     bind_r (trusted_evidence
        ''signing evidence signer certificate does not match the built-in trust pin'' digest)
       (\<lambda>evidence.
     bind_r (need ''signing evidence learning digest is missing'' (str_field o' ''learning_bundle_digest''))
       (\<lambda>learning.
       if \<not> valid_hex (Some learning) 64
       then Inl (Text ''signing evidence learning digest is invalid'')
       else
     bind_r (need ''signing evidence learning key ID is missing''
        (str_field o' ''learning_bundle_signing_key_id'')) (\<lambda>key_id.
       if \<not> signing_key_id_ok key_id
       then Inl (Text ''signing evidence learning key ID is invalid'')
       else Inr evidence))))))"

definition read_release_json :: "release_env \<Rightarrow> path \<Rightarrow> command_error + json" where
  "read_release_json env p =
     bind_r (map_err (\<lambda>_. Text ''release manifest is unavailable'') (re_lstat env p)) (\<lambda>m.
       if \<not> fm_file m \<or> fm_symlink m then Inl (Text ''release manifest must be a regular file'')
       else
     bind_r (map_err (\<lambda>_. Text ''release manifest is unreadable'') (re_read env p)) (\<lambda>bytes.
       if bytes = [] \<or> length bytes > 1024 * 1024
       then Inl (Text ''release manifest size is invalid'')
       else need ''release manifest is not valid JSON'' (re_parse env bytes)))"

definition validate_release_artifact ::
  "release_env \<Rightarrow> path \<Rightarrow> command_error + release_manifest_evidence" where
  "validate_release_artifact env p =
     bind_r (read_release_json env p) (\<lambda>v.
       case Option.bind (as_object v) (\<lambda>o'. u64_field o' ''schema_version'') of
         Some n \<Rightarrow>
           if n \<in> {3, 4} then validate_release_manifest_value env v
           else if n = 1 then validate_signing_evidence_value env v
           else Inl (Text ''unsupported release evidence schema'')
       | None \<Rightarrow> Inl (Text ''unsupported release evidence schema''))"

definition discover_release_manifest ::
  "release_env \<Rightarrow> string list \<Rightarrow> command_error + release_manifest_evidence option" where
  "discover_release_manifest env args =
     bind_r (cmd_option args ''--release-manifest'') (\<lambda>explicit.
       case or_else explicit (or_else (re_var env ''EGO_BROWSER_RELEASE_MANIFEST'')
              (or_else (re_var env ''AGENT_REMOTE_RELEASE_MANIFEST'')
                (re_var env ''EGO_BROWSER_SIGNING_EVIDENCE''))) of
         Some p \<Rightarrow> bind_r (validate_release_artifact env (path_of p)) (\<lambda>e. Inr (Some e))
       | None \<Rightarrow> Inr None)"

section \<open>The pin of the installer\<close>

definition installed_release_directory :: "release_env \<Rightarrow> path \<Rightarrow> path option" where
  "installed_release_directory env executable =
     (case re_canonicalize env executable of
        Inl _ \<Rightarrow> None
      | Inr executable \<Rightarrow>
          Option.bind (path_parent executable) (\<lambda>bin.
            if valid_name bin \<noteq> Some ''bin'' then None
            else Option.bind (path_parent bin) (\<lambda>release.
              Option.bind (path_parent release) (\<lambda>releases.
                if valid_name releases \<noteq> Some ''releases'' then None
                else if valid_name release \<noteq> Some (re_version env) then None
                else Some release))))"

definition installed_certificate_pin_path :: "release_env \<Rightarrow> path \<Rightarrow> path option" where
  "installed_certificate_pin_path env executable =
     Option.bind (installed_release_directory env executable) (\<lambda>release.
     Option.bind (path_parent release) (\<lambda>releases.
     Option.bind (path_parent releases) (\<lambda>root.
       Some (path_join root [Normal ''TRUSTED_CERTIFICATE_SHA256'']))))"

definition pin_permissions_ok :: "release_env \<Rightarrow> file_meta \<Rightarrow> bool" where
  "pin_permissions_ok env m \<longleftrightarrow>
     fm_uid m = re_euid env \<and> fm_nlink m = 1 \<and> mode_bits m 0x1FF = 0x100"

definition check_pin_file :: "release_env \<Rightarrow> file_meta \<Rightarrow> command_error + unit" where
  "check_pin_file env m =
     (if fm_symlink m \<or> \<not> fm_file m
      then Inl (Text ''trusted certificate pin is not a regular file'')
      else if \<not> pin_permissions_ok env m
      then Inl (Text ''trusted certificate pin permissions are unsafe'')
      else Inr ())"

definition discover_installed_certificate_pin :: "release_env \<Rightarrow> command_error + string option" where
  "discover_installed_certificate_pin env =
     (case (case re_current_exe env of Inl _ \<Rightarrow> None | Inr e \<Rightarrow> installed_certificate_pin_path env e) of
        None \<Rightarrow> Inr None
      | Some pin \<Rightarrow>
         (case re_lstat env pin of
            Inl e \<Rightarrow> if e = NotFound then Inr None
                     else Inl (Text (''trusted certificate pin is unavailable: '' @ re_io_text env e))
          | Inr m \<Rightarrow>
              bind_r (check_pin_file env m) (\<lambda>_.
              bind_r (map_err System (re_open env pin)) (\<lambda>opened.
              bind_r (check_pin_file env opened) (\<lambda>_.
                if \<not> same_file opened m then Inl (Text ''trusted certificate pin changed while opening'')
                else
              bind_r (map_err System (re_read env pin)) (\<lambda>bytes.
                if length bytes > 65 then Inl (Text ''trusted certificate pin is oversized'')
                else
              bind_r (ok_or NotUtf8 (from_utf8 bytes)) (\<lambda>text.
                let v = trim_line_ends text in
                if v = [] then Inl (Text ''trusted certificate pin is empty'')
                else bind_r (validate_digest v) (\<lambda>d. Inr (Some d)))))))))"

section \<open>The certificate to register with\<close>

definition signed_binary :: "release_env \<Rightarrow> path option" where
  "signed_binary env = or_else (map_option path_of (re_var env ''EGO_BROWSER_SIGNED_BINARY''))
     (case re_current_exe env of Inl _ \<Rightarrow> None | Inr e \<Rightarrow> Some e)"

definition is_certificate :: "path \<Rightarrow> bool" where
  "is_certificate p = (case file_name p of
      None \<Rightarrow> False | Some name \<Rightarrow> valid_utf8 name \<and> starts_with ''codesign'' name)"

fun ok_values :: "('e + 'a) list \<Rightarrow> 'a list" where
  "ok_values [] = []"
| "ok_values (Inl _ # xs) = ok_values xs"
| "ok_values (Inr x # xs) = x # ok_values xs"

text \<open>The leaf is the first of the extracted certificates in the order of their paths.\<close>

definition leaf_certificate :: "(io_error + path) list \<Rightarrow> path option" where
  "leaf_certificate entries = (case sort (filter is_certificate (ok_values entries)) of
      [] \<Rightarrow> None | leaf # _ \<Rightarrow> Some leaf)"

definition extract_leaf_digest :: "codesign_answers \<Rightarrow> path \<Rightarrow> command_error + string" where
  "extract_leaf_digest cg binary =
     bind_r (map_err System (cg_extract cg binary (cg_directory cg))) (\<lambda>success.
       if \<not> success then Inl (Text ''signed ego-browser binary certificate extraction failed'')
       else
     bind_r (map_err System (cg_read_dir cg (cg_directory cg))) (\<lambda>entries.
     bind_r (ok_or (Text ''signed binary has no certificate leaf'') (leaf_certificate entries)) (\<lambda>leaf.
     bind_r (map_err System (cg_read cg leaf)) (\<lambda>bytes. Inr (cg_sha256_hex cg bytes)))))"

text \<open>Off macOS there is no signed binary.\<close>

definition discover_signed_binary_digest ::
  "release_env \<Rightarrow> codesign_answers \<Rightarrow> command_error + string option" where
  "discover_signed_binary_digest env cg =
     (if \<not> re_macos env then Inr None
      else case signed_binary env of
        None \<Rightarrow> Inr None
      | Some binary \<Rightarrow>
          if \<not> cg_is_file cg binary then Inr None
          else bind_r (map_err System (cg_create_dir cg (cg_directory cg))) (\<lambda>_.
               bind_r (extract_leaf_digest cg binary) (\<lambda>digest. Inr (Some digest))))"

definition development_certificate ::
  "release_env \<Rightarrow> string list \<Rightarrow> release_manifest_evidence option \<Rightarrow> command_error + string" where
  "development_certificate env args manifest =
     bind_r (cmd_option args ''--signer-certificate-sha256'') (\<lambda>explicit.
       let digest = ascii_lower (unwrap_or (or_else explicit
             (or_else (env_var (re_var env) ''EGO_BROWSER_SIGNER_CERTIFICATE_SHA256'')
               (map_option ev_signer_certificate_sha256 manifest))) ''development'')
       in if digest = ''development'' then Inr digest else validate_digest digest)"

definition community_certificate ::
  "release_env \<Rightarrow> string list \<Rightarrow> release_manifest_evidence option \<Rightarrow> command_error + string" where
  "community_certificate env args manifest =
     bind_r (discover_installed_certificate_pin env) (\<lambda>pin.
     bind_r (cmd_option args ''--signer-certificate-sha256'') (\<lambda>explicit.
     bind_r (need ''signer certificate SHA-256 is unavailable from the verified release profile''
        (or_else explicit (or_else pin
          (or_else (env_var (re_var env) ''EGO_BROWSER_SIGNER_CERTIFICATE_SHA256'')
          (or_else (map_option ev_signer_certificate_sha256 manifest)
            (case discover_signed_binary_digest env (re_codesign env 0) of Inr (Some d) \<Rightarrow> Some d | _ \<Rightarrow> None))))))
       (\<lambda>digest.
     bind_r (validate_digest (ascii_lower digest)) (\<lambda>digest.
       if digest \<noteq> TRUSTED_COMMUNITY_SIGNER_CERTIFICATE_SHA256
       then Inl (Text ''signer certificate SHA-256 does not match the built-in community trust pin'')
       else if \<not> re_macos env then Inr digest
       else
     bind_r (discover_signed_binary_digest env (re_codesign env 1)) (\<lambda>observed.
     bind_r (need ''signed ego-browser binary certificate is unavailable'' observed) (\<lambda>observed.
       if observed \<noteq> digest
       then Inl (Text ''signed ego-browser binary certificate does not match the trusted pin'')
       else Inr digest))))))"

definition signer_certificate_sha256_for_profile ::
  "release_env \<Rightarrow> string list \<Rightarrow> string option \<Rightarrow> command_error + string" where
  "signer_certificate_sha256_for_profile env args retained_profile =
     bind_r (cmd_option args ''--release-profile'') (\<lambda>option_profile.
     bind_r (discover_release_manifest env args) (\<lambda>manifest.
       let profile = unwrap_or (or_else option_profile
             (or_else (env_var (re_var env) ''EGO_BROWSER_RELEASE_PROFILE'')
             (or_else retained_profile (map_option ev_profile manifest)))) COMMUNITY_PROFILE_ID
       in if profile \<in> {''logic-test'', ''development-local''}
          then development_certificate env args manifest
          else if profile \<noteq> COMMUNITY_PROFILE_ID
          then Inl (Text (''unsupported ego-browser release profile: '' @ profile))
          else community_certificate env args manifest))"

section \<open>Facts\<close>

lemma trusted_evidence_Inr:
  "trusted_evidence m v = Inr e \<longleftrightarrow>
   validate_digest v = Inr TRUSTED_COMMUNITY_SIGNER_CERTIFICATE_SHA256 \<and>
   e = \<lparr>ev_profile = COMMUNITY_PROFILE_ID,
        ev_signer_certificate_sha256 = TRUSTED_COMMUNITY_SIGNER_CERTIFICATE_SHA256\<rparr>"
  by (auto simp: trusted_evidence_def bind_r_Inr_iff split: if_splits)

lemma validate_components_member:
  "validate_components env n kvs = Inr () \<Longrightarrow> (name, v) \<in> set kvs \<Longrightarrow>
   validate_component env n name v = Inr ()"
  by (induction kvs) (auto simp: bind_r_Inr_iff)

text \<open>What both kinds of evidence say of the build.\<close>

definition describes_build :: "release_env \<Rightarrow> json_object \<Rightarrow> bool" where
  "describes_build env o' \<longleftrightarrow>
     str_field o' ''version'' = Some (re_version env)
     \<and> str_field o' ''profile'' = Some COMMUNITY_PROFILE_ID
     \<and> map_of o' ''hardened_runtime'' = Some (JBool True)
     \<and> map_of o' ''production_ready'' = Some (JBool True)
     \<and> map_of o' ''readiness_blockers'' = Some (JArray [])
     \<and> (\<exists>d. str_field o' ''signer_certificate_sha256'' = Some d
          \<and> validate_digest d = Inr TRUSTED_COMMUNITY_SIGNER_CERTIFICATE_SHA256)"

lemma empty_array_fieldD: "empty_array_field o' f \<Longrightarrow> map_of o' f = Some (JArray [])"
  by (auto simp: empty_array_field_def bind_eq_Some_conv elim: as_array.elims)

lemma component_describes_build:
  assumes "validate_ego_browser_component env o' n = Inr ()"
    "str_field o' ''signer_certificate_sha256'' = Some d"
    "validate_digest d = Inr TRUSTED_COMMUNITY_SIGNER_CERTIFICATE_SHA256"
  shows "describes_build env o'"
  using assms
  by (auto simp: validate_ego_browser_component_def bind_r_Inr_iff describes_build_def texts_are_def
      all_are_def dest!: empty_array_fieldD split: if_splits)

lemma manifest_describes_build:
  assumes "validate_release_manifest_value env v = Inr e"
  shows "\<exists>o'. describes_build env o' \<and>
    ev_signer_certificate_sha256 e = TRUSTED_COMMUNITY_SIGNER_CERTIFICATE_SHA256 \<and>
    ev_profile e = COMMUNITY_PROFILE_ID"
proof -
  obtain o' n components digest browser where parts:
    "validate_components env n components = Inr ()"
    "Option.bind (map_of components EGO_BROWSER_COMPONENT) as_object = Some browser"
    "str_field browser ''signer_certificate_sha256'' = Some digest"
    "trusted_evidence ''release manifest signer certificate does not match the built-in trust pin''
       digest = Inr e"
    using assms
    by (auto simp: validate_release_manifest_value_def bind_r_Inr_iff bind_eq_Some_conv
        split: if_splits)
  obtain w where w: "(EGO_BROWSER_COMPONENT, w) \<in> set components" "as_object w = Some browser"
    using parts(2) by (auto simp: bind_eq_Some_conv dest: map_of_SomeD)
  have "validate_ego_browser_component env browser n = Inr ()"
    using validate_components_member [OF parts(1) w(1)] w(2)
    by (auto simp: validate_component_def bind_r_Inr_iff)
  from component_describes_build [OF this parts(3)] parts(4) show ?thesis
    by (auto simp: trusted_evidence_Inr)
qed

lemma evidence_describes_build:
  assumes "validate_signing_evidence_value env v = Inr e"
  shows "\<exists>o'. describes_build env o' \<and>
    ev_signer_certificate_sha256 e = TRUSTED_COMMUNITY_SIGNER_CERTIFICATE_SHA256 \<and>
    ev_profile e = COMMUNITY_PROFILE_ID"
  using assms
  by (auto simp: validate_signing_evidence_value_def bind_r_Inr_iff trusted_evidence_Inr
      describes_build_def texts_are_def all_are_def dest!: empty_array_fieldD split: if_splits)

lemma artifact_kind:
  assumes "validate_release_artifact env p = Inr e"
  shows "\<exists>v. validate_release_manifest_value env v = Inr e \<or> validate_signing_evidence_value env v = Inr e"
proof -
  obtain v where "(case Option.bind (as_object v) (\<lambda>o'. u64_field o' ''schema_version'') of
      Some n \<Rightarrow>
        if n \<in> {3, 4} then validate_release_manifest_value env v
        else if n = 1 then validate_signing_evidence_value env v
        else Inl (Text ''unsupported release evidence schema'')
    | None \<Rightarrow> Inl (Text ''unsupported release evidence schema'')) = Inr e"
    using assms by (auto simp: validate_release_artifact_def bind_r_Inr_iff)
  then show ?thesis
    by (cases "Option.bind (as_object v) (\<lambda>o'. u64_field o' ''schema_version'')")
      (auto split: if_splits)
qed

lemma artifact_describes_build:
  "validate_release_artifact env p = Inr e \<Longrightarrow> \<exists>o'. describes_build env o' \<and>
    ev_signer_certificate_sha256 e = TRUSTED_COMMUNITY_SIGNER_CERTIFICATE_SHA256 \<and>
    ev_profile e = COMMUNITY_PROFILE_ID"
  using artifact_kind manifest_describes_build evidence_describes_build by blast

lemma discovered_evidence:
  "discover_release_manifest env args = Inr (Some e) \<Longrightarrow> ev_profile e = COMMUNITY_PROFILE_ID"
  by (auto simp: discover_release_manifest_def bind_r_Inr_iff dest: artifact_describes_build
      split: option.splits)

lemma community_certificate_pinned:
  "community_certificate env args manifest = Inr d \<Longrightarrow>
   d = TRUSTED_COMMUNITY_SIGNER_CERTIFICATE_SHA256 \<and>
   (re_macos env \<longrightarrow> discover_signed_binary_digest env (re_codesign env 1) = Inr (Some d))"
  unfolding community_certificate_def bind_r_Inr_iff
  by (auto simp: bind_r_Inr_iff split: if_splits)

lemma ok_values_set [simp]: "x \<in> set (ok_values xs) \<longleftrightarrow> Inr x \<in> set xs"
  by (induction xs rule: ok_values.induct) auto

text \<open>The leaf is the certificate with the least path.\<close>

lemma leaf_certificate_least:
  assumes "leaf_certificate entries = Some leaf"
  shows "Inr leaf \<in> set entries" "is_certificate leaf"
    "Inr p \<in> set entries \<Longrightarrow> is_certificate p \<Longrightarrow> leaf \<le> p"
proof -
  obtain rest where sorted: "sort (filter is_certificate (ok_values entries)) = leaf # rest"
    using assms by (auto simp: leaf_certificate_def split: list.splits)
  then have all: "set (leaf # rest) = set (filter is_certificate (ok_values entries))"
    by (metis set_sort)
  then show "Inr leaf \<in> set entries" "is_certificate leaf" by auto
  have "sorted (leaf # rest)" using sorted by (metis sorted_sort)
  with all show "leaf \<le> p" if "Inr p \<in> set entries" "is_certificate p" using that by auto
qed

text \<open>What a digest that was discovered is the digest of.\<close>

definition leaf_digest_of :: "release_env \<Rightarrow> codesign_answers \<Rightarrow> string \<Rightarrow> bool" where
  "leaf_digest_of env cg d \<longleftrightarrow> (\<exists>binary entries leaf bytes.
     signed_binary env = Some binary \<and> cg_is_file cg binary \<and>
     cg_extract cg binary (cg_directory cg) = Inr True \<and> cg_read_dir cg (cg_directory cg) = Inr entries \<and>
     leaf_certificate entries = Some leaf \<and> cg_read cg leaf = Inr bytes \<and> d = cg_sha256_hex cg bytes)"

lemma discovered_digest:
  assumes "discover_signed_binary_digest env cg = Inr (Some d)"
  shows "leaf_digest_of env cg d"
  using assms
  by (auto simp: discover_signed_binary_digest_def extract_leaf_digest_def bind_r_Inr_iff leaf_digest_of_def
      split: if_splits option.splits)

section \<open>Properties\<close>

text \<open>A device registers with the built-in certificate, which on macOS is also the leaf that \<open>codesign\<close> just
  extracted from the signed binary, unless the command line, the environment or the retained identity names one of the two
  profiles for development; no release manifest can choose those profiles.\<close>

theorem certificate_is_pinned:
  assumes "signer_certificate_sha256_for_profile env args retained = Inr d"
  shows "d = TRUSTED_COMMUNITY_SIGNER_CERTIFICATE_SHA256 \<and>
      (re_macos env \<longrightarrow> leaf_digest_of env (re_codesign env 1) d)
    \<or> (\<exists>p \<in> {''logic-test'', ''development-local''}.
        cmd_option args ''--release-profile'' = Inr (Some p)
        \<or> env_var (re_var env) ''EGO_BROWSER_RELEASE_PROFILE'' = Some p \<or> retained = Some p)"
proof -
  obtain given manifest where steps: "cmd_option args ''--release-profile'' = Inr given"
    "discover_release_manifest env args = Inr manifest"
    using assms by (auto simp: signer_certificate_sha256_for_profile_def bind_r_Inr_iff)
  let ?explicit = "or_else given (or_else (env_var (re_var env) ''EGO_BROWSER_RELEASE_PROFILE'') retained)"
  have profile: "or_else given (or_else (env_var (re_var env) ''EGO_BROWSER_RELEASE_PROFILE'')
      (or_else retained m)) = or_else ?explicit m" for m
    by (cases given; cases "env_var (re_var env) ''EGO_BROWSER_RELEASE_PROFILE''"; cases retained) auto
  show ?thesis
  proof (cases "\<exists>p \<in> {''logic-test'', ''development-local''}. ?explicit = Some p")
    case True
    then show ?thesis
      using steps(1) by (auto simp: or_else_def split: option.splits)
  next
    case False
    have "unwrap_or (or_else ?explicit (map_option ev_profile manifest)) COMMUNITY_PROFILE_ID
        \<notin> {''logic-test'', ''development-local''}"
      using False discovered_evidence steps(2)
      by (cases ?explicit; cases manifest) (auto simp: COMMUNITY_PROFILE_ID_def unwrap_or_def)
    then have "community_certificate env args manifest = Inr d"
      using assms steps
      by (auto simp: signer_certificate_sha256_for_profile_def profile Let_def split: if_splits)
    from community_certificate_pinned [OF this] discovered_digest show ?thesis by blast
  qed
qed

text \<open>A release manifest or signing evidence that is accepted names this version of the bridge and
  the community profile, is marked ready without blockers and with a hardened runtime, and carries
  the built-in certificate.\<close>

theorem evidence_authenticates_build:
  assumes "validate_release_artifact env p = Inr e"
  shows "\<exists>o'. describes_build env o' \<and>
    ev_signer_certificate_sha256 e = TRUSTED_COMMUNITY_SIGNER_CERTIFICATE_SHA256 \<and>
    ev_profile e = COMMUNITY_PROFILE_ID"
  using assms by (rule artifact_describes_build)

section \<open>Witnesses\<close>

definition sample_evidence :: json_object where
  "sample_evidence =
     [(''schema_version'', JNumber (PosInt 1)), (''version'', JString ''0.1.19''),
      (''profile'', JString COMMUNITY_PROFILE_ID), (''production_ready'', JBool True),
      (''readiness_blockers'', JArray []), (''apple_notarized'', JBool False),
      (''public_distribution'', JBool False), (''signing_type'', JString ''project-self-signed''),
      (''signer_certificate_sha256'', JString TRUSTED_COMMUNITY_SIGNER_CERTIFICATE_SHA256),
      (''bridge_signature_verified'', JBool True), (''device_client_signature_verified'', JBool True),
      (''nested_signatures_verified'', JBool True), (''hardened_runtime'', JBool True),
      (''outbound_policy'', JString ''application-enforced''),
      (''credential_profile'', JString ''community_file''),
      (''learning_bundle_digest'', JString TRUSTED_COMMUNITY_SIGNER_CERTIFICATE_SHA256),
      (''learning_bundle_signing_key_id'', JString ''k1'')]"

definition sample_codesign :: codesign_answers where
  "sample_codesign =
     \<lparr>cg_is_file = (\<lambda>_. True), cg_directory = [RootDir], cg_create_dir = (\<lambda>_. Inr ()),
      cg_extract = (\<lambda>_ _. Inr True),
      cg_read_dir = (\<lambda>_. Inr [Inl NotFound, Inr [RootDir, Normal ''codesign1''], Inr [RootDir, Normal ''codesign0'']]),
      cg_read = (\<lambda>_. Inr [1]), cg_sha256_hex = (\<lambda>_. TRUSTED_COMMUNITY_SIGNER_CERTIFICATE_SHA256)\<rparr>"

definition sample_release_env :: release_env where
  "sample_release_env =
     \<lparr>re_version = ''0.1.19'', re_timestamp = (\<lambda>_. None),
      re_parse = (\<lambda>_. Some (JObject sample_evidence)),
      re_var = (\<lambda>n. if n = ''EGO_BROWSER_SIGNING_EVIDENCE'' then Some ''/e'' else None),
      re_io_text = (\<lambda>_. []),
      re_lstat = (\<lambda>_. Inr (meta_of True 7)), re_read = (\<lambda>_. Inr [1]),
      re_open = (\<lambda>_. Inr (meta_of True 7)), re_canonicalize = (\<lambda>p. Inr p),
      re_current_exe = Inr [RootDir, Normal ''d''], re_euid = 501, re_macos = True,
      re_codesign = (\<lambda>_. sample_codesign)\<rparr>"

lemma sample_leaf: "leaf_certificate [Inl NotFound, Inr [RootDir, Normal ''codesign1''], Inr [RootDir, Normal ''codesign0'']]
    = Some [RootDir, Normal ''codesign0'']"
  by code_simp

lemma sample_codesign_digest:
  "re_macos env \<Longrightarrow> re_var env ''EGO_BROWSER_SIGNED_BINARY'' = None \<Longrightarrow>
     re_current_exe env = Inr [RootDir, Normal ''d''] \<Longrightarrow>
     discover_signed_binary_digest env sample_codesign = Inr (Some TRUSTED_COMMUNITY_SIGNER_CERTIFICATE_SHA256)"
  by (simp add: discover_signed_binary_digest_def signed_binary_def sample_codesign_def extract_leaf_digest_def sample_leaf
      or_else_def)

lemma trusted_digest_valid:
  "ascii_lower TRUSTED_COMMUNITY_SIGNER_CERTIFICATE_SHA256 = TRUSTED_COMMUNITY_SIGNER_CERTIFICATE_SHA256"
  "validate_digest TRUSTED_COMMUNITY_SIGNER_CERTIFICATE_SHA256 =
   Inr TRUSTED_COMMUNITY_SIGNER_CERTIFICATE_SHA256"
  "valid_hex (Some TRUSTED_COMMUNITY_SIGNER_CERTIFICATE_SHA256) 64"
  by (simp_all add: validate_digest_def ascii_lower_def TRUSTED_COMMUNITY_SIGNER_CERTIFICATE_SHA256_def
      is_hex_digit_def is_ascii_digit_def valid_hex_def is_some_and_def is_lower_hex_def)

lemma sample_evidence_accepted:
  "validate_signing_evidence_value sample_release_env (JObject sample_evidence) =
   Inr \<lparr>ev_profile = COMMUNITY_PROFILE_ID,
        ev_signer_certificate_sha256 = TRUSTED_COMMUNITY_SIGNER_CERTIFICATE_SHA256\<rparr>"
proof -
  have keys: "require_exact_keys sample_evidence evidence_keys = Inr ()"
    by (simp add: require_exact_keys_def sample_evidence_def evidence_keys_def)
  have semver: "valid_semver (Some ''0.1.19'')"
    by (simp add: valid_semver_def is_ascii_digit_def)
  have id: "signing_key_id_ok ''k1''"
    by (simp add: signing_key_id_ok_def is_ascii_alphanumeric_def is_ascii_alpha_def is_ascii_digit_def)
  have texts: "str_field sample_evidence ''version'' = Some ''0.1.19''"
    "str_field sample_evidence ''profile'' = Some COMMUNITY_PROFILE_ID"
    "str_field sample_evidence ''signing_type'' = Some ''project-self-signed''"
    "str_field sample_evidence ''outbound_policy'' = Some ''application-enforced''"
    "str_field sample_evidence ''credential_profile'' = Some ''community_file''"
    "u64_field sample_evidence ''schema_version'' = Some 1"
    "str_field sample_evidence ''signer_certificate_sha256'' = Some TRUSTED_COMMUNITY_SIGNER_CERTIFICATE_SHA256"
    "str_field sample_evidence ''learning_bundle_digest'' = Some TRUSTED_COMMUNITY_SIGNER_CERTIFICATE_SHA256"
    "str_field sample_evidence ''learning_bundle_signing_key_id'' = Some ''k1''"
    by (simp_all add: sample_evidence_def str_field_def u64_field_def)
  have flags: "all_are sample_evidence (JBool True)
      [''production_ready'', ''bridge_signature_verified'', ''device_client_signature_verified'',
       ''nested_signatures_verified'', ''hardened_runtime'']"
    "all_are sample_evidence (JBool False) [''apple_notarized'', ''public_distribution'']"
    "empty_array_field sample_evidence ''readiness_blockers''"
    by (simp_all add: sample_evidence_def all_are_def empty_array_field_def)
  have version: "re_version sample_release_env = ''0.1.19''"
    by (simp add: sample_release_env_def)
  show ?thesis
    by (simp add: validate_signing_evidence_value_def keys semver id texts flags version texts_are_def
        trusted_evidence_def trusted_digest_valid)
qed

lemma sample_artifact_accepted:
  "validate_release_artifact sample_release_env (path_of ''/e'') =
   Inr \<lparr>ev_profile = COMMUNITY_PROFILE_ID,
        ev_signer_certificate_sha256 = TRUSTED_COMMUNITY_SIGNER_CERTIFICATE_SHA256\<rparr>"
proof -
  have "read_release_json sample_release_env (path_of ''/e'') = Inr (JObject sample_evidence)"
    by (simp add: read_release_json_def sample_release_env_def meta_of_def)
  moreover have "u64_field sample_evidence ''schema_version'' = Some 1"
    by (simp add: sample_evidence_def u64_field_def)
  ultimately show ?thesis
    using sample_evidence_accepted by (simp add: validate_release_artifact_def)
qed

theorem evidence_authenticates_build_witness:
  "\<exists>o'. describes_build sample_release_env o'"
  using evidence_authenticates_build [OF sample_artifact_accepted] by blast

theorem certificate_is_pinned_witness:
  "signer_certificate_sha256_for_profile sample_release_env [''ensure''] None =
     Inr TRUSTED_COMMUNITY_SIGNER_CERTIFICATE_SHA256 \<and>
   leaf_digest_of sample_release_env sample_codesign TRUSTED_COMMUNITY_SIGNER_CERTIFICATE_SHA256"
proof -
  have var: "re_var sample_release_env n = (if n = ''EGO_BROWSER_SIGNING_EVIDENCE'' then Some ''/e'' else None)"
    "env_var (re_var sample_release_env) ''EGO_BROWSER_RELEASE_PROFILE'' = None"
    "env_var (re_var sample_release_env) ''EGO_BROWSER_SIGNER_CERTIFICATE_SHA256'' = None" for n
    by (simp_all add: sample_release_env_def env_var_def)
  have opt: "cmd_option [''ensure''] n = Inr None" if "n \<noteq> ''ensure''" for n
    using that by (simp add: cmd_option_def)
  have found: "discover_release_manifest sample_release_env [''ensure''] =
      Inr (Some \<lparr>ev_profile = COMMUNITY_PROFILE_ID,
        ev_signer_certificate_sha256 = TRUSTED_COMMUNITY_SIGNER_CERTIFICATE_SHA256\<rparr>)"
    using sample_artifact_accepted by (simp add: discover_release_manifest_def opt var)
  have community: "community_certificate sample_release_env [''ensure''] m =
      Inr TRUSTED_COMMUNITY_SIGNER_CERTIFICATE_SHA256"
    if "m = Some \<lparr>ev_profile = COMMUNITY_PROFILE_ID,
        ev_signer_certificate_sha256 = TRUSTED_COMMUNITY_SIGNER_CERTIFICATE_SHA256\<rparr>" for m
    using that
    by (simp add: community_certificate_def opt var discover_installed_certificate_pin_def
        sample_codesign_digest sample_release_env_def installed_certificate_pin_path_def
        installed_release_directory_def path_parent_def valid_name_def file_name_def env_var_def trusted_digest_valid)
  have codesign: "re_macos sample_release_env" "re_codesign sample_release_env 1 = sample_codesign"
    by (simp_all add: sample_release_env_def)
  have run: "signer_certificate_sha256_for_profile sample_release_env [''ensure''] None =
      Inr TRUSTED_COMMUNITY_SIGNER_CERTIFICATE_SHA256"
    using found community
    by (simp add: signer_certificate_sha256_for_profile_def opt var unwrap_or_def Let_def)
      (simp add: COMMUNITY_PROFILE_ID_def)
  show ?thesis
    using certificate_is_pinned [OF run] run codesign by (auto simp: opt var(2))
qed

end
