(* ===== verification/Runtime_Discovery.thy ===== *)
theory Runtime_Discovery
  imports Device_Arguments Runtime_Probe Allowlist
begin

text \<open>
  How the device client finds the local runtime, \<open>crates/device-client/src/main.rs\<close>: the candidate
  executables in their order, and the probe that runs each with \<open>--version\<close> until one answers with
  the supported version.
\<close>

record launch =
  ln_success :: bool
  ln_stdout :: bytes
  ln_stderr :: bytes

record runtime_env =
  rn_var_os :: "string \<Rightarrow> string option"
  rn_canonicalize :: "path \<Rightarrow> io_error + path"
  rn_metadata :: "path \<Rightarrow> io_error + file_meta"
  rn_launch :: "path \<Rightarrow> io_error + launch"
  rn_macos :: bool

definition metadata_is_executable :: "file_meta \<Rightarrow> bool" where
  "metadata_is_executable m \<longleftrightarrow> mode_bits m 0x49 \<noteq> 0"

definition push_runtime_candidate :: "runtime_env \<Rightarrow> path \<Rightarrow> path list \<Rightarrow> path list" where
  "push_runtime_candidate env p candidates =
     (case rn_canonicalize env p of
        Inl _ \<Rightarrow> candidates
      | Inr p \<Rightarrow>
     (case rn_metadata env p of
        Inl _ \<Rightarrow> candidates
      | Inr m \<Rightarrow>
          if \<not> fm_file m \<or> \<not> metadata_is_executable m \<or> p \<in> set candidates then candidates
          else candidates @ [p]))"

definition push_all :: "runtime_env \<Rightarrow> path list \<Rightarrow> path list \<Rightarrow> path list" where
  "push_all env ps candidates = foldl (\<lambda>cs p. push_runtime_candidate env p cs) candidates ps"

definition ego_lite_app_paths :: "path \<Rightarrow> path list" where
  "ego_lite_app_paths app =
     [path_join (path_join (path_join app
        (path_of ''Contents/Frameworks/ego Framework.framework/Versions''))
        (path_of SUPPORTED_LOCAL_RUNTIME_VERSION)) (path_of ''Helpers/ego-browser''),
      path_join app
        (path_of ''Contents/Frameworks/ego Framework.framework/Versions/Current/Helpers/ego-browser''),
      path_join app (path_of ''Contents/MacOS/ego-browser'')]"

definition nonempty_path :: "string option \<Rightarrow> path option" where
  "nonempty_path v = (case v of None \<Rightarrow> None | Some s \<Rightarrow> if s = [] then None else Some (path_of s))"

definition search_paths :: "string option \<Rightarrow> path list" where
  "search_paths search_path = (case search_path of
      None \<Rightarrow> []
    | Some s \<Rightarrow> map (\<lambda>d. path_join (path_of d) [Normal ''ego-browser''])
        (filter (\<lambda>d. d \<noteq> []) (split_on (CHR '':'') s)))"

definition home_paths :: "bool \<Rightarrow> string option \<Rightarrow> path list" where
  "home_paths macos home = (case nonempty_path home of
      None \<Rightarrow> []
    | Some h \<Rightarrow>
        [path_join h (path_of ''.local/bin/ego-browser''),
         path_join h (path_of ''.local/share/ego/active_version_dir/Helpers/ego-browser'')]
        @ (if macos then ego_lite_app_paths (path_join h (path_of ''Applications/ego lite.app'')) else []))"

definition runtime_executable_candidates ::
  "runtime_env \<Rightarrow> string option \<Rightarrow> string option \<Rightarrow> string option \<Rightarrow> command_error + path list" where
  "runtime_executable_candidates env explicit search_path home =
     (case nonempty_path explicit of
        Some p \<Rightarrow>
          if \<not> is_absolute p then Inl (Text ''EGO_BROWSER_EXECUTABLE must be an absolute path'')
          else
            let candidates = push_runtime_candidate env p [] in
            if candidates = [] then Inl (Text ''ego-browser runtime is unavailable'')
            else Inr candidates
      | None \<Rightarrow>
          Inr (push_all env (search_paths search_path @ home_paths (rn_macos env) home
            @ (if rn_macos env then ego_lite_app_paths (path_of ''/Applications/ego lite.app'') else []))
            []))"

text \<open>What was seen so far: a failed, a malformed or a mismatched answer.\<close>

record probe_faults =
  pf_failed :: bool
  pf_malformed :: bool
  pf_mismatched :: bool

definition probe_error :: "probe_faults \<Rightarrow> command_error" where
  "probe_error f = Text
     (if pf_mismatched f
      then ''EGO_BROWSER_VERSION_MISMATCH: unsupported local ego-browser runtime''
      else if pf_malformed f then ''ego-browser runtime probe is malformed''
      else if pf_failed f then ''ego-browser runtime probe failed''
      else ''ego-browser runtime is unavailable'')"

fun probe_from :: "runtime_env \<Rightarrow> probe_faults \<Rightarrow> path list \<Rightarrow> command_error + runtime_probe" where
  "probe_from env f [] = Inl (probe_error f)"
| "probe_from env f (executable # rest) =
     (case rn_launch env executable of
        Inl _ \<Rightarrow> probe_from env f rest
      | Inr output \<Rightarrow>
          if \<not> ln_success output then probe_from env (f\<lparr>pf_failed := True\<rparr>) rest
          else (case parse_runtime_probe_output (ln_stdout output) (ln_stderr output) of
              Inl _ \<Rightarrow> probe_from env (f\<lparr>pf_malformed := True\<rparr>) rest
            | Inr probe \<Rightarrow>
                if pr_ego_browser_version probe = SUPPORTED_LOCAL_RUNTIME_VERSION then Inr probe
                else probe_from env (f\<lparr>pf_mismatched := True\<rparr>) rest))"

definition probe_runtime_candidates :: "runtime_env \<Rightarrow> path list \<Rightarrow> command_error + runtime_probe" where
  "probe_runtime_candidates env candidates =
     probe_from env \<lparr>pf_failed = False, pf_malformed = False, pf_mismatched = False\<rparr> candidates"

definition probe_device_runtime :: "runtime_env \<Rightarrow> command_error + runtime_probe" where
  "probe_device_runtime env =
     bind_r (runtime_executable_candidates env (rn_var_os env ''EGO_BROWSER_EXECUTABLE'')
        (rn_var_os env ''PATH'') (rn_var_os env ''HOME'')) (\<lambda>candidates.
       probe_runtime_candidates env candidates)"

section \<open>Facts\<close>

text \<open>The answer of one candidate when it is good enough.\<close>

definition supported_answer :: "runtime_env \<Rightarrow> path \<Rightarrow> runtime_probe option" where
  "supported_answer env p =
     (case rn_launch env p of
        Inl _ \<Rightarrow> None
      | Inr output \<Rightarrow>
          if \<not> ln_success output then None
          else (case parse_runtime_probe_output (ln_stdout output) (ln_stderr output) of
              Inl _ \<Rightarrow> None
            | Inr probe \<Rightarrow>
                if pr_ego_browser_version probe = SUPPORTED_LOCAL_RUNTIME_VERSION then Some probe
                else None))"

lemma probe_from_Inr:
  "probe_from env f cs = Inr probe \<longleftrightarrow> (\<exists>rest. List.map_filter (supported_answer env) cs = probe # rest)"
  by (induction env f cs rule: probe_from.induct)
    (auto simp: supported_answer_def List.map_filter_simps split: sum.splits if_splits)

text \<open>The runtime that is used is the first candidate whose answer has the supported version; a
  candidate that fails, cannot be parsed or has another version never hides a later one.\<close>

theorem first_supported_runtime:
  "probe_runtime_candidates env cs = Inr probe \<longleftrightarrow>
   (\<exists>rest. List.map_filter (supported_answer env) cs = probe # rest)"
  unfolding probe_runtime_candidates_def by (rule probe_from_Inr)

end
