(* ===== verification/Device_Commands.thy ===== *)
theory Device_Commands
  imports Device_Api Release_Evidence Runtime_Discovery
begin

text \<open>
  The world the commands of the device client run in: the files of the store with the faults that
  wait for them, and the requests that were sent.  A command answers with a value or an error of
  \<open>main.rs\<close>.  What it prints is left out; the result says which message it would print.
\<close>

section \<open>Commands\<close>

record device_world =
  dw_files :: files
  dw_faults :: "fault list"
  dw_log :: "http_request list"

type_synonym 'a cmd = "device_world \<Rightarrow> (command_error + 'a) \<times> device_world"

definition c_give :: "'a \<Rightarrow> 'a cmd" where "c_give x = (\<lambda>w. (Inr x, w))"
definition c_lift :: "command_error + 'a \<Rightarrow> 'a cmd" where "c_lift r = (\<lambda>w. (r, w))"
definition c_refuse :: "string \<Rightarrow> 'a cmd" where "c_refuse message = (\<lambda>w. (Inl (Text message), w))"
definition c_fail :: "credential_error \<Rightarrow> 'a cmd" where "c_fail e = (\<lambda>w. (Inl (Credential e), w))"

definition c_then :: "'a cmd \<Rightarrow> ('a \<Rightarrow> 'b cmd) \<Rightarrow> 'b cmd" where
  "c_then m f = (\<lambda>w. case m w of (Inl e, w) \<Rightarrow> (Inl e, w) | (Inr x, w) \<Rightarrow> f x w)"

definition c_attempt :: "'a cmd \<Rightarrow> (command_error + 'a) cmd" where
  "c_attempt m = (\<lambda>w. case m w of (r, w) \<Rightarrow> (Inr r, w))"

definition on_store :: "'a store_op \<Rightarrow> 'a cmd" where
  "on_store m = (\<lambda>w. case m (dw_files w, dw_faults w) of
     (r, st, fs) \<Rightarrow> (lift_c r, w\<lparr>dw_files := st, dw_faults := fs\<rparr>))"

definition on_api :: "'a api \<Rightarrow> 'a cmd" where
  "on_api m = (\<lambda>w. case m (dw_log w) of (r, log) \<Rightarrow> (lift_c r, w\<lparr>dw_log := log\<rparr>))"

text \<open>The store's result as a value, and an operation whose result is discarded.\<close>

definition try_store :: "'a store_op \<Rightarrow> (credential_error + 'a) cmd" where
  "try_store m = on_store (attempt m)"

definition discard :: "'a store_op \<Rightarrow> unit cmd" where
  "discard m = c_then (try_store m) (\<lambda>_. c_give ())"

text \<open>A document that may be missing.\<close>

definition if_present :: "'a store_op \<Rightarrow> 'a option cmd" where
  "if_present m = c_then (try_store m) (\<lambda>r. case r of
       Inr x \<Rightarrow> c_give (Some x)
     | Inl e \<Rightarrow> if e = Missing then c_give None else c_fail e)"

definition c_check :: "bool \<Rightarrow> command_error \<Rightarrow> unit cmd" where
  "c_check b e = (if b then c_give () else c_lift (Inl e))"

lemma c_simps [simp]:
  "c_give x w = (Inr x, w)" "c_lift r w = (r, w)" "c_fail e w = (Inl (Credential e), w)"
  "c_refuse t w = (Inl (Text t), w)"
  "c_then m f w = (case m w of (Inl e, w) \<Rightarrow> (Inl e, w) | (Inr x, w) \<Rightarrow> f x w)"
  "c_check b ce w = (if b then Inr () else Inl ce, w)"
  by (simp_all add: c_give_def c_lift_def c_fail_def c_refuse_def c_then_def c_check_def)

lemma c_then_Inr:
  "c_then m f w = (Inr r, w') \<longleftrightarrow> (\<exists>x w1. m w = (Inr x, w1) \<and> f x w1 = (Inr r, w'))"
  by (auto split: prod.splits sum.splits)

section \<open>What a command is given\<close>

text \<open>\<open>de_random\<close> completes a key file of the first format, \<open>de_generated\<close> is the identity drawn by
  \<open>DeviceIdentity::generate\<close> (an id, a signing key and an encryption key), \<open>de_next_keys\<close> the keys
  drawn for a rotation and \<open>de_new_key\<close> the 32 random bytes of \<open>new_idempotency_key\<close> in base64.  The
  clock does not move during a command, except that \<open>de_now_answer\<close> is the time of the answer.\<close>

record device_env =
  de_api :: api_env
  de_policy :: policy_env
  de_runtime :: runtime_env
  de_release :: release_env
  de_var :: "string \<Rightarrow> string option"
  de_random :: bytes
  de_generated :: "string \<times> bytes \<times> bytes"
  de_next_keys :: "bytes \<times> bytes"
  de_new_key :: string
  de_stdin :: "io_error + string"
  de_lock_registration :: "io_error + unit"
  de_lock_policy :: "io_error + unit"
  de_timestamp :: "string \<Rightarrow> int option"
  de_now_answer :: u64
  de_to_text :: "json \<Rightarrow> string"

abbreviation de_store :: "device_env \<Rightarrow> store_env" where
  "de_store env \<equiv> ap_store (de_api env)"

definition generate_identity :: "device_env \<Rightarrow> string \<Rightarrow> string \<Rightarrow> identity" where
  "generate_identity env release_profile credential_profile =
     (case de_generated env of (device_id, signing, encryption) \<Rightarrow>
        \<lparr>ik_device_id = device_id, ik_signing_key = signing, ik_encryption_key = encryption,
         ik_generation = 1, ik_release_profile = release_profile,
         ik_credential_profile = credential_profile, ik_legacy = False\<rparr>)"

text \<open>Every error of the probe is the same incompatibility.\<close>

definition probed_runtime :: "device_env \<Rightarrow> runtime_probe cmd" where
  "probed_runtime env =
     c_lift (map_err (\<lambda>_. Credential CompatibilityMismatch) (probe_device_runtime (de_runtime env)))"

definition policy_store_error :: "'a store_op \<Rightarrow> 'a cmd" where
  "policy_store_error m = c_then (try_store m) (\<lambda>r. case r of
       Inr x \<Rightarrow> c_give x | Inl e \<Rightarrow> c_fail (map_local_policy_error e))"

definition load_policy_for ::
  "device_env \<Rightarrow> runtime_probe \<Rightarrow> (local_policy \<times> verified_local_policy) store_op" where
  "load_policy_for env runtime = load_policy (de_policy env) (Some SUPPORTED_SKILL_VERSION)
     (Some (pr_ego_browser_version runtime))"

definition load_verified_policy :: "device_env \<Rightarrow> (local_policy \<times> verified_local_policy) cmd" where
  "load_verified_policy env =
     c_then (probed_runtime env) (\<lambda>runtime. policy_store_error (load_policy_for env runtime))"

definition signer_certificate :: "device_env \<Rightarrow> string list \<Rightarrow> identity \<Rightarrow> string cmd" where
  "signer_certificate env args i =
     c_lift (map_err (\<lambda>_. Credential CompatibilityMismatch)
       (signer_certificate_sha256_for_profile (de_release env) args (Some (ik_release_profile i))))"

text \<open>The credential that has not expired and the identity it names.\<close>

definition current_credential :: "device_env \<Rightarrow> (community_credential \<times> identity) cmd" where
  "current_credential env =
     c_then (on_store (load_credential_at (de_store env) (st_now (de_store env)))) (\<lambda>c.
     c_then (on_store (credential_identity (de_random env) c)) (\<lambda>i. c_give (c, i)))"

definition identity_client :: "device_env \<Rightarrow> community_credential \<Rightarrow> identity \<Rightarrow> device_client cmd" where
  "identity_client env c i = c_lift (lift_c (client_with_identity (de_api env) c i))"

section \<open>What a command may change\<close>

text \<open>\<open>writes Q m\<close>: every file that \<open>m\<close> changes ends with an entry that \<open>Q\<close> allows for it.\<close>

definition writes :: "(store_file \<Rightarrow> entry \<Rightarrow> bool) \<Rightarrow> 'a store_op \<Rightarrow> bool" where
  "writes Q m \<longleftrightarrow> (\<forall>st fs r st' fs'. m (st, fs) = (r, st', fs') \<longrightarrow>
     (\<forall>f. st' f = st f \<or> Q f (st' f)))"

text \<open>\<open>effects Q L m\<close>: besides, every request that \<open>m\<close> sends satisfies \<open>L\<close>.\<close>

definition effects ::
  "(store_file \<Rightarrow> entry \<Rightarrow> bool) \<Rightarrow> (http_request \<Rightarrow> bool) \<Rightarrow> 'a cmd \<Rightarrow> bool" where
  "effects Q L m \<longleftrightarrow> (\<forall>w r w'. m w = (r, w') \<longrightarrow>
     (\<forall>f. dw_files w' f = dw_files w f \<or> Q f (dw_files w' f)) \<and>
     (\<exists>new. dw_log w' = dw_log w @ new \<and> (\<forall>q \<in> set new. L q)))"

named_theorems writes_intros \<open>store operations and what they change\<close>
named_theorems effects_intros \<open>commands and what they change\<close>

lemma writes_read_only: "read_only m \<Longrightarrow> writes Q m"
  unfolding writes_def using read_only_at by (metis prod.inject)

lemmas writes_basic [writes_intros] = read_only_basic [THEN writes_read_only]

lemma writes_document [writes_intros]: "writes Q (read_document c f)"
  by (intro writes_read_only read_only_intros)

lemma writes_andthen [writes_intros]:
  assumes "writes Q m" "\<And>x s s'. m s = (Inr x, s') \<Longrightarrow> writes Q (f x)"
  shows "writes Q (andthen m f)"
  unfolding writes_def
proof (intro allI impI)
  fix st fs r st' fs' g
  assume run: "andthen m f (st, fs) = (r, st', fs')"
  obtain r1 st1 fs1 where m: "m (st, fs) = (r1, st1, fs1)" by (metis prod_cases3)
  note first = assms(1) [unfolded writes_def, rule_format, OF m, of g]
  show "st' g = st g \<or> Q g (st' g)"
  proof (cases r1)
    case (Inl e)
    with run m have "st' = st1" by simp
    with first show ?thesis by simp
  next
    case (Inr x)
    with run m have n: "f x (st1, fs1) = (r, st', fs')" by simp
    have "m (st, fs) = (Inr x, (st1, fs1))" using m Inr by simp
    from first assms(2) [OF this, unfolded writes_def, rule_format, OF n, of g] show ?thesis by metis
  qed
qed

lemma writes_attempt [writes_intros]: "writes Q m \<Longrightarrow> writes Q (attempt m)"
  unfolding writes_def attempt_def by (auto split: prod.splits)

lemma writes_if [writes_intros]: "writes Q a \<Longrightarrow> writes Q b \<Longrightarrow> writes Q (if c then a else b)"
  by simp

lemma writes_sum [writes_intros]:
  "(\<And>e. writes Q (f e)) \<Longrightarrow> (\<And>x. writes Q (g x)) \<Longrightarrow> writes Q (case r of Inl e \<Rightarrow> f e | Inr x \<Rightarrow> g x)"
  by (cases r) auto

lemma writes_option [writes_intros]:
  "writes Q f \<Longrightarrow> (\<And>x. writes Q (g x)) \<Longrightarrow> writes Q (case r of None \<Rightarrow> f | Some x \<Rightarrow> g x)"
  by (cases r) auto

lemma writes_prod [writes_intros]:
  "(\<And>a b. writes Q (f a b)) \<Longrightarrow> writes Q (case p of (a, b) \<Rightarrow> f a b)"
  by (cases p) auto

lemma writes_atomic [writes_intros]: "Q f (Content bs) \<Longrightarrow> writes Q (atomic_owner_write f bs)"
  unfolding writes_def using write_cases by (metis fun_upd_apply)

lemma writes_removal [writes_intros]: "Q f Absent \<Longrightarrow> writes Q (remove_owner_file_if_present f)"
  unfolding writes_def using removal_cases by (metis fun_upd_apply)

text \<open>What the result of a check or of a lifted value says.\<close>

lemma lift_s_result [simp]: "lift_s r s = (Inr x, s') \<longleftrightarrow> r = Inr x \<and> s' = s"
  by (cases s) (auto simp: lift_s_def)

lemma check_s_result [simp]: "check_s c e s = (Inr x, s') \<longleftrightarrow> c \<and> s' = s"
  by auto

lemma effects_basic [effects_intros]:
  "effects Q L (c_give x)" "effects Q L (c_lift r)" "effects Q L (c_fail e)"
  "effects Q L (c_refuse t)" "effects Q L (c_check b ce)"
  by (auto simp: effects_def)

lemma effects_then [effects_intros]:
  assumes "effects Q L m" "\<And>x w w'. m w = (Inr x, w') \<Longrightarrow> effects Q L (f x)"
  shows "effects Q L (c_then m f)"
  unfolding effects_def
proof (intro allI impI)
  fix w r w'
  assume run: "c_then m f w = (r, w')"
  obtain r1 w1 where m: "m w = (r1, w1)" by (metis surj_pair)
  note first = assms(1) [unfolded effects_def, rule_format, OF m]
  show "(\<forall>f. dw_files w' f = dw_files w f \<or> Q f (dw_files w' f)) \<and>
     (\<exists>new. dw_log w' = dw_log w @ new \<and> (\<forall>q \<in> set new. L q))"
  proof (cases r1)
    case (Inl e)
    with run m first show ?thesis by auto
  next
    case (Inr x)
    with run m have n: "f x w1 = (r, w')" by simp
    have "m w = (Inr x, w1)" using m Inr by simp
    note second = assms(2) [OF this, unfolded effects_def, rule_format, OF n]
    from first second obtain new more where "dw_log w1 = dw_log w @ new" "dw_log w' = dw_log w1 @ more"
      "\<forall>q \<in> set new. L q" "\<forall>q \<in> set more. L q" by blast
    then have "\<exists>new. dw_log w' = dw_log w @ new \<and> (\<forall>q \<in> set new. L q)"
      by (intro exI [of _ "new @ more"]) auto
    with first second show ?thesis by metis
  qed
qed

lemma effects_attempt [effects_intros]: "effects Q L m \<Longrightarrow> effects Q L (c_attempt m)"
  unfolding effects_def c_attempt_def by (auto split: prod.splits)

lemma effects_store [effects_intros]: "writes Q m \<Longrightarrow> effects Q L (on_store m)"
  unfolding effects_def on_store_def writes_def by (auto split: prod.splits)

lemma effects_try [effects_intros]: "writes Q m \<Longrightarrow> effects Q L (try_store m)"
  unfolding try_store_def by (intro effects_store writes_attempt)

lemma effects_discard [effects_intros]: "writes Q m \<Longrightarrow> effects Q L (discard m)"
  unfolding discard_def by (intro effects_intros)

lemma effects_if [effects_intros]:
  "effects Q L a \<Longrightarrow> effects Q L b \<Longrightarrow> effects Q L (if c then a else b)"
  by simp

lemma effects_sum [effects_intros]:
  "(\<And>e. effects Q L (f e)) \<Longrightarrow> (\<And>x. effects Q L (g x)) \<Longrightarrow>
   effects Q L (case r of Inl e \<Rightarrow> f e | Inr x \<Rightarrow> g x)"
  by (cases r) auto

lemma effects_option [effects_intros]:
  "effects Q L f \<Longrightarrow> (\<And>x. effects Q L (g x)) \<Longrightarrow> effects Q L (case r of None \<Rightarrow> f | Some x \<Rightarrow> g x)"
  by (cases r) auto

lemma effects_prod [effects_intros]:
  "(\<And>a b. effects Q L (f a b)) \<Longrightarrow> effects Q L (case p of (a, b) \<Rightarrow> f a b)"
  by (cases p) auto

lemma effects_present [effects_intros]: "writes Q m \<Longrightarrow> effects Q L (if_present m)"
  unfolding if_present_def by (intro effects_intros)

text \<open>An operation of the client sends only requests that satisfy \<open>L\<close>.\<close>

definition sends_only :: "(http_request \<Rightarrow> bool) \<Rightarrow> 'a api \<Rightarrow> bool" where
  "sends_only L m \<longleftrightarrow> (\<forall>log r log'. m log = (r, log') \<longrightarrow>
     (\<exists>new. log' = log @ new \<and> (\<forall>q \<in> set new. L q)))"

lemma effects_api [effects_intros]: "sends_only L m \<Longrightarrow> effects Q L (on_api m)"
  unfolding effects_def on_api_def sends_only_def by (auto split: prod.splits)

lemma confined_sends: "confined client m \<Longrightarrow> sends_only (on_service client) m"
  by (simp add: confined_def sends_only_def)

lemma sends_weaken: "sends_only L m \<Longrightarrow> (\<And>q. L q \<Longrightarrow> L' q) \<Longrightarrow> sends_only L' m"
  unfolding sends_only_def by blast

lemma effects_run:
  "effects Q L m \<Longrightarrow> m w = (r, w') \<Longrightarrow> dw_files w' f = dw_files w f \<or> Q f (dw_files w' f)"
  by (auto simp: effects_def)

text \<open>What a silent command leaves alone.\<close>

lemma silent_log:
  "effects Q (\<lambda>_. False) m \<Longrightarrow> m w = (r, w') \<Longrightarrow> dw_log w' = dw_log w"
  unfolding effects_def by (metis append_Nil2 equals0I set_empty)

end
