(* ===== verification/Registration.thy ===== *)
theory Registration
  imports Device_Commands
begin

text \<open>
  The commands \<open>ensure\<close> (and its alias \<open>register\<close>) and \<open>device-rotate\<close>,
  \<open>crates/device-client/src/registration.rs\<close>: what is stored before the control plane is asked, the
  request with its idempotency key, and what is stored of the answer.
\<close>

section \<open>Tokens\<close>

text \<open>Standard input is read up to one byte more than a token may have; the text that is read must be
  UTF-8.\<close>

definition token_from_args :: "device_env \<Rightarrow> string list \<Rightarrow> command_error + string" where
  "token_from_args env args =
     bind_r (cmd_option args ''--token'') (\<lambda>inline.
       let stdin_count = length (filter (\<lambda>v. v = ''--token-stdin'') args) in
       if stdin_count > 1 then Inl (Text ''--token-stdin may only be supplied once'')
       else if inline \<noteq> None \<and> stdin_count \<noteq> 0
       then Inl (Text ''--token and --token-stdin are mutually exclusive'')
       else (case inline of
           Some token \<Rightarrow> Inr token
         | None \<Rightarrow>
             if stdin_count = 0 then Inl (Text ''--token or --token-stdin is required'')
             else (case de_stdin env of
                 Inl _ \<Rightarrow> Inl (Text ''failed to read registration token from stdin'')
               | Inr text \<Rightarrow>
                   let raw = take (TOKEN_MAX_BYTES + 1) text in
                   if \<not> valid_utf8 raw
                   then Inl (Text ''failed to read registration token from stdin'')
                   else normalize_stdin_token raw)))"

definition token_from_args_if_present ::
  "device_env \<Rightarrow> string list \<Rightarrow> command_error + string option" where
  "token_from_args_if_present env args =
     (if has_option args ''--token'' \<or> has_option args ''--token-stdin''
      then bind_r (token_from_args env args) (\<lambda>t. Inr (Some t)) else Inr None)"

section \<open>The request\<close>

fun ensure_attempts ::
  "api_env \<Rightarrow> device_client \<Rightarrow> json \<Rightarrow> string \<Rightarrow> u64 list \<Rightarrow> json api" where
  "ensure_attempts env client payload key delays = (\<lambda>log.
     (case ensure_device env client payload key log of
        (Inr v, log) \<Rightarrow> (Inr v, log)
      | (Inl e, log) \<Rightarrow>
          (case delays of
             [] \<Rightarrow> (Inl e, log)
           | delay # rest \<Rightarrow>
               if is_retryable_ensure_error e then ensure_attempts env client payload key rest log
               else (Inl e, log))))"

declare ensure_attempts.simps [simp del]

text \<open>The seconds to wait before each further attempt; \<open>retry_delay\<close> is the wait in milliseconds.\<close>

definition ensure_delays :: "u64 list" where "ensure_delays = [1, 2, 4, 8]"

definition ensure_with_retry :: "api_env \<Rightarrow> device_client \<Rightarrow> json \<Rightarrow> string \<Rightarrow> json api" where
  "ensure_with_retry env client payload key = ensure_attempts env client payload key ensure_delays"

definition retry_delay :: "(string \<Rightarrow> string option) \<Rightarrow> u64 \<Rightarrow> nat" where
  "retry_delay var_os seconds =
     (case filter_opt (\<lambda>m. m \<le> 60000)
        (Option.bind (env_var var_os ''EGO_BROWSER_ENSURE_RETRY_DELAY_MS'') parse_u64) of
        Some milliseconds \<Rightarrow> min (unat milliseconds * unat seconds) (2 ^ 64 - 1)
      | None \<Rightarrow> unat seconds * 1000)"

section \<open>What is stored and asked for\<close>

record ensure_inputs =
  ei_pending :: "pending_registration option"
  ei_credential :: "community_credential option"
  ei_metadata :: "stored_identity_metadata option"
  ei_server :: string
  ei_token :: "string option"
  ei_release_profile :: string
  ei_credential_profile :: string

text \<open>A waiting registration; an expired one needs \<open>--re-enroll\<close>, and says so in the file.\<close>

definition ensure_pending :: "device_env \<Rightarrow> string list \<Rightarrow> pending_registration option cmd" where
  "ensure_pending env args =
     c_then (try_store (load_pending_registration (de_store env))) (\<lambda>r. case r of
       Inr p \<Rightarrow> c_give (Some p)
     | Inl e \<Rightarrow>
         if e = Missing then c_give None
         else if e = PendingExpired \<and> has_option args ''--re-enroll''
         then c_then (on_store (read_pending_registration (de_store env))) (\<lambda>p. c_give (Some p))
         else if e = PendingExpired
         then c_then (discard (record_pending_registration_error (de_store env) (Some ''pending_expired'')))
           (\<lambda>_. c_fail PendingExpired)
         else c_fail e)"

definition requested_server ::
  "string list \<Rightarrow> pending_registration option \<Rightarrow> community_credential option \<Rightarrow>
     stored_identity_metadata option \<Rightarrow> command_error + string" where
  "requested_server args pending credential metadata =
     bind_r (cmd_option args ''--server'') (\<lambda>v.
       need ''--server is required for the first ego-browser ensure''
         (or_else v (or_else (map_option pn_server_url pending)
           (or_else (map_option cc_server_url credential) (map_option im_server_url metadata)))))"

definition requested_release ::
  "device_env \<Rightarrow> string list \<Rightarrow> community_credential option \<Rightarrow> stored_identity_metadata option \<Rightarrow>
     command_error + string" where
  "requested_release env args credential metadata =
     bind_r (cmd_option args ''--release-profile'') (\<lambda>v.
       Inr (unwrap_or (or_else v (or_else (env_var (de_var env) ''EGO_BROWSER_RELEASE_PROFILE'')
         (or_else (map_option cc_release_profile credential) (map_option im_release_profile metadata))))
         COMMUNITY_PROFILE_ID))"

definition requested_credential_profile ::
  "device_env \<Rightarrow> string list \<Rightarrow> stored_identity_metadata option \<Rightarrow> command_error + string" where
  "requested_credential_profile env args metadata =
     bind_r (cmd_option args ''--credential-profile'') (\<lambda>v.
       Inr (unwrap_or (or_else v (or_else (env_var (de_var env) ''EGO_BROWSER_CREDENTIAL_PROFILE'')
         (map_option im_credential_profile metadata))) ''community_file''))"

definition ensure_request ::
  "device_env \<Rightarrow> string list \<Rightarrow> pending_registration option \<Rightarrow> community_credential option \<Rightarrow>
     stored_identity_metadata option \<Rightarrow> command_error + ensure_inputs" where
  "ensure_request env args pending credential metadata =
     bind_r (requested_server args pending credential metadata) (\<lambda>server.
     bind_r (lift_c (canonical_server_url (st_url (de_store env)) server)) (\<lambda>server.
     bind_r (token_from_args_if_present env args) (\<lambda>token.
     bind_r (requested_release env args credential metadata) (\<lambda>release_profile.
     bind_r (requested_credential_profile env args metadata) (\<lambda>credential_profile.
       if credential_profile \<noteq> ''community_file'' then Inl (Credential UnsupportedCredentialProfile)
       else bind_r (if pending \<noteq> None then Inr ()
           else lift_c (validate_requested_identity_context server release_profile credential_profile
             credential metadata)) (\<lambda>_.
         Inr \<lparr>ei_pending = pending, ei_credential = credential, ei_metadata = metadata,
           ei_server = server, ei_token = token, ei_release_profile = release_profile,
           ei_credential_profile = credential_profile\<rparr>))))))"

definition read_ensure_inputs :: "device_env \<Rightarrow> string list \<Rightarrow> ensure_inputs cmd" where
  "read_ensure_inputs env args =
     c_then (ensure_pending env args) (\<lambda>pending.
     c_then (if_present (load_for_rotation (de_store env))) (\<lambda>credential.
     c_then (if_present (load_identity_metadata (de_store env))) (\<lambda>metadata.
       c_lift (ensure_request env args pending credential metadata))))"

section \<open>The identity\<close>

text \<open>The identity of what is stored, or a new one; a key file without a document that names its
  device is never overwritten.\<close>

definition new_identity :: "device_env \<Rightarrow> ensure_inputs \<Rightarrow> identity cmd" where
  "new_identity env inputs =
     c_then (on_store identity_exists) (\<lambda>stored.
       if stored then c_fail Malformed
       else let i = generate_identity env (ei_release_profile inputs) (ei_credential_profile inputs)
         in c_then (on_store (save_identity i)) (\<lambda>_. c_give i))"

definition pending_identity ::
  "device_env \<Rightarrow> ensure_inputs \<Rightarrow> pending_registration \<Rightarrow> identity cmd" where
  "pending_identity env inputs p =
     c_then (on_store (load_identity (de_random env) (pn_device_id p) (pn_release_profile p)
        (pn_credential_profile p))) (\<lambda>i.
     c_then (c_check (pn_server_url p = ei_server inputs) (Credential IdentityOriginConflict)) (\<lambda>_.
     c_then (c_lift (lift_c (validate_pending_identity (de_store env) p i))) (\<lambda>_. c_give i)))"

definition ensure_identity :: "device_env \<Rightarrow> ensure_inputs \<Rightarrow> identity cmd" where
  "ensure_identity env inputs =
     (case ei_pending inputs of
        Some p \<Rightarrow> pending_identity env inputs p
      | None \<Rightarrow> (case ei_credential inputs of
          Some c \<Rightarrow> on_store (load_identity (de_random env) (cc_device_id c)
            (ei_release_profile inputs) (cc_credential_profile c))
        | None \<Rightarrow> (case ei_metadata inputs of
            Some m \<Rightarrow>
              c_then (c_check (im_server_url m = ei_server inputs) (Credential IdentityOriginConflict))
                (\<lambda>_. on_store (metadata_identity (de_random env) m))
          | None \<Rightarrow> new_identity env inputs)))"

definition check_profiles :: "ensure_inputs \<Rightarrow> identity \<Rightarrow> unit cmd" where
  "check_profiles inputs i =
     (if ei_pending inputs = None \<and> (ik_release_profile i \<noteq> ei_release_profile inputs
          \<or> ik_credential_profile i \<noteq> ei_credential_profile inputs)
      then c_fail CompatibilityMismatch
      else if ik_legacy i then c_fail Malformed else c_give ())"

text \<open>An expired registration, or one that is asked to enroll again, gets a new operation key.\<close>

definition renew_pending ::
  "device_env \<Rightarrow> string list \<Rightarrow> ensure_inputs \<Rightarrow> identity \<Rightarrow> pending_registration \<Rightarrow>
     pending_registration cmd" where
  "renew_pending env args inputs i p =
     (if \<not> (pending_is_expired (st_var_os (de_store env)) p (st_now (de_store env))
          \<or> has_option args ''--re-enroll'' \<and> pn_enrollment_mode p = ''ensure'')
      then c_give p
      else if \<not> has_option args ''--re-enroll'' then c_fail PendingExpired
      else if ei_token inputs = None
      then c_refuse ''--token or --token-stdin is required for re-enrollment''
      else if ik_release_profile i \<noteq> ei_release_profile inputs
          \<or> ik_credential_profile i \<noteq> ei_credential_profile inputs
      then c_fail CompatibilityMismatch
      else
        c_then (c_lift (lift_c (validate_requested_identity_context (ei_server inputs)
           (ei_release_profile inputs) (ei_credential_profile inputs) (ei_credential inputs)
           (ei_metadata inputs)))) (\<lambda>_.
        let p = p\<lparr>pn_enrollment_mode := ''re_enroll'', pn_idempotency_key := de_new_key env,
              pn_created_at_unix := st_now (de_store env), pn_last_error_code := None\<rparr>
        in c_then (on_store (save_pending_registration (de_store env) p)) (\<lambda>_. c_give p)))"

definition renewed_pending ::
  "device_env \<Rightarrow> string list \<Rightarrow> ensure_inputs \<Rightarrow> identity \<Rightarrow> pending_registration option cmd" where
  "renewed_pending env args inputs i =
     (case ei_pending inputs of
        None \<Rightarrow> c_give None
      | Some p \<Rightarrow> c_then (renew_pending env args inputs i p) (\<lambda>p. c_give (Some p)))"

definition enrollment_mode ::
  "string list \<Rightarrow> ensure_inputs \<Rightarrow> pending_registration option \<Rightarrow> string" where
  "enrollment_mode args inputs pending =
     (case pending of
        Some p \<Rightarrow> pn_enrollment_mode p
      | None \<Rightarrow>
          if has_option args ''--re-enroll'' then ''re_enroll''
          else if ei_credential inputs \<noteq> None \<or> ei_metadata inputs \<noteq> None then ''ensure''
          else ''initial'')"

section \<open>What is reported of this device\<close>

record registration_inputs =
  ri_runtime :: runtime_probe
  ri_policy :: verified_local_policy
  ri_certificate :: string
  ri_update :: "prepared_update option"

text \<open>A policy whose learning bundle is of an older managed release is prepared for the current one;
  the policy stays locked until the command ends.\<close>

definition managed_policy ::
  "device_env \<Rightarrow> runtime_probe \<Rightarrow> (verified_local_policy \<times> prepared_update option) cmd" where
  "managed_policy env runtime =
     c_then (c_lift (ok_or (Credential CompatibilityMismatch)
        (case re_current_exe (de_release env) of
           Inl _ \<Rightarrow> None | Inr p \<Rightarrow> installed_release_directory (de_release env) p))) (\<lambda>current_release.
     c_then (on_store (lock_policy True (de_lock_policy env))) (\<lambda>_.
       policy_store_error (prepare_managed_learning_bundle_update (de_policy env)
         (re_version (de_release env)) current_release SUPPORTED_SKILL_VERSION
         (pr_ego_browser_version runtime) (pv_trusted_key (de_policy env)))))"

definition local_registration_inputs ::
  "device_env \<Rightarrow> string list \<Rightarrow> identity \<Rightarrow> registration_inputs cmd" where
  "local_registration_inputs env args i =
     c_then (probed_runtime env) (\<lambda>runtime.
     c_then (c_then (try_store (load_policy_for env runtime)) (\<lambda>r. case r of
         Inr (_, policy) \<Rightarrow> c_give (policy, None)
       | Inl e \<Rightarrow>
           if e = LearningBundleInvalid then managed_policy env runtime
           else c_fail (map_local_policy_error e))) (\<lambda>(policy, update).
     c_then (signer_certificate env args i) (\<lambda>certificate.
       c_give \<lparr>ri_runtime = runtime, ri_policy = policy, ri_certificate = certificate,
         ri_update = update\<rparr>)))"

definition local_payload :: "device_env \<Rightarrow> identity \<Rightarrow> registration_inputs \<Rightarrow> string \<Rightarrow> json" where
  "local_payload env i r mode =
     registration_payload (de_store env) (de_to_text env) (re_version (de_release env)) i
       (pr_ego_browser_version (ri_runtime r)) (ri_policy r) (ri_certificate r) mode"

section \<open>Ensure\<close>

datatype ensure_result = AlreadyEnrolled string | Enrolled string

text \<open>Everything that is settled before the request is sent.\<close>

record ensure_plan =
  ep_inputs :: ensure_inputs
  ep_identity :: identity
  ep_mode :: string
  ep_key :: string
  ep_local :: registration_inputs

definition fresh_credential ::
  "device_env \<Rightarrow> ensure_inputs \<Rightarrow> identity \<Rightarrow> community_credential option" where
  "fresh_credential env inputs i =
     filter_opt (\<lambda>c. credential_matches_identity c i (ei_server inputs)
       \<and> credential_is_fresh c (st_now (de_store env))) (ei_credential inputs)"

definition new_pending ::
  "device_env \<Rightarrow> ensure_inputs \<Rightarrow> identity \<Rightarrow> string \<Rightarrow> pending_registration" where
  "new_pending env inputs i mode =
     \<lparr>pn_version = 1, pn_device_id = ik_device_id i, pn_device_generation = ik_generation i,
      pn_server_url = ei_server inputs, pn_release_profile = ik_release_profile i,
      pn_credential_profile = ik_credential_profile i, pn_enrollment_mode = mode,
      pn_signing_public_key_sha256 = signing_digest (de_store env) i,
      pn_encryption_public_key_sha256 = encryption_digest (de_store env) i,
      pn_idempotency_key = de_new_key env, pn_created_at_unix = st_now (de_store env),
      pn_last_error_code = None\<rparr>"

text \<open>The operation key is stored before the first request that carries it.\<close>

definition operation_key ::
  "device_env \<Rightarrow> ensure_inputs \<Rightarrow> identity \<Rightarrow> string \<Rightarrow> pending_registration option \<Rightarrow> string cmd" where
  "operation_key env inputs i mode pending =
     (case pending of
        Some p \<Rightarrow>
          c_then (c_lift (lift_c (validate_pending_identity (de_store env) p i))) (\<lambda>_.
            c_give (pn_idempotency_key p))
      | None \<Rightarrow>
          c_then (on_store (save_pending_registration (de_store env) (new_pending env inputs i mode)))
            (\<lambda>_. c_give (de_new_key env)))"

definition nothing_to_do ::
  "string list \<Rightarrow> pending_registration option \<Rightarrow> registration_inputs \<Rightarrow> bool" where
  "nothing_to_do args pending r \<longleftrightarrow>
     ri_update r = None \<and> \<not> has_option args ''--re-enroll''
     \<and> (pending \<noteq> None \<or> \<not> has_option args ''--force-refresh'')"

definition plan_request ::
  "device_env \<Rightarrow> string list \<Rightarrow> ensure_inputs \<Rightarrow> identity \<Rightarrow> string \<Rightarrow> pending_registration option \<Rightarrow>
     registration_inputs option \<Rightarrow> (ensure_result + ensure_plan) cmd" where
  "plan_request env args inputs i mode pending prepared =
     c_then (operation_key env inputs i mode pending) (\<lambda>key.
     c_then (case prepared of
         Some r \<Rightarrow> c_give r | None \<Rightarrow> local_registration_inputs env args i) (\<lambda>r.
       c_give (Inr \<lparr>ep_inputs = inputs, ep_identity = i, ep_mode = mode, ep_key = key,
         ep_local = r\<rparr>)))"

text \<open>A fresh credential needs no request unless one is asked for or the policy changed.\<close>

definition plan_enrollment ::
  "device_env \<Rightarrow> string list \<Rightarrow> ensure_inputs \<Rightarrow> identity \<Rightarrow> string \<Rightarrow> pending_registration option \<Rightarrow>
     (ensure_result + ensure_plan) cmd" where
  "plan_enrollment env args inputs i mode pending =
     (case fresh_credential env inputs i of
        None \<Rightarrow> plan_request env args inputs i mode pending None
      | Some c \<Rightarrow>
          c_then (local_registration_inputs env args i) (\<lambda>r.
            if nothing_to_do args pending r
            then c_then (if pending \<noteq> None then on_store clear_pending_registration else c_give ())
              (\<lambda>_. c_give (Inl (AlreadyEnrolled (cc_device_id c))))
            else plan_request env args inputs i mode pending (Some r)))"

definition ensure_plan_of :: "device_env \<Rightarrow> string list \<Rightarrow> (ensure_result + ensure_plan) cmd" where
  "ensure_plan_of env args =
     c_then (on_store (lock_registration (de_lock_registration env))) (\<lambda>_.
     c_then (read_ensure_inputs env args) (\<lambda>inputs.
     c_then (ensure_identity env inputs) (\<lambda>i.
     c_then (check_profiles inputs i) (\<lambda>_.
     c_then (renewed_pending env args inputs i) (\<lambda>pending.
     c_then (c_check (enrollment_mode args inputs pending \<in> set enrollment_modes) (Credential Malformed))
       (\<lambda>_.
     c_then (on_store (save_identity_metadata (de_store env) i (ei_server inputs))) (\<lambda>_.
       plan_enrollment env args inputs i (enrollment_mode args inputs pending) pending)))))))"

text \<open>A registration that waited and changes the policy may be answered with the stored credential.\<close>

definition recovers_policy :: "ensure_plan \<Rightarrow> bool" where
  "recovers_policy plan \<longleftrightarrow> ei_pending (ep_inputs plan) \<noteq> None \<and> ri_update (ep_local plan) \<noteq> None"

definition previous_revision :: "ensure_plan \<Rightarrow> u64 option" where
  "previous_revision plan =
     (if recovers_policy plan then None
      else map_option cc_revision (ei_credential (ep_inputs plan)))"

definition plan_payload :: "device_env \<Rightarrow> ensure_plan \<Rightarrow> json" where
  "plan_payload env plan = local_payload env (ep_identity plan) (ep_local plan) (ep_mode plan)"

definition accepted_credential ::
  "device_env \<Rightarrow> ensure_plan \<Rightarrow> json \<Rightarrow> command_error + community_credential" where
  "accepted_credential env plan body =
     bind_r (credential_from_registration_response_strict (de_store env) (de_timestamp env)
        (de_now_answer env) body (ei_server (ep_inputs plan)) (ep_identity plan)
        (ri_certificate (ep_local plan)) (plan_payload env plan) (previous_revision plan)) (\<lambda>c.
     bind_r (if recovers_policy plan
         then lift_c (validate_replayed_registration_credential (ei_credential (ep_inputs plan)) c)
         else Inr ()) (\<lambda>_. Inr c))"

text \<open>The credential is stored first and the waiting registration is removed last.\<close>

definition settle :: "device_env \<Rightarrow> ensure_plan \<Rightarrow> community_credential \<Rightarrow> ensure_result cmd" where
  "settle env plan c =
     c_then (on_store (save_credential (de_store env) c)) (\<lambda>_.
     c_then (case ri_update (ep_local plan) of
         None \<Rightarrow> c_give ()
       | Some u \<Rightarrow> on_store (commit_policy_update_unlocked (de_policy env) u)) (\<lambda>_.
     c_then (on_store (save_identity_metadata (de_store env) (ep_identity plan)
        (ei_server (ep_inputs plan)))) (\<lambda>_.
     c_then (on_store clear_pending_registration) (\<lambda>_. c_give (Enrolled (cc_device_id c))))))"

definition exchange :: "device_env \<Rightarrow> ensure_plan \<Rightarrow> json cmd" where
  "exchange env plan =
     c_then (c_lift (need ''--token or --token-stdin is required for an ego-browser ensure''
        (ei_token (ep_inputs plan)))) (\<lambda>token.
     c_then (c_lift (lift_c (client_with_user_token (de_api env) (ei_server (ep_inputs plan)) token
        (ep_identity plan)))) (\<lambda>client.
     c_then (c_attempt (on_api (ensure_with_retry (de_api env) client (plan_payload env plan)
        (ep_key plan)))) (\<lambda>r. case r of
         Inr body \<Rightarrow> c_give body
       | Inl e \<Rightarrow>
           c_then (discard (record_pending_registration_error (de_store env)
             (Some (case e of Credential ce \<Rightarrow> credential_log_code ce | _ \<Rightarrow> []))))
             (\<lambda>_. c_lift (Inl e)))))"

definition ensure_command :: "device_env \<Rightarrow> string list \<Rightarrow> ensure_result cmd" where
  "ensure_command env args =
     c_then (ensure_plan_of env args) (\<lambda>r. case r of
       Inl result \<Rightarrow> c_give result
     | Inr plan \<Rightarrow>
         c_then (exchange env plan) (\<lambda>body.
         c_then (c_lift (accepted_credential env plan body)) (\<lambda>c. settle env plan c)))"

definition register_command :: "device_env \<Rightarrow> string list \<Rightarrow> ensure_result cmd" where
  "register_command env args = ensure_command env args"

section \<open>A policy that changes under a registered device\<close>

definition synchronize_registered_policy ::
  "device_env \<Rightarrow> string list \<Rightarrow> runtime_probe \<Rightarrow> verified_local_policy \<Rightarrow>
     community_credential option cmd" where
  "synchronize_registered_policy env args runtime policy =
     c_then (if_present (load_for_rotation (de_store env))) (\<lambda>previous. case previous of
       None \<Rightarrow>
         if has_option args ''--token'' \<or> has_option args ''--signer-certificate-sha256''
         then c_refuse ''policy synchronization options require an already registered device''
         else c_give None
     | Some previous \<Rightarrow>
         c_then (c_lift (bind_r (cmd_option args ''--token'')
            (need ''--token is required to change policy for a registered device''))) (\<lambda>token.
         c_then (on_store (credential_identity (de_random env) previous)) (\<lambda>i.
         c_then (signer_certificate env args i) (\<lambda>certificate.
         c_then (c_lift (lift_c (client_with_user_token (de_api env) (cc_server_url previous) token i)))
           (\<lambda>client.
           let payload = registration_payload (de_store env) (de_to_text env)
             (re_version (de_release env)) i (pr_ego_browser_version runtime) policy certificate
             ''ensure''
           in
             c_then (on_api (ensure_with_retry (de_api env) client payload (de_new_key env)))
               (\<lambda>response.
             c_then (c_lift (credential_from_registration_response_strict (de_store env)
                (de_timestamp env) (de_now_answer env) response (cc_server_url previous) i certificate
                payload (Some (cc_revision previous)))) (\<lambda>c. c_give (Some c))))))))"

section \<open>Rotation of the device key\<close>

datatype rotate_result = AlreadyRotated string u64 | Rotated string u64

record rotate_plan =
  rp_credential :: community_credential
  rp_current :: identity
  rp_next :: identity
  rp_certificate :: string
  rp_rotation :: pending_rotation

text \<open>The prepared key of a rotation: the one that waits, or a new one where no binding is active.\<close>

definition prepared_key :: "device_env \<Rightarrow> identity \<Rightarrow> identity cmd" where
  "prepared_key env current =
     c_then (on_store (read_pending_rotation (de_store env))) (\<lambda>existing.
     c_then (on_store (load_pending_identity_rotation (de_random env) current)) (\<lambda>prepared.
       if existing \<noteq> None \<and> prepared = None then c_fail RotationConflict
       else
     c_then (c_then (if_present (load_active_binding (de_store env) (ik_device_id current)))
        (\<lambda>b. c_give (b \<noteq> None))) (\<lambda>has_active_binding.
       if has_active_binding \<and> existing = None \<and> prepared = None
       then c_refuse ''an active binding must be stopped before rotating the device identity''
       else (case prepared of
           Some i \<Rightarrow> c_give i
         | None \<Rightarrow> on_store (prepare_identity_rotation (de_store env) (de_random env)
             (de_next_keys env) current)))))"

definition rotate_plan_of ::
  "device_env \<Rightarrow> string list \<Rightarrow> community_credential \<Rightarrow> identity \<Rightarrow> rotate_plan cmd" where
  "rotate_plan_of env args previous current =
     c_then (signer_certificate env args current) (\<lambda>certificate.
     c_then (prepared_key env current) (\<lambda>next_id.
     c_then (on_store (load_or_create_pending_rotation (de_store env) (de_new_key env) current next_id
        (cc_revision previous) None)) (\<lambda>rotation.
       c_give \<lparr>rp_credential = previous, rp_current = current, rp_next = next_id,
         rp_certificate = certificate, rp_rotation = rotation\<rparr>)))"

definition current_is_target :: "device_env \<Rightarrow> rotate_plan \<Rightarrow> bool" where
  "current_is_target env plan \<longleftrightarrow>
     ik_generation (rp_current plan) = pt_target_generation (rp_rotation plan)
     \<and> same_public_keys (de_store env) (rp_current plan) (rp_next plan)"

definition rotated_credential ::
  "device_env \<Rightarrow> rotate_plan \<Rightarrow> json \<Rightarrow> json \<Rightarrow> command_error + community_credential" where
  "rotated_credential env plan payload body =
     bind_r (credential_from_registration_response_strict (de_store env) (de_timestamp env)
        (de_now_answer env) body (cc_server_url (rp_credential plan)) (rp_next plan)
        (rp_certificate plan) payload
        (if current_is_target env plan then None else Some (cc_revision (rp_credential plan)))) (\<lambda>c.
       if current_is_target env plan \<and> cc_revision c < cc_revision (rp_credential plan)
       then Inl (Credential RotationConflict) else Inr c)"

definition rotate_exchange ::
  "device_env \<Rightarrow> string \<Rightarrow> rotate_plan \<Rightarrow> community_credential cmd" where
  "rotate_exchange env token plan =
     c_then (probed_runtime env) (\<lambda>runtime.
     c_then (policy_store_error (load_policy_for env runtime)) (\<lambda>(_, policy).
       let payload = registration_payload (de_store env) (de_to_text env)
         (re_version (de_release env)) (rp_next plan) (pr_ego_browser_version runtime) policy
         (rp_certificate plan) ''rotate''
       in
         c_then (c_lift (lift_c (client_with_user_token (de_api env)
            (cc_server_url (rp_credential plan)) token (rp_next plan)))) (\<lambda>client.
         c_then (on_api (rotate_device (de_api env) client payload
            (pt_idempotency_key (rp_rotation plan)))) (\<lambda>body.
           c_lift (rotated_credential env plan payload body)))))"

definition rotate_from ::
  "device_env \<Rightarrow> string list \<Rightarrow> string \<Rightarrow> community_credential \<Rightarrow> identity \<Rightarrow> rotate_result cmd" where
  "rotate_from env args token previous current =
     c_then (rotate_plan_of env args previous current) (\<lambda>plan.
     c_then (rotate_exchange env token plan) (\<lambda>c.
     c_then (on_store (commit_identity_rotation (de_store env) (de_random env) (rp_next plan) c)) (\<lambda>_.
       c_give (Rotated (cc_device_id c) (ik_generation (rp_next plan))))))"

definition device_rotate :: "device_env \<Rightarrow> string list \<Rightarrow> rotate_result cmd" where
  "device_rotate env args =
     (if ''--confirm'' \<notin> set args
      then c_refuse ''explicit --confirm is required to rotate the device identity''
      else
     c_then (on_store (lock_registration (de_lock_registration env))) (\<lambda>_.
     c_then (c_lift (token_from_args env args)) (\<lambda>token.
     c_then (on_store (load_for_rotation (de_store env))) (\<lambda>previous.
     c_then (on_store (credential_identity (de_random env) previous)) (\<lambda>current.
     c_then (on_store (finish_interrupted_identity_rotation (de_store env) (de_random env) current
        previous)) (\<lambda>finished.
       if finished then c_give (AlreadyRotated (ik_device_id current) (ik_generation current))
       else rotate_from env args token previous current))))))"

end
