(* ===== verification/Registration_Samples.thy ===== *)
theory Registration_Samples
  imports Registration Api_Properties
begin

text \<open>
  A first enrollment in a small world: a local runtime, a development profile, and a control plane that
  gives a challenge and then stops answering.
\<close>

section \<open>The payload of a registration\<close>

lemma payload_map:
  "map_of (btree_of (payload_fields env to_text version i runtime p certificate mode)) =
   map_of (payload_fields env to_text version i runtime p certificate mode)"
  by (rule map_of_btree_of_distinct) (simp add: payload_fields_def)

text \<open>The client accepts the payload that the commands build for its identity.\<close>

lemma payload_matches:
  "payload_matches_identity env i
     (btree_of (payload_fields (ap_store env) to_text version i runtime p certificate mode))"
  unfolding payload_matches_identity_def str_field_def u64_field_def absent_or_def Let_def payload_map
  by (simp add: payload_fields_def)

section \<open>A small device\<close>

definition lost_control_plane :: api_env where
  "lost_control_plane = small_control_plane
     \<lparr>ap_answer := (\<lambda>log q. if hr_idempotency_key q = None
        then ap_answer small_control_plane log q else None)\<rparr>"

definition small_runtime :: runtime_env where
  "small_runtime =
     \<lparr>rn_var_os = (\<lambda>n. if n = ''EGO_BROWSER_EXECUTABLE'' then Some ''/e'' else None),
      rn_canonicalize = (\<lambda>p. Inr p), rn_metadata = (\<lambda>_. Inr ((meta_of True 7)\<lparr>fm_mode := 0x1C0\<rparr>)),
      rn_launch = (\<lambda>_. Inr \<lparr>ln_success = True, ln_stdout = as_bytes (render_probe sample_probe),
        ln_stderr = []\<rparr>), rn_macos = False\<rparr>"

definition small_device :: device_env where
  "small_device =
     \<lparr>de_api = lost_control_plane, de_policy = sample_policy_env, de_runtime = small_runtime,
      de_release = sample_release_env\<lparr>re_var := (\<lambda>_. None)\<rparr>, de_var = (\<lambda>_. None),
      de_random = replicate 32 0, de_generated = (''d1'', replicate 32 1, replicate 32 1),
      de_next_keys = (replicate 32 2, replicate 32 2), de_new_key = replicate 22 CHR ''k'',
      de_stdin = Inr [], de_lock_registration = Inr (), de_lock_policy = Inr (),
      de_timestamp = (\<lambda>_. None), de_now_answer = 5, de_to_text = (\<lambda>_. [])\<rparr>"

lemma lost_sel [simp]:
  "ap_store lost_control_plane = sample_store_env" "ap_client lost_control_plane = Inr ()"
  "ap_decode lost_control_plane s = Some (replicate (if s = ''s'' then 64 else 32) 0)"
  "ap_host lost_control_plane u = Some ''h''" "ap_sign lost_control_plane k m = ''s''"
  "ap_answer lost_control_plane log q = (if hr_idempotency_key q = None
     then Some (200, Some (JObject [(''data'', JObject [(''challenge'', JString ''c'')])])) else None)"
  by (simp_all add: lost_control_plane_def)

lemma small_device_sel [simp]:
  "de_api small_device = lost_control_plane" "de_policy small_device = sample_policy_env"
  "de_runtime small_device = small_runtime" "de_var small_device v = None"
  "de_generated small_device = (''d1'', replicate 32 1, replicate 32 1)"
  "de_new_key small_device = replicate 22 CHR ''k''" "de_lock_registration small_device = Inr ()"
  "re_var (de_release small_device) v = None"
  by (simp_all add: small_device_def)

lemma small_probe: "probed_runtime small_device w = (Inr sample_probe, w)"
proof -
  have "parse_runtime_probe (as_bytes (render_probe sample_probe)) = Inr sample_probe"
    by code_simp
  then have "parse_runtime_probe_output (as_bytes (render_probe sample_probe)) [] = Inr sample_probe"
    by (simp add: parse_runtime_probe_output_def)
  moreover have "pr_ego_browser_version sample_probe = SUPPORTED_LOCAL_RUNTIME_VERSION"
    by (simp add: sample_probe_def SUPPORTED_LOCAL_RUNTIME_VERSION_def)
  moreover have "path_of ''/e'' = [RootDir, Normal ''e'']"
    by (simp add: path_of_def Let_def List.map_filter_def)
  ultimately show ?thesis
    by (simp add: probed_runtime_def probe_device_runtime_def small_runtime_def
        runtime_executable_candidates_def nonempty_path_def is_absolute_def Let_def
        push_runtime_candidate_def metadata_is_executable_def meta_of_def mode_bits_def
        probe_runtime_candidates_def)
qed

lemma small_default_policy:
  "is_ok (verify sample_policy_env skill runtime default_local_policy)"
  by (simp add: verify_def verify_with_key_def verify_allowlist_def verify_learning_def
      default_local_policy_def MAX_ALLOWLIST_ROOTS_def)

lemma small_policy:
  assumes "dw_files w PolicyFile = Absent"
  shows "\<exists>p. try_store (load_policy_for small_device runtime) w = (Inr (Inr p), w)"
proof -
  obtain v where "verify sample_policy_env (Some SUPPORTED_SKILL_VERSION)
      (Some (pr_ego_browser_version runtime)) default_local_policy = Inr v"
    using small_default_policy is_ok_iff by metis
  with assms show ?thesis
    by (simp add: try_store_def on_store_def attempt_def load_policy_for_def load_policy_def
        load_policy_document_def read_owner_file_def)
qed

definition small_args :: "string list" where
  "small_args = [''--server'', sample_url, ''--token'', ''t'', ''--release-profile'', ''logic-test'']"

lemma small_options:
  "cmd_option small_args ''--server'' = Inr (Some sample_url)"
  "cmd_option small_args ''--token'' = Inr (Some ''t'')"
  "cmd_option small_args ''--release-profile'' = Inr (Some ''logic-test'')"
  "cmd_option small_args ''--credential-profile'' = Inr None"
  "cmd_option small_args ''--release-manifest'' = Inr None"
  "cmd_option small_args ''--signer-certificate-sha256'' = Inr None"
  "has_option small_args ''--token''" "\<not> has_option small_args ''--re-enroll''"
  by (simp_all add: cmd_option_def small_args_def sample_url_def starts_with_def has_option_def)

lemma small_certificate: "signer_certificate small_device small_args i w = (Inr ''development'', w)"
proof -
  have "discover_release_manifest (de_release small_device) small_args = Inr None"
    by (simp add: discover_release_manifest_def small_options)
  then show ?thesis
    by (simp add: signer_certificate_def signer_certificate_sha256_for_profile_def small_options
        development_certificate_def env_var_def unwrap_or_def ascii_lower_def)
qed

lemma small_local_inputs:
  assumes "dw_files w PolicyFile = Absent"
  shows "\<exists>r. local_registration_inputs small_device small_args i w = (Inr r, w)"
proof -
  obtain p where "try_store (load_policy_for small_device sample_probe) w = (Inr (Inr p), w)"
    using small_policy [OF assms] by blast
  then show ?thesis
    by (cases p) (simp add: local_registration_inputs_def small_probe small_certificate)
qed

section \<open>The first enrollment\<close>

definition empty_device :: device_world where
  "empty_device = \<lparr>dw_files = (\<lambda>_. Absent)(RegistrationLockFile := Content []), dw_faults = [],
     dw_log = []\<rparr>"

definition first_inputs :: ensure_inputs where
  "first_inputs =
     \<lparr>ei_pending = None, ei_credential = None, ei_metadata = None, ei_server = sample_url,
      ei_token = Some ''t'', ei_release_profile = ''logic-test'',
      ei_credential_profile = ''community_file''\<rparr>"

definition first_identity :: identity where
  "first_identity = generate_identity small_device ''logic-test'' ''community_file''"

lemma small_server: "canonical_server_url sample_parse sample_url = Inr sample_url"
  by (simp add: canonical_server_url_def sample_parse_def sample_url_def starts_with_def)

lemma small_request:
  "ensure_request small_device small_args None None None = Inr first_inputs"
  by (simp add: ensure_request_def requested_server_def requested_release_def
      requested_credential_profile_def token_from_args_if_present_def token_from_args_def
      small_options small_server validate_requested_identity_context_def
      validate_requested_origin_def is_some_and_def env_var_def unwrap_or_def first_inputs_def)
    (simp add: small_args_def sample_url_def)

lemma small_inputs:
  "read_ensure_inputs small_device small_args empty_device = (Inr first_inputs, empty_device)"
  by (simp add: read_ensure_inputs_def ensure_pending_def if_present_def empty_device_def
      load_pending_registration_def read_pending_registration_def load_for_rotation_def
      load_credential_def load_identity_metadata_def try_store_def attempt_def on_store_def
      read_document_def read_owner_file_def small_request)

lemma small_lock: "on_store (lock_registration (Inr ())) empty_device = (Inr (), empty_device)"
  by (simp add: on_store_def lock_registration_def lock_file_def empty_device_def)

lemma small_identity:
  "ensure_identity small_device first_inputs empty_device =
   (Inr first_identity, empty_device\<lparr>dw_files := (dw_files empty_device)
      (KeyFile := Content (encode_identity first_identity))\<rparr>)"
  by (simp add: ensure_identity_def first_inputs_def new_identity_def on_store_def
      identity_exists_def empty_device_def save_identity_def atomic_owner_write_def Let_def
      first_identity_def)

text \<open>What the first enrollment leaves: the key, the document that names its device and the waiting
  registration.\<close>

definition enrolling_files :: files where
  "enrolling_files = ((\<lambda>_. Absent)(RegistrationLockFile := Content [],
     KeyFile := Content (encode_identity first_identity), IdentityMetadataFile := Content [7],
     PendingRegistrationFile := Content []))"

definition enrolling_device :: device_world where
  "enrolling_device = \<lparr>dw_files = enrolling_files, dw_faults = [], dw_log = []\<rparr>"

lemma first_identity_sel [simp]:
  "ik_device_id first_identity = ''d1''" "ik_generation first_identity = 1"
  "ik_release_profile first_identity = ''logic-test''"
  "ik_credential_profile first_identity = ''community_file''" "\<not> ik_legacy first_identity"
  by (simp_all add: first_identity_def generate_identity_def)

lemma first_metadata_valid:
  "valid_stored_identity_metadata sample_parse (identity_metadata first_identity sample_url)"
  by (simp add: valid_stored_identity_metadata_def identity_metadata_def sample_ids small_server
      profile_text_def is_ascii_alphanumeric_def is_ascii_alpha_def is_ascii_digit_def)

lemma first_pending_writable:
  "writable_registration sample_store_env
     (new_pending small_device first_inputs first_identity ''initial'')"
  by (simp add: writable_registration_def new_pending_def first_inputs_def sample_ids small_server
      is_ok_iff enrollment_modes_def)

lemma small_codecs [simp]:
  "co_write (st_registration sample_store_env) p = []"
  "co_read (st_registration sample_store_env) bs = None"
  by (simp_all add: sample_store_env_def)

lemma first_plan:
  "\<exists>r. ensure_plan_of small_device small_args empty_device =
     (Inr (Inr \<lparr>ep_inputs = first_inputs, ep_identity = first_identity, ep_mode = ''initial'',
        ep_key = replicate 22 CHR ''k'', ep_local = r\<rparr>), enrolling_device)"
proof -
  define w1 where "w1 = empty_device\<lparr>dw_files := (dw_files empty_device)
      (KeyFile := Content (encode_identity first_identity))\<rparr>"
  define w2 where "w2 = w1\<lparr>dw_files := (dw_files w1)(IdentityMetadataFile := Content [7])\<rparr>"
  have identity: "ensure_identity small_device first_inputs empty_device = (Inr first_identity, w1)"
    using small_identity by (simp add: w1_def)
  have profiles: "check_profiles first_inputs first_identity w1 = (Inr (), w1)"
    by (simp add: check_profiles_def first_inputs_def)
  have renewed: "renewed_pending small_device small_args first_inputs first_identity w1 = (Inr None, w1)"
    by (simp add: renewed_pending_def first_inputs_def)
  have mode: "enrollment_mode small_args first_inputs None = ''initial''"
    by (simp add: enrollment_mode_def small_options first_inputs_def)
  have metadata: "on_store (save_identity_metadata sample_store_env first_identity
      (ei_server first_inputs)) w1 = (Inr (), w2)"
    by (simp add: on_store_def save_identity_metadata_def write_document_def atomic_owner_write_def
        first_inputs_def small_server first_metadata_valid w2_def w1_def empty_device_def)
  have world: "w2\<lparr>dw_files := (dw_files w2)(PendingRegistrationFile := Content [])\<rparr> = enrolling_device"
    by (simp add: w2_def w1_def empty_device_def enrolling_device_def enrolling_files_def)
  have pending: "operation_key small_device first_inputs first_identity ''initial'' None w2
      = (Inr (replicate 22 CHR ''k''), enrolling_device)"
    using first_pending_writable
    by (simp add: operation_key_def on_store_def save_pending_registration_def write_document_def
        atomic_owner_write_def flip: world) (simp add: w2_def w1_def empty_device_def)
  obtain r where local: "local_registration_inputs small_device small_args first_identity
      enrolling_device = (Inr r, enrolling_device)"
    using small_local_inputs [of enrolling_device] by (auto simp: enrolling_device_def enrolling_files_def)
  have fresh: "fresh_credential small_device first_inputs first_identity = None"
    by (simp add: fresh_credential_def first_inputs_def filter_opt_def)
  have plan: "plan_enrollment small_device small_args first_inputs first_identity ''initial'' None w2 =
     (Inr (Inr \<lparr>ep_inputs = first_inputs, ep_identity = first_identity, ep_mode = ''initial'',
        ep_key = replicate 22 CHR ''k'', ep_local = r\<rparr>), enrolling_device)"
    by (simp add: plan_enrollment_def fresh plan_request_def pending local)
  show ?thesis
    by (rule exI [of _ r])
      (simp add: ensure_plan_of_def small_lock small_inputs identity profiles renewed mode metadata plan
        enrollment_modes_def)
qed

text \<open>Every attempt is challenged and then lost.\<close>

definition first_client :: device_client where
  "first_client = \<lparr>dc_base_url = sample_url, dc_token = ''t'', dc_identity = Some first_identity\<rparr>"

lemma lost_attempt:
  assumes "payload = registration_payload sample_store_env to_text version first_identity runtime p
    certificate mode"
  shows "\<exists>q. hr_idempotency_key q = Some (replicate 22 CHR ''k'') \<and>
    ensure_device lost_control_plane first_client payload (replicate 22 CHR ''k'') log =
      (Inl Network, log @
        [posted first_client ''/api/v1/ego-browser/proof-challenges''
           (JObject (btree_of (challenge_fields first_identity 1 ''register_device'' None))) None, q])"
proof -
  define o' where "o' = btree_of (payload_fields sample_store_env to_text version first_identity runtime p
    certificate mode)"
  have payload: "payload = JObject o'" by (simp add: assms registration_payload_def o'_def)
  have matches: "payload_matches_identity lost_control_plane first_identity o'"
    using payload_matches [of lost_control_plane] by (simp add: o'_def)
  have "map_of o' ''proof_challenge'' = None" "map_of o' ''proof_signature'' = None"
    using matches unfolding payload_matches_identity_def Let_def by simp_all
  then have keys: "''proof_challenge'' \<notin> set (keys_of o')" "''proof_signature'' \<notin> set (keys_of o')"
    by (simp_all add: map_of_eq_None_iff)
  have signature: "sign_request lost_control_plane first_identity ''register_device'' 1 None
      (replicate 32 0) ''h'' payload = Inr ''s''"
    unfolding sign_request_Inr device_proof_message_Inr
    using keys by (simp add: proof_context_def unwrap_or_default_def payload)
  have key: "rotation_key_ok (replicate 22 CHR ''k'')" by (rule sample_key)
  show ?thesis
    by (rule exI [of _ "posted first_client ''/api/v1/ego-browser/devices/ensure''
        (JObject (insert_field ''proof_signature'' (JString ''s'')
          (insert_field ''proof_challenge'' (JString ''c'') o'))) (Some (replicate 22 CHR ''k''))"])
      (simp add: ensure_device_def key register_device_at_def client_identity_def first_client_def payload
        matches signed_post_def add_proof_for_generation_def api_post_def post_with_idempotency_def
        send_def decode_response_def signature [unfolded payload] filter_opt_def posted_def del: replicate.simps replicate_Suc)
qed

lemma lost_exchange:
  assumes "payload = registration_payload sample_store_env to_text version first_identity runtime p
    certificate mode"
  shows "\<exists>q new. hr_idempotency_key q = Some (replicate 22 CHR ''k'') \<and> q \<in> set new \<and>
    ensure_with_retry lost_control_plane first_client payload (replicate 22 CHR ''k'') log =
      (Inl Network, log @ new)"
proof -
  obtain q where q: "hr_idempotency_key q = Some (replicate 22 CHR ''k'')"
    and step: "\<And>log. fst (ensure_device lost_control_plane first_client payload
      (replicate 22 CHR ''k'') log) = Inl Network"
    "\<exists>c. ensure_device lost_control_plane first_client payload (replicate 22 CHR ''k'') log
      = (Inl Network, log @ [c, q])"
    using lost_attempt [OF assms] by (metis fst_conv)
  have last: "\<exists>new. ensure_attempts lost_control_plane first_client payload (replicate 22 CHR ''k'')
      delays log = (Inl Network, log @ new)" for delays log
  proof (induction delays arbitrary: log)
    case Nil
    show ?case
      using lost_attempt [OF assms, of log] by (subst ensure_attempts.simps) auto
  next
    case (Cons d ds)
    obtain new where one: "ensure_device lost_control_plane first_client payload
        (replicate 22 CHR ''k'') log = (Inl Network, log @ new)"
      using lost_attempt [OF assms, of log] by blast
    show ?case
      using Cons.IH [of "log @ new"] by (subst ensure_attempts.simps) (auto simp: one)
  qed
  obtain c where first: "ensure_device lost_control_plane first_client payload
      (replicate 22 CHR ''k'') log = (Inl Network, log @ [c, q])"
    using step(2) by blast
  obtain new where "ensure_attempts lost_control_plane first_client payload (replicate 22 CHR ''k'')
      [2, 4, 8] (log @ [c, q]) = (Inl Network, (log @ [c, q]) @ new)"
    using last by blast
  then have "ensure_with_retry lost_control_plane first_client payload (replicate 22 CHR ''k'') log =
      (Inl Network, log @ ([c, q] @ new))"
    unfolding ensure_with_retry_def ensure_delays_def by (subst ensure_attempts.simps) (simp add: first)
  with q show ?thesis by (intro exI [of _ q] exI [of _ "[c, q] @ new"]) simp
qed

lemma first_run:
  "\<exists>w' q. ensure_command small_device small_args empty_device = (Inl (Credential Network), w') \<and>
     q \<in> set (dw_log w') \<and> hr_idempotency_key q = Some (replicate 22 CHR ''k'')"
proof -
  obtain r where plan: "ensure_plan_of small_device small_args empty_device =
     (Inr (Inr \<lparr>ep_inputs = first_inputs, ep_identity = first_identity, ep_mode = ''initial'',
        ep_key = replicate 22 CHR ''k'', ep_local = r\<rparr>), enrolling_device)"
    using first_plan by blast
  define plan' where "plan' = \<lparr>ep_inputs = first_inputs, ep_identity = first_identity,
    ep_mode = ''initial'', ep_key = replicate 22 CHR ''k'', ep_local = r\<rparr>"
  have client: "client_with_user_token lost_control_plane sample_url ''t'' first_identity = Inr first_client"
    by (simp add: client_with_user_token_def small_server TOKEN_MAX_BYTES_def visible_token_def
        is_ascii_graphic_def first_client_def)
  have payload: "plan_payload small_device plan' = registration_payload sample_store_env
      (de_to_text small_device) (re_version (de_release small_device)) first_identity
      (pr_ego_browser_version (ri_runtime r)) (ri_policy r) (ri_certificate r) ''initial''"
    by (simp add: plan_payload_def local_payload_def plan'_def)
  obtain q new where q: "hr_idempotency_key q = Some (replicate 22 CHR ''k'')" "q \<in> set new"
    and sent: "ensure_with_retry lost_control_plane first_client (plan_payload small_device plan')
      (replicate 22 CHR ''k'') [] = (Inl Network, [] @ new)"
    using lost_exchange [OF payload] by blast
  define w' where "w' = enrolling_device\<lparr>dw_log := new\<rparr>"
  have inputs: "ei_token first_inputs = Some ''t''" "ei_server first_inputs = sample_url"
    by (simp_all add: first_inputs_def)
  have error: "discard (record_pending_registration_error sample_store_env code) w' = (Inr (), w')" for code
    by (simp add: discard_def try_store_def on_store_def attempt_def record_pending_registration_error_def
        read_pending_registration_def read_document_def read_owner_file_def w'_def enrolling_device_def
        enrolling_files_def)
  have "exchange small_device plan' enrolling_device = (Inl (Credential Network), w')"
    using sent client error
    by (simp add: exchange_def plan'_def inputs on_api_def c_attempt_def enrolling_device_def w'_def)
  with plan have "ensure_command small_device small_args empty_device = (Inl (Credential Network), w')"
    by (simp add: ensure_command_def plan'_def)
  with q show ?thesis by (auto simp: w'_def)
qed

end
