(* ===== verification/Store_Effects.thy ===== *)
theory Store_Effects
  imports Device_Commands
begin

text \<open>
  What every operation of the store may change: for each operation a condition on the files it writes,
  in the form that commands compose.
\<close>

lemma writes_keys [writes_intros]:
  "writes Q identity_exists" "writes Q (load_identity_file random f d rp cp)"
  "writes Q (load_identity random d rp cp)" "writes Q (credential_identity random c)"
  "writes Q (metadata_identity random m)"
proof -
  show exists: "writes Q identity_exists"
    unfolding identity_exists_def by (auto simp: writes_def)
  show loads: "writes Q (load_identity_file random f d rp cp)" for f d rp cp
    unfolding load_identity_file_def by (intro writes_intros)
  show "writes Q (load_identity random d rp cp)" "writes Q (credential_identity random c)"
    "writes Q (metadata_identity random m)"
    unfolding credential_identity_def metadata_identity_def load_identity_def by (rule loads)+
qed

lemma writes_loads [writes_intros]:
  "writes Q (load_credential env now)" "writes Q (load_for_rotation env)"
  "writes Q (load_credential_at env t)" "writes Q (load_identity_metadata env)"
  "writes Q (load_active_binding env d)" "writes Q (load_local_admission env)"
  "writes Q (local_admission_is_open env d b)" "writes Q (read_pending_registration env)"
  "writes Q (load_pending_registration env)"
  unfolding load_credential_at_def load_for_rotation_def load_credential_def load_identity_metadata_def
    load_active_binding_def load_local_admission_def local_admission_is_open_def
    read_pending_registration_def load_pending_registration_def
  by (intro writes_intros)+

lemma writes_rotation_loads [writes_intros]:
  "writes Q (read_pending_rotation env)" "writes Q (load_pending_key random i)"
  "writes Q (load_pending_identity_rotation random i)"
  unfolding read_pending_rotation_def load_pending_key_def load_pending_identity_rotation_def
  by (intro writes_intros)+

lemma writes_policy_loads [writes_intros]:
  "writes Q (load_policy_document penv)" "writes Q (load_policy penv skill runtime)"
  "writes Q (prepare_update penv change)" "writes Q (prepare_allowlist_update penv roots)"
  "writes Q (prepare_learning_bundle_update penv root)"
  "writes Q (prepare_managed_learning_bundle_update penv version release skill' runtime' key)"
  unfolding load_policy_def prepare_allowlist_update_def prepare_learning_bundle_update_def
    prepare_update_def load_policy_document_def prepare_managed_learning_bundle_update_def
  by (intro writes_intros)+

lemma writes_lock:
  assumes "Q f (Content [])"
  shows "writes Q (lock_file f answer busy)"
  unfolding writes_def lock_file_def using assms
  by (auto split: entry.splits sum.splits option.splits if_splits)

lemma writes_locks [writes_intros]:
  "Q RegistrationLockFile (Content []) \<Longrightarrow> writes Q (lock_registration answer)"
  "Q PolicyLockFile (Content []) \<Longrightarrow> writes Q (lock_policy b answer)"
  unfolding lock_registration_def lock_policy_def by (intro writes_lock; assumption)+

lemma writes_save_identity [writes_intros]:
  "Q KeyFile (Content (encode_identity i)) \<Longrightarrow> writes Q (save_identity i)"
  unfolding save_identity_def by (intro writes_intros)

text \<open>A document is written only after its validation.\<close>

lemma writes_save_metadata [writes_intros]:
  "(\<And>url. valid_stored_identity_metadata (st_url env) (identity_metadata i url) \<Longrightarrow>
     Q IdentityMetadataFile (Content (co_write (st_metadata env) (identity_metadata i url)))) \<Longrightarrow>
   writes Q (save_identity_metadata env i server)"
  unfolding save_identity_metadata_def write_document_def by (intro writes_intros) (auto split: if_splits)

lemma writes_save_credential [writes_intros]:
  "(valid_community_credential (st_url env) c None \<Longrightarrow>
     Q CredentialFile (Content (co_write (st_credential env) c))) \<Longrightarrow>
   writes Q (save_credential env c)"
  unfolding save_credential_def write_document_def by (intro writes_intros) (auto split: if_splits)

lemma writes_save_binding [writes_intros]:
  "(validate_active_binding b = Inr () \<Longrightarrow>
     Q ActiveBindingFile (Content (co_write (st_binding env) b))) \<Longrightarrow>
   writes Q (save_active_binding env b)"
  unfolding save_active_binding_def write_document_def by (intro writes_intros) (auto split: if_splits)

lemma writes_admission [writes_intros]:
  "(validate_local_admission_record r = Inr () \<Longrightarrow>
     Q AdmissionFile (Content (co_write (st_admission env) r))) \<Longrightarrow>
   writes Q (write_local_admission env r)"
  unfolding write_local_admission_def write_document_def by (intro writes_intros) (auto split: if_splits)

lemma writes_save_registration [writes_intros]:
  "(writable_registration env p \<Longrightarrow>
     Q PendingRegistrationFile (Content (co_write (st_registration env) p))) \<Longrightarrow>
   writes Q (save_pending_registration env p)"
  unfolding save_pending_registration_def write_document_def by (intro writes_intros) (auto split: if_splits)

lemma read_registration_readable:
  "read_pending_registration env s = (Inr p, s') \<Longrightarrow> readable_registration env p"
  unfolding read_pending_registration_def
  by (cases s) (auto split: prod.splits sum.splits if_splits)

lemma writes_registration_error [writes_intros]:
  assumes "\<And>p. readable_registration env p \<Longrightarrow>
     Q PendingRegistrationFile (Content (co_write (st_registration env) (p\<lparr>pn_last_error_code := code\<rparr>)))"
  shows "writes Q (record_pending_registration_error env code)"
  unfolding record_pending_registration_error_def
proof (rule writes_andthen)
  show "writes Q (attempt (read_pending_registration env))" by (intro writes_intros)
  fix r s s'
  assume "attempt (read_pending_registration env) s = (Inr r, s')"
  then show "writes Q (case r of Inl _ \<Rightarrow> give ()
      | Inr p \<Rightarrow> save_pending_registration env (p\<lparr>pn_last_error_code := code\<rparr>))"
    by (cases r) (auto simp: attempt_def split: prod.splits
        intro!: writes_intros assms dest: read_registration_readable)
qed

lemma writes_clears [writes_intros]:
  "Q ActiveBindingFile Absent \<Longrightarrow> writes Q clear_active_binding"
  "Q PendingRegistrationFile Absent \<Longrightarrow> writes Q clear_pending_registration"
  "Q PendingRotationFile Absent \<Longrightarrow> writes Q clear_pending_rotation_metadata"
  unfolding clear_active_binding_def clear_pending_registration_def clear_pending_rotation_metadata_def
  by (intro writes_intros; assumption)+

lemma writes_commit_policy [writes_intros]:
  "Q PolicyFile (Content (co_write (pv_codec penv) (pu_next update))) \<Longrightarrow>
   writes Q (commit_policy_update_unlocked penv update)"
  unfolding commit_policy_update_unlocked_def commit_policy_update_unlocked_with_key_def
    write_document_def
  by (intro writes_intros)

lemma writes_prepare_rotation [writes_intros]:
  "(\<And>i. Q PendingKeyFile (Content (encode_identity i))) \<Longrightarrow>
   writes Q (prepare_identity_rotation env random keys current)"
  unfolding prepare_identity_rotation_def Let_def by (intro writes_intros)

lemma writes_create_rotation [writes_intros]:
  "(\<And>p. Q PendingRotationFile (Content (co_write (st_rotation env) p))) \<Longrightarrow>
   writes Q (load_or_create_pending_rotation env fresh current next_id revision key)"
  unfolding load_or_create_pending_rotation_def write_document_def Let_def
  by (intro writes_intros)

lemma writes_identity_reference [writes_intros]: "writes Q (local_identity_reference env random)"
  unfolding local_identity_reference_def by (intro writes_intros)

lemma writes_gate_record [writes_intros]: "writes Q (local_admission_record_op env random state)"
  unfolding local_admission_record_op_def by (intro writes_intros)

lemma gate_record_result:
  "local_admission_record_op env random state s = (Inr r, s') \<Longrightarrow> \<exists>d g. r = gate_record env state d g"
  unfolding local_admission_record_op_def
  by (cases s) (auto split: prod.splits sum.splits)

lemma writes_close [writes_intros]:
  assumes "\<And>d g. Q AdmissionFile (Content (co_write (st_admission env)
     (gate_record env LOCAL_ADMISSION_CLOSED d g)))"
  shows "writes Q (close_local_admission env random)"
  unfolding close_local_admission_def
  by (intro writes_intros) (auto dest!: gate_record_result intro: assms)

lemma writes_ready [writes_intros]:
  assumes "\<And>d g. Q AdmissionFile (Content (co_write (st_admission env)
     (gate_record env LOCAL_ADMISSION_READY d g)))"
  shows "writes Q (ready_local_admission env random)"
  unfolding ready_local_admission_def
  by (intro writes_intros) (auto dest!: gate_record_result intro: assms)

lemma writes_open [writes_intros]:
  assumes "\<And>i. validate_local_admission_record (open_record env i b) = Inr () \<Longrightarrow>
     Q AdmissionFile (Content (co_write (st_admission env) (open_record env i b)))"
  shows "writes Q (open_local_admission env random b)"
  unfolding open_local_admission_def binding_identity_def
  by (intro writes_intros assms)

lemma writes_check_removable [writes_intros]: "writes Q (check_removable fs)"
  unfolding writes_def by (induction fs) (auto split: entry.splits)

lemma with_fault_files: "with_fault new (st, fs) = (r, st', fs') \<Longrightarrow> st' = new \<or> st' = st"
  by (cases fs; cases "hd fs") auto

lemma writes_remove_files [writes_intros]:
  "(\<And>f. f \<in> set fs \<Longrightarrow> Q f Absent) \<Longrightarrow> writes Q (remove_files fs)"
proof (induction fs)
  case Nil
  show ?case unfolding remove_files.simps by (rule writes_basic)
next
  case (Cons f fs)
  have "writes Q (\<lambda>(st, fs). case st f of
      Absent \<Rightarrow> (Inr (), st, fs) | _ \<Rightarrow> with_fault (st(f := Absent)) (st, fs))"
    unfolding writes_def using Cons.prems
    by (auto split: entry.splits dest!: with_fault_files)
  with Cons show ?case unfolding remove_files.simps by (intro writes_andthen) auto
qed

lemma writes_clear_store [writes_intros]:
  assumes "\<And>d g. Q AdmissionFile (Content (co_write (st_admission env)
     (gate_record env LOCAL_ADMISSION_CLOSED d g)))" "\<And>f. f \<in> set cleared_files \<Longrightarrow> Q f Absent"
  shows "writes Q (clear_store env random)"
  unfolding clear_store_def by (intro writes_intros assms)

lemma writes_retire [writes_intros]:
  assumes "\<And>i url. valid_stored_identity_metadata (st_url env) (identity_metadata i url) \<Longrightarrow>
     Q IdentityMetadataFile (Content (co_write (st_metadata env) (identity_metadata i url)))"
    and "Q CredentialFile Absent" "Q ActiveBindingFile Absent"
  shows "writes Q (retire_runtime_state env random)"
  unfolding retire_runtime_state_def by (intro writes_intros assms)

lemma writes_local_metadata [writes_intros]:
  assumes "\<And>i url. valid_stored_identity_metadata (st_url env) (identity_metadata i url) \<Longrightarrow>
     Q IdentityMetadataFile (Content (co_write (st_metadata env) (identity_metadata i url)))"
  shows "writes Q (local_metadata env random)"
  unfolding local_metadata_def by (intro writes_intros assms)

lemma writes_commit_rotation [writes_intros]:
  assumes "Q KeyFile (Content (encode_identity i))"
    and "\<And>url. valid_stored_identity_metadata (st_url env) (identity_metadata i url) \<Longrightarrow>
     Q IdentityMetadataFile (Content (co_write (st_metadata env) (identity_metadata i url)))"
    and "valid_community_credential (st_url env) c None \<Longrightarrow>
     Q CredentialFile (Content (co_write (st_credential env) c))"
    and "Q ActiveBindingFile Absent" "Q PendingKeyFile Absent" "Q PendingRotationFile Absent"
  shows "writes Q (commit_identity_rotation env random i c)"
  unfolding commit_identity_rotation_def install_rotation_def by (intro writes_intros assms)

lemma writes_finish_rotation [writes_intros]:
  "Q PendingRotationFile Absent \<Longrightarrow> writes Q (finish_interrupted_identity_rotation env random i c)"
  unfolding finish_interrupted_identity_rotation_def by (intro writes_intros)

end
