(* ===== verification/Registration_Properties.thy ===== *)
theory Registration_Properties
  imports Registration_Samples Store_Effects
begin

text \<open>
  Properties of enrollment: the operation key is durable before a request carries it, the stored key
  is never replaced, and the retries are bounded.
\<close>

section \<open>Requests of one operation\<close>

named_theorems sends_intros \<open>operations of the client and what they send\<close>

lemma sends_basic [sends_intros]: "sends_only L (api_give x)" "sends_only L (api_lift r)"
  by (simp_all add: sends_only_def)

lemma sends_then [sends_intros]:
  assumes "sends_only L m" "\<And>x. sends_only L (f x)"
  shows "sends_only L (api_then m f)"
  unfolding sends_only_def
proof (intro allI impI)
  fix log r log'
  assume run: "api_then m f log = (r, log')"
  obtain r1 log1 where m: "m log = (r1, log1)" by (metis surj_pair)
  note first = assms(1) [unfolded sends_only_def, rule_format, OF m]
  show "\<exists>new. log' = log @ new \<and> (\<forall>q \<in> set new. L q)"
  proof (cases r1)
    case (Inl e)
    with run m first show ?thesis by auto
  next
    case (Inr x)
    with run m have n: "f x log1 = (r, log')" by simp
    from first assms(2) [unfolded sends_only_def, rule_format, OF n]
    obtain new more where "log1 = log @ new" "log' = log1 @ more"
      "\<forall>q \<in> set new. L q" "\<forall>q \<in> set more. L q" by blast
    then show ?thesis by (intro exI [of _ "new @ more"]) auto
  qed
qed

lemma sends_if [sends_intros]: "sends_only L a \<Longrightarrow> sends_only L b \<Longrightarrow> sends_only L (if c then a else b)"
  by simp

lemma sends_option [sends_intros]:
  "sends_only L f \<Longrightarrow> (\<And>x. sends_only L (g x)) \<Longrightarrow>
   sends_only L (case r of None \<Rightarrow> f | Some x \<Rightarrow> g x)"
  by (cases r) auto

lemma sends_post [sends_intros]:
  "L (posted client p body key) \<Longrightarrow> sends_only L (post_with_idempotency env client p body key)"
  unfolding sends_only_def post_with_idempotency_def send_def posted_def by auto

text \<open>The challenge carries no key; the operation itself carries the key of the caller.\<close>

definition keyed :: "string \<Rightarrow> http_request \<Rightarrow> bool" where
  "keyed key q \<longleftrightarrow> hr_idempotency_key q = None \<or> hr_idempotency_key q = Some key"

lemma ensure_device_keyed: "sends_only (keyed key) (ensure_device env client payload key)"
  unfolding ensure_device_def register_device_at_def signed_post_def client_identity_def
    add_proof_for_generation_def api_post_def
  by (intro sends_intros) (simp_all add: keyed_def posted_def)

text \<open>One attempt sends the challenge and the request, at most once each.\<close>

definition sends_at_most :: "nat \<Rightarrow> nat \<Rightarrow> 'a api \<Rightarrow> bool" where
  "sends_at_most n k m \<longleftrightarrow> (\<forall>log r log'. m log = (r, log') \<longrightarrow>
     (\<exists>new. log' = log @ new \<and> length new \<le> n \<and>
        length (filter (\<lambda>q. hr_idempotency_key q \<noteq> None) new) \<le> k))"

named_theorems at_most_intros \<open>operations of the client and how much they send\<close>

lemma at_most_basic [at_most_intros]:
  "sends_at_most n k (api_give x)" "sends_at_most n k (api_lift r)"
  by (simp_all add: sends_at_most_def)

lemma at_most_if [at_most_intros]:
  "sends_at_most n k a \<Longrightarrow> sends_at_most n k b \<Longrightarrow> sends_at_most n k (if c then a else b)"
  by simp

lemma at_most_then:
  assumes "sends_at_most n k m" "\<And>x. sends_at_most n' k' (f x)"
  shows "sends_at_most (n + n') (k + k') (api_then m f)"
  unfolding sends_at_most_def
proof (intro allI impI)
  fix log r log'
  assume run: "api_then m f log = (r, log')"
  obtain r1 log1 where m: "m log = (r1, log1)" by (metis surj_pair)
  from assms(1) [unfolded sends_at_most_def, rule_format, OF m] obtain new where
    new: "log1 = log @ new" "length new \<le> n"
      "length (filter (\<lambda>q. hr_idempotency_key q \<noteq> None) new) \<le> k" by blast
  show "\<exists>new. log' = log @ new \<and> length new \<le> n + n' \<and>
      length (filter (\<lambda>q. hr_idempotency_key q \<noteq> None) new) \<le> k + k'"
  proof (cases r1)
    case (Inl e)
    with run m new show ?thesis by (intro exI [of _ new]) auto
  next
    case (Inr x)
    with run m have n: "f x log1 = (r, log')" by simp
    from assms(2) [unfolded sends_at_most_def, rule_format, OF n] obtain more where
      "log' = log1 @ more" "length more \<le> n'"
      "length (filter (\<lambda>q. hr_idempotency_key q \<noteq> None) more) \<le> k'" by blast
    with new show ?thesis by (intro exI [of _ "new @ more"]) auto
  qed
qed

lemma at_most_lifted [at_most_intros]:
  "(\<And>x. sends_at_most n k (f x)) \<Longrightarrow> sends_at_most n k (api_then (api_lift r) f)"
  using at_most_then [of 0 0 "api_lift r" n k f] by (simp add: at_most_basic)

lemma at_most_post:
  "sends_at_most 1 (if key = None then 0 else 1) (post_with_idempotency env client p body key)"
  unfolding sends_at_most_def post_with_idempotency_def send_def by auto

lemma at_most_keyed [at_most_intros]:
  "sends_at_most 1 1 (post_with_idempotency env client p body (Some key))"
  using at_most_post [of "Some key"] by simp

lemma at_most_challenge [at_most_intros]:
  assumes "\<And>x. sends_at_most 0 0 (f x)"
  shows "sends_at_most 1 0 (api_then (post_with_idempotency env client p body None) f)"
  using at_most_then [OF at_most_post [of None] assms] by simp

lemma at_most_proof:
  "sends_at_most 1 0 (add_proof_for_generation env client payload generation operation binding_id)"
proof (cases "dc_identity client")
  case None
  then show ?thesis
    unfolding add_proof_for_generation_def None option.case by (intro at_most_intros)
next
  case (Some i)
  show ?thesis
    unfolding add_proof_for_generation_def Some option.case api_post_def by (intro at_most_intros)
qed

lemma at_most_signed [at_most_intros]:
  "sends_at_most 2 1 (signed_post env client p payload generation operation binding_id (Some key))"
  using at_most_then [OF at_most_proof at_most_keyed]
  unfolding signed_post_def by (simp add: numeral_2_eq_2)

lemma at_most_ensure: "sends_at_most 2 1 (ensure_device env client payload key)"
  unfolding ensure_device_def register_device_at_def client_identity_def by (intro at_most_intros)

text \<open>The retries of one exchange.\<close>

lemma attempts_send:
  "ensure_attempts env client payload key delays log = (r, log') \<Longrightarrow>
   \<exists>new. log' = log @ new \<and> (\<forall>q \<in> set new. keyed key q) \<and>
     length new \<le> 2 * Suc (length delays) \<and>
     length (filter (\<lambda>q. hr_idempotency_key q \<noteq> None) new) \<le> Suc (length delays)"
proof (induction delays arbitrary: log)
  case Nil
  then have "ensure_device env client payload key log = (r, log')"
    by (subst (asm) ensure_attempts.simps) (auto split: prod.splits sum.splits)
  then show ?case
    using at_most_ensure [unfolded sends_at_most_def, rule_format]
      ensure_device_keyed [unfolded sends_only_def, rule_format] by (fastforce)
next
  case (Cons delay delays)
  obtain r1 log1 where one: "ensure_device env client payload key log = (r1, log1)"
    by (metis surj_pair)
  from at_most_ensure [unfolded sends_at_most_def, rule_format, OF one]
    ensure_device_keyed [unfolded sends_only_def, rule_format, OF one]
  obtain new where new: "log1 = log @ new" "\<forall>q \<in> set new. keyed key q" "length new \<le> 2"
    "length (filter (\<lambda>q. hr_idempotency_key q \<noteq> None) new) \<le> 1" by auto
  show ?case
  proof (cases "log' = log1")
    case True
    with new show ?thesis by (intro exI [of _ new]) auto
  next
    case False
    with Cons.prems one have "ensure_attempts env client payload key delays log1 = (r, log')"
      by (subst (asm) ensure_attempts.simps) (auto split: sum.splits if_splits)
    from Cons.IH [OF this] obtain more where "log' = log1 @ more" "\<forall>q \<in> set more. keyed key q"
      "length more \<le> 2 * Suc (length delays)"
      "length (filter (\<lambda>q. hr_idempotency_key q \<noteq> None) more) \<le> Suc (length delays)" by blast
    with new show ?thesis by (intro exI [of _ "new @ more"]) auto
  qed
qed

text \<open>An enrollment exchange is bounded and repeats itself exactly: whatever the control plane answers,
  at most five requests carry an operation key, each has one challenge before it, and all of them carry
  the one key they were given.\<close>

theorem enrollment_attempts_bounded:
  assumes "ensure_with_retry env client payload key log = (r, log')"
  shows "\<exists>new. log' = log @ new \<and> length new \<le> 10 \<and>
    (\<forall>q \<in> set new. hr_idempotency_key q \<in> {None, Some key}) \<and>
    length (filter (\<lambda>q. hr_idempotency_key q \<noteq> None) new) \<le> 5"
  using attempts_send [OF assms [unfolded ensure_with_retry_def]]
  by (auto simp: ensure_delays_def keyed_def)

section \<open>What each step may change\<close>

lemma effects_runtime [effects_intros]: "effects Q L (probed_runtime env)"
  unfolding probed_runtime_def by (intro effects_intros)

lemma effects_policy_error [effects_intros]: "writes Q m \<Longrightarrow> effects Q L (policy_store_error m)"
  unfolding policy_store_error_def by (intro effects_intros)

lemma effects_policy_for [effects_intros]: "writes Q (load_policy_for env runtime)"
  unfolding load_policy_for_def by (intro writes_intros)

lemma effects_certificate [effects_intros]: "effects Q L (signer_certificate env args i)"
  unfolding signer_certificate_def by (intro effects_intros)

lemma effects_local_inputs [effects_intros]:
  assumes "Q PolicyLockFile (Content [])"
  shows "effects Q L (local_registration_inputs env args i)"
  unfolding local_registration_inputs_def managed_policy_def
  by (intro effects_intros writes_intros assms)

lemma effects_pending [effects_intros]:
  assumes "\<And>p. readable_registration (de_store env) p \<Longrightarrow>
     Q PendingRegistrationFile (Content (co_write (st_registration (de_store env))
       (p\<lparr>pn_last_error_code := Some ''pending_expired''\<rparr>)))"
  shows "effects Q L (ensure_pending env args)"
  unfolding ensure_pending_def by (intro effects_intros writes_intros assms; assumption)

lemma effects_inputs [effects_intros]:
  assumes "\<And>p. readable_registration (de_store env) p \<Longrightarrow>
     Q PendingRegistrationFile (Content (co_write (st_registration (de_store env))
       (p\<lparr>pn_last_error_code := Some ''pending_expired''\<rparr>)))"
  shows "effects Q L (read_ensure_inputs env args)"
  unfolding read_ensure_inputs_def by (intro effects_intros writes_intros assms; assumption)

lemma effects_identity [effects_intros]:
  assumes "\<And>i. Q KeyFile (Content (encode_identity i))"
  shows "effects Q L (ensure_identity env inputs)"
  unfolding ensure_identity_def pending_identity_def new_identity_def Let_def
  by (intro effects_intros writes_intros assms)

lemma effects_profiles [effects_intros]: "effects Q L (check_profiles inputs i)"
  unfolding check_profiles_def by (intro effects_intros)

lemma effects_renewed [effects_intros]:
  assumes "\<And>p. writable_registration (de_store env) p \<Longrightarrow> pn_idempotency_key p = de_new_key env \<Longrightarrow>
     Q PendingRegistrationFile (Content (co_write (st_registration (de_store env)) p))"
  shows "effects Q L (renewed_pending env args inputs i)"
  unfolding renewed_pending_def renew_pending_def Let_def
  by (intro effects_intros writes_intros assms; simp)

lemma effects_plan [effects_intros]:
  assumes "\<And>p. writable_registration (de_store env) p \<Longrightarrow>
     Q PendingRegistrationFile (Content (co_write (st_registration (de_store env)) p))"
    and "Q PendingRegistrationFile Absent" "Q PolicyLockFile (Content [])"
  shows "effects Q L (plan_enrollment env args inputs i mode pending)"
  unfolding plan_enrollment_def plan_request_def operation_key_def
  by (intro effects_intros writes_intros assms; assumption)

section \<open>The operation key is durable before it is sent\<close>

text \<open>The waiting registration on disk has this operation key: its file reads as, or was written as, a
  document with the key.\<close>

definition key_stored :: "store_env \<Rightarrow> string \<Rightarrow> files \<Rightarrow> bool" where
  "key_stored env key st \<longleftrightarrow> (\<exists>bs p. st PendingRegistrationFile = Content bs
     \<and> (co_read (st_registration env) bs = Some p \<or> bs = co_write (st_registration env) p)
     \<and> pn_idempotency_key p = key)"

lemma key_stored_frame:
  "st' PendingRegistrationFile = st PendingRegistrationFile \<Longrightarrow> key_stored env key st \<Longrightarrow>
   key_stored env key st'"
  by (simp add: key_stored_def)

lemma on_store_Inr:
  "on_store m w = (Inr x, w') \<longleftrightarrow>
   (\<exists>st fs. m (dw_files w, dw_faults w) = (Inr x, st, fs) \<and> w' = w\<lparr>dw_files := st, dw_faults := fs\<rparr>)"
  by (auto simp: on_store_def map_err_Inr split: prod.splits)

lemma read_registration_key:
  "read_pending_registration env (st, fs) = (Inr p, st', fs') \<Longrightarrow>
   key_stored env (pn_idempotency_key p) st'"
  unfolding read_pending_registration_def read_document_def read_owner_file_def key_stored_def
  by (auto split: prod.splits sum.splits if_splits entry.splits simp: lift_s_def)

lemma load_registration_key:
  "load_pending_registration env (st, fs) = (Inr p, st', fs') \<Longrightarrow>
   key_stored env (pn_idempotency_key p) st'"
  unfolding load_pending_registration_def
  by (auto split: prod.splits sum.splits if_splits dest!: read_registration_key)

lemma write_Inr: "atomic_owner_write f bs (st, fs) = (Inr x, st', fs') \<Longrightarrow> st' = st(f := Content bs)"
  using write_cases by fastforce

lemma save_registration_key:
  "save_pending_registration env p (st, fs) = (Inr x, st', fs') \<Longrightarrow>
   key_stored env (pn_idempotency_key p) st'"
  unfolding save_pending_registration_def write_document_def key_stored_def
  by (auto split: if_splits dest!: write_Inr)

abbreviation registers :: "device_env \<Rightarrow> pending_registration option \<Rightarrow> device_world \<Rightarrow> bool" where
  "registers env pending w \<equiv>
     (\<forall>p. pending = Some p \<longrightarrow> key_stored (de_store env) (pn_idempotency_key p) (dw_files w))"

lemma try_store_Inr:
  "try_store m w = (Inr x, w') \<longleftrightarrow>
   (\<exists>st fs. m (dw_files w, dw_faults w) = (x, st, fs) \<and> w' = w\<lparr>dw_files := st, dw_faults := fs\<rparr>)"
  by (auto simp: try_store_def on_store_Inr attempt_def split: prod.splits)

lemma ensure_pending_registers:
  assumes "ensure_pending env args w = (Inr pending, w')"
  shows "registers env pending w'"
proof -
  from assms obtain r w1 where
    tried: "try_store (load_pending_registration (de_store env)) w = (Inr r, w1)"
    and rest: "(case r of Inr p \<Rightarrow> c_give (Some p)
     | Inl e \<Rightarrow>
         if e = Missing then c_give None
         else if e = PendingExpired \<and> has_option args ''--re-enroll''
         then c_then (on_store (read_pending_registration (de_store env))) (\<lambda>p. c_give (Some p))
         else if e = PendingExpired
         then c_then (discard (record_pending_registration_error (de_store env) (Some ''pending_expired'')))
           (\<lambda>_. c_fail PendingExpired)
         else c_fail e) w1 = (Inr pending, w')"
    unfolding ensure_pending_def c_then_Inr by blast
  show ?thesis
  proof (cases r)
    case (Inr p)
    with rest have "pending = Some p" "w' = w1" by auto
    with tried Inr show ?thesis by (auto simp: try_store_Inr intro: load_registration_key)
  next
    case (Inl e)
    show ?thesis
    proof (cases "e = PendingExpired \<and> has_option args ''--re-enroll''")
      case True
      with rest Inl have "c_then (on_store (read_pending_registration (de_store env)))
          (\<lambda>p. c_give (Some p)) w1 = (Inr pending, w')" by simp
      then show ?thesis
        unfolding c_then_Inr on_store_Inr by (auto intro: read_registration_key)
    next
      case False
      with rest Inl have "pending = None"
        by (auto split: if_splits prod.splits sum.splits)
      then show ?thesis by simp
    qed
  qed
qed

text \<open>A step that leaves the file of the waiting registration alone.\<close>

lemma other_file:
  "effects (\<lambda>f _. f \<noteq> g) L m \<Longrightarrow> m w = (r, w') \<Longrightarrow> dw_files w' g = dw_files w g"
  unfolding effects_def by blast

lemma registers_frame:
  "effects (\<lambda>f _. f \<noteq> PendingRegistrationFile) L m \<Longrightarrow> m w = (r, w') \<Longrightarrow> registers env pending w \<Longrightarrow>
   registers env pending w'"
  using other_file key_stored_frame by metis

lemma read_inputs_registers:
  assumes "read_ensure_inputs env args w = (Inr inputs, w')"
  shows "registers env (ei_pending inputs) w'"
proof -
  from assms obtain pending w1 credential w2 metadata where
    1: "ensure_pending env args w = (Inr pending, w1)"
    and 2: "if_present (load_for_rotation (de_store env)) w1 = (Inr credential, w2)"
    and 3: "if_present (load_identity_metadata (de_store env)) w2 = (Inr metadata, w')"
    and 4: "ensure_request env args pending credential metadata = Inr inputs"
    unfolding read_ensure_inputs_def c_then_Inr by (auto simp del: c_simps(5))
  have frame: "effects (\<lambda>f _. f \<noteq> PendingRegistrationFile) (\<lambda>_. False)
      (if_present (load_for_rotation (de_store env)))"
    "effects (\<lambda>f _. f \<noteq> PendingRegistrationFile) (\<lambda>_. False)
      (if_present (load_identity_metadata (de_store env)))"
    by (intro effects_intros writes_intros)+
  have "ei_pending inputs = pending"
    using 4 by (auto simp: ensure_request_def bind_r_Inr_iff split: if_splits)
  with ensure_pending_registers [OF 1] registers_frame [OF frame(1) 2] registers_frame [OF frame(2) 3]
  show ?thesis by blast
qed

lemma renewed_registers:
  assumes "renewed_pending env args inputs i w = (Inr pending, w')" "registers env (ei_pending inputs) w"
  shows "registers env pending w'"
proof (cases "ei_pending inputs")
  case None
  with assms(1) show ?thesis by (simp add: renewed_pending_def)
next
  case (Some p)
  from assms(1) Some obtain p' where renewed: "renew_pending env args inputs i p w = (Inr p', w')"
    and pending: "pending = Some p'"
    unfolding renewed_pending_def by (auto split: prod.splits sum.splits)
  from renewed consider "p' = p" "w' = w"
    | q w1 u where "on_store (save_pending_registration (de_store env) q) w1 = (Inr u, w')" "p' = q"
    unfolding renew_pending_def Let_def
    by (auto split: if_splits prod.splits sum.splits)
  then show ?thesis
  proof cases
    case 1
    with assms(2) Some pending show ?thesis by simp
  next
    case 2
    with pending show ?thesis by (auto simp: on_store_Inr intro: save_registration_key)
  qed
qed

lemma operation_key_stored:
  assumes "operation_key env inputs i mode pending w = (Inr key, w')" "registers env pending w"
  shows "key_stored (de_store env) key (dw_files w')"
proof (cases pending)
  case None
  with assms(1) obtain u where
    "on_store (save_pending_registration (de_store env) (new_pending env inputs i mode)) w = (Inr u, w')"
    "key = de_new_key env"
    unfolding operation_key_def by (auto split: prod.splits sum.splits)
  then show ?thesis
    using save_registration_key [of "de_store env" "new_pending env inputs i mode"]
    by (auto simp: on_store_Inr new_pending_def)
next
  case (Some p)
  with assms show ?thesis by (auto simp: operation_key_def split: sum.splits)
qed

lemma plan_request_stored:
  assumes "plan_request env args inputs i mode pending prepared w = (Inr r, w')"
    and "registers env pending w"
  shows "\<exists>plan. r = Inr plan \<and> key_stored (de_store env) (ep_key plan) (dw_files w')"
proof -
  from assms(1) obtain key w1 local where
    key: "operation_key env inputs i mode pending w = (Inr key, w1)"
    and local: "(case prepared of Some r \<Rightarrow> c_give r | None \<Rightarrow> local_registration_inputs env args i) w1
      = (Inr local, w')"
    and r: "r = Inr \<lparr>ep_inputs = inputs, ep_identity = i, ep_mode = mode, ep_key = key, ep_local = local\<rparr>"
    unfolding plan_request_def c_then_Inr by (auto simp del: c_simps(5))
  have "effects (\<lambda>f _. f \<noteq> PendingRegistrationFile) (\<lambda>_. False)
      (case prepared of Some r \<Rightarrow> c_give r | None \<Rightarrow> local_registration_inputs env args i)"
    by (intro effects_intros) simp
  from other_file [OF this local] operation_key_stored [OF key assms(2)] r
  show ?thesis by (simp add: key_stored_def)
qed

lemma plan_enrollment_stored:
  assumes "plan_enrollment env args inputs i mode pending w = (Inr (Inr plan), w')"
    and "registers env pending w"
  shows "key_stored (de_store env) (ep_key plan) (dw_files w')"
proof (cases "fresh_credential env inputs i")
  case None
  with assms plan_request_stored show ?thesis unfolding plan_enrollment_def by fastforce
next
  case (Some c)
  from assms(1) Some obtain r w1 where
    local: "local_registration_inputs env args i w = (Inr r, w1)"
    and rest: "plan_request env args inputs i mode pending (Some r) w1 = (Inr (Inr plan), w')"
    unfolding plan_enrollment_def by (auto split: prod.splits sum.splits if_splits)
  have "effects (\<lambda>f _. f \<noteq> PendingRegistrationFile) (\<lambda>_. False) (local_registration_inputs env args i)"
    by (intro effects_intros) simp
  from plan_request_stored [OF rest registers_frame [OF this local assms(2)]] show ?thesis by auto
qed

text \<open>Before the request the command is silent, and its plan's key is on disk.\<close>

lemma plan_key_stored:
  assumes "ensure_plan_of env args w = (Inr (Inr plan), w')"
  shows "key_stored (de_store env) (ep_key plan) (dw_files w')"
proof -
  let ?frame = "effects (\<lambda>f _. f \<noteq> PendingRegistrationFile) (\<lambda>_. False)"
  from assms obtain w1 inputs w2 i w3 w4 pending w5 w6 where
    2: "read_ensure_inputs env args w1 = (Inr inputs, w2)"
    and 3: "ensure_identity env inputs w2 = (Inr i, w3)"
    and 4: "check_profiles inputs i w3 = (Inr (), w4)"
    and 5: "renewed_pending env args inputs i w4 = (Inr pending, w5)"
    and 6: "on_store (save_identity_metadata (de_store env) i (ei_server inputs)) w5 = (Inr (), w6)"
    and 7: "plan_enrollment env args inputs i (enrollment_mode args inputs pending) pending w6
      = (Inr (Inr plan), w')"
    unfolding ensure_plan_of_def c_then_Inr by (auto simp del: c_simps(5) split: if_splits)
  have frames: "?frame (ensure_identity env inputs)" "?frame (check_profiles inputs i)"
    "?frame (on_store (save_identity_metadata (de_store env) i (ei_server inputs)))"
    by (intro effects_intros writes_intros; simp)+
  have "registers env (ei_pending inputs) w4"
    using registers_frame [OF frames(2) 4 registers_frame [OF frames(1) 3 read_inputs_registers [OF 2]]] .
  from renewed_registers [OF 5 this] registers_frame [OF frames(3) 6]
  have "registers env pending w6" by blast
  from plan_enrollment_stored [OF 7 this] show ?thesis .
qed

lemma plan_silent: "ensure_plan_of env args w = (r, w') \<Longrightarrow> dw_log w' = dw_log w"
proof -
  assume run: "ensure_plan_of env args w = (r, w')"
  have "effects (\<lambda>_ _. True) (\<lambda>_. False) (ensure_plan_of env args)"
    unfolding ensure_plan_of_def by (intro effects_intros writes_intros TrueI)
  from silent_log [OF this run] show ?thesis .
qed

text \<open>What is read back of a document that was written is that document.\<close>

definition faithful :: "'d codec \<Rightarrow> bool" where
  "faithful c \<longleftrightarrow> (\<forall>d e. co_read c (co_write c d) = Some e \<longrightarrow> e = d)"

lemma read_stored_key:
  assumes "faithful (st_registration env)" "key_stored env key st"
    and "read_pending_registration env (st, fs) = (Inr p, st', fs')"
  shows "pn_idempotency_key p = key"
proof -
  from assms(2) obtain bs q where bs: "st PendingRegistrationFile = Content bs"
    and q: "co_read (st_registration env) bs = Some q \<or> bs = co_write (st_registration env) q"
      "pn_idempotency_key q = key"
    unfolding key_stored_def by blast
  from assms(3) bs have "co_read (st_registration env) bs = Some p"
    unfolding read_pending_registration_def read_document_def read_owner_file_def
    by (auto split: prod.splits sum.splits if_splits simp: lift_s_def)
  with q assms(1) show ?thesis unfolding faithful_def by auto
qed

lemma error_keeps_key:
  assumes "faithful (st_registration env)" "key_stored env key st"
    and "record_pending_registration_error env code (st, fs) = (r, st', fs')"
  shows "key_stored env key st'"
proof -
  have "read_only (read_pending_registration env)"
    unfolding read_pending_registration_def by (intro read_only_intros)
  then obtain x where x: "read_pending_registration env (st, fs) = (x, st, fs)"
    unfolding read_only_def by blast
  show ?thesis
  proof (cases x)
  case (Inl e)
  with x assms(3) have "st' = st"
    unfolding record_pending_registration_error_def by (simp add: attempt_def)
  with assms(2) show ?thesis by simp
next
  case (Inr p)
  with x have read: "read_pending_registration env (st, fs) = (Inr p, st, fs)" by simp
  let ?p = "p\<lparr>pn_last_error_code := code\<rparr>"
  from read assms(3) have save: "save_pending_registration env ?p (st, fs) = (r, st', fs')"
    unfolding record_pending_registration_error_def by (simp add: attempt_def)
  have "st' = st \<or> st' = st(PendingRegistrationFile := Content (co_write (st_registration env) ?p))"
    using save unfolding save_pending_registration_def write_document_def
    by (auto split: if_splits dest!: write_cases)
  then show ?thesis
  proof
    assume "st' = st"
    with assms(2) show ?thesis by simp
  next
    assume "st' = st(PendingRegistrationFile := Content (co_write (st_registration env) ?p))"
    then have "st' PendingRegistrationFile = Content (co_write (st_registration env) ?p)" by simp
    moreover have "pn_idempotency_key ?p = key" using read_stored_key [OF assms(1,2) read] by simp
    ultimately show ?thesis unfolding key_stored_def by blast
  qed
  qed
qed

lemma discard_run:
  "discard m w = (r, w') \<Longrightarrow> \<exists>x st fs. m (dw_files w, dw_faults w) = (x, st, fs) \<and>
     w' = w\<lparr>dw_files := st, dw_faults := fs\<rparr>"
  unfolding discard_def try_store_def on_store_def attempt_def
  by (auto split: prod.splits)

lemma ensure_with_retry_keyed: "sends_only (keyed key) (ensure_with_retry env client payload key)"
  unfolding sends_only_def ensure_with_retry_def using attempts_send by blast

text \<open>The exchange sends only requests with the key of the plan, and keeps the key on disk.\<close>

lemma exchange_keyed:
  "exchange env plan w = (r, w') \<Longrightarrow>
   \<exists>new. dw_log w' = dw_log w @ new \<and> (\<forall>q \<in> set new. keyed (ep_key plan) q)"
proof -
  assume run: "exchange env plan w = (r, w')"
  have "effects (\<lambda>_ _. True) (keyed (ep_key plan)) (exchange env plan)"
    unfolding exchange_def
    by (intro effects_intros writes_intros ensure_with_retry_keyed TrueI)
  with run show ?thesis unfolding effects_def by blast
qed

lemma on_api_files: "on_api m w = (r, w') \<Longrightarrow> dw_files w' = dw_files w"
  by (auto simp: on_api_def split: prod.splits)

lemma exchange_keeps_key:
  assumes "exchange env plan w = (r, w')" "faithful (st_registration (de_store env))"
    and "key_stored (de_store env) key (dw_files w)"
  shows "key_stored (de_store env) key (dw_files w')"
proof -
  from assms(1) consider "dw_files w' = dw_files w"
    | w1 m client where "dw_files w1 = dw_files w"
      "discard (record_pending_registration_error (de_store env) client) w1 = (m, w')"
    unfolding exchange_def c_attempt_def
    by (auto split: prod.splits sum.splits dest!: on_api_files)
  then show ?thesis
  proof cases
    case 1
    with assms(3) show ?thesis by simp
  next
    case 2
    from discard_run [OF 2(2)] obtain x st fs where
      "record_pending_registration_error (de_store env) client (dw_files w1, dw_faults w1) = (x, st, fs)"
      "dw_files w' = st" by auto
    with error_keeps_key [OF assms(2)] assms(3) 2(1) show ?thesis by metis
  qed
qed

lemma save_credential_stored:
  "save_credential env c (st, fs) = (Inr x, st', fs') \<Longrightarrow>
   st' CredentialFile = Content (co_write (st_credential env) c)"
  unfolding save_credential_def write_document_def by (auto split: if_splits dest!: write_Inr)

lemma settle_outcome:
  assumes "settle env plan c w = (r, w')" "key_stored (de_store env) key (dw_files w)"
  shows "key_stored (de_store env) key (dw_files w') \<or>
    dw_files w' CredentialFile = Content (co_write (st_credential (de_store env)) c)"
proof -
  let ?save = "on_store (save_credential (de_store env) c)"
  obtain r1 w1 where save: "?save w = (r1, w1)" by (metis surj_pair)
  show ?thesis
  proof (cases r1)
    case (Inl e)
    with assms(1) save have w': "w' = w1" by (simp add: settle_def)
    have "effects (\<lambda>f _. f \<noteq> PendingRegistrationFile) (\<lambda>_. False) ?save"
      by (intro effects_intros writes_intros) simp
    from other_file [OF this save] assms(2) w' show ?thesis by (simp add: key_stored_def)
  next
    case (Inr u)
    have stored: "dw_files w1 CredentialFile = Content (co_write (st_credential (de_store env)) c)"
      using save Inr by (auto simp: on_store_Inr dest: save_credential_stored)
    let ?rest = "c_then (case ri_update (ep_local plan) of
         None \<Rightarrow> c_give ()
       | Some u \<Rightarrow> on_store (commit_policy_update_unlocked (de_policy env) u)) (\<lambda>_.
     c_then (on_store (save_identity_metadata (de_store env) (ep_identity plan)
        (ei_server (ep_inputs plan)))) (\<lambda>_.
     c_then (on_store clear_pending_registration) (\<lambda>_. c_give (Enrolled (cc_device_id c)))))"
    have rest: "?rest w1 = (r, w')" using assms(1) save Inr by (simp add: settle_def)
    have "effects (\<lambda>f _. f \<noteq> CredentialFile) (\<lambda>_. False) ?rest"
      by (intro effects_intros writes_intros) simp_all
    from other_file [OF this rest] stored show ?thesis by simp
  qed
qed

lemma settle_silent: "settle env plan c w = (r, w') \<Longrightarrow> dw_log w' = dw_log w"
proof -
  assume run: "settle env plan c w = (r, w')"
  have "effects (\<lambda>_ _. True) (\<lambda>_. False) (settle env plan c)"
    unfolding settle_def by (intro effects_intros writes_intros TrueI)
  from silent_log [OF this run] show ?thesis .
qed

lemma ensure_recoverable:
  assumes "ensure_command env args w = (res, w')" "faithful (st_registration (de_store env))"
  shows "\<exists>new. dw_log w' = dw_log w @ new \<and> (\<forall>q \<in> set new. \<forall>k. hr_idempotency_key q = Some k \<longrightarrow>
    key_stored (de_store env) k (dw_files w') \<or>
    (\<exists>plan body c. ep_key plan = k \<and> accepted_credential env plan body = Inr c \<and>
       dw_files w' CredentialFile = Content (co_write (st_credential (de_store env)) c)))"
proof -
  obtain r1 w1 where plan: "ensure_plan_of env args w = (r1, w1)" by (metis surj_pair)
  note quiet = plan_silent [OF plan]
  show ?thesis
  proof (cases "\<exists>p. r1 = Inr (Inr p)")
    case False
    with assms(1) plan quiet show ?thesis
      by (auto simp: ensure_command_def split: sum.splits)
  next
    case True
    then obtain p where p: "r1 = Inr (Inr p)" by blast
    with plan have stored: "key_stored (de_store env) (ep_key p) (dw_files w1)"
      by (auto intro: plan_key_stored)
    obtain r2 w2 where exch: "exchange env p w1 = (r2, w2)" by (metis surj_pair)
    from exchange_keyed [OF exch] quiet obtain new where
      new: "dw_log w2 = dw_log w @ new" "\<forall>q \<in> set new. keyed (ep_key p) q" by auto
    note kept = exchange_keeps_key [OF exch assms(2) stored]
    show ?thesis
    proof (cases "\<exists>body c. r2 = Inr body \<and> accepted_credential env p body = Inr c")
      case False
      with assms(1) plan p exch have "w' = w2"
        by (auto simp: ensure_command_def split: sum.splits)
      with new kept show ?thesis by (auto simp: keyed_def)
    next
      case True
      then obtain body c where c: "r2 = Inr body" "accepted_credential env p body = Inr c" by blast
      with assms(1) plan p exch have settled: "settle env p c w2 = (res, w')"
        by (auto simp: ensure_command_def)
      from settle_outcome [OF settled kept] settle_silent [OF settled] new c show ?thesis
        by (fastforce simp: keyed_def)
    qed
  qed
qed



section \<open>The stored key\<close>

text \<open>\<open>keeps P m\<close>: whatever happens, \<open>m\<close> keeps \<open>P\<close>.\<close>

definition keeps :: "(device_world \<Rightarrow> bool) \<Rightarrow> 'a cmd \<Rightarrow> bool" where
  "keeps P m \<longleftrightarrow> (\<forall>w r w'. P w \<longrightarrow> m w = (r, w') \<longrightarrow> P w')"

named_theorems keeps_intros \<open>commands and what they keep\<close>

lemma keeps_then [keeps_intros]:
  assumes "keeps P m" "\<And>x. keeps P (f x)"
  shows "keeps P (c_then m f)"
  unfolding keeps_def
proof (intro allI impI)
  fix w r w'
  assume P: "P w" and run: "c_then m f w = (r, w')"
  obtain r1 w1 where m: "m w = (r1, w1)" by (metis surj_pair)
  have P1: "P w1" using assms(1) P m unfolding keeps_def by blast
  show "P w'"
  proof (cases r1)
    case (Inl e)
    with run m P1 show ?thesis by simp
  next
    case (Inr x)
    with run m have "f x w1 = (r, w')" by simp
    with P1 assms(2) show ?thesis unfolding keeps_def by blast
  qed
qed

lemma keeps_sum [keeps_intros]:
  "(\<And>e. keeps P (f e)) \<Longrightarrow> (\<And>x. keeps P (g x)) \<Longrightarrow> keeps P (case r of Inl e \<Rightarrow> f e | Inr x \<Rightarrow> g x)"
  by (cases r) auto

lemma keeps_option [keeps_intros]:
  "keeps P f \<Longrightarrow> (\<And>x. keeps P (g x)) \<Longrightarrow> keeps P (case r of None \<Rightarrow> f | Some x \<Rightarrow> g x)"
  by (cases r) auto

abbreviation key_is :: "entry \<Rightarrow> device_world \<Rightarrow> bool" where
  "key_is e w \<equiv> e \<noteq> Absent \<and> dw_files w KeyFile = e"

lemma keeps_key_frame: "effects (\<lambda>f _. f \<noteq> KeyFile) L m \<Longrightarrow> keeps (key_is e) m"
  using other_file unfolding keeps_def by metis

lemma new_identity_keeps: "keeps (key_is e) (new_identity env inputs)"
  unfolding keeps_def new_identity_def on_store_def identity_exists_def
  by (auto split: entry.splits)

lemma ensure_identity_keeps: "keeps (key_is e) (ensure_identity env inputs)"
proof -
  have "effects (\<lambda>f _. f \<noteq> KeyFile) (\<lambda>_. False) (pending_identity env inputs p)"
    "effects (\<lambda>f _. f \<noteq> KeyFile) (\<lambda>_. False) (on_store (load_identity a b c d))"
    "effects (\<lambda>f _. f \<noteq> KeyFile) (\<lambda>_. False) (on_store (metadata_identity a m))"
    "effects (\<lambda>f _. f \<noteq> KeyFile) (\<lambda>_. False) (c_check t ce)" for p a b c d m t ce
    unfolding pending_identity_def by (intro effects_intros writes_intros)+
  from this [THEN keeps_key_frame] show ?thesis
    unfolding ensure_identity_def by (intro keeps_intros new_identity_keeps)
qed

lemma plan_keeps_key: "keeps (key_is e) (ensure_plan_of env args)"
proof -
  have frames:
    "effects (\<lambda>f _. f \<noteq> KeyFile) (\<lambda>_. False) (on_store (lock_registration (de_lock_registration env)))"
    "effects (\<lambda>f _. f \<noteq> KeyFile) (\<lambda>_. False) (read_ensure_inputs env args)"
    "effects (\<lambda>f _. f \<noteq> KeyFile) (\<lambda>_. False) (check_profiles inputs i)"
    "effects (\<lambda>f _. f \<noteq> KeyFile) (\<lambda>_. False) (renewed_pending env args inputs i)"
    "effects (\<lambda>f _. f \<noteq> KeyFile) (\<lambda>_. False) (c_check b ce)"
    "effects (\<lambda>f _. f \<noteq> KeyFile) (\<lambda>_. False) (on_store (save_identity_metadata senv i server))"
    "effects (\<lambda>f _. f \<noteq> KeyFile) (\<lambda>_. False) (plan_enrollment env args inputs i mode pending)"
    for inputs i b ce senv server mode pending
    by (intro effects_intros writes_intros; simp)+
  show ?thesis
    unfolding ensure_plan_of_def
    by (intro keeps_intros frames [THEN keeps_key_frame] ensure_identity_keeps)
qed

lemma ensure_keeps_key: "keeps (key_is e) (ensure_command env args)"
proof -
  have frames: "effects (\<lambda>f _. f \<noteq> KeyFile) (\<lambda>_. True) (exchange env plan)"
    "effects (\<lambda>f _. f \<noteq> KeyFile) (\<lambda>_. True) (settle env plan c)"
    "effects (\<lambda>f _. f \<noteq> KeyFile) (\<lambda>_. True) (c_lift r)"
    "effects (\<lambda>f _. f \<noteq> KeyFile) (\<lambda>_. True) (c_give x)" for plan c r x
    unfolding exchange_def settle_def
    by (intro effects_intros writes_intros sends_weaken [OF ensure_with_retry_keyed]; simp)+
  show ?thesis
    unfolding ensure_command_def
    by (intro keeps_intros plan_keeps_key frames [THEN keeps_key_frame])
qed

text \<open>C31: enrollment never replaces a device key: a key file that is there before the command, readable or
  not, is the same after it, whatever the command does and however it ends.\<close>

theorem enrollment_keeps_key:
  assumes "ensure_command env args w = (res, w')" "dw_files w KeyFile \<noteq> Absent"
  shows "dw_files w' KeyFile = dw_files w KeyFile"
  using ensure_keeps_key [of "dw_files w KeyFile" env args] assms unfolding keeps_def by blast

definition stranded_device :: device_world where
  "stranded_device = \<lparr>dw_files = (\<lambda>_. Absent)(KeyFile := Content (encode_identity first_identity)),
     dw_faults = [], dw_log = []\<rparr>"

lemma enrollment_keeps_key_witness:
  "dw_files (snd (ensure_command small_device small_args stranded_device)) KeyFile
     = Content (encode_identity first_identity)"
  using enrollment_keeps_key [of small_device small_args stranded_device,
      OF surjective_pairing [symmetric, THEN sym]]
  by (simp add: stranded_device_def)

lemma enrollment_attempts_bounded_witness:
  "length (snd (ensure_with_retry small_control_plane small_client JNull [] [])) \<le> 10"
  using enrollment_attempts_bounded [of small_control_plane small_client JNull "[]" "[]",
      OF surjective_pairing] by auto

section \<open>A stranded key\<close>

lemma if_present_absent:
  "st f = Absent \<Longrightarrow> read_document c f (st, fs) = (Inl Missing, st, fs)"
  by (simp add: read_document_def read_owner_file_def)

text \<open>C32: a first enrollment writes the key before the document that names its device.  When it stops
  between the two, every later enrollment is refused before anything is sent, whatever its arguments
  and the state of the world, and the key stays.\<close>

theorem stranded_key_refused:
  assumes "dw_files w PendingRegistrationFile = Absent" "dw_files w CredentialFile = Absent"
    and "dw_files w IdentityMetadataFile = Absent" "dw_files w KeyFile = Content bs"
    and "ensure_command env args w = (res, w')"
  shows "(\<exists>e. res = Inl e) \<and> dw_log w' = dw_log w \<and> dw_files w' KeyFile = Content bs"
proof -
  have "ensure_plan_of env args w = (Inr p, w1) \<Longrightarrow> False" for p w1
  proof -
    assume "ensure_plan_of env args w = (Inr p, w1)"
    then obtain w2 inputs w3 i w4 where
      1: "on_store (lock_registration (de_lock_registration env)) w = (Inr (), w2)"
      and 2: "read_ensure_inputs env args w2 = (Inr inputs, w3)"
      and 3: "ensure_identity env inputs w3 = (Inr i, w4)"
      unfolding ensure_plan_of_def c_then_Inr by (auto simp del: c_simps(5))
    have "effects (\<lambda>f _. f = RegistrationLockFile) (\<lambda>_. False)
        (on_store (lock_registration (de_lock_registration env)))"
      by (intro effects_intros writes_intros) simp
    from effects_run [OF this 1] have "f \<noteq> RegistrationLockFile \<Longrightarrow> dw_files w2 f = dw_files w f" for f
      by blast
    with assms(1-4) have files: "dw_files w2 PendingRegistrationFile = Absent"
      "dw_files w2 CredentialFile = Absent" "dw_files w2 IdentityMetadataFile = Absent"
      "dw_files w2 KeyFile = Content bs" by simp_all
    have "read_ensure_inputs env args w2 = (ensure_request env args None None None, w2)"
      using files unfolding read_ensure_inputs_def ensure_pending_def if_present_def
        load_pending_registration_def read_pending_registration_def load_for_rotation_def
        load_credential_def load_identity_metadata_def try_store_def attempt_def on_store_def
      by (simp add: if_present_absent)
    with 2 have "w3 = w2" "ensure_request env args None None None = Inr inputs" by auto
    then have "ei_pending inputs = None" "ei_credential inputs = None" "ei_metadata inputs = None"
      by (auto simp: ensure_request_def bind_r_Inr_iff split: if_splits)
    with 3 files \<open>w3 = w2\<close> show False
      by (simp add: ensure_identity_def new_identity_def on_store_def identity_exists_def)
  qed
  then obtain e w1 where "ensure_plan_of env args w = (Inl e, w1)"
    by (metis obj_sumE surj_pair)
  with assms(5) have "res = Inl e" "w' = w1" "dw_log w1 = dw_log w"
    using plan_silent by (auto simp: ensure_command_def)
  moreover have "dw_files w' KeyFile = Content bs"
    using ensure_keeps_key [of "Content bs" env args] assms(4,5) unfolding keeps_def by blast
  ultimately show ?thesis by simp
qed

lemma stranded_key_refused_witness:
  "(\<exists>e. fst (ensure_command small_device small_args stranded_device) = Inl e) \<and>
   dw_log (snd (ensure_command small_device small_args stranded_device)) = []"
  using stranded_key_refused [of stranded_device "encode_identity first_identity" small_device small_args,
      OF _ _ _ _ surjective_pairing]
  by (simp add: stranded_device_def)

end
