(* ===== verification/Binding_Commands.thy ===== *)
theory Binding_Commands
  imports Device_Commands
begin

text \<open>
  The commands that claim, pause, resume, stop and revoke a binding and that revoke the device,
  \<open>crates/device-client/src/binding_commands.rs\<close>, with \<open>metadata\<close>, \<open>retire-local\<close>, \<open>purge-local\<close> and
  \<open>candidates\<close> of \<open>main.rs\<close>.  A command answers with the document it prints.
\<close>

section \<open>The answer as a binding\<close>

definition data_of :: "json \<Rightarrow> string \<Rightarrow> json option" where
  "data_of response k = Option.bind (json_get response ''data'') (\<lambda>d. json_get d k)"

definition data_str :: "json \<Rightarrow> string \<Rightarrow> string option" where
  "data_str response k = Option.bind (data_of response k) as_str"

definition explicit_or_legacy_response_u64 :: "json \<Rightarrow> string \<Rightarrow> string \<Rightarrow> u64 option" where
  "explicit_or_legacy_response_u64 response explicit legacy =
     (case (Option.bind (data_of response explicit) as_u64, Option.bind (data_of response legacy) as_u64) of
        (Some left, Some right) \<Rightarrow> if left \<noteq> right then None else Some left
      | (Some v, None) \<Rightarrow> Some v
      | (None, r) \<Rightarrow> r)"

definition active_binding_from_response ::
  "string \<Rightarrow> string \<Rightarrow> json \<Rightarrow> command_error + active_binding" where
  "active_binding_from_response device_id expected_task_space response =
     bind_r (need ''binding response did not include an ID'' (data_str response ''id'')) (\<lambda>binding_id.
     bind_r (need ''binding response did not include a binding generation''
        (explicit_or_legacy_response_u64 response ''binding_generation'' ''generation'')) (\<lambda>generation.
     bind_r (need ''binding response did not include its authorization mode''
        (data_str response ''authorization_mode'')) (\<lambda>authorization_mode.
     bind_r (need ''binding response did not include its Task Space label''
        (data_str response ''task_space_label'')) (\<lambda>task_space_label.
       if task_space_label \<noteq> expected_task_space
       then Inl (Text ''binding response did not match the selected tool session'')
       else if data_str response ''ego_browser_device_id'' \<noteq> Some device_id
       then Inl (Text ''binding response did not match the local device identity'')
       else Inr \<lparr>ab_version = 1, ab_binding_id = binding_id, ab_generation = generation,
         ab_device_id = device_id, ab_task_space_label = task_space_label,
         ab_authorization_mode = authorization_mode, ab_user_confirmation = True\<rparr>))))"

text \<open>The binding is stored before the gate opens; a gate that does not open takes it back.\<close>

definition persist_active_binding :: "device_env \<Rightarrow> string \<Rightarrow> string \<Rightarrow> json \<Rightarrow> unit cmd" where
  "persist_active_binding env device_id expected_task_space response =
     c_then (c_lift (active_binding_from_response device_id expected_task_space response)) (\<lambda>b.
     c_then (on_store (save_active_binding (de_store env) b)) (\<lambda>_.
     c_then (try_store (open_local_admission (de_store env) (de_random env) b)) (\<lambda>r. case r of
         Inr _ \<Rightarrow> c_give ()
       | Inl e \<Rightarrow>
           c_then (discard clear_active_binding) (\<lambda>_.
           c_then (discard (close_local_admission (de_store env) (de_random env))) (\<lambda>_.
             c_fail e)))))"

definition persist_paused_binding :: "device_env \<Rightarrow> string \<Rightarrow> json \<Rightarrow> unit cmd" where
  "persist_paused_binding env device_id response =
     c_then (on_store (load_active_binding (de_store env) device_id)) (\<lambda>existing.
     c_then (c_lift (active_binding_from_response device_id (ab_task_space_label existing) response))
       (\<lambda>b.
     c_then (c_check (data_str response ''status'' = Some ''paused'')
        (Text ''pause response did not confirm paused status'')) (\<lambda>_.
     c_then (on_store (save_active_binding (de_store env) b)) (\<lambda>_.
       on_store (close_local_admission (de_store env) (de_random env))))))"

section \<open>Claims\<close>

definition claim_payload ::
  "string \<Rightarrow> string \<Rightarrow> community_credential \<Rightarrow> identity \<Rightarrow> verified_local_policy \<Rightarrow> json" where
  "claim_payload session task_space_label c i p =
     JObject (btree_of
       [(''tool_session_id'', JString session),
        (''ego_browser_device_id'', JString (cc_device_id c)),
        (''authorization_mode'', JString ''ego_browser_script_full_trust''),
        (''authorization_policy_version'', JNumber (PosInt 1)),
        (''release_profile'', JString (ik_release_profile i)),
        (''credential_profile'', JString (ik_credential_profile i)),
        (''remote_platform'', JString ''linux''),
        (''local_platform'', JString ''macos''),
        (''device_capabilities'', JArray (map JString (policy_capabilities p))),
        (''allowlist_revision'', JNumber (PosInt (vp_allowlist_revision p))),
        (''learning_bundle_digest'', JOptString (policy_learning_digest p)),
        (''task_space_label'', JString task_space_label),
        (''user_confirmation'', JBool True)])"

definition claim :: "device_env \<Rightarrow> string list \<Rightarrow> json cmd" where
  "claim env args =
     (case args of
        [] \<Rightarrow> c_refuse ''tool session ID is required''
      | session # _ \<Rightarrow>
          if ''--confirm'' \<notin> set args
          then c_refuse ''explicit --confirm is required for full-trust binding''
          else
            let task_space_label = ''agent-remote:'' @ session in
     c_then (on_store (load_credential_at (de_store env) (st_now (de_store env)))) (\<lambda>c.
     c_then (load_verified_policy env) (\<lambda>(_, policy).
     c_then (on_store (credential_identity (de_random env) c)) (\<lambda>i.
     c_then (identity_client env c i) (\<lambda>client.
     c_then (on_api (api_claim (de_api env) client
        (claim_payload session task_space_label c i policy))) (\<lambda>response.
     c_then (persist_active_binding env (cc_device_id c) task_space_label response) (\<lambda>_.
       c_give response)))))))"

definition status_command :: "device_env \<Rightarrow> string list \<Rightarrow> json cmd" where
  "status_command env args =
     c_then (current_credential env) (\<lambda>(c, i).
     c_then (identity_client env c i) (\<lambda>client.
       case args of
         binding # _ \<Rightarrow> on_api (api_status (de_api env) client binding)
       | [] \<Rightarrow> on_api (candidates (de_api env) client)))"

definition candidates_command :: "device_env \<Rightarrow> json cmd" where
  "candidates_command env =
     c_then (current_credential env) (\<lambda>(c, i).
     c_then (identity_client env c i) (\<lambda>client. on_api (candidates (de_api env) client)))"

section \<open>The device itself\<close>

definition revoke_confirmed :: "json \<Rightarrow> string \<Rightarrow> command_error + string" where
  "revoke_confirmed response device_id =
     bind_r (need ''device revoke response did not include an ID'' (data_str response ''id'')) (\<lambda>id.
     bind_r (need ''device revoke response did not include a status'' (data_str response ''status''))
       (\<lambda>status.
       if id \<noteq> device_id \<or> status \<noteq> ''revoked''
       then Inl (Text ''device revoke response did not match the local device identity'')
       else Inr id))"

definition device_revoke :: "device_env \<Rightarrow> string list \<Rightarrow> string cmd" where
  "device_revoke env args =
     (if args \<noteq> [''--confirm''] then c_refuse ''usage: ego-browser-device device-revoke --confirm''
      else
     c_then (on_store (close_local_admission (de_store env) (de_random env))) (\<lambda>_.
     c_then (current_credential env) (\<lambda>(c, i).
     c_then (identity_client env c i) (\<lambda>client.
     c_then (on_api (revoke_device (de_api env) client)) (\<lambda>response.
     c_then (c_lift (revoke_confirmed response (cc_device_id c))) (\<lambda>id.
     c_then (on_store (clear_store (de_store env) (de_random env))) (\<lambda>_. c_give id)))))))"

definition local_metadata_command :: "device_env \<Rightarrow> string list \<Rightarrow> local_device_metadata cmd" where
  "local_metadata_command env args =
     (if args \<noteq> [] then c_refuse ''usage: ego-browser-device metadata''
      else on_store (local_metadata (de_store env) (de_random env)))"

definition retire_local :: "device_env \<Rightarrow> string list \<Rightarrow> unit cmd" where
  "retire_local env args =
     (if args \<noteq> [''--confirmed-stopped'']
      then c_refuse ''usage: ego-browser-device retire-local --confirmed-stopped''
      else
     c_then (on_store (close_local_admission (de_store env) (de_random env))) (\<lambda>_.
       on_store (retire_runtime_state (de_store env) (de_random env))))"

definition purge_local :: "device_env \<Rightarrow> string list \<Rightarrow> unit cmd" where
  "purge_local env args =
     (if args \<noteq> [''--confirmed-revoked'']
      then c_refuse ''usage: ego-browser-device purge-local --confirmed-revoked''
      else
     c_then (on_store (close_local_admission (de_store env) (de_random env))) (\<lambda>_.
       on_store (clear_store (de_store env) (de_random env))))"

section \<open>Lifecycle\<close>

datatype lifecycle_command = Pause | Resume | Stop | Revoke

definition binding_generation_option :: "string list \<Rightarrow> command_error + string option" where
  "binding_generation_option args =
     bind_r (cmd_option args ''--binding-generation'') (\<lambda>explicit.
     bind_r (cmd_option args ''--generation'') (\<lambda>legacy.
       if explicit \<noteq> None \<and> legacy \<noteq> None \<and> explicit \<noteq> legacy
       then Inl (Text ''--binding-generation and --generation disagree'')
       else Inr (or_else explicit legacy)))"

text \<open>The text of a parse error is that of the standard library and is left out.\<close>

definition parse_generation :: "string \<Rightarrow> command_error + u64" where
  "parse_generation s = ok_or (Text ''invalid digit found in string'') (parse_u64 s)"

definition lifecycle_target :: "string list \<Rightarrow> command_error + string \<times> u64" where
  "lifecycle_target args =
     bind_r (need ''binding ID is required'' (case args of [] \<Rightarrow> None | b # _ \<Rightarrow> Some b)) (\<lambda>binding.
     bind_r (binding_generation_option args) (\<lambda>v.
     bind_r (need ''--binding-generation is required'' v) (\<lambda>text.
     bind_r (parse_generation text) (\<lambda>generation. Inr (binding, generation)))))"

definition lifecycle_request ::
  "device_env \<Rightarrow> lifecycle_command \<Rightarrow> string list \<Rightarrow> device_client \<Rightarrow> string \<Rightarrow> u64 \<Rightarrow> json cmd" where
  "lifecycle_request env command args client binding generation =
     (case command of
        Pause \<Rightarrow> on_api (api_pause (de_api env) client binding generation)
      | Resume \<Rightarrow>
          if ''--confirm'' \<notin> set args
          then c_refuse ''explicit --confirm is required to resume full-trust control''
          else c_then (load_verified_policy env) (\<lambda>(_, policy).
            on_api (api_resume (de_api env) client binding generation (vp_allowlist_revision policy)
              (policy_learning_digest policy)))
      | Stop \<Rightarrow> on_api (api_stop (de_api env) client binding generation)
      | Revoke \<Rightarrow> on_api (api_revoke (de_api env) client binding generation))"

definition lifecycle_persist ::
  "device_env \<Rightarrow> lifecycle_command \<Rightarrow> string \<Rightarrow> string option \<Rightarrow> json \<Rightarrow> unit cmd" where
  "lifecycle_persist env command device_id resumed_task_space response =
     (case command of
        Pause \<Rightarrow> persist_paused_binding env device_id response
      | Resume \<Rightarrow>
          c_then (c_lift (need ''the paused binding handoff is unavailable'' resumed_task_space))
            (\<lambda>label. persist_active_binding env device_id label response)
      | _ \<Rightarrow> on_store clear_active_binding)"

text \<open>A command that takes privilege away closes the gate before it asks the control plane.\<close>

definition lifecycle :: "device_env \<Rightarrow> lifecycle_command \<Rightarrow> string list \<Rightarrow> json cmd" where
  "lifecycle env command args =
     c_then (c_lift (lifecycle_target args)) (\<lambda>(binding, generation).
     c_then (current_credential env) (\<lambda>(c, i).
     c_then (identity_client env c i) (\<lambda>client.
     c_then (if command \<noteq> Resume
        then on_store (close_local_admission (de_store env) (de_random env)) else c_give ()) (\<lambda>_.
     c_then (if command = Resume
        then c_then (on_store (load_active_binding (de_store env) (cc_device_id c)))
          (\<lambda>b. c_give (Some (ab_task_space_label b)))
        else c_give None) (\<lambda>resumed_task_space.
     c_then (lifecycle_request env command args client binding generation) (\<lambda>response.
     c_then (lifecycle_persist env command (cc_device_id c) resumed_task_space response) (\<lambda>_.
       c_give response)))))))"

end
