(* ===== verification/Binding_Properties.thy ===== *)
theory Binding_Properties
  imports Binding_Commands Registration_Properties
begin

text \<open>
  Properties of the binding commands: what takes privilege away closes the local gate before the
  control plane is asked, and nothing reopens it.
\<close>

section \<open>The gate\<close>

text \<open>The entry of the gate file is shut: absent, unreadable, or a document that is not open.\<close>

definition shut :: "store_env \<Rightarrow> entry \<Rightarrow> bool" where
  "shut env e \<longleftrightarrow> (\<forall>bs. e = Content bs \<longrightarrow>
     (\<exists>r. bs = co_write (st_admission env) r \<and> la_state r \<noteq> LOCAL_ADMISSION_OPEN))"

lemma shut_not_open:
  assumes "faithful (st_admission env)" "shut env (st AdmissionFile)"
  shows "fst (local_admission_is_open env d b (st, fs)) \<noteq> Inr True"
proof (cases "st AdmissionFile")
  case (Content bs)
  with assms(2) obtain r where r: "bs = co_write (st_admission env) r" "la_state r \<noteq> LOCAL_ADMISSION_OPEN"
    unfolding shut_def by blast
  show ?thesis
  proof
    assume "fst (local_admission_is_open env d b (st, fs)) = Inr True"
    then obtain r' where "co_read (st_admission env) bs = Some r'" "admits d b r'"
      using Content unfolding local_admission_is_open_def load_local_admission_def
      by (auto simp: attempt_def read_owner_file_def lift_s_def split: prod.splits sum.splits if_splits)
    with r assms(1) show False by (auto simp: faithful_def admits_def)
  qed
qed (simp_all add: local_admission_is_open_def load_local_admission_def attempt_def read_owner_file_def)

abbreviation stays_shut :: "store_env \<Rightarrow> store_file \<Rightarrow> entry \<Rightarrow> bool" where
  "stays_shut env f e \<equiv> f = AdmissionFile \<longrightarrow> shut env e"

lemma closed_shut [simp]:
  "shut env (Content (co_write (st_admission env) (gate_record env LOCAL_ADMISSION_CLOSED d g)))"
  by (auto simp: shut_def gate_record_def LOCAL_ADMISSION_CLOSED_def LOCAL_ADMISSION_OPEN_def)

lemma absent_shut [simp]: "shut env Absent"
  by (simp add: shut_def)

lemma shut_kept:
  "effects (stays_shut env) L m \<Longrightarrow> m w = (r, w') \<Longrightarrow> shut env (dw_files w AdmissionFile) \<Longrightarrow>
   shut env (dw_files w' AdmissionFile)"
  by (drule (1) effects_run [of _ _ _ _ _ _ AdmissionFile]) auto

lemma close_shuts:
  assumes "on_store (close_local_admission env random) w = (Inr u, w')"
  shows "shut env (dw_files w' AdmissionFile)"
proof -
  from assms obtain st fs where run: "close_local_admission env random (dw_files w, dw_faults w) = (Inr u, st, fs)"
    and w': "dw_files w' = st" by (auto simp: on_store_Inr)
  from run obtain r s where "local_admission_record_op env random LOCAL_ADMISSION_CLOSED
      (dw_files w, dw_faults w) = (Inr r, s)" and written: "write_local_admission env r s = (Inr u, st, fs)"
    unfolding close_local_admission_def by (auto split: prod.splits sum.splits)
  then obtain d g where r: "r = gate_record env LOCAL_ADMISSION_CLOSED d g"
    using gate_record_result by blast
  from written have "st AdmissionFile = Content (co_write (st_admission env) r)"
    unfolding write_local_admission_def write_document_def
    by (cases s) (auto dest!: write_Inr split: sum.splits)
  with r w' show ?thesis by simp
qed

section \<open>What the commands do to the gate\<close>

lemma effects_credential [effects_intros]: "effects Q L (current_credential env)"
  unfolding current_credential_def by (intro effects_intros writes_intros)

lemma effects_client [effects_intros]: "effects Q L (identity_client env c i)"
  unfolding identity_client_def by (intro effects_intros)

lemma effects_verified [effects_intros]: "effects Q L (load_verified_policy env)"
  unfolding load_verified_policy_def by (intro effects_intros writes_intros)

lemma any_request: "confined client m \<Longrightarrow> sends_only (\<lambda>_. True) m"
  by (rule sends_weaken [OF confined_sends]) simp_all

lemmas operations_send = operations_confined [THEN any_request]

lemma confined_effects: "confined client m \<Longrightarrow> effects Q (\<lambda>_. True) (on_api m)"
  by (intro effects_api sends_weaken [OF confined_sends]) simp_all

lemma effects_request [effects_intros]:
  "effects Q (\<lambda>_. True) (lifecycle_request env command args client binding generation)"
  unfolding lifecycle_request_def
  by (cases command) (auto intro!: effects_intros confined_effects operations_confined)

text \<open>Pausing, stopping and revoking end with a shut gate.\<close>

lemma effects_reduce:
  assumes "command \<noteq> Resume"
  shows "effects (stays_shut (de_store env)) L (lifecycle_persist env command d label response)"
  using assms unfolding lifecycle_persist_def persist_paused_binding_def
  by (cases command) (auto intro!: effects_intros writes_intros)

text \<open>\<open>shuts_first m\<close>: when \<open>m\<close> has sent anything, or succeeds, it ends with a shut gate.\<close>

definition shuts_first :: "store_env \<Rightarrow> 'a cmd \<Rightarrow> bool" where
  "shuts_first env m \<longleftrightarrow> (\<forall>w r w'. m w = (r, w') \<longrightarrow> dw_log w' \<noteq> dw_log w \<or> is_ok r \<longrightarrow>
     shut env (dw_files w' AdmissionFile))"

named_theorems shuts_intros \<open>commands that shut the gate first\<close>

lemma shuts_refuse [shuts_intros]: "shuts_first env (c_refuse t)"
  by (simp add: shuts_first_def)

lemma shuts_if [shuts_intros]:
  "(c \<Longrightarrow> shuts_first env a) \<Longrightarrow> (\<not> c \<Longrightarrow> shuts_first env b) \<Longrightarrow> shuts_first env (if c then a else b)"
  by simp

lemma shuts_prod [shuts_intros]:
  "(\<And>a b. shuts_first env (f a b)) \<Longrightarrow> shuts_first env (case p of (a, b) \<Rightarrow> f a b)"
  by (cases p) auto

lemma shuts_later:
  assumes "effects (\<lambda>_ _. True) (\<lambda>_. False) m" "\<And>x. shuts_first env (f x)"
  shows "shuts_first env (c_then m f)"
  unfolding shuts_first_def
proof (intro allI impI)
  fix w r w'
  assume run: "c_then m f w = (r, w')" and sent: "dw_log w' \<noteq> dw_log w \<or> is_ok r"
  obtain r1 w1 where m: "m w = (r1, w1)" by (metis surj_pair)
  have quiet: "dw_log w1 = dw_log w" by (rule silent_log [of _ m w r1, OF assms(1) m])
  show "shut env (dw_files w' AdmissionFile)"
  proof (cases r1)
    case (Inl e)
    with run m quiet sent show ?thesis by (auto simp: is_ok_iff)
  next
    case (Inr x)
    with run m have n: "f x w1 = (r, w')" by simp
    from assms(2) [unfolded shuts_first_def, rule_format, OF n] sent quiet show ?thesis by simp
  qed
qed

lemma shuts_now:
  assumes "effects (stays_shut env) (\<lambda>_. True) rest"
  shows "shuts_first env (c_then (on_store (close_local_admission env random)) (\<lambda>_. rest))"
  unfolding shuts_first_def
proof (intro allI impI)
  let ?close = "on_store (close_local_admission env random)"
  fix w r w'
  assume run: "c_then ?close (\<lambda>_. rest) w = (r, w')" and sent: "dw_log w' \<noteq> dw_log w \<or> is_ok r"
  obtain r1 w1 where close: "?close w = (r1, w1)" by (metis surj_pair)
  have silent: "effects (\<lambda>_ _. True) (\<lambda>_. False) ?close"
    by (intro effects_intros writes_intros TrueI)
  have quiet: "dw_log w1 = dw_log w" by (rule silent_log [of _ ?close w r1, OF silent close])
  show "shut env (dw_files w' AdmissionFile)"
  proof (cases r1)
    case (Inl e)
    with run close quiet sent show ?thesis by (auto simp: is_ok_iff)
  next
    case (Inr x)
    with run close have n: "rest w1 = (r, w')" by simp
    from close Inr have "shut env (dw_files w1 AdmissionFile)" by (auto intro: close_shuts)
    from shut_kept [of env _ rest w1 r w', OF assms n this] show ?thesis .
  qed
qed

lemma effects_clear [effects_intros]:
  "effects (stays_shut env) L (on_store (clear_store env random))"
  by (intro effects_intros writes_intros) simp_all

lemma lifecycle_shuts:
  assumes "command \<noteq> Resume"
  shows "shuts_first (de_store env) (lifecycle env command args)"
proof -
  have rest: "effects (stays_shut (de_store env)) (\<lambda>_. True)
    (c_then (c_give None) (\<lambda>label. c_then (lifecycle_request env command args client b g)
      (\<lambda>response. c_then (lifecycle_persist env command d label response) (\<lambda>_. c_give response))))"
    for client b g d
    by (intro effects_intros effects_reduce [OF assms])
  have close: "(if command \<noteq> Resume then m else n) = m" "(if command = Resume then k else l) = l"
    for m n :: "unit cmd" and k l :: "string option cmd"
    using assms by simp_all
  show ?thesis
    unfolding lifecycle_def close
    by (intro shuts_later shuts_prod shuts_now rest effects_intros)
qed

lemma revoke_shuts: "shuts_first (de_store env) (device_revoke env args)"
proof -
  have "effects (stays_shut (de_store env)) (\<lambda>_. True)
     (c_then (current_credential env) (\<lambda>(c, i).
     c_then (identity_client env c i) (\<lambda>client.
     c_then (on_api (revoke_device (de_api env) client)) (\<lambda>response.
     c_then (c_lift (revoke_confirmed response (cc_device_id c))) (\<lambda>id.
     c_then (on_store (clear_store (de_store env) (de_random env))) (\<lambda>_. c_give id))))))"
    by (intro effects_intros writes_intros operations_send) simp_all
  then show ?thesis unfolding device_revoke_def by (intro shuts_intros shuts_now)
qed

lemma retire_shuts: "shuts_first (de_store env) (retire_local env args)"
proof -
  have "effects (stays_shut (de_store env)) (\<lambda>_. True)
     (on_store (retire_runtime_state (de_store env) (de_random env)))"
    by (intro effects_intros writes_intros) simp_all
  then show ?thesis unfolding retire_local_def by (intro shuts_intros shuts_now)
qed

lemma purge_shuts: "shuts_first (de_store env) (purge_local env args)"
  unfolding purge_local_def by (intro shuts_intros shuts_now effects_intros)

text \<open>C27: a command that takes privilege away fails closed: when it has sent anything to the control plane,
  or reports success, the local gate admits no device to any binding, whatever was answered and
  whatever file operation failed; the gate is shut before the first request and not opened again.\<close>

theorem privilege_reduction_fails_closed:
  assumes "(\<exists>command. command \<noteq> Resume \<and> lifecycle env command args w = (r1, w')) \<and> done1 = is_ok r1 \<or>
      device_revoke env args w = (r2, w') \<and> done1 = is_ok r2 \<or>
      retire_local env args w = (r3, w') \<and> done1 = is_ok r3 \<or>
      purge_local env args w = (r3, w') \<and> done1 = is_ok r3"
    and "dw_log w' \<noteq> dw_log w \<or> done1" "faithful (st_admission (de_store env))"
  shows "fst (local_admission_is_open (de_store env) d b (dw_files w', fs)) \<noteq> Inr True"
proof (rule shut_not_open [OF assms(3)])
  show "shut (de_store env) (dw_files w' AdmissionFile)"
    using assms(1,2) lifecycle_shuts revoke_shuts retire_shuts purge_shuts
    unfolding shuts_first_def by metis
qed

text \<open>A device whose gate documents are read back as they were written, when they are closed.\<close>

definition closed_record :: local_admission_record where
  "closed_record = gate_record sample_store_env LOCAL_ADMISSION_CLOSED None None"

definition gate_store :: store_env where
  "gate_store = sample_store_env\<lparr>st_admission :=
     \<lparr>co_write = (\<lambda>r. if r = closed_record then [1] else []),
      co_read = (\<lambda>bs. if bs = [1] then Some closed_record else None)\<rparr>\<rparr>"

definition gate_device :: device_env where
  "gate_device = small_device\<lparr>de_api := lost_control_plane\<lparr>ap_store := gate_store\<rparr>\<rparr>"

lemma gate_faithful: "faithful (st_admission (de_store gate_device))"
  by (auto simp: faithful_def gate_device_def gate_store_def split: if_splits)

lemma gate_retired:
  "fst (retire_local gate_device [''--confirmed-stopped''] empty_device) = Inr ()"
proof -
  have missing: "f \<noteq> RegistrationLockFile \<Longrightarrow> read_document c f (dw_files empty_device, fs)
      = (Inl Missing, dw_files empty_device, fs)" for c :: "'d codec" and f fs
    by (simp add: empty_device_def if_present_absent)
  have gate: "close_local_admission gate_store random (dw_files empty_device, []) =
      (Inr (), (dw_files empty_device)(AdmissionFile := Content [1]), [])" for random
    by (simp add: close_local_admission_def local_admission_record_op_def local_identity_reference_def
        attempt_def load_for_rotation_def load_credential_def load_identity_metadata_def missing
        write_local_admission_def write_document_def atomic_owner_write_def gate_record_def
        validate_local_admission_record_def gate_store_def closed_record_def
        LOCAL_ADMISSION_CLOSED_def LOCAL_ADMISSION_READY_def LOCAL_ADMISSION_OPEN_def
        optional_api_id_def)
  have faults: "dw_faults empty_device = []" by (simp add: empty_device_def)
  have absent: "(dw_files empty_device) CredentialFile = Absent"
    "(dw_files empty_device) ActiveBindingFile = Absent" by (simp_all add: empty_device_def)
  show ?thesis
    by (simp add: retire_local_def on_store_def gate_device_def gate faults retire_runtime_state_def
        load_for_rotation_def load_credential_def attempt_def read_document_def read_owner_file_def
        remove_owner_file_if_present_def absent)
qed

lemma privilege_reduction_fails_closed_witness:
  "fst (local_admission_is_open gate_store ''d1'' sample_binding
     (dw_files (snd (retire_local gate_device [''--confirmed-stopped''] empty_device)), [])) \<noteq> Inr True"
proof -
  obtain r w' where run: "retire_local gate_device [''--confirmed-stopped''] empty_device = (r, w')"
    by (metis surj_pair)
  have ok: "is_ok r" using gate_retired run by (simp add: is_ok_iff)
  have "fst (local_admission_is_open (de_store gate_device) ''d1'' sample_binding (dw_files w', []))
      \<noteq> Inr True"
    by (rule privilege_reduction_fails_closed [where w = empty_device and args = "[''--confirmed-stopped'']"
          and ?r3.0 = r and ?done1.0 = True and ?r1.0 = "Inl (Text [])" and ?r2.0 = "Inl (Text [])"])
      (use run ok gate_faithful in simp_all)
  with run show ?thesis by (simp add: gate_device_def)
qed

end
