(* ===== verification/Policy_Commands.thy ===== *)
theory Policy_Commands
  imports Binding_Commands Registration
begin

text \<open>
  The commands \<open>allowlist\<close> and \<open>learning\<close>, \<open>crates/device-client/src/policy_commands.rs\<close>, and the
  dispatch of \<open>main.rs\<close>.  The policy is locked from the preparation of an update to its commit.
\<close>

section \<open>Paths\<close>

fun positional_paths :: "string list \<Rightarrow> string list \<Rightarrow> command_error + path list" where
  "positional_paths valued [] = Inr []"
| "positional_paths valued (v # rest) =
     (if v \<in> set valued then (case rest of
          [] \<Rightarrow> Inl (Text (v @ '' requires a value''))
        | _ # rest \<Rightarrow> positional_paths valued rest)
      else if v = ''--confirm'' then positional_paths valued rest
      else if starts_with ''-'' v then Inl (Text (''unknown option: '' @ v))
      else bind_r (positional_paths valued rest) (\<lambda>ps. Inr (path_of v # ps)))"

section \<open>The allowlist\<close>

datatype policy_output = ShownPolicy local_policy verified_local_policy
  | AllowlistUpdated u64 | LearningStatus verified_learning_bundle

record allowlist_request =
  ar_binding :: "string option"
  ar_generation :: "string option"

definition allowlist_options :: "string list \<Rightarrow> command_error + allowlist_request" where
  "allowlist_options args =
     (if ''--confirm'' \<notin> set args
      then Inl (Text ''explicit --confirm is required to replace the helper allowlist'')
      else
     bind_r (cmd_option args ''--binding'') (\<lambda>binding.
     bind_r (binding_generation_option args) (\<lambda>generation.
       if binding \<noteq> None
          \<and> (has_option args ''--token'' \<or> has_option args ''--signer-certificate-sha256'')
       then Inl (Text ''--binding cannot be combined with policy registration credentials'')
       else if binding = None \<and> generation \<noteq> None
       then Inl (Text ''--binding-generation requires --binding'')
       else Inr \<lparr>ar_binding = binding, ar_generation = generation\<rparr>)))"

definition allowlist_valued :: "string list" where
  "allowlist_valued = [''--binding'', ''--binding-generation'', ''--generation'', ''--token'',
     ''--signer-certificate-sha256'']"

definition verified_update ::
  "device_env \<Rightarrow> runtime_probe \<Rightarrow> prepared_update \<Rightarrow> verified_local_policy cmd" where
  "verified_update env runtime update =
     c_lift (map_err (\<lambda>_. Credential CompatibilityMismatch) (verify (de_policy env)
       (Some SUPPORTED_SKILL_VERSION) (Some (pr_ego_browser_version runtime)) (pu_next update)))"

definition prepare_allowlist ::
  "device_env \<Rightarrow> string list \<Rightarrow> (runtime_probe \<times> prepared_update \<times> verified_local_policy) cmd" where
  "prepare_allowlist env args =
     c_then (on_store (lock_policy True (de_lock_policy env))) (\<lambda>_.
     c_then (probed_runtime env) (\<lambda>runtime.
     c_then (policy_store_error (load_policy_for env runtime)) (\<lambda>_.
     c_then (c_lift (positional_paths allowlist_valued (tl args))) (\<lambda>roots.
     c_then (c_check (roots \<noteq> []) (Text ''at least one allowlist root is required'')) (\<lambda>_.
     c_then (on_store (prepare_allowlist_update (de_policy env) roots)) (\<lambda>update.
     c_then (verified_update env runtime update) (\<lambda>verified.
       c_give (runtime, update, verified))))))))"

text \<open>The binding of the local handoff, which must be the one that is named.\<close>

definition matching_handoff ::
  "device_env \<Rightarrow> community_credential \<Rightarrow> string \<Rightarrow> u64 \<Rightarrow> active_binding option cmd" where
  "matching_handoff env c binding generation =
     c_then (if_present (load_active_binding (de_store env) (cc_device_id c))) (\<lambda>active.
     c_then (c_check (case active of
         None \<Rightarrow> True | Some b \<Rightarrow> ab_binding_id b = binding \<and> ab_generation b = generation)
        (Text ''the requested binding does not match the active local handoff'')) (\<lambda>_.
       c_give active))"

definition checked_sub :: "u64 \<Rightarrow> u64 \<Rightarrow> u64 option" where
  "checked_sub a b = (if b \<le> a then Some (a - b) else None)"

definition confirm_allowlist_call ::
  "device_env \<Rightarrow> device_client \<Rightarrow> string \<Rightarrow> u64 \<Rightarrow> verified_local_policy \<Rightarrow> json cmd" where
  "confirm_allowlist_call env client binding generation verified =
     c_then (c_lift (need ''allowlist revision is invalid''
        (checked_sub (vp_allowlist_revision verified) 1))) (\<lambda>expected.
     c_then (c_lift (need ''allowlist digest is missing'' (vp_allowlist_roots_digest verified)))
       (\<lambda>digest.
       on_api (confirm_allowlist (de_api env) client binding generation expected digest)))"

definition allowlist_with_binding ::
  "device_env \<Rightarrow> string \<Rightarrow> string option \<Rightarrow> prepared_update \<Rightarrow> verified_local_policy \<Rightarrow> unit cmd" where
  "allowlist_with_binding env binding generation_text update verified =
     c_then (c_lift (bind_r (need ''--binding-generation is required with --binding'' generation_text)
        parse_generation)) (\<lambda>generation.
     c_then (current_credential env) (\<lambda>(c, i).
     c_then (matching_handoff env c binding generation) (\<lambda>active.
     c_then (identity_client env c i) (\<lambda>client.
     c_then (confirm_allowlist_call env client binding generation verified) (\<lambda>response.
     c_then (c_lift (confirmed_allowlist_generation response binding (cc_device_id c) generation
        verified (map_option ab_task_space_label active))) (\<lambda>_.
     c_then (on_store clear_active_binding) (\<lambda>_.
     c_then (on_store (commit_policy_update_unlocked (de_policy env) update)) (\<lambda>_.
       case active of
         None \<Rightarrow> c_give ()
       | Some b \<Rightarrow> persist_active_binding env (cc_device_id c) (ab_task_space_label b) response))))))))"

text \<open>Without a binding the policy is registered, where the device is, and then committed.\<close>

definition commit_registered ::
  "device_env \<Rightarrow> string list \<Rightarrow> runtime_probe \<Rightarrow> prepared_update \<Rightarrow> verified_local_policy \<Rightarrow> unit cmd" where
  "commit_registered env args runtime update verified =
     c_then (synchronize_registered_policy env args runtime verified) (\<lambda>credential.
     c_then (if credential \<noteq> None then on_store clear_active_binding else c_give ()) (\<lambda>_.
     c_then (on_store (commit_policy_update_unlocked (de_policy env) update)) (\<lambda>_.
       case credential of
         None \<Rightarrow> c_give () | Some c \<Rightarrow> on_store (save_credential (de_store env) c))))"

definition allowlist_set :: "device_env \<Rightarrow> string list \<Rightarrow> policy_output cmd" where
  "allowlist_set env args =
     c_then (c_lift (allowlist_options args)) (\<lambda>request.
     c_then (prepare_allowlist env args) (\<lambda>(runtime, update, verified).
     c_then (case ar_binding request of
         Some binding \<Rightarrow>
           allowlist_with_binding env binding (ar_generation request) update verified
       | None \<Rightarrow> commit_registered env args runtime update verified) (\<lambda>_.
       c_give (AllowlistUpdated (po_allowlist_revision (pu_next update))))))"

definition allowlist_command :: "device_env \<Rightarrow> string list \<Rightarrow> policy_output cmd" where
  "allowlist_command env args =
     (case args of
        [] \<Rightarrow> c_refuse ''usage: ego-browser-device allowlist show|set ROOT... --confirm''
      | sub # _ \<Rightarrow>
          if sub = ''show''
          then c_then (load_verified_policy env) (\<lambda>(policy, verified). c_give (ShownPolicy policy verified))
          else if sub = ''set'' then allowlist_set env args
          else c_refuse ''usage: ego-browser-device allowlist show|set ROOT... --confirm'')"

section \<open>Learning bundles\<close>

definition learning_status :: "verified_local_policy \<Rightarrow> policy_output cmd" where
  "learning_status p = c_lift (map_err (\<lambda>_. Text ''no signed learning bundle is configured'')
     (case vp_learning_bundle p of None \<Rightarrow> Inl () | Some b \<Rightarrow> Inr (LearningStatus b)))"

definition learning_set :: "device_env \<Rightarrow> string list \<Rightarrow> policy_output cmd" where
  "learning_set env args =
     (if ''--confirm'' \<notin> set args
      then c_refuse ''explicit --confirm is required to configure a learning bundle''
      else
     c_then (c_lift (positional_paths [''--token'', ''--signer-certificate-sha256''] (tl args))) (\<lambda>roots.
       case roots of
         [root] \<Rightarrow>
     c_then (on_store (lock_policy True (de_lock_policy env))) (\<lambda>_.
     c_then (on_store (prepare_learning_bundle_update (de_policy env) root)) (\<lambda>update.
     c_then (probed_runtime env) (\<lambda>runtime.
     c_then (verified_update env runtime update) (\<lambda>verified.
     c_then (commit_registered env args runtime update verified) (\<lambda>_.
     c_then (load_verified_policy env) (\<lambda>(_, policy). learning_status policy))))))
       | _ \<Rightarrow> c_refuse ''exactly one learning bundle path is required''))"

definition learning_command :: "device_env \<Rightarrow> string list \<Rightarrow> policy_output cmd" where
  "learning_command env args =
     (case args of
        [] \<Rightarrow> c_refuse ''usage: ego-browser-device learning verify|set BUNDLE --confirm''
      | sub # rest \<Rightarrow>
          if sub = ''verify''
          then (if rest \<noteq> [] then c_refuse ''usage: ego-browser-device learning verify''
            else c_then (load_verified_policy env) (\<lambda>(_, policy). learning_status policy))
          else if sub = ''set'' then learning_set env args
          else c_refuse ''usage: ego-browser-device learning verify|set BUNDLE --confirm'')"

section \<open>Dispatch\<close>

text \<open>\<open>service\<close> runs the socket of \<open>Device_Service\<close> and \<open>help\<close> only prints; both are outside.\<close>

definition dispatch :: "device_env \<Rightarrow> string \<Rightarrow> string list \<Rightarrow> unit cmd" where
  "dispatch env command args =
     (if command \<in> {''register'', ''ensure''} then c_then (ensure_command env args) (\<lambda>_. c_give ())
      else if command = ''metadata'' then c_then (local_metadata_command env args) (\<lambda>_. c_give ())
      else if command = ''retire-local'' then retire_local env args
      else if command = ''purge-local'' then purge_local env args
      else if command = ''candidates'' then c_then (candidates_command env) (\<lambda>_. c_give ())
      else if command = ''claim'' then c_then (claim env args) (\<lambda>_. c_give ())
      else if command = ''status'' then c_then (status_command env args) (\<lambda>_. c_give ())
      else if command = ''allowlist'' then c_then (allowlist_command env args) (\<lambda>_. c_give ())
      else if command = ''learning'' then c_then (learning_command env args) (\<lambda>_. c_give ())
      else if command = ''device-rotate'' then c_then (device_rotate env args) (\<lambda>_. c_give ())
      else if command = ''device-revoke'' then c_then (device_revoke env args) (\<lambda>_. c_give ())
      else if command = ''pause'' then c_then (lifecycle env Pause args) (\<lambda>_. c_give ())
      else if command = ''resume'' then c_then (lifecycle env Resume args) (\<lambda>_. c_give ())
      else if command = ''stop'' then c_then (lifecycle env Stop args) (\<lambda>_. c_give ())
      else if command = ''revoke'' then c_then (lifecycle env Revoke args) (\<lambda>_. c_give ())
      else if command \<in> {''service'', ''help'', ''--help'', ''-h''} then c_give ()
      else c_refuse ''unknown command; use --help'')"

end
