(* ===== verification/Device_Service.thy ===== *)
theory Device_Service
  imports Policy_Commands
begin

text \<open>
  The service of the device client, \<open>crates/device-client/src/device_service.rs\<close>: the socket file, the
  peers it accepts, and the heartbeat that tells the bridge whether the local gate is open; and the
  directory of the store with its migration, \<open>main.rs\<close> and \<open>lib.rs\<close>.
\<close>

section \<open>Admission of a peer\<close>

datatype local_peer_admission = PeerOpen | PeerClosed | PeerInvalid

definition peer_admission :: "store_env \<Rightarrow> local_peer_admission store_op" where
  "peer_admission env =
     andthen (attempt (load_credential_at env (st_now env))) (\<lambda>r. case r of
       Inl e \<Rightarrow> give (if e = Missing then PeerClosed else PeerInvalid)
     | Inr c \<Rightarrow>
     andthen (attempt (load_active_binding env (cc_device_id c))) (\<lambda>r. case r of
       Inl e \<Rightarrow> give (if e = Missing then PeerClosed else PeerInvalid)
     | Inr b \<Rightarrow>
     andthen (attempt (local_admission_is_open env (cc_device_id c) b)) (\<lambda>r. case r of
       Inl _ \<Rightarrow> give PeerInvalid
     | Inr is_open \<Rightarrow> give (if is_open then PeerOpen else PeerClosed))))"

definition peer_admission_of :: "store_env \<Rightarrow> files \<Rightarrow> local_peer_admission" where
  "peer_admission_of env st =
     (case fst (peer_admission env (st, [])) of Inr a \<Rightarrow> a | Inl _ \<Rightarrow> PeerInvalid)"

section \<open>The heartbeat\<close>

definition DEVICE_PEER_HEARTBEAT :: bytes where "DEVICE_PEER_HEARTBEAT = as_bytes ''EGB1'' @ [10]"
definition DEVICE_PEER_ADMISSION_CLOSED :: bytes where
  "DEVICE_PEER_ADMISSION_CLOSED = as_bytes ''EGB0'' @ [10]"

text \<open>One tick for each content of the store: what is written to the peer, until the connection ends.
  A write may fail, which ends it too; \<open>accepted\<close> says whether each write works.\<close>

fun serve_device_peer :: "store_env \<Rightarrow> (files \<times> bool) list \<Rightarrow> bytes list" where
  "serve_device_peer env [] = []"
| "serve_device_peer env ((st, accepted) # ticks) =
     (case peer_admission_of env st of
        PeerOpen \<Rightarrow>
          if accepted then DEVICE_PEER_HEARTBEAT # serve_device_peer env ticks else []
      | PeerClosed \<Rightarrow> if accepted then [DEVICE_PEER_ADMISSION_CLOSED] else []
      | PeerInvalid \<Rightarrow> [])"

section \<open>The socket\<close>

record service_answers =
  sa_lstat :: "io_error + file_meta"
  sa_is_socket :: bool
  sa_euid :: u32
  sa_remove :: "io_error + unit"
  sa_bind :: "io_error + unit"
  sa_chmod :: "io_error + unit"

definition PermissionDenied :: io_error where "PermissionDenied = OtherIo ''permission denied''"

text \<open>An old socket of this user is removed; anything else in its place is left alone.\<close>

definition prepare_device_service_listener :: "service_answers \<Rightarrow> io_error + unit" where
  "prepare_device_service_listener a =
     bind_r (case sa_lstat a of
         Inr m \<Rightarrow>
           if sa_is_socket a \<and> fm_uid m = sa_euid a \<and> mode_bits m 0x3F = 0 then sa_remove a
           else Inl PermissionDenied
       | Inl e \<Rightarrow> if e = NotFound then Inr () else Inl e) (\<lambda>_.
     bind_r (sa_bind a) (\<lambda>_. sa_chmod a))"

definition same_user_peer :: "u32 option \<Rightarrow> u32 \<Rightarrow> bool" where
  "same_user_peer uid euid \<longleftrightarrow> uid = Some euid"

section \<open>The service loop\<close>

datatype service_event = Interrupt "io_error + unit" | Accepted "io_error + u32 option"
  | MetadataTick | PeerEnded

record service_state =
  ss_peers :: nat
  ss_metrics :: "(string \<times> nat \<times> string) list"

definition metric :: "string \<Rightarrow> nat \<Rightarrow> string \<Rightarrow> service_state \<Rightarrow> service_state" where
  "metric name v status s = s\<lparr>ss_metrics := ss_metrics s @ [(name, v, status)]\<rparr>"

definition refresh_candidate_metadata :: "device_env \<Rightarrow> string cmd" where
  "refresh_candidate_metadata env =
     c_then (try_store (load_credential_at (de_store env) (st_now (de_store env)))) (\<lambda>r. case r of
       Inl _ \<Rightarrow> c_give ''unregistered''
     | Inr c \<Rightarrow>
     c_then (try_store (credential_identity (de_random env) c)) (\<lambda>r. case r of
       Inl _ \<Rightarrow> c_give ''identity_unavailable''
     | Inr i \<Rightarrow>
         (case client_with_identity (de_api env) c i of
            Inl _ \<Rightarrow> c_give ''client_unavailable''
          | Inr client \<Rightarrow>
              c_then (c_attempt (on_api (candidates (de_api env) client))) (\<lambda>r.
                c_give (if is_ok r then ''completed'' else ''control_plane_error'')))))"

text \<open>One event of the loop; \<open>refreshed\<close> is the status of \<open>refresh_candidate_metadata\<close>.  The loop ends
  with an error of the system or, on an interrupt, with success and no peer.\<close>

definition service_step ::
  "u32 \<Rightarrow> string \<Rightarrow> service_event \<Rightarrow> service_state \<Rightarrow> (io_error + unit) option \<times> service_state" where
  "service_step euid refreshed ev s =
     (case ev of
        Interrupt r \<Rightarrow> (case r of
            Inl e \<Rightarrow> (Some (Inl e), s)
          | Inr _ \<Rightarrow> (Some (Inr ()),
              metric ''ego_browser_device_service_up'' 0 ''stopped'' (s\<lparr>ss_peers := 0\<rparr>)))
      | Accepted r \<Rightarrow> (case r of
            Inl e \<Rightarrow> (Some (Inl e), s)
          | Inr uid \<Rightarrow>
              if same_user_peer uid euid
              then let s = s\<lparr>ss_peers := ss_peers s + 1\<rparr> in
                (None, metric ''ego_browser_device_bridge_peers'' (ss_peers s) ''connected'' s)
              else (None, metric ''ego_browser_device_peer_total'' 1 ''rejected'' s))
      | MetadataTick \<Rightarrow> (None, metric ''ego_browser_device_refresh_total'' 1 refreshed s)
      | PeerEnded \<Rightarrow>
          if ss_peers s = 0 then (None, s)
          else let s = s\<lparr>ss_peers := ss_peers s - 1\<rparr> in
            (None, metric ''ego_browser_device_bridge_peers'' (ss_peers s) ''disconnected'' s))"

section \<open>The directory of the store\<close>

definition config_dir :: "(string \<Rightarrow> string option) \<Rightarrow> command_error + path" where
  "config_dir var_os =
     (case var_os ''EGO_BROWSER_DEVICE_HOME'' of
        Some p \<Rightarrow> Inr (path_of p)
      | None \<Rightarrow>
          bind_r (need ''HOME is not set'' (var_os ''HOME'')) (\<lambda>home.
            Inr (path_join (path_of home) (path_of ''.config/agent-remote-ego-browser''))))"

text \<open>The directory of older releases is moved entry by entry: \<open>lg_entries\<close> are its entries in the
  order of the directory, \<open>lg_present\<close> says what the new directory already has, and \<open>lg_rename\<close>
  answers each rename.\<close>

definition DEVICE_STORE_STATE_FILES :: "string list" where
  "DEVICE_STORE_STATE_FILES =
     [''ego-browser-credential.json'', ''ego-browser-device-key.bin'',
      ''ego-browser-device-metadata.json'', ''ego-browser-device-key.pending.bin'',
      ''ego-browser-pending-rotation.json'', ''ego-browser-pending-registration.json'',
      ''ego-browser-policy.json'', ''.ego-browser-policy.lock'', ''ego-browser-active-binding.json'',
      ''ego-browser-local-admission.json'', ''.ego-browser-registration.lock'']"

record legacy_entry =
  le_name :: string
  le_meta :: file_meta
  le_socket :: bool

record legacy_answers =
  lg_same :: bool
  lg_euid :: u32
  lg_legacy :: "io_error + file_meta"
  lg_entries :: "io_error + legacy_entry list"
  lg_canonical :: "io_error + file_meta"
  lg_create_parent :: "io_error + unit"
  lg_create :: "io_error + unit"
  lg_set_mode :: "io_error + unit"
  lg_created :: "io_error + file_meta"
  lg_present :: "string \<Rightarrow> bool"
  lg_rename :: "string \<Rightarrow> io_error + unit"

definition validate_store_directory_metadata :: "u32 \<Rightarrow> file_meta \<Rightarrow> credential_error + unit" where
  "validate_store_directory_metadata euid m =
     (if fm_symlink m \<or> \<not> fm_dir m then Inl credential_error.InvalidPath
      else if fm_uid m \<noteq> euid \<or> mode_bits m 0x3F \<noteq> 0 then Inl UnsafePermissions else Inr ())"

definition validate_owner_file_metadata :: "u32 \<Rightarrow> file_meta \<Rightarrow> credential_error + unit" where
  "validate_owner_file_metadata euid m =
     (if \<not> fm_file m then Inl credential_error.InvalidPath
      else if fm_uid m \<noteq> euid \<or> fm_nlink m \<noteq> 1 \<or> mode_bits m 0x1FF \<noteq> 0x180
      then Inl UnsafePermissions else Inr ())"

definition legacy_socket_ok :: "legacy_entry \<Rightarrow> bool" where
  "legacy_socket_ok e \<longleftrightarrow> \<not> fm_symlink (le_meta e) \<and> le_socket e"

definition validate_legacy_entry :: "u32 \<Rightarrow> legacy_entry \<Rightarrow> credential_error + unit" where
  "validate_legacy_entry euid e =
     (if \<not> valid_utf8 (le_name e) then Inl credential_error.InvalidPath
      else if le_name e = ''device-service.sock''
      then (if legacy_socket_ok e then Inr () else Inl credential_error.InvalidPath)
      else if le_name e \<in> set DEVICE_STORE_STATE_FILES
      then validate_owner_file_metadata euid (le_meta e)
      else if fm_symlink (le_meta e) then Inl credential_error.InvalidPath else Inr ())"

definition validate_legacy_store_entries :: "u32 \<Rightarrow> legacy_entry list \<Rightarrow> credential_error + unit" where
  "validate_legacy_store_entries euid es =
     bind_r (traverse_r (validate_legacy_entry euid) es) (\<lambda>_. Inr ())"

definition canonical_directory :: "legacy_answers \<Rightarrow> credential_error + unit" where
  "canonical_directory a =
     (case lg_canonical a of
        Inr m \<Rightarrow> validate_store_directory_metadata (lg_euid a) m
      | Inl e \<Rightarrow>
          if e \<noteq> NotFound then Inl (CredentialIo e)
          else
            bind_r (map_err CredentialIo (lg_create_parent a)) (\<lambda>_.
            bind_r (case lg_create a of
                Inr _ \<Rightarrow> map_err CredentialIo (lg_set_mode a)
              | Inl e \<Rightarrow> if e = AlreadyExists then Inr () else Inl (CredentialIo e)) (\<lambda>_.
            bind_r (map_err CredentialIo (lg_created a))
              (validate_store_directory_metadata (lg_euid a)))))"

definition movable_entry :: "legacy_answers \<Rightarrow> legacy_entry \<Rightarrow> credential_error + string option" where
  "movable_entry a e =
     (if \<not> valid_utf8 (le_name e) then Inl credential_error.InvalidPath
      else if le_name e = ''device-service.sock''
      then (if legacy_socket_ok e then Inr None else Inl credential_error.InvalidPath)
      else if le_name e \<notin> set DEVICE_STORE_STATE_FILES then Inr None
      else
        bind_r (validate_owner_file_metadata (lg_euid a) (le_meta e)) (\<lambda>_.
          if lg_present a (le_name e) then Inl credential_error.InvalidPath
          else Inr (Some (le_name e))))"

definition movable_entries :: "legacy_answers \<Rightarrow> legacy_entry list \<Rightarrow> credential_error + string list" where
  "movable_entries a es =
     bind_r (traverse_r (movable_entry a) es) (\<lambda>names. Inr (List.map_filter id names))"

text \<open>The names that were moved, in order, with the result.\<close>

fun rename_entries :: "legacy_answers \<Rightarrow> string list \<Rightarrow> string list \<times> (credential_error + unit)" where
  "rename_entries a [] = ([], Inr ())"
| "rename_entries a (n # ns) =
     (case lg_rename a n of
        Inl e \<Rightarrow> ([], Inl (CredentialIo e))
      | Inr _ \<Rightarrow> (let (moved, r) = rename_entries a ns in (n # moved, r)))"

definition migrate_legacy_device_store :: "legacy_answers \<Rightarrow> string list \<times> (credential_error + unit)" where
  "migrate_legacy_device_store a =
     (if lg_same a then ([], Inr ())
      else (case lg_legacy a of
        Inl e \<Rightarrow> ([], if e = NotFound then Inr () else Inl (CredentialIo e))
      | Inr m \<Rightarrow>
          (case bind_r (validate_store_directory_metadata (lg_euid a) m) (\<lambda>_.
             bind_r (map_err CredentialIo (lg_entries a)) (\<lambda>es.
             bind_r (validate_legacy_store_entries (lg_euid a) es) (\<lambda>_.
             bind_r (canonical_directory a) (\<lambda>_. movable_entries a es)))) of
             Inl e \<Rightarrow> ([], Inl e)
           | Inr names \<Rightarrow> rename_entries a names)))"

definition migrate_default_device_store ::
  "(string \<Rightarrow> string option) \<Rightarrow> path \<Rightarrow> legacy_answers \<Rightarrow> string list \<times> (credential_error + unit)" where
  "migrate_default_device_store var_os canonical a =
     (if var_os ''EGO_BROWSER_DEVICE_HOME'' \<noteq> None then ([], Inr ())
      else (case var_os ''HOME'' of
        None \<Rightarrow> ([], Inl credential_error.InvalidPath)
      | Some home \<Rightarrow>
          if canonical \<noteq> path_join (path_of home) (path_of ''.config/agent-remote-ego-browser'')
          then ([], Inr ()) else migrate_legacy_device_store a))"

end
