(* ===== verification/Device_Service_Properties.thy ===== *)
theory Device_Service_Properties
  imports Device_Service Binding_Properties
begin

text \<open>
  Properties of the device service: when a peer is told that the gate is open, and what a migration of
  the store may move.
\<close>

section \<open>Heartbeats\<close>

lemma read_only_service [read_only_intros]:
  "read_only (load_credential_at env now)" "read_only (load_active_binding env d)"
  "read_only (local_admission_is_open env d b)"
  unfolding load_credential_at_def load_credential_def load_active_binding_def
    local_admission_is_open_def load_local_admission_def
  by (intro read_only_intros read_only_attempt, (auto intro!: read_only_intros split: sum.splits)[])+

text \<open>A document of the store that can be read.\<close>

definition stored :: "'d codec \<Rightarrow> store_file \<Rightarrow> files \<Rightarrow> 'd \<Rightarrow> bool" where
  "stored c f st d \<longleftrightarrow> (\<exists>bs. st f = Content bs \<and> length bs \<le> MAX_CREDENTIAL_BYTES \<and> co_read c bs = Some d)"

lemma andthen_value:
  "andthen m f s = (Inr y, s') \<longleftrightarrow> (\<exists>x s1. m s = (Inr x, s1) \<and> f x s1 = (Inr y, s'))"
  by (auto simp: andthen_def split: prod.splits sum.splits)

lemma give_value: "give x s = (Inr y, s') \<longleftrightarrow> y = x \<and> s' = s"
  by (cases s) (auto simp: give_def)

lemma check_value: "check_s c e s = (Inr u, s') \<longleftrightarrow> c \<and> s' = s"
  by (cases s) (auto simp: check_s_def give_def refuse_def)

lemma lift_value: "lift_s r s = (Inr y, s') \<longleftrightarrow> r = Inr y \<and> s' = s"
  by (cases s) (auto simp: lift_s_def)

lemmas op_values = andthen_value give_value check_value lift_value

lemma read_document_stored:
  "read_document c f (st, fs) = (Inr d, s) \<longleftrightarrow> stored c f st d \<and> s = (st, fs)"
  by (cases "st f") (auto simp: read_document_def op_values read_owner_file_def stored_def)

lemma stored_unique: "stored c f st d \<Longrightarrow> stored c f st e \<Longrightarrow> d = e"
  by (auto simp: stored_def)

lemma load_credential_stored:
  "load_credential_at env now (st, fs) = (Inr c, s) \<longleftrightarrow>
   stored (st_credential env) CredentialFile st c \<and> valid_community_credential (st_url env) c (Some now)
   \<and> s = (st, fs)"
  unfolding load_credential_at_def load_credential_def
  by (auto simp: op_values read_document_stored simp del: op_simps check_s_simp)

lemma load_binding_stored:
  "load_active_binding env d (st, fs) = (Inr b, s) \<longleftrightarrow>
   stored (st_binding env) ActiveBindingFile st b \<and> ab_device_id b = d
   \<and> validate_active_binding b = Inr () \<and> s = (st, fs)"
  unfolding load_active_binding_def
  by (auto simp: op_values read_document_stored simp del: op_simps check_s_simp)

lemma admission_open_stored:
  "local_admission_is_open env d b (st, fs) = (Inr True, s) \<longleftrightarrow>
   (\<exists>r bs. st AdmissionFile = Content bs \<and> length bs \<le> MAX_ADMISSION_BYTES \<and>
      co_read (st_admission env) bs = Some r \<and> validate_local_admission_record r = Inr () \<and>
      admits d b r) \<and> s = (st, fs)"
proof -
  have load: "load_local_admission env (st, fs) = (Inr r, s) \<longleftrightarrow>
    (\<exists>bs. st AdmissionFile = Content bs \<and> length bs \<le> MAX_ADMISSION_BYTES \<and>
      co_read (st_admission env) bs = Some r \<and> validate_local_admission_record r = Inr ()) \<and> s = (st, fs)"
    for r s
    unfolding load_local_admission_def read_owner_file_def MAX_ADMISSION_BYTES_def MAX_CREDENTIAL_BYTES_def
    by (cases "st AdmissionFile") (auto simp: op_values simp del: op_simps check_s_simp)
  obtain x s1 where x: "load_local_admission env (st, fs) = (x, s1)" by (metis surj_pair)
  show ?thesis
  proof (cases x)
    case (Inl e)
    then have "local_admission_is_open env d b (st, fs) \<noteq> (Inr True, s)"
      using x by (cases s1) (auto simp: local_admission_is_open_def andthen_def attempt_def give_def refuse_def)
    moreover have "\<not> (\<exists>bs. st AdmissionFile = Content bs \<and> length bs \<le> MAX_ADMISSION_BYTES \<and>
        co_read (st_admission env) bs = Some r \<and> validate_local_admission_record r = Inr ())" for r
      using load [of r "(st, fs)"] x Inl by auto
    ultimately show ?thesis by blast
  next
    case (Inr r)
    then have "local_admission_is_open env d b (st, fs) = (Inr True, s) \<longleftrightarrow> admits d b r \<and> s = s1"
      using x by (cases s1) (auto simp: local_admission_is_open_def andthen_def attempt_def give_def)
    moreover have "load_local_admission env (st, fs) = (Inr r', s') \<longleftrightarrow> r' = r \<and> s' = s1" for r' s'
      using x Inr by auto
    ultimately show ?thesis using load by metis
  qed
qed

lemma peer_admission_reads:
  obtains a where "peer_admission env (st, []) = (Inr a, st, [])" "peer_admission_of env st = a"
proof -
  have "read_only (peer_admission env)"
    unfolding peer_admission_def by (auto intro!: read_only_intros split: sum.splits)
  then obtain x where x: "peer_admission env (st, []) = (x, st, [])"
    unfolding read_only_def by blast
  have "\<exists>a. x = Inr a"
    using x unfolding peer_admission_def attempt_def
    by (auto split: prod.splits sum.splits)
  with x that show thesis by (auto simp: peer_admission_of_def)
qed


definition open_tick :: "store_env \<Rightarrow> files \<times> bool \<Rightarrow> bool" where
  "open_tick env t \<longleftrightarrow> snd t \<and> peer_admission_of env (fst t) = PeerOpen"

text \<open>What a peer receives: one heartbeat for every tick at which the gate was open, up to the first
  tick at which it was not; a gate that is closed is announced once, and one that cannot be read ends
  the connection without a word.\<close>

theorem heartbeats_follow_gate:
  "serve_device_peer env ticks =
     replicate (length (takeWhile (open_tick env) ticks)) DEVICE_PEER_HEARTBEAT @
     (case dropWhile (open_tick env) ticks of
        [] \<Rightarrow> []
      | t # _ \<Rightarrow> if snd t \<and> peer_admission_of env (fst t) = PeerClosed
          then [DEVICE_PEER_ADMISSION_CLOSED] else [])"
  by (induction env ticks rule: serve_device_peer.induct)
    (auto simp: open_tick_def split: local_peer_admission.splits)

section \<open>Migration\<close>

lemma traverse_member:
  "traverse_r f xs = Inr ys \<Longrightarrow> y \<in> set ys \<Longrightarrow> \<exists>x \<in> set xs. f x = Inr y"
  by (induction xs arbitrary: ys) (auto simp: bind_r_Inr_iff)

lemma movable_entry_Some:
  assumes "movable_entry a e = Inr (Some n)"
  shows "le_name e = n \<and> n \<in> set DEVICE_STORE_STATE_FILES \<and> \<not> lg_present a n \<and>
    validate_owner_file_metadata (lg_euid a) (le_meta e) = Inr ()"
proof -
  define sock where "sock = ''device-service.sock''"
  from assms show ?thesis
    unfolding movable_entry_def sock_def [symmetric] by (auto simp: bind_r_Inr_iff split: if_splits)
qed

lemma movable_sound:
  assumes "movable_entries a es = Inr names" "n \<in> set names"
  shows "n \<in> set DEVICE_STORE_STATE_FILES \<and> \<not> lg_present a n \<and>
    (\<exists>e \<in> set es. le_name e = n \<and> validate_owner_file_metadata (lg_euid a) (le_meta e) = Inr ())"
proof -
  from assms obtain opts where t: "traverse_r (movable_entry a) es = Inr opts" and "Some n \<in> set opts"
    unfolding movable_entries_def
    by (auto simp: bind_r_Inr_iff List.map_filter_def)
  then obtain e where e: "e \<in> set es" "movable_entry a e = Inr (Some n)"
    using traverse_member [OF t] by blast
  with movable_entry_Some [OF e(2)] show ?thesis by blast
qed

lemma rename_entries_prefix: "rename_entries a names = (moved, r) \<Longrightarrow> \<exists>rest. names = moved @ rest"
  by (induction a names arbitrary: moved rule: rename_entries.induct)
    (auto split: sum.splits prod.splits)

lemma migrated_entries:
  assumes "migrate_legacy_device_store a = (moved, r)" "moved \<noteq> []"
  obtains es names where "lg_entries a = Inr es" "movable_entries a es = Inr names"
    "rename_entries a names = (moved, r)"
proof -
  have "\<not> lg_same a" using assms by (auto simp: migrate_legacy_device_store_def)
  moreover obtain m where m: "lg_legacy a = Inr m"
    using assms by (cases "lg_legacy a") (auto simp: migrate_legacy_device_store_def split: if_splits)
  ultimately have moved: "(case bind_r (validate_store_directory_metadata (lg_euid a) m) (\<lambda>_.
             bind_r (map_err CredentialIo (lg_entries a)) (\<lambda>es.
             bind_r (validate_legacy_store_entries (lg_euid a) es) (\<lambda>_.
             bind_r (canonical_directory a) (\<lambda>_. movable_entries a es)))) of
             Inl e \<Rightarrow> ([], Inl e)
           | Inr names \<Rightarrow> rename_entries a names) = (moved, r)"
    (is "(case ?names of Inl e \<Rightarrow> _ e | Inr names \<Rightarrow> _ names) = _")
    using assms(1) by (simp add: migrate_legacy_device_store_def)
  then obtain names where "?names = Inr names" "rename_entries a names = (moved, r)"
    using assms(2) by (cases ?names) auto
  with that show thesis by (auto simp: bind_r_Inr_iff)
qed

text \<open>A migration moves only the state files of the old directory that this user owns alone, and never
  onto a file that the new directory has, however it ends.\<close>

theorem migration_never_overwrites:
  assumes "migrate_legacy_device_store a = (moved, r)" "n \<in> set moved"
  shows "n \<in> set DEVICE_STORE_STATE_FILES \<and> \<not> lg_present a n \<and>
    (\<exists>es e. lg_entries a = Inr es \<and> e \<in> set es \<and> le_name e = n \<and>
      validate_owner_file_metadata (lg_euid a) (le_meta e) = Inr ())"
proof -
  from assms(1) obtain es names where es: "lg_entries a = Inr es" "movable_entries a es = Inr names"
    and renamed: "rename_entries a names = (moved, r)"
    using assms(2) by (auto elim: migrated_entries)
  from rename_entries_prefix [OF renamed] assms(2) have "n \<in> set names" by auto
  from movable_sound [OF es(2) this] es(1) show ?thesis by blast
qed

definition old_store :: legacy_answers where
  "old_store =
     \<lparr>lg_same = False, lg_euid = 501, lg_legacy = Inr (meta_of False 5),
      lg_entries = Inr [\<lparr>le_name = ''ego-browser-credential.json'', le_meta = meta_of True 7,
        le_socket = False\<rparr>],
      lg_canonical = Inl NotFound, lg_create_parent = Inr (), lg_create = Inr (),
      lg_set_mode = Inr (), lg_created = Inr (meta_of False 6), lg_present = (\<lambda>_. False),
      lg_rename = (\<lambda>_. Inr ())\<rparr>"

lemma credential_is_state:
  "''ego-browser-credential.json'' \<in> set DEVICE_STORE_STATE_FILES"
  "''ego-browser-credential.json'' \<noteq> ''device-service.sock''"
  "valid_utf8 ''ego-browser-credential.json''"
  unfolding DEVICE_STORE_STATE_FILES_def by (simp, simp, code_simp)

lemma old_store_moved:
  "migrate_legacy_device_store old_store = ([''ego-browser-credential.json''], Inr ())"
proof -
  let ?e = "\<lparr>le_name = ''ego-browser-credential.json'', le_meta = meta_of True 7, le_socket = False\<rparr>"
  have "validate_legacy_entry 501 ?e = Inr ()"
    unfolding validate_legacy_entry_def
    by (simp only: credential_is_state legacy_entry.select_convs if_False if_True not_True_eq_False)
      (simp add: validate_owner_file_metadata_def meta_of_def mode_bits_def)
  moreover have "movable_entry old_store ?e = Inr (Some ''ego-browser-credential.json'')"
    unfolding movable_entry_def
    by (simp only: credential_is_state legacy_entry.select_convs if_False if_True not_True_eq_False)
      (simp add: validate_owner_file_metadata_def meta_of_def mode_bits_def old_store_def)
  moreover have "canonical_directory old_store = Inr ()"
    by (simp add: canonical_directory_def old_store_def validate_store_directory_metadata_def
        meta_of_def mode_bits_def)
  moreover have "\<not> lg_same old_store" "lg_legacy old_store = Inr (meta_of False 5)"
    "lg_entries old_store = Inr [?e]" "lg_euid old_store = 501" "lg_rename old_store n = Inr ()" for n
    by (simp_all add: old_store_def)
  moreover have "validate_store_directory_metadata 501 (meta_of False 5) = Inr ()"
    by (simp add: validate_store_directory_metadata_def meta_of_def mode_bits_def)
  ultimately show ?thesis
    by (simp add: migrate_legacy_device_store_def validate_legacy_store_entries_def movable_entries_def
        List.map_filter_def)
qed

lemma migration_never_overwrites_witness:
  "''ego-browser-credential.json'' \<in> set DEVICE_STORE_STATE_FILES \<and>
   \<not> lg_present old_store ''ego-browser-credential.json''"
  using migration_never_overwrites [OF old_store_moved, of "''ego-browser-credential.json''"] by simp

end
