(* ===== verification/Learning_Bundle.thy ===== *)
theory Learning_Bundle
  imports Bridge_Config
begin

text \<open>
  The verification of a Site Learning bundle, \<open>crates/protocol/src/learning.rs\<close>: the signed manifest,
  the files it lists, the inventory of the directory, and the snapshot that is taken again at the end.
  Every system call is an action on the clock of \<open>Paths\<close>.
\<close>

section \<open>Limits, errors and the manifest\<close>

definition MAX_MANIFEST_BYTES :: u64 where "MAX_MANIFEST_BYTES = 1024 * 1024"
definition MAX_BUNDLE_FILES :: nat where "MAX_BUNDLE_FILES = 4096"
definition MAX_BUNDLE_BYTES :: u64 where "MAX_BUNDLE_BYTES = 256 * 1024 * 1024"

text \<open>The path of an error is kept as a path; its text is \<open>to_string_lossy\<close>.\<close>

datatype learning_error =
  InvalidRoot | InvalidPath | MalformedManifest | InvalidSignature | VersionMismatch
| WritableBundle | BundleTooLarge | DuplicatePath path | UnlistedPath path | FileMismatch path
| Io io_error

record learning_file =
  lf_path :: string
  lf_size_bytes :: u64
  lf_sha256 :: string

record learning_manifest =
  lm_bundle_version :: string
  lm_skill_version :: string
  lm_local_ego_browser_runtime_version :: string
  lm_protocol_versions :: "string list"
  lm_files :: "learning_file list"
  lm_signing_key_id :: string
  lm_signature :: string

text \<open>\<open>le_order\<close> is the order in which a \<open>HashMap\<close> is iterated; \<open>le_signature\<close> accepts the bytes of a
  signature and \<open>le_key\<close> those of a public key; \<open>le_sha256_hex\<close> is \<open>hex_digest\<close>.\<close>

record learning_env =
  le_json :: json_codec
  le_manifest :: "json \<Rightarrow> string + learning_manifest"
  le_base64 :: "string \<Rightarrow> bytes option"
  le_key :: "bytes \<Rightarrow> bool"
  le_verify :: "bytes \<Rightarrow> bytes \<Rightarrow> bytes \<Rightarrow> bool"
  le_sha256_hex :: "bytes \<Rightarrow> string"
  le_order :: "(path \<times> file_identity) list \<Rightarrow> (path \<times> file_identity) list"

definition learning_file_value :: "learning_file \<Rightarrow> json" where
  "learning_file_value f = JObject (btree_of
     [(''path'', JString (lf_path f)), (''size_bytes'', JNumber (PosInt (lf_size_bytes f))),
      (''sha256'', JString (lf_sha256 f))])"

text \<open>The manifest without its signature.\<close>

definition signed_bytes :: "learning_env \<Rightarrow> learning_manifest \<Rightarrow> bytes" where
  "signed_bytes env m = canonical_json (jc_to_vec (le_json env)) (JObject (btree_of
     [(''bundle_version'', JString (lm_bundle_version m)),
      (''skill_version'', JString (lm_skill_version m)),
      (''local_ego_browser_runtime_version'', JString (lm_local_ego_browser_runtime_version m)),
      (''protocol_versions'', JArray (map JString (lm_protocol_versions m))),
      (''files'', JArray (map learning_file_value (lm_files m))),
      (''signing_key_id'', JString (lm_signing_key_id m))]))"

text \<open>The comparison of digests looks at every byte.\<close>

definition constant_time_eq :: "string \<Rightarrow> string \<Rightarrow> bool" where
  "constant_time_eq left right \<longleftrightarrow> length left = length right \<and>
     foldl (\<lambda>acc (a, b). acc OR (of_char a XOR of_char b)) (0 :: u8) (zip left right) = 0"

section \<open>Checks on metadata\<close>

definition require_read_only :: "file_meta \<Rightarrow> learning_error + unit" where
  "require_read_only m = ensure (mode_bits m 0x92 = 0) WritableBundle"

definition validate_read_only_directory :: "world \<Rightarrow> file_meta \<Rightarrow> learning_error + unit" where
  "validate_read_only_directory w m =
     (if \<not> fm_dir m then Inl InvalidPath
      else bind_r (require_read_only m) (\<lambda>_. ensure (fm_uid m = w_euid w) InvalidPath))"

definition validate_read_only_file_metadata ::
  "world \<Rightarrow> file_meta \<Rightarrow> path \<Rightarrow> learning_error + unit" where
  "validate_read_only_file_metadata w m relative =
     (if \<not> fm_file m then Inl (FileMismatch relative)
      else bind_r (require_read_only m) (\<lambda>_.
        ensure (fm_uid m = w_euid w \<and> fm_nlink m = 1) (FileMismatch relative)))"

definition validate_relative_path :: "string \<Rightarrow> learning_error + path" where
  "validate_relative_path v =
     (if v = [] \<or> is_absolute (path_of v) then Inl InvalidPath
      else if list_ex (\<lambda>c. c = ParentDir \<or> c = RootDir \<or> c = CurDir) (path_of v) then Inl InvalidPath
      else Inr (path_of v))"

section \<open>Opening files beneath the root\<close>

definition reject_symlink_components :: "world \<Rightarrow> path \<Rightarrow> (learning_error, unit) act" where
  "reject_symlink_components w p =
     each (\<lambda>i. bind_a (try_sys (\<lambda>t. w_lstat w t (take i p))) (\<lambda>r. case r of
         Inr m \<Rightarrow> check (\<not> fm_symlink m) InvalidPath
       | Inl _ \<Rightarrow> ret ())) [1..<Suc (length p)]"

definition parents :: "path \<Rightarrow> path" where
  "parents relative = (case path_parent relative of None \<Rightarrow> [] | Some p \<Rightarrow> p)"

definition require_read_only_parents :: "world \<Rightarrow> path \<Rightarrow> path \<Rightarrow> (learning_error, unit) act" where
  "require_read_only_parents w root relative =
     each (\<lambda>i. bind_a (sys Io (\<lambda>t. w_lstat w t (path_join root (take i (parents relative))))) (\<lambda>m.
       bind_a (check (\<not> (fm_symlink m \<or> \<not> fm_dir m)) InvalidPath) (\<lambda>_.
         lift_r (validate_read_only_directory w m)))) [1..<Suc (length (parents relative))]"

definition open_bundle_root ::
  "world \<Rightarrow> path \<Rightarrow> file_identity \<Rightarrow> (learning_error, handle) act" where
  "open_bundle_root w root expected_identity =
     bind_a (sys Io (\<lambda>t. w_open w t root directory_flags)) (\<lambda>h.
     bind_a (sys Io (\<lambda>t. w_fstat w t h)) (\<lambda>m.
     bind_a (lift_r (validate_read_only_directory w m)) (\<lambda>_.
     bind_a (check (file_identity m = expected_identity) InvalidRoot) (\<lambda>_. ret h))))"

definition open_bundle_directory_at ::
  "world \<Rightarrow> handle \<Rightarrow> string \<Rightarrow> (learning_error, handle) act" where
  "open_bundle_directory_at w parent name =
     bind_a (sys Io (open_at_raw w parent name directory_flags)) (\<lambda>h.
     bind_a (sys Io (\<lambda>t. w_fstat w t h)) (\<lambda>m.
     bind_a (lift_r (validate_read_only_directory w m)) (\<lambda>_. ret h)))"

fun open_bundle_components :: "world \<Rightarrow> handle \<Rightarrow> path \<Rightarrow> (learning_error, handle) act" where
  "open_bundle_components w directory [] = ret directory"
| "open_bundle_components w directory (Normal name # rest) =
     bind_a (open_bundle_directory_at w directory name) (\<lambda>h. open_bundle_components w h rest)"
| "open_bundle_components w directory (_ # rest) = fail InvalidPath"

text \<open>\<open>try_clone\<close> of the root handle is the handle itself.\<close>

definition open_beneath_bundle :: "world \<Rightarrow> handle \<Rightarrow> path \<Rightarrow> (learning_error, handle) act" where
  "open_beneath_bundle w root_handle relative =
     bind_a (open_bundle_components w root_handle (parents relative)) (\<lambda>directory.
     bind_a (lift_r (ok_or InvalidPath (file_name relative))) (\<lambda>name.
       sys Io (open_at_raw w directory name read_flags)))"

record read_only_file =
  rf_bytes :: bytes
  rf_identity :: file_identity

definition read_read_only_file ::
  "world \<Rightarrow> path \<Rightarrow> handle \<Rightarrow> path \<Rightarrow> u64 \<Rightarrow> (learning_error, read_only_file) act" where
  "read_read_only_file w root root_handle relative expected_max =
     (let path = path_join root relative; validated = \<lambda>m. lift_r (validate_read_only_file_metadata w m relative)
      in
     bind_a (sys Io (\<lambda>t. w_lstat w t path)) (\<lambda>m.
     bind_a (validated m) (\<lambda>_.
     bind_a (check (\<not> fm_len m > expected_max) (FileMismatch relative)) (\<lambda>_.
     bind_a (open_beneath_bundle w root_handle relative) (\<lambda>h.
     bind_a (sys Io (\<lambda>t. w_fstat w t h)) (\<lambda>opened.
     bind_a (validated opened) (\<lambda>_.
     bind_a (check (fm_len opened = fm_len m \<and> same_file m opened) (FileMismatch relative)) (\<lambda>_.
     bind_a (sys Io (\<lambda>t. w_read w t h)) (\<lambda>content.
     let bs = take (unat (sat_add expected_max 1)) content in
     bind_a (check (length bs = unat (fm_len opened) \<and> length bs \<le> unat expected_max)
        (FileMismatch relative)) (\<lambda>_.
     bind_a (sys Io (\<lambda>t. w_fstat w t h)) (\<lambda>after_open.
     bind_a (validated after_open) (\<lambda>_.
     bind_a (sys Io (\<lambda>t. w_lstat w t path)) (\<lambda>after_path.
     bind_a (validated after_path) (\<lambda>_.
     bind_a (check (fm_len after_open = fm_len opened \<and> same_file opened after_open
        \<and> same_file opened after_path) (FileMismatch relative)) (\<lambda>_.
       ret \<lparr>rf_bytes = bs, rf_identity = file_identity opened\<rparr>)))))))))))))))"

section \<open>The listed files\<close>

text \<open>\<open>fc_paths\<close> is the set of paths so far, \<open>fc_identities\<close> the map of identities, \<open>fc_digest\<close> the
  input of the digest.\<close>

record files_checked =
  fc_paths :: "path list"
  fc_identities :: "(path \<times> file_identity) list"
  fc_total :: u64
  fc_digest :: bytes

definition insert_identity ::
  "path \<Rightarrow> file_identity \<Rightarrow> (path \<times> file_identity) list \<Rightarrow> (path \<times> file_identity) list" where
  "insert_identity p i ids = filter (\<lambda>(q, _). q \<noteq> p) ids @ [(p, i)]"

definition entry_digest :: "learning_file \<Rightarrow> bytes" where
  "entry_digest f = as_bytes (lf_path f) @ as_bytes (lf_sha256 f) @ be64 (lf_size_bytes f)"

definition verify_entry ::
  "learning_env \<Rightarrow> world \<Rightarrow> path \<Rightarrow> handle \<Rightarrow> learning_file \<Rightarrow> files_checked \<Rightarrow>
     (learning_error, files_checked) act" where
  "verify_entry env w root root_handle f s =
     bind_a (lift_r (validate_relative_path (lf_path f))) (\<lambda>relative.
     bind_a (check (relative \<notin> set (fc_paths s)) (DuplicatePath (path_of (lf_path f)))) (\<lambda>_.
     bind_a (lift_r (ok_or BundleTooLarge (checked_add (fc_total s) (lf_size_bytes f)))) (\<lambda>total.
     bind_a (check (\<not> total > MAX_BUNDLE_BYTES) BundleTooLarge) (\<lambda>_.
     let path = path_join root relative in
     bind_a (reject_symlink_components w path) (\<lambda>_.
     bind_a (require_read_only_parents w root relative) (\<lambda>_.
     bind_a (sys Io (\<lambda>t. w_canonicalize w t path)) (\<lambda>canonical.
     bind_a (check (path_starts_with canonical root) InvalidPath) (\<lambda>_.
     bind_a (read_read_only_file w root root_handle relative (lf_size_bytes f)) (\<lambda>file.
     bind_a (check (length (rf_bytes file) = unat (lf_size_bytes f)) (FileMismatch (path_of (lf_path f))))
       (\<lambda>_.
     bind_a (check (constant_time_eq (le_sha256_hex env (rf_bytes file)) (lf_sha256 f))
        (FileMismatch (path_of (lf_path f)))) (\<lambda>_.
       ret \<lparr>fc_paths = fc_paths s @ [relative],
            fc_identities = insert_identity relative (rf_identity file) (fc_identities s),
            fc_total = total, fc_digest = fc_digest s @ entry_digest f\<rparr>)))))))))))"

fun verify_entries ::
  "learning_env \<Rightarrow> world \<Rightarrow> path \<Rightarrow> handle \<Rightarrow> learning_file list \<Rightarrow> files_checked \<Rightarrow>
     (learning_error, files_checked) act" where
  "verify_entries env w root h [] s = ret s"
| "verify_entries env w root h (f # fs) s =
     bind_a (verify_entry env w root h f s) (\<lambda>s. verify_entries env w root h fs s)"

section \<open>The inventory\<close>

definition manifest_path :: path where "manifest_path = [Normal ''manifest.json'']"

text \<open>The directories that the listed files need, without the root.\<close>

definition expected_directories :: "path list \<Rightarrow> path list" where
  "expected_directories files =
     remdups (concat (map (\<lambda>p. map (\<lambda>i. take i (parents p)) [1..<Suc (length (parents p))]) files))"

record inventory =
  iv_stack :: "path list"
  iv_files :: "path list"
  iv_directories :: "path list"

definition inventory_directory ::
  "world \<Rightarrow> path \<Rightarrow> path list \<Rightarrow> path \<Rightarrow> file_meta \<Rightarrow> inventory \<Rightarrow> (learning_error, inventory) act" where
  "inventory_directory w root files path m s =
     bind_a (lift_r (validate_read_only_directory w m)) (\<lambda>_.
     bind_a (lift_r (ok_or InvalidPath (path_strip_prefix path root))) (\<lambda>relative.
     bind_a (check (relative \<in> set (expected_directories files)) (UnlistedPath relative)) (\<lambda>_.
     bind_a (check (relative \<notin> set (iv_directories s)) InvalidPath) (\<lambda>_.
       ret (s\<lparr>iv_directories := relative # iv_directories s, iv_stack := path # iv_stack s\<rparr>)))))"

definition inventory_file ::
  "world \<Rightarrow> path \<Rightarrow> path list \<Rightarrow> path \<Rightarrow> file_meta \<Rightarrow> inventory \<Rightarrow> (learning_error, inventory) act" where
  "inventory_file w root files path m s =
     bind_a (lift_r (ok_or InvalidPath (path_strip_prefix path root))) (\<lambda>relative.
     bind_a (lift_r (validate_read_only_file_metadata w m relative)) (\<lambda>_.
       if relative = manifest_path then ret s
       else bind_a (check (relative \<in> set files) (UnlistedPath relative)) (\<lambda>_.
         ret (s\<lparr>iv_files := relative # iv_files s\<rparr>))))"

definition inventory_entry ::
  "world \<Rightarrow> path \<Rightarrow> path list \<Rightarrow> io_error + path \<Rightarrow> inventory \<Rightarrow> (learning_error, inventory) act" where
  "inventory_entry w root files entry s =
     bind_a (lift_r (map_err Io entry)) (\<lambda>path.
     bind_a (sys Io (\<lambda>t. w_lstat w t path)) (\<lambda>m.
     bind_a (check (\<not> fm_symlink m) InvalidPath) (\<lambda>_.
       if fm_dir m then inventory_directory w root files path m s
       else inventory_file w root files path m s)))"

fun inventory_entries ::
  "world \<Rightarrow> path \<Rightarrow> path list \<Rightarrow> (io_error + path) list \<Rightarrow> inventory \<Rightarrow> (learning_error, inventory) act" where
  "inventory_entries w root files [] s = ret s"
| "inventory_entries w root files (e # es) s =
     bind_a (inventory_entry w root files e s) (\<lambda>s. inventory_entries w root files es s)"

text \<open>One directory, which has left the stack: it is the same directory before and after it is read.\<close>

definition read_inventory ::
  "world \<Rightarrow> path \<Rightarrow> path list \<Rightarrow> path \<Rightarrow> inventory \<Rightarrow> (learning_error, inventory) act" where
  "read_inventory w root files directory s =
     bind_a (sys Io (\<lambda>t. w_lstat w t directory)) (\<lambda>before.
     bind_a (check (\<not> (fm_symlink before \<or> \<not> fm_dir before)) InvalidPath) (\<lambda>_.
     bind_a (lift_r (validate_read_only_directory w before)) (\<lambda>_.
     bind_a (sys Io (\<lambda>t. w_read_dir w t directory)) (\<lambda>entries.
     bind_a (inventory_entries w root files entries s) (\<lambda>s.
     bind_a (sys Io (\<lambda>t. w_lstat w t directory)) (\<lambda>after.
     bind_a (lift_r (validate_read_only_directory w after)) (\<lambda>_.
     bind_a (check (same_file before after) InvalidPath) (\<lambda>_. ret s))))))))"

text \<open>Every directory that is put on the stack is an expected one that was not seen before, so the
  walk ends whatever the file system answers.\<close>

definition unseen :: "path list \<Rightarrow> inventory \<Rightarrow> nat" where
  "unseen files s = card (set (expected_directories files) - set (iv_directories s))"

definition inventory_measure :: "path list \<Rightarrow> inventory \<Rightarrow> nat" where
  "inventory_measure files s = 2 * unseen files s + length (iv_stack s)"

lemma pushed_measure:
  assumes "d \<in> set (expected_directories files)" "d \<notin> set (iv_directories s)"
  shows "inventory_measure files (s\<lparr>iv_directories := d # iv_directories s, iv_stack := p # iv_stack s\<rparr>)
    \<le> inventory_measure files s"
proof -
  let ?left = "set (expected_directories files) - set (iv_directories s)"
  have "set (expected_directories files) - insert d (set (iv_directories s)) = ?left - {d}" by blast
  moreover have "d \<in> ?left" using assms by simp
  then have "card ?left = Suc (card (?left - {d}))" by (intro card.remove) simp
  ultimately show ?thesis by (simp add: inventory_measure_def unseen_def)
qed

lemma inventory_entry_Inr:
  assumes "inventory_entry w root files e s t = (Inr s', u)"
  obtains p m relative where "e = Inr p" "w_lstat w t p = Inr m" "\<not> fm_symlink m" "p = root @ relative"
    "fm_dir m" "relative \<in> set (expected_directories files)" "relative \<notin> set (iv_directories s)"
    "s' = s\<lparr>iv_directories := relative # iv_directories s, iv_stack := p # iv_stack s\<rparr>"
  | p m relative where "e = Inr p" "w_lstat w t p = Inr m" "\<not> fm_symlink m" "p = root @ relative"
    "\<not> fm_dir m" "validate_read_only_file_metadata w m relative = Inr ()"
    "relative = manifest_path" "s' = s"
  | p m relative where "e = Inr p" "w_lstat w t p = Inr m" "\<not> fm_symlink m" "p = root @ relative"
    "\<not> fm_dir m" "validate_read_only_file_metadata w m relative = Inr ()"
    "relative \<noteq> manifest_path" "relative \<in> set files"
    "s' = s\<lparr>iv_files := relative # iv_files s\<rparr>"
proof -
  from assms obtain p m where p: "e = Inr p" "w_lstat w t p = Inr m" "\<not> fm_symlink m"
    and rest: "(if fm_dir m then inventory_directory w root files p m s else inventory_file w root files p m s)
      (Suc t) = (Inr s', u)"
    by (cases e) (auto simp: inventory_entry_def)
  show thesis
  proof (cases "fm_dir m")
    case True
    with rest p that(1) show thesis by (auto simp: inventory_directory_def)
  next
    case False
    from False rest obtain relative where r: "p = root @ relative"
      "validate_read_only_file_metadata w m relative = Inr ()"
      and branch: "(if relative = manifest_path then ret s else bind_a (check (relative \<in> set files)
        (UnlistedPath relative)) (\<lambda>_. ret (s\<lparr>iv_files := relative # iv_files s\<rparr>))) (Suc t) = (Inr s', u)"
      unfolding inventory_file_def by auto
    show thesis
    proof (cases "relative = manifest_path")
      case True
      then have "s' = s" using branch by simp
      with p False r True that(2) show thesis by blast
    next
      case listed: False
      then have "relative \<in> set files" "s' = s\<lparr>iv_files := relative # iv_files s\<rparr>"
        using branch by simp_all
      with p False r listed that(3) show thesis by blast
    qed
  qed
qed

lemma inventory_entry_measure:
  assumes "inventory_entry w root files e s t = (Inr s', u)"
  shows "inventory_measure files s' \<le> inventory_measure files s"
  using assms
  by (cases rule: inventory_entry_Inr) (simp_all add: pushed_measure, simp_all add: inventory_measure_def unseen_def)

lemma inventory_entries_measure:
  "inventory_entries w root files es s t = (Inr s', u) \<Longrightarrow>
     inventory_measure files s' \<le> inventory_measure files s"
  by (induction es arbitrary: s t) (auto dest!: inventory_entry_measure intro: order_trans)

lemma read_inventory_measure:
  "read_inventory w root files d s t = (Inr s', u) \<Longrightarrow>
     inventory_measure files s' \<le> inventory_measure files s"
  by (auto simp: read_inventory_def dest: inventory_entries_measure)

function inventory_loop ::
  "world \<Rightarrow> path \<Rightarrow> path list \<Rightarrow> inventory \<Rightarrow> nat \<Rightarrow> (learning_error + inventory) \<times> nat" where
  "inventory_loop w root files s t =
     (case iv_stack s of
        [] \<Rightarrow> (Inr s, t)
      | directory # rest \<Rightarrow>
          (case read_inventory w root files directory (s\<lparr>iv_stack := rest\<rparr>) t of
             (Inl e, u) \<Rightarrow> (Inl e, u)
           | (Inr s', u) \<Rightarrow> inventory_loop w root files s' u))"
  by pat_completeness auto
termination
proof (relation "measure (\<lambda>(w, root, files, s, t). inventory_measure files s)")
  show "wf (measure (\<lambda>(w :: world, root :: path, files, s, t :: nat). inventory_measure files s))" by simp
next
  fix w root files s t d rest x u s'
  assume stack: "iv_stack s = d # rest"
    and run: "(x, u) = read_inventory w root files d (s\<lparr>iv_stack := rest\<rparr>) t" "x = Inr s'"
  have "inventory_measure files s' \<le> inventory_measure files (s\<lparr>iv_stack := rest\<rparr>)"
    using read_inventory_measure run by metis
  also have "\<dots> < inventory_measure files s"
    using stack by (simp add: inventory_measure_def unseen_def)
  finally show "((w, root, files, s', u), w, root, files, s, t)
    \<in> measure (\<lambda>(w, root, files, s, t). inventory_measure files s)" by simp
qed

declare inventory_loop.simps [simp del]

definition verify_complete_inventory ::
  "world \<Rightarrow> path \<Rightarrow> path list \<Rightarrow> (learning_error, unit) act" where
  "verify_complete_inventory w root files =
     bind_a (inventory_loop w root files \<lparr>iv_stack = [root], iv_files = [], iv_directories = []\<rparr>) (\<lambda>s.
       check (set (iv_files s) = set files \<and>
         set (iv_directories s) = set (expected_directories files)) InvalidPath)"

section \<open>The snapshot\<close>

definition verify_identity ::
  "world \<Rightarrow> path \<Rightarrow> handle \<Rightarrow> path \<times> file_identity \<Rightarrow> (learning_error, unit) act" where
  "verify_identity w root h = (\<lambda>(relative, expected_identity).
     bind_a (reject_symlink_components w (path_join root relative)) (\<lambda>_.
     bind_a (require_read_only_parents w root relative) (\<lambda>_.
     bind_a (open_beneath_bundle w h relative) (\<lambda>file.
     bind_a (sys Io (\<lambda>t. w_fstat w t file)) (\<lambda>opened.
     bind_a (lift_r (validate_read_only_file_metadata w opened relative)) (\<lambda>_.
     bind_a (sys Io (\<lambda>t. w_lstat w t (path_join root relative))) (\<lambda>current.
     bind_a (lift_r (validate_read_only_file_metadata w current relative)) (\<lambda>_.
       check (file_identity opened = expected_identity \<and> same_file opened current)
         (FileMismatch relative)))))))))"

definition verify_snapshot ::
  "learning_env \<Rightarrow> world \<Rightarrow> path \<Rightarrow> file_identity \<Rightarrow> (path \<times> file_identity) list \<Rightarrow>
     (learning_error, unit) act" where
  "verify_snapshot env w root expected_root identities =
     bind_a (reject_symlink_components w root) (\<lambda>_.
     bind_a (sys Io (\<lambda>t. w_lstat w t root)) (\<lambda>m.
     bind_a (lift_r (validate_read_only_directory w m)) (\<lambda>_.
     bind_a (check (file_identity m = expected_root) InvalidRoot) (\<lambda>_.
     bind_a (sys Io (\<lambda>t. w_canonicalize w t root)) (\<lambda>canonical.
     bind_a (check (canonical = root) InvalidRoot) (\<lambda>_.
     bind_a (open_bundle_root w root expected_root) (\<lambda>h.
       each (verify_identity w root h) (le_order env identities))))))))"

section \<open>The bundle\<close>

definition manifest_versions_ok :: "learning_manifest \<Rightarrow> bool" where
  "manifest_versions_ok m \<longleftrightarrow> \<not> (lm_bundle_version m = [] \<or> lm_skill_version m = []
     \<or> lm_local_ego_browser_runtime_version m = [] \<or> PROTOCOL_VERSION \<notin> set (lm_protocol_versions m)
     \<or> lm_files m = [] \<or> length (lm_files m) > MAX_BUNDLE_FILES)"

definition verify_signature :: "learning_env \<Rightarrow> bytes \<Rightarrow> learning_manifest \<Rightarrow> learning_error + unit" where
  "verify_signature env public_key m =
     bind_r (ensure (le_key env public_key) InvalidSignature) (\<lambda>_.
     bind_r (ok_or InvalidSignature (le_base64 env (lm_signature m))) (\<lambda>signature.
     bind_r (ensure (length signature = 64) InvalidSignature) (\<lambda>_.
       ensure (le_verify env public_key (signed_bytes env m) signature) InvalidSignature)))"

text \<open>The root: a directory of this user alone, named by its canonical path.\<close>

definition open_verified_root :: "world \<Rightarrow> path \<Rightarrow> (learning_error, file_identity \<times> handle) act" where
  "open_verified_root w root =
     bind_a (check (is_absolute root) InvalidRoot) (\<lambda>_.
     bind_a (reject_symlink_components w root) (\<lambda>_.
     bind_a (sys Io (\<lambda>t. w_lstat w t root)) (\<lambda>m.
     bind_a (check (\<not> (fm_symlink m \<or> \<not> fm_dir m)) InvalidRoot) (\<lambda>_.
     bind_a (lift_r (validate_read_only_directory w m)) (\<lambda>_.
     bind_a (sys Io (\<lambda>t. w_canonicalize w t root)) (\<lambda>canonical.
     bind_a (check (canonical = root) InvalidRoot) (\<lambda>_.
     bind_a (open_bundle_root w root (file_identity m)) (\<lambda>h.
       ret (file_identity m, h)))))))))"

definition read_manifest ::
  "learning_env \<Rightarrow> world \<Rightarrow> path \<Rightarrow> handle \<Rightarrow> bytes \<Rightarrow>
     (learning_error, learning_manifest \<times> file_identity) act" where
  "read_manifest env w root h public_key =
     bind_a (read_read_only_file w root h manifest_path MAX_MANIFEST_BYTES) (\<lambda>file.
     bind_a (lift_r (map_err (\<lambda>_. MalformedManifest)
        (parse_strict_json (le_json env) (le_manifest env) (rf_bytes file)))) (\<lambda>m.
     bind_a (check (manifest_versions_ok m) VersionMismatch) (\<lambda>_.
     bind_a (lift_r (verify_signature env public_key m)) (\<lambda>_.
       ret (m, rf_identity file)))))"

definition verify_learning_bundle_details ::
  "learning_env \<Rightarrow> world \<Rightarrow> path \<Rightarrow> bytes \<Rightarrow> (learning_error, verified_learning_bundle) act" where
  "verify_learning_bundle_details env w root public_key =
     bind_a (open_verified_root w root) (\<lambda>(root_identity, h).
     bind_a (read_manifest env w root h public_key) (\<lambda>(m, manifest_identity).
     bind_a (verify_entries env w root h (lm_files m)
        \<lparr>fc_paths = [], fc_identities = [(manifest_path, manifest_identity)], fc_total = 0,
         fc_digest = signed_bytes env m\<rparr>) (\<lambda>s.
     bind_a (verify_complete_inventory w root (fc_paths s)) (\<lambda>_.
     bind_a (verify_snapshot env w root root_identity (fc_identities s)) (\<lambda>_.
       ret \<lparr>lb_root = root, lb_digest = ''sha256:'' @ le_sha256_hex env (fc_digest s),
         lb_bundle_version = lm_bundle_version m, lb_skill_version = lm_skill_version m,
         lb_local_ego_browser_runtime_version = lm_local_ego_browser_runtime_version m\<rparr>)))))"

definition verify_learning_bundle ::
  "learning_env \<Rightarrow> world \<Rightarrow> path \<Rightarrow> bytes \<Rightarrow> string \<Rightarrow> string \<Rightarrow> (learning_error, string) act" where
  "verify_learning_bundle env w root public_key expected_skill expected_runtime =
     bind_a (verify_learning_bundle_details env w root public_key) (\<lambda>b.
     bind_a (check (lb_skill_version b = expected_skill
        \<and> lb_local_ego_browser_runtime_version b = expected_runtime) VersionMismatch) (\<lambda>_.
       ret (lb_digest b)))"

end
