(* ===== verification/Learning_Properties.thy ===== *)
theory Learning_Properties
  imports Learning_Bundle
begin

text \<open>
  What a verified learning bundle guarantees: the signature covers every byte that was read, the files
  were read beneath the one root, and the directory holds nothing else.
\<close>

section \<open>Reading beneath the root\<close>

lemma map_err_value: "map_err f r = Inr x \<longleftrightarrow> r = Inr x"
  by simp

lemma xor_zero_iff: "x XOR y = 0 \<longleftrightarrow> x = y" for x y :: u8
proof
  assume "x XOR y = 0"
  moreover have "(x XOR y) XOR y = x" by (simp add: xor.assoc)
  ultimately show "x = y" by simp
qed simp

lemma constant_time_eq_iff: "constant_time_eq a b \<longleftrightarrow> a = b"
proof -
  have acc: "foldl (\<lambda>acc (a, b). acc OR (of_char a XOR of_char b)) c ps = 0 \<longleftrightarrow>
      c = (0 :: u8) \<and> (\<forall>p \<in> set ps. fst p = snd p)" for c and ps :: "(char \<times> char) list"
  proof (induction ps arbitrary: c)
    case (Cons p ps)
    obtain x y where p: "p = (x, y)" by (cases p)
    have "c OR (of_char x XOR of_char y) = (0 :: u8) \<longleftrightarrow> c = 0 \<and> x = y"
      using as_bytes_inj [of "[x]" "[y]"]
      by (auto simp: as_bytes_def or_eq_0_iff xor_zero_iff)
    then show ?case unfolding p by (simp add: Cons.IH)
  qed simp
  show ?thesis
    unfolding constant_time_eq_def acc
    by (auto simp: list_eq_iff_zip_eq)
qed

fun bundle_chain :: "world \<Rightarrow> handle \<Rightarrow> path \<Rightarrow> handle \<Rightarrow> bool" where
  "bundle_chain w h [] h' \<longleftrightarrow> h' = h"
| "bundle_chain w h (Normal n # p) h' \<longleftrightarrow>
     (\<exists>t t' h1 m. w_openat w t h n directory_flags = Inr h1 \<and> w_fstat w t' h1 = Inr m \<and>
        validate_read_only_directory w m = Inr () \<and> bundle_chain w h1 p h')"
| "bundle_chain w h (_ # p) h' \<longleftrightarrow> False"

text \<open>\<open>bs\<close> is the content of a read-only file of this user alone, reached from \<open>h\<close> without following
  a link.\<close>

definition read_beneath :: "world \<Rightarrow> handle \<Rightarrow> path \<Rightarrow> bytes \<Rightarrow> bool" where
  "read_beneath w h relative bs \<longleftrightarrow>
     (\<exists>dirs name dir file t t' t'' m. relative = dirs @ [Normal name] \<and> bundle_chain w h dirs dir \<and>
        w_openat w t dir name read_flags = Inr file \<and> w_fstat w t' file = Inr m \<and>
        validate_read_only_file_metadata w m relative = Inr () \<and> length bs = unat (fm_len m) \<and>
        w_read w t'' file = Inr bs)"

lemma open_bundle_chain:
  "open_bundle_components w h p t = (Inr h', u) \<Longrightarrow> bundle_chain w h p h'"
proof (induction w h p arbitrary: t rule: open_bundle_components.induct)
  case (2 w h n p)
  then show ?case
    by (auto simp: open_bundle_directory_at_def open_at_raw_def split: if_splits) blast
qed auto

lemma open_beneath_bundle_Inr:
  assumes "open_beneath_bundle w h relative t = (Inr file, u)"
  obtains dirs name dir t' where "relative = dirs @ [Normal name]" "bundle_chain w h dirs dir"
    "w_openat w t' dir name read_flags = Inr file"
proof -
  from assms obtain dir v name where c: "open_bundle_components w h (parents relative) t = (Inr dir, v)"
    and n: "file_name relative = Some name"
    and o: "open_at_raw w dir name read_flags v = Inr file"
    by (auto simp: open_beneath_bundle_def)
  from n have r: "relative \<noteq> []" "last relative = Normal name"
    by (auto simp: file_name_def split: if_splits component.splits)
  then have "relative = butlast relative @ [Normal name]" by (metis append_butlast_last_id)
  moreover have "parents relative = butlast relative" using r by (simp add: parents_def path_parent_def)
  moreover have "w_openat w v dir name read_flags = Inr file"
    using o by (simp add: open_at_raw_def split: if_splits)
  ultimately show thesis using that open_bundle_chain [OF c] by metis
qed

lemma read_file_beneath:
  assumes "read_read_only_file w root h relative limit t = (Inr file, u)" "limit < - 1"
  shows "read_beneath w h relative (rf_bytes file) \<and> length (rf_bytes file) \<le> unat limit"
proof -
  from assms(1) obtain m h' v opened t' t'' content where
    o: "open_beneath_bundle w h relative t' = (Inr h', v)"
    and f: "w_fstat w v h' = Inr opened"
      "validate_read_only_file_metadata w opened relative = Inr ()"
    and r: "w_read w t'' h' = Inr content"
      "rf_bytes file = take (unat (sat_add limit 1)) content"
      "length (rf_bytes file) = unat (fm_len opened)" "length (rf_bytes file) \<le> unat limit"
    unfolding read_read_only_file_def Let_def by auto
  have "unat limit < 2 ^ 64 - 1"
    using assms(2) by (simp add: word_less_nat_alt unat_max_word)
  then have "unat (sat_add limit 1) = unat limit + 1" by (simp add: unat_sat_add)
  with r have "rf_bytes file = content" by simp
  with r have "w_read w t'' h' = Inr (rf_bytes file)" by simp
  moreover obtain dirs name dir t1 where "relative = dirs @ [Normal name]" "bundle_chain w h dirs dir"
    "w_openat w t1 dir name read_flags = Inr h'"
    using o by (rule open_beneath_bundle_Inr)
  ultimately show ?thesis using f r unfolding read_beneath_def by blast
qed

section \<open>The listed files\<close>

definition listed_file_read :: "learning_env \<Rightarrow> world \<Rightarrow> handle \<Rightarrow> learning_file \<Rightarrow> bool" where
  "listed_file_read env w h f \<longleftrightarrow>
     (\<exists>bs. read_beneath w h (path_of (lf_path f)) bs \<and> length bs = unat (lf_size_bytes f) \<and>
        le_sha256_hex env bs = lf_sha256 f)"

lemma verify_entry_Inr:
  assumes "verify_entry env w root h f s t = (Inr s', u)"
  shows "listed_file_read env w h f \<and> path_of (lf_path f) \<notin> set (fc_paths s) \<and>
    fc_paths s' = fc_paths s @ [path_of (lf_path f)] \<and>
    unat (fc_total s') = unat (fc_total s) + unat (lf_size_bytes f) \<and> fc_total s' \<le> MAX_BUNDLE_BYTES \<and>
    fc_digest s' = fc_digest s @ entry_digest f"
proof -
  from assms obtain relative total content t' v where
    rel: "validate_relative_path (lf_path f) = Inr relative" "relative \<notin> set (fc_paths s)"
    and total: "checked_add (fc_total s) (lf_size_bytes f) = Some total" "\<not> total > MAX_BUNDLE_BYTES"
    and content: "read_read_only_file w root h relative (lf_size_bytes f) t' = (Inr content, v)"
      "length (rf_bytes content) = unat (lf_size_bytes f)"
      "constant_time_eq (le_sha256_hex env (rf_bytes content)) (lf_sha256 f)"
    and s': "fc_paths s' = fc_paths s @ [relative]" "fc_total s' = total"
      "fc_digest s' = fc_digest s @ entry_digest f"
    unfolding verify_entry_def Let_def by auto
  have relative: "relative = path_of (lf_path f)"
    using rel(1) by (simp add: validate_relative_path_def split: if_splits)
  have sum: "unat total = unat (fc_total s) + unat (lf_size_bytes f)"
    using total(1) unat_add_no_wrap [of "fc_total s" "lf_size_bytes f"]
    by (auto simp: checked_add_def split: if_splits)
  then have "unat (lf_size_bytes f) \<le> unat MAX_BUNDLE_BYTES"
    using total(2) by (simp add: word_le_nat_alt not_less)
  then have "lf_size_bytes f < - 1"
    by (simp add: MAX_BUNDLE_BYTES_def word_less_nat_alt unat_max_word)
  with content have "listed_file_read env w h f"
    using read_file_beneath [OF content(1)] relative
    by (auto simp: listed_file_read_def constant_time_eq_iff)
  with rel relative s' sum total show ?thesis by simp
qed

lemma verify_entries_Inr:
  assumes "verify_entries env w root h fs s t = (Inr s', u)" "distinct (fc_paths s)"
    "fc_total s \<le> MAX_BUNDLE_BYTES"
  shows "list_all (listed_file_read env w h) fs \<and>
    fc_paths s' = fc_paths s @ map (path_of \<circ> lf_path) fs \<and> distinct (fc_paths s') \<and>
    unat (fc_total s') = unat (fc_total s) + sum_list (map (unat \<circ> lf_size_bytes) fs) \<and>
    fc_total s' \<le> MAX_BUNDLE_BYTES \<and>
    fc_digest s' = fc_digest s @ concat (map entry_digest fs)"
  using assms
proof (induction fs arbitrary: s t)
  case (Cons f fs)
  then obtain s1 v where s1: "verify_entry env w root h f s t = (Inr s1, v)"
    and rest: "verify_entries env w root h fs s1 v = (Inr s', u)" by auto
  note one = verify_entry_Inr [OF s1]
  with Cons.prems have "distinct (fc_paths s1)" "fc_total s1 \<le> MAX_BUNDLE_BYTES" by simp_all
  note all = Cons.IH [OF rest this]
  from all one have "fc_paths s' = fc_paths s @ map (path_of \<circ> lf_path) (f # fs)" by simp
  moreover from all one have "distinct (fc_paths s')" by blast
  ultimately show ?case using all one by (simp add: add.assoc)
qed simp

section \<open>Authenticity\<close>

text \<open>The root was opened as a read-only directory of this user.\<close>

definition root_opened :: "world \<Rightarrow> path \<Rightarrow> handle \<Rightarrow> bool" where
  "root_opened w root h \<longleftrightarrow> (\<exists>t t' m. w_open w t root directory_flags = Inr h \<and>
     w_fstat w t' h = Inr m \<and> validate_read_only_directory w m = Inr ())"

lemma open_verified_root_Inr:
  "open_verified_root w root t = (Inr (i, h), u) \<Longrightarrow> is_absolute root \<and> root_opened w root h"
  unfolding open_verified_root_def open_bundle_root_def root_opened_def by auto

lemma verify_signature_Inr:
  "verify_signature env key m = Inr () \<longleftrightarrow> le_key env key \<and>
     (\<exists>signature. le_base64 env (lm_signature m) = Some signature \<and> length signature = 64 \<and>
        le_verify env key (signed_bytes env m) signature)"
  by (auto simp: verify_signature_def bind_r_Inr_iff)

text \<open>C22: a bundle that verifies is the one that was signed: its manifest was read beneath the root it
  opened and carries a signature of the given key over everything but the signature; every file the
  manifest lists was read beneath that same root, is a read-only file of this user with no other name,
  and has the size and the digest of the manifest; no path is listed twice, the sizes add up to at most
  256 MiB, and the digest that is reported is that of the signed bytes with all paths, digests and
  sizes.\<close>

theorem verified_bundle_authentic:
  assumes "verify_learning_bundle_details env w root key t = (Inr b, u)"
  shows "\<exists>h m manifest signature. root_opened w root h \<and>
    read_beneath w h manifest_path manifest \<and>
    parse_strict_json (le_json env) (le_manifest env) manifest = Inr m \<and>
    le_base64 env (lm_signature m) = Some signature \<and> le_verify env key (signed_bytes env m) signature \<and>
    list_all (listed_file_read env w h) (lm_files m) \<and>
    distinct (map (path_of \<circ> lf_path) (lm_files m)) \<and>
    sum_list (map (unat \<circ> lf_size_bytes) (lm_files m)) \<le> 256 * 1024 * 1024 \<and>
    lb_digest b = ''sha256:'' @
      le_sha256_hex env (signed_bytes env m @ concat (map entry_digest (lm_files m))) \<and>
    lb_skill_version b = lm_skill_version m \<and>
    lb_local_ego_browser_runtime_version b = lm_local_ego_browser_runtime_version m"
proof -
  from assms obtain i h m mi s t1 t2 t3 where
    root: "open_verified_root w root t = (Inr (i, h), t1)"
    and manifest: "read_manifest env w root h key t1 = (Inr (m, mi), t2)"
    and entries: "verify_entries env w root h (lm_files m)
        \<lparr>fc_paths = [], fc_identities = [(manifest_path, mi)], fc_total = 0,
         fc_digest = signed_bytes env m\<rparr> t2 = (Inr s, t3)"
    and b: "b = \<lparr>lb_root = root, lb_digest = ''sha256:'' @ le_sha256_hex env (fc_digest s),
         lb_bundle_version = lm_bundle_version m, lb_skill_version = lm_skill_version m,
         lb_local_ego_browser_runtime_version = lm_local_ego_browser_runtime_version m\<rparr>"
    unfolding verify_learning_bundle_details_def by (auto split: prod.splits)
  from manifest obtain content v where content: "read_read_only_file w root h manifest_path MAX_MANIFEST_BYTES t1 = (Inr content, v)"
    and parsed: "parse_strict_json (le_json env) (le_manifest env) (rf_bytes content) = Inr m"
    and signed: "verify_signature env key m = Inr ()"
    unfolding read_manifest_def by auto
  have "read_beneath w h manifest_path (rf_bytes content)"
    using read_file_beneath [OF content] by (simp add: MAX_MANIFEST_BYTES_def)
  moreover obtain signature where "le_base64 env (lm_signature m) = Some signature"
    "le_verify env key (signed_bytes env m) signature"
    using signed unfolding verify_signature_Inr by blast
  moreover have "distinct (fc_paths s)" using verify_entries_Inr [OF entries] by fastforce
  then have "distinct (map (path_of \<circ> lf_path) (lm_files m))"
    using verify_entries_Inr [OF entries] by fastforce
  ultimately show ?thesis
    using open_verified_root_Inr [OF root] parsed verify_entries_Inr [OF entries]
    by - (rule exI [of _ h], rule exI [of _ m], rule exI [of _ "rf_bytes content"],
        rule exI [of _ signature], simp add: b MAX_BUNDLE_BYTES_def word_le_nat_alt)
qed

section \<open>The inventory\<close>

text \<open>What an entry of a directory may be: an expected directory, or a read-only file of this user that
  is the manifest or listed.\<close>

definition listed_entry :: "world \<Rightarrow> path \<Rightarrow> path list \<Rightarrow> io_error + path \<Rightarrow> bool" where
  "listed_entry w root files e \<longleftrightarrow> (\<exists>relative t m. e = Inr (root @ relative) \<and>
     w_lstat w t (root @ relative) = Inr m \<and> \<not> fm_symlink m \<and>
     (if fm_dir m then relative \<in> set (expected_directories files)
      else validate_read_only_file_metadata w m relative = Inr () \<and>
        (relative = manifest_path \<or> relative \<in> set files)))"

definition directory_read :: "world \<Rightarrow> path \<Rightarrow> path list \<Rightarrow> path \<Rightarrow> bool" where
  "directory_read w root files d \<longleftrightarrow>
     (\<exists>t es. w_read_dir w t (root @ d) = Inr es \<and> list_all (listed_entry w root files) es)"

definition file_seen :: "world \<Rightarrow> path \<Rightarrow> path \<Rightarrow> bool" where
  "file_seen w root f \<longleftrightarrow> (\<exists>t d es. w_read_dir w t (root @ d) = Inr es \<and> Inr (root @ f) \<in> set es)"

lemma inventory_entry_listed:
  assumes "inventory_entry w root files e s t = (Inr s', u)"
  shows "listed_entry w root files e \<and> set (iv_directories s) \<subseteq> set (iv_directories s') \<and>
    set (iv_stack s) \<subseteq> set (iv_stack s') \<and>
    set (iv_directories s') \<subseteq> set (iv_directories s) \<union> {d. root @ d \<in> set (iv_stack s')} \<and>
    set (iv_files s') \<subseteq> set (iv_files s) \<union> {f. e = Inr (root @ f)}"
  using assms
proof (cases rule: inventory_entry_Inr)
  case (1 p m relative)
  then have "listed_entry w root files e" by (auto simp: listed_entry_def)
  with 1 show ?thesis by auto
next
  case (2 p m relative)
  then have "listed_entry w root files e"
    unfolding listed_entry_def by - (rule exI [of _ relative], rule exI [of _ t], rule exI [of _ m], simp)
  with 2 show ?thesis by auto
next
  case (3 p m relative)
  then have "listed_entry w root files e" unfolding listed_entry_def by auto
  with 3 show ?thesis by auto
qed

lemma inventory_entries_listed:
  assumes "inventory_entries w root files es s t = (Inr s', u)"
  shows "list_all (listed_entry w root files) es \<and> set (iv_directories s) \<subseteq> set (iv_directories s') \<and>
    set (iv_stack s) \<subseteq> set (iv_stack s') \<and>
    set (iv_directories s') \<subseteq> set (iv_directories s) \<union> {d. root @ d \<in> set (iv_stack s')} \<and>
    set (iv_files s') \<subseteq> set (iv_files s) \<union> {f. Inr (root @ f) \<in> set es}"
  using assms
proof (induction es arbitrary: s t)
  case (Cons e es)
  then obtain s1 v where s1: "inventory_entry w root files e s t = (Inr s1, v)"
    and rest: "inventory_entries w root files es s1 v = (Inr s', u)" by auto
  from inventory_entry_listed [OF s1] Cons.IH [OF rest] show ?case by auto
qed simp

text \<open>Every directory that was found is on the stack or has been read.\<close>

definition walked :: "world \<Rightarrow> path \<Rightarrow> path list \<Rightarrow> inventory \<Rightarrow> bool" where
  "walked w root files s \<longleftrightarrow>
     (\<forall>d \<in> insert [] (set (iv_directories s)). root @ d \<in> set (iv_stack s) \<or> directory_read w root files d) \<and>
     (\<forall>d \<in> set (iv_stack s). \<exists>r. d = root @ r) \<and>
     (\<forall>f \<in> set (iv_files s). file_seen w root f)"

lemma stack_under_root:
  assumes "inventory_entries w root files es s t = (Inr s', u)" "\<forall>d \<in> set (iv_stack s). \<exists>r. d = root @ r"
  shows "\<forall>d \<in> set (iv_stack s'). \<exists>r. d = root @ r"
  using assms
proof (induction es arbitrary: s t)
  case (Cons e es)
  then obtain s1 v where s1: "inventory_entry w root files e s t = (Inr s1, v)"
    and rest: "inventory_entries w root files es s1 v = (Inr s', u)" by auto
  have "\<forall>d \<in> set (iv_stack s1). \<exists>r. d = root @ r"
    using s1 by (cases rule: inventory_entry_Inr) (use Cons.prems(2) in auto)
  with Cons.IH [OF rest] show ?case .
qed simp

lemma read_inventory_walked:
  assumes "walked w root files s" "iv_stack s = d # rest"
    and "read_inventory w root files d (s\<lparr>iv_stack := rest\<rparr>) t = (Inr s', u)"
  shows "walked w root files s'"
proof -
  from assms(3) obtain es t1 t2 v where dir: "w_read_dir w t1 d = Inr es"
    and es: "inventory_entries w root files es (s\<lparr>iv_stack := rest\<rparr>) t2 = (Inr s', v)"
    unfolding read_inventory_def by auto
  from assms(1,2) obtain r where r: "d = root @ r" unfolding walked_def by auto
  note listed = inventory_entries_listed [OF es]
  have read: "directory_read w root files r"
    using dir listed unfolding r directory_read_def by blast
  have "root @ e \<in> set (iv_stack s') \<or> directory_read w root files e"
    if "e \<in> insert [] (set (iv_directories s'))" for e
  proof -
    from that listed consider "root @ e \<in> set (iv_stack s')" | "e \<in> insert [] (set (iv_directories s))"
      by auto
    then show ?thesis
    proof cases
      case 2
      with assms(1) have "root @ e \<in> set (iv_stack s) \<or> directory_read w root files e"
        unfolding walked_def by blast
      then show ?thesis using assms(2) r read listed by auto
    qed blast
  qed
  moreover have "\<forall>x \<in> set (iv_stack s'). \<exists>r. x = root @ r"
    using assms(1,2) by (intro stack_under_root [OF es]) (auto simp: walked_def)
  moreover have "file_seen w root f" if "f \<in> set (iv_files s')" for f
  proof -
    from that listed consider "f \<in> set (iv_files s)" | "Inr (root @ f) \<in> set es" by auto
    then show ?thesis
    proof cases
      case 1
      with assms(1) show ?thesis unfolding walked_def by blast
    next
      case 2
      with dir r show ?thesis unfolding file_seen_def by blast
    qed
  qed
  ultimately show ?thesis unfolding walked_def by blast
qed

lemma inventory_loop_walked:
  "inventory_loop w root files s t = (Inr s', u) \<Longrightarrow> walked w root files s \<Longrightarrow>
     walked w root files s' \<and> iv_stack s' = []"
proof (induction w root files s t rule: inventory_loop.induct)
  case (1 w root files s t)
  show ?case
  proof (cases "iv_stack s")
    case Nil
    with 1 show ?thesis by (simp add: inventory_loop.simps [of w root files s t])
  next
    case (Cons d rest)
    with "1.prems"(1) obtain s1 v where
      run: "read_inventory w root files d (s\<lparr>iv_stack := rest\<rparr>) t = (Inr s1, v)"
      and loop: "inventory_loop w root files s1 v = (Inr s', u)"
      by (auto simp: inventory_loop.simps [of w root files s t] split: prod.splits sum.splits)
    from "1.IH" [OF Cons run [symmetric] refl loop] read_inventory_walked [OF "1.prems"(2) Cons run]
    show ?thesis by blast
  qed
qed

text \<open>C23: the inventory of a bundle is exact: the root and every directory on the way to a listed file were
  read, each of their entries is such a directory, the manifest, or a listed file, none of them a link
  and each file read-only, and every listed file was found.  The walk ends whatever the file system
  answers.\<close>

theorem bundle_inventory_exact:
  assumes "verify_complete_inventory w root files t = (Inr (), u)"
  shows "list_all (directory_read w root files) ([] # expected_directories files) \<and>
    list_all (file_seen w root) files"
proof -
  from assms obtain s v where
    loop: "inventory_loop w root files \<lparr>iv_stack = [root], iv_files = [], iv_directories = []\<rparr> t = (Inr s, v)"
    and exact: "set (iv_files s) = set files" "set (iv_directories s) = set (expected_directories files)"
    unfolding verify_complete_inventory_def by auto
  have "walked w root files \<lparr>iv_stack = [root], iv_files = [], iv_directories = []\<rparr>"
    by (auto simp: walked_def)
  from inventory_loop_walked [OF loop this] exact show ?thesis
    unfolding walked_def list_all_iff by auto
qed

section \<open>A small bundle\<close>

definition bundle_root :: path where "bundle_root = [RootDir, Normal ''b'']"
definition bundle_file :: path where "bundle_file = [Normal ''a'']"

definition bundle_meta :: "bool \<Rightarrow> u64 \<Rightarrow> u64 \<Rightarrow> file_meta" where
  "bundle_meta is_file ino len = \<lparr>fm_symlink = False, fm_file = is_file, fm_dir = \<not> is_file, fm_uid = 501,
     fm_nlink = 1, fm_mode = (if is_file then 0x100 else 0x140), fm_len = len, fm_dev = 1, fm_ino = ino\<rparr>"

text \<open>The manifest is the file behind handle 1 and the listed file the one behind handle 2.\<close>

definition bundle_lstat :: "path \<Rightarrow> file_meta" where
  "bundle_lstat p = (if p = bundle_root @ manifest_path then bundle_meta True 7 3
     else if p = bundle_root @ bundle_file then bundle_meta True 8 2 else bundle_meta False 5 0)"

definition bundle_world :: world where
  "bundle_world = small_world\<lparr>
     w_lstat := (\<lambda>t p. Inr (bundle_lstat p)),
     w_openat := (\<lambda>t h n f. Inr (if n = ''a'' then 2 else 1)),
     w_fstat := (\<lambda>t h. Inr (if h = 0 then bundle_meta False 5 0
        else if h = 1 then bundle_meta True 7 3 else bundle_meta True 8 2)),
     w_read := (\<lambda>t h. Inr (if h = 1 then [1, 2, 3] else [4, 5])),
     w_read_dir := (\<lambda>t p. Inr [Inr (bundle_root @ manifest_path), Inr (bundle_root @ bundle_file)])\<rparr>"

definition bundle_manifest :: learning_manifest where
  "bundle_manifest = \<lparr>lm_bundle_version = ''1'', lm_skill_version = ''2'',
     lm_local_ego_browser_runtime_version = ''3'', lm_protocol_versions = [PROTOCOL_VERSION],
     lm_files = [\<lparr>lf_path = ''a'', lf_size_bytes = 2, lf_sha256 = ''ok''\<rparr>],
     lm_signing_key_id = ''k'', lm_signature = ''s''\<rparr>"

definition bundle_env :: learning_env where
  "bundle_env = \<lparr>
     le_json = \<lparr>jc_parse = (\<lambda>_. DUnit), jc_location = (\<lambda>_. []), jc_at_end = (\<lambda>_. True),
       jc_to_vec = (\<lambda>_. [9])\<rparr>,
     le_manifest = (\<lambda>_. Inr bundle_manifest), le_base64 = (\<lambda>_. Some (replicate 64 0)),
     le_key = (\<lambda>_. True), le_verify = (\<lambda>_ m _. m = [9]), le_sha256_hex = (\<lambda>_. ''ok''),
     le_order = (\<lambda>ids. ids)\<rparr>"

lemma bundle_world_sel:
  "w_lstat bundle_world t p = Inr (bundle_lstat p)" "w_open bundle_world t p f = Inr 0"
  "w_openat bundle_world t h n f = Inr (if n = ''a'' then 2 else 1)"
  "w_fstat bundle_world t h = Inr (if h = 0 then bundle_meta False 5 0
     else if h = 1 then bundle_meta True 7 3 else bundle_meta True 8 2)"
  "w_read bundle_world t h = Inr (if h = 1 then [1, 2, 3] else [4, 5])"
  "w_read_dir bundle_world t p = Inr [Inr (bundle_root @ manifest_path), Inr (bundle_root @ bundle_file)]"
  "w_canonicalize bundle_world t p = Inr p" "w_euid bundle_world = 501"
  by (simp_all add: bundle_world_def small_world_def)

lemma bundle_lstat_values:
  "bundle_lstat (bundle_root @ manifest_path) = bundle_meta True 7 3"
  "bundle_lstat (bundle_root @ bundle_file) = bundle_meta True 8 2"
  "bundle_lstat bundle_root = bundle_meta False 5 0" "bundle_lstat [RootDir] = bundle_meta False 5 0"
  by (simp_all add: bundle_lstat_def bundle_root_def bundle_file_def manifest_path_def)

lemma bundle_meta_ok:
  "validate_read_only_directory bundle_world (bundle_meta False i n) = Inr ()"
  "validate_read_only_file_metadata bundle_world (bundle_meta True i n) p = Inr ()"
  "fm_symlink (bundle_meta f i n) = False" "fm_dir (bundle_meta f i n) = (\<not> f)"
  "fm_file (bundle_meta f i n) = f" "fm_len (bundle_meta f i n) = n"
  "same_file (bundle_meta f i n) (bundle_meta f' i' n') = (i = i')"
  "file_identity (bundle_meta f i n) = (1, i)"
  by (simp_all add: validate_read_only_directory_def validate_read_only_file_metadata_def
      require_read_only_def mode_bits_def bundle_meta_def bundle_world_sel same_file_def file_identity_def)

lemma bundle_paths:
  "path_join bundle_root manifest_path = bundle_root @ manifest_path"
  "path_join bundle_root bundle_file = bundle_root @ bundle_file"
  "parents manifest_path = []" "parents bundle_file = []"
  "file_name manifest_path = Some ''manifest.json''" "file_name bundle_file = Some ''a''"
  "path_of ''a'' = bundle_file" "validate_relative_path ''a'' = Inr bundle_file"
  "expected_directories [bundle_file] = []" "manifest_path \<noteq> bundle_file" "is_absolute bundle_root"
  by (simp_all add: path_join_def is_absolute_def bundle_root_def manifest_path_def bundle_file_def parents_def
      path_parent_def file_name_def path_of_def validate_relative_path_def expected_directories_def
      List.map_filter_def)

lemma bundle_no_links:
  "reject_symlink_components bundle_world bundle_root t = (Inr (), t + 2)"
  "reject_symlink_components bundle_world (bundle_root @ manifest_path) t = (Inr (), t + 3)"
  "reject_symlink_components bundle_world (bundle_root @ bundle_file) t = (Inr (), t + 3)"
  by (simp_all add: reject_symlink_components_def bundle_root_def manifest_path_def bundle_file_def
      upt_conv_Cons bundle_world_sel bundle_lstat_def bundle_meta_def bind_a_def try_sys_def check_def ret_def)

lemmas act_defs = bind_a_def sys_def check_def ret_def lift_r_def

lemma bundle_root_opened:
  "open_bundle_root bundle_world bundle_root (1, 5) t = (Inr 0, t + 2)"
  by (simp add: open_bundle_root_def act_defs bundle_world_sel bundle_meta_ok)

lemma bundle_opened:
  "open_beneath_bundle bundle_world 0 manifest_path t = (Inr 1, t + 1)"
  "open_beneath_bundle bundle_world 0 bundle_file t = (Inr 2, t + 1)"
  by (simp_all add: open_beneath_bundle_def bundle_paths act_defs open_at_raw_def bundle_world_sel)

lemma bundle_read:
  "read_read_only_file bundle_world bundle_root 0 manifest_path MAX_MANIFEST_BYTES t =
     (Inr \<lparr>rf_bytes = [1, 2, 3], rf_identity = (1, 7)\<rparr>, t + 6)"
  "read_read_only_file bundle_world bundle_root 0 bundle_file 2 t =
     (Inr \<lparr>rf_bytes = [4, 5], rf_identity = (1, 8)\<rparr>, t + 6)"
  by (simp_all add: read_read_only_file_def act_defs bundle_world_sel bundle_meta_ok bundle_paths bundle_opened
      bundle_lstat_values MAX_MANIFEST_BYTES_def sat_add_def)

lemma bundle_parents:
  "require_read_only_parents bundle_world bundle_root manifest_path t = (Inr (), t)"
  "require_read_only_parents bundle_world bundle_root bundle_file t = (Inr (), t)"
  by (simp_all add: require_read_only_parents_def bundle_paths ret_def)

lemma bundle_signed: "signed_bytes bundle_env m = [9]"
  by (simp add: signed_bytes_def canonical_json_def bundle_env_def)

lemma bundle_manifest_read:
  "read_manifest bundle_env bundle_world bundle_root 0 key t = (Inr (bundle_manifest, (1, 7)), t + 6)"
  by (simp add: read_manifest_def act_defs bundle_read parse_strict_json_def bundle_env_def
      manifest_versions_ok_def bundle_manifest_def MAX_BUNDLE_FILES_def verify_signature_def
      signed_bytes_def canonical_json_def)

lemma bundle_entries:
  "verify_entries bundle_env bundle_world bundle_root 0 (lm_files bundle_manifest)
     \<lparr>fc_paths = [], fc_identities = [(manifest_path, (1, 7))], fc_total = 0, fc_digest = [9]\<rparr> t =
   (Inr \<lparr>fc_paths = [bundle_file], fc_identities = [(manifest_path, (1, 7)), (bundle_file, (1, 8))],
      fc_total = 2, fc_digest = [9] @ entry_digest (hd (lm_files bundle_manifest))\<rparr>, t + 10)"
proof -
  have "bundle_file \<noteq> manifest_path" using bundle_paths(10) by metis
  then show ?thesis
    by (simp add: bundle_manifest_def verify_entry_def act_defs bundle_paths bundle_no_links bundle_parents
        bundle_world_sel bundle_read checked_add_def MAX_BUNDLE_BYTES_def constant_time_eq_iff bundle_env_def
        insert_identity_def path_starts_with_def)
qed

lemma bundle_inventory:
  "verify_complete_inventory bundle_world bundle_root [bundle_file] t = (Inr (), t + 5)"
proof -
  have strip: "path_strip_prefix (bundle_root @ p) bundle_root = Some p" for p by simp
  have "read_inventory bundle_world bundle_root [bundle_file] bundle_root
      \<lparr>iv_stack = [], iv_files = [], iv_directories = []\<rparr> t =
    (Inr \<lparr>iv_stack = [], iv_files = [bundle_file], iv_directories = []\<rparr>, t + 5)"
    using bundle_paths(10)
    by (simp add: read_inventory_def act_defs bundle_world_sel bundle_lstat_values bundle_meta_ok
        inventory_entry_def inventory_file_def strip del: path_strip_prefix_Some)
  then show ?thesis
    by (simp add: verify_complete_inventory_def bind_a_def inventory_loop.simps check_def ret_def bundle_paths)
qed

lemma bundle_snapshot:
  "\<exists>u. verify_snapshot bundle_env bundle_world bundle_root (1, 5)
     [(manifest_path, (1, 7)), (bundle_file, (1, 8))] t = (Inr (), u)"
  by (simp add: verify_snapshot_def verify_identity_def act_defs bundle_no_links bundle_world_sel
      bundle_lstat_values bundle_meta_ok bundle_root_opened bundle_opened bundle_paths bundle_parents
      bundle_env_def)

lemma bundle_verified:
  "\<exists>b u. verify_learning_bundle_details bundle_env bundle_world bundle_root key t = (Inr b, u) \<and>
     lb_digest b = ''sha256:ok'' \<and> lb_skill_version b = ''2'' \<and> lb_local_ego_browser_runtime_version b = ''3''"
proof -
  have "open_verified_root bundle_world bundle_root t = (Inr ((1, 5), 0), t + 6)"
    by (simp add: open_verified_root_def act_defs bundle_no_links bundle_world_sel bundle_lstat_values
        bundle_meta_ok bundle_root_opened bundle_paths)
  moreover obtain u where "verify_snapshot bundle_env bundle_world bundle_root (1, 5)
     [(manifest_path, (1, 7)), (bundle_file, (1, 8))] (t + 27) = (Inr (), u)"
    using bundle_snapshot by blast
  ultimately show ?thesis
    by (simp add: verify_learning_bundle_details_def bind_a_def bundle_manifest_read bundle_signed bundle_entries
        bundle_inventory ret_def add.assoc) (simp add: bundle_env_def bundle_manifest_def)
qed

theorem verified_bundle_authentic_witness:
  "\<exists>h (m :: learning_manifest). root_opened bundle_world bundle_root h \<and>
     list_all (listed_file_read bundle_env bundle_world h) (lm_files m)"
proof -
  obtain b u where "verify_learning_bundle_details bundle_env bundle_world bundle_root [] 0 = (Inr b, u)"
    using bundle_verified by blast
  from verified_bundle_authentic [OF this] obtain h and m :: learning_manifest where
    "root_opened bundle_world bundle_root h" "list_all (listed_file_read bundle_env bundle_world h) (lm_files m)"
    by (elim exE conjE)
  then show ?thesis by (intro exI conjI)
qed

theorem bundle_inventory_exact_witness:
  "directory_read bundle_world bundle_root [bundle_file] [] \<and> file_seen bundle_world bundle_root bundle_file"
  using bundle_inventory_exact [OF bundle_inventory] by simp

end
