(* ===== verification/Image_Dimensions.thy ===== *)
theory Image_Dimensions
  imports Prelude
begin

text \<open>
  The dimensions of PNG and JPEG images as the two sides read them: \<open>crates/protocol/src/artifacts.rs\<close>,
  which collects artifacts, and \<open>crates/remote-wrapper/src/artifacts.rs\<close>, which accepts them.  An index
  or slice out of bounds panics in Rust; that is the value \<^const>\<open>None\<close> here, and no theorem assumes that
  it does not occur.
\<close>

section \<open>Slices\<close>

definition byte_at :: "bytes \<Rightarrow> nat \<Rightarrow> u8 option" where
  "byte_at bs i = (if i < length bs then Some (bs ! i) else None)"

definition byte_slice :: "bytes \<Rightarrow> nat \<Rightarrow> nat \<Rightarrow> bytes option" where
  "byte_slice bs i j = (if i \<le> j \<and> j \<le> length bs then Some (take (j - i) (drop i bs)) else None)"

definition be_number :: "bytes \<Rightarrow> nat" where
  "be_number bs = foldl (\<lambda>n b. 256 * n + unat b) 0 bs"

definition be_u32_at :: "bytes \<Rightarrow> nat \<Rightarrow> u32 option" where
  "be_u32_at bs i = map_option (of_nat \<circ> be_number) (byte_slice bs i (i + 4))"

definition be_u16_at :: "bytes \<Rightarrow> nat \<Rightarrow> nat option" where
  "be_u16_at bs i = map_option be_number (byte_slice bs i (i + 2))"

lemma byte_at_Some [simp]: "i < length bs \<Longrightarrow> byte_at bs i = Some (bs ! i)"
  by (simp add: byte_at_def)

lemma byte_slice_Some [simp]: "i + n \<le> length bs \<Longrightarrow> byte_slice bs i (i + n) = Some (take n (drop i bs))"
  by (simp add: byte_slice_def)

section \<open>Frame headers\<close>

definition starts_frame :: "u8 \<Rightarrow> bool" where
  "starts_frame m \<longleftrightarrow> 0xC0 \<le> m \<and> m \<le> 0xC3 \<or> 0xC5 \<le> m \<and> m \<le> 0xC7 \<or> 0xC9 \<le> m \<and> m \<le> 0xCB
     \<or> 0xCD \<le> m \<and> m \<le> 0xCF"

text \<open>The first index from here on whose byte is not a fill byte.\<close>

definition skip_fill :: "bytes \<Rightarrow> nat \<Rightarrow> nat" where
  "skip_fill bs i = i + length (takeWhile (\<lambda>b. b = 0xFF) (drop i bs))"

lemma skip_fill_ge: "i \<le> skip_fill bs i"
  by (simp add: skip_fill_def)

lemma skip_fill_le: "i \<le> length bs \<Longrightarrow> skip_fill bs i \<le> length bs"
  using length_takeWhile_le [of "\<lambda>b. b = 0xFF" "drop i bs"] by (simp add: skip_fill_def)

section \<open>The reader that collects\<close>

text \<open>The outer option is the panic, the inner one the result.\<close>

function jpeg_scan :: "bytes \<Rightarrow> nat \<Rightarrow> (u32 \<times> u32) option option" where
  "jpeg_scan bs i =
     (if \<not> i + 9 < length bs then Some None
      else (case byte_at bs i of
        None \<Rightarrow> None
      | Some b \<Rightarrow>
          if b \<noteq> 0xFF then jpeg_scan bs (i + 1)
          else
            let i' = skip_fill bs i in
            if i' \<ge> length bs then Some None
            else (case byte_at bs i' of
              None \<Rightarrow> None
            | Some marker \<Rightarrow>
                if marker = 0xD9 \<or> marker = 0xDA then Some None
                else if i' + 3 > length bs then Some None
                else (case be_u16_at bs (i' + 1) of
                  None \<Rightarrow> None
                | Some len \<Rightarrow>
                    if len < 2 \<or> i' + 1 + len > length bs then Some None
                    else if starts_frame marker \<and> len \<ge> 7
                    then (case (be_u16_at bs (i' + 4), be_u16_at bs (i' + 6)) of
                        (Some height, Some width) \<Rightarrow>
                          if width = 0 \<or> height = 0 then Some None
                          else Some (Some (of_nat width, of_nat height))
                      | _ \<Rightarrow> None)
                    else jpeg_scan bs (i' + 1 + len)))))"
  by pat_completeness auto
termination
proof (relation "measure (\<lambda>(bs, i). length bs - i)", goal_cases)
  case (3 bs i b i' marker len)
  then show ?case using skip_fill_ge [of i bs] by auto
qed auto

declare jpeg_scan.simps [simp del]

definition jpeg_dimensions :: "bytes \<Rightarrow> (u32 \<times> u32) option option" where
  "jpeg_dimensions bs = jpeg_scan bs 2"

definition PNG_SIGNATURE :: bytes where
  "PNG_SIGNATURE = [0x89, 0x50, 0x4E, 0x47, 0x0D, 0x0A, 0x1A, 0x0A]"

definition dimensions :: "bytes \<Rightarrow> (string \<times> u32 \<times> u32) option option" where
  "dimensions bs =
     (if starts_with PNG_SIGNATURE bs \<and> length bs \<ge> 24
      then (case (be_u32_at bs 16, be_u32_at bs 20) of
          (Some width, Some height) \<Rightarrow>
            if width = 0 \<or> height = 0 then Some None else Some (Some (''image/png'', width, height))
        | _ \<Rightarrow> None)
      else if starts_with [0xFF, 0xD8] bs
      then map_option (map_option (\<lambda>(width, height). (''image/jpeg'', width, height))) (jpeg_dimensions bs)
      else Some None)"

section \<open>The reader that accepts\<close>

function wrapper_jpeg_scan :: "bytes \<Rightarrow> nat \<Rightarrow> (u32 \<times> u32) option option" where
  "wrapper_jpeg_scan bs i =
     (if \<not> i + 9 < length bs then Some None
      else (case byte_at bs i of
        None \<Rightarrow> None
      | Some b \<Rightarrow>
          if b \<noteq> 0xFF then wrapper_jpeg_scan bs (i + 1)
          else
            let i' = skip_fill bs i in
            (case byte_at bs i' of
              None \<Rightarrow> Some None
            | Some marker \<Rightarrow>
                if marker = 0xD9 \<or> marker = 0xDA \<or> i' + 3 > length bs then Some None
                else (case be_u16_at bs (i' + 1) of
                  None \<Rightarrow> None
                | Some len \<Rightarrow>
                    if len < 2 \<or> i' + 1 + len > length bs then Some None
                    else if starts_frame marker \<and> len \<ge> 7
                    then (case (be_u16_at bs (i' + 4), be_u16_at bs (i' + 6)) of
                        (Some height, Some width) \<Rightarrow> Some (Some (of_nat width, of_nat height))
                      | _ \<Rightarrow> None)
                    else wrapper_jpeg_scan bs (i' + 1 + len)))))"
  by pat_completeness auto
termination
proof (relation "measure (\<lambda>(bs, i). length bs - i)", goal_cases)
  case (3 bs i b i' marker len)
  then show ?case using skip_fill_ge [of i bs] by auto
qed auto

declare wrapper_jpeg_scan.simps [simp del]

definition image_dimensions :: "bytes \<Rightarrow> (string \<times> u32 \<times> u32) option option" where
  "image_dimensions bs =
     (if starts_with PNG_SIGNATURE bs \<and> length bs \<ge> 24
      then (case (be_u32_at bs 16, be_u32_at bs 20) of
          (Some width, Some height) \<Rightarrow>
            if width \<noteq> 0 \<and> height \<noteq> 0 then Some (Some (''image/png'', width, height)) else Some None
        | _ \<Rightarrow> None)
      else if starts_with [0xFF, 0xD8] bs
      then (case wrapper_jpeg_scan bs 2 of
          None \<Rightarrow> None
        | Some None \<Rightarrow> Some None
        | Some (Some (width, height)) \<Rightarrow>
            if width \<noteq> 0 \<and> height \<noteq> 0 then Some (Some (''image/jpeg'', width, height)) else Some None)
      else Some None)"

section \<open>The readers agree\<close>

lemma be_number_less: "be_number bs < 256 ^ length bs"
proof (induction bs rule: rev_induct)
  case (snoc b bs)
  have "unat b < 256" using unsigned_less [of b, where ?'a = nat] by simp
  with snoc show ?case by (simp add: be_number_def)
qed (simp add: be_number_def)

lemma be_u16_at_Some:
  assumes "i + 2 \<le> length bs"
  obtains n where "be_u16_at bs i = Some n" "n < 65536"
proof -
  have "be_u16_at bs i = Some (be_number (take 2 (drop i bs)))"
    using byte_slice_Some [OF assms] by (simp add: be_u16_at_def del: byte_slice_Some)
  moreover have "be_number (take 2 (drop i bs)) < 65536"
    using be_number_less [of "take 2 (drop i bs)"] assms by simp
  ultimately show thesis by (rule that)
qed

lemma u16_zero: "n < 65536 \<Longrightarrow> (of_nat n :: u32) = 0 \<longleftrightarrow> n = 0"
  by (auto simp: word_of_nat_eq_0_iff dest: dvd_imp_le)

text \<open>A scan does not panic, and the two scans differ only in that the first refuses an empty image.\<close>

lemma scans_agree:
  "\<exists>r. wrapper_jpeg_scan bs i = Some r \<and>
     jpeg_scan bs i = Some (case r of None \<Rightarrow> None
       | Some (width, height) \<Rightarrow> if width = 0 \<or> height = 0 then None else Some (width, height))"
proof (induction bs i rule: jpeg_scan.induct)
  case (1 bs i)
  note unfold = jpeg_scan.simps [of bs i] wrapper_jpeg_scan.simps [of bs i]
  show ?case
  proof (cases "i + 9 < length bs")
    case False
    then show ?thesis by (simp add: unfold)
  next
    case long: True
    define i' where "i' = skip_fill bs i"
    have b: "byte_at bs i = Some (bs ! i)" using long by simp
    show ?thesis
    proof (cases "bs ! i = 0xFF")
      case False
      with "1.IH"(1) [OF _ b] long b show ?thesis by (simp add: unfold)
    next
      case fill: True
      consider "i' \<ge> length bs" | "i' < length bs" "bs ! i' = 0xD9 \<or> bs ! i' = 0xDA \<or> i' + 3 > length bs"
        | "i' < length bs" "\<not> (bs ! i' = 0xD9 \<or> bs ! i' = 0xDA)" "i' + 3 \<le> length bs"
        by linarith
      then show ?thesis
      proof cases
        case 1
        with long b fill show ?thesis
          by (simp add: unfold i'_def [symmetric] byte_at_def Let_def)
      next
        case 2
        with long b fill show ?thesis by (auto simp: unfold i'_def [symmetric] Let_def)
      next
        case marker: 3
        obtain len where len: "be_u16_at bs (i' + 1) = Some len"
          by (rule be_u16_at_Some [of "i' + 1" bs]) (use marker(3) in auto)
        show ?thesis
        proof (cases "len < 2 \<or> i' + 1 + len > length bs")
          case True
          with long b fill marker len show ?thesis by (auto simp: unfold i'_def [symmetric] Let_def)
        next
          case fits: False
          show ?thesis
          proof (cases "starts_frame (bs ! i') \<and> len \<ge> 7")
            case True
            with fits have room: "i' + 6 + 2 \<le> length bs" by simp
            obtain h where h: "be_u16_at bs (i' + 4) = Some h" "h < 65536"
              by (rule be_u16_at_Some [of "i' + 4" bs]) (use room in auto)
            obtain w where w: "be_u16_at bs (i' + 6) = Some w" "w < 65536"
              by (rule be_u16_at_Some [of "i' + 6" bs]) (use room in auto)
            have "jpeg_scan bs i = Some (if w = 0 \<or> h = 0 then None else Some (of_nat w, of_nat h))"
              using long b fill marker len fits True h(1) w(1) by (simp add: unfold(1) i'_def [symmetric] Let_def)
            moreover have "wrapper_jpeg_scan bs i = Some (Some (of_nat w, of_nat h))"
              using long b fill marker len fits True h(1) w(1) by (simp add: unfold(2) i'_def [symmetric] Let_def)
            ultimately show ?thesis by (simp add: u16_zero [OF w(2)] u16_zero [OF h(2)])
          next
            case False
            have "\<exists>r. wrapper_jpeg_scan bs (i' + 1 + len) = Some r \<and>
              jpeg_scan bs (i' + 1 + len) = Some (case r of None \<Rightarrow> None
               | Some (width, height) \<Rightarrow> if width = 0 \<or> height = 0 then None else Some (width, height))"
              by (rule "1.IH"(2)) (use long b fill marker len fits False in \<open>auto simp: i'_def\<close>)
            moreover have "jpeg_scan bs i = jpeg_scan bs (i' + 1 + len)"
              using long b fill marker len fits False by (subst unfold(1)) (auto simp: i'_def [symmetric] Let_def)
            moreover have "wrapper_jpeg_scan bs i = wrapper_jpeg_scan bs (i' + 1 + len)"
              using long b fill marker len fits False by (subst unfold(2)) (auto simp: i'_def [symmetric] Let_def)
            ultimately show ?thesis by simp
          qed
        qed
      qed
    qed
  qed
qed

lemma dimensions_readers: "image_dimensions bs = dimensions bs \<and> dimensions bs \<noteq> None"
proof -
  obtain r where "wrapper_jpeg_scan bs 2 = Some r" "jpeg_scan bs 2 = Some (case r of None \<Rightarrow> None
       | Some (width, height) \<Rightarrow> if width = 0 \<or> height = 0 then None else Some (width, height))"
    using scans_agree by blast
  then show ?thesis
    by (auto simp: image_dimensions_def dimensions_def jpeg_dimensions_def be_u32_at_def byte_slice_def
        split: option.splits if_splits)
qed

text \<open>
  The two readers of image dimensions agree on every sequence of bytes, and neither of them ever
  indexes out of bounds: what the collector reads from an image the wrapper reads from it too.\<close>

theorem image_readers_agree:
  "image_dimensions bs = dimensions bs \<and> dimensions bs \<noteq> None"
  by (rule dimensions_readers)

end
