(* ===== verification/Artifacts.thy ===== *)
theory Artifacts
  imports Image_Dimensions Crypto Paths
begin

text \<open>
  The collection of artifacts, \<open>crates/protocol/src/artifacts.rs\<close>: the images that a script left in
  the private directory of its request, with the limits on their number, size and pixels.  Every
  system call is an action on the clock of \<open>Paths\<close>.
\<close>

section \<open>Limits and errors\<close>

record artifact_limits =
  rl_max_bytes :: nat
  rl_max_pixels :: u64
  rl_max_count :: nat
  rl_max_total_bytes :: nat

definition default_artifact_limits :: artifact_limits where
  "default_artifact_limits =
     \<lparr>rl_max_bytes = MAX_ARTIFACT_BYTES, rl_max_pixels = MAX_ARTIFACT_PIXELS, rl_max_count = 32,
      rl_max_total_bytes = MAX_ARTIFACT_BYTES\<rparr>"

datatype artifact_error =
  InvalidRoot | UnsafeRoot | HardLink | Symlink | OutsideRoot | InvalidFile | UnsupportedMedia
| SizeLimit | PixelLimit | TotalLimit | CountLimit | Io io_error

record artifact =
  af_path :: path
  af_descriptor :: artifact_descriptor

text \<open>\<open>saturating_mul\<close> on 64 bits.\<close>

definition sat_mul :: "u64 \<Rightarrow> u64 \<Rightarrow> u64" where
  "sat_mul a b = (if unat a * unat b < 2 ^ 64 then a * b else - 1)"

definition pixels :: "u32 \<Rightarrow> u32 \<Rightarrow> u64" where
  "pixels width height = sat_mul (ucast width) (ucast height)"

lemma unat_pixels: "unat (pixels w h) = unat w * unat h"
proof -
  have "unat w < 2 ^ 32" "unat h < 2 ^ 32"
    using unsigned_less [of w, where ?'a = nat] unsigned_less [of h, where ?'a = nat] by simp_all
  then have less: "unat w * unat h < 2 ^ 32 * 2 ^ 32" by (intro mult_strict_mono) simp_all
  moreover have "unat (ucast w :: u64) = unat w" "unat (ucast h :: u64) = unat h"
    using unsigned_less [of w, where ?'a = nat] unsigned_less [of h, where ?'a = nat]
    by (simp_all add: unsigned_ucast_eq take_bit_nat_eq_self)
  ultimately show ?thesis by (simp add: pixels_def sat_mul_def unat_word_ariths)
qed

definition limits_valid :: "artifact_limits \<Rightarrow> bool" where
  "limits_valid l \<longleftrightarrow> \<not> (rl_max_bytes l = 0 \<or> rl_max_bytes l > MAX_ARTIFACT_BYTES \<or> rl_max_pixels l = 0
     \<or> rl_max_pixels l > MAX_ARTIFACT_PIXELS \<or> rl_max_count l = 0 \<or> rl_max_total_bytes l = 0
     \<or> rl_max_total_bytes l > MAX_ARTIFACT_BYTES)"

section \<open>Checks\<close>

definition validate_private_directory :: "world \<Rightarrow> file_meta \<Rightarrow> artifact_error + unit" where
  "validate_private_directory w m =
     ensure (fm_uid m = w_euid w \<and> mode_bits m 0x3F = 0) UnsafeRoot"

definition validate_regular_artifact :: "world \<Rightarrow> file_meta \<Rightarrow> artifact_error + unit" where
  "validate_regular_artifact w m =
     (if \<not> fm_file m then Inl InvalidFile
      else if fm_uid m \<noteq> w_euid w then Inl InvalidFile
      else if fm_nlink m \<noteq> 1 then Inl HardLink else Inr ())"

definition is_candidate :: "path \<Rightarrow> bool" where
  "is_candidate p = (case extension p of
       None \<Rightarrow> False
     | Some e \<Rightarrow> valid_utf8 e \<and> map to_ascii_lowercase e \<in> {''png'', ''jpg'', ''jpeg''})"

text \<open>The file is opened without following a link; \<open>take\<close> cuts the read one byte past the limit.\<close>

definition read_bounded_artifact :: "world \<Rightarrow> path \<Rightarrow> nat \<Rightarrow> (artifact_error, bytes) act" where
  "read_bounded_artifact w p maximum =
     bind_a (sys Io (\<lambda>t. w_open w t p read_flags)) (\<lambda>h.
     bind_a (sys Io (\<lambda>t. w_fstat w t h)) (\<lambda>m.
     bind_a (lift_r (validate_regular_artifact w m)) (\<lambda>_.
     bind_a (sys Io (\<lambda>t. w_read w t h)) (\<lambda>content.
     let bs = take (maximum + 1) content in
     bind_a (check (length bs \<le> maximum) SizeLimit) (\<lambda>_. ret bs)))))"

section \<open>The paths\<close>

text \<open>The directories are walked depth first; a directory may be nested at most as deep as the first
  argument says, and a walk that goes deeper has no result.  What is found is appended to what was
  found before.\<close>

fun walk_list :: "('a \<Rightarrow> 'b list \<Rightarrow> (artifact_error, 'b list) walk) \<Rightarrow> 'a list \<Rightarrow> 'b list \<Rightarrow> (artifact_error, 'b list) walk" where
  "walk_list f [] output = walk_act (ret output)"
| "walk_list f (x # xs) output = walk_then (f x output) (walk_list f xs)"

definition collect_file ::
  "world \<Rightarrow> path \<Rightarrow> path \<Rightarrow> path list \<Rightarrow> (artifact_error, path list) act" where
  "collect_file w root p output =
     bind_a (sys Io (\<lambda>t. w_canonicalize w t p)) (\<lambda>canonical.
     bind_a (check (path_starts_with canonical root) OutsideRoot) (\<lambda>_.
       ret (if is_candidate p then output @ [canonical] else output)))"

definition collect_meta :: "world \<Rightarrow> io_error + path \<Rightarrow> (artifact_error, path \<times> file_meta) act" where
  "collect_meta w entry =
     bind_a (lift_r (map_err Io entry)) (\<lambda>p.
     bind_a (sys Io (\<lambda>t. w_lstat w t p)) (\<lambda>m.
     bind_a (check (\<not> fm_symlink m) Symlink) (\<lambda>_.
     bind_a (if fm_dir m then lift_r (validate_private_directory w m) else ret ()) (\<lambda>_. ret (p, m)))))"

fun collect_paths :: "nat \<Rightarrow> world \<Rightarrow> path \<Rightarrow> path \<Rightarrow> path list \<Rightarrow> (artifact_error, path list) walk" where
  "collect_paths 0 w root current output = (\<lambda>t. None)"
| "collect_paths (Suc depth) w root current output =
     walk_then (walk_act (sys Io (\<lambda>t. w_read_dir w t current))) (\<lambda>entries.
       walk_list (\<lambda>entry output.
         walk_then (walk_act (collect_meta w entry)) (\<lambda>(p, m).
           if fm_dir m then collect_paths depth w root p output
           else walk_act (if fm_file m then collect_file w root p output else ret output)))
         entries output)"

section \<open>The artifacts\<close>

record collection =
  co_artifacts :: "artifact list"
  co_total :: nat
  co_identities :: "file_identity list"

text \<open>A panic of the reader of dimensions would be \<open>None\<close>, which \<open>image_readers_agree\<close> excludes;
  \<open>uuids\<close> are the fresh ids.\<close>

definition read_dimensions :: "bytes \<Rightarrow> artifact_error + string \<times> u32 \<times> u32" where
  "read_dimensions bs = ok_or UnsupportedMedia (the (dimensions bs))"

definition with_artifact ::
  "crypto \<Rightarrow> (nat \<Rightarrow> string) \<Rightarrow> path \<Rightarrow> file_meta \<Rightarrow> bytes \<Rightarrow> string \<times> u32 \<times> u32 \<Rightarrow> collection \<Rightarrow> collection"
  where
  "with_artifact cs uuids p m bs = (\<lambda>(media_type, width, height) c.
     \<lparr>co_artifacts = co_artifacts c @
        [\<lparr>af_path = p, af_descriptor = \<lparr>ad_artifact_id = uuids (length (co_artifacts c)),
           ad_media_type = media_type, ad_size_bytes = of_nat (length bs), ad_width = width,
           ad_height = height, ad_content_b64 = encode_b64url cs bs\<rparr>\<rparr>],
      co_total = co_total c + length bs,
      co_identities = co_identities c @ [file_identity m]\<rparr>)"

definition collect_one ::
  "crypto \<Rightarrow> world \<Rightarrow> artifact_limits \<Rightarrow> (nat \<Rightarrow> string) \<Rightarrow> path \<Rightarrow> collection \<Rightarrow>
     (artifact_error, collection) act" where
  "collect_one cs w limits uuids p c =
     bind_a (check (length (co_artifacts c) < rl_max_count limits) CountLimit) (\<lambda>_.
     bind_a (sys Io (\<lambda>t. w_lstat w t p)) (\<lambda>m.
     bind_a (lift_r (validate_regular_artifact w m)) (\<lambda>_.
     bind_a (check (file_identity m \<notin> set (co_identities c)) HardLink) (\<lambda>_.
     bind_a (check (\<not> unat (fm_len m) > rl_max_bytes limits) SizeLimit) (\<lambda>_.
     bind_a (read_bounded_artifact w p (rl_max_bytes limits)) (\<lambda>bs.
     bind_a (lift_r (read_dimensions bs)) (\<lambda>(media_type, width, height).
     bind_a (check (\<not> pixels width height > rl_max_pixels limits) PixelLimit) (\<lambda>_.
     bind_a (check (\<not> co_total c + length bs > rl_max_total_bytes limits) TotalLimit) (\<lambda>_.
       ret (with_artifact cs uuids p m bs (media_type, width, height) c))))))))))"

fun collect_all ::
  "crypto \<Rightarrow> world \<Rightarrow> artifact_limits \<Rightarrow> (nat \<Rightarrow> string) \<Rightarrow> path list \<Rightarrow> collection \<Rightarrow>
     (artifact_error, collection) act" where
  "collect_all cs w limits uuids [] c = ret c"
| "collect_all cs w limits uuids (p # ps) c =
     bind_a (collect_one cs w limits uuids p c) (collect_all cs w limits uuids ps)"

definition artifact_root ::
  "world \<Rightarrow> path \<Rightarrow> artifact_limits \<Rightarrow> (artifact_error, path) act" where
  "artifact_root w root limits =
     bind_a (check (is_absolute root \<and> limits_valid limits) InvalidRoot) (\<lambda>_.
     bind_a (sys Io (\<lambda>t. w_lstat w t root)) (\<lambda>m.
     bind_a (check (\<not> (fm_symlink m \<or> \<not> fm_dir m)) InvalidRoot) (\<lambda>_.
     bind_a (lift_r (validate_private_directory w m)) (\<lambda>_.
       sys Io (\<lambda>t. w_canonicalize w t root)))))"

definition collect_artifacts ::
  "nat \<Rightarrow> crypto \<Rightarrow> world \<Rightarrow> (nat \<Rightarrow> string) \<Rightarrow> path \<Rightarrow> artifact_limits \<Rightarrow> (artifact_error, artifact list) walk" where
  "collect_artifacts depth cs w uuids root limits =
     walk_then (walk_act (artifact_root w root limits)) (\<lambda>canonical.
     walk_then (collect_paths depth w canonical canonical []) (\<lambda>paths.
       walk_act (bind_a (collect_all cs w limits uuids (sort paths)
          \<lparr>co_artifacts = [], co_total = 0, co_identities = []\<rparr>) (\<lambda>c. ret (co_artifacts c)))))"

end
