(* ===== verification/Remote_Wrapper.thy ===== *)
theory Remote_Wrapper
  imports Control_Response Framing Artifacts
begin

text \<open>
  The wrapper that a script calls on the remote side, \<open>crates/remote-wrapper/src/main.rs\<close> and
  \<open>artifacts.rs\<close>: it asks the broker for a permit, seals the request under the key it gets, and checks
  and prints the response.
\<close>

section \<open>Errors and parameters\<close>

definition MAX_ARTIFACT_COUNT :: nat where "MAX_ARTIFACT_COUNT = 32"
definition DEFAULT_ARTIFACT_RETENTION_SECONDS :: u64 where
  "DEFAULT_ARTIFACT_RETENTION_SECONDS = 24 * 60 * 60"
definition DEFAULT_ARTIFACT_REQUEST_DIRECTORIES :: nat where
  "DEFAULT_ARTIFACT_REQUEST_DIRECTORIES = 64"

text \<open>An error that is passed on as its text is kept as it is.\<close>

datatype wrapper_error =
  Usage | Unavailable | Disconnected | LeaseRenewalRequired | Protocol string
| ProtocolOf protocol_error | JsonOf strict_json_error | FrameOf frame_error | IoText | Status string
| StatusOf execution_status | Exit int

record permit_response =
  pr_protocol :: string
  pr_message_type :: string
  pr_status :: string
  pr_permit :: "request_permit option"
  pr_session_key :: "string option"
  pr_capability :: "bridge_capability option"
  pr_error :: "string option"

record broker_response =
  bk_protocol :: string
  bk_message_type :: string
  bk_status :: string
  bk_response :: "json option"
  bk_error :: "string option"

record execute_error_response =
  ee_protocol :: string
  ee_message_type :: string
  ee_status :: string
  ee_error :: string

text \<open>The derived readers and serializers of \<open>serde_json\<close> are parameters; \<open>rw_now\<close> is the clock in
  milliseconds when the permit is checked, \<open>rw_nonce\<close> what the cipher draws.\<close>

record wrapper_env =
  rw_crypto :: crypto
  rw_json :: json_codec
  rw_wire :: "outer_envelope \<Rightarrow> nat option"
  rw_permit_response :: "json \<Rightarrow> string + permit_response"
  rw_broker_response :: "json \<Rightarrow> string + broker_response"
  rw_execute_error :: "json \<Rightarrow> string + execute_error_response"
  rw_envelope :: "json \<Rightarrow> string + outer_envelope"
  rw_response :: "json \<Rightarrow> string + inner_execute_response"
  rw_envelope_json :: "outer_envelope \<Rightarrow> json"
  rw_request_json :: "inner_execute_request \<Rightarrow> json"
  rw_var :: "string \<Rightarrow> string option"
  rw_now :: u64
  rw_nonce :: bytes

abbreviation rw_b64 :: "wrapper_env \<Rightarrow> b64_codec" where "rw_b64 env \<equiv> cr_b64 (rw_crypto env)"

definition parse_as :: "wrapper_env \<Rightarrow> (json \<Rightarrow> string + 't) \<Rightarrow> bytes \<Rightarrow> wrapper_error + 't" where
  "parse_as env reader bs = map_err JsonOf (parse_strict_json (rw_json env) reader bs)"

section \<open>The request\<close>

text \<open>What is read from standard input, chunk by chunk, each of at most 16 KiB; an empty chunk is the
  end of the input.\<close>

fun read_bounded_script :: "(io_error + bytes) list \<Rightarrow> bytes \<Rightarrow> wrapper_error + bytes" where
  "read_bounded_script [] output = Inr output"
| "read_bounded_script (Inl e # chunks) output = Inl IoText"
| "read_bounded_script (Inr chunk # chunks) output =
     (if chunk = [] then Inr output
      else if length output + length chunk > MAX_SCRIPT_BYTES
      then Inl (Protocol ''protocol_error: script exceeds 1 MiB'')
      else read_bounded_script chunks (output @ chunk))"

definition parse_mode :: "string option \<Rightarrow> concurrency_mode" where
  "parse_mode v =
     (if v = Some ''task_space_tab'' then TaskSpaceTab
      else if v = Some ''task_space'' then TaskSpace else Binding)"

text \<open>\<open>env::var\<close> also fails on a value that is not UTF-8.\<close>

definition utf8_var :: "wrapper_env \<Rightarrow> string \<Rightarrow> string option" where
  "utf8_var env name = (case rw_var env name of
      None \<Rightarrow> None | Some v \<Rightarrow> if valid_utf8 v then Some v else None)"

definition broker_nonce :: "wrapper_env \<Rightarrow> wrapper_error + string" where
  "broker_nonce env =
     bind_r (ok_or Unavailable (utf8_var env ''EGO_BROWSER_BROKER_NONCE'')) (\<lambda>nonce.
       if nonce = [] \<or> length nonce > 256 then Inl (Protocol ''invalid broker nonce'') else Inr nonce)"

definition parse_timeout :: "string \<Rightarrow> u64 option" where
  "parse_timeout v = (case parse_u64 v of
      Some n \<Rightarrow> if n > 0 \<and> n \<le> MAX_EXECUTE_TIMEOUT_MS then Some n else None
    | None \<Rightarrow> None)"

definition request_timeout :: "wrapper_env \<Rightarrow> wrapper_error + u64" where
  "request_timeout env = (case utf8_var env ''EGO_BROWSER_TIMEOUT_MS'' of
      Some v \<Rightarrow> ok_or (Protocol ''invalid timeout'') (parse_timeout v)
    | None \<Rightarrow> Inr MAX_EXECUTE_TIMEOUT_MS)"

record wrapper_request =
  wq_script :: bytes
  wq_nonce :: string
  wq_timeout_ms :: u64
  wq_cwd_label :: string
  wq_scope :: request_scope

definition prepare_request :: "wrapper_env \<Rightarrow> (io_error + bytes) list \<Rightarrow> wrapper_error + wrapper_request" where
  "prepare_request env input =
     bind_r (read_bounded_script input []) (\<lambda>script.
     bind_r (broker_nonce env) (\<lambda>nonce.
     bind_r (request_timeout env) (\<lambda>timeout_ms.
       Inr \<lparr>wq_script = script, wq_nonce = nonce, wq_timeout_ms = timeout_ms,
         wq_cwd_label = (case utf8_var env ''EGO_BROWSER_CWD_LABEL'' of
             Some v \<Rightarrow> v | None \<Rightarrow> ''workspace-default''),
         wq_scope = scope_normalized
           (Some (parse_mode (utf8_var env ''EGO_BROWSER_CONCURRENCY_MODE'')))
           (utf8_var env ''EGO_BROWSER_TASK_SPACE_SCOPE'') (utf8_var env ''EGO_BROWSER_TAB_SCOPE'')\<rparr>)))"

fun concurrency_label :: "concurrency_mode \<Rightarrow> string" where
  "concurrency_label TaskSpaceTab = ''task_space_tab''"
| "concurrency_label TaskSpace = ''task_space''"
| "concurrency_label Binding = ''binding''"

definition permit_request_json :: "wrapper_request \<Rightarrow> json" where
  "permit_request_json q = JObject (btree_of
     [(''protocol'', JString PROTOCOL_VERSION), (''type'', JString ''permit_request''),
      (''startup_nonce'', JString (wq_nonce q)),
      (''script_bytes'', JNumber (PosInt (of_nat (length (wq_script q))))),
      (''timeout_ms'', JNumber (PosInt (wq_timeout_ms q))),
      (''cwd_label'', JString (wq_cwd_label q)),
      (''concurrency_mode'', JString (concurrency_label (rs_mode (wq_scope q)))),
      (''task_space_scope'', JOptString (rs_task_space (wq_scope q))),
      (''tab_scope'', JOptString (rs_tab (wq_scope q)))])"

section \<open>The permit\<close>

definition validate_permit_response :: "permit_response \<Rightarrow> wrapper_error + unit" where
  "validate_permit_response r =
     (if pr_protocol r \<noteq> PROTOCOL_VERSION \<or> pr_message_type r \<noteq> ''permit_response''
         \<or> pr_status r \<noteq> ''ok''
      then Inl (if pr_error r = Some ''lease_renewal_required'' then LeaseRenewalRequired else Unavailable)
      else Inr ())"

text \<open>The key must be the canonical text of 32 bytes.\<close>

definition session_key :: "wrapper_env \<Rightarrow> string \<Rightarrow> wrapper_error + bytes" where
  "session_key env text =
     bind_r (map_err (\<lambda>_. Protocol ''invalid session key'') (decode_b64url (rw_crypto env) text)) (\<lambda>key.
       if encode_b64url (rw_crypto env) key \<noteq> text then Inl (Protocol ''session key is not canonical'')
       else if length key \<noteq> 32 then Inl (Protocol ''invalid session key length'')
       else Inr key)"

definition permit_scope_matches :: "request_permit \<Rightarrow> request_scope \<Rightarrow> bool" where
  "permit_scope_matches p scope \<longleftrightarrow> rp_concurrency_mode p = rs_mode scope
     \<and> rp_task_space_scope p = rs_task_space scope \<and> rp_tab_scope p = rs_tab scope"

definition accept_permit ::
  "wrapper_env \<Rightarrow> wrapper_request \<Rightarrow> permit_response \<Rightarrow>
     wrapper_error + request_permit \<times> bridge_capability \<times> bytes" where
  "accept_permit env q r =
     bind_r (validate_permit_response r) (\<lambda>_.
     bind_r (ok_or Unavailable (pr_permit r)) (\<lambda>permit.
     bind_r (ok_or Unavailable (pr_capability r)) (\<lambda>capability.
     bind_r (ok_or Unavailable (pr_session_key r)) (\<lambda>text.
     bind_r (session_key env text) (\<lambda>key.
     bind_r (map_err ProtocolOf (capability_validate capability)) (\<lambda>_.
     bind_r (map_err ProtocolOf (permit_validate permit capability (rw_now env) (length (wq_script q)))) (\<lambda>_.
       if permit_scope_matches permit (wq_scope q) then Inr (permit, capability, key)
       else Inl (Protocol ''permit scope does not match request''))))))))"

section \<open>The sealed request\<close>

definition inner_request_from_permit ::
  "bytes \<Rightarrow> u64 \<Rightarrow> string \<Rightarrow> request_permit \<Rightarrow> wrapper_error + inner_execute_request" where
  "inner_request_from_permit script timeout_ms cwd_label p =
     (let text = map (char_of \<circ> unat) script in
      if \<not> valid_utf8 text then Inl (Protocol ''script must be UTF-8'')
      else Inr \<lparr>ier_protocol = INNER_PROTOCOL_VERSION, ier_message_type = inner_message_type.Execute,
        ier_script = text, ier_timeout_ms = timeout_ms, ier_cwd_label = cwd_label,
        ier_default_task_space = rp_default_task_space p,
        ier_concurrency_mode = rp_concurrency_mode p,
        ier_task_space_scope = rp_task_space_scope p, ier_tab_scope = rp_tab_scope p,
        ier_allowlist_revision = rp_allowlist_revision p,
        ier_learning_bundle_digest = rp_learning_bundle_digest p\<rparr>)"

definition request_envelope :: "request_permit \<Rightarrow> nat \<Rightarrow> outer_envelope" where
  "request_envelope p payload_bytes =
     \<lparr>oe_protocol = PROTOCOL_VERSION, oe_channel = ''ego_browser_bridge'',
      oe_relay_binding_kind = ''ego_browser'', oe_message_type = outer_message_type.Execute,
      oe_request_id = rp_request_id p, oe_binding_id = rp_binding_id p,
      oe_generation = rp_generation p, oe_sequence = rp_sequence p, oe_direction = Request,
      oe_payload_bytes = payload_bytes, oe_nonce = [], oe_ciphertext = [], oe_auth_tag = [],
      oe_key_wrap = []\<rparr>"

definition seal_request ::
  "wrapper_env \<Rightarrow> wrapper_request \<Rightarrow> request_permit \<Rightarrow> bridge_capability \<Rightarrow> bytes \<Rightarrow>
     wrapper_error + outer_envelope" where
  "seal_request env q permit capability key =
     bind_r (inner_request_from_permit (wq_script q) (wq_timeout_ms q) (wq_cwd_label q) permit) (\<lambda>inner.
     bind_r (map_err ProtocolOf (execute_validate inner capability)) (\<lambda>_.
     let plaintext = canonical_json (jc_to_vec (rw_json env)) (rw_request_json env inner);
         envelope = request_envelope permit (length plaintext);
         aad = aad_for_outer (jc_to_vec (rw_json env)) envelope
     in
     bind_r (map_err ProtocolOf (seal (rw_crypto env) key (rw_nonce env) plaintext aad))
       (\<lambda>(nonce, ciphertext, tag).
     let envelope = envelope\<lparr>oe_payload_bytes := length ciphertext,
           oe_nonce := encode_b64url (rw_crypto env) nonce,
           oe_ciphertext := encode_b64url (rw_crypto env) ciphertext,
           oe_auth_tag := encode_b64url (rw_crypto env) tag\<rparr>
     in
     bind_r (map_err ProtocolOf (envelope_validate (rw_b64 env) (rw_wire env) envelope MAX_FRAME_BYTES))
       (\<lambda>_. Inr envelope))))"

section \<open>The response\<close>

definition broker_error_codes :: "string list" where
  "broker_error_codes = [''bridge_unavailable'', ''lease_renewal_required'', ''lease_expired'',
     ''binding_revoked'', ''protocol_error'', ''concurrency_conflict'']"

definition response_envelope :: "wrapper_env \<Rightarrow> bytes \<Rightarrow> wrapper_error + outer_envelope" where
  "response_envelope env frame =
     (case parse_as env (rw_envelope env) frame of
        Inr e \<Rightarrow> Inr e
      | Inl error \<Rightarrow>
          (case parse_as env (rw_execute_error env) frame of
             Inl _ \<Rightarrow> Inl error
           | Inr r \<Rightarrow>
               if ee_protocol r = PROTOCOL_VERSION \<and> ee_message_type r = ''execute_result''
                  \<and> ee_status r = ''error'' \<and> ee_error r \<in> set broker_error_codes
               then Inl (Status (ee_error r)) else Inl (Protocol ''invalid broker error response'')))"

definition answers_permit :: "outer_envelope \<Rightarrow> request_permit \<Rightarrow> bool" where
  "answers_permit e p \<longleftrightarrow> \<not> (oe_binding_id e \<noteq> rp_binding_id p \<or> oe_generation e \<noteq> rp_generation p
     \<or> oe_request_id e \<noteq> rp_request_id p \<or> oe_sequence e \<noteq> rp_sequence p
     \<or> oe_payload_bytes e > rp_max_payload_bytes p)"

definition open_response :: "wrapper_env \<Rightarrow> bytes \<Rightarrow> outer_envelope \<Rightarrow> wrapper_error + bytes" where
  "open_response env key e =
     bind_r (map_err ProtocolOf (decoded_payload (rw_b64 env) e)) (\<lambda>(ciphertext, nonce, tag).
       map_err ProtocolOf (open_sealed (rw_crypto env) key nonce ciphertext tag
         (aad_for_outer (jc_to_vec (rw_json env)) e)))"

definition check_inner_response ::
  "outer_envelope \<Rightarrow> inner_execute_response \<Rightarrow> wrapper_error + inner_execute_response" where
  "check_inner_response e r =
     (if resp_protocol r \<noteq> INNER_PROTOCOL_VERSION
         \<or> resp_message_type r \<noteq> inner_message_type.ExecuteResult
      then Inl (Protocol ''invalid inner response'')
      else if resp_request_id r \<noteq> oe_request_id e \<or> resp_sequence r \<noteq> oe_sequence e
      then Inl (Protocol ''response identity mismatch'')
      else if length (resp_stdout r) > MAX_STDOUT_BYTES \<or> length (resp_stderr r) > MAX_STDERR_BYTES
      then Inl (Protocol ''response output exceeds limit'')
      else Inr r)"

definition wrapper_decode_response ::
  "wrapper_env \<Rightarrow> bytes \<Rightarrow> bytes \<Rightarrow> request_permit \<Rightarrow> wrapper_error + inner_execute_response" where
  "wrapper_decode_response env frame key permit =
     bind_r (response_envelope env frame) (\<lambda>e.
     bind_r (map_err ProtocolOf (envelope_validate (rw_b64 env) (rw_wire env) e MAX_FRAME_BYTES)) (\<lambda>_.
       if oe_message_type e \<noteq> outer_message_type.ExecuteResult \<or> oe_direction e \<noteq> Response
       then Inl (Protocol ''invalid response envelope'')
       else if \<not> answers_permit e permit
       then Inl (Protocol ''response envelope identity mismatch'')
       else
     bind_r (open_response env key e) (\<lambda>plaintext.
     bind_r (parse_as env (rw_response env) plaintext) (check_inner_response e))))"

end
