(* ===== verification/Wrapper_Artifacts.thy ===== *)
theory Wrapper_Artifacts
  imports Remote_Wrapper
begin

text \<open>
  What the wrapper prints and writes of a response, \<open>crates/remote-wrapper/src/artifacts.rs\<close>, and the
  conversation of \<open>main.rs\<close> from the first request to the exit.
\<close>

section \<open>Checks on an artifact\<close>

definition decode_canonical_b64 :: "crypto \<Rightarrow> string \<Rightarrow> wrapper_error + bytes" where
  "decode_canonical_b64 cs v =
     bind_r (map_err (\<lambda>_. Protocol ''invalid artifact encoding'') (decode_b64url cs v)) (\<lambda>bs.
       if encode_b64url cs bs \<noteq> v then Inl (Protocol ''non-canonical artifact encoding'') else Inr bs)"

definition artifact_id_ok :: "string \<Rightarrow> bool" where
  "artifact_id_ok s \<longleftrightarrow> s \<noteq> [] \<and> length s \<le> 128 \<and>
     list_all (\<lambda>c. is_ascii_alphanumeric c \<or> c \<in> set ''._-'') s"

text \<open>A panic of the reader of dimensions would be \<open>None\<close>, which \<open>image_readers_agree\<close> excludes.\<close>

definition read_image :: "bytes \<Rightarrow> wrapper_error + string \<times> u32 \<times> u32" where
  "read_image bs = ok_or (Protocol ''invalid artifact image'') (the (image_dimensions bs))"

definition media_supported :: "string \<Rightarrow> bool" where
  "media_supported m \<longleftrightarrow> \<not> (m \<noteq> ''image/png'' \<and> m \<noteq> ''image/jpeg'')"

definition artifact_file_name :: "string \<Rightarrow> string \<Rightarrow> string" where
  "artifact_file_name artifact_id media_type =
     artifact_id @ ''.'' @ (if media_type = ''image/png'' then ''png'' else ''jpg'')"

definition check_artifact ::
  "crypto \<Rightarrow> path option \<Rightarrow> artifact_descriptor \<Rightarrow> nat \<Rightarrow> wrapper_error + (path \<times> bytes) \<times> nat" where
  "check_artifact cs directory a total_bytes =
     bind_r (decode_canonical_b64 cs (ad_content_b64 a)) (\<lambda>bs.
       if \<not> media_supported (ad_media_type a)
       then Inl (Protocol ''unsupported artifact media type'')
       else if \<not> artifact_id_ok (ad_artifact_id a) then Inl (Protocol ''invalid artifact id'')
       else if length bs > MAX_ARTIFACT_BYTES \<or> of_nat (length bs) \<noteq> ad_size_bytes a
          \<or> total_bytes + length bs > MAX_ARTIFACT_BYTES
       then Inl (Protocol ''artifact size limit exceeded'')
       else bind_r (read_image bs) (\<lambda>(media_type, width, height).
         if media_type \<noteq> ad_media_type a \<or> width \<noteq> ad_width a \<or> height \<noteq> ad_height a \<or> width = 0
            \<or> height = 0 \<or> pixels width height > MAX_ARTIFACT_PIXELS
         then Inl (Protocol ''artifact metadata mismatch'')
         else bind_r (ok_or (Protocol ''artifact directory unavailable'') directory) (\<lambda>directory_path.
           let path = path_join directory_path
                 (path_of (artifact_file_name (ad_artifact_id a) media_type))
           in if \<not> path_starts_with path directory_path
              then Inl (Protocol ''artifact path escaped directory'')
              else Inr ((path, bs), total_bytes + length bs))))"

fun check_artifacts ::
  "crypto \<Rightarrow> path option \<Rightarrow> artifact_descriptor list \<Rightarrow> nat \<Rightarrow> wrapper_error + (path \<times> bytes) list" where
  "check_artifacts cs directory [] total_bytes = Inr []"
| "check_artifacts cs directory (a # rest) total_bytes =
     bind_r (check_artifact cs directory a total_bytes) (\<lambda>(x, total_bytes).
     bind_r (check_artifacts cs directory rest total_bytes) (\<lambda>xs. Inr (x # xs)))"

section \<open>The directory\<close>

text \<open>Besides the calls of \<open>Paths\<close>: \<open>ww_mkdir\<close> creates one directory, \<open>ww_remove\<close> removes a tree,
  \<open>ww_modified\<close> is the time of the last change and \<open>ww_now\<close> the time, in nanoseconds
  since the epoch.\<close>

record wrapper_world = world +
  ww_mkdir :: "nat \<Rightarrow> path \<Rightarrow> io_error + unit"
  ww_remove :: "nat \<Rightarrow> path \<Rightarrow> io_error + unit"
  ww_modified :: "nat \<Rightarrow> path \<Rightarrow> nat"
  ww_now :: nat

definition validate_path_components :: "wrapper_world \<Rightarrow> path \<Rightarrow> (wrapper_error, unit) act" where
  "validate_path_components w p =
     bind_a (check (list_all (\<lambda>c. c \<noteq> CurDir \<and> c \<noteq> ParentDir) p) (Protocol ''artifact path traversal'')) (\<lambda>_.
       each (\<lambda>i. bind_a (try_sys (\<lambda>t. w_lstat w t (take i p))) (\<lambda>r. case r of
           Inr m \<Rightarrow> check (\<not> fm_symlink m) (Protocol ''artifact symlink path'')
         | Inl _ \<Rightarrow> ret ())) [1..<Suc (length p)])"

definition validate_owner_only_directory :: "wrapper_world \<Rightarrow> file_meta \<Rightarrow> wrapper_error + unit" where
  "validate_owner_only_directory w m =
     ensure (fm_uid m = w_euid w \<and> mode_bits m 0x3F = 0) (Protocol ''artifact directory permissions'')"

text \<open>The directories of earlier requests that are too old or too many are removed, oldest first.\<close>

definition old_request ::
  "wrapper_world \<Rightarrow> io_error + path \<Rightarrow> (wrapper_error, (nat \<times> path) option) act" where
  "old_request w entry =
     bind_a (lift_r (map_err (\<lambda>_. IoText) entry)) (\<lambda>p.
       if \<not> (case file_name p of Some n \<Rightarrow> starts_with ''request-'' n | None \<Rightarrow> False) then ret None
       else
     bind_a (sys (\<lambda>_. IoText) (\<lambda>t. w_lstat w t p)) (\<lambda>m.
       if fm_symlink m \<or> \<not> fm_dir m then ret None
       else
     bind_a (lift_r (validate_owner_only_directory w m)) (\<lambda>_ t.
       (Inr (Some (ww_modified w t p, p)), t))))"

fun old_requests ::
  "wrapper_world \<Rightarrow> (io_error + path) list \<Rightarrow> (wrapper_error, (nat \<times> path) list) act" where
  "old_requests w [] = ret []"
| "old_requests w (e # es) =
     bind_a (old_request w e) (\<lambda>r. bind_a (old_requests w es) (\<lambda>rs.
       ret (case r of None \<Rightarrow> rs | Some x \<Rightarrow> x # rs)))"

definition request_expired :: "wrapper_world \<Rightarrow> nat \<Rightarrow> bool" where
  "request_expired w modified \<longleftrightarrow> modified \<le> ww_now w \<and>
     (ww_now w - modified) div 10 ^ 9 \<ge> unat DEFAULT_ARTIFACT_RETENTION_SECONDS"

definition pruned :: "wrapper_world \<Rightarrow> (nat \<times> path) list \<Rightarrow> path list" where
  "pruned w rs =
     (let sorted = sort_key fst rs; excess = length rs - DEFAULT_ARTIFACT_REQUEST_DIRECTORIES
      in map (\<lambda>(_, _, p). p)
        (filter (\<lambda>(index, modified, _). request_expired w modified \<or> index < excess) (enumerate 0 sorted)))"

definition prune_default_artifact_directories ::
  "wrapper_world \<Rightarrow> path \<Rightarrow> (wrapper_error, unit) act" where
  "prune_default_artifact_directories w root =
     bind_a (sys (\<lambda>_. IoText) (\<lambda>t. w_read_dir w t root)) (\<lambda>entries.
     bind_a (old_requests w entries) (\<lambda>rs.
       each (\<lambda>p. sys (\<lambda>_. IoText) (\<lambda>t. ww_remove w t p)) (pruned w rs)))"

definition create_private :: "wrapper_world \<Rightarrow> path \<Rightarrow> (wrapper_error, unit) act" where
  "create_private w p =
     bind_a (sys (\<lambda>_. IoText) (\<lambda>t. ww_mkdir w t p)) (\<lambda>_.
       sys (\<lambda>_. IoText) (\<lambda>t. w_chmod_path w t p 0x1C0))"

text \<open>\<open>request_name\<close> is the fresh name of this request, below the directory of temporary files.\<close>

definition default_artifact_directory ::
  "wrapper_world \<Rightarrow> path \<Rightarrow> string \<Rightarrow> (wrapper_error, path) act" where
  "default_artifact_directory w temp_dir request_name =
     (let root = path_join temp_dir [Normal ''agent-remote-ego-browser-artifacts''] in
     bind_a (validate_path_components w root) (\<lambda>_.
     bind_a (try_sys (\<lambda>t. w_lstat w t root)) (\<lambda>r.
     bind_a (if \<not> is_ok r then create_private w root else ret ()) (\<lambda>_.
     bind_a (sys (\<lambda>_. IoText) (\<lambda>t. w_lstat w t root)) (\<lambda>m.
     bind_a (check (\<not> (fm_symlink m \<or> \<not> fm_dir m)) (Protocol ''artifact cache root is invalid'')) (\<lambda>_.
     bind_a (lift_r (validate_owner_only_directory w m)) (\<lambda>_.
     bind_a (prune_default_artifact_directories w root) (\<lambda>_.
     let request = path_join root [Normal request_name] in
     bind_a (create_private w request) (\<lambda>_. ret request)))))))))"

definition artifact_directory ::
  "wrapper_env \<Rightarrow> wrapper_world \<Rightarrow> path \<Rightarrow> string \<Rightarrow> (wrapper_error, path) act" where
  "artifact_directory env w temp_dir request_name =
     bind_a (case rw_var env ''EGO_BROWSER_ARTIFACT_DIR'' of
         Some v \<Rightarrow> ret (path_of v)
       | None \<Rightarrow> default_artifact_directory w temp_dir request_name) (\<lambda>requested.
     bind_a (validate_path_components w requested) (\<lambda>_.
     bind_a (check (is_absolute requested) (Protocol ''artifact directory must be absolute'')) (\<lambda>_.
     bind_a (try_sys (\<lambda>t. w_lstat w t requested)) (\<lambda>r.
     bind_a (if \<not> is_ok r
        then bind_a (sys (\<lambda>_. IoText) (\<lambda>t. w_mkdir_all w t requested)) (\<lambda>_.
          sys (\<lambda>_. IoText) (\<lambda>t. w_chmod_path w t requested 0x1C0)) else ret ()) (\<lambda>_.
     bind_a (sys (\<lambda>_. IoText) (\<lambda>t. w_lstat w t requested)) (\<lambda>m.
     bind_a (check (\<not> (fm_symlink m \<or> \<not> fm_dir m)) (Protocol ''artifact directory is invalid'')) (\<lambda>_.
     bind_a (lift_r (validate_owner_only_directory w m)) (\<lambda>_.
       sys (\<lambda>_. IoText) (\<lambda>t. w_canonicalize w t requested)))))))))"

definition write_artifact :: "wrapper_world \<Rightarrow> path \<Rightarrow> bytes \<Rightarrow> (wrapper_error, unit) act" where
  "write_artifact w p bs =
     bind_a (sys (\<lambda>e. if e = AlreadyExists then Protocol ''artifact already exists'' else IoText)
        (\<lambda>t. w_open w t p (write_flags True))) (\<lambda>h.
     bind_a (sys (\<lambda>_. IoText) (\<lambda>t. w_write w t h bs)) (\<lambda>_.
     bind_a (sys (\<lambda>_. IoText) (\<lambda>t. w_fstat w t h)) (\<lambda>m.
     bind_a (check (fm_file m) (Protocol ''artifact destination is not regular'')) (\<lambda>_.
       check (fm_uid m = w_euid w \<and> fm_nlink m = 1) (Protocol ''artifact destination identity'')))))"

section \<open>Output\<close>

datatype emitted = ToStdout string | ToStderr string | Wrote path bytes

fun write_artifacts ::
  "wrapper_world \<Rightarrow> (path \<times> bytes) list \<Rightarrow> nat \<Rightarrow> (wrapper_error + unit) \<times> nat \<times> emitted list" where
  "write_artifacts w [] t = (Inr (), t, [])"
| "write_artifacts w ((p, bs) # rest) t =
     (case write_artifact w p bs t of
        (Inl e, t) \<Rightarrow> (Inl e, t, [])
      | (Inr _, t) \<Rightarrow> (case write_artifacts w rest t of (r, t, out) \<Rightarrow> (r, t, Wrote p bs # out)))"

text \<open>The checks come before anything is printed.\<close>

definition checked_response ::
  "wrapper_env \<Rightarrow> wrapper_world \<Rightarrow> path \<Rightarrow> string \<Rightarrow> inner_execute_response \<Rightarrow>
     (wrapper_error, (path \<times> bytes) list) act" where
  "checked_response env w temp_dir request_name r =
     bind_a (check (\<not> (length (resp_stdout r) > MAX_STDOUT_BYTES \<or> length (resp_stderr r) > MAX_STDERR_BYTES))
        (Protocol ''response output exceeds limit'')) (\<lambda>_.
     bind_a (if resp_artifacts r = [] then ret None
        else bind_a (artifact_directory env w temp_dir request_name) (\<lambda>d. ret (Some d))) (\<lambda>directory.
     bind_a (check (length (resp_artifacts r) \<le> MAX_ARTIFACT_COUNT) (Protocol ''too many artifacts'')) (\<lambda>_.
       lift_r (check_artifacts (rw_crypto env) directory (resp_artifacts r) 0))))"

definition response_result :: "inner_execute_response \<Rightarrow> wrapper_error + unit" where
  "response_result r =
     (if resp_status r \<noteq> Completed then Inl (StatusOf (resp_status r))
      else (case resp_exit_code r of
          Some code \<Rightarrow> if code \<noteq> 0 then Inl (Exit code) else Inr ()
        | None \<Rightarrow> Inr ()))"

text \<open>\<open>stdout_ok\<close> says whether standard output accepts what is written to it.\<close>

definition emit_response ::
  "wrapper_env \<Rightarrow> wrapper_world \<Rightarrow> path \<Rightarrow> string \<Rightarrow> bool \<Rightarrow> inner_execute_response \<Rightarrow> nat \<Rightarrow>
     (wrapper_error + unit) \<times> nat \<times> emitted list" where
  "emit_response env w temp_dir request_name stdout_ok r t =
     (case checked_response env w temp_dir request_name r t of
        (Inl e, t) \<Rightarrow> (Inl e, t, [])
      | (Inr artifacts, t) \<Rightarrow>
          if resp_stdout r \<noteq> [] \<and> \<not> stdout_ok then (Inl IoText, t, [])
          else
            let printed = (if resp_stdout r = [] then [] else [ToStdout (resp_stdout r)]) @
                  (if resp_stderr r = [] then [] else [ToStderr (resp_stderr r)])
            in (case write_artifacts w artifacts t of
                (Inl e, t, out) \<Rightarrow> (Inl e, t, printed @ out)
              | (Inr _, t, out) \<Rightarrow>
                  if \<not> stdout_ok then (Inl IoText, t, printed @ out)
                  else (response_result r, t, printed @ out)))"

section \<open>The conversation\<close>

text \<open>\<open>dial\<close> is the connection to the broker, what it will send and how much it takes.\<close>

definition connect_broker ::
  "wrapper_env \<Rightarrow> (string \<Rightarrow> (byte_reader \<times> byte_writer) option) \<Rightarrow> wrapper_error + byte_reader \<times> byte_writer" where
  "connect_broker env dial =
     bind_r (ok_or Unavailable (rw_var env ''EGO_BROWSER_BROKER_SOCKET'')) (\<lambda>p.
       if p = [] then Inl Unavailable else ok_or Unavailable (dial p))"

definition send_json :: "wrapper_env \<Rightarrow> json \<Rightarrow> byte_writer \<Rightarrow> byte_writer \<times> (wrapper_error + unit)" where
  "send_json env v w =
     (case write_frame w (canonical_json (jc_to_vec (rw_json env)) v) MAX_FRAME_BYTES of
        (w, r) \<Rightarrow> (w, map_err FrameOf r))"

definition next_frame :: "byte_reader \<Rightarrow> byte_reader \<times> (wrapper_error + bytes)" where
  "next_frame r = (case read_frame r MAX_FRAME_BYTES of
      (r, Inl e) \<Rightarrow> (r, Inl (FrameOf e))
    | (r, Inr None) \<Rightarrow> (r, Inl Disconnected)
    | (r, Inr (Some frame)) \<Rightarrow> (r, Inr frame))"

text \<open>From the permit to the response; the writer holds every byte that was sent.\<close>

definition exchange_request ::
  "wrapper_env \<Rightarrow> wrapper_request \<Rightarrow> byte_reader \<Rightarrow> byte_writer \<Rightarrow>
     byte_writer \<times> (wrapper_error + inner_execute_response)" where
  "exchange_request env q r w =
     (case send_json env (permit_request_json q) w of
        (w, Inl e) \<Rightarrow> (w, Inl e)
      | (w, Inr _) \<Rightarrow>
     (case next_frame r of
        (r, Inl e) \<Rightarrow> (w, Inl e)
      | (r, Inr frame) \<Rightarrow>
     (case bind_r (parse_as env (rw_permit_response env) frame) (\<lambda>response.
           bind_r (accept_permit env q response) (\<lambda>(permit, capability, key).
           bind_r (seal_request env q permit capability key) (\<lambda>e. Inr (permit, key, e)))) of
        Inl e \<Rightarrow> (w, Inl e)
      | Inr (permit, key, e) \<Rightarrow>
     (case send_json env (rw_envelope_json env e) w of
        (w, Inl e) \<Rightarrow> (w, Inl e)
      | (w, Inr _) \<Rightarrow>
     (case next_frame r of
        (r, Inl e) \<Rightarrow> (w, Inl e)
      | (r, Inr frame) \<Rightarrow> (w, wrapper_decode_response env frame key permit))))))"

definition execute_nodejs ::
  "wrapper_env \<Rightarrow> string list \<Rightarrow> (io_error + bytes) list \<Rightarrow> (string \<Rightarrow> (byte_reader \<times> byte_writer) option) \<Rightarrow>
     wrapper_error + inner_execute_response" where
  "execute_nodejs env args input dial =
     (if args \<noteq> [] then Inl Usage
      else
     bind_r (prepare_request env input) (\<lambda>q.
     bind_r (connect_broker env dial) (\<lambda>(r, w). snd (exchange_request env q r w))))"

definition broker_command_json :: "string \<Rightarrow> string \<Rightarrow> json" where
  "broker_command_json command nonce = JObject (btree_of
     [(''protocol'', JString PROTOCOL_VERSION), (''type'', JString command),
      (''startup_nonce'', JString nonce),
      (''payload'', JObject [(''command'', JString command)])])"

text \<open>What a control command prints: the response, or the type of the message.\<close>

definition control_command ::
  "wrapper_env \<Rightarrow> string \<Rightarrow> (string \<Rightarrow> (byte_reader \<times> byte_writer) option) \<Rightarrow> wrapper_error + string + json" where
  "control_command env command dial =
     bind_r (connect_broker env dial) (\<lambda>(r, w).
     bind_r (broker_nonce env) (\<lambda>nonce.
     bind_r (snd (send_json env (broker_command_json command nonce) w)) (\<lambda>_.
     bind_r (snd (next_frame r)) (\<lambda>frame.
     bind_r (parse_as env (rw_broker_response env) frame) (\<lambda>response.
       if bk_protocol response \<noteq> PROTOCOL_VERSION \<or> bk_status response \<noteq> ''ok''
       then Inl (case bk_error response of Some e \<Rightarrow> Status e | None \<Rightarrow> Unavailable)
       else Inr (case bk_response response of Some v \<Rightarrow> Inr v | None \<Rightarrow> Inl (bk_message_type response)))))))"

text \<open>The command line: \<open>nodejs\<close> runs a script and emits its response.\<close>

datatype wrapper_output = Help | Emitted "emitted list" | Printed "string + json" | Nothing

definition run_wrapper ::
  "wrapper_env \<Rightarrow> wrapper_world \<Rightarrow> path \<Rightarrow> string \<Rightarrow> bool \<Rightarrow> string list \<Rightarrow> (io_error + bytes) list \<Rightarrow>
     (string \<Rightarrow> (byte_reader \<times> byte_writer) option) \<Rightarrow> nat \<Rightarrow> (wrapper_error + unit) \<times> wrapper_output" where
  "run_wrapper env w temp_dir request_name stdout_ok args input dial t =
     (let command = (case args of [] \<Rightarrow> ''--help'' | a # _ \<Rightarrow> a);
          control = (\<lambda>c. case control_command env c dial of
             Inl e \<Rightarrow> (Inl e, Nothing) | Inr v \<Rightarrow> (Inr (), Printed v))
      in if command = ''nodejs''
         then (case execute_nodejs env (tl args) input dial of
             Inl e \<Rightarrow> (Inl e, Nothing)
           | Inr r \<Rightarrow> (case emit_response env w temp_dir request_name stdout_ok r t of
               (result, _, out) \<Rightarrow> (result, Emitted out)))
         else if command = ''--doctor'' then control ''doctor''
         else if command = ''--reload'' then control ''reload''
         else if command = ''--help'' \<or> command = ''-h'' then (Inr (), Help)
         else (Inl Usage, Nothing))"

end
