(* ===== verification/Artifact_Properties.thy ===== *)
theory Artifact_Properties
  imports Wrapper_Artifacts Allowlist
begin

text \<open>
  What the two sides promise each other about artifacts: the collector (\<open>Artifacts\<close>) returns only
  images within its limits, the wrapper (\<open>Wrapper_Artifacts\<close>) accepts every artifact that the
  collector returns, and it writes only what it accepted, below its own directory.
\<close>

section \<open>What the readers of dimensions return\<close>

lemma jpeg_scan_nonzero: "jpeg_scan bs i = Some (Some (w, h)) \<Longrightarrow> w \<noteq> 0 \<and> h \<noteq> 0"
  using scans_agree [of bs i] by (auto split: option.splits if_splits)

lemma dimensions_Some:
  assumes "dimensions bs = Some (Some (media, w, h))"
  shows "media_supported media" "w \<noteq> 0" "h \<noteq> 0"
  using assms by (auto simp: media_supported_def dimensions_def jpeg_dimensions_def dest: jpeg_scan_nonzero
      split: if_splits option.splits)

lemma readers_agree: "image_dimensions bs = dimensions bs" "dimensions bs \<noteq> None"
  using dimensions_readers [of bs] by simp_all

section \<open>A collected artifact\<close>

text \<open>The file name that the wrapper gives an artifact.\<close>

abbreviation file_name_of :: "artifact_descriptor \<Rightarrow> string" where
  "file_name_of a \<equiv> artifact_file_name (ad_artifact_id a) (ad_media_type a)"

definition describes :: "crypto \<Rightarrow> artifact_descriptor \<Rightarrow> bytes \<Rightarrow> bool" where
  "describes cs d bs \<longleftrightarrow> ad_content_b64 d = encode_b64url cs bs \<and> ad_size_bytes d = of_nat (length bs)
     \<and> dimensions bs = Some (Some (ad_media_type d, ad_width d, ad_height d))"

definition collected_from ::
  "crypto \<Rightarrow> artifact_limits \<Rightarrow> artifact \<Rightarrow> bytes \<Rightarrow> bool" where
  "collected_from cs limits a bs \<longleftrightarrow> describes cs (af_descriptor a) bs
     \<and> length bs \<le> rl_max_bytes limits
     \<and> unat (ad_width (af_descriptor a)) * unat (ad_height (af_descriptor a)) \<le> unat (rl_max_pixels limits)"

definition collection_ok ::
  "crypto \<Rightarrow> artifact_limits \<Rightarrow> (nat \<Rightarrow> string) \<Rightarrow> collection \<Rightarrow> bytes list \<Rightarrow> bool" where
  "collection_ok cs limits uuids c contents \<longleftrightarrow>
     list_all2 (collected_from cs limits) (co_artifacts c) contents
     \<and> length (co_artifacts c) \<le> rl_max_count limits
     \<and> co_total c = sum_list (map length contents) \<and> co_total c \<le> rl_max_total_bytes limits
     \<and> distinct (co_identities c) \<and> length (co_identities c) = length (co_artifacts c)
     \<and> map (ad_artifact_id \<circ> af_descriptor) (co_artifacts c) = map uuids [0..<length (co_artifacts c)]"

lemma collect_one_Inr:
  assumes one: "collect_one cs w limits uuids p c t = (Inr c', u)"
    and ok: "collection_ok cs limits uuids c contents"
  shows "\<exists>a bs. collection_ok cs limits uuids c' (contents @ [bs]) \<and>
    co_artifacts c' = co_artifacts c @ [a] \<and> af_path a = p"
proof -
  obtain m bs media width height where
    c: "length (co_artifacts c) < rl_max_count limits" "file_identity m \<notin> set (co_identities c)"
    and bs: "length bs \<le> rl_max_bytes limits" "co_total c + length bs \<le> rl_max_total_bytes limits"
      "pixels width height \<le> rl_max_pixels limits" "read_dimensions bs = Inr (media, width, height)"
    and c': "c' = with_artifact cs uuids p m bs (media, width, height) c"
    using one by (clarsimp simp: collect_one_def read_bounded_artifact_def Let_def not_less min_def
        split: if_splits)
  have "dimensions bs = Some (Some (media, width, height))"
    using bs(4) readers_agree(2) [of bs] by (auto simp: read_dimensions_def)
  with bs ok c have "collection_ok cs limits uuids c' (contents @ [bs])"
    by (auto simp: collection_ok_def c' with_artifact_def collected_from_def describes_def unat_pixels word_le_nat_alt
        intro: list_all2_appendI)
  then show ?thesis by (auto simp: c' with_artifact_def)
qed

lemma collect_all_Inr:
  "collect_all cs w limits uuids ps c t = (Inr c', u) \<Longrightarrow> collection_ok cs limits uuids c contents \<Longrightarrow>
     \<exists>contents'. collection_ok cs limits uuids c' contents' \<and>
       map af_path (co_artifacts c') = map af_path (co_artifacts c) @ ps"
proof (induction ps arbitrary: c t contents)
  case (Cons p ps)
  then obtain c1 t1 where one: "collect_one cs w limits uuids p c t = (Inr c1, t1)"
    and rest: "collect_all cs w limits uuids ps c1 t1 = (Inr c', u)" by auto
  with Cons.IH [OF rest] collect_one_Inr [OF one Cons.prems(2)] show ?case by fastforce
qed auto

section \<open>The walk\<close>

lemma collect_paths_beneath:
  "collect_paths depth w root current acc t = Some (Inr ps, u) \<Longrightarrow>
     list_all (\<lambda>p. path_starts_with p root) acc \<Longrightarrow> list_all (\<lambda>p. path_starts_with p root) ps"
proof (induction depth arbitrary: current acc t ps u)
  case (Suc depth)
  let ?step = "\<lambda>entry acc. walk_then (walk_act (collect_meta w entry)) (\<lambda>(p, m).
           if fm_dir m then collect_paths depth w root p acc
           else walk_act (if fm_file m then collect_file w root p acc else ret acc))"
  have step: "list_all (\<lambda>p. path_starts_with p root) ps"
    if "?step entry acc t = Some (Inr ps, u)" "list_all (\<lambda>p. path_starts_with p root) acc"
    for entry acc t ps u
    using that Suc.IH by (fastforce simp: walk_then_Some collect_file_def split: if_splits)
  have "walk_list ?step entries acc t = Some (Inr ps, u) \<Longrightarrow>
      list_all (\<lambda>p. path_starts_with p root) acc \<Longrightarrow> list_all (\<lambda>p. path_starts_with p root) ps"
    for entries acc t ps u
  proof (induction entries arbitrary: acc t)
    case (Cons entry entries)
    from Cons.prems(1) obtain o' t' where "?step entry acc t = Some (Inr o', t')"
      "walk_list ?step entries o' t' = Some (Inr ps, u)" by (auto simp: walk_then_Some)
    with step Cons show ?case by blast
  qed simp
  with Suc.prems show ?case by (auto simp: walk_then_Some)
qed simp

lemma collect_paths_ends:
  assumes nested: "nests_below w rank"
  shows "rank current < depth \<Longrightarrow> collect_paths depth w root current acc t \<noteq> None"
proof (induction depth arbitrary: current acc t)
  case (Suc depth)
  let ?step = "\<lambda>entry acc. walk_then (walk_act (collect_meta w entry)) (\<lambda>(p, m).
           if fm_dir m then collect_paths depth w root p acc
           else walk_act (if fm_file m then collect_file w root p acc else ret acc))"
  have step: "?step entry acc t \<noteq> None" if "\<And>q. entry = Inr q \<Longrightarrow> rank q < depth" for entry acc t
  proof (cases "collect_meta w entry t")
    case (Pair r u)
    show ?thesis
    proof (cases r)
      case (Inr pm)
      obtain p m where "pm = (p, m)" by (cases pm)
      with Inr Pair have "entry = Inr p" by (auto simp: collect_meta_def)
      with that Suc.IH Pair Inr \<open>pm = (p, m)\<close> show ?thesis
        by (auto simp: walk_then_def walk_act_def)
    qed (use Pair in \<open>simp add: walk_then_def walk_act_def\<close>)
  qed
  have "walk_list ?step entries acc t \<noteq> None"
    if "\<And>q. Inr q \<in> set entries \<Longrightarrow> rank q < depth" for entries acc t
    using that
  proof (induction entries arbitrary: acc t)
    case (Cons entry entries)
    from step [of entry acc t] Cons.prems have "?step entry acc t \<noteq> None" by auto
    with Cons show ?case by (auto simp: walk_then_def split: option.splits sum.splits)
  qed (simp add: walk_act_def)
  moreover have "rank q < depth" if "w_read_dir w t current = Inr entries" "Inr q \<in> set entries" for entries q
    using nested that Suc.prems by (fastforce simp: nests_below_def)
  ultimately show ?case
    by (auto simp: walk_then_def walk_act_def sys_def map_err_def split: sum.splits option.splits)
qed simp

section \<open>The collection\<close>

lemma collect_artifacts_Inr:
  assumes "collect_artifacts depth cs w uuids root limits t = Some (Inr as, u)"
  obtains canonical t' contents where "artifact_root w root limits t = (Inr canonical, t')" "limits_valid limits"
    "list_all2 (collected_from cs limits) as contents"
    "length as \<le> rl_max_count limits" "sum_list (map length contents) \<le> rl_max_total_bytes limits"
    "map (ad_artifact_id \<circ> af_descriptor) as = map uuids [0..<length as]"
    "list_all (\<lambda>a. path_starts_with (af_path a) canonical) as" "sorted (map af_path as)"
proof -
  obtain canonical t1 paths t2 c where root: "artifact_root w root limits t = (Inr canonical, t1)"
    and paths: "collect_paths depth w canonical canonical [] t1 = Some (Inr paths, t2)"
    and c: "collect_all cs w limits uuids (sort paths)
          \<lparr>co_artifacts = [], co_total = 0, co_identities = []\<rparr> t2 = (Inr c, u)"
    and as: "as = co_artifacts c"
    using assms by (auto simp: collect_artifacts_def walk_then_Some)
  have "collection_ok cs limits uuids \<lparr>co_artifacts = [], co_total = 0, co_identities = []\<rparr> []"
    by (simp add: collection_ok_def)
  from collect_all_Inr [OF c this] obtain contents where ok: "collection_ok cs limits uuids c contents"
    and ps: "map af_path as = sort paths" by (auto simp: as)
  have "list_all (\<lambda>p. path_starts_with p canonical) (map af_path as)"
    using collect_paths_beneath [OF paths] by (simp add: ps list_all_iff)
  then have "list_all (\<lambda>a. path_starts_with (af_path a) canonical) as" by (simp add: list_all_iff)
  moreover have "limits_valid limits" using root by (auto simp: artifact_root_def)
  moreover have "sorted (map af_path as)" by (simp add: ps)
  ultimately show thesis using ok by (intro that [OF root, of contents]) (simp_all add: collection_ok_def as)
qed

text \<open>
  A collection returns images only, sorted by their paths, every one below the canonical path of the private root, and within
  its limits: their number, the size of each and of all of them, and the pixels of each; what a
  descriptor says of its image (type, dimensions, size, content) is what the image says.\<close>

theorem collection_within_limits:
  assumes "collect_artifacts depth cs w uuids root limits t = Some (Inr as, u)"
  shows "limits_valid limits \<and> length as \<le> rl_max_count limits \<and> sorted (map af_path as) \<and>
    (\<exists>canonical t'. artifact_root w root limits t = (Inr canonical, t') \<and>
       list_all (\<lambda>a. path_starts_with (af_path a) canonical) as) \<and>
    (\<exists>contents. list_all2 (collected_from cs limits) as contents \<and>
       sum_list (map length contents) \<le> rl_max_total_bytes limits)"
  using assms by (elim collect_artifacts_Inr) blast

text \<open>
  The recursion of the collector over directories ends: when every directory entry has a smaller rank
  than its directory, as below any bound on the length of paths, a walk with more fuel than the rank of
  the root returns.\<close>

theorem collection_terminates:
  assumes "nests_below w rank"
    and "\<And>canonical t u. artifact_root w root limits t = (Inr canonical, u) \<Longrightarrow> rank canonical < depth"
  shows "collect_artifacts depth cs w uuids root limits t \<noteq> None"
proof (cases "artifact_root w root limits t")
  case (Pair r u)
  show ?thesis
  proof (cases r)
    case (Inr canonical)
    with assms(2) Pair have "rank canonical < depth" by blast
    then have "collect_paths depth w canonical canonical [] u \<noteq> None"
      by (rule collect_paths_ends [OF assms(1)])
    with Pair Inr show ?thesis
      by (auto simp: collect_artifacts_def walk_then_def walk_act_def split: sum.splits)
  qed (use Pair in \<open>simp add: collect_artifacts_def walk_then_def walk_act_def\<close>)
qed

section \<open>The wrapper accepts what was collected\<close>

lemma split_on_none: "sep \<notin> set s \<Longrightarrow> split_on sep s = [s]"
  by (induction s) auto

lemma path_of_name:
  assumes "CHR ''/'' \<notin> set s" "length s > 2"
  shows "path_of s = [Normal s]"
proof -
  have "s \<noteq> []" "s \<noteq> ''.''" "s \<noteq> ''..''" using assms(2) by auto
  with split_on_none [OF assms(1)] show ?thesis by (simp add: path_of_def List.map_filter_simps)
qed

lemma artifact_id_no_slash: "artifact_id_ok s \<Longrightarrow> CHR ''/'' \<notin> set s"
  by (auto simp: artifact_id_ok_def list_all_iff is_ascii_alphanumeric_def is_ascii_alpha_def
      is_ascii_digit_def)

lemma path_of_artifact_name:
  "artifact_id_ok i \<Longrightarrow> path_of (artifact_file_name i m) = [Normal (artifact_file_name i m)]"
  by (rule path_of_name) (auto simp: artifact_file_name_def dest: artifact_id_no_slash)

lemma join_name [simp]: "path_join d [Normal s] = d @ [Normal s]"
  by (simp add: path_join_def is_absolute_def)

text \<open>What the wrapper requires of an artifact.\<close>

definition acceptable :: "crypto \<Rightarrow> artifact_descriptor \<Rightarrow> bytes \<Rightarrow> bool" where
  "acceptable cs d bs \<longleftrightarrow> describes cs d bs \<and> artifact_id_ok (ad_artifact_id d)
     \<and> decode_b64url cs (ad_content_b64 d) = Inr bs \<and> length bs \<le> MAX_ARTIFACT_BYTES
     \<and> unat (ad_width d) * unat (ad_height d) \<le> unat MAX_ARTIFACT_PIXELS"

lemma pixels_le: "pixels w h \<le> n \<longleftrightarrow> unat w * unat h \<le> unat n"
  by (simp add: word_le_nat_alt unat_pixels)

lemma check_artifact_Inr:
  "check_artifact cs (Some d) a total_bytes = Inr (x, total') \<longleftrightarrow>
     (\<exists>bs. acceptable cs a bs \<and> total_bytes + length bs \<le> MAX_ARTIFACT_BYTES \<and>
        x = (d @ [Normal (file_name_of a)], bs) \<and> total' = total_bytes + length bs)"
proof -
  show ?thesis
  proof
    assume l: "check_artifact cs (Some d) a total_bytes = Inr (x, total')"
    then obtain bs where bs: "decode_canonical_b64 cs (ad_content_b64 a) = Inr bs"
      by (auto simp: check_artifact_def bind_r_Inr_iff)
    with l obtain m w h where *: "read_image bs = Inr (m, w, h)" "artifact_id_ok (ad_artifact_id a)"
      "length bs \<le> MAX_ARTIFACT_BYTES" "of_nat (length bs) = ad_size_bytes a"
      "total_bytes + length bs \<le> MAX_ARTIFACT_BYTES" "m = ad_media_type a" "w = ad_width a" "h = ad_height a"
      "\<not> pixels w h > MAX_ARTIFACT_PIXELS" "total' = total_bytes + length bs"
      "x = (path_join d (path_of (file_name_of a)), bs)"
      by (clarsimp simp: check_artifact_def bind_r_Inr_iff Let_def not_less split: if_splits)
    have "dimensions bs = Some (Some (m, w, h))"
      using *(1) readers_agree [of bs] by (auto simp: read_image_def)
    then have "acceptable cs a bs"
      using bs *(2-9) by (simp add: acceptable_def describes_def decode_canonical_b64_def bind_r_Inr_iff
          pixels_le not_less split: if_splits)
    moreover have "x = (d @ [Normal (file_name_of a)], bs)"
      using *(11) path_of_artifact_name [OF *(2)] by simp
    ultimately show "\<exists>bs. acceptable cs a bs \<and> total_bytes + length bs \<le> MAX_ARTIFACT_BYTES \<and>
        x = (d @ [Normal (file_name_of a)], bs) \<and> total' = total_bytes + length bs"
      using *(5,10) by blast
  next
    assume "\<exists>bs. acceptable cs a bs \<and> total_bytes + length bs \<le> MAX_ARTIFACT_BYTES \<and>
        x = (d @ [Normal (file_name_of a)], bs) \<and> total' = total_bytes + length bs"
    then obtain bs where bs: "acceptable cs a bs" "total_bytes + length bs \<le> MAX_ARTIFACT_BYTES"
      and x: "x = (d @ [Normal (file_name_of a)], bs)" "total' = total_bytes + length bs" by blast
    then have id: "artifact_id_ok (ad_artifact_id a)" and
      dims: "dimensions bs = Some (Some (ad_media_type a, ad_width a, ad_height a))"
      by (simp_all add: acceptable_def describes_def)
    have "decode_canonical_b64 cs (ad_content_b64 a) = Inr bs"
    proof -
      have "decode_b64url cs (ad_content_b64 a) = Inr bs" using bs(1) by (simp add: acceptable_def)
      moreover have "encode_b64url cs bs = ad_content_b64 a"
        using bs(1) by (simp add: acceptable_def describes_def)
      ultimately show ?thesis by (simp add: decode_canonical_b64_def)
    qed
    moreover have "read_image bs = Inr (ad_media_type a, ad_width a, ad_height a)"
      by (simp add: read_image_def readers_agree dims)
    moreover have "\<not> pixels (ad_width a) (ad_height a) > MAX_ARTIFACT_PIXELS"
      using bs(1) by (simp add: acceptable_def pixels_le not_less)
    ultimately show "check_artifact cs (Some d) a total_bytes = Inr (x, total')"
      using bs dimensions_Some [OF dims] id path_of_artifact_name [OF id]
      by (simp add: check_artifact_def acceptable_def describes_def Let_def x path_starts_with_def)
  qed
qed

lemma check_artifacts_Inr:
  "check_artifacts cs (Some d) as total_bytes = Inr xs \<longleftrightarrow>
     (\<exists>contents. list_all2 (acceptable cs) as contents \<and>
        (as = [] \<or> total_bytes + sum_list (map length contents) \<le> MAX_ARTIFACT_BYTES) \<and>
        xs = map2 (\<lambda>a bs. (d @ [Normal (file_name_of a)], bs)) as contents)"
proof (induction as arbitrary: total_bytes xs)
  case (Cons a as)
  show ?case
    by (simp add: bind_r_Inr_iff split_beta check_artifact_Inr Cons.IH list_all2_Cons1) (fastforce)
qed auto

lemma collected_acceptable:
  assumes "b64_ok (cr_b64 cs)" "limits_valid limits" "artifact_id_ok (ad_artifact_id (af_descriptor a))"
    "collected_from cs limits a bs"
  shows "acceptable cs (af_descriptor a) bs"
proof -
  have "decode_b64url cs (encode_b64url cs bs) = Inr bs"
    using assms(1) by (simp add: decode_b64url_def encode_b64url_def b64_ok_def)
  moreover have "rl_max_bytes limits \<le> MAX_ARTIFACT_BYTES" "unat (rl_max_pixels limits) \<le> unat MAX_ARTIFACT_PIXELS"
    using assms(2) by (simp_all add: limits_valid_def not_less word_le_nat_alt)
  ultimately show ?thesis
    using assms(3,4) by (auto simp: acceptable_def collected_from_def describes_def)
qed


section \<open>What the wrapper prints\<close>

definition is_wrote :: "emitted \<Rightarrow> bool" where
  "is_wrote e \<longleftrightarrow> (case e of Wrote _ _ \<Rightarrow> True | _ \<Rightarrow> False)"

lemma write_artifacts_prefix:
  "write_artifacts w files t = (r, u, out) \<Longrightarrow>
     prefix out (map (\<lambda>(p, bs). Wrote p bs) files) \<and> (is_ok r \<longrightarrow> length out = length files)"
  by (induction w files t arbitrary: r u out rule: write_artifacts.induct)
    (fastforce split: prod.splits sum.splits)+

lemma checked_response_Inr:
  assumes "checked_response env w temp_dir request_name r t = (Inr files, u)"
  obtains d contents where "resp_artifacts r \<noteq> [] \<longrightarrow>
      (\<exists>t' u'. artifact_directory env w temp_dir request_name t' = (Inr d, u'))"
    "length (resp_stdout r) \<le> MAX_STDOUT_BYTES"
    "length (resp_stderr r) \<le> MAX_STDERR_BYTES" "length (resp_artifacts r) \<le> MAX_ARTIFACT_COUNT"
    "list_all2 (acceptable (rw_crypto env)) (resp_artifacts r) contents"
    "sum_list (map length contents) \<le> MAX_ARTIFACT_BYTES"
    "files = map2 (\<lambda>a bs. (d @ [Normal (file_name_of a)], bs)) (resp_artifacts r) contents"
proof (cases "resp_artifacts r = []")
  case True
  with assms that [of "[]" "[]"] show thesis by (auto simp: checked_response_def not_less)
next
  case False
  with assms obtain d t' u' where l: "length (resp_stdout r) \<le> MAX_STDOUT_BYTES"
    "length (resp_stderr r) \<le> MAX_STDERR_BYTES" "length (resp_artifacts r) \<le> MAX_ARTIFACT_COUNT"
    and c: "check_artifacts (rw_crypto env) (Some d) (resp_artifacts r) 0 = Inr files"
    and d: "artifact_directory env w temp_dir request_name t' = (Inr d, u')"
    by (auto simp: checked_response_def not_less)
  from c False obtain contents where "list_all2 (acceptable (rw_crypto env)) (resp_artifacts r) contents"
    "sum_list (map length contents) \<le> MAX_ARTIFACT_BYTES"
    "files = map2 (\<lambda>a bs. (d @ [Normal (file_name_of a)], bs)) (resp_artifacts r) contents"
    by (auto simp: check_artifacts_Inr)
  with l d show thesis by (intro that [of d contents]) auto
qed

text \<open>C38: c37: 
  Nothing of a response is printed or written before every part of it passed: when there is any output
  at all, standard output, standard error, the number of artifacts and their total size are within
  their limits and every artifact has an acceptable name, type, size and content.  The files that are
  written are a prefix of the artifacts, in order, each directly in the checked artifact directory under
  the name of its artifact; a run that succeeds wrote all of them, and its script completed with exit code 0.\<close>

theorem output_only_when_checked:
  assumes "emit_response env w temp_dir request_name stdout_ok r t = (result, u, out)"
    and "out \<noteq> [] \<or> is_ok result"
  shows "length (resp_stdout r) \<le> MAX_STDOUT_BYTES \<and> length (resp_stderr r) \<le> MAX_STDERR_BYTES \<and>
    length (resp_artifacts r) \<le> MAX_ARTIFACT_COUNT \<and>
    (\<exists>d contents. (resp_artifacts r \<noteq> [] \<longrightarrow>
         (\<exists>t' u'. artifact_directory env w temp_dir request_name t' = (Inr d, u'))) \<and>
       list_all2 (acceptable (rw_crypto env)) (resp_artifacts r) contents \<and>
       sum_list (map length contents) \<le> MAX_ARTIFACT_BYTES \<and>
       prefix (filter is_wrote out)
         (map2 (\<lambda>a bs. Wrote (d @ [Normal (file_name_of a)]) bs) (resp_artifacts r) contents) \<and>
       (is_ok result \<longrightarrow> length (filter is_wrote out) = length (resp_artifacts r) \<and>
          resp_status r = Completed \<and> resp_exit_code r \<in> {None, Some 0}))"
proof -
  obtain files t1 where c: "checked_response env w temp_dir request_name r t = (Inr files, t1)"
    using assms by (cases "checked_response env w temp_dir request_name r t")
      (auto simp: emit_response_def split: sum.splits)
  obtain d contents where d: "resp_artifacts r \<noteq> [] \<longrightarrow>
      (\<exists>t' u'. artifact_directory env w temp_dir request_name t' = (Inr d, u'))"
    and l: "length (resp_stdout r) \<le> MAX_STDOUT_BYTES"
    "length (resp_stderr r) \<le> MAX_STDERR_BYTES" "length (resp_artifacts r) \<le> MAX_ARTIFACT_COUNT"
    and acc: "list_all2 (acceptable (rw_crypto env)) (resp_artifacts r) contents"
    and total: "sum_list (map length contents) \<le> MAX_ARTIFACT_BYTES"
    and files: "files = map2 (\<lambda>a bs. (d @ [Normal (file_name_of a)], bs)) (resp_artifacts r) contents"
    using c by (rule checked_response_Inr)
  obtain wr u1 wout where w: "write_artifacts w files t1 = (wr, u1, wout)"
    by (cases "write_artifacts w files t1") auto
  note pre = write_artifacts_prefix [OF w]
  have "\<forall>e \<in> set wout. is_wrote e"
    using set_mono_prefix [OF conjunct1 [OF pre]] by (fastforce simp: is_wrote_def)
  then have all: "filter is_wrote wout = wout" by simp
  have "(filter is_wrote out = wout \<and> (is_ok result \<longrightarrow> is_ok wr \<and> response_result r = Inr ()))
     \<or> (out = [] \<and> \<not> is_ok result)"
    using assms(1) all by (auto simp: emit_response_def c w is_wrote_def Let_def is_ok_iff
        split: if_splits sum.splits)
  with assms(2) have out: "filter is_wrote out = wout"
    "is_ok result \<Longrightarrow> is_ok wr \<and> response_result r = Inr ()" by auto
  have "map (\<lambda>(p, bs). Wrote p bs) files =
      map2 (\<lambda>a bs. Wrote (d @ [Normal (file_name_of a)]) bs) (resp_artifacts r) contents"
    by (simp add: files split_def)
  moreover have "length files = length (resp_artifacts r)"
    using list_all2_lengthD [OF acc] by (simp add: files)
  ultimately have "prefix (filter is_wrote out)
      (map2 (\<lambda>a bs. Wrote (d @ [Normal (file_name_of a)]) bs) (resp_artifacts r) contents) \<and>
    (is_ok result \<longrightarrow> length (filter is_wrote out) = length (resp_artifacts r) \<and>
       resp_status r = Completed \<and> resp_exit_code r \<in> {None, Some 0})"
    using pre out by (auto simp: response_result_def split: if_splits option.splits)
  with l acc total d show ?thesis by blast
qed

section \<open>A sample collection\<close>

text \<open>A private directory with one PNG image of one by two pixels.\<close>

definition sample_png :: bytes where
  "sample_png = PNG_SIGNATURE @ replicate 8 0 @ [0, 0, 0, 1, 0, 0, 0, 2]"

definition gallery_path :: path where "gallery_path = [RootDir, Normal ''g'']"

definition image_path :: path where "image_path = gallery_path @ [Normal ''a.png'']"

definition private_meta :: "bool \<Rightarrow> file_meta" where
  "private_meta dir = \<lparr>fm_symlink = False, fm_file = \<not> dir, fm_dir = dir, fm_uid = 7, fm_nlink = 1,
     fm_mode = 0x1C0, fm_len = 24, fm_dev = 1, fm_ino = 2\<rparr>"

definition gallery_world :: world where
  "gallery_world = small_world\<lparr>
     w_lstat := (\<lambda>t p. Inr (private_meta (p \<noteq> image_path))),
     w_canonicalize := (\<lambda>t p. Inr p),
     w_open := (\<lambda>t p f. Inr 1),
     w_fstat := (\<lambda>t h. Inr (private_meta False)),
     w_read := (\<lambda>t h. Inr sample_png),
     w_read_dir := (\<lambda>t p. if p = gallery_path then Inr [Inr image_path] else Inr []),
     w_euid := 7\<rparr>"

definition sample_artifact :: artifact where
  "sample_artifact = \<lparr>af_path = image_path, af_descriptor = \<lparr>ad_artifact_id = ''i'',
     ad_media_type = ''image/png'', ad_size_bytes = 24, ad_width = 1, ad_height = 2,
     ad_content_b64 = encode_b64url plain_crypto sample_png\<rparr>\<rparr>"

lemma sample_dimensions: "dimensions sample_png = Some (Some (''image/png'', 1, 2))"
  by (simp add: dimensions_def sample_png_def PNG_SIGNATURE_def starts_with_def be_u32_at_def
      byte_slice_def be_number_def)

lemma image_candidate: "is_candidate image_path"
proof -
  have "extension image_path = Some ''png''"
    by (simp add: image_path_def gallery_path_def extension_def file_name_def Let_def)
  moreover have "valid_utf8 ''png''" by code_simp
  ultimately show ?thesis by (simp add: is_candidate_def to_ascii_lowercase_def)
qed

lemma image_beneath: "path_starts_with image_path gallery_path" "image_path \<noteq> gallery_path"
  by (simp_all add: image_path_def path_starts_with_def)

lemma private_meta_fields [simp]:
  "fm_symlink (private_meta d) = False" "fm_file (private_meta d) = (\<not> d)" "fm_dir (private_meta d) = d"
  "fm_uid (private_meta d) = 7" "fm_nlink (private_meta d) = 1" "fm_len (private_meta d) = 24"
  "mode_bits (private_meta d) 0x3F = 0"
  by (simp_all add: private_meta_def mode_bits_def)

lemma gallery_world_fields [simp]:
  "w_lstat gallery_world t p = Inr (private_meta (p \<noteq> image_path))" "w_canonicalize gallery_world t p = Inr p"
  "w_open gallery_world t p f = Inr 1" "w_fstat gallery_world t h = Inr (private_meta False)"
  "w_read gallery_world t h = Inr sample_png" "w_euid gallery_world = 7"
  "w_read_dir gallery_world t p = (if p = gallery_path then Inr [Inr image_path] else Inr [])"
  by (simp_all add: gallery_world_def)

lemma sample_root:
  "artifact_root gallery_world gallery_path default_artifact_limits t
     = (Inr gallery_path, Suc (Suc t))"
  using image_beneath(2)
  by (simp add: artifact_root_def bind_a_def check_def ret_def sys_def lift_r_def
      validate_private_directory_def gallery_path_def is_absolute_def limits_valid_def
      default_artifact_limits_def MAX_ARTIFACT_BYTES_def MAX_ARTIFACT_PIXELS_def)

lemma sample_walk:
  "collect_paths (Suc d) gallery_world gallery_path gallery_path [] t
     = Some (Inr [image_path], Suc (Suc (Suc t)))"
  using image_candidate image_beneath
  by (simp add: walk_then_def walk_act_def sys_def collect_meta_def collect_file_def bind_a_def lift_r_def
      check_def ret_def)

lemma sample_collection:
  "collect_artifacts 1 plain_crypto gallery_world (\<lambda>_. ''i'') gallery_path default_artifact_limits 0
     = Some (Inr [sample_artifact], 9)"
proof -
  have "length sample_png = 24" by (simp add: sample_png_def PNG_SIGNATURE_def)
  moreover have "\<not> pixels 1 2 > MAX_ARTIFACT_PIXELS"
    by (simp add: pixels_def sat_mul_def MAX_ARTIFACT_PIXELS_def)
  ultimately have "collect_one plain_crypto gallery_world default_artifact_limits (\<lambda>_. ''i'') image_path
      \<lparr>co_artifacts = [], co_total = 0, co_identities = []\<rparr> t
    = (Inr \<lparr>co_artifacts = [sample_artifact], co_total = 24,
        co_identities = [file_identity (private_meta False)]\<rparr>, t + 4)" for t
    by (simp add: collect_one_def bind_a_def check_def ret_def sys_def lift_r_def read_bounded_artifact_def
        validate_regular_artifact_def read_dimensions_def sample_dimensions default_artifact_limits_def
        MAX_ARTIFACT_BYTES_def with_artifact_def sample_artifact_def Let_def)
  then show ?thesis
    by (simp add: collect_artifacts_def walk_then_def walk_act_def sample_root
        sample_walk [of 0] bind_a_def ret_def del: collect_paths.simps)
qed

theorem collection_within_limits_witness:
  "\<exists>contents. list_all2 (collected_from plain_crypto default_artifact_limits) [sample_artifact] contents \<and>
     sum_list (map length contents) \<le> MAX_ARTIFACT_BYTES"
  using collection_within_limits [OF sample_collection] by (simp add: default_artifact_limits_def)

text \<open>Every entry of the gallery is longer than its directory, and no directory is nested.\<close>

lemma gallery_nests: "nests_below gallery_world (\<lambda>p. if p = gallery_path then 1 else 0)"
  using image_beneath(2) by (simp add: nests_below_def)

theorem collection_terminates_witness:
  "collect_artifacts 2 plain_crypto gallery_world (\<lambda>_. ''i'') gallery_path default_artifact_limits 5 \<noteq> None"
  by (rule collection_terminates [OF gallery_nests]) (simp add: sample_root)

lemma sample_id_ok: "artifact_id_ok ''i''"
  by (simp add: artifact_id_ok_def is_ascii_alphanumeric_def is_ascii_alpha_def)


text \<open>A wrapper whose artifacts go to \<open>/g\<close>.\<close>

definition output_env :: "wrapper_env \<Rightarrow> wrapper_env" where
  "output_env env = env\<lparr>rw_crypto := plain_crypto,
     rw_var := (\<lambda>n. if n = ''EGO_BROWSER_ARTIFACT_DIR'' then Some ''/g'' else None)\<rparr>"

definition wrapper_gallery :: wrapper_world where
  "wrapper_gallery = world.extend gallery_world
     \<lparr>ww_mkdir = (\<lambda>t p. Inr ()), ww_remove = (\<lambda>t p. Inr ()), ww_modified = (\<lambda>t p. 0), ww_now = 0\<rparr>"

definition image_response :: inner_execute_response where
  "image_response = \<lparr>resp_protocol = INNER_PROTOCOL_VERSION,
     resp_message_type = inner_message_type.ExecuteResult, resp_request_id = ''r-1'', resp_sequence = 1,
     resp_status = Completed, resp_exit_code = Some 0, resp_stdout = ''hi'', resp_stderr = [],
     resp_artifacts = [af_descriptor sample_artifact], resp_duration_ms = 1\<rparr>"

lemma sample_output:
  "\<exists>u bs. emit_response (output_env env) wrapper_gallery [] [] True image_response 0 =
     (Inr (), u, [ToStdout ''hi'', Wrote (gallery_path @ [Normal (file_name_of (af_descriptor sample_artifact))]) bs])"
proof -
  have acc: "acceptable plain_crypto (af_descriptor sample_artifact) sample_png"
    using sample_dimensions sample_id_ok byte_codec_ok
    by (simp add: acceptable_def describes_def sample_artifact_def sample_png_def PNG_SIGNATURE_def
        decode_b64url_def encode_b64url_def plain_crypto_def b64_ok_def MAX_ARTIFACT_BYTES_def
        MAX_ARTIFACT_PIXELS_def)
  have files: "check_artifacts plain_crypto (Some gallery_path) [af_descriptor sample_artifact] 0 =
      Inr [(gallery_path @ [Normal (file_name_of (af_descriptor sample_artifact))], sample_png)]"
    unfolding check_artifacts_Inr using acc
    by (intro exI [of _ "[sample_png]"]) (simp add: sample_png_def PNG_SIGNATURE_def MAX_ARTIFACT_BYTES_def)
  have w: "w_lstat wrapper_gallery t p = Inr (private_meta (p \<noteq> image_path))"
    "w_canonicalize wrapper_gallery t p = Inr p" "w_open wrapper_gallery t p f = Inr 1"
    "w_fstat wrapper_gallery t h = Inr (private_meta False)" "w_write wrapper_gallery t h c = Inr ()"
    "w_euid wrapper_gallery = 7" for t p f h c
    by (simp_all add: wrapper_gallery_def world.defs small_world_def gallery_world_def)
  have g: "path_of ''/g'' = gallery_path" by (simp add: path_of_def gallery_path_def)
  have no_link: "\<exists>u. validate_path_components wrapper_gallery gallery_path t = (Inr (), u)" for t
    using image_beneath(2)
    by (simp add: validate_path_components_def gallery_path_def bind_a_def check_def ret_def try_sys_def w
        upt_rec)
  have dir: "\<exists>u. artifact_directory (output_env env) wrapper_gallery [] [] t = (Inr gallery_path, u)" for t
  proof -
    obtain u where "validate_path_components wrapper_gallery gallery_path t = (Inr (), u)" using no_link by blast
    moreover have "is_absolute gallery_path" by (simp add: gallery_path_def is_absolute_def)
    ultimately show ?thesis
      using image_beneath(2)
      by (simp add: artifact_directory_def output_env_def g bind_a_def check_def ret_def try_sys_def sys_def
          lift_r_def w validate_owner_only_directory_def)
  qed
  obtain u where "artifact_directory (output_env env) wrapper_gallery [] [] 0 = (Inr gallery_path, u)"
    using dir by blast
  then have "checked_response (output_env env) wrapper_gallery [] [] image_response 0
      = (Inr [(gallery_path @ [Normal (file_name_of (af_descriptor sample_artifact))], sample_png)], u)"
    using files
    by (simp add: checked_response_def image_response_def bind_a_def check_def ret_def lift_r_def
        MAX_STDOUT_BYTES_def MAX_STDERR_BYTES_def MAX_ARTIFACT_COUNT_def output_env_def)
  moreover have "\<exists>u'. write_artifact wrapper_gallery p sample_png t = (Inr (), u')" for p t
    by (simp add: write_artifact_def bind_a_def sys_def check_def ret_def w)
  ultimately show ?thesis
    by (simp add: emit_response_def image_response_def response_result_def Let_def split: prod.splits sum.splits)
      (metis Pair_inject Inl_not_Inr)
qed

theorem output_only_when_checked_witness:
  "\<exists>env u out. emit_response (output_env env) wrapper_gallery [] [] True image_response 0 = (Inr (), u, out) \<and>
     length (filter is_wrote out) = 1"
proof -
  obtain u out where run: "emit_response (output_env undefined) wrapper_gallery [] [] True image_response 0 =
     (Inr (), u, out)" using sample_output by blast
  have "length (filter is_wrote out) = length (resp_artifacts image_response)"
    using output_only_when_checked [OF run] by auto
  moreover have "length (resp_artifacts image_response) = 1" by (simp add: image_response_def)
  ultimately show ?thesis using run by auto
qed

end
