(* ===== verification/Wrapper_Samples.thy ===== *)
theory Wrapper_Samples
  imports Wrapper_Artifacts Supervisor_Samples
begin

text \<open>
  A concrete wrapper on which its properties are evaluated: the request of the sample supervisor, its
  permit under a key of 32 bytes, and the envelope that the wrapper seals for it.
\<close>

definition sample_key :: bytes where "sample_key = replicate 32 5"

definition permit_supervisor :: supervisor where
  "permit_supervisor = sample_supervisor\<lparr>sv_next_sequence := 1,
     sv_issued := [1 \<mapsto> \<lparr>ip_permit = sample_permit, ip_key = sample_key\<rparr>]\<rparr>"

definition sample_wrapper_env :: wrapper_env where
  "sample_wrapper_env = \<lparr>rw_crypto = plain_crypto, rw_json = be_json sample_env, rw_wire = (\<lambda>e. Some 400),
     rw_permit_response = (\<lambda>_. Inl []), rw_broker_response = (\<lambda>_. Inl []), rw_execute_error = (\<lambda>_. Inl []),
     rw_envelope = (\<lambda>_. Inl []), rw_response = (\<lambda>_. Inl []), rw_envelope_json = (\<lambda>_. JNull),
     rw_request_json = (\<lambda>r. JString (ier_script r)), rw_var = (\<lambda>_. None), rw_now = 1000,
     rw_nonce = replicate 12 9\<rparr>"

definition sample_wrapper_request :: wrapper_request where
  "sample_wrapper_request = \<lparr>wq_script = as_bytes ''page.title()'', wq_nonce = ''n'', wq_timeout_ms = 1000,
     wq_cwd_label = ''work'', wq_scope = permit_scope sample_permit\<rparr>"

definition sample_permit_response :: permit_response where
  "sample_permit_response = \<lparr>pr_protocol = PROTOCOL_VERSION, pr_message_type = ''permit_response'',
     pr_status = ''ok'', pr_permit = Some sample_permit,
     pr_session_key = Some (encode_b64url plain_crypto sample_key),
     pr_capability = Some (supervisor_capability run_env permit_supervisor), pr_error = None\<rparr>"

lemma sample_permit_issued:
  "issue_permit sample_supervisor sample_permit_request 1000 1000000 ''r-1'' sample_key =
     (permit_supervisor, Inr (sample_key, sample_permit))"
  by (simp add: sample_issue_key permit_supervisor_def)

lemma sample_version: "be_version run_env = ''0.1.13''"
  by (simp add: run_env_def sample_env_def)

lemma sample_wrapper_fields:
  "rw_crypto sample_wrapper_env = plain_crypto" "rw_now sample_wrapper_env = 1000"
  "length (wq_script sample_wrapper_request) = 12" "wq_scope sample_wrapper_request = permit_scope sample_permit"
  by (simp_all add: sample_wrapper_env_def sample_wrapper_request_def as_bytes_def)

lemma permit_capability:
  "supervisor_capability run_env permit_supervisor = config_capability ''0.1.13'' sample_config"
  by (simp add: supervisor_capability_def permit_supervisor_def sample_supervisor_def run_env_def
      sample_env_def)

lemma sample_permit_accepted:
  "accept_permit sample_wrapper_env sample_wrapper_request sample_permit_response =
     Inr (sample_permit, supervisor_capability run_env permit_supervisor, sample_key)"
proof -
  have "session_key sample_wrapper_env (encode_b64url plain_crypto sample_key) = Inr sample_key"
    using byte_codec_ok
    by (simp add: session_key_def sample_wrapper_env_def decode_b64url_def encode_b64url_def
        plain_crypto_def b64_ok_def sample_key_def)
  moreover have "permit_validate sample_permit (supervisor_capability run_env permit_supervisor) 1000 12
      = Inr ()"
    unfolding permit_capability by (rule sample_permit_valid) (simp_all add: MAX_SCRIPT_BYTES_def)
  ultimately show ?thesis
    using sample_capability permit_capability
    by (simp add: accept_permit_def validate_permit_response_def sample_permit_response_def
        sample_wrapper_fields permit_scope_matches_def permit_scope_def)
qed

lemma sample_inner_request:
  "inner_request_from_permit (wq_script sample_wrapper_request) (wq_timeout_ms sample_wrapper_request)
     (wq_cwd_label sample_wrapper_request) sample_permit = Inr sample_request"
proof -
  have "map (char_of \<circ> unat) (as_bytes s) = (s :: string)" for s
    by (simp add: as_bytes_def comp_def unat_of_char_u8)
  moreover have "valid_utf8 ''page.title()''" by code_simp
  ultimately show ?thesis
    by (simp add: inner_request_from_permit_def sample_wrapper_request_def sample_permit_def
        sample_request_def)
qed

lemma plain_seal: "seal plain_crypto key n m aad = Inr (n, m, replicate 16 0)"
  by (simp add: seal_def plain_crypto_def)

lemma sample_request_sealed:
  "\<exists>e. seal_request sample_wrapper_env sample_wrapper_request sample_permit
     (supervisor_capability run_env permit_supervisor) sample_key = Inr e"
proof -
  define m where "m = canonical_json (jc_to_vec (rw_json sample_wrapper_env))
    (rw_request_json sample_wrapper_env sample_request)"
  have m: "m \<noteq> []" "length m \<le> MAX_FRAME_BYTES"
    by (simp_all add: m_def canonical_json_def sample_wrapper_env_def sample_env_def sample_request_def
        tagged_string_def as_bytes_def MAX_FRAME_BYTES_def)
  define e where "e = (request_envelope sample_permit (length m))
    \<lparr>oe_payload_bytes := length m, oe_nonce := encode_b64url plain_crypto (replicate 12 9),
     oe_ciphertext := encode_b64url plain_crypto m, oe_auth_tag := encode_b64url plain_crypto (replicate 16 0)\<rparr>"
  have dec: "decode_b64 byte_codec (encode_b64url plain_crypto bs) = Some bs" for bs
    using decode_b64_encode [OF byte_codec_ok] by (simp add: encode_b64url_def plain_crypto_def)
  have "execute_validate sample_request (supervisor_capability run_env permit_supervisor) = Inr ()"
    unfolding permit_capability using sample_request_ok by (simp add: request_ok_def sample_version)
  moreover have env: "cr_b64 plain_crypto = byte_codec" "rw_wire sample_wrapper_env e = Some 400"
    "rw_nonce sample_wrapper_env = replicate 12 9" "rw_crypto sample_wrapper_env = plain_crypto"
    by (simp_all add: sample_wrapper_env_def plain_crypto_def)
  have e: "oe_protocol e = PROTOCOL_VERSION" "oe_channel e = ''ego_browser_bridge''"
    "oe_relay_binding_kind e = ''ego_browser''" "oe_message_type e = outer_message_type.Execute"
    "oe_request_id e = ''r-1''" "oe_binding_id e = ''b-1''" "oe_generation e = 2" "oe_sequence e = 1"
    "oe_direction e = Request" "oe_payload_bytes e = length m" "oe_key_wrap e = []"
    "decode_b64 byte_codec (oe_ciphertext e) = Some m"
    "decode_b64 byte_codec (oe_nonce e) = Some (replicate 12 9)"
    "decode_b64 byte_codec (oe_auth_tag e) = Some (replicate 16 0)"
    by (simp_all add: e_def request_envelope_def sample_permit_def dec)
  have "envelope_validate (rw_b64 sample_wrapper_env) (rw_wire sample_wrapper_env) e MAX_FRAME_BYTES
      = Inr ()"
    unfolding envelope_validate_def env e using m
    by (simp add: valid_text_id_def printable_def decode_b64_Nil [OF byte_codec_ok] MAX_FRAME_BYTES_def)
  ultimately show ?thesis
    by (simp add: seal_request_def sample_inner_request Let_def m_def [symmetric] env plain_seal
        e_def [symmetric])
qed

end
