(* ===== verification/Wrapper_Properties.thy ===== *)
theory Wrapper_Properties
  imports Wrapper_Samples
begin

text \<open>
  The wrapper and the bridge together: a request that the wrapper seals under the permit it accepted is
  admitted by the supervisor that issued the permit, a response that the supervisor seals is what the
  wrapper decodes, and the wrapper takes nothing else for the response.
\<close>

section \<open>The sealed request\<close>

text \<open>Both sides are built on the same protocol crate.\<close>

definition same_protocol :: "wrapper_env \<Rightarrow> bridge_env \<Rightarrow> bool" where
  "same_protocol env b \<longleftrightarrow> be_crypto b = rw_crypto env \<and> be_json b = rw_json env \<and> be_wire b = rw_wire env"

definition request_plaintext :: "wrapper_env \<Rightarrow> inner_execute_request \<Rightarrow> bytes" where
  "request_plaintext env inner = canonical_json (jc_to_vec (rw_json env)) (rw_request_json env inner)"

lemma seal_request_Inr:
  assumes "crypto_ok (rw_crypto env)" "seal_request env q p c key = Inr e"
  obtains inner ct tag where
    "inner_request_from_permit (wq_script q) (wq_timeout_ms q) (wq_cwd_label q) p = Inr inner"
    "execute_validate inner c = Inr ()"
    "envelope_validate (rw_b64 env) (rw_wire env) e MAX_FRAME_BYTES = Inr ()"
    "seal (rw_crypto env) key (rw_nonce env) (request_plaintext env inner)
       (aad_for_outer (jc_to_vec (rw_json env)) e) = Inr (rw_nonce env, ct, tag)"
    "e = (request_envelope p (length ct))\<lparr>oe_nonce := encode_b64url (rw_crypto env) (rw_nonce env),
       oe_ciphertext := encode_b64url (rw_crypto env) ct, oe_auth_tag := encode_b64url (rw_crypto env) tag\<rparr>"
proof -
  obtain inner n ct tag where
    i: "inner_request_from_permit (wq_script q) (wq_timeout_ms q) (wq_cwd_label q) p = Inr inner"
      "execute_validate inner c = Inr ()"
    and s: "seal (rw_crypto env) key (rw_nonce env) (request_plaintext env inner)
       (aad_for_outer (jc_to_vec (rw_json env)) (request_envelope p (length (request_plaintext env inner))))
         = Inr (n, ct, tag)"
    and e: "e = (request_envelope p (length (request_plaintext env inner)))
         \<lparr>oe_payload_bytes := length ct, oe_nonce := encode_b64url (rw_crypto env) n,
          oe_ciphertext := encode_b64url (rw_crypto env) ct, oe_auth_tag := encode_b64url (rw_crypto env) tag\<rparr>"
    and v: "envelope_validate (rw_b64 env) (rw_wire env) e MAX_FRAME_BYTES = Inr ()"
    using assms(2) unfolding seal_request_def Let_def request_plaintext_def
    by (auto simp: bind_r_Inr_iff split: prod.splits)
  have l: "n = rw_nonce env" "length ct = length (request_plaintext env inner)"
    using chan.seal_lengths [OF assms(1) s] by simp_all
  have "aad_for_outer (jc_to_vec (rw_json env)) e
      = aad_for_outer (jc_to_vec (rw_json env)) (request_envelope p (length (request_plaintext env inner)))"
    by (rule aad_for_outer_cong) (simp_all add: e request_envelope_def l(2))
  with i s v l e show thesis by (intro that [of inner ct tag]) (simp_all add: request_envelope_def)
qed

lemma sealed_request_opens:
  assumes "crypto_ok (rw_crypto env)" "length (rw_nonce env) = 12" "same_protocol env b"
    and "seal_request env q p c key = Inr e"
  obtains inner where
    "inner_request_from_permit (wq_script q) (wq_timeout_ms q) (wq_cwd_label q) p = Inr inner"
    "execute_validate inner c = Inr ()" "envelope_valid b e = Inr ()"
    "oe_message_type e = outer_message_type.Execute" "oe_direction e = Request"
    "oe_request_id e = rp_request_id p" "oe_binding_id e = rp_binding_id p"
    "oe_generation e = rp_generation p" "oe_sequence e = rp_sequence p"
    "oe_payload_bytes e \<le> MAX_FRAME_BYTES"
    "open_payload b key e = Inr (request_plaintext env inner)"
proof -
  obtain inner ct tag where
    i: "inner_request_from_permit (wq_script q) (wq_timeout_ms q) (wq_cwd_label q) p = Inr inner"
      "execute_validate inner c = Inr ()"
    and v: "envelope_validate (rw_b64 env) (rw_wire env) e MAX_FRAME_BYTES = Inr ()"
    and s: "seal (rw_crypto env) key (rw_nonce env) (request_plaintext env inner)
       (aad_for_outer (jc_to_vec (rw_json env)) e) = Inr (rw_nonce env, ct, tag)"
    and e: "e = (request_envelope p (length ct))\<lparr>oe_nonce := encode_b64url (rw_crypto env) (rw_nonce env),
       oe_ciphertext := encode_b64url (rw_crypto env) ct, oe_auth_tag := encode_b64url (rw_crypto env) tag\<rparr>"
    by (rule seal_request_Inr [OF assms(1,4)])
  have b64: "b64_ok (rw_b64 env)" using assms(1) by (simp add: crypto_ok_def)
  have dec: "decode_b64 (rw_b64 env) (encode_b64url (rw_crypto env) bs) = Some bs" for bs
    using decode_b64_encode [OF b64] by (simp add: encode_b64url_def)
  have payload: "decoded_payload (rw_b64 env) e = Inr (ct, rw_nonce env, tag)"
    by (simp add: decoded_payload_def e request_envelope_def dec)
  have "open_payload b key e = Inr (request_plaintext env inner)"
    using chan.seal_open [OF assms(1,2) s] payload assms(3)
    by (simp add: open_payload_def Let_def same_protocol_def)
  moreover have "envelope_valid b e = Inr ()"
    using v assms(3) by (simp add: envelope_valid_def same_protocol_def)
  moreover have "oe_payload_bytes e \<le> MAX_FRAME_BYTES" using envelope_validateD(8) [OF v] by auto
  ultimately show thesis
    using i by (intro that [of inner]) (simp_all add: e request_envelope_def)
qed

lemma inner_request_from_permit_Inr:
  assumes "inner_request_from_permit script timeout label p = Inr inner"
  shows "ier_script inner = map (char_of \<circ> unat) script" "ier_timeout_ms inner = timeout"
    "ier_cwd_label inner = label" "ier_default_task_space inner = rp_default_task_space p"
    "ier_concurrency_mode inner = rp_concurrency_mode p"
    "ier_task_space_scope inner = rp_task_space_scope p" "ier_tab_scope inner = rp_tab_scope p"
  using assms by (auto simp: inner_request_from_permit_def Let_def split: if_splits)

lemma accept_permit_Inr:
  assumes "accept_permit env q r = Inr (p, c, key)"
  shows "permit_validate p c (rw_now env) (length (wq_script q)) = Inr ()"
    "permit_scope p = wq_scope q" "length key = 32" "capability_validate c = Inr ()"
    "pr_permit r = Some p" "pr_capability r = Some c"
    "pr_session_key r = Some (encode_b64url (rw_crypto env) key)"
  using assms
  by (auto simp: accept_permit_def session_key_def bind_r_Inr_iff permit_scope_matches_def permit_scope_def
      split: if_splits)

lemma permit_validate_later:
  assumes "permit_validate p c now n = Inr ()" "later < rp_expires_at_unix_ms p"
  shows "permit_validate p c later n = Inr ()"
  using assms by (auto simp: permit_validate_def Let_def not_le split: if_splits)

section \<open>Admission of the wrapper's request\<close>

text \<open>C35: c34: 
  The two ends fit together: take a permit that a supervisor issued, a wrapper that accepted it with the
  supervisor's capability and session key, and the envelope that the wrapper then sealed.  While the
  permit has not expired, the binding is neither revoked nor cancelled and the scheduler has room for
  the scope, the supervisor admits the envelope, and what it runs is the script of the wrapper with its
  timeout and label, under the scope that the wrapper asked for.  The reader of requests gives back what
  the serializer wrote.\<close>

theorem wrapper_request_admitted:
  assumes "issue_permit sv0 request now_s now_ms rid key = (sv, Inr (key, p))"
    and "accept_permit env q r = Inr (p, supervisor_capability b sv, key)"
    and "seal_request env q p (supervisor_capability b sv) key = Inr e"
    and "crypto_ok (rw_crypto env)" and "length (rw_nonce env) = 12" and "same_protocol env b"
    and "\<And>inner. inner_request_from_permit (wq_script q) (wq_timeout_ms q) (wq_cwd_label q) p = Inr inner \<Longrightarrow>
      parse_strict_json (be_json b) (be_request b) (request_plaintext env inner) = Inr inner"
    and "\<not> ls_revoked (sv_lease sv)"
    and "now < rp_expires_at_unix_ms p" and "later < rp_expires_at_unix_ms p"
    and "sch_try (sv_scheduler sv) (rp_generation p, rp_request_id p, wq_scope q) \<noteq> None"
  shows "\<exists>sv' ex. execute_admit b sv e key now False later = (sv', Inr ex) \<and>
    ier_script (ex_request ex) = map (char_of \<circ> unat) (wq_script q) \<and>
    ier_timeout_ms (ex_request ex) = wq_timeout_ms q \<and> ier_cwd_label (ex_request ex) = wq_cwd_label q \<and>
    request_scope_of (ex_request ex) = wq_scope q"
proof -
  obtain inner where
    i: "inner_request_from_permit (wq_script q) (wq_timeout_ms q) (wq_cwd_label q) p = Inr inner"
    and v: "execute_validate inner (supervisor_capability b sv) = Inr ()" "envelope_valid b e = Inr ()"
    and e: "oe_message_type e = outer_message_type.Execute" "oe_direction e = Request"
      "oe_request_id e = rp_request_id p" "oe_binding_id e = rp_binding_id p"
      "oe_generation e = rp_generation p" "oe_sequence e = rp_sequence p"
      "oe_payload_bytes e \<le> MAX_FRAME_BYTES"
    and o: "open_payload b key e = Inr (request_plaintext env inner)"
    by (rule sealed_request_opens [OF assms(4,5,6,3)])
  note issued = issue_permit_Inr [OF assms(1)]
  note inner = inner_request_from_permit_Inr [OF i]
  note accepted = accept_permit_Inr [OF assms(2)]
  have scope: "request_scope_of inner = wq_scope q"
  proof -
    have "scope_normal (permit_scope p)" by (rule permit_validate_scope(1) [OF accepted(1)])
    then have "scope_normalized (Some (rp_concurrency_mode p)) (rp_task_space_scope p) (rp_tab_scope p)
        = permit_scope p"
      using accepted(1) by (auto simp: permit_validate_def Let_def permit_scope_def split: if_splits)
    then show ?thesis using inner accepted(2) by (simp add: request_scope_of_def)
  qed
  have guard: "execute_guard b sv e = Inr ()"
    using v(2) e issued(2,6,8) assms(8) by (simp add: execute_guard_def)
  let ?i = "\<lparr>ip_permit = p, ip_key = key\<rparr>"
  let ?removed = "sv\<lparr>sv_issued := (sv_issued sv)(oe_sequence e := None)\<rparr>"
  have "sv_issued sv (oe_sequence e) = Some ?i" using issued(6,7) e(6) by simp
  then have taken: "take_permit sv e key now = (?removed, Inr ?i)"
    using e issued(12) assms(9) by (simp add: take_permit_def Let_def MAX_FRAME_BYTES_def not_le)
  let ?consumed = "?removed\<lparr>sv_consumed := insert (oe_sequence e) (sv_consumed sv)\<rparr>"
  have cap: "supervisor_capability b ?consumed = supervisor_capability b sv"
    by (simp add: supervisor_capability_def)
  have p_ok: "permit_validate p (supervisor_capability b sv) later (length (ier_script inner)) = Inr ()"
    using permit_validate_later [OF accepted(1) assms(10)] inner(1) by simp
  then have script: "length (ier_script inner) \<le> MAX_SCRIPT_BYTES"
    using issued(13) by (auto simp: permit_validate_def split: if_splits)
  have dts: "rp_default_task_space p = bc_default_task_space (sv_config sv)" using issued(6,14) by simp
  have fit: "ier_concurrency_mode inner = rp_concurrency_mode p"
    "rs_task_space (wq_scope q) = rp_task_space_scope p" "rs_tab (wq_scope q) = rp_tab_scope p"
    using inner(5) accepted(2) [symmetric] by (simp_all add: permit_scope_def)
  have decoded: "decode_local b ?consumed e key p later = Inr (inner, wq_scope q)"
    using o assms(7) [OF i] v(1) p_ok script issued(13) dts inner(4)
    by (simp add: decode_local_def cap scope fit Let_def)
  obtain sch g where granted: "try_acquire (sv_scheduler sv) (oe_generation e) (oe_request_id e) (wq_scope q)
      = Inr (sch, g)"
    using assms(11) by (auto simp: sch_try_def e split: sum.splits)
  have "\<not> sv_cancelled sv" using issued(2,6) by simp
  with guard taken decoded granted
  have "\<exists>sv'. execute_admit b sv e key now False later = (sv', Inr \<lparr>ex_request = inner, ex_envelope = e,
      ex_key = key, ex_guard = g, ex_remote = False\<rparr>)"
    by (simp add: execute_admit_def Let_def)
  with inner scope show ?thesis by auto
qed

theorem wrapper_request_admitted_witness:
  "\<exists>e sv ex. seal_request sample_wrapper_env sample_wrapper_request sample_permit
       (supervisor_capability run_env permit_supervisor) sample_key = Inr e \<and>
     execute_admit run_env permit_supervisor e sample_key 1000 False 1000 = (sv, Inr ex) \<and>
     ier_script (ex_request ex) = map (char_of \<circ> unat) (as_bytes ''page.title()'')"
proof -
  obtain e where e: "seal_request sample_wrapper_env sample_wrapper_request sample_permit
     (supervisor_capability run_env permit_supervisor) sample_key = Inr e"
    using sample_request_sealed by blast
  have "same_protocol sample_wrapper_env run_env"
    by (simp add: same_protocol_def sample_wrapper_env_def run_env_def sample_env_def)
  moreover have "crypto_ok (rw_crypto sample_wrapper_env)" "length (rw_nonce sample_wrapper_env) = 12"
    using plain_crypto_ok by (simp_all add: sample_wrapper_env_def)
  moreover have "parse_strict_json (be_json run_env) (be_request run_env) bs = Inr sample_request" for bs
    by (simp add: parse_strict_json_def run_env_def sample_env_def)
  moreover have "\<not> ls_revoked (sv_lease permit_supervisor)"
    by (simp add: permit_supervisor_def sample_supervisor_def lease_new_def)
  moreover have "sch_try (sv_scheduler permit_supervisor) (rp_generation sample_permit,
      rp_request_id sample_permit, wq_scope sample_wrapper_request) \<noteq> None"
    by (simp add: sch_try_def permit_supervisor_def sample_supervisor_def sample_wrapper_fields
        permit_scope_def sample_permit_def try_acquire_def lock_keys_def Let_def)
  moreover have "1000 < rp_expires_at_unix_ms sample_permit" by (simp add: sample_permit_def)
  ultimately obtain sv ex where "execute_admit run_env permit_supervisor e sample_key 1000 False 1000 = (sv, Inr ex)"
    "ier_script (ex_request ex) = map (char_of \<circ> unat) (wq_script sample_wrapper_request)"
    using wrapper_request_admitted [OF sample_permit_issued sample_permit_accepted e] sample_inner_request
    by fastforce
  with e show ?thesis by (auto simp: sample_wrapper_request_def)
qed

section \<open>The response\<close>

lemma wrapper_decode_response_Inr:
  assumes "wrapper_decode_response env frame key p = Inr r"
  obtains e ct nonce tag plaintext where "parse_as env (rw_envelope env) frame = Inr e"
    "envelope_validate (rw_b64 env) (rw_wire env) e MAX_FRAME_BYTES = Inr ()"
    "oe_message_type e = outer_message_type.ExecuteResult" "oe_direction e = Response"
    "oe_binding_id e = rp_binding_id p" "oe_generation e = rp_generation p"
    "oe_request_id e = rp_request_id p" "oe_sequence e = rp_sequence p"
    "oe_payload_bytes e \<le> rp_max_payload_bytes p"
    "decoded_payload (rw_b64 env) e = Inr (ct, nonce, tag)"
    "open_sealed (rw_crypto env) key nonce ct tag (aad_for_outer (jc_to_vec (rw_json env)) e) = Inr plaintext"
    "parse_as env (rw_response env) plaintext = Inr r"
    "resp_request_id r = rp_request_id p" "resp_sequence r = rp_sequence p"
    "length (resp_stdout r) \<le> MAX_STDOUT_BYTES" "length (resp_stderr r) \<le> MAX_STDERR_BYTES"
  using assms
  by (auto simp: wrapper_decode_response_def response_envelope_def bind_r_Inr_iff answers_permit_def
      open_response_def check_inner_response_def not_less split: sum.splits if_splits prod.splits)

text \<open>C37: c36: 
  The wrapper takes nothing for the response but what was sealed under the session key of its permit:
  the frame is an envelope for the permit's binding, generation, request and sequence number, its
  ciphertext opens under the key with these as associated data, and the response inside names the same
  request and stays within the output limits.\<close>

theorem response_bound_to_permit:
  assumes "wrapper_decode_response env frame key p = Inr r"
  shows "resp_request_id r = rp_request_id p \<and> resp_sequence r = rp_sequence p \<and>
    length (resp_stdout r) \<le> MAX_STDOUT_BYTES \<and> length (resp_stderr r) \<le> MAX_STDERR_BYTES \<and>
    (\<exists>e ct nonce tag plaintext. parse_as env (rw_envelope env) frame = Inr e \<and>
       oe_direction e = Response \<and> oe_binding_id e = rp_binding_id p \<and>
       oe_generation e = rp_generation p \<and> oe_request_id e = rp_request_id p \<and>
       oe_sequence e = rp_sequence p \<and> oe_payload_bytes e \<le> rp_max_payload_bytes p \<and>
       decoded_payload (rw_b64 env) e = Inr (ct, nonce, tag) \<and>
       open_sealed (rw_crypto env) key nonce ct tag (aad_for_outer (jc_to_vec (rw_json env)) e)
         = Inr plaintext \<and>
       parse_as env (rw_response env) plaintext = Inr r)"
  using assms by (elim wrapper_decode_response_Inr) auto

text \<open>A reader for the response that the sample supervisor seals.\<close>

definition answered_env :: "outer_envelope \<Rightarrow> inner_execute_response \<Rightarrow> wrapper_env" where
  "answered_env r inner = sample_wrapper_env\<lparr>rw_envelope := (\<lambda>_. Inr r), rw_response := (\<lambda>_. Inr inner)\<rparr>"

definition sample_response :: inner_execute_response where
  "sample_response = status_response Timeout sample_envelope 7"

lemma response_decodes:
  assumes "crypto_ok (rw_crypto env)" and "same_protocol env b" and "length nonce = 12"
    and "envelope_valid b e = Inr ()" and "seal_response b key nonce inner e = Inr r"
    and "oe_binding_id e = rp_binding_id p" and "oe_generation e = rp_generation p"
    and "oe_request_id e = rp_request_id p" and "oe_sequence e = rp_sequence p"
    and "resp_protocol inner = INNER_PROTOCOL_VERSION"
    and "resp_message_type inner = inner_message_type.ExecuteResult"
    and "resp_request_id inner = oe_request_id e" and "resp_sequence inner = oe_sequence e"
    and "length (resp_stdout inner) \<le> MAX_STDOUT_BYTES" and "length (resp_stderr inner) \<le> MAX_STDERR_BYTES"
    and "be_wire b r = Some wire" and "wire \<le> MAX_FRAME_BYTES"
    and "response_plaintext b inner \<noteq> []" and "length (response_plaintext b inner) \<le> MAX_FRAME_BYTES"
    and "length (response_plaintext b inner) \<le> rp_max_payload_bytes p"
    and "parse_as env (rw_envelope env) frame = Inr r"
    and "parse_as env (rw_response env) (response_plaintext b inner) = Inr inner"
  shows "wrapper_decode_response env frame key p = Inr inner"
proof -
  have c: "crypto_ok (be_crypto b)" using assms(1,2) by (simp add: same_protocol_def)
  have r: "oe_message_type r = outer_message_type.ExecuteResult" "oe_direction r = Response"
      "oe_payload_bytes r = length (response_plaintext b inner)"
    by (rule seal_response_Inr [OF c assms(5)], simp)+
  from sealed_response_opens [OF c assms(3,4,5,16,17,18,19)]
  have o: "envelope_valid b r = Inr ()" "oe_request_id r = oe_request_id e" "oe_binding_id r = oe_binding_id e"
    "oe_generation r = oe_generation e" "oe_sequence r = oe_sequence e"
    "open_payload b key r = Inr (response_plaintext b inner)" by simp_all
  have "envelope_validate (rw_b64 env) (rw_wire env) r MAX_FRAME_BYTES = Inr ()"
    using o(1) assms(2) by (simp add: envelope_valid_def same_protocol_def)
  moreover have "open_response env key r = Inr (response_plaintext b inner)"
    using o(6) assms(2)
    by (auto simp: open_payload_def open_response_def same_protocol_def Let_def bind_r_Inr_iff
        split: prod.splits)
  moreover have "answers_permit r p"
    using o assms(6-9,20) r(3) by (simp add: answers_permit_def)
  moreover have "check_inner_response r inner = Inr inner"
    using o assms(10-15) by (simp add: check_inner_response_def)
  ultimately show ?thesis
    using assms(21,22) r by (simp add: wrapper_decode_response_def response_envelope_def)
qed


lemma sample_response_plaintext:
  "response_plaintext sample_env sample_response \<noteq> []"
  "length (response_plaintext sample_env sample_response) \<le> MAX_FRAME_BYTES"
  "length (response_plaintext sample_env sample_response) \<le> rp_max_payload_bytes sample_permit"
  by (simp_all add: response_plaintext_def canonical_json_def response_json_def sample_env_def
        sample_response_def status_response_def sample_envelope_def btree_of_def less_char_def
        tagged_string_def as_bytes_def INNER_PROTOCOL_VERSION_def MAX_FRAME_BYTES_def sample_permit_def)

lemma sample_response_facts:
  "crypto_ok (rw_crypto (answered_env r sample_response))"
  "same_protocol (answered_env r sample_response) sample_env" "length (replicate 12 (9 :: u8)) = 12"
  "envelope_valid sample_env sample_envelope = Inr ()"
  "oe_binding_id sample_envelope = rp_binding_id (sample_permit\<lparr>rp_sequence := oe_sequence sample_envelope\<rparr>)"
  "oe_generation sample_envelope = rp_generation (sample_permit\<lparr>rp_sequence := oe_sequence sample_envelope\<rparr>)"
  "oe_request_id sample_envelope = rp_request_id (sample_permit\<lparr>rp_sequence := oe_sequence sample_envelope\<rparr>)"
  "oe_sequence sample_envelope = rp_sequence (sample_permit\<lparr>rp_sequence := oe_sequence sample_envelope\<rparr>)"
  "resp_protocol sample_response = INNER_PROTOCOL_VERSION"
  "resp_message_type sample_response = inner_message_type.ExecuteResult"
  "resp_request_id sample_response = oe_request_id sample_envelope"
  "resp_sequence sample_response = oe_sequence sample_envelope"
  "length (resp_stdout sample_response) \<le> MAX_STDOUT_BYTES"
  "length (resp_stderr sample_response) \<le> MAX_STDERR_BYTES"
  "be_wire sample_env e = Some 400" "400 \<le> MAX_FRAME_BYTES"
  "response_plaintext sample_env sample_response \<noteq> []"
  "length (response_plaintext sample_env sample_response) \<le> MAX_FRAME_BYTES"
  "length (response_plaintext sample_env sample_response)
     \<le> rp_max_payload_bytes (sample_permit\<lparr>rp_sequence := oe_sequence sample_envelope\<rparr>)"
  "parse_as (answered_env r sample_response) (rw_envelope (answered_env r sample_response)) bs = Inr r"
  "parse_as (answered_env r sample_response) (rw_response (answered_env r sample_response)) bs
     = Inr sample_response"
  using plain_crypto_ok sample_response_plaintext sample_envelope_valid
  by (simp_all add: parse_as_def parse_strict_json_def answered_env_def sample_wrapper_env_def
      sample_response_def status_response_def sample_permit_def)
    (simp_all add: sample_env_def same_protocol_def sample_envelope_def MAX_FRAME_BYTES_def)

lemma sample_response_sealed:
  "\<exists>r. seal_response sample_env sample_key (replicate 12 9) sample_response sample_envelope = Inr r"
  by (simp add: seal_response_def sample_env_def plain_seal Let_def)


text \<open>What the wrapper decodes in that run is bound to the permit.\<close>

theorem response_bound_to_permit_witness:
  "\<exists>env frame key p r. wrapper_decode_response env frame key p = Inr r \<and>
     resp_request_id r = rp_request_id p \<and> rp_request_id p = ''r-1''"
proof -
  let ?p = "sample_permit\<lparr>rp_sequence := oe_sequence sample_envelope\<rparr>"
  obtain r where r: "seal_response sample_env sample_key (replicate 12 9) sample_response sample_envelope = Inr r"
    using sample_response_sealed by blast
  have "wrapper_decode_response (answered_env r sample_response) [] sample_key ?p = Inr sample_response"
    by (rule response_decodes [OF sample_response_facts(1-4) r sample_response_facts(5-21)])
  moreover from response_bound_to_permit [OF this]
  have "resp_request_id sample_response = rp_request_id ?p" by blast
  moreover have "rp_request_id ?p = ''r-1''" by (simp add: sample_permit_def)
  ultimately show ?thesis by blast
qed

end
