(* ===== verification/File_Guard.thy ===== *)
theory File_Guard
  imports Allowlist Execution
begin

text \<open>
  The guard through which a script reaches files, \<open>crates/local-bridge/src/file_guard.rs\<close>: it answers
  requests on a private socket, copies allowlisted files into a staging directory, hands out staging paths
  for downloads and moves a finished download to its destination, all within one budget per request.
  Nothing that it calls panics while the lock is held, so the lock is never poisoned.
\<close>

section \<open>State\<close>

definition MAX_FILE_GUARD_MESSAGE_BYTES :: nat where "MAX_FILE_GUARD_MESSAGE_BYTES = 16 * 1024"

record guard_request =
  gq_operation :: string
  gq_path :: string
  gq_token :: "string option"

record guard_budget =
  gb_total_bytes :: u64
  gb_file_count :: nat

record prepared_download =
  pd_staging_path :: path
  pd_destination :: validated_output

record guard_state =
  gs_budget :: guard_budget
  gs_downloads :: "string \<Rightarrow> prepared_download option"

definition guard_start :: guard_state where
  "guard_start = \<lparr>gs_budget = \<lparr>gb_total_bytes = 0, gb_file_count = 0\<rparr>, gs_downloads = Map.empty\<rparr>"

text \<open>The surroundings: the operating system with its \<open>mkdir\<close>, the fresh directory below \<open>/tmp\<close> and the
  binding of a socket, the allowlist, the staging directory and
  the reader of requests that \<open>serde_json\<close> derives.\<close>

record guard_env =
  ge_world :: world
  ge_mkdir :: "nat \<Rightarrow> path \<Rightarrow> io_error + unit"
  ge_tempdir :: "nat \<Rightarrow> io_error + path"
  ge_bind :: "nat \<Rightarrow> path \<Rightarrow> io_error + unit"
  ge_allowlist :: allowlist
  ge_staging_root :: path
  ge_json :: json_codec
  ge_request :: "json \<Rightarrow> string + guard_request"

text \<open>The start of the guard gives its socket; the staging directory and the socket are private.\<close>

definition guard_handle_start :: "guard_env \<Rightarrow> (bridge_error, path) act" where
  "guard_handle_start env =
     bind_a (sys IoFailure (\<lambda>t. ge_mkdir env t (ge_staging_root env))) (\<lambda>_.
     bind_a (sys IoFailure (\<lambda>t. w_chmod_path (ge_world env) t (ge_staging_root env) 0x1C0)) (\<lambda>_.
     bind_a (sys IoFailure (ge_tempdir env)) (\<lambda>socket_directory.
     bind_a (sys IoFailure (\<lambda>t. w_chmod_path (ge_world env) t socket_directory 0x1C0)) (\<lambda>_.
     let socket_path = path_join socket_directory [Normal ''ipc.sock''] in
     bind_a (sys IoFailure (\<lambda>t. ge_bind env t socket_path)) (\<lambda>_.
     bind_a (sys IoFailure (\<lambda>t. w_chmod_path (ge_world env) t socket_path 0x1C0)) (\<lambda>_.
       ret socket_path))))))"

definition charge :: "guard_budget \<Rightarrow> u64 \<Rightarrow> guard_budget" where
  "charge b bytes_read = b\<lparr>gb_total_bytes := sat_add (gb_total_bytes b) bytes_read, gb_file_count := gb_file_count b + 1\<rparr>"

text \<open>An error of the allowlist is answered with a fixed message.\<close>

definition rejected :: "string \<Rightarrow> (allowlist_error, 'a) act \<Rightarrow> (bridge_error, 'a) act" where
  "rejected message m = (\<lambda>t. case m t of (r, u) \<Rightarrow> (map_err (\<lambda>_. ProtocolMessage message) r, u))"

lemma rejected_Inr [simp]: "rejected message m t = (Inr x, u) \<longleftrightarrow> m t = (Inr x, u)"
  by (auto simp: rejected_def split: prod.splits)

text \<open>\<open>Path::to_str\<close>.\<close>

definition guard_path_text :: "string \<Rightarrow> path \<Rightarrow> bridge_error + path" where
  "guard_path_text message p =
     (if list_all (\<lambda>c. valid_utf8 (component_text c)) p then Inr p else Inl (ProtocolMessage message))"

lemma guard_path_text_Inr: "guard_path_text message p = Inr q \<Longrightarrow> q = p"
  by (simp add: guard_path_text_def split: if_splits)

section \<open>Uploads\<close>

definition upload_directory :: "guard_env \<Rightarrow> guard_budget \<Rightarrow> path" where
  "upload_directory env b =
     path_join (ge_staging_root env) [Normal (''upload-'' @ decimal (gb_file_count b + 1))]"

definition stage_file ::
  "guard_env \<Rightarrow> guard_budget \<Rightarrow> path \<Rightarrow> (bridge_error, u64 \<times> path) act" where
  "stage_file env b requested_path =
     bind_a (rejected ''helper file path rejected'' (open_input (ge_world env) (ge_allowlist env)
        requested_path (gb_total_bytes b) (gb_file_count b))) (\<lambda>input.
     bind_a (lift_r (ok_or (ProtocolMessage ''helper file name is invalid'') (file_name (vi_path input))))
       (\<lambda>name.
     bind_a (rejected ''helper file read failed'' (read_to_end (ge_world env) input)) (\<lambda>content.
     let directory = upload_directory env b; destination = path_join directory [Normal name] in
     bind_a (sys IoFailure (\<lambda>t. ge_mkdir env t directory)) (\<lambda>_.
     bind_a (sys IoFailure (\<lambda>t. w_chmod_path (ge_world env) t directory 0x1C0)) (\<lambda>_.
     bind_a (sys IoFailure (\<lambda>t. w_open (ge_world env) t destination (write_flags True))) (\<lambda>h.
     bind_a (sys IoFailure (\<lambda>t. w_write (ge_world env) t h content)) (\<lambda>_.
     bind_a (sys IoFailure (\<lambda>t. w_sync (ge_world env) t h)) (\<lambda>_.
       ret (vi_size_bytes input, destination)))))))))"

definition stage_allowlisted_input ::
  "guard_env \<Rightarrow> guard_state \<Rightarrow> path \<Rightarrow> nat \<Rightarrow> guard_state \<times> (bridge_error + path) \<times> nat" where
  "stage_allowlisted_input env st requested_path t =
     (case stage_file env (gs_budget st) requested_path t of
        (Inl e, u) \<Rightarrow> (st, Inl e, u)
      | (Inr (bytes_read, destination), u) \<Rightarrow>
          (st\<lparr>gs_budget := charge (gs_budget st) bytes_read\<rparr>,
           guard_path_text ''helper staging path is invalid'' destination, u))"

section \<open>Downloads\<close>

text \<open>Ids are drawn until one is not in use; \<open>draws\<close> are the ids drawn, and \<open>None\<close> says that more are
  needed.\<close>

definition fresh_token :: "string list \<Rightarrow> (string \<Rightarrow> prepared_download option) \<Rightarrow> string option" where
  "fresh_token draws downloads = List.find (\<lambda>c. downloads c = None) draws"

definition prepare_allowlisted_output ::
  "guard_env \<Rightarrow> guard_state \<Rightarrow> path \<Rightarrow> string list \<Rightarrow> nat \<Rightarrow>
     (guard_state \<times> (bridge_error + path \<times> string) \<times> nat) option" where
  "prepare_allowlisted_output env st requested_path draws t =
     (let b = gs_budget st; operation_count = gb_file_count b + card (dom (gs_downloads st))
      in case rejected ''helper output path rejected'' (validate_output (ge_world env) (ge_allowlist env)
            requested_path (gb_total_bytes b) operation_count 0) t of
           (Inl e, u) \<Rightarrow> Some (st, Inl e, u)
         | (Inr destination, u) \<Rightarrow>
             (case fresh_token draws (gs_downloads st) of
                None \<Rightarrow> None
              | Some token \<Rightarrow>
                  (case staging_path destination token of
                     Inl _ \<Rightarrow> Some (st, Inl (ProtocolMessage ''helper staging path is invalid''), u)
                   | Inr staged \<Rightarrow>
                       Some (st\<lparr>gs_downloads := (gs_downloads st)(token \<mapsto>
                              \<lparr>pd_staging_path = staged, pd_destination = destination\<rparr>)\<rparr>,
                         bind_r (guard_path_text ''helper staging path is invalid'' staged) (\<lambda>p. Inr (p, token)),
                         u))))"

definition replace_staged ::
  "guard_env \<Rightarrow> guard_budget \<Rightarrow> path \<Rightarrow> validated_output \<Rightarrow> string \<Rightarrow> string \<Rightarrow> (bridge_error, u64) act" where
  "replace_staged env b staged destination token uuid =
     bind_a (rejected ''helper output limit rejected'' (open_input (ge_world env) (ge_allowlist env)
        staged (gb_total_bytes b) (gb_file_count b))) (\<lambda>input.
     bind_a (rejected ''helper output changed'' (read_to_end (ge_world env) input)) (\<lambda>content.
     bind_a (rejected ''helper output changed''
        (replace_atomically (ge_world env) destination content token uuid)) (\<lambda>_.
       ret (vi_size_bytes input))))"

definition commit_allowlisted_output ::
  "guard_env \<Rightarrow> guard_state \<Rightarrow> path \<Rightarrow> string \<Rightarrow> string \<Rightarrow> nat \<Rightarrow> guard_state \<times> (bridge_error + path) \<times> nat" where
  "commit_allowlisted_output env st staged_path token uuid t =
     (case gs_downloads st token of
        None \<Rightarrow> (st, Inl (ProtocolMessage ''helper output token rejected''), t)
      | Some prepared \<Rightarrow>
          let removed = st\<lparr>gs_downloads := (gs_downloads st)(token := None)\<rparr>;
              destination = pd_destination prepared
          in if pd_staging_path prepared \<noteq> staged_path
             then (removed, Inl (ProtocolMessage ''helper staging path rejected''), t)
             else (case replace_staged env (gs_budget st) staged_path destination token uuid t of
                 (r, u) \<Rightarrow>
                   let u = snd (remove_staging (ge_world env) destination token u)
                   in (case r of
                         Inl e \<Rightarrow> (removed, Inl e, u)
                       | Inr bytes_read \<Rightarrow> (removed\<lparr>gs_budget := charge (gs_budget st) bytes_read\<rparr>,
                           guard_path_text ''helper output path is invalid'' (vo_path destination), u))))"

section \<open>Connections\<close>

definition UPLOAD :: string where "UPLOAD = ''upload''"
definition PREPARE_DOWNLOAD :: string where "PREPARE_DOWNLOAD = ''prepare_download''"
definition COMMIT_DOWNLOAD :: string where "COMMIT_DOWNLOAD = ''commit_download''"

lemma guard_operations_distinct [simp]:
  "UPLOAD \<noteq> PREPARE_DOWNLOAD" "UPLOAD \<noteq> COMMIT_DOWNLOAD" "COMMIT_DOWNLOAD \<noteq> PREPARE_DOWNLOAD"
  "PREPARE_DOWNLOAD \<noteq> UPLOAD" "COMMIT_DOWNLOAD \<noteq> UPLOAD" "PREPARE_DOWNLOAD \<noteq> COMMIT_DOWNLOAD"
  by (simp_all add: UPLOAD_def PREPARE_DOWNLOAD_def COMMIT_DOWNLOAD_def)

definition finish_message :: "bytes \<Rightarrow> bridge_error + bytes" where
  "finish_message v =
     (if v = [] \<or> length v > MAX_FILE_GUARD_MESSAGE_BYTES
      then Inl (ProtocolMessage ''helper guard request is invalid'') else Inr v)"

text \<open>What the client sends arrives in chunks of at most 1024 bytes; the end of the list, or an empty chunk,
  is the end of the stream.\<close>

fun read_file_guard_message :: "(io_error + bytes) list \<Rightarrow> bytes \<Rightarrow> bridge_error + bytes" where
  "read_file_guard_message [] v = Inl (ProtocolMessage ''truncated helper guard request'')"
| "read_file_guard_message (Inl e # chunks) v = Inl (IoFailure e)"
| "read_file_guard_message (Inr chunk # chunks) v =
     (let index = length (takeWhile (\<lambda>b. b \<noteq> 0x0A) chunk)
      in if chunk = [] then Inl (ProtocolMessage ''truncated helper guard request'')
         else if index < length chunk
         then if index + 1 \<noteq> length chunk
              then Inl (ProtocolMessage ''trailing helper guard request data'')
              else finish_message (v @ take index chunk)
         else if length (v @ chunk) > MAX_FILE_GUARD_MESSAGE_BYTES
         then Inl (ProtocolMessage ''helper guard request exceeds limit'')
         else read_file_guard_message chunks (v @ chunk))"

text \<open>An answer is a path with the token of a download, or the one refusal.\<close>

datatype guard_answer = Granted path "string option" | Refused

definition answer_of :: "bridge_error + path \<times> string option \<Rightarrow> guard_answer" where
  "answer_of r = (case r of Inl _ \<Rightarrow> Refused | Inr (p, token) \<Rightarrow> Granted p token)"

definition guard_operation ::
  "guard_env \<Rightarrow> guard_state \<Rightarrow> guard_request \<Rightarrow> string list \<Rightarrow> string \<Rightarrow> nat \<Rightarrow>
     (guard_state \<times> guard_answer \<times> nat) option" where
  "guard_operation env st request draws uuid t =
     (let p = path_of (gq_path request) in
      if gq_path request = [] \<or> length (gq_path request) > 4096 then Some (st, Refused, t)
      else if gq_operation request = UPLOAD
      then (case stage_allowlisted_input env st p t of
          (st, r, u) \<Rightarrow> Some (st, answer_of (bind_r r (\<lambda>q. Inr (q, None))), u))
      else if gq_operation request = PREPARE_DOWNLOAD \<and> gq_token request = None
      then (case prepare_allowlisted_output env st p draws t of
          None \<Rightarrow> None
        | Some (st, r, u) \<Rightarrow> Some (st, answer_of (bind_r r (\<lambda>(q, token). Inr (q, Some token))), u))
      else if gq_operation request = COMMIT_DOWNLOAD
      then (case commit_allowlisted_output env st p (unwrap_or_default (gq_token request)) uuid t of
          (st, r, u) \<Rightarrow> Some (st, answer_of (bind_r r (\<lambda>q. Inr (q, None))), u))
      else Some (st, Refused, t))"

definition guard_answer_bytes :: "guard_env \<Rightarrow> guard_answer \<Rightarrow> bytes" where
  "guard_answer_bytes env a = canonical_json (jc_to_vec (ge_json env)) (JObject (btree_of (case a of
       Granted p token \<Rightarrow> [(''ok'', JBool True), (''path'', JString (path_text p)),
         (''token'', case token of None \<Rightarrow> JNull | Some s \<Rightarrow> JString s), (''error'', JNull)]
     | Refused \<Rightarrow> [(''ok'', JBool False), (''path'', JNull), (''token'', JNull),
         (''error'', JString ''artifact_error: helper file path rejected'')]))) @ [0x0A]"

text \<open>One connection: what the client sends, the ids drawn for it, and the answer, if it gets one.\<close>

record guard_call =
  gc_chunks :: "(io_error + bytes) list"
  gc_draws :: "string list"
  gc_uuid :: string

definition guard_connection ::
  "guard_env \<Rightarrow> guard_state \<Rightarrow> guard_call \<Rightarrow> nat \<Rightarrow>
     (guard_state \<times> (bridge_error + guard_request \<times> guard_answer) \<times> nat) option" where
  "guard_connection env st call t =
     (case bind_r (read_file_guard_message (gc_chunks call) []) (\<lambda>bs.
         map_err (\<lambda>_. ProtocolMessage ''invalid helper guard request'')
           (parse_strict_json (ge_json env) (ge_request env) bs)) of
        Inl e \<Rightarrow> Some (st, Inl e, t)
      | Inr request \<Rightarrow>
          (case guard_operation env st request (gc_draws call) (gc_uuid call) t of
             None \<Rightarrow> None
           | Some (st, a, u) \<Rightarrow> Some (st, Inr (request, a), u)))"

text \<open>The guard serves one connection after the other until it is stopped; an error of one connection
  does not end it.  Then the staging files of the downloads that were not committed are removed, in some
  order.\<close>

fun guard_connections ::
  "guard_env \<Rightarrow> guard_state \<Rightarrow> guard_call list \<Rightarrow> nat \<Rightarrow>
     (guard_state \<times> (bridge_error + guard_request \<times> guard_answer) list \<times> nat) option" where
  "guard_connections env st [] t = Some (st, [], t)"
| "guard_connections env st (call # calls) t =
     (case guard_connection env st call t of
        None \<Rightarrow> None
      | Some (st, a, u) \<Rightarrow>
          (case guard_connections env st calls u of
             None \<Rightarrow> None | Some (st, rest, u) \<Rightarrow> Some (st, a # rest, u)))"

fun remove_pending :: "guard_env \<Rightarrow> (string \<times> prepared_download) list \<Rightarrow> nat \<Rightarrow> nat" where
  "remove_pending env [] t = t"
| "remove_pending env ((token, d) # rest) t =
     remove_pending env rest (snd (remove_staging (ge_world env) (pd_destination d) token t))"

definition run_file_guard ::
  "guard_env \<Rightarrow> guard_call list \<Rightarrow> (guard_state \<Rightarrow> (string \<times> prepared_download) list) \<Rightarrow> nat \<Rightarrow>
     (guard_state \<times> (bridge_error + guard_request \<times> guard_answer) list \<times> nat) option" where
  "run_file_guard env calls order t =
     (case guard_connections env guard_start calls t of
        None \<Rightarrow> None
      | Some (st, answers, u) \<Rightarrow>
          Some (st\<lparr>gs_downloads := Map.empty\<rparr>, answers, remove_pending env (order st) u))"

section \<open>The invariant\<close>

text \<open>The budget is within the limits of the allowlist, and every prepared download has a destination that
  the allowlist validated and the staging path of its own token, next to it.\<close>

definition validated :: "guard_env \<Rightarrow> validated_output \<Rightarrow> bool" where
  "validated env destination \<longleftrightarrow> (\<exists>p tot cnt t u.
     validate_output (ge_world env) (ge_allowlist env) p tot cnt 0 t = (Inr destination, u))"

definition guard_inv :: "guard_env \<Rightarrow> guard_state \<Rightarrow> bool" where
  "guard_inv env st \<longleftrightarrow>
     gb_file_count (gs_budget st) \<le> al_max_file_count (al_limits (ge_allowlist env)) \<and>
     gb_total_bytes (gs_budget st) \<le> al_max_total_bytes (al_limits (ge_allowlist env)) \<and>
     finite (dom (gs_downloads st)) \<and>
     card (dom (gs_downloads st)) \<le> al_max_file_count (al_limits (ge_allowlist env)) \<and>
     (\<forall>token d. gs_downloads st token = Some d \<longrightarrow>
        staging_path (pd_destination d) token = Inr (pd_staging_path d) \<and> validated env (pd_destination d))"

lemma guard_start_inv: "guard_inv env guard_start"
  by (simp add: guard_inv_def guard_start_def)

lemma open_input_budget:
  assumes "open_input w al p tot cnt t = (Inr v, u)"
  shows "sat_add tot (vi_size_bytes v) \<le> al_max_total_bytes (al_limits al)"
    "cnt < al_max_file_count (al_limits al)"
  using assms
  by (auto simp: open_input_def check_request_budget_def split: prod.splits if_splits)

lemma charge_inv:
  assumes "guard_inv env st" "open_input w (ge_allowlist env) p (gb_total_bytes (gs_budget st))
      (gb_file_count (gs_budget st)) t = (Inr v, u)"
  shows "guard_inv env (st\<lparr>gs_budget := charge (gs_budget st) (vi_size_bytes v)\<rparr>)"
  using assms(1) open_input_budget [OF assms(2)] by (simp add: guard_inv_def charge_def)

lemma stage_file_Inr:
  assumes "stage_file env b p t = (Inr (bytes_read, destination), u)"
  obtains v content name h t1 t2 t3 t4 t5 where
    "open_input (ge_world env) (ge_allowlist env) p (gb_total_bytes b) (gb_file_count b) t = (Inr v, t1)"
    "bytes_read = vi_size_bytes v" "read_to_end (ge_world env) v t1 = (Inr content, t2)"
    "file_name (vi_path v) = Some name" "destination = path_join (upload_directory env b) [Normal name]"
    "ge_mkdir env t3 (upload_directory env b) = Inr ()"
    "w_open (ge_world env) t4 destination (write_flags True) = Inr h"
    "w_write (ge_world env) t5 h content = Inr ()"
  using assms by (auto simp: stage_file_def Let_def)

lemma removed_inv:
  assumes "guard_inv env st"
  shows "guard_inv env (st\<lparr>gs_downloads := (gs_downloads st)(token := None)\<rparr>)"
proof -
  have "card (dom (gs_downloads st) - {token}) \<le> card (dom (gs_downloads st))" by (rule card_Diff1_le)
  with assms show ?thesis unfolding guard_inv_def by (simp add: dom_fun_upd)
qed

lemma stage_step:
  assumes "stage_allowlisted_input env st p t = (st', r, u)" "guard_inv env st"
  shows "guard_inv env st' \<and> gb_file_count (gs_budget st) + (if is_ok r then 1 else 0) \<le> gb_file_count (gs_budget st')"
proof (cases "stage_file env (gs_budget st) p t")
  case (Pair a s)
  show ?thesis
  proof (cases a)
    case (Inl e)
    with Pair assms show ?thesis by (auto simp: stage_allowlisted_input_def)
  next
    case (Inr x)
    then obtain bytes_read destination where x: "a = Inr (bytes_read, destination)" by (cases x) auto
    with Pair obtain v t1 where "open_input (ge_world env) (ge_allowlist env) p
        (gb_total_bytes (gs_budget st)) (gb_file_count (gs_budget st)) t = (Inr v, t1)" "bytes_read = vi_size_bytes v"
      by (auto elim: stage_file_Inr)
    with charge_inv [OF assms(2)] have "guard_inv env (st\<lparr>gs_budget := charge (gs_budget st) bytes_read\<rparr>)" by blast
    with assms Pair x show ?thesis by (auto simp: stage_allowlisted_input_def charge_def)
  qed
qed

lemma prepare_step:
  assumes "prepare_allowlisted_output env st p draws t = Some (st', r, u)" "guard_inv env st"
  shows "guard_inv env st' \<and> gs_budget st' = gs_budget st"
proof (cases "st' = st")
  case False
  then obtain v token staged where v: "validate_output (ge_world env) (ge_allowlist env) p
        (gb_total_bytes (gs_budget st)) (gb_file_count (gs_budget st) + card (dom (gs_downloads st))) 0 t = (Inr v, u)"
    and s: "staging_path v token = Inr staged"
    and st': "st' = st\<lparr>gs_downloads := (gs_downloads st)(token \<mapsto>
        \<lparr>pd_staging_path = staged, pd_destination = v\<rparr>)\<rparr>"
    using assms(1) by (auto simp: prepare_allowlisted_output_def Let_def split: prod.splits sum.splits option.splits)
  have "gb_file_count (gs_budget st) + card (dom (gs_downloads st))
      < al_max_file_count (al_limits (ge_allowlist env))"
    using v by (auto simp: validate_output_def check_request_budget_def split: prod.splits if_splits)
  moreover have "validated env v" using v unfolding validated_def by blast
  moreover have "card (insert token (dom (gs_downloads st))) \<le> Suc (card (dom (gs_downloads st)))"
    using assms(2) by (simp add: guard_inv_def card_insert_if)
  ultimately show ?thesis
    using assms(2) s v by (auto simp: guard_inv_def st')
qed (use assms(2) in simp)

lemma replace_staged_Inr:
  assumes "replace_staged env b staged destination token uuid t = (Inr bytes_read, u)"
  obtains v content t1 t2 where
    "open_input (ge_world env) (ge_allowlist env) staged (gb_total_bytes b) (gb_file_count b) t = (Inr v, t1)"
    "bytes_read = vi_size_bytes v" "read_to_end (ge_world env) v t1 = (Inr content, t2)"
    "replace_atomically (ge_world env) destination content token uuid t2 = (Inr (), u)"
  using assms by (auto simp: replace_staged_def)

lemma commit_step:
  assumes "commit_allowlisted_output env st p token uuid t = (st', r, u)" "guard_inv env st"
  shows "guard_inv env st' \<and> gb_file_count (gs_budget st) + (if is_ok r then 1 else 0) \<le> gb_file_count (gs_budget st')"
proof (cases "gs_downloads st token")
  case None
  with assms show ?thesis by (auto simp: commit_allowlisted_output_def)
next
  case (Some d)
  let ?removed = "st\<lparr>gs_downloads := (gs_downloads st)(token := None)\<rparr>"
  note removed = removed_inv [OF assms(2), of token]
  show ?thesis
  proof (cases "pd_staging_path d = p")
    case False
    with assms Some removed show ?thesis by (auto simp: commit_allowlisted_output_def Let_def)
  next
    case True
    obtain a s where a: "replace_staged env (gs_budget st) p (pd_destination d) token uuid t = (a, s)"
      by (cases "replace_staged env (gs_budget st) p (pd_destination d) token uuid t")
    show ?thesis
    proof (cases a)
      case (Inl e)
      with assms(1) Some True a removed show ?thesis by (auto simp: commit_allowlisted_output_def Let_def)
    next
      case (Inr bytes_read)
      with a obtain v t1 where "open_input (ge_world env) (ge_allowlist env) p (gb_total_bytes (gs_budget ?removed))
          (gb_file_count (gs_budget ?removed)) t = (Inr v, t1)" "bytes_read = vi_size_bytes v"
        by (auto elim: replace_staged_Inr)
      with charge_inv [OF removed]
      have "guard_inv env (?removed\<lparr>gs_budget := charge (gs_budget ?removed) bytes_read\<rparr>)" by blast
      with assms(1) Some True a Inr show ?thesis
        by (auto simp: commit_allowlisted_output_def Let_def charge_def)
    qed
  qed
qed

text \<open>A transfer is an upload or a commit that was granted.\<close>

fun is_transfer :: "bridge_error + guard_request \<times> guard_answer \<Rightarrow> bool" where
  "is_transfer (Inr (request, Granted p token)) \<longleftrightarrow> gq_operation request \<noteq> PREPARE_DOWNLOAD"
| "is_transfer _ \<longleftrightarrow> False"

lemma answer_of_Granted [simp]:
  "answer_of r = Granted p token \<longleftrightarrow> r = Inr (p, token)" "answer_of r = Refused \<longleftrightarrow> (\<exists>e. r = Inl e)"
  by (auto simp: answer_of_def split: sum.splits)

lemma connection_step:
  assumes "guard_connection env st call t = Some (st', a, u)" "guard_inv env st"
  shows "guard_inv env st' \<and> gb_file_count (gs_budget st) + (if is_transfer a then 1 else 0) \<le> gb_file_count (gs_budget st')"
proof (cases a)
  case (Inl e)
  with assms show ?thesis by (auto simp: guard_connection_def split: sum.splits option.splits prod.splits)
next
  case (Inr x)
  obtain request answer where x: "x = (request, answer)" by (cases x)
  with Inr assms(1) have op: "guard_operation env st request (gc_draws call) (gc_uuid call) t = Some (st', answer, u)"
    by (auto simp: guard_connection_def split: sum.splits option.splits)
  let ?p = "path_of (gq_path request)"
  consider "st' = st" "answer = Refused"
    | r where "stage_allowlisted_input env st ?p t = (st', r, u)" "answer = answer_of (bind_r r (\<lambda>q. Inr (q, None)))"
    | r where "prepare_allowlisted_output env st ?p (gc_draws call) t = Some (st', r, u)"
        "gq_operation request = PREPARE_DOWNLOAD"
    | r where "commit_allowlisted_output env st ?p (unwrap_or_default (gq_token request)) (gc_uuid call) t = (st', r, u)"
        "answer = answer_of (bind_r r (\<lambda>q. Inr (q, None)))"
    using op by (auto simp: guard_operation_def Let_def split: if_splits prod.splits option.splits)
  then show ?thesis
  proof cases
    case 1
    then show ?thesis using assms(2) by (simp add: Inr x)
  next
    case (2 r)
    have "is_transfer a \<Longrightarrow> is_ok r" using 2(2) by (cases r) (auto simp: Inr x answer_of_def)
    with stage_step [OF 2(1) assms(2)] show ?thesis by (auto split: if_splits)
  next
    case (3 r)
    have "\<not> is_transfer a" using 3(2) by (cases answer) (auto simp: Inr x)
    with prepare_step [OF 3(1) assms(2)] show ?thesis by simp
  next
    case (4 r)
    have "is_transfer a \<Longrightarrow> is_ok r" using 4(2) by (cases r) (auto simp: Inr x answer_of_def)
    with commit_step [OF 4(1) assms(2)] show ?thesis by (auto split: if_splits)
  qed
qed

lemma connections_inv:
  "guard_connections env st calls t = Some (st', answers, u) \<Longrightarrow> guard_inv env st \<Longrightarrow>
     guard_inv env st' \<and>
     gb_file_count (gs_budget st) + length (filter is_transfer answers) \<le> gb_file_count (gs_budget st')"
proof (induction calls arbitrary: st t answers u)
  case (Cons call calls)
  then obtain st1 a t1 rest where one: "guard_connection env st call t = Some (st1, a, t1)"
    and more: "guard_connections env st1 calls t1 = Some (st', rest, u)" and answers: "answers = a # rest"
    by (auto split: option.splits)
  from connection_step [OF one Cons.prems(2)] Cons.IH [OF more] show ?case
    by (auto simp: answers split: if_splits)
qed simp

section \<open>Properties\<close>


text \<open>C21: c21: 
  A commit that succeeds installs what was prepared: its token is that of an open download, the path it
  names is the staging path of that token beside the destination, the bytes that were read from there
  within the budget replace the destination atomically, and the destination is one that the allowlist
  validated.  The token is used up.\<close>

theorem commit_installs_prepared:
  assumes "guard_connections env guard_start calls t0 = Some (st, answers, t1)"
    and "commit_allowlisted_output env st p token uuid t = (st', Inr destination, u)"
  shows "\<exists>d v content t2 t3 t4. gs_downloads st token = Some d \<and>
    staging_path (pd_destination d) token = Inr p \<and> destination = vo_path (pd_destination d) \<and>
    validated env (pd_destination d) \<and>
    open_input (ge_world env) (ge_allowlist env) p (gb_total_bytes (gs_budget st))
      (gb_file_count (gs_budget st)) t = (Inr v, t2) \<and>
    read_to_end (ge_world env) v t2 = (Inr content, t3) \<and>
    replace_atomically (ge_world env) (pd_destination d) content token uuid t3 = (Inr (), t4) \<and>
    gs_downloads st' = (gs_downloads st)(token := None) \<and>
    gs_budget st' = charge (gs_budget st) (vi_size_bytes v)"
proof -
  have inv: "guard_inv env st" using connections_inv [OF assms(1) guard_start_inv] by blast
  obtain d where d: "gs_downloads st token = Some d" "pd_staging_path d = p"
    using assms(2) by (auto simp: commit_allowlisted_output_def Let_def split: option.splits if_splits)
  then obtain bytes_read t4 where r: "replace_staged env (gs_budget st) p (pd_destination d) token uuid t = (Inr bytes_read, t4)"
    and st': "st' = st\<lparr>gs_downloads := (gs_downloads st)(token := None), gs_budget := charge (gs_budget st) bytes_read\<rparr>"
    and dest: "guard_path_text ''helper output path is invalid'' (vo_path (pd_destination d)) = Inr destination"
    using assms(2) by (auto simp: commit_allowlisted_output_def Let_def split: prod.splits sum.splits)
  from guard_path_text_Inr [OF dest] inv d r st' show ?thesis
    by (elim replace_staged_Inr) (fastforce simp: guard_inv_def)
qed

text \<open>
  The search for an unused token ends: the open downloads are at most as many as the limit of files, so
  among that many distinct ids and one more there is a free one.\<close>

theorem token_found:
  assumes "guard_connections env guard_start calls t0 = Some (st, answers, t1)"
    and "distinct draws" and "al_max_file_count (al_limits (ge_allowlist env)) < length draws"
  shows "prepare_allowlisted_output env st p draws t \<noteq> None"
proof -
  have inv: "guard_inv env st" using connections_inv [OF assms(1) guard_start_inv] by blast
  have "fresh_token draws (gs_downloads st) \<noteq> None"
  proof
    assume "fresh_token draws (gs_downloads st) = None"
    then have "set draws \<subseteq> dom (gs_downloads st)" by (auto simp: fresh_token_def find_None_iff)
    then have "card (set draws) \<le> card (dom (gs_downloads st))"
      using inv by (intro card_mono) (simp_all add: guard_inv_def)
    with inv assms(2,3) show False by (simp add: guard_inv_def distinct_card)
  qed
  then show ?thesis
    by (auto simp: prepare_allowlisted_output_def Let_def split: prod.splits sum.splits option.splits)
qed

text \<open>
  An upload that failed after its directory was made leaves the directory and the file count as they
  are, so the next upload asks for the same directory.  While it exists, no upload of any file succeeds.\<close>

theorem upload_directory_reused:
  assumes "\<And>t. ge_mkdir env t (upload_directory env (gs_budget st)) = Inl AlreadyExists"
  shows "\<exists>e u. stage_allowlisted_input env st p t = (st, Inl e, u)"
proof (cases "stage_file env (gs_budget st) p t")
  case (Pair r u)
  have "\<nexists>x. r = Inr x"
    using Pair assms by (auto elim: stage_file_Inr)
  with Pair show ?thesis by (cases r) (auto simp: stage_allowlisted_input_def)
qed

section \<open>A concrete guard\<close>

text \<open>The directory of \<open>Allowlist\<close> with one file; every request of a client is the same.\<close>

definition guard_sample :: "string \<Rightarrow> guard_env" where
  "guard_sample operation = \<lparr>
     ge_world = small_world, ge_mkdir = (\<lambda>t p. Inr ()), ge_tempdir = (\<lambda>t. Inr [RootDir, Normal ''t'']),
     ge_bind = (\<lambda>t p. Inr ()), ge_allowlist = small_allowlist, ge_staging_root = [RootDir, Normal ''s''],
     ge_json = \<lparr>jc_parse = (\<lambda>_. DUnit), jc_location = (\<lambda>_. []), jc_at_end = (\<lambda>_. True), jc_to_vec = (\<lambda>_. [9])\<rparr>,
     ge_request = (\<lambda>_. Inr \<lparr>gq_operation = operation, gq_path = ''/r/a'', gq_token = None\<rparr>)\<rparr>"

definition sample_call :: guard_call where
  "sample_call = \<lparr>gc_chunks = [Inr [1], Inr [2, 0x0A]], gc_draws = [''t-1'', ''t-2''], gc_uuid = ''u-1''\<rparr>"

definition sample_staged :: path where
  "sample_staged = [RootDir, Normal ''r'', Normal ''.agent-remote-download-t-1.incoming'']"

definition sample_destination :: validated_output where
  "sample_destination = \<lparr>vo_path = small_file, vo_target_identity = Some (1, 7), vo_root_path = [RootDir, Normal ''r''],
     vo_root_identity = (1, 5), vo_relative_parent = [], vo_parent_identity = (1, 5), vo_file_name = ''a''\<rparr>"

lemma guard_sample_sel [simp]:
  "ge_world (guard_sample k) = small_world" "ge_allowlist (guard_sample k) = small_allowlist"
  "ge_mkdir (guard_sample k) t p = Inr ()"
  by (simp_all add: guard_sample_def)

lemma sample_request:
  "parse_strict_json (ge_json (guard_sample k)) (ge_request (guard_sample k)) bs
     = Inr \<lparr>gq_operation = k, gq_path = ''/r/a'', gq_token = None\<rparr>"
  by (simp add: guard_sample_def parse_strict_json_def)

lemma sample_message: "read_file_guard_message (gc_chunks sample_call) [] = Inr [1, 2]"
  by (simp add: sample_call_def finish_message_def MAX_FILE_GUARD_MESSAGE_BYTES_def)

lemma sample_path: "path_of ''/r/a'' = small_file"
  by (simp add: path_of_def small_file_def map_filter_def)

lemmas guard_act_defs = bind_a_def lift_r_def check_def ret_def sys_def try_sys_def on_error_def

lemmas sample_world_defs = small_world_def small_allowlist_def meta_of_def default_allowlist_limits_def
  MAX_ALLOWLISTED_FILE_BYTES_def MAX_ALLOWLISTED_TOTAL_BYTES_def MAX_ALLOWLISTED_FILE_COUNT_def

lemmas sample_open_defs = open_input_def check_request_budget_def canonical_target_def reject_path_components_def
  relative_to_root_def longest_root_def longer_root_def in_root_def is_absolute_def path_starts_with_def
  path_strip_prefix_def strip_prefix_def open_beneath_def open_beneath_directory_def open_root_directory_def
  path_parent_def file_name_def open_at_raw_def validate_regular_file_def same_file_def file_identity_def

lemma decimal_1: "decimal 1 = ''1''"
  by code_simp

lemmas decimal_one = decimal_1 decimal_1 [unfolded One_nat_def]

lemma guard_sample_texts [simp]: "valid_utf8 ''a''" "valid_utf8 ''r''" "valid_utf8 ''s''" "valid_utf8 ''upload-1''"
    "valid_utf8 ''.agent-remote-download-t-1.incoming''" "valid_utf8 []"
  by code_simp+

lemma small_world_sel: "w_chmod_path small_world t p m = Inr ()" "w_open small_world t p f = Inr 0"
    "w_write small_world t h b = Inr ()" "w_sync small_world t h = Inr ()"
  by (simp_all add: small_world_def)

lemma guard_sample_open:
  assumes "p = [RootDir, Normal ''r'', Normal name]" "CHR 0x00 \<notin> set name"
  shows "\<exists>u. open_input small_world small_allowlist p 0 0 t
    = (Inr \<lparr>vi_path = p, vi_size_bytes = 3, vi_file = Suc 0\<rparr>, u)"
  by (simp add: assms(1) assms(2) [simplified] sample_open_defs sample_world_defs guard_act_defs sat_add_def)

lemma sample_read: "\<exists>u. read_to_end small_world \<lparr>vi_path = p, vi_size_bytes = 3, vi_file = Suc 0\<rparr> t = (Inr [1, 2, 3], u)"
  by (simp add: read_to_end_def small_world_def guard_act_defs sat_add_def)

lemma sample_upload:
  "\<exists>st u. guard_connections (guard_sample UPLOAD) guard_start [sample_call] 0
     = Some (st, [Inr (\<lparr>gq_operation = UPLOAD, gq_path = ''/r/a'', gq_token = None\<rparr>,
         Granted [RootDir, Normal ''s'', Normal ''upload-1'', Normal ''a''] None)], u)"
proof -
  let ?v = "\<lparr>vi_path = small_file, vi_size_bytes = 3, vi_file = Suc 0\<rparr>"
  obtain u1 where "open_input small_world small_allowlist small_file 0 0 0 = (Inr ?v, u1)"
    using guard_sample_open [of small_file "''a''"] by (auto simp: small_file_def)
  moreover obtain u2 where "read_to_end small_world ?v u1 = (Inr [1, 2, 3], u2)" using sample_read by blast
  ultimately have "\<exists>u. stage_file (guard_sample UPLOAD) (gs_budget guard_start) small_file 0
      = (Inr (3, [RootDir, Normal ''s'', Normal ''upload-1'', Normal ''a'']), u)"
    by (simp add: stage_file_def guard_act_defs rejected_def guard_start_def small_file_def file_name_def
        upload_directory_def guard_sample_def path_join_def is_absolute_def decimal_one small_world_sel)
  then show ?thesis
    by (auto simp: guard_connection_def sample_message sample_request guard_operation_def sample_path
        stage_allowlisted_input_def guard_path_text_def guard_sample_texts answer_of_def)
qed

text \<open>The state after the preparation.\<close>

definition prepared_state :: guard_state where
  "prepared_state = guard_start\<lparr>gs_downloads := [''t-1'' \<mapsto>
     \<lparr>pd_staging_path = sample_staged, pd_destination = sample_destination\<rparr>]\<rparr>"

lemma sample_staging: "staging_path sample_destination ''t-1'' = Inr sample_staged"
proof -
  have "staging_name ''t-1'' = Inr ''.agent-remote-download-t-1.incoming''" by code_simp
  then show ?thesis
    by (simp add: staging_path_def sample_destination_def small_file_def path_parent_def path_join_def
        is_absolute_def sample_staged_def)
qed

lemma sample_staged_text: "guard_path_text m sample_staged = Inr sample_staged" "guard_path_text m small_file = Inr small_file"
  by (simp_all add: guard_path_text_def sample_staged_def small_file_def del: valid_utf8.simps add: guard_sample_texts)

lemma sample_directory: "\<exists>u. allowlist_directory small_world small_allowlist [RootDir, Normal ''r''] t
    = (Inr [RootDir, Normal ''r''], u)"
  by (simp add: allowlist_directory_def canonical_existing_directory_def reject_path_components_def is_absolute_def
      sample_world_defs guard_act_defs)

lemma sample_relative:
  "relative_to_root small_allowlist [RootDir, Normal ''r''] = Inr ([RootDir, Normal ''r''], (1, 5), [])"
  by (simp add: relative_to_root_def longest_root_def longer_root_def path_starts_with_def path_strip_prefix_def
      strip_prefix_def small_allowlist_def)

lemma sample_validated: "\<exists>u. validate_output small_world small_allowlist small_file 0 0 0 0 = (Inr sample_destination, u)"
proof -
  obtain u where dir: "allowlist_directory small_world small_allowlist [RootDir, Normal ''r''] 0
      = (Inr [RootDir, Normal ''r''], u)" using sample_directory by blast
  have parts: "path_parent small_file = Some [RootDir, Normal ''r'']" "file_name small_file = Some ''a''"
      "path_join [RootDir, Normal ''r''] [Normal ''a''] = small_file"
    by (simp_all add: path_parent_def file_name_def path_join_def is_absolute_def small_file_def)
  have budget: "check_request_budget small_allowlist 0 0 = Inr ()"
    by (simp add: check_request_budget_def sample_world_defs)
  have meta: "w_lstat small_world t small_file = Inr (meta_of True 7)" for t
    by (simp add: small_world_def small_file_def)
  have root: "open_beneath_directory small_world [RootDir, Normal ''r''] (1, 5) [] t = (Inr 0, t + 2)" for t
    by (simp add: open_beneath_directory_def open_root_directory_def file_identity_def sample_world_defs guard_act_defs)
  have regular: "\<not> fm_symlink (meta_of True 7)" "validate_regular_file small_world (meta_of True 7) = Inr ()"
      "fm_nlink (meta_of True 7) = 1" "file_identity (meta_of True 7) = (1, 7)"
    by (simp_all add: validate_regular_file_def file_identity_def sample_world_defs)
  have inside: "in_root small_allowlist small_file"
    by (simp add: in_root_def path_starts_with_def small_allowlist_def small_file_def)
  have "file_identity (meta_of False 5) = (1, 5)" "w_fstat small_world t 0 = Inr (meta_of False 5)" for t
    by (simp_all add: file_identity_def sample_world_defs)
  with dir parts budget meta root regular inside sample_relative show ?thesis
    by (simp add: validate_output_def guard_act_defs sample_destination_def small_allowlist_def
        default_allowlist_limits_def sat_add_def)
qed

lemma guard_sample_prepared:
  "\<exists>u. guard_connections (guard_sample PREPARE_DOWNLOAD) guard_start [sample_call] 0
     = Some (prepared_state, [Inr (\<lparr>gq_operation = PREPARE_DOWNLOAD, gq_path = ''/r/a'', gq_token = None\<rparr>,
         Granted sample_staged (Some ''t-1''))], u)"
proof -
  have budget: "gb_total_bytes (gs_budget guard_start) = 0" "gb_file_count (gs_budget guard_start) = 0"
    "gs_downloads guard_start = Map.empty" by (simp_all add: guard_start_def)
  obtain u where "validate_output small_world small_allowlist small_file 0 0 0 0 = (Inr sample_destination, u)"
    using sample_validated by blast
  then have "prepare_allowlisted_output (guard_sample PREPARE_DOWNLOAD) guard_start small_file (gc_draws sample_call) 0
      = Some (prepared_state, Inr (sample_staged, ''t-1''), u)"
    by (simp add: prepare_allowlisted_output_def rejected_def budget fresh_token_def sample_call_def
        sample_staging sample_staged_text prepared_state_def)
  then show ?thesis
    by (simp add: guard_connection_def sample_message sample_request guard_operation_def sample_path answer_of_def)
qed

lemma sample_replaced: "\<exists>u. replace_atomically small_world sample_destination [1, 2, 3] ''t-1'' ''u-1'' t = (Inr (), u)"
proof -
  have "commit_name ''u-1'' ''t-1'' = Inr ''.agent-remote-download-t-1-u-1.commit''" by code_simp
  then show ?thesis
    by (simp add: replace_atomically_def open_parent_def sample_destination_def open_output_at_def
      validate_target_at_def inspect_output_at_def rename_at_def write_flags_def
      sample_open_defs sample_world_defs guard_act_defs)
qed

lemma sample_committed:
  "\<exists>st' u. commit_allowlisted_output (guard_sample PREPARE_DOWNLOAD) prepared_state sample_staged ''t-1'' ''u-1'' 0
     = (st', Inr small_file, u)"
proof -
  let ?v = "\<lparr>vi_path = sample_staged, vi_size_bytes = 3, vi_file = Suc 0\<rparr>"
  have budget: "gb_total_bytes (gs_budget prepared_state) = 0" "gb_file_count (gs_budget prepared_state) = 0"
    by (simp_all add: prepared_state_def guard_start_def)
  obtain u1 where "open_input small_world small_allowlist sample_staged 0 0 0 = (Inr ?v, u1)"
    using guard_sample_open [OF sample_staged_def] by auto
  moreover obtain u2 where "read_to_end small_world ?v u1 = (Inr [1, 2, 3], u2)" using sample_read by blast
  moreover obtain u3 where "replace_atomically small_world sample_destination [1, 2, 3] ''t-1'' ''u-1'' u2 = (Inr (), u3)"
    using sample_replaced by blast
  ultimately have "replace_staged (guard_sample PREPARE_DOWNLOAD) (gs_budget prepared_state) sample_staged
      sample_destination ''t-1'' ''u-1'' 0 = (Inr 3, u3)"
    by (simp add: replace_staged_def guard_act_defs rejected_def budget)
  moreover have "vo_path sample_destination = small_file" by (simp add: sample_destination_def)
  ultimately show ?thesis
    by (simp add: commit_allowlisted_output_def prepared_state_def sample_staged_text)
qed

section \<open>The properties on it\<close>


theorem commit_installs_prepared_witness:
  "\<exists>st' u t. commit_allowlisted_output (guard_sample PREPARE_DOWNLOAD) prepared_state sample_staged ''t-1'' ''u-1'' 0
     = (st', Inr small_file, u) \<and> gs_downloads st' = (gs_downloads prepared_state)(''t-1'' := None) \<and>
     validated (guard_sample PREPARE_DOWNLOAD) sample_destination"
proof -
  obtain u1 where prepared: "guard_connections (guard_sample PREPARE_DOWNLOAD) guard_start [sample_call] 0
     = Some (prepared_state, [Inr (\<lparr>gq_operation = PREPARE_DOWNLOAD, gq_path = ''/r/a'', gq_token = None\<rparr>,
         Granted sample_staged (Some ''t-1''))], u1)" using guard_sample_prepared by blast
  obtain st' u where commit: "commit_allowlisted_output (guard_sample PREPARE_DOWNLOAD) prepared_state sample_staged
      ''t-1'' ''u-1'' 0 = (st', Inr small_file, u)" using sample_committed by blast
  have "gs_downloads prepared_state ''t-1''
      = Some \<lparr>pd_staging_path = sample_staged, pd_destination = sample_destination\<rparr>"
    by (simp add: prepared_state_def)
  with commit_installs_prepared [OF prepared commit] commit show ?thesis by auto
qed

theorem token_found_witness:
  "prepare_allowlisted_output (guard_sample PREPARE_DOWNLOAD) prepared_state small_file
     (map (\<lambda>n. replicate n (CHR ''t'')) [0..<200]) 0 \<noteq> None"
proof -
  obtain u where prepared: "guard_connections (guard_sample PREPARE_DOWNLOAD) guard_start [sample_call] 0
     = Some (prepared_state, [Inr (\<lparr>gq_operation = PREPARE_DOWNLOAD, gq_path = ''/r/a'', gq_token = None\<rparr>,
         Granted sample_staged (Some ''t-1''))], u)" using guard_sample_prepared by blast
  have "distinct (map (\<lambda>n. replicate n (CHR ''t'')) [0..<200])"
    by (simp add: distinct_map inj_on_def replicate_eq_replicate)
  then show ?thesis
    by (rule token_found [OF prepared]) (simp add: sample_world_defs)
qed

end
