(* ===== verification/Learning_Tool.thy ===== *)
theory Learning_Tool
  imports Learning_Bundle Local_Policy
begin

text \<open>
  The offline tool that prepares, signs and verifies learning bundles,
  \<open>crates/protocol/src/bin/ego-browser-learning-bundle.rs\<close>: the manifest of a directory, the files of keys,
  the commands.  A walk over directories takes the number of directories that it may read; \<open>tool_walks_end\<close>
  in \<open>Learning_Tool_Properties\<close> says when there is such a number.
\<close>

section \<open>Surroundings\<close>

definition MAX_KEY_BYTES :: u64 where "MAX_KEY_BYTES = 4096"
definition MAX_FILES :: nat where "MAX_FILES = 4096"
definition MAX_TOTAL_BYTES :: u64 where "MAX_TOTAL_BYTES = 256 * 1024 * 1024"

definition TRUSTED_LEARNING_BUNDLE_PUBLIC_KEY :: bytes where
  "TRUSTED_LEARNING_BUNDLE_PUBLIC_KEY =
     [0xbb, 0xc5, 0x82, 0x3b, 0xa3, 0x62, 0xc8, 0x66, 0xe1, 0xfa, 0xe6, 0x19, 0x98, 0x65, 0x2c, 0x5b,
      0x26, 0xab, 0x50, 0x46, 0x54, 0x6a, 0x8e, 0x93, 0xf0, 0xf9, 0xa5, 0xb7, 0x52, 0xb1, 0xf8, 0x9b]"

text \<open>The texts of errors; \<open>OfPath\<close> shows a path behind its text.\<close>

datatype tool_error = Said string | OfPath string path | OfIo io_error | OfBundle learning_error

text \<open>Creation of a file with its mode, \<open>rename\<close>, \<open>remove_file\<close>, the standard output, base64, the
  signature scheme and the printer of \<open>serde_json\<close>.\<close>

record tool_env =
  te_learning :: learning_env
  te_world :: world
  te_create :: "nat \<Rightarrow> path \<Rightarrow> u32 \<Rightarrow> io_error + handle"
  te_rename :: "nat \<Rightarrow> path \<Rightarrow> path \<Rightarrow> io_error + unit"
  te_remove :: "nat \<Rightarrow> path \<Rightarrow> io_error + unit"
  te_stdout :: "nat \<Rightarrow> bytes \<Rightarrow> io_error + unit"
  te_encode :: "bytes \<Rightarrow> string"
  te_url_decode :: "string \<Rightarrow> bytes option"
  te_public :: "bytes \<Rightarrow> bytes"
  te_sign :: "bytes \<Rightarrow> bytes \<Rightarrow> bytes"
  te_to_vec_pretty :: "json \<Rightarrow> bytes"
  te_pid :: string

section \<open>Arguments and names\<close>

text \<open>The first neighbour of a name is its value.\<close>

fun tool_option :: "string list \<Rightarrow> string \<Rightarrow> string option" where
  "tool_option (a # b # rest) name = (if a = name then Some b else tool_option (b # rest) name)"
| "tool_option _ name = None"

definition required :: "string list \<Rightarrow> string \<Rightarrow> tool_error + string" where
  "required args name = ok_or (Said (name @ '' is required'')) (tool_option args name)"

definition required_path :: "string list \<Rightarrow> string \<Rightarrow> tool_error + path" where
  "required_path args name = bind_r (required args name) (\<lambda>s. Inr (path_of s))"

definition validate_token :: "string \<Rightarrow> string \<Rightarrow> tool_error + unit" where
  "validate_token v label =
     ensure (\<not> (v = [] \<or> length v > 128 \<or> \<not> list_all (\<lambda>b. is_ascii_alphanumeric b \<or> b \<in> set ''._+-'') v))
       (Said (label @ '' is invalid''))"

definition validate_relative :: "path \<Rightarrow> tool_error + unit" where
  "validate_relative p =
     ensure (\<not> (is_absolute p \<or> list_ex (\<lambda>c. c = CurDir \<or> c = ParentDir \<or> c = RootDir) p))
       (Said ''learning bundle path is invalid'')"

definition tool_no_symlinks :: "tool_env \<Rightarrow> path \<Rightarrow> (tool_error, unit) act" where
  "tool_no_symlinks env p =
     each (\<lambda>i. bind_a (try_sys (\<lambda>t. w_lstat (te_world env) t (take i p))) (\<lambda>r. case r of
         Inr m \<Rightarrow> check (\<not> fm_symlink m) (Said ''path contains a symlink'')
       | Inl _ \<Rightarrow> ret ())) [1..<Suc (length p)]"

definition canonical_bundle_root :: "tool_env \<Rightarrow> path \<Rightarrow> (tool_error, path) act" where
  "canonical_bundle_root env p =
     bind_a (check (is_absolute p) (Said ''bundle root must be absolute'')) (\<lambda>_.
     bind_a (tool_no_symlinks env p) (\<lambda>_.
     bind_a (sys OfIo (\<lambda>t. w_canonicalize (te_world env) t p)) (\<lambda>canonical.
     bind_a (check (canonical = p) (Said ''bundle root must already be canonical'')) (\<lambda>_.
     bind_a (sys OfIo (\<lambda>t. w_lstat (te_world env) t canonical)) (\<lambda>m.
     bind_a (check (\<not> (fm_symlink m \<or> \<not> fm_dir m)) (Said ''bundle root must be a non-symlink directory''))
       (\<lambda>_. ret canonical))))))"

definition absolute_path :: "tool_env \<Rightarrow> string \<Rightarrow> (tool_error, path) act" where
  "absolute_path env v =
     bind_a (check (is_absolute (path_of v)) (Said ''output path must be absolute'')) (\<lambda>_.
     bind_a (tool_no_symlinks env (case path_parent (path_of v) of None \<Rightarrow> [RootDir] | Some p \<Rightarrow> p)) (\<lambda>_.
       ret (path_of v)))"

section \<open>The files of the manifest\<close>

text \<open>The directories that are still to be read, the next one first; the paths found, and the sum of
  their sizes.\<close>

record payload =
  py_pending :: "path list"
  py_paths :: "string list"
  py_total :: u64

definition payload_file :: "path \<Rightarrow> path \<Rightarrow> file_meta \<Rightarrow> payload \<Rightarrow> tool_error + payload" where
  "payload_file root p m s =
     bind_r (ok_or (Said ''learning path escaped bundle root'') (path_strip_prefix p root)) (\<lambda>relative.
     bind_r (validate_relative relative) (\<lambda>_.
     bind_r (ok_or (Said ''learning path is not UTF-8'') (path_to_str relative)) (\<lambda>text.
     bind_r (ensure (text \<notin> set (py_paths s)) (Said ''duplicate learning path'')) (\<lambda>_.
     bind_r (ok_or (Said ''learning bundle size overflow'') (checked_add (py_total s) (fm_len m))) (\<lambda>total.
     bind_r (ensure (\<not> (length (text # py_paths s) > MAX_FILES \<or> total > MAX_TOTAL_BYTES))
        (Said ''learning bundle exceeds file or byte limits'')) (\<lambda>_.
       Inr (s\<lparr>py_paths := text # py_paths s, py_total := total\<rparr>)))))))"

definition payload_entry :: "tool_env \<Rightarrow> path \<Rightarrow> path \<Rightarrow> payload \<Rightarrow> (tool_error, payload) act" where
  "payload_entry env root p s =
     bind_a (sys OfIo (\<lambda>t. w_lstat (te_world env) t p)) (\<lambda>m.
       if fm_symlink m then fail (OfPath ''learning bundle contains symlink: '' p)
       else if fm_dir m then ret (s\<lparr>py_pending := p # py_pending s\<rparr>)
       else if fm_file m then lift_r (payload_file root p m s)
       else fail (OfPath ''learning bundle contains non-regular entry: '' p))"

fun payload_entries :: "tool_env \<Rightarrow> path \<Rightarrow> path list \<Rightarrow> payload \<Rightarrow> (tool_error, payload) act" where
  "payload_entries env root [] s = ret s"
| "payload_entries env root (p # ps) s = bind_a (payload_entry env root p s) (payload_entries env root ps)"

definition payload_directory :: "tool_env \<Rightarrow> path \<Rightarrow> path \<Rightarrow> payload \<Rightarrow> (tool_error, payload) act" where
  "payload_directory env root directory s =
     bind_a (sys OfIo (\<lambda>t. w_read_dir (te_world env) t directory)) (\<lambda>entries.
     bind_a (lift_r (map_err OfIo (traverse_r (\<lambda>e. e) entries))) (\<lambda>ps.
       payload_entries env root (sort_key (\<lambda>p. component_text (last p)) ps) s))"

text \<open>The loop that both walks of the tool are: it takes a directory from the stack \<open>pending\<close> and lets \<open>visit\<close> push
  others, until the stack is empty.\<close>

fun drain :: "nat \<Rightarrow> ('s \<Rightarrow> path list) \<Rightarrow> (path \<Rightarrow> 's \<Rightarrow> ('e, 's) act) \<Rightarrow> 's \<Rightarrow> ('e, 's) walk" where
  "drain 0 pending visit s = (if pending s = [] then walk_act (ret s) else (\<lambda>t. None))"
| "drain (Suc n) pending visit s =
     (case pending s of
        [] \<Rightarrow> walk_act (ret s)
      | directory # _ \<Rightarrow> walk_then (walk_act (visit directory s)) (drain n pending visit))"

definition payload_visit :: "tool_env \<Rightarrow> path \<Rightarrow> path \<Rightarrow> payload \<Rightarrow> (tool_error, payload) act" where
  "payload_visit env root directory s = payload_directory env root directory (s\<lparr>py_pending := tl (py_pending s)\<rparr>)"

definition learning_file_of :: "tool_env \<Rightarrow> path \<Rightarrow> string \<Rightarrow> (tool_error, learning_file) act" where
  "learning_file_of env root relative =
     bind_a (sys OfIo (\<lambda>t. w_open (te_world env) t (path_join root (path_of relative)) read_flags)) (\<lambda>h.
     bind_a (sys OfIo (\<lambda>t. w_read (te_world env) t h)) (\<lambda>content.
       ret \<lparr>lf_path = relative, lf_size_bytes = of_nat (length content),
            lf_sha256 = le_sha256_hex (te_learning env) content\<rparr>))"

fun learning_files :: "tool_env \<Rightarrow> path \<Rightarrow> string list \<Rightarrow> (tool_error, learning_file list) act" where
  "learning_files env root [] = ret []"
| "learning_files env root (r # rs) =
     bind_a (learning_file_of env root r) (\<lambda>f. bind_a (learning_files env root rs) (\<lambda>fs. ret (f # fs)))"

definition learning_root :: "tool_env \<Rightarrow> path \<Rightarrow> (tool_error, path) act" where
  "learning_root env root =
     (let p = path_join root [Normal ''learnings''] in
      bind_a (sys (\<lambda>_. Said ''bundle must contain a learnings directory'') (\<lambda>t. w_lstat (te_world env) t p)) (\<lambda>m.
      bind_a (check (\<not> (fm_symlink m \<or> \<not> fm_dir m)) (Said ''learnings must be a non-symlink directory''))
        (\<lambda>_. ret p)))"

definition collect_files :: "nat \<Rightarrow> tool_env \<Rightarrow> path \<Rightarrow> (tool_error, learning_file list) walk" where
  "collect_files n env root =
     walk_then (walk_act (learning_root env root)) (\<lambda>p.
     walk_then (drain n py_pending (payload_visit env root) \<lparr>py_pending = [p], py_paths = [], py_total = 0\<rparr>) (\<lambda>s.
       walk_act (learning_files env root (sort (py_paths s)))))"

definition build_manifest ::
  "nat \<Rightarrow> tool_env \<Rightarrow> path \<Rightarrow> string \<Rightarrow> string \<Rightarrow> (tool_error, learning_manifest) walk" where
  "build_manifest n env root bundle_version signing_key_id =
     walk_then (walk_act (lift_r (validate_token bundle_version ''bundle version''))) (\<lambda>_.
     walk_then (walk_act (lift_r (validate_token signing_key_id ''signing key ID''))) (\<lambda>_.
     walk_then (collect_files n env root) (\<lambda>files.
     walk_then (walk_act (check (files \<noteq> []) (Said ''learning bundle contains no payload files''))) (\<lambda>_.
       walk_act (ret \<lparr>lm_bundle_version = bundle_version, lm_skill_version = SUPPORTED_SKILL_VERSION,
         lm_local_ego_browser_runtime_version = SUPPORTED_LOCAL_RUNTIME_VERSION,
         lm_protocol_versions = [PROTOCOL_VERSION], lm_files = files, lm_signing_key_id = signing_key_id,
         lm_signature = []\<rparr>)))))"

section \<open>The files of keys\<close>

definition read_key_file :: "tool_env \<Rightarrow> path \<Rightarrow> bool \<Rightarrow> (tool_error, bytes) act" where
  "read_key_file env p secret =
     bind_a (check (is_absolute p) (Said ''key file path must be absolute'')) (\<lambda>_.
     bind_a (tool_no_symlinks env p) (\<lambda>_.
     bind_a (sys OfIo (\<lambda>t. w_lstat (te_world env) t p)) (\<lambda>m.
     bind_a (check (\<not> (fm_symlink m \<or> \<not> fm_file m \<or> fm_len m > MAX_KEY_BYTES))
        (Said ''key path must be a small regular file'')) (\<lambda>_.
     bind_a (check (\<not> (secret \<and> (fm_uid m \<noteq> w_euid (te_world env) \<or> fm_nlink m \<noteq> 1 \<or> mode_bits m 0x3F \<noteq> 0)))
        (Said ''private key file must be owner-only, singly linked, and owned by the current UID'')) (\<lambda>_.
     bind_a (sys OfIo (\<lambda>t. w_open (te_world env) t p read_flags)) (\<lambda>h.
     bind_a (sys OfIo (\<lambda>t. w_read (te_world env) t h)) (\<lambda>content.
     let bs = take (unat (MAX_KEY_BYTES + 1)) content in
     bind_a (check (\<not> length bs > unat MAX_KEY_BYTES) (Said ''key file exceeds size limit'')) (\<lambda>_.
       ret bs))))))))"

text \<open>32 bytes are a key, anything else is its text in one of two alphabets.\<close>

definition decode_key :: "tool_env \<Rightarrow> bytes \<Rightarrow> tool_error + bytes" where
  "decode_key env bs =
     (if length bs = 32 then Inr bs
      else let text = trim (str_of_bytes bs) in
      bind_r (ensure (valid_utf8 (str_of_bytes bs)) (Said ''key file must contain raw bytes or base64'')) (\<lambda>_.
        ok_or (Said ''key file base64 is invalid'')
          (case le_base64 (te_learning env) text of Some key \<Rightarrow> Some key | None \<Rightarrow> te_url_decode env text)))"

definition load_signing_key :: "tool_env \<Rightarrow> path \<Rightarrow> (tool_error, bytes) act" where
  "load_signing_key env p =
     bind_a (read_key_file env p True) (\<lambda>bs.
     bind_a (lift_r (decode_key env bs)) (\<lambda>key.
     bind_a (check (length key = 32) (Said ''Ed25519 private key must contain exactly 32 bytes'')) (\<lambda>_. ret key)))"

definition load_verifying_key :: "tool_env \<Rightarrow> path \<Rightarrow> (tool_error, bytes) act" where
  "load_verifying_key env p =
     bind_a (read_key_file env p False) (\<lambda>bs.
     bind_a (lift_r (decode_key env bs)) (\<lambda>key.
     bind_a (check (length key = 32) (Said ''Ed25519 public key must contain exactly 32 bytes'')) (\<lambda>_.
     bind_a (check (le_key (te_learning env) key) (Said ''Ed25519 public key is invalid'')) (\<lambda>_. ret key))))"

section \<open>Writing\<close>

definition write_new_file :: "tool_env \<Rightarrow> path \<Rightarrow> bytes \<Rightarrow> u32 \<Rightarrow> (tool_error, unit) act" where
  "write_new_file env p bs mode =
     bind_a (sys OfIo (\<lambda>t. te_create env t p mode)) (\<lambda>h.
     bind_a (sys OfIo (\<lambda>t. w_write (te_world env) t h bs)) (\<lambda>_.
       sys OfIo (\<lambda>t. w_sync (te_world env) t h)))"

definition atomic_write :: "tool_env \<Rightarrow> path \<Rightarrow> bytes \<Rightarrow> u32 \<Rightarrow> (tool_error, unit) act" where
  "atomic_write env p bs mode =
     bind_a (lift_r (ok_or (Said ''output path has no parent'') (path_parent p))) (\<lambda>parent.
     let temporary = path_join parent [Normal (''.manifest.json.tmp-'' @ te_pid env)] in
     on_error (bind_a (write_new_file env temporary bs mode) (\<lambda>_.
         sys OfIo (\<lambda>t. te_rename env t temporary p)))
       (try_sys (\<lambda>t. te_remove env t temporary)))"

definition pretty_manifest :: "tool_env \<Rightarrow> learning_manifest \<Rightarrow> bytes" where
  "pretty_manifest env m = te_to_vec_pretty env (JObject
     [(''bundle_version'', JString (lm_bundle_version m)),
      (''skill_version'', JString (lm_skill_version m)),
      (''local_ego_browser_runtime_version'', JString (lm_local_ego_browser_runtime_version m)),
      (''protocol_versions'', JArray (map JString (lm_protocol_versions m))),
      (''files'', JArray (map (\<lambda>f. JObject [(''path'', JString (lf_path f)),
         (''size_bytes'', JNumber (PosInt (lf_size_bytes f))), (''sha256'', JString (lf_sha256 f))]) (lm_files m))),
      (''signing_key_id'', JString (lm_signing_key_id m)),
      (''signature'', JString (lm_signature m))]) @ [0x0A]"

text \<open>Every file becomes read-only as it is met, the directories at the end and the deepest first.\<close>

record sealing_walk =
  sw_pending :: "path list"
  sw_directories :: "path list"

definition read_only_entry :: "tool_env \<Rightarrow> io_error + path \<Rightarrow> sealing_walk \<Rightarrow> (tool_error, sealing_walk) act" where
  "read_only_entry env entry s =
     bind_a (lift_r (map_err OfIo entry)) (\<lambda>p.
     bind_a (sys OfIo (\<lambda>t. w_lstat (te_world env) t p)) (\<lambda>m.
       if fm_symlink m then fail (Said ''learning bundle contains a symlink'')
       else if fm_dir m then ret (s\<lparr>sw_pending := p # sw_pending s\<rparr>)
       else if fm_file m then bind_a (sys OfIo (\<lambda>t. w_chmod_path (te_world env) t p 0x100)) (\<lambda>_. ret s)
       else fail (Said ''learning bundle contains a non-regular entry'')))"

fun read_only_entries ::
  "tool_env \<Rightarrow> (io_error + path) list \<Rightarrow> sealing_walk \<Rightarrow> (tool_error, sealing_walk) act" where
  "read_only_entries env [] s = ret s"
| "read_only_entries env (e # es) s = bind_a (read_only_entry env e s) (read_only_entries env es)"

definition read_only_directory :: "tool_env \<Rightarrow> path \<Rightarrow> sealing_walk \<Rightarrow> (tool_error, sealing_walk) act" where
  "read_only_directory env directory s =
     bind_a (sys OfIo (\<lambda>t. w_read_dir (te_world env) t directory)) (\<lambda>entries.
       read_only_entries env entries
         (s\<lparr>sw_pending := tl (sw_pending s), sw_directories := sw_directories s @ [directory]\<rparr>))"

definition make_bundle_read_only :: "nat \<Rightarrow> tool_env \<Rightarrow> path \<Rightarrow> (tool_error, unit) walk" where
  "make_bundle_read_only n env root =
     walk_then (drain n sw_pending (read_only_directory env) \<lparr>sw_pending = [root], sw_directories = []\<rparr>) (\<lambda>s.
       walk_act (each (\<lambda>d. sys OfIo (\<lambda>t. w_chmod_path (te_world env) t d 0x140))
         (sort_key (\<lambda>d. - int (length d)) (sw_directories s))))"

section \<open>The commands\<close>

definition output_outside :: "tool_env \<Rightarrow> path \<Rightarrow> string \<Rightarrow> string \<Rightarrow> (tool_error, path) act" where
  "output_outside env root v message =
     bind_a (absolute_path env v) (\<lambda>p.
     bind_a (check (\<not> path_starts_with p root) (Said message)) (\<lambda>_. ret p))"

definition manifest_command :: "nat \<Rightarrow> tool_env \<Rightarrow> string list \<Rightarrow> (tool_error, unit) walk" where
  "manifest_command n env args =
     walk_then (walk_act (bind_a (lift_r (required_path args ''--bundle'')) (canonical_bundle_root env))) (\<lambda>root.
     walk_then (walk_act (lift_r (required args ''--bundle-version''))) (\<lambda>version.
     walk_then (walk_act (lift_r (required args ''--signing-key-id''))) (\<lambda>key_id.
     walk_then (build_manifest n env root version key_id) (\<lambda>m.
       walk_act (case tool_option args ''--output'' of
           Some v \<Rightarrow> bind_a (output_outside env root v ''unsigned manifest output must be outside the bundle root'')
             (\<lambda>p. write_new_file env p (pretty_manifest env m) 0x180)
         | None \<Rightarrow> sys OfIo (\<lambda>t. te_stdout env t (pretty_manifest env m)))))))"

definition signed_manifest :: "tool_env \<Rightarrow> bytes \<Rightarrow> learning_manifest \<Rightarrow> learning_manifest" where
  "signed_manifest env key m =
     m\<lparr>lm_signature := te_encode env (te_sign env key (signed_bytes (te_learning env) m))\<rparr>"

definition install_manifest :: "tool_env \<Rightarrow> path \<Rightarrow> learning_manifest \<Rightarrow> (tool_error, unit) act" where
  "install_manifest env root m =
     (let p = path_join root manifest_path in
      bind_a (try_sys (\<lambda>t. w_lstat (te_world env) t p)) (\<lambda>r.
      bind_a (check (\<not> is_ok r)
        (Said ''manifest.json already exists; remove it explicitly before offline signing'')) (\<lambda>_.
        atomic_write env p (pretty_manifest env m) 0x180)))"

definition write_public_key :: "tool_env \<Rightarrow> path \<Rightarrow> bytes \<Rightarrow> string list \<Rightarrow> (tool_error, unit) act" where
  "write_public_key env root key args =
     (case tool_option args ''--public-key-output'' of
        None \<Rightarrow> ret ()
      | Some v \<Rightarrow> bind_a (output_outside env root v ''public key output must be outside the bundle root'')
          (\<lambda>p. write_new_file env p (as_bytes (te_encode env (te_public env key) @ [CHR 0x0A])) 0x1A4))"

definition verified_digest ::
  "tool_env \<Rightarrow> path \<Rightarrow> bytes \<Rightarrow> string \<Rightarrow> string \<Rightarrow> (tool_error, string) act" where
  "verified_digest env root key skill runtime =
     (\<lambda>t. case verify_learning_bundle (te_learning env) (te_world env) root key skill runtime t of
        (r, u) \<Rightarrow> (map_err OfBundle r, u))"

definition sign_command :: "nat \<Rightarrow> tool_env \<Rightarrow> string list \<Rightarrow> (tool_error, string) walk" where
  "sign_command n env args =
     walk_then (walk_act (bind_a (lift_r (required_path args ''--bundle'')) (canonical_bundle_root env))) (\<lambda>root.
     walk_then (walk_act (bind_a (lift_r (required_path args ''--private-key-file'')) (load_signing_key env))) (\<lambda>key.
     walk_then (walk_act (lift_r (required args ''--bundle-version''))) (\<lambda>version.
     walk_then (walk_act (lift_r (required args ''--signing-key-id''))) (\<lambda>key_id.
     walk_then (build_manifest n env root version key_id) (\<lambda>m.
     walk_then (walk_act (install_manifest env root (signed_manifest env key m))) (\<lambda>_.
     walk_then (make_bundle_read_only n env root) (\<lambda>_.
     walk_then (walk_act (write_public_key env root key args)) (\<lambda>_.
       walk_act (verified_digest env root (te_public env key) SUPPORTED_SKILL_VERSION
         SUPPORTED_LOCAL_RUNTIME_VERSION)))))))))"

definition verify_command :: "tool_env \<Rightarrow> string list \<Rightarrow> (tool_error, string) act" where
  "verify_command env args =
     bind_a (lift_r (required_path args ''--bundle'')) (\<lambda>p.
     bind_a (canonical_bundle_root env p) (\<lambda>root.
     bind_a (case tool_option args ''--public-key-file'' of
         Some f \<Rightarrow> load_verifying_key env (path_of f)
       | None \<Rightarrow> bind_a (check (le_key (te_learning env) TRUSTED_LEARNING_BUNDLE_PUBLIC_KEY)
           (Said ''embedded learning bundle public key is invalid'')) (\<lambda>_. ret TRUSTED_LEARNING_BUNDLE_PUBLIC_KEY))
       (\<lambda>key.
     let skill = (case tool_option args ''--skill-version'' of None \<Rightarrow> SUPPORTED_SKILL_VERSION | Some s \<Rightarrow> s);
         runtime = (case tool_option args ''--runtime-version'' of
           None \<Rightarrow> SUPPORTED_LOCAL_RUNTIME_VERSION | Some s \<Rightarrow> s)
     in verified_digest env root key skill runtime)))"

text \<open>What is printed: the digest of a bundle, or nothing more than the command wrote itself.\<close>

definition run_learning_tool :: "nat \<Rightarrow> tool_env \<Rightarrow> string list \<Rightarrow> (tool_error, string option) walk" where
  "run_learning_tool n env args =
     (let command = (case args of [] \<Rightarrow> ''help'' | c # _ \<Rightarrow> c); rest = drop 1 args in
      if command = ''manifest'' then walk_then (manifest_command n env rest) (\<lambda>_. walk_act (ret None))
      else if command = ''sign'' then walk_then (sign_command n env rest) (\<lambda>d. walk_act (ret (Some d)))
      else if command = ''verify'' then walk_act (bind_a (verify_command env rest) (\<lambda>d. ret (Some d)))
      else if command \<in> {''help'', ''--help'', ''-h''} then walk_act (ret None)
      else walk_act (fail (Said ''unknown command; use --help'')))"

end
