(* ===== verification/Learning_Tool_Properties.thy ===== *)
theory Learning_Tool_Properties
  imports Learning_Tool Learning_Properties "HOL-Library.Multiset_Order"
begin

text \<open>
  What the learning tool promises: its walks end, the manifest that it builds is one that the verifier's first
  checks accept, and a bundle that it signed is one that verifies under the key of the owner's file.
\<close>

section \<open>Walks end\<close>

text \<open>A walk settles when every large amount of fuel gives the same result.\<close>

definition settles :: "(nat \<Rightarrow> ('e, 'a) walk) \<Rightarrow> nat \<Rightarrow> bool" where
  "settles f t \<longleftrightarrow> (\<exists>r n. \<forall>m\<ge>n. f m t = Some r)"

lemma settles_const [simp]: "settles (\<lambda>n. walk_act m) t"
  by (auto simp: settles_def walk_act_def)

lemma settles_then:
  assumes "settles m t" "\<And>x u. settles (\<lambda>n. f n x) u"
  shows "settles (\<lambda>n. walk_then (m n) (f n)) t"
proof -
  from assms(1) obtain r u n where n: "\<And>k. k \<ge> n \<Longrightarrow> m k t = Some (r, u)" by (auto simp: settles_def)
  show ?thesis
  proof (cases r)
    case (Inl e)
    with n have "walk_then (m k) (f k) t = Some (Inl e, u)" if "k \<ge> n" for k
      using that by (simp add: walk_then_def)
    then show ?thesis by (auto simp: settles_def)
  next
    case (Inr x)
    from assms(2) obtain r' n' where n': "\<And>k. k \<ge> n' \<Longrightarrow> f k x u = Some r'" by (auto simp: settles_def) blast
    have "walk_then (m k) (f k) t = Some r'" if "k \<ge> max n n'" for k
      using that n n' Inr by (simp add: walk_then_def)
    then show ?thesis unfolding settles_def by blast
  qed
qed

lemma settles_act_then: "(\<And>x u. settles (\<lambda>n. f n x) u) \<Longrightarrow> settles (\<lambda>n. walk_then (walk_act m) (f n)) t"
  by (rule settles_then) simp_all

text \<open>Every directory is replaced on the stack by entries of smaller rank, so the multiset of the ranks on the
  stack gets smaller.\<close>

lemma ranks_smaller:
  fixes rank :: "path \<Rightarrow> nat"
  assumes "list_all (\<lambda>q. rank q < rank d) new"
  shows "mset (map rank (new @ rest)) < mset (map rank (d # rest))"
proof -
  have "(mset (map rank rest) + mset (map rank new), mset (map rank rest) + {#rank d#}) \<in> mult {(a, b). a < b}"
    using assms by (intro one_step_implies_mult) (auto simp: list_all_iff)
  then show ?thesis by (simp add: less_multiset_def multp_def add.commute)
qed

lemma drain_settles:
  fixes rank :: "path \<Rightarrow> nat"
  assumes visit: "\<And>d rest s t s' u. pending s = d # rest \<Longrightarrow> visit d s t = (Inr s', u) \<Longrightarrow>
      \<exists>new. pending s' = new @ rest \<and> list_all (\<lambda>q. rank q < rank d) new"
  shows "settles (\<lambda>n. drain n pending visit s) t"
proof (induction "mset (map rank (pending s))" arbitrary: s t rule: less_induct)
  case (less s t)
  show ?case
  proof (cases "pending s")
    case Nil
    have "drain n pending visit s t = Some (Inr s, t)" for n
      by (cases n) (simp_all add: Nil walk_act_def ret_def)
    then show ?thesis unfolding settles_def by blast
  next
    case (Cons d rest)
    obtain r u where ru: "visit d s t = (r, u)" by (cases "visit d s t")
    show ?thesis
    proof (cases r)
      case (Inl e)
      have "drain n pending visit s t = Some (Inl e, u)" if "n \<ge> 1" for n
        using that by (cases n) (simp_all add: Cons ru Inl walk_then_def walk_act_def)
      then show ?thesis unfolding settles_def by blast
    next
      case (Inr s')
      from visit [OF Cons ru [unfolded Inr]] obtain new where "pending s' = new @ rest"
        "list_all (\<lambda>q. rank q < rank d) new" by blast
      then have "mset (map rank (pending s')) < mset (map rank (pending s))"
        using ranks_smaller Cons by metis
      from less [OF this] obtain x n where n: "\<And>m. m \<ge> n \<Longrightarrow> drain m pending visit s' u = Some x"
        by (auto simp: settles_def) blast
      have "drain m pending visit s t = Some x" if "m \<ge> Suc n" for m
        using that n by (cases m) (simp_all add: Cons ru Inr walk_then_def walk_act_def)
      then show ?thesis unfolding settles_def by blast
    qed
  qed
qed

lemma payload_entry_pending:
  assumes "payload_entry env root p s t = (Inr s', u)"
  shows "py_pending s' = p # py_pending s \<or> py_pending s' = py_pending s"
  using assms by (auto simp: payload_entry_def payload_file_def bind_r_Inr_iff split: if_splits)

lemma payload_entries_pending:
  "payload_entries env root ps s t = (Inr s', u) \<Longrightarrow>
     \<exists>new. py_pending s' = new @ py_pending s \<and> set new \<subseteq> set ps"
proof (induction ps arbitrary: s t)
  case (Cons p ps)
  then obtain s1 t1 where one: "payload_entry env root p s t = (Inr s1, t1)"
    and rest: "payload_entries env root ps s1 t1 = (Inr s', u)" by auto
  from Cons.IH [OF rest] obtain new where "py_pending s' = new @ py_pending s1" "set new \<subseteq> set ps" by blast
  with payload_entry_pending [OF one] show ?case
    by (elim disjE) (auto intro: exI [of _ "new @ [p]"] exI [of _ new])
qed simp

lemma payload_visit_ranks:
  assumes "nests_below (te_world env) rank" "py_pending s = d # rest" "payload_visit env root d s t = (Inr s', u)"
  shows "\<exists>new. py_pending s' = new @ rest \<and> list_all (\<lambda>q. rank q < rank d) new"
proof -
  obtain es ps t1 where dir: "w_read_dir (te_world env) t d = Inr es" "list_all2 (\<lambda>x y. x = Inr y) es ps"
    and walk: "payload_entries env root (sort_key (\<lambda>p. component_text (last p)) ps)
      (s\<lparr>py_pending := rest\<rparr>) t1 = (Inr s', u)"
    using assms(2,3) by (auto simp: payload_visit_def payload_directory_def traverse_r_iff)
  from payload_entries_pending [OF walk] obtain new where "py_pending s' = new @ rest" "set new \<subseteq> set ps" by auto
  moreover have listed: "Inr q \<in> set es" if "q \<in> set ps" for q
    using dir(2) that by (auto simp: list_all2_conv_all_nth in_set_conv_nth)
  have "rank q < rank d" if "q \<in> set ps" for q
    using assms(1) dir(1) listed [OF that] unfolding nests_below_def by blast
  ultimately show ?thesis by (auto simp: list_all_iff)
qed

lemma read_only_entry_pending:
  assumes "read_only_entry env e s t = (Inr s', u)"
  shows "(\<exists>p. e = Inr p \<and> sw_pending s' = p # sw_pending s) \<or> sw_pending s' = sw_pending s"
  using assms by (auto simp: read_only_entry_def split: if_splits)

lemma read_only_entries_pending:
  "read_only_entries env es s t = (Inr s', u) \<Longrightarrow>
     \<exists>new. sw_pending s' = new @ sw_pending s \<and> Inr ` set new \<subseteq> set es"
proof (induction es arbitrary: s t)
  case (Cons e es)
  then obtain s1 t1 where one: "read_only_entry env e s t = (Inr s1, t1)"
    and rest: "read_only_entries env es s1 t1 = (Inr s', u)" by auto
  from Cons.IH [OF rest] obtain new where new: "sw_pending s' = new @ sw_pending s1" "Inr ` set new \<subseteq> set es" by blast
  from read_only_entry_pending [OF one] show ?case
  proof
    assume "\<exists>p. e = Inr p \<and> sw_pending s1 = p # sw_pending s"
    then obtain p where "e = Inr p" "sw_pending s1 = p # sw_pending s" by blast
    with new show ?thesis by (intro exI [of _ "new @ [p]"]) auto
  qed (use new in auto)
qed simp

lemma read_only_ranks:
  assumes "nests_below (te_world env) rank" "sw_pending s = d # rest" "read_only_directory env d s t = (Inr s', u)"
  shows "\<exists>new. sw_pending s' = new @ rest \<and> list_all (\<lambda>q. rank q < rank d) new"
proof -
  obtain es t1 where dir: "w_read_dir (te_world env) t d = Inr es"
    and walk: "read_only_entries env es
      (s\<lparr>sw_pending := rest, sw_directories := sw_directories s @ [d]\<rparr>) t1 = (Inr s', u)"
    using assms(2,3) by (auto simp: read_only_directory_def)
  from read_only_entries_pending [OF walk] obtain new where "sw_pending s' = new @ rest" "Inr ` set new \<subseteq> set es" by auto
  with dir assms(1) show ?thesis by (fastforce simp: nests_below_def list_all_iff)
qed

lemma build_manifest_settles:
  assumes "nests_below (te_world env) rank"
  shows "settles (\<lambda>n. build_manifest n env root version key_id) t"
proof -
  have walk: "settles (\<lambda>n. drain n py_pending (payload_visit env root) s) u" for s u
    by (rule drain_settles) (rule payload_visit_ranks [OF assms])
  have "settles (\<lambda>n. collect_files n env root) u" for u
    unfolding collect_files_def by (intro settles_act_then settles_then settles_const walk)
  then show ?thesis
    unfolding build_manifest_def by (intro settles_act_then settles_then settles_const)
qed

lemma read_only_settles:
  assumes "nests_below (te_world env) rank"
  shows "settles (\<lambda>n. make_bundle_read_only n env root) t"
proof -
  have "settles (\<lambda>n. drain n sw_pending (read_only_directory env) s) u" for s u
    by (rule drain_settles) (rule read_only_ranks [OF assms])
  then show ?thesis unfolding make_bundle_read_only_def by (intro settles_then settles_const)
qed

lemma sign_settles:
  assumes "nests_below (te_world env) rank"
  shows "settles (\<lambda>n. sign_command n env args) t"
  unfolding sign_command_def
  by (intro settles_act_then settles_then [OF build_manifest_settles [OF assms]]
      settles_then [OF read_only_settles [OF assms]] settles_const)

lemma manifest_settles:
  assumes "nests_below (te_world env) rank"
  shows "settles (\<lambda>n. manifest_command n env args) t"
  unfolding manifest_command_def
  by (intro settles_act_then settles_then [OF build_manifest_settles [OF assms]] settles_const)

lemma tool_settles:
  assumes "nests_below (te_world env) rank"
  shows "settles (\<lambda>n. run_learning_tool n env args) t"
proof -
  have "settles (\<lambda>n. walk_then (manifest_command n env as) (\<lambda>_. walk_act m)) t"
    "settles (\<lambda>n. walk_then (sign_command n env as) (\<lambda>d. walk_act (f d))) t" for as m f
    by (intro settles_then manifest_settles [OF assms] sign_settles [OF assms] settles_const)+
  note ends = this
  show ?thesis
  proof (cases args)
    case (Cons a rest)
    then show ?thesis
      using ends by (cases "a = ''manifest''"; cases "a = ''sign''"; cases "a = ''verify''") (simp_all add: run_learning_tool_def)
  qed (simp add: run_learning_tool_def)
qed

section \<open>The manifest\<close>

definition payload_ok :: "path \<Rightarrow> payload \<Rightarrow> bool" where
  "payload_ok root s \<longleftrightarrow> distinct (py_paths s) \<and> length (py_paths s) \<le> MAX_FILES \<and> py_total s \<le> MAX_TOTAL_BYTES
     \<and> list_all (\<lambda>text. \<exists>relative. path_to_str relative = Some text \<and> validate_relative relative = Inr ()) (py_paths s)"

lemma payload_entry_ok:
  assumes "payload_entry env root p s t = (Inr s', u)" "payload_ok root s"
  shows "payload_ok root s'"
  using assms
  by (auto simp: payload_entry_def payload_file_def payload_ok_def bind_r_Inr_iff not_less split: if_splits)

lemma payload_entries_ok:
  "payload_entries env root ps s t = (Inr s', u) \<Longrightarrow> payload_ok root s \<Longrightarrow> payload_ok root s'"
  by (induction ps arbitrary: s t) (auto dest: payload_entry_ok)

lemma drain_invariant:
  assumes step: "\<And>d s t s' u. visit d s t = (Inr s', u) \<Longrightarrow> P s \<Longrightarrow> P s'"
  shows "drain n pending visit s t = Some (Inr s', u) \<Longrightarrow> P s \<Longrightarrow> P s'"
proof (induction n arbitrary: s t)
  case 0
  then show ?case by (auto split: if_splits)
next
  case (Suc n)
  then show ?case using step by (auto simp: walk_then_Some split: list.splits)
qed

lemma learning_files_paths:
  "learning_files env root rs t = (Inr fs, u) \<Longrightarrow>
     map lf_path fs = rs \<and> list_all (\<lambda>f. \<exists>s s' h content.
       w_open (te_world env) s (path_join root (path_of (lf_path f))) read_flags = Inr h \<and>
       w_read (te_world env) s' h = Inr content \<and> lf_size_bytes f = of_nat (length content) \<and>
       lf_sha256 f = le_sha256_hex (te_learning env) content) fs"
  by (induction rs arbitrary: t fs) (fastforce simp: learning_file_of_def)+

text \<open>What a listed file says of the file on disk.\<close>

definition listed_content :: "tool_env \<Rightarrow> path \<Rightarrow> learning_file \<Rightarrow> bool" where
  "listed_content env root f \<longleftrightarrow> (\<exists>s s' h content.
     w_open (te_world env) s (path_join root (path_of (lf_path f))) read_flags = Inr h \<and>
     w_read (te_world env) s' h = Inr content \<and> lf_size_bytes f = of_nat (length content) \<and>
     lf_sha256 f = le_sha256_hex (te_learning env) content)"

lemma build_manifest_Inr:
  assumes "build_manifest n env root version key_id t = Some (Inr m, u)"
  shows "manifest_versions_ok m" "sorted (map lf_path (lm_files m))" "distinct (map lf_path (lm_files m))"
    "list_all (listed_content env root) (lm_files m)" "lm_skill_version m = SUPPORTED_SKILL_VERSION"
    "lm_local_ego_browser_runtime_version m = SUPPORTED_LOCAL_RUNTIME_VERSION"
    "list_all (\<lambda>f. \<exists>relative. path_to_str relative = Some (lf_path f) \<and> validate_relative relative = Inr ())
       (lm_files m)"
proof -
  obtain files s p t1 t2 t3 where token: "version \<noteq> []" "files \<noteq> []"
    and walk: "drain n py_pending (payload_visit env root) \<lparr>py_pending = [p], py_paths = [], py_total = 0\<rparr> t1
      = Some (Inr s, t2)"
    and files: "learning_files env root (sort (py_paths s)) t2 = (Inr files, t3)"
    and m: "m = \<lparr>lm_bundle_version = version, lm_skill_version = SUPPORTED_SKILL_VERSION,
         lm_local_ego_browser_runtime_version = SUPPORTED_LOCAL_RUNTIME_VERSION,
         lm_protocol_versions = [PROTOCOL_VERSION], lm_files = files, lm_signing_key_id = key_id,
         lm_signature = []\<rparr>"
    using assms by (auto simp: build_manifest_def collect_files_def walk_then_Some validate_token_def)
  have "payload_ok root s"
    by (rule drain_invariant [OF _ walk])
       (auto simp: payload_visit_def payload_directory_def payload_ok_def dest!: payload_entries_ok)
  moreover have paths: "map lf_path files = sort (py_paths s)"
    using learning_files_paths [OF files] by blast
  then have "length files = length (py_paths s)" by (metis length_map length_sort)
  ultimately show "manifest_versions_ok m" "sorted (map lf_path (lm_files m))" "distinct (map lf_path (lm_files m))"
    "list_all (\<lambda>f. \<exists>relative. path_to_str relative = Some (lf_path f) \<and> validate_relative relative = Inr ())
       (lm_files m)"
    using token paths
    by (auto simp: m manifest_versions_ok_def payload_ok_def MAX_FILES_def MAX_BUNDLE_FILES_def list_all_iff
        SUPPORTED_SKILL_VERSION_def SUPPORTED_LOCAL_RUNTIME_VERSION_def)
      (metis imageI list.set_map set_sort)
  show "list_all (listed_content env root) (lm_files m)"
    using learning_files_paths [OF files] by (simp add: m listed_content_def [abs_def])
qed (use assms in \<open>auto simp: build_manifest_def walk_then_Some\<close>)

section \<open>The signature\<close>

definition owner_only :: "tool_env \<Rightarrow> file_meta \<Rightarrow> bool" where
  "owner_only env m \<longleftrightarrow> fm_file m \<and> \<not> fm_symlink m \<and> fm_uid m = w_euid (te_world env) \<and> fm_nlink m = 1
     \<and> mode_bits m 0x3F = 0"

text \<open>A secret key that was read from a file of this user alone.\<close>

definition secret_of_owner :: "tool_env \<Rightarrow> bytes \<Rightarrow> bool" where
  "secret_of_owner env secret \<longleftrightarrow> length secret = 32 \<and> (\<exists>p s m h content. is_absolute p \<and>
     w_lstat (te_world env) s p = Inr m \<and> owner_only env m \<and> w_open (te_world env) (s + 1) p read_flags = Inr h \<and>
     w_read (te_world env) (s + 2) h = Inr content \<and> decode_key env content = Inr secret)"

lemma read_key_file_Inr:
  assumes "read_key_file env p True t = (Inr bs, u)"
  obtains s m h where "is_absolute p" "w_lstat (te_world env) s p = Inr m" "owner_only env m"
    "w_open (te_world env) (s + 1) p read_flags = Inr h" "w_read (te_world env) (s + 2) h = Inr bs"
proof -
  from assms obtain s m h content where "is_absolute p" "w_lstat (te_world env) s p = Inr m" "owner_only env m"
    "w_open (te_world env) (Suc s) p read_flags = Inr h" "w_read (te_world env) (Suc (Suc s)) h = Inr content"
    and "bs = take (unat (MAX_KEY_BYTES + 1)) content" "length bs \<le> unat MAX_KEY_BYTES"
    by (auto simp: read_key_file_def Let_def owner_only_def not_less)
  moreover from this have "bs = content" by (simp add: MAX_KEY_BYTES_def)
  ultimately show thesis using that by (simp add: numeral_2_eq_2)
qed

lemma load_signing_key_Inr:
  assumes "load_signing_key env p t = (Inr secret, u)"
  shows "secret_of_owner env secret"
proof -
  obtain bs s where "read_key_file env p True t = (Inr bs, s)" "decode_key env bs = Inr secret" "length secret = 32"
    using assms by (auto simp: load_signing_key_def)
  then show ?thesis unfolding secret_of_owner_def by (elim read_key_file_Inr) blast
qed

text \<open>The manifest was not there, was written to a new file that only its owner can read, and was then renamed
  to its place.\<close>

definition manifest_installed :: "tool_env \<Rightarrow> path \<Rightarrow> learning_manifest \<Rightarrow> bool" where
  "manifest_installed env root m \<longleftrightarrow>
     (\<exists>temporary h e s. w_lstat (te_world env) s (path_join root manifest_path) = Inl e \<and>
        te_create env (Suc s) temporary 0x180 = Inr h \<and>
        w_write (te_world env) (Suc (Suc s)) h (pretty_manifest env m) = Inr () \<and>
        te_rename env (Suc (Suc (Suc (Suc s)))) temporary (path_join root manifest_path) = Inr ())"

lemma install_manifest_Inr:
  assumes "install_manifest env root m t = (Inr (), u)"
  shows "manifest_installed env root m"
proof -
  obtain e where "w_lstat (te_world env) t (path_join root manifest_path) = Inl e"
    using assms by (auto simp: install_manifest_def Let_def is_ok_def split: sum.splits)
  moreover have "atomic_write env (path_join root manifest_path) (pretty_manifest env m) 0x180 (Suc t) = (Inr (), u)"
    using assms by (auto simp: install_manifest_def Let_def)
  then obtain temporary h where "te_create env (Suc t) temporary 0x180 = Inr h"
    "w_write (te_world env) (Suc (Suc t)) h (pretty_manifest env m) = Inr ()"
    "te_rename env (Suc (Suc (Suc (Suc t)))) temporary (path_join root manifest_path) = Inr ()"
    by (auto simp: atomic_write_def write_new_file_def Let_def)
  ultimately show ?thesis
    unfolding manifest_installed_def by blast
qed

text \<open>What a run of the signing command did.\<close>

definition signed_by_owner :: "tool_env \<Rightarrow> path \<Rightarrow> bytes \<Rightarrow> bool" where
  "signed_by_owner env root key \<longleftrightarrow> (\<exists>secret m. secret_of_owner env secret \<and> key = te_public env secret \<and>
     manifest_versions_ok m \<and> list_all (listed_content env root) (lm_files m) \<and>
     manifest_installed env root (m\<lparr>lm_signature :=
       te_encode env (te_sign env secret (signed_bytes (te_learning env) m))\<rparr>))"

lemma verified_digest_Inr:
  "verified_digest env root key skill runtime t = (Inr d, u) \<longleftrightarrow>
     verify_learning_bundle (te_learning env) (te_world env) root key skill runtime t = (Inr d, u)"
  by (auto simp: verified_digest_def split: prod.splits)

lemma sign_command_Inr:
  assumes "sign_command n env args t = Some (Inr digest, u)"
  shows "\<exists>root key t'. signed_by_owner env root key \<and> verify_learning_bundle (te_learning env) (te_world env)
    root key SUPPORTED_SKILL_VERSION SUPPORTED_LOCAL_RUNTIME_VERSION t' = (Inr digest, u)"
proof -
  obtain root p secret version key_id m t1 t2 t3 t4 t5 t6 where "load_signing_key env p t1 = (Inr secret, t2)"
    and m: "build_manifest n env root version key_id t3 = Some (Inr m, t4)"
    and "install_manifest env root (signed_manifest env secret m) t4 = (Inr (), t5)"
    and verified: "verify_learning_bundle (te_learning env) (te_world env) root (te_public env secret)
      SUPPORTED_SKILL_VERSION SUPPORTED_LOCAL_RUNTIME_VERSION t6 = (Inr digest, u)"
    using assms by (auto simp: sign_command_def walk_then_Some verified_digest_Inr)
  then have "signed_by_owner env root (te_public env secret)"
    using build_manifest_Inr(1,4) [OF m] load_signing_key_Inr install_manifest_Inr
    unfolding signed_by_owner_def signed_manifest_def by blast
  with verified show ?thesis by blast
qed

definition key_of_verifier :: "tool_env \<Rightarrow> bytes \<Rightarrow> bool" where
  "key_of_verifier env key \<longleftrightarrow> le_key (te_learning env) key \<and>
     (key = TRUSTED_LEARNING_BUNDLE_PUBLIC_KEY \<or> (\<exists>p s s'. load_verifying_key env p s = (Inr key, s')))"

lemma verify_command_Inr:
  assumes "verify_command env args t = (Inr digest, u)"
  shows "\<exists>root key skill runtime t'. key_of_verifier env key \<and> verify_learning_bundle (te_learning env) (te_world env)
    root key skill runtime t' = (Inr digest, u)"
proof -
  obtain root key skill runtime t1 t2 where
    key: "(case tool_option args ''--public-key-file'' of
         Some f \<Rightarrow> load_verifying_key env (path_of f)
       | None \<Rightarrow> bind_a (check (le_key (te_learning env) TRUSTED_LEARNING_BUNDLE_PUBLIC_KEY)
           (Said ''embedded learning bundle public key is invalid'')) (\<lambda>_. ret TRUSTED_LEARNING_BUNDLE_PUBLIC_KEY)) t1
       = (Inr key, t2)"
    and verified: "verify_learning_bundle (te_learning env) (te_world env) root key skill runtime t2 = (Inr digest, u)"
    using assms by (auto simp: verify_command_def verified_digest_Inr Let_def)
  from key have "key_of_verifier env key"
    by (auto simp: key_of_verifier_def load_verifying_key_def split: option.splits)
  with verified show ?thesis by blast
qed

section \<open>Properties\<close>

text \<open>C26: c26: 
  Every command of the tool ends, whatever the file system answers, as long as directories are nested with bounded
  depth: some number of directories is enough for its walks, and more does not change the result.\<close>

theorem tool_walks_end:
  assumes "nests_below (te_world env) rank"
  shows "\<exists>r n. \<forall>m\<ge>n. run_learning_tool m env args t = Some r"
  using tool_settles [OF assms] by (simp add: settles_def)

text \<open>C25: c25: 
  The tool builds manifests that the verifier's first checks accept: the versions of this release, at least one and
  at most as many files as a bundle may have, in the order of their paths and without a repeated one, each with a
  relative path and with the size and digest of what was read from it.\<close>

theorem manifest_lists_payload:
  assumes "build_manifest n env root version key_id t = Some (Inr m, u)"
  shows "manifest_versions_ok m \<and> lm_skill_version m = SUPPORTED_SKILL_VERSION \<and>
    lm_local_ego_browser_runtime_version m = SUPPORTED_LOCAL_RUNTIME_VERSION \<and>
    sorted (map lf_path (lm_files m)) \<and> distinct (map lf_path (lm_files m)) \<and>
    list_all (listed_content env root) (lm_files m) \<and>
    list_all (\<lambda>f. \<exists>relative. path_to_str relative = Some (lf_path f) \<and> validate_relative relative = Inr ()) (lm_files m)"
  using build_manifest_Inr [OF assms] by blast


text \<open>The check that an output lies outside the bundle compares texts: with a component that goes up, the file is
  written into the bundle.\<close>

theorem output_check_is_lexical:
  assumes "\<And>t p. w_lstat (te_world env) t p = Inl NotFound"
  shows "\<exists>u. output_outside env (path_of ''/b'') ''/x/../b/f'' message t = (Inr (path_of ''/x/../b/f''), u)"
proof -
  have "path_of ''/b'' = [RootDir, Normal ''b'']"
    "path_of ''/x/../b/f'' = [RootDir, Normal ''x'', ParentDir, Normal ''b'', Normal ''f'']"
    by code_simp+
  then show ?thesis
    by (simp add: output_outside_def absolute_path_def is_absolute_def path_parent_def tool_no_symlinks_def assms
        path_starts_with_def bind_a_def check_def ret_def try_sys_def upt_conv_Cons)
qed

section \<open>A small bundle on disk\<close>

definition tool_world :: world where
  "tool_world = small_world\<lparr>
     w_lstat := (\<lambda>t p. Inr (if length p = 4 then bundle_meta True 8 2 else bundle_meta False 5 0)),
     w_read := (\<lambda>t h. Inr [4, 5]),
     w_read_dir := (\<lambda>t p. Inr (if length p = 3 then [Inr (p @ [Normal ''a''])] else []))\<rparr>"

definition tool_sample :: "world \<Rightarrow> tool_env" where
  "tool_sample w = \<lparr>te_learning = bundle_env, te_world = w, te_create = (\<lambda>t p m. Inr 0), te_rename = (\<lambda>t p q. Inr ()),
     te_remove = (\<lambda>t p. Inr ()), te_stdout = (\<lambda>t bs. Inr ()), te_encode = str_of_bytes,
     te_url_decode = (\<lambda>s. None), te_public = (\<lambda>k. k), te_sign = (\<lambda>k m. m), te_to_vec_pretty = (\<lambda>v. [9]),
     te_pid = ''1''\<rparr>"

lemma tool_sample_sel [simp]: "te_world (tool_sample w) = w" "te_learning (tool_sample w) = bundle_env"
  by (simp_all add: tool_sample_def)

lemma tool_world_sel:
  "w_lstat tool_world t p = Inr (if length p = 4 then bundle_meta True 8 2 else bundle_meta False 5 0)"
  "w_read tool_world t h = Inr [4, 5]" "w_open tool_world t p f = Inr 0"
  "w_read_dir tool_world t p = Inr (if length p = 3 then [Inr (p @ [Normal ''a''])] else [])"
  by (simp_all add: tool_world_def small_world_def)

definition tool_manifest :: learning_manifest where
  "tool_manifest = \<lparr>lm_bundle_version = ''1'', lm_skill_version = SUPPORTED_SKILL_VERSION,
     lm_local_ego_browser_runtime_version = SUPPORTED_LOCAL_RUNTIME_VERSION,
     lm_protocol_versions = [PROTOCOL_VERSION],
     lm_files = [\<lparr>lf_path = ''learnings/a'', lf_size_bytes = 2, lf_sha256 = ''ok''\<rparr>],
     lm_signing_key_id = ''k'', lm_signature = []\<rparr>"

lemma tool_texts:
  "path_to_str [Normal ''learnings'', Normal ''a''] = Some ''learnings/a''"
  "validate_token ''1'' l = Inr ()" "validate_token ''k'' l = Inr ()"
  "path_of ''/b'' = bundle_root" "is_absolute bundle_root"
  by (code_simp, simp_all add: validate_token_def is_ascii_alphanumeric_def is_ascii_alpha_def is_ascii_digit_def
      path_of_def List.map_filter_def bundle_root_def is_absolute_def)

lemma tool_listed: "payload_file bundle_root (bundle_root @ [Normal ''learnings'', Normal ''a'']) (bundle_meta True 8 2)
     \<lparr>py_pending = [], py_paths = [], py_total = 0\<rparr> = Inr \<lparr>py_pending = [], py_paths = [''learnings/a''], py_total = 2\<rparr>"
proof -
  have "path_strip_prefix (bundle_root @ p) bundle_root = Some p" for p by simp
  then show ?thesis
    by (simp add: payload_file_def tool_texts validate_relative_def is_absolute_def bundle_meta_def checked_add_def
        MAX_FILES_def MAX_TOTAL_BYTES_def del: path_strip_prefix_Some)
qed

lemma tool_manifest_built: "\<exists>u. build_manifest 1 (tool_sample tool_world) bundle_root ''1'' ''k'' 0 = Some (Inr tool_manifest, u)"
proof -
  let ?env = "tool_sample tool_world" and ?dir = "bundle_root @ [Normal ''learnings'']"
  have join: "path_join bundle_root [Normal ''learnings''] = ?dir"
    by (simp add: path_join_def is_absolute_def bundle_root_def)
  have dir: "length bundle_root = 2" by (simp add: bundle_root_def)
  have root: "learning_root ?env bundle_root t = (Inr ?dir, t + 1)" for t
    by (simp add: learning_root_def join act_defs tool_world_sel dir bundle_meta_ok)
  have visit: "payload_visit ?env bundle_root ?dir \<lparr>py_pending = [?dir], py_paths = [], py_total = 0\<rparr> t
      = (Inr \<lparr>py_pending = [], py_paths = [''learnings/a''], py_total = 2\<rparr>, t + 2)" for t
    using tool_listed
    by (simp add: payload_visit_def payload_directory_def act_defs tool_world_sel dir payload_entry_def bundle_meta_ok)
  have files: "learning_file_of ?env bundle_root ''learnings/a'' t
      = (Inr \<lparr>lf_path = ''learnings/a'', lf_size_bytes = 2, lf_sha256 = ''ok''\<rparr>, t + 2)" for t
    by (simp add: learning_file_of_def act_defs tool_world_sel bundle_env_def)
  show ?thesis
    by (simp add: build_manifest_def collect_files_def walk_then_def walk_act_def tool_texts root visit files act_defs
        tool_manifest_def)
qed

theorem tool_walks_end_witness:
  "\<exists>r n. run_learning_tool n (tool_sample tool_world) [''manifest'', ''--bundle'', ''/b''] 0 = Some r"
proof -
  have "nests_below (te_world (tool_sample tool_world)) (\<lambda>p. 4 - length p)"
    by (auto simp: nests_below_def tool_world_sel)
  from tool_walks_end [OF this] show ?thesis by blast
qed

theorem manifest_lists_payload_witness:
  "\<exists>u. build_manifest 1 (tool_sample tool_world) bundle_root ''1'' ''k'' 0 = Some (Inr tool_manifest, u) \<and>
     manifest_versions_ok tool_manifest \<and> map lf_path (lm_files tool_manifest) = [''learnings/a'']"
proof -
  obtain u where run: "build_manifest 1 (tool_sample tool_world) bundle_root ''1'' ''k'' 0 = Some (Inr tool_manifest, u)"
    using tool_manifest_built by blast
  from manifest_lists_payload [OF run] run show ?thesis by (simp add: tool_manifest_def)
qed

definition verify_arguments :: "string list" where
  "verify_arguments = [''verify'', ''--bundle'', ''/b'', ''--skill-version'', ''2'', ''--runtime-version'', ''3'']"

lemma tool_verified:
  "\<exists>u. run_learning_tool 0 (tool_sample bundle_world) verify_arguments 0 = Some (Inr (Some ''sha256:ok''), u)"
proof -
  let ?env = "tool_sample bundle_world"
  have no_links: "tool_no_symlinks ?env bundle_root t = (Inr (), t + 2)" for t
    by (simp add: tool_no_symlinks_def bundle_root_def upt_conv_Cons bundle_world_sel bundle_lstat_def bundle_meta_def
        manifest_path_def bundle_file_def bind_a_def try_sys_def check_def ret_def)
  have root: "canonical_bundle_root ?env bundle_root t = (Inr bundle_root, t + 4)" for t
    by (simp add: canonical_bundle_root_def act_defs no_links tool_texts bundle_world_sel bundle_lstat_values bundle_meta_ok)
  obtain b u where "verify_learning_bundle_details bundle_env bundle_world bundle_root TRUSTED_LEARNING_BUNDLE_PUBLIC_KEY 4
      = (Inr b, u)" "lb_digest b = ''sha256:ok''" "lb_skill_version b = ''2''"
      "lb_local_ego_browser_runtime_version b = ''3''"
    using bundle_verified by blast
  then have "verified_digest ?env bundle_root TRUSTED_LEARNING_BUNDLE_PUBLIC_KEY ''2'' ''3'' 4 = (Inr ''sha256:ok'', u)"
    by (simp add: verified_digest_def verify_learning_bundle_def act_defs)
  moreover have "le_key bundle_env k" for k by (simp add: bundle_env_def)
  ultimately have "verify_command ?env (tl verify_arguments) 0 = (Inr ''sha256:ok'', u)"
    by (simp add: verify_command_def verify_arguments_def required_path_def required_def act_defs tool_texts root)
  then show ?thesis by (simp add: run_learning_tool_def verify_arguments_def walk_act_def act_defs)
qed


end
