(* ===== verification/Child_Command.thy ===== *)
theory Child_Command
  imports Execution_Supervisor
begin

text \<open>
  The command lines and environments with which a runtime is started: by \<open>run_process\<close> of
  \<open>crates/local-bridge/src/supervisor_execution.rs\<close>, directly or through the execution supervisor, and by
  \<open>run_execution_supervisor\<close> of \<open>crates/local-bridge/src/execution_runner.rs\<close>, which reads what the bridge passed.
\<close>

section \<open>Commands\<close>

text \<open>A value of an environment is a path or a text; the environment of a child starts empty.\<close>

datatype env_value = OfPath path | OfText string

type_synonym environment = "string \<Rightarrow> env_value option"

record child_command =
  cc_program :: path
  cc_args :: "string list"
  cc_env :: environment
  cc_directory :: "path option"

text \<open>\<open>PathBuf::from\<close> of a variable.\<close>

definition path_value :: "env_value \<Rightarrow> path" where
  "path_value v = (case v of OfPath p \<Rightarrow> p | OfText s \<Rightarrow> path_of s)"

text \<open>The names of the variables.\<close>

definition ARTIFACT_DIR :: string where "ARTIFACT_DIR = ''EGO_BROWSER_ARTIFACT_DIR''"
definition DEFAULT_TASK_SPACE :: string where "DEFAULT_TASK_SPACE = ''EGO_BROWSER_DEFAULT_TASK_SPACE''"
definition TMPDIR :: string where "TMPDIR = ''TMPDIR''"
definition AGENT_WORKSPACE :: string where "AGENT_WORKSPACE = ''EGO_BROWSER_AGENT_WORKSPACE''"
definition SUPERVISED_AGENT_WORKSPACE :: string where
  "SUPERVISED_AGENT_WORKSPACE = ''EGO_BROWSER_SUPERVISED_AGENT_WORKSPACE''"
definition SUPERVISED_NATIVE :: string where "SUPERVISED_NATIVE = ''EGO_BROWSER_SUPERVISED_NATIVE''"
definition SUPERVISED_EXECUTABLE :: string where "SUPERVISED_EXECUTABLE = ''EGO_BROWSER_SUPERVISED_EXECUTABLE''"
definition NATIVE_EXECUTABLE :: string where "NATIVE_EXECUTABLE = ''EGO_BROWSER_NATIVE_EXECUTABLE''"
definition NATIVE_SOCKET :: string where "NATIVE_SOCKET = ''EGO_BROWSER_NATIVE_SOCKET''"

lemmas variable_defs = ARTIFACT_DIR_def DEFAULT_TASK_SPACE_def TMPDIR_def AGENT_WORKSPACE_def
  SUPERVISED_AGENT_WORKSPACE_def SUPERVISED_NATIVE_def SUPERVISED_EXECUTABLE_def NATIVE_EXECUTABLE_def
  NATIVE_SOCKET_def

lemma variables_distinct: "distinct [ARTIFACT_DIR, DEFAULT_TASK_SPACE, TMPDIR, AGENT_WORKSPACE,
    SUPERVISED_AGENT_WORKSPACE, SUPERVISED_NATIVE, SUPERVISED_EXECUTABLE, NATIVE_EXECUTABLE, NATIVE_SOCKET]"
  "distinct [NATIVE_SOCKET, NATIVE_EXECUTABLE, SUPERVISED_EXECUTABLE, SUPERVISED_NATIVE,
    SUPERVISED_AGENT_WORKSPACE, AGENT_WORKSPACE, TMPDIR, DEFAULT_TASK_SPACE, ARTIFACT_DIR]"
  by (simp_all add: variable_defs)

lemmas variable_neq [simp] = variables_distinct [simplified]

section \<open>The command of the bridge\<close>

definition is_native :: "release_profile \<Rightarrow> bool" where
  "is_native p \<longleftrightarrow> p = CommunityLocalTrust \<or> p = DeveloperId"

text \<open>\<open>current_exe\<close> is the bridge itself, \<open>temp\<close> the private directory of the request.\<close>

definition execution_command ::
  "bridge_config \<Rightarrow> path \<Rightarrow> path \<Rightarrow> path \<Rightarrow> inner_execute_request \<Rightarrow> child_command" where
  "execution_command config current_exe temp artifact_dir request =
     (let supervised = bc_release_profile config \<noteq> LogicTest;
          env = (if supervised
            then [SUPERVISED_NATIVE \<mapsto> OfText (if is_native (bc_release_profile config) then ''1'' else ''0''),
                  SUPERVISED_EXECUTABLE \<mapsto> OfPath (bc_executable config),
                  ARTIFACT_DIR \<mapsto> OfPath artifact_dir,
                  DEFAULT_TASK_SPACE \<mapsto> OfText (ier_default_task_space request)]
            else [ARTIFACT_DIR \<mapsto> OfPath artifact_dir, TMPDIR \<mapsto> OfPath artifact_dir,
                  DEFAULT_TASK_SPACE \<mapsto> OfText (ier_default_task_space request)])
      in \<lparr>cc_program = (if supervised then current_exe else bc_executable config),
          cc_args = (if supervised then [''--execution-supervisor''] else [''nodejs'']),
          cc_env = (case bc_learning_bundle_root config of
              None \<Rightarrow> env
            | Some root \<Rightarrow>
                env((if supervised then SUPERVISED_AGENT_WORKSPACE else AGENT_WORKSPACE) \<mapsto> OfPath root)),
          cc_directory = Some temp\<rparr>)"

section \<open>The command of the execution supervisor\<close>

definition with_file_name :: "path \<Rightarrow> string \<Rightarrow> path" where
  "with_file_name p name =
     (if file_name p = None then p else butlast p) @ [Normal name]"

text \<open>What \<open>start_runtime\<close> takes from the environment.\<close>

definition supervised_paths :: "environment \<Rightarrow> bridge_error + path \<times> path" where
  "supervised_paths env =
     bind_r (ok_or (ProtocolMessage ''supervised executable is missing'') (env SUPERVISED_EXECUTABLE)) (\<lambda>executable.
     bind_r (ok_or (ProtocolMessage ''artifact directory is missing'') (env ARTIFACT_DIR)) (\<lambda>artifact_dir.
     bind_r (ensure (is_absolute (path_value executable) \<and> is_absolute (path_value artifact_dir))
       (ProtocolMessage ''execution supervisor paths must be absolute'')) (\<lambda>_.
       Inr (path_value executable, path_value artifact_dir))))"

text \<open>\<open>runner\<close> is the JavaScript that the native runtime evaluates.\<close>

definition runtime_command ::
  "environment \<Rightarrow> path \<Rightarrow> path \<Rightarrow> string \<Rightarrow> bridge_error + child_command" where
  "runtime_command env current_exe socket_directory runner =
     bind_r (supervised_paths env) (\<lambda>(executable, artifact_dir).
     let native = env SUPERVISED_NATIVE = Some (OfText ''1'');
         base = (if native
           then [NATIVE_EXECUTABLE \<mapsto> OfPath executable,
                 NATIVE_SOCKET \<mapsto> OfPath (path_join socket_directory [Normal ''host.sock''])]
           else Map.empty);
         common = base(ARTIFACT_DIR \<mapsto> OfPath artifact_dir, TMPDIR \<mapsto> OfPath artifact_dir);
         spaced = (case env DEFAULT_TASK_SPACE of None \<Rightarrow> common | Some s \<Rightarrow> common(DEFAULT_TASK_SPACE \<mapsto> s));
         full = (case env SUPERVISED_AGENT_WORKSPACE of None \<Rightarrow> spaced | Some r \<Rightarrow> spaced(AGENT_WORKSPACE \<mapsto> r))
     in Inr \<lparr>cc_program = (if native then with_file_name current_exe ''node'' else executable),
             cc_args = (if native then [''-e'', runner] else [''nodejs'']),
             cc_env = full, cc_directory = None\<rparr>)"

text \<open>What the supervisor finds in the environment that the bridge gave it.\<close>

lemma supervised_environment:
  assumes "bc_release_profile config \<noteq> LogicTest"
  shows "cc_env (execution_command config exe temp dir request) SUPERVISED_EXECUTABLE = Some (OfPath (bc_executable config))"
    "cc_env (execution_command config exe temp dir request) ARTIFACT_DIR = Some (OfPath dir)"
    "cc_env (execution_command config exe temp dir request) DEFAULT_TASK_SPACE
       = Some (OfText (ier_default_task_space request))"
    "cc_env (execution_command config exe temp dir request) SUPERVISED_AGENT_WORKSPACE
       = map_option OfPath (bc_learning_bundle_root config)"
    "cc_env (execution_command config exe temp dir request) SUPERVISED_NATIVE = Some (OfText ''1'')
       \<longleftrightarrow> is_native (bc_release_profile config)"
  using assms by (simp_all add: execution_command_def Let_def split: option.splits)

section \<open>Properties\<close>

text \<open>C40: c40: 
  Supervision changes nothing for the runtime.  Started through the execution supervisor it gets the environment
  that it would get from the bridge directly: the same artifact directory, also for temporary files, the same Task
  Space and workspace, and nothing that the bridge or the supervisor itself inherited.  It is the configured
  executable with the same argument, or, in a native release, the node beside the bridge, which is told that
  executable and a private socket and nothing else.\<close>

theorem supervision_transparent:
  assumes "bc_release_profile config \<noteq> LogicTest" "is_absolute (bc_executable config)" "is_absolute artifact_dir"
  shows "\<exists>c. runtime_command (cc_env (execution_command config current_exe temp artifact_dir request))
      current_exe sockets runner = Inr c \<and>
    (let direct = execution_command (config\<lparr>bc_release_profile := LogicTest\<rparr>) current_exe temp artifact_dir request
     in if is_native (bc_release_profile config)
        then cc_program c = with_file_name current_exe ''node'' \<and> cc_args c = [''-e'', runner] \<and>
          cc_env c = (cc_env direct)(NATIVE_EXECUTABLE \<mapsto> OfPath (bc_executable config),
            NATIVE_SOCKET \<mapsto> OfPath (path_join sockets [Normal ''host.sock'']))
        else cc_program c = cc_program direct \<and> cc_args c = cc_args direct \<and> cc_env c = cc_env direct)"
proof -
  have direct: "bc_executable (config\<lparr>bc_release_profile := LogicTest\<rparr>) = bc_executable config"
    "bc_learning_bundle_root (config\<lparr>bc_release_profile := LogicTest\<rparr>) = bc_learning_bundle_root config"
    by simp_all
  have "supervised_paths (cc_env (execution_command config current_exe temp artifact_dir request))
      = Inr (bc_executable config, artifact_dir)"
    using assms by (simp add: supervised_paths_def supervised_environment path_value_def)
  with assms(1) show ?thesis
    by (cases "bc_learning_bundle_root config"; cases "is_native (bc_release_profile config)")
       (simp_all add: runtime_command_def supervised_environment execution_command_def [of "config\<lparr>bc_release_profile := LogicTest\<rparr>"]
          direct fun_eq_iff)
qed

text \<open>The variables of a child are those that the source names.\<close>

lemma execution_environment:
  "dom (cc_env (execution_command config exe temp dir request)) \<subseteq>
     {ARTIFACT_DIR, DEFAULT_TASK_SPACE, TMPDIR, AGENT_WORKSPACE, SUPERVISED_AGENT_WORKSPACE, SUPERVISED_NATIVE,
      SUPERVISED_EXECUTABLE}"
  by (auto simp: execution_command_def Let_def split: option.splits if_splits)

text \<open>A native release whose workspace is a verified bundle.\<close>

definition native_config :: "bridge_config \<Rightarrow> bridge_config" where
  "native_config config = config\<lparr>bc_release_profile := DeveloperId, bc_executable := [RootDir, Normal ''ego''],
     bc_learning_bundle_root := Some [RootDir, Normal ''l'']\<rparr>"

theorem supervision_transparent_witness:
  "\<exists>c. runtime_command (cc_env (execution_command (native_config sample_config) [RootDir, Normal ''bridge'']
      [RootDir, Normal ''t''] [RootDir, Normal ''t'', Normal ''artifacts''] plain_request))
      [RootDir, Normal ''bridge''] [RootDir, Normal ''s''] ''run'' = Inr c \<and>
    cc_program c = [RootDir, Normal ''node''] \<and> cc_env c AGENT_WORKSPACE = Some (OfPath [RootDir, Normal ''l'']) \<and>
    cc_env c SUPERVISED_EXECUTABLE = None"
proof -
  let ?config = "native_config sample_config"
  have config: "bc_release_profile ?config \<noteq> LogicTest" "is_absolute (bc_executable ?config)"
    "is_native (bc_release_profile ?config)" "bc_learning_bundle_root ?config = Some [RootDir, Normal ''l'']"
    by (simp_all add: native_config_def is_absolute_def is_native_def)
  have dir: "is_absolute [RootDir, Normal ''t'', Normal ''artifacts'']" by (simp add: is_absolute_def)
  from supervision_transparent [OF config(1,2) dir, where current_exe = "[RootDir, Normal ''bridge'']"
      and temp = "[RootDir, Normal ''t'']" and request = plain_request and sockets = "[RootDir, Normal ''s'']"
      and runner = "''run''"]
  show ?thesis
    using config by (auto simp: Let_def with_file_name_def file_name_def execution_command_def)
qed

end
