(* ===== verification/Outbound_Run.thy ===== *)
theory Outbound_Run
  imports Outbound
begin

text \<open>
  A whole run of the outbound bridge, \<open>run_outbound\<close> of \<open>crates/local-bridge/src/outbound.rs\<close>: the steps of
  \<open>Outbound\<close> in the order of the code, with the connection to the device client's service between the checks of
  the identity and the activation, and every early end.
\<close>

section \<open>The start\<close>

text \<open>What happens while the control plane is asked for the activation: the observer of the device client's
  service ends (its turns) or its task is lost, the control plane answers, or the shutdown signal comes.\<close>

datatype startup_event =
  StartupPeerEnds "peer_turn list" | StartupPeerLost
| StartupAnswers "credential_error + json" "startup_activation \<Rightarrow> credential_error + json" u64
| StartupSignal bool

record startup_answers =
  su_probe :: "(bytes \<times> bytes \<times> bool) option"
  su_store :: "credential_error + unit"
  su_polls :: "store_poll list"
  su_policy :: "credential_error + verified_local_policy"
  su_root :: "bridge_error + unit"
  su_load :: load_answers
  su_ledger :: ledger_file
  su_now :: u64
  su_identity :: "credential_error + device_identity"
  su_client :: "credential_error + unit"
  su_euid :: u32
  su_peer :: connect_answers
  su_event :: startup_event

text \<open>How the start ends: with the supervisor it leaves behind, if there is one, or with everything that the
  relay loop and the watchers work on.\<close>

datatype startup =
  Waiting
| NotStarted "supervisor option" "run_effect list" "bridge_error + unit"
| Started bridge_config device_identity supervisor lease_snapshot

definition prepare_runtime ::
  "bool \<Rightarrow> control_env \<Rightarrow> bridge_args \<Rightarrow> startup_answers \<Rightarrow> bridge_error + bridge_config" where
  "prepare_runtime macos env args a =
     bind_r (check_runtime macos (ar_config args) (su_probe a)) (\<lambda>config.
     bind_r (map_err (map_credential_error env) (su_store a)) (\<lambda>_. Inr config))"

text \<open>From the claim to everything that the activation needs.\<close>

definition prepare_claim ::
  "control_env \<Rightarrow> bridge_env \<Rightarrow> bridge_config \<Rightarrow> community_credential \<Rightarrow> active_binding \<Rightarrow> startup_answers \<Rightarrow>
     bridge_error + bridge_config \<times> supervisor \<times> device_identity" where
  "prepare_claim env benv config credential binding a =
     bind_r (adopt_claim env config binding (su_policy a)) (\<lambda>config.
     bind_r (supervisor_new benv config (su_root a) (su_load a) (su_ledger a) (su_now a)) (\<lambda>sv.
     bind_r (check_identity env config credential (su_identity a)) (\<lambda>identity.
     bind_r (map_err (map_credential_error env) (su_client a)) (\<lambda>_.
     bind_r (connected_payload env config identity) (\<lambda>_. Inr (config, sv, identity))))))"

text \<open>The service of the device client is not there, or says that the gate is closed.\<close>

definition peer_unavailable :: "supervisor \<Rightarrow> bridge_error \<Rightarrow> startup" where
  "peer_unavailable sv e =
     (if e = Revoked then NotStarted (Some (revoke sv)) [Local RevokedLocally] (Inl e)
      else case fail_closed_device_peer_loss sv e of
        (sv, effects, e) \<Rightarrow> NotStarted (Some sv) (map Local effects) (Inl e))"

definition peer_task_ended :: "supervisor \<Rightarrow> local_effect list \<Rightarrow> peer_outcome option \<Rightarrow> startup" where
  "peer_task_ended sv before outcome = (case device_peer_task_failure outcome sv of
     (sv, effects, e) \<Rightarrow> NotStarted (Some sv) (map Local (before @ effects)) (Inl e))"

text \<open>The activation, raced by the observer and the signal; an error or the signal cancels the supervisor and
  stops the observer.\<close>

definition activation_phase ::
  "control_env \<Rightarrow> bridge_config \<Rightarrow> device_identity \<Rightarrow> supervisor \<Rightarrow> startup_event \<Rightarrow> startup" where
  "activation_phase env config identity sv ev = (case ev of
      StartupPeerEnds turns \<Rightarrow>
        (case run_device_peer_observer (\<lambda>_. sv) 0 turns of
           None \<Rightarrow> Waiting | Some (sv, before, outcome) \<Rightarrow> peer_task_ended sv before (Some outcome))
    | StartupPeerLost \<Rightarrow> peer_task_ended sv [] None
    | StartupAnswers status respond now \<Rightarrow>
        (case activate env config identity status respond now sv of
           (sv, Inr lease) \<Rightarrow> Started config identity sv lease
         | (sv, Inl e) \<Rightarrow> NotStarted (Some (cancel sv)) [StopsPeerObserver] (Inl e))
    | StartupSignal handled \<Rightarrow> NotStarted (Some (cancel sv)) [StopsPeerObserver] (signal_result handled))"

definition run_startup ::
  "bool \<Rightarrow> control_env \<Rightarrow> bridge_env \<Rightarrow> bridge_args \<Rightarrow> startup_answers \<Rightarrow> startup" where
  "run_startup macos env benv args a =
     (case prepare_runtime macos env args a of
        Inl e \<Rightarrow> NotStarted None [] (Inl e)
      | Inr config \<Rightarrow>
     (case wait_for_claim env (ar_once args) (su_polls a) of
        StillWaiting \<Rightarrow> Waiting
      | WaitEnds result \<Rightarrow> NotStarted None [] result
      | Claimed credential binding \<Rightarrow>
     (case prepare_claim env benv config credential binding a of
        Inl e \<Rightarrow> NotStarted None [] (Inl e)
      | Inr (config, sv, identity) \<Rightarrow>
     (case connect_device_service_peer (su_euid a) (su_peer a) of
        Inl e \<Rightarrow> peer_unavailable sv e
      | Inr _ \<Rightarrow> activation_phase env config identity sv (su_event a)))))"

section \<open>The run\<close>

text \<open>After the start the relay loop, the lease observer and the two watchers run; \<open>main\<close> says which of them
  finishes first and what became of the supervisor until then.\<close>

definition run_outbound ::
  "bool \<Rightarrow> control_env \<Rightarrow> bridge_env \<Rightarrow> bridge_args \<Rightarrow> startup_answers \<Rightarrow>
     (bridge_config \<Rightarrow> supervisor \<Rightarrow> lease_snapshot \<Rightarrow> finisher \<times> supervisor) \<Rightarrow>
     (supervisor option \<times> run_effect list \<times> (bridge_error + unit)) option" where
  "run_outbound macos env benv args a main =
     (case run_startup macos env benv args a of
        Waiting \<Rightarrow> None
      | NotStarted sv effects result \<Rightarrow> Some (sv, effects, result)
      | Started config identity sv lease \<Rightarrow>
          (case main config sv lease of (f, sv) \<Rightarrow>
             (case run_result f sv of (sv, effects, result) \<Rightarrow> Some (Some sv, effects, result))))"

section \<open>Properties\<close>

text \<open>A supervisor that admits nothing: cancelled, with no permit and no execution.\<close>

definition admits_nothing :: "supervisor \<Rightarrow> bool" where
  "admits_nothing sv \<longleftrightarrow> sv_cancelled sv \<and> sv_issued sv = Map.empty \<and> sv_active_remote sv = Map.empty
     \<and> sch_active (sv_scheduler sv) = 0"

lemma new_supervisor_closed:
  assumes "supervisor_new benv config root answers ledger now = Inr sv"
  shows "admits_nothing (cancel sv)" "admits_nothing (revoke sv)" "sv_config sv = config" "\<not> sv_cancelled sv"
    "ls_generation (sv_lease sv) = bc_generation config" "sv_issued sv = Map.empty"
  using assms
  by (auto simp: supervisor_new_def bind_r_Inr_iff scheduler_new_def admits_nothing_def cancel_def revoke_def
      clear_permits_def lease_new_def split: if_splits)

text \<open>What a started bridge rests on.\<close>

definition started_by ::
  "control_env \<Rightarrow> startup_answers \<Rightarrow> bridge_config \<Rightarrow> device_identity \<Rightarrow> supervisor \<Rightarrow> lease_snapshot \<Rightarrow> bool" where
  "started_by env a config identity sv lease \<longleftrightarrow>
     (\<exists>credential binding p. p \<in> set (su_polls a) \<and> sp_credential p = Inr credential \<and> sp_binding p = Inr binding \<and>
        sp_admission p = Inr True \<and> bc_binding_id config = ab_binding_id binding \<and>
        bc_generation config = ab_generation binding \<and> bc_default_task_space config = ab_task_space_label binding \<and>
        di_device_id identity = cc_device_id credential \<and> \<not> di_legacy_encryption_key identity) \<and>
     (\<exists>policy. su_policy a = Inr policy \<and> policy_matches config policy) \<and>
     connect_device_service_peer (su_euid a) (su_peer a) = Inr () \<and>
     (\<exists>body now. parse_connected_response env body config identity now = Inr lease) \<and>
     sv_config sv = config \<and> snap_generation lease = bc_generation config \<and>
     ls_generation (sv_lease sv) = bc_generation config \<and>
     ls_lease_until (sv_lease sv) = snap_lease_until lease \<and>
     ls_absolute_ttl_until (sv_lease sv) = snap_absolute_ttl_until lease \<and>
     \<not> sv_cancelled sv \<and> admits_nothing (cancel sv)"

lemma claimed_polled:
  "wait_for_claim env once polls = Claimed credential binding \<Longrightarrow>
     \<exists>p \<in> set polls. sp_credential p = Inr credential \<and> sp_binding p = Inr binding \<and> sp_admission p = Inr True"
  by (induction polls)
     (auto simp: poll_once_def Let_def split: sum.splits option.splits if_splits wait_result.splits bool.splits)

lemma activate_Inr:
  assumes "activate env config identity status respond now sv = (sv', Inr lease)"
  obtains body where "parse_connected_response env body config identity now = Inr lease"
    "update_lease sv (snap_generation lease) (snap_lease_until lease) (snap_absolute_ttl_until lease) True = (sv', Inr ())"
  using assms by (auto simp: activate_def bind_r_Inr_iff split: sum.splits prod.splits)

lemma activate_Inl:
  "activate env config identity status respond now sv = (sv', Inl e) \<Longrightarrow> sv' = sv"
  by (auto simp: activate_def update_lease_def split: sum.splits if_splits)

text \<open>How an observer leaves the supervisor.\<close>

lemma observer_seen:
  "run_device_peer_observer (\<lambda>_. sv) t turns = Some (sv', effects, outcome) \<Longrightarrow>
     outcome = PeerStopped \<and> sv' = sv \<or> outcome \<noteq> PeerStopped \<and> sv' = revoke sv"
proof (induction turns arbitrary: t)
  case (Cons turn turns)
  then show ?case
    by (cases turn) (auto simp: fail_closed_device_peer_loss_def split: if_splits sum.splits heartbeat.splits)
qed simp

lemma peer_task_closed:
  assumes "admits_nothing (revoke sv)" "sv' = sv \<or> sv' = revoke sv" "outcome \<noteq> None \<and> outcome \<noteq> Some PeerStopped \<Longrightarrow> sv' = revoke sv"
  shows "\<exists>s effects result. peer_task_ended sv' before outcome = NotStarted (Some s) effects result \<and> admits_nothing s"
proof -
  have "admits_nothing (revoke (revoke sv))"
    using assms(1) by (simp add: admits_nothing_def revoke_def clear_permits_def)
  with assms show ?thesis
    by (cases outcome)
       (auto simp: peer_task_ended_def device_peer_task_failure_def fail_closed_device_peer_loss_def
         split: peer_outcome.splits)
qed

lemma activation_closed:
  assumes "admits_nothing (cancel sv)" "admits_nothing (revoke sv)"
    "activation_phase env config identity sv ev = NotStarted s effects result"
  shows "\<exists>sv. s = Some sv \<and> admits_nothing sv"
proof (cases ev)
  case (StartupPeerEnds turns)
  then obtain sv' before outcome where run: "run_device_peer_observer (\<lambda>_. sv) 0 turns = Some (sv', before, outcome)"
    and ended: "peer_task_ended sv' before (Some outcome) = NotStarted s effects result"
    using assms(3) by (auto simp: activation_phase_def split: option.splits)
  with peer_task_closed [OF assms(2), of sv' "Some outcome" before] observer_seen [OF run] show ?thesis by auto
next
  case StartupPeerLost
  with assms(3) peer_task_closed [OF assms(2), of sv None "[]"] show ?thesis by (auto simp: activation_phase_def)
next
  case (StartupAnswers status respond now)
  with assms(1,3) show ?thesis
    by (auto simp: activation_phase_def dest!: activate_Inl split: prod.splits sum.splits)
next
  case (StartupSignal handled)
  with assms(1,3) show ?thesis by (auto simp: activation_phase_def)
qed

lemma activation_started:
  assumes "activation_phase env config identity sv ev = Started config' identity' sv' lease"
  shows "config' = config \<and> identity' = identity \<and>
    (\<exists>body now. parse_connected_response env body config identity now = Inr lease) \<and>
    update_lease sv (snap_generation lease) (snap_lease_until lease) (snap_absolute_ttl_until lease) True = (sv', Inr ())"
  using assms
  by (auto simp: activation_phase_def peer_task_ended_def split: startup_event.splits option.splits prod.splits sum.splits
      elim!: activate_Inr)

lemma prepare_claim_Inr:
  assumes "prepare_claim env benv config0 credential binding a = Inr (config, sv, identity)"
  shows "bc_binding_id config = ab_binding_id binding" "bc_generation config = ab_generation binding"
    "bc_default_task_space config = ab_task_space_label binding"
    "\<exists>policy. su_policy a = Inr policy \<and> policy_matches config policy"
    "di_device_id identity = cc_device_id credential" "\<not> di_legacy_encryption_key identity"
    "supervisor_new benv config (su_root a) (su_load a) (su_ledger a) (su_now a) = Inr sv"
  using assms
  by (auto simp: prepare_claim_def adopt_claim_def check_identity_def bind_r_Inr_iff apply_verified_policy_def
      policy_matches_def Let_def split: if_splits option.splits)

section \<open>The start is gated and fails closed\<close>


section \<open>A start that succeeds\<close>

definition startup_sample :: "json \<Rightarrow> startup_answers" where
  "startup_sample body = \<lparr>
     su_probe = Some (as_bytes (render_probe sample_probe), [], True), su_store = Inr (),
     su_polls = [\<lparr>sp_credential = Inr \<lparr>cc_version = 1, cc_device_id = ''dev'', cc_server_url = [], cc_token = [],
         cc_credential_id = None, cc_release_profile = ''development-local'', cc_credential_profile = ''community_file'',
         cc_expires_at_unix = 0, cc_revision = 0\<rparr>,
       sp_binding = Inr \<lparr>ab_version = 1, ab_binding_id = ''b-1'', ab_generation = 2, ab_device_id = ''dev'',
         ab_task_space_label = ''agent-remote:development'', ab_authorization_mode = [], ab_user_confirmation = True\<rparr>,
       sp_admission = Inr True, sp_signal = None\<rparr>],
     su_policy = Inr sample_policy, su_root = Inr (), su_load = sample_load,
     su_ledger = Some (ledger_bytes sample_ledger_codec 0), su_now = 1000,
     su_identity = Inr sample_identity, su_client = Inr (), su_euid = 501,
     su_peer = \<lparr>ca_before = Some \<lparr>sm_socket = True, sm_uid = 501, sm_mode = 384, sm_nlink = 1, sm_dev = 1, sm_ino = 1\<rparr>,
       ca_connects = Some True, ca_peer_uid = Some 501,
       ca_after = Some \<lparr>sm_socket = True, sm_uid = 501, sm_mode = 384, sm_nlink = 1, sm_dev = 1, sm_ino = 1\<rparr>,
       ca_beat = Beat HEARTBEAT_ALIVE\<rparr>,
     su_event = StartupAnswers (Inr body) (\<lambda>_. Inr body) 1000\<rparr>"

lemma sample_runtime_ready:
  "prepare_runtime False sample_control \<lparr>ar_socket = [], ar_credential_dir = [],
       ar_config = from_environment (\<lambda>_. None) [RootDir, Normal ''tmp''], ar_transport = Outbound, ar_once = True\<rparr>
     (startup_sample body) = Inr (from_environment (\<lambda>_. None) [RootDir, Normal ''tmp''])"
proof -
  have "parse_runtime_probe (as_bytes (render_probe sample_probe)) = Inr sample_probe"
    by code_simp
  then have "probe_local_runtime (Some (as_bytes (render_probe sample_probe), [], True)) = Inr sample_probe"
    by (simp add: probe_local_runtime_def parse_runtime_probe_output_def)
  moreover have "pr_ego_browser_version sample_probe = SUPPORTED_LOCAL_RUNTIME_VERSION"
    by (simp add: sample_probe_def SUPPORTED_LOCAL_RUNTIME_VERSION_def)
  ultimately show ?thesis
    by (simp add: prepare_runtime_def check_runtime_def startup_sample_def from_environment_def Let_def env_var_def
        unwrap_or_def)
qed

lemma sample_peer_alive: "connect_device_service_peer (su_euid (startup_sample body)) (su_peer (startup_sample body)) = Inr ()"
  by (simp add: startup_sample_def connect_device_service_peer_def inspect_device_service_socket_def verify_peer_uid_def
      read_device_peer_heartbeat_def)

lemma sample_claim_prepared:
  assumes "wait_for_claim sample_control True (su_polls (startup_sample body)) = Claimed credential binding"
  shows "prepare_claim sample_control run_env (from_environment (\<lambda>_. None) [RootDir, Normal ''tmp'']) credential binding
    (startup_sample body) = Inr (sample_config, sample_supervisor, sample_identity)"
proof -
  have "cc_device_id credential = ''dev''" "cc_credential_profile credential = ''community_file''"
    "ab_binding_id binding = ''b-1''" "ab_generation binding = 2"
    "ab_task_space_label binding = ''agent-remote:development''"
    using assms by (auto simp: startup_sample_def poll_once_def)
  moreover have "bc_default_task_space (from_environment (\<lambda>_. None) d) = ''agent-remote:development''"
    "bc_binding_id (from_environment (\<lambda>_. None) d) = []" "bc_generation (from_environment (\<lambda>_. None) d) = 1" for d
    by (simp_all add: from_environment_def Let_def env_var_def unwrap_or_def unwrap_or_default_def)
  moreover have same: "(from_environment (\<lambda>_. None) d)\<lparr>bc_binding_id := i, bc_generation := g,
      bc_default_task_space := ''agent-remote:development''\<rparr> =
    (from_environment (\<lambda>_. None) d)\<lparr>bc_binding_id := i, bc_generation := g\<rparr>" for d i g
    by (simp add: from_environment_def Let_def env_var_def unwrap_or_def)
  ultimately have "adopt_claim sample_control (from_environment (\<lambda>_. None) [RootDir, Normal ''tmp'']) binding
      (su_policy (startup_sample body)) = Inr sample_config"
    by (simp add: adopt_claim_def startup_sample_def sample_config_def same)
  moreover have "check_identity sample_control sample_config credential (su_identity (startup_sample body)) = Inr sample_identity"
    using \<open>cc_device_id credential = ''dev''\<close> \<open>cc_credential_profile credential = ''community_file''\<close>
    by (simp add: check_identity_def startup_sample_def sample_identity_def sample_config_def apply_verified_policy_def
        from_environment_def Let_def env_var_def unwrap_or_def split: option.split)
  ultimately show ?thesis
    using sample_payload sample_started by (auto simp: prepare_claim_def startup_sample_def)
qed

text \<open>The start of the sample succeeds when the control plane reports the binding as the bridge announced it.\<close>

lemma startup_sample_starts:
  "\<exists>body sv. run_startup False sample_control run_env \<lparr>ar_socket = [], ar_credential_dir = [],
       ar_config = from_environment (\<lambda>_. None) [RootDir, Normal ''tmp''], ar_transport = Outbound, ar_once = True\<rparr>
     (startup_sample body) = Started sample_config sample_identity sv sample_lease"
proof -
  obtain payload where p: "connected_payload sample_control sample_config sample_identity = Inr payload"
    using sample_payload by blast
  let ?body = "JObject [(''data'', JObject (sample_echo payload))]"
  have accepted: "parse_connected_response sample_control ?body sample_config sample_identity 1000 = Inr sample_lease"
    by (rule sample_accepted [OF p])
  have "ls_generation (sv_lease sample_supervisor) = bc_generation sample_config"
    by (simp add: sample_supervisor_def lease_new_def sample_config_fields)
  from connected_response_installs_lease [OF accepted this] obtain sv data where
    data: "data_object ?body = Some data"
    "map_of data ''status'' = Some (JString ''active'')" "map_of data ''id'' = Some (JString ''b-1'')"
    "map_of data ''generation'' = Some (JNumber (PosInt 2))"
    "map_of data ''ego_browser_device_id'' = Some (JString ''dev'')"
    "map_of data ''task_space_label'' = Some (JString ''agent-remote:development'')"
    and lease: "update_lease sample_supervisor (snap_generation sample_lease) (snap_lease_until sample_lease)
      (snap_absolute_ttl_until sample_lease) True = (sv, Inr ())"
    by (auto simp: sample_config_fields sample_identity_def)
  have "startup_activation ?body sample_config sample_identity = Inr RenewLease"
    by (simp add: startup_activation_def data any_differs.simps string_differs_def u64_differs_def required_string_def
        required_u64_def filter_opt_def refuse_if_def sample_config_fields sample_identity_def)
  then have "activate sample_control sample_config sample_identity (Inr ?body) (\<lambda>_. Inr ?body) 1000 sample_supervisor
      = (sv, Inr sample_lease)"
    using accepted lease by (simp add: activate_def)
  then have "activation_phase sample_control sample_config sample_identity sample_supervisor (su_event (startup_sample ?body))
      = Started sample_config sample_identity sv sample_lease"
    by (simp add: activation_phase_def startup_sample_def)
  moreover obtain credential binding where
    "wait_for_claim sample_control True (su_polls (startup_sample ?body)) = Claimed credential binding"
    by (simp add: startup_sample_def poll_once_def)
  ultimately show ?thesis
    by (intro exI [of _ ?body] exI [of _ sv])
       (simp add: run_startup_def sample_runtime_ready sample_claim_prepared sample_peer_alive)
qed

end
